(* ===== verification/Prelude.thy ===== *)
theory Prelude
  imports Main "HOL-Library.Word"
begin

text \<open>
  Shared vocabulary of the development: the machine integers and byte strings of the
  Rust code, its \<open>Result\<close> type, the checked and saturating operators of the standard
  library, little-endian encoding, slicing, and 32-byte keys.
\<close>

section \<open>Machine types\<close>

type_synonym u8 = "8 word"
type_synonym u16 = "16 word"
type_synonym u32 = "32 word"
type_synonym u64 = "64 word"
type_synonym u128 = "128 word"
type_synonym i128 = "128 word"
type_synonym bytes = "8 word list"

text \<open>A 32-byte address. The key whose bytes are \<open>b0, b1, ..\<close> is the number with
  these little-endian digits, so keys and 32-byte arrays correspond one to one.\<close>

type_synonym pubkey = "256 word"

named_theorems rust_unat \<open>the value of a Rust integer operator as a natural number\<close>
named_theorems result_inv \<open>when a fallible step of the model succeeds\<close>

section \<open>Results\<close>

abbreviation Ok :: "'a \<Rightarrow> 'e + 'a" where "Ok \<equiv> Inr"
abbreviation Err :: "'e \<Rightarrow> 'e + 'a" where "Err \<equiv> Inl"

text \<open>The \<open>?\<close> operator, an early \<open>return Err\<close> behind a condition, and \<open>ok_or\<close>.\<close>

definition bind_r :: "'e + 'a \<Rightarrow> ('a \<Rightarrow> 'e + 'b) \<Rightarrow> 'e + 'b" where
  "bind_r m f = (case m of Inl e \<Rightarrow> Inl e | Inr x \<Rightarrow> f x)"

definition require :: "bool \<Rightarrow> 'e \<Rightarrow> 'e + unit" where
  "require b e = (if b then Inr () else Inl e)"

definition ok_or :: "'a option \<Rightarrow> 'e \<Rightarrow> 'e + 'a" where
  "ok_or x e = (case x of None \<Rightarrow> Inl e | Some y \<Rightarrow> Inr y)"

fun is_ok :: "'e + 'a \<Rightarrow> bool" where
  "is_ok (Inl e) = False"
| "is_ok (Inr x) = True"

lemma bind_r_simps [simp]:
  "bind_r (Inl e) f = Inl e"
  "bind_r (Inr x) f = f x"
  by (simp_all add: bind_r_def)

lemma require_simps [simp]:
  "require True e = Inr ()"
  "require False e = Inl e"
  by (simp_all add: require_def)

lemma ok_or_simps [simp]:
  "ok_or None e = Inl e"
  "ok_or (Some x) e = Inr x"
  by (simp_all add: ok_or_def)

lemma bind_r_Ok [result_inv]: "bind_r m f = Inr y \<longleftrightarrow> (\<exists>x. m = Inr x \<and> f x = Inr y)"
  by (cases m) simp_all

lemma bind_r_Err: "bind_r m f = Inl e \<longleftrightarrow> m = Inl e \<or> (\<exists>x. m = Inr x \<and> f x = Inl e)"
  by (cases m) simp_all

lemma require_Ok [result_inv]: "require b e = Inr u \<longleftrightarrow> b"
  by (cases b) simp_all

lemma require_Err: "require b e = Inl e' \<longleftrightarrow> \<not> b \<and> e' = e"
  by (cases b) auto

lemma ok_or_Ok [result_inv]: "ok_or x e = Inr y \<longleftrightarrow> x = Some y"
  by (cases x) simp_all

lemma bind_r_cong [fundef_cong]:
  "m = m' \<Longrightarrow> (\<And>x. m' = Inr x \<Longrightarrow> f x = f' x) \<Longrightarrow> bind_r m f = bind_r m' f'"
  by (cases m') simp_all

lemma is_ok_iff: "is_ok r \<longleftrightarrow> (\<exists>x. r = Inr x)"
  by (cases r) simp_all

section \<open>Integer operators\<close>

definition checked_add :: "'a::len word \<Rightarrow> 'a word \<Rightarrow> 'a word option" where
  "checked_add a b = (if unat a + unat b < 2 ^ LENGTH('a) then Some (a + b) else None)"

definition checked_sub :: "'a::len word \<Rightarrow> 'a word \<Rightarrow> 'a word option" where
  "checked_sub a b = (if b \<le> a then Some (a - b) else None)"

definition checked_mul :: "'a::len word \<Rightarrow> 'a word \<Rightarrow> 'a word option" where
  "checked_mul a b = (if unat a * unat b < 2 ^ LENGTH('a) then Some (a * b) else None)"

definition checked_div :: "'a::len word \<Rightarrow> 'a word \<Rightarrow> 'a word option" where
  "checked_div a b = (if b = 0 then None else Some (a div b))"

definition sat_add :: "'a::len word \<Rightarrow> 'a word \<Rightarrow> 'a word" where
  "sat_add a b = (if unat a + unat b < 2 ^ LENGTH('a) then a + b else - 1)"

definition sat_sub :: "'a::len word \<Rightarrow> 'a word \<Rightarrow> 'a word" where
  "sat_sub a b = (if b \<le> a then a - b else 0)"

definition sat_mul :: "'a::len word \<Rightarrow> 'a word \<Rightarrow> 'a word" where
  "sat_mul a b = (if unat a * unat b < 2 ^ LENGTH('a) then a * b else - 1)"

text \<open>\<open>div_ceil\<close> panics on a zero divisor; every caller of the code divides by a
  divisor it has checked to be positive.\<close>

definition div_ceil :: "'a::len word \<Rightarrow> 'a word \<Rightarrow> 'a word" where
  "div_ceil a b = (if a mod b = 0 then a div b else a div b + 1)"

definition widen :: "u64 \<Rightarrow> u128" where
  "widen a = ucast a"

text \<open>\<open>x as u64\<close> truncates, \<open>u64::try_from(x)\<close> fails where truncation would lose bits.\<close>

definition as_u64 :: "u128 \<Rightarrow> u64" where
  "as_u64 a = ucast a"

definition try_u64 :: "u128 \<Rightarrow> u64 option" where
  "try_u64 a = (if unat a < 2 ^ 64 then Some (ucast a) else None)"

definition ceil_div :: "nat \<Rightarrow> nat \<Rightarrow> nat" where
  "ceil_div a b = (if a mod b = 0 then a div b else a div b + 1)"

text \<open>Every operator is read as a natural number; the widths stay visible as the bounds
  \<open>2 ^ 64\<close> and \<open>2 ^ 128\<close>.\<close>

lemma unat_u64 [simp]: "unat (a :: u64) < 18446744073709551616"
  using unsigned_less [of a, where ?'a = nat] by simp

lemma unat_u64_le: "unat (a :: u64) \<le> 18446744073709551615"
  using unat_u64 [of a] by linarith

lemma unat_u128 [simp]: "unat (a :: u128) < 340282366920938463463374607431768211456"
  using unsigned_less [of a, where ?'a = nat] by simp

lemma unat_u16 [simp]: "unat (a :: u16) < 65536"
  using unsigned_less [of a, where ?'a = nat] by simp

lemma unat_u16_le: "unat (a :: u16) \<le> 65535"
  using unat_u16 [of a] by linarith

lemma unat_u8 [simp]: "unat (a :: u8) < 256"
  using unsigned_less [of a, where ?'a = nat] by simp

lemma unat_add_exact [rust_unat]:
  "unat a + unat b < 2 ^ LENGTH('a) \<Longrightarrow> unat (a + b) = unat a + unat (b :: 'a::len word)"
  by (simp add: unat_word_ariths)

lemma unat_mul_exact [rust_unat]:
  "unat a * unat b < 2 ^ LENGTH('a) \<Longrightarrow> unat (a * b) = unat a * unat (b :: 'a::len word)"
  by (simp add: unat_word_ariths)

lemma unat_sub_exact [rust_unat]:
  "unat b \<le> unat a \<Longrightarrow> unat (a - b) = unat a - unat (b :: 'a::len word)"
  by (simp add: unat_sub word_le_nat_alt)

lemma unat_max [simp]: "unat (- 1 :: 'a::len word) = 2 ^ LENGTH('a) - 1"
  by (simp add: unsigned_minus_1_eq_mask mask_eq_exp_minus_1)

lemmas [rust_unat] = unat_div unat_mod word_le_nat_alt word_less_nat_alt

lemma word_eq_unat: "a = b \<longleftrightarrow> unat a = unat (b :: 'a::len word)"
  by (rule word_unat_eq_iff)

lemma unat_widen [rust_unat, simp]: "unat (widen a) = unat a"
  by (simp add: widen_def unsigned_ucast_eq take_bit_nat_eq_self order_less_le_trans [OF unat_u64])

lemma widen_eq_iff [simp]: "widen a = widen b \<longleftrightarrow> a = b"
  by (metis unat_widen word_eq_unat)

lemma checked_add_Some [rust_unat]:
  "checked_add a b = Some c \<longleftrightarrow>
     unat a + unat b < 2 ^ LENGTH('a) \<and> unat c = unat a + unat (b :: 'a::len word)"
  by (auto simp: checked_add_def word_eq_unat rust_unat)

lemma checked_sub_Some [rust_unat]:
  "checked_sub a b = Some c \<longleftrightarrow> unat b \<le> unat a \<and> unat c = unat a - unat (b :: 'a::len word)"
  by (auto simp: checked_sub_def word_eq_unat rust_unat)

lemma checked_mul_Some [rust_unat]:
  "checked_mul a b = Some c \<longleftrightarrow>
     unat a * unat b < 2 ^ LENGTH('a) \<and> unat c = unat a * unat (b :: 'a::len word)"
  by (auto simp: checked_mul_def word_eq_unat rust_unat)

lemma checked_div_Some [rust_unat]:
  "checked_div a b = Some c \<longleftrightarrow> unat b \<noteq> 0 \<and> unat c = unat a div unat (b :: 'a::len word)"
  by (auto simp: checked_div_def word_eq_unat rust_unat)

lemma unat_sat_add [rust_unat]:
  "unat (sat_add a b) = min (unat a + unat b) (2 ^ LENGTH('a) - 1)" for a b :: "'a::len word"
  by (auto simp: sat_add_def unat_add_exact min_def)

lemma unat_sat_sub [rust_unat]:
  "unat (sat_sub a b) = unat a - unat (b :: 'a::len word)"
  by (simp add: sat_sub_def rust_unat)

lemma unat_sat_mul [rust_unat]:
  "unat (sat_mul a b) = min (unat a * unat b) (2 ^ LENGTH('a) - 1)" for a b :: "'a::len word"
proof -
  have "0 < (2::nat) ^ LENGTH('a)" by simp
  then show ?thesis unfolding sat_mul_def unat_max
    by (cases "unat a * unat b < 2 ^ LENGTH('a)") (simp_all only: unat_mul_exact if_True if_False unat_max; linarith)+
qed

lemma unat_as_u64: "unat (as_u64 a) = unat a mod 2 ^ 64"
  by (simp add: as_u64_def unsigned_ucast_eq take_bit_eq_mod)

lemma unat_as_u64_exact [rust_unat]: "unat a < 2 ^ 64 \<Longrightarrow> unat (as_u64 a) = unat a"
  by (simp add: unat_as_u64)

lemma try_u64_Some [rust_unat]: "try_u64 a = Some c \<longleftrightarrow> unat c = unat a"
proof (cases "unat a < 2 ^ 64")
  case True
  then have "unat (ucast a :: u64) = unat a"
    by (simp add: unsigned_ucast_eq take_bit_eq_mod)
  with True show ?thesis by (auto simp: try_u64_def word_eq_unat)
next
  case False
  moreover have "unat c < 2 ^ 64" using unat_u64 [of c] by simp
  ultimately have "unat c \<noteq> unat a" by metis
  with False show ?thesis by (simp add: try_u64_def)
qed

section \<open>Rounded division\<close>

lemma ceil_div_0 [simp]: "ceil_div 0 b = 0"
  by (simp add: ceil_div_def)

lemma ceil_div_le_iff: "0 < b \<Longrightarrow> ceil_div a b \<le> c \<longleftrightarrow> a \<le> c * b"
proof -
  assume b: "0 < b"
  show ?thesis
  proof (cases "a mod b = 0")
    case True
    then have "a = a div b * b" using div_mult_mod_eq [of a b] by simp
    with b True show ?thesis by (metis ceil_div_def mult_le_cancel2)
  next
    case False
    have "a div b < c \<longleftrightarrow> a < c * b" using b by (simp add: div_less_iff_less_mult)
    also have "\<dots> \<longleftrightarrow> a \<le> c * b" using False by (auto simp: le_less)
    finally show ?thesis using False by (auto simp: ceil_div_def)
  qed
qed

lemma less_ceil_div_iff: "0 < b \<Longrightarrow> c < ceil_div a b \<longleftrightarrow> c * b < a"
  using ceil_div_le_iff [of b a c] by linarith

lemma le_mult_ceil_div: "0 < b \<Longrightarrow> a \<le> ceil_div a b * b"
  using ceil_div_le_iff [of b a "ceil_div a b"] by simp

lemma ceil_div_mono: "0 < b \<Longrightarrow> a \<le> a' \<Longrightarrow> ceil_div a b \<le> ceil_div a' b"
  using le_mult_ceil_div [of b a'] by (simp add: ceil_div_le_iff)

lemma unat_div_ceil [rust_unat]:
  "unat (div_ceil a b) = ceil_div (unat a) (unat (b :: 'a::len word))"
proof (cases "a mod b = 0")
  case True
  then have "unat a mod unat b = 0" by (metis unat_0 unat_mod)
  with True show ?thesis by (simp add: div_ceil_def ceil_div_def unat_div)
next
  case False
  then have m: "unat a mod unat b \<noteq> 0" by (metis unat_eq_zero unat_mod)
  then have "unat a div unat b < unat a" if "unat b \<noteq> 0"
    using that by (intro div_less_dividend) (auto intro!: Suc_lessI gr0I simp: eq_commute [of "Suc 0"])
  then have "unat (a div b) + unat (1 :: 'a word) < 2 ^ LENGTH('a)" if "unat b \<noteq> 0"
    using that order_le_less_trans [OF Suc_leI unsigned_less [of a, where ?'a = nat]]
    by (simp add: unat_div)
  then have "unat (a div b + 1) = unat a div unat b + 1" if "unat b \<noteq> 0"
    using that by (simp add: unat_add_exact unat_div)
  moreover have "unat (a div b + 1) = unat a div unat b + 1" if "unat b = 0"
    using that by (simp add: unat_eq_zero)
  ultimately show ?thesis using m False
    by (cases "unat b = 0") (simp_all add: div_ceil_def ceil_div_def)
qed

end
