(* ===== verification/Bytes.thy ===== *)
theory Bytes
  imports Prelude
begin

text \<open>
  Byte strings: slices (\<open>data[a..b]\<close> and \<open>data.get(a..b)\<close>), little-endian integers
  (\<open>to_le_bytes\<close>, \<open>from_le_bytes\<close>), 32-byte keys and the base-58 notation of
  \<open>pubkey!\<close>. The locale \<open>codec\<close> is the interface between the SDK's encoder and the
  program's parser: a fixed-width field is read back from any data that holds it.
\<close>

section \<open>Slices\<close>

definition slice :: "nat \<Rightarrow> nat \<Rightarrow> 'a list \<Rightarrow> 'a list" where
  "slice a b xs = take (b - a) (drop a xs)"

text \<open>\<open>data.get(a..b)\<close>: \<open>None\<close> where the range is not inside the data.\<close>

definition get_range :: "'a list \<Rightarrow> nat \<Rightarrow> nat \<Rightarrow> 'a list option" where
  "get_range xs a b = (if a \<le> b \<and> b \<le> length xs then Some (slice a b xs) else None)"

definition get_at :: "'a list \<Rightarrow> nat \<Rightarrow> 'a option" where
  "get_at xs i = (if i < length xs then Some (xs ! i) else None)"

text \<open>\<open>buf[a..a + src.len()].copy_from_slice(src)\<close>\<close>

definition copy_into :: "nat \<Rightarrow> 'a list \<Rightarrow> 'a list \<Rightarrow> 'a list" where
  "copy_into a src xs = take a xs @ src @ drop (a + length src) xs"

lemma length_slice [simp]: "length (slice a b xs) = min (b - a) (length xs - a)"
  by (simp add: slice_def min.commute)

lemma slice_append_left: "b \<le> length xs \<Longrightarrow> slice a b (xs @ ys) = slice a b xs"
  by (cases "a \<le> b") (simp_all add: slice_def)

lemma slice_append_right:
  "length xs \<le> a \<Longrightarrow> slice a b (xs @ ys) = slice (a - length xs) (b - length xs) ys"
  by (simp add: slice_def)

lemma slice_prefix: "slice 0 (length xs) (xs @ ys) = xs"
  by (simp add: slice_def)

lemma slice_mid: "a = length xs \<Longrightarrow> b = length xs + length ys \<Longrightarrow> slice a b (xs @ ys @ zs) = ys"
  by (simp add: slice_def)

lemma get_range_mid:
  "a = length xs \<Longrightarrow> b = length xs + length ys \<Longrightarrow> get_range (xs @ ys @ zs) a b = Some ys"
  by (simp add: get_range_def slice_def)

lemma get_range_Some:
  "get_range xs a b = Some ys \<longleftrightarrow> a \<le> b \<and> b \<le> length xs \<and> ys = slice a b xs"
  by (auto simp: get_range_def)

lemma get_at_mid: "i = length xs \<Longrightarrow> get_at (xs @ y # ys) i = Some y"
  by (simp add: get_at_def)

lemma length_copy_into: "a + length src \<le> length xs \<Longrightarrow> length (copy_into a src xs) = length xs"
  by (simp add: copy_into_def)

lemma slice_copy_into:
  "a + length src \<le> length xs \<Longrightarrow> slice a (a + length src) (copy_into a src xs) = src"
  by (simp add: slice_def copy_into_def)

lemma nth_copy_into:
  "a + length src \<le> length xs \<Longrightarrow> i < length xs \<Longrightarrow>
   copy_into a src xs ! i = (if a \<le> i \<and> i < a + length src then src ! (i - a) else xs ! i)"
  by (auto simp: copy_into_def nth_append)

section \<open>Little-endian integers\<close>

fun to_le :: "nat \<Rightarrow> nat \<Rightarrow> bytes" where
  "to_le 0 n = []"
| "to_le (Suc k) n = of_nat (n mod 256) # to_le k (n div 256)"

fun of_le :: "bytes \<Rightarrow> nat" where
  "of_le [] = 0"
| "of_le (b # bs) = unat b + 256 * of_le bs"

lemma to_le_numeral:
  "to_le (numeral k) n = of_nat (n mod 256) # to_le (pred_numeral k) (n div 256)"
  by (metis numeral_eq_Suc to_le.simps(2))

lemma length_to_le [simp]: "length (to_le k n) = k"
  by (induction k arbitrary: n) simp_all

lemma of_le_to_le: "of_le (to_le k n) = n mod 256 ^ k"
proof (induction k arbitrary: n)
  case 0
  then show ?case by simp
next
  case (Suc k)
  have "unat (of_nat (n mod 256) :: u8) = n mod 256"
    by (simp add: unsigned_of_nat take_bit_eq_mod)
  with Suc show ?case by (simp add: mod_mult2_eq)
qed

lemma of_le_bound: "of_le bs < 256 ^ length bs"
proof (induction bs)
  case Nil
  then show ?case by simp
next
  case (Cons b bs)
  have "unat b < 256" by simp
  with Cons show ?case by (simp del: unat_u8)
qed

lemma to_le_of_le: "to_le (length bs) (of_le bs) = bs"
proof (induction bs)
  case Nil
  then show ?case by simp
next
  case (Cons b bs)
  have "unat b < 256" by simp
  with Cons show ?case by (simp add: div_add1_eq del: unat_u8)
qed

definition u64_bytes :: "u64 \<Rightarrow> bytes" where "u64_bytes x = to_le 8 (unat x)"
definition u16_bytes :: "u16 \<Rightarrow> bytes" where "u16_bytes x = to_le 2 (unat x)"
definition u128_bytes :: "u128 \<Rightarrow> bytes" where "u128_bytes x = to_le 16 (unat x)"
definition key_bytes :: "pubkey \<Rightarrow> bytes" where "key_bytes k = to_le 32 (unat k)"

definition u64_of :: "bytes \<Rightarrow> u64" where "u64_of bs = of_nat (of_le bs)"
definition u16_of :: "bytes \<Rightarrow> u16" where "u16_of bs = of_nat (of_le bs)"
definition u128_of :: "bytes \<Rightarrow> u128" where "u128_of bs = of_nat (of_le bs)"
definition key_of :: "bytes \<Rightarrow> pubkey" where "key_of bs = of_nat (of_le bs)"

lemma length_field_bytes [simp]:
  "length (u64_bytes x) = 8" "length (u16_bytes y) = 2"
  "length (u128_bytes z) = 16" "length (key_bytes k) = 32"
  by (simp_all add: u64_bytes_def u16_bytes_def u128_bytes_def key_bytes_def)

lemma of_nat_mod_self:
  "256 ^ n = (2::nat) ^ LENGTH('a) \<Longrightarrow> (of_nat (unat x mod 256 ^ n) :: 'a::len word) = x"
  using unsigned_less [of x, where ?'a = nat] by simp

lemma field_of_bytes [simp]:
  "u64_of (u64_bytes x) = x" "u16_of (u16_bytes y) = y"
  "u128_of (u128_bytes z) = z" "key_of (key_bytes k) = k"
  using of_nat_mod_self [of 8 x] of_nat_mod_self [of 2 y]
    of_nat_mod_self [of 16 z] of_nat_mod_self [of 32 k]
  by (simp_all add: u64_bytes_def u16_bytes_def u128_bytes_def key_bytes_def
      u64_of_def u16_of_def u128_of_def key_of_def of_le_to_le)

lemma bytes_of_field:
  "length bs = 8 \<Longrightarrow> u64_bytes (u64_of bs) = bs"
  "length bs = 2 \<Longrightarrow> u16_bytes (u16_of bs) = bs"
  "length bs = 32 \<Longrightarrow> key_bytes (key_of bs) = bs"
  using of_le_bound [of bs] to_le_of_le [of bs]
  by (simp_all add: u64_bytes_def u16_bytes_def key_bytes_def u64_of_def u16_of_def key_of_def
      unsigned_of_nat take_bit_eq_mod)

section \<open>The field codec\<close>

locale codec =
  fixes enc :: "'v \<Rightarrow> bytes" and dec :: "bytes \<Rightarrow> 'v" and width :: nat
  assumes dec_enc: "dec (enc v) = v"
    and enc_width: "length (enc v) = width"
begin

lemma read_back: "dec (slice (length pre) (length pre + width) (pre @ enc v @ post)) = v"
  using enc_width [of v] by (simp add: slice_mid dec_enc)

lemma get_back:
  "a = length pre \<Longrightarrow> get_range (pre @ enc v @ post) a (a + width) = Some (enc v)"
  using enc_width [of v] by (simp add: get_range_mid)

lemma copy_back:
  "a + width \<le> length xs \<Longrightarrow> dec (slice a (a + width) (copy_into a (enc v) xs)) = v"
  using slice_copy_into [of a "enc v" xs] by (simp add: enc_width dec_enc)

lemma enc_inject: "enc v = enc w \<longleftrightarrow> v = w"
  by (metis dec_enc)

end

interpretation u64c: codec u64_bytes u64_of 8 by unfold_locales simp_all
interpretation u16c: codec u16_bytes u16_of 2 by unfold_locales simp_all
interpretation keyc: codec key_bytes key_of 32 by unfold_locales simp_all

section \<open>Base-58 keys\<close>

text \<open>The digits are \<open>1-9\<close>, \<open>A-Z\<close> without \<open>I\<close> and \<open>O\<close>, and \<open>a-z\<close> without
  \<open>l\<close>, in the order of their character codes; the text is the big-endian base-58 number
  of the key's bytes.\<close>

definition b58_digit :: "char \<Rightarrow> nat" where
  "b58_digit c = (let k = of_char c in
     if k < 58 then k - 49 else if k < 73 then k - 56 else if k < 79 then k - 57
     else if k < 91 then k - 58 else if k < 108 then k - 64 else k - 65)"

definition b58_number :: "string \<Rightarrow> nat" where
  "b58_number s = foldl (\<lambda>n c. 58 * n + b58_digit c) 0 s"

definition pubkey58 :: "string \<Rightarrow> pubkey" where
  "pubkey58 s = key_of (rev (to_le 32 (b58_number s)))"

end
