(* ===== verification/Router_State.thy ===== *)
theory Router_State
  imports Bytes
begin

text \<open>
  The state of the on-chain program (\<open>error.rs\<close>, \<open>state.rs\<close>): its errors, the accounts it
  reads and writes, the byte layout of the configuration account, and the runtime it
  calls. Other programs, PDA derivation and the rent sysvar are not part of the
  repository; they are the fields of \<open>runtime\<close>, a parameter of every handler.
\<close>

section \<open>Errors\<close>

datatype router_error =
    InvalidInstructionData | UnknownInstruction | Unauthorized | AlreadyInitialized
  | NotInitialized | InvalidConfig | Paused | InvalidFeeBps | InvalidFeeAsset
  | SlippageExceeded | TooManyLegs | InvalidLeg | InsufficientAccounts
  | ArithmeticOverflow | InvalidProgramId | FeeSourceMismatch | InvalidOutputAccount
  | InvalidOutputMint | InvalidIntermediateAccount | InvalidDynamicLeg | IntermediateNotSpent

fun error_code :: "router_error \<Rightarrow> nat" where
  "error_code InvalidInstructionData = 1"
| "error_code UnknownInstruction = 2"
| "error_code Unauthorized = 3"
| "error_code AlreadyInitialized = 4"
| "error_code NotInitialized = 5"
| "error_code InvalidConfig = 6"
| "error_code Paused = 7"
| "error_code InvalidFeeBps = 8"
| "error_code InvalidFeeAsset = 9"
| "error_code SlippageExceeded = 10"
| "error_code TooManyLegs = 11"
| "error_code InvalidLeg = 12"
| "error_code InsufficientAccounts = 13"
| "error_code ArithmeticOverflow = 14"
| "error_code InvalidProgramId = 15"
| "error_code FeeSourceMismatch = 16"
| "error_code InvalidOutputAccount = 17"
| "error_code InvalidOutputMint = 18"
| "error_code InvalidIntermediateAccount = 21"
| "error_code InvalidDynamicLeg = 19"
| "error_code IntermediateNotSpent = 20"

text \<open>\<open>External\<close> stands for the errors other programs and the runtime return.\<close>

datatype program_error =
    Custom nat | MissingRequiredSignature | InvalidAccountData | External nat

definition router :: "router_error \<Rightarrow> program_error" where
  "router e = Custom (error_code e)"

lemma error_code_inject [simp]: "error_code a = error_code b \<longleftrightarrow> a = b"
  by (cases a; cases b) simp_all

lemma router_inject [simp]:
  "router a = router b \<longleftrightarrow> a = b"
  "router a \<noteq> MissingRequiredSignature" "router a \<noteq> InvalidAccountData" "router a \<noteq> External n"
  by (simp_all add: router_def)

section \<open>Accounts\<close>

text \<open>An \<open>AccountView\<close> is an address with the flags of the instruction; the account it
  shows lives in the ledger, so that two views of one address alias.\<close>

record account_view =
  address :: pubkey
  is_signer :: bool
  is_writable :: bool

record account_state =
  lamports :: u64
  owner :: pubkey
  acc_data :: bytes

type_synonym ledger = "pubkey \<Rightarrow> account_state"

definition SYSTEM_PROGRAM_ID :: pubkey where
  "SYSTEM_PROGRAM_ID = 0"

definition TOKEN_PROGRAM_ID :: pubkey where
  "TOKEN_PROGRAM_ID = key_of
    [6, 221, 246, 225, 215, 101, 161, 147, 217, 203, 225, 70, 206, 235, 121, 172, 28, 180, 133, 237,
     95, 91, 55, 145, 58, 140, 245, 133, 126, 255, 0, 169]"

definition TOKEN_2022_PROGRAM_ID :: pubkey where
  "TOKEN_2022_PROGRAM_ID = key_of
    [6, 221, 246, 225, 238, 117, 143, 222, 24, 66, 93, 188, 228, 108, 205, 218, 182, 26, 252, 77,
     131, 185, 13, 39, 254, 189, 249, 40, 216, 161, 139, 252]"

definition is_token_program :: "pubkey \<Rightarrow> bool" where
  "is_token_program p = (p = TOKEN_PROGRAM_ID \<or> p = TOKEN_2022_PROGRAM_ID)"

text \<open>SPL Token accounts: mint at offset 0, owner at 32, amount at 64.\<close>

definition token_mint :: "account_state \<Rightarrow> program_error + pubkey" where
  "token_mint a = (if length (acc_data a) < 32 then Err InvalidAccountData
                   else Ok (key_of (slice 0 32 (acc_data a))))"

definition token_owner :: "account_state \<Rightarrow> program_error + pubkey" where
  "token_owner a = (if length (acc_data a) < 64 then Err InvalidAccountData
                    else Ok (key_of (slice 32 64 (acc_data a))))"

definition token_amount :: "account_state \<Rightarrow> program_error + u64" where
  "token_amount a = (if length (acc_data a) < 72 then Err InvalidAccountData
                     else Ok (u64_of (slice 64 72 (acc_data a))))"

section \<open>The configuration account\<close>

definition CONFIG_SEED :: bytes where
  "CONFIG_SEED = [99, 111, 110, 102, 105, 103]"  \<comment> \<open>\<open>b"config"\<close>\<close>

definition MAX_FEE_BPS :: u16 where
  "MAX_FEE_BPS = 1000"

definition CONFIG_DISCRIMINATOR :: bytes where
  "CONFIG_DISCRIMINATOR = [82, 79, 85, 84, 67, 70, 71, 49]"  \<comment> \<open>\<open>b"ROUTCFG1"\<close>\<close>

record router_config =
  discriminator :: bytes
  authority :: pubkey
  fee_recipient :: pubkey
  fee_bps :: u16
  bump :: u8
  paused :: u8
  padding :: bytes

text \<open>\<open>size_of::<RouterConfig>()\<close>: the fields of the \<open>repr(C)\<close> struct are all
  aligned where they stand, 8 + 32 + 32 + 2 + 1 + 1 + 4.\<close>

definition CONFIG_LEN :: nat where
  "CONFIG_LEN = 80"

definition decode_config :: "bytes \<Rightarrow> router_config" where
  "decode_config d = \<lparr>discriminator = slice 0 8 d, authority = key_of (slice 8 40 d),
     fee_recipient = key_of (slice 40 72 d), fee_bps = u16_of (slice 72 74 d),
     bump = d ! 74, paused = d ! 75, padding = slice 76 80 d\<rparr>"

definition encode_config :: "router_config \<Rightarrow> bytes" where
  "encode_config c = discriminator c @ key_bytes (authority c) @ key_bytes (fee_recipient c) @
     u16_bytes (fee_bps c) @ [bump c, paused c] @ padding c"

definition is_initialized :: "router_config \<Rightarrow> bool" where
  "is_initialized c = (discriminator c = CONFIG_DISCRIMINATOR)"

definition config_read :: "account_state \<Rightarrow> program_error + router_config" where
  "config_read a =
     (if length (acc_data a) < CONFIG_LEN then Err (router InvalidConfig)
      else let cfg = decode_config (acc_data a) in
        if \<not> is_initialized cfg then Err (router NotInitialized) else Ok cfg)"

text \<open>\<open>ptr::write\<close> through the account's buffer: the first 80 bytes are replaced.\<close>

definition store_config :: "router_config \<Rightarrow> account_state \<Rightarrow> account_state" where
  "store_config c a = a\<lparr>acc_data := encode_config c @ drop CONFIG_LEN (acc_data a)\<rparr>"

definition config_write_new ::
  "account_state \<Rightarrow> pubkey \<Rightarrow> pubkey \<Rightarrow> u16 \<Rightarrow> u8 \<Rightarrow> program_error + account_state" where
  "config_write_new a auth recipient bps bmp =
     (if bps > MAX_FEE_BPS then Err (router InvalidFeeBps)
      else if length (acc_data a) < CONFIG_LEN then Err (router InvalidConfig)
      else if is_initialized (decode_config (acc_data a)) then Err (router AlreadyInitialized)
      else Ok (store_config \<lparr>discriminator = CONFIG_DISCRIMINATOR, authority = auth,
        fee_recipient = recipient, fee_bps = bps, bump = bmp, paused = 0,
        padding = [0, 0, 0, 0]\<rparr> a))"

definition config_update ::
  "account_state \<Rightarrow> pubkey option \<Rightarrow> u16 option \<Rightarrow> bool option \<Rightarrow> program_error + account_state" where
  "config_update a recipient bps pause =
     (if (case bps of Some b \<Rightarrow> b > MAX_FEE_BPS | None \<Rightarrow> False) then Err (router InvalidFeeBps)
      else if length (acc_data a) < CONFIG_LEN then Err (router InvalidConfig)
      else let cfg = decode_config (acc_data a) in
        if \<not> is_initialized cfg then Err (router NotInitialized)
        else
          let c1 = (case recipient of Some r \<Rightarrow> cfg\<lparr>fee_recipient := r\<rparr> | None \<Rightarrow> cfg);
              c2 = (case bps of Some b \<Rightarrow> c1\<lparr>fee_bps := b\<rparr> | None \<Rightarrow> c1);
              c3 = (case pause of Some p \<Rightarrow> c2\<lparr>paused := (if p then 1 else 0)\<rparr> | None \<Rightarrow> c2)
          in Ok (store_config c3 a))"

section \<open>The runtime\<close>

text \<open>The cross-program invocations the program makes, with the fields it passes.\<close>

datatype cpi_call =
    SystemTransfer pubkey pubkey u64
  | CreateAccount pubkey nat pubkey pubkey "bytes list"
  | TokenTransfer pubkey pubkey pubkey u64 pubkey
  | Invoke pubkey "account_view list" bytes

record runtime =
  find_program_address :: "bytes list \<Rightarrow> pubkey \<Rightarrow> pubkey \<times> u8"
  create_program_address :: "bytes list \<Rightarrow> pubkey \<Rightarrow> pubkey option"
  minimum_balance :: "nat \<Rightarrow> program_error + u64"
  cpi :: "cpi_call \<Rightarrow> ledger \<Rightarrow> program_error + ledger"

text \<open>The chain while an instruction runs: the ledger and the calls made so far.\<close>

record chain =
  ledger :: ledger
  trace :: "cpi_call list"

definition invoke :: "runtime \<Rightarrow> cpi_call \<Rightarrow> chain \<Rightarrow> program_error + chain" where
  "invoke R c s = bind_r (cpi R c (ledger s))
     (\<lambda>L. Ok \<lparr>ledger = L, trace = trace s @ [c]\<rparr>)"

definition config_pda :: "runtime \<Rightarrow> pubkey \<Rightarrow> pubkey \<times> u8" where
  "config_pda R program_id = find_program_address R [CONFIG_SEED] program_id"

section \<open>Facts about the configuration account\<close>

text \<open>The struct's fixed-size arrays.\<close>

definition wf_config :: "router_config \<Rightarrow> bool" where
  "wf_config c = (length (discriminator c) = 8 \<and> length (padding c) = 4)"

lemma length_encode_config: "wf_config c \<Longrightarrow> length (encode_config c) = CONFIG_LEN"
  by (simp add: encode_config_def wf_config_def CONFIG_LEN_def)

lemma wf_decode_config: "CONFIG_LEN \<le> length d \<Longrightarrow> wf_config (decode_config d)"
  by (simp add: decode_config_def wf_config_def CONFIG_LEN_def)

lemma decode_encode_config: "wf_config c \<Longrightarrow> decode_config (encode_config c @ rest) = c"
  by (simp add: decode_config_def encode_config_def wf_config_def slice_def nth_append)

lemma length_acc_data_store:
  "wf_config c \<Longrightarrow> CONFIG_LEN \<le> length (acc_data a) \<Longrightarrow>
   length (acc_data (store_config c a)) = length (acc_data a)"
  by (simp add: store_config_def length_encode_config)

lemma config_read_store:
  assumes "wf_config c" "is_initialized c"
  shows "config_read (store_config c a) = Ok c"
  using assms by (simp add: config_read_def store_config_def length_encode_config
      decode_encode_config)

lemma config_read_Ok:
  "config_read a = Ok c \<longleftrightarrow>
   CONFIG_LEN \<le> length (acc_data a) \<and> c = decode_config (acc_data a) \<and> is_initialized c"
  by (auto simp: config_read_def Let_def)

lemma wf_config_upd [simp]:
  "wf_config (c\<lparr>fee_recipient := r\<rparr>) = wf_config c" "wf_config (c\<lparr>fee_bps := b\<rparr>) = wf_config c"
  "wf_config (c\<lparr>paused := p\<rparr>) = wf_config c"
  "is_initialized (c\<lparr>fee_recipient := r\<rparr>) = is_initialized c"
  "is_initialized (c\<lparr>fee_bps := b\<rparr>) = is_initialized c"
  "is_initialized (c\<lparr>paused := p\<rparr>) = is_initialized c"
  by (simp_all add: wf_config_def is_initialized_def)

end
