(* ===== verification/Router_Admin.thy ===== *)
theory Router_Admin
  imports Router_State
begin

text \<open>
  The configuration handlers of the program: \<open>initialize.rs\<close>, \<open>update_config.rs\<close> and
  \<open>prepare_pumpfun.rs\<close>. Each handler takes the runtime, the program id, the accounts of
  the instruction, its data (the tag already stripped) and the chain.
\<close>

section \<open>Initialize\<close>

definition set_account :: "pubkey \<Rightarrow> account_state \<Rightarrow> chain \<Rightarrow> chain" where
  "set_account k a s = s\<lparr>ledger := (ledger s)(k := a)\<rparr>"

definition initialize_create ::
  "runtime \<Rightarrow> pubkey \<Rightarrow> pubkey \<Rightarrow> pubkey \<Rightarrow> pubkey \<Rightarrow> u16 \<Rightarrow> u8 \<Rightarrow> chain \<Rightarrow> program_error + chain" where
  "initialize_create R program_id payer config recipient bps bmp s =
     bind_r (invoke R (CreateAccount config CONFIG_LEN program_id payer [CONFIG_SEED, [bmp]]) s) (\<lambda>s'.
     bind_r (config_write_new (ledger s' config) payer recipient bps bmp) (\<lambda>a.
     Ok (set_account config a s')))"

fun initialize ::
  "runtime \<Rightarrow> pubkey \<Rightarrow> account_view list \<Rightarrow> bytes \<Rightarrow> chain \<Rightarrow> program_error + chain" where
  "initialize R program_id accounts d s =
     (if length d < 3 then Err (router InvalidInstructionData)
      else let bps = u16_of (slice 0 2 d); bmp = d ! 2 in
        if bps > MAX_FEE_BPS then Err (router InvalidFeeBps)
        else (case accounts of
          payer # config # recipient # _ \<Rightarrow>
            if \<not> is_signer payer then Err MissingRequiredSignature
            else let (expected, expected_bump) = config_pda R program_id in
              if bmp \<noteq> expected_bump \<or> address config \<noteq> expected then Err (router InvalidConfig)
              else if CONFIG_LEN \<le> length (acc_data (ledger s (address config)))
                \<and> is_ok (config_read (ledger s (address config)))
              then Err (router AlreadyInitialized)
              else initialize_create R program_id (address payer) (address config)
                     (address recipient) bps bmp s
        | _ \<Rightarrow> Err (router InsufficientAccounts)))"

declare initialize.simps [simp del]

section \<open>Update\<close>

fun update_config ::
  "runtime \<Rightarrow> pubkey \<Rightarrow> account_view list \<Rightarrow> bytes \<Rightarrow> chain \<Rightarrow> program_error + chain" where
  "update_config R program_id accounts d s =
     (if length d < 4 then Err (router InvalidInstructionData)
      else let bps = u16_of (slice 0 2 d); pause = d ! 2; update_recipient = d ! 3 in
        if bps > MAX_FEE_BPS then Err (router InvalidFeeBps)
        else if pause > 1 then Err (router InvalidInstructionData)
        else (case accounts of
          auth # config # rest \<Rightarrow>
            if \<not> is_signer auth then Err MissingRequiredSignature
            else if address config \<noteq> fst (config_pda R program_id)
              \<or> owner (ledger s (address config)) \<noteq> program_id
            then Err (router InvalidConfig)
            else bind_r (config_read (ledger s (address config))) (\<lambda>cfg.
              if address auth \<noteq> authority cfg then Err (router Unauthorized)
              else bind_r
                (if update_recipient = 1
                 then (case rest of r # _ \<Rightarrow> Ok (Some (address r))
                                  | [] \<Rightarrow> Err (router InsufficientAccounts))
                 else Ok None) (\<lambda>recipient.
              bind_r (config_update (ledger s (address config)) recipient (Some bps) (Some (pause = 1)))
                (\<lambda>a. Ok (set_account (address config) a s))))
        | _ \<Rightarrow> Err (router InsufficientAccounts)))"

declare update_config.simps [simp del]

section \<open>Pump creator vault rent\<close>

definition PUMP :: pubkey where
  "PUMP = pubkey58 ''6EF8rrecthR5Dkzon8Nwu78hRvfCKubJ14M5uBEwF6P''"

definition CREATOR_VAULT_SEED :: bytes where
  "CREATOR_VAULT_SEED = [99, 114, 101, 97, 116, 111, 114, 45, 118, 97, 117, 108, 116]"
    \<comment> \<open>\<open>b"creator-vault"\<close>\<close>

definition CURVE_DISCRIMINATOR :: bytes where
  "CURVE_DISCRIMINATOR = [23, 183, 248, 55, 96, 216, 172, 96]"

definition top_up_vault :: "runtime \<Rightarrow> pubkey \<Rightarrow> pubkey \<Rightarrow> chain \<Rightarrow> program_error + chain" where
  "top_up_vault R payer vault s =
     bind_r (minimum_balance R 0) (\<lambda>floor.
       let needed = sat_sub floor (lamports (ledger s vault)) in
       if needed > 0 then invoke R (SystemTransfer payer vault needed) s else Ok s)"

fun prepare_pumpfun ::
  "runtime \<Rightarrow> pubkey \<Rightarrow> account_view list \<Rightarrow> bytes \<Rightarrow> chain \<Rightarrow> program_error + chain" where
  "prepare_pumpfun R program_id accounts d s =
     (if d \<noteq> [] then Err (router InvalidInstructionData)
      else case accounts of
        [payer, curve, vault, system] \<Rightarrow>
          (if \<not> is_signer payer then Err MissingRequiredSignature
           else if \<not> is_writable payer \<or> \<not> is_writable vault then Err InvalidAccountData
           else if address system \<noteq> SYSTEM_PROGRAM_ID \<or> owner (ledger s (address curve)) \<noteq> PUMP
           then Err (router InvalidProgramId)
           else let curve_data = acc_data (ledger s (address curve)) in
             if length curve_data < 81 \<or> slice 0 8 curve_data \<noteq> CURVE_DISCRIMINATOR
             then Err InvalidAccountData
             else let expected = fst (find_program_address R
                    [CREATOR_VAULT_SEED, slice 49 81 curve_data] PUMP) in
               if address vault \<noteq> expected \<or> owner (ledger s (address vault)) \<noteq> SYSTEM_PROGRAM_ID
                 \<or> acc_data (ledger s (address vault)) \<noteq> []
               then Err InvalidAccountData
               else top_up_vault R (address payer) (address vault) s)
      | _ \<Rightarrow> Err (router InsufficientAccounts))"

declare prepare_pumpfun.simps [simp del]

end
