(* ===== verification/Route_Layout.thy ===== *)
theory Route_Layout
  imports Router_State
begin

text \<open>
  The pure helpers of \<open>route.rs\<close>: the exact-input layouts of the DEX instructions a
  dynamic leg may use, the account checks against such a layout, amount patching, the
  integer readers, the platform fee and the balance checks.
\<close>

section \<open>Constants\<close>

definition MAX_LEGS :: nat where "MAX_LEGS = 4"
definition MAX_LEG_ACCOUNTS :: nat where "MAX_LEG_ACCOUNTS = 64"
definition ROUTE_HEADER_LEN :: nat where "ROUTE_HEADER_LEN = 50"
definition MAX_DYNAMIC_LEG_DATA :: nat where "MAX_DYNAMIC_LEG_DATA = 49"

definition LAUNCHLAB_PROGRAM_ID :: pubkey where
  "LAUNCHLAB_PROGRAM_ID = key_of
    [5, 4, 59, 149, 77, 202, 38, 225, 239, 145, 181, 44, 79, 143, 137, 175, 138, 111, 90, 200, 198,
     33, 86, 241, 113, 207, 15, 33, 172, 81, 201, 34]"

definition RAYDIUM_CPMM_PROGRAM_ID :: pubkey where
  "RAYDIUM_CPMM_PROGRAM_ID = key_of
    [169, 42, 90, 139, 79, 41, 89, 82, 132, 37, 80, 170, 147, 253, 91, 149, 181, 172, 230, 168, 235,
     146, 12, 147, 148, 46, 67, 105, 12, 32, 236, 115]"

definition METEORA_DLMM_PROGRAM_ID :: pubkey where
  "METEORA_DLMM_PROGRAM_ID = key_of
    [4, 233, 225, 47, 188, 132, 232, 38, 201, 50, 204, 233, 226, 100, 12, 206, 21, 89, 12, 28, 98,
     115, 176, 146, 87, 8, 186, 59, 133, 32, 176, 188]"

definition RAYDIUM_AMM_V4_PROGRAM_ID :: pubkey where
  "RAYDIUM_AMM_V4_PROGRAM_ID = key_of
    [75, 217, 73, 196, 54, 2, 195, 63, 32, 119, 144, 237, 22, 163, 82, 76, 161, 185, 151, 92, 241,
     33, 162, 169, 12, 255, 236, 125, 248, 182, 138, 205]"

definition RAYDIUM_CLMM_PROGRAM_ID :: pubkey where
  "RAYDIUM_CLMM_PROGRAM_ID = key_of
    [165, 213, 202, 158, 4, 207, 93, 181, 144, 183, 20, 186, 47, 227, 44, 177, 89, 19, 63, 193, 193,
     146, 183, 34, 87, 253, 7, 211, 156, 176, 64, 30]"

definition METEORA_DAMM_V2_PROGRAM_ID :: pubkey where
  "METEORA_DAMM_V2_PROGRAM_ID = key_of
    [9, 45, 33, 53, 101, 122, 21, 156, 43, 135, 212, 182, 106, 112, 219, 142, 151, 82, 56, 159, 247,
     106, 175, 32, 108, 237, 6, 58, 56, 249, 90, 237]"

definition ORCA_WHIRLPOOL_PROGRAM_ID :: pubkey where
  "ORCA_WHIRLPOOL_PROGRAM_ID = key_of
    [14, 3, 104, 95, 142, 144, 144, 83, 228, 88, 18, 28, 102, 245, 167, 106, 237, 199, 112, 106,
     161, 28, 130, 248, 170, 149, 42, 143, 43, 120, 121, 169]"

definition PUMPSWAP_PROGRAM_ID :: pubkey where
  "PUMPSWAP_PROGRAM_ID = key_of
    [12, 20, 222, 252, 130, 94, 198, 118, 148, 37, 8, 24, 187, 101, 64, 101, 244, 41, 141, 49, 86,
     213, 113, 180, 212, 248, 9, 12, 24, 233, 168, 99]"

definition LAUNCHLAB_BUY_EXACT_IN :: bytes where
  "LAUNCHLAB_BUY_EXACT_IN = [250, 234, 13, 123, 213, 156, 19, 236]"
definition CPMM_SWAP_BASE_IN :: bytes where
  "CPMM_SWAP_BASE_IN = [143, 190, 90, 218, 196, 30, 51, 222]"
definition PUMPSWAP_SELL :: bytes where
  "PUMPSWAP_SELL = [51, 230, 133, 164, 1, 127, 131, 173]"
definition PUMPSWAP_BUY_EXACT_QUOTE_IN :: bytes where
  "PUMPSWAP_BUY_EXACT_QUOTE_IN = [198, 46, 21, 82, 180, 217, 232, 112]"
definition METEORA_DLMM_SWAP2 :: bytes where
  "METEORA_DLMM_SWAP2 = [65, 75, 63, 76, 235, 91, 91, 136]"
definition CLMM_SWAP_V2 :: bytes where
  "CLMM_SWAP_V2 = [43, 4, 237, 11, 26, 201, 30, 98]"

section \<open>Exact-input layouts\<close>

text \<open>\<open>NO_ACCOUNT\<close> (\<open>usize::MAX\<close>) marks an index the layout does not have; it is
  \<open>None\<close> here. \<open>input_account\<close>, \<open>output_account\<close>, \<open>signer\<close> and \<open>amount_offset\<close> are
  always present.\<close>

record dyn_layout =
  input_account :: nat
  output_account :: nat
  signer :: nat
  amount_offset :: nat
  input_mint :: "nat option"
  input_program :: "nat option"
  output_mint :: "nat option"
  output_program :: "nat option"
  paired_mints :: bool

definition mk_layout ::
  "nat \<Rightarrow> nat \<Rightarrow> nat \<Rightarrow> nat \<Rightarrow> nat option \<Rightarrow> nat option \<Rightarrow> nat option \<Rightarrow> nat option \<Rightarrow> bool \<Rightarrow> dyn_layout" where
  "mk_layout i out sg off im ip om op pm = \<lparr>input_account = i, output_account = out, signer = sg,
     amount_offset = off, input_mint = im, input_program = ip, output_mint = om,
     output_program = op, paired_mints = pm\<rparr>"

definition valid_whirlpool_remaining_accounts :: "bytes \<Rightarrow> bool" where
  "valid_whirlpool_remaining_accounts d =
     ((length d = 43 \<and> d ! 42 = 0)
      \<or> (length d = 49 \<and> slice 42 48 d = [1, 1, 0, 0, 0, 6] \<and> 1 \<le> d ! 48 \<and> d ! 48 \<le> 3))"

definition dynamic_second_leg :: "pubkey \<Rightarrow> bytes \<Rightarrow> program_error + dyn_layout" where
  "dynamic_second_leg program_id d =
     (if program_id = LAUNCHLAB_PROGRAM_ID \<and> length d = 32
         \<and> slice 0 8 d = LAUNCHLAB_BUY_EXACT_IN \<and> slice 24 32 d = replicate 8 0
      then Ok (mk_layout 6 5 0 8 (Some 10) (Some 12) (Some 9) (Some 11) False)
      else if program_id = RAYDIUM_CPMM_PROGRAM_ID \<and> length d = 24
         \<and> slice 0 8 d = CPMM_SWAP_BASE_IN
      then Ok (mk_layout 4 5 0 8 (Some 10) (Some 8) (Some 11) (Some 9) False)
      else if program_id = PUMPSWAP_PROGRAM_ID \<and> length d = 25
         \<and> slice 0 8 d = PUMPSWAP_BUY_EXACT_QUOTE_IN \<and> d ! 24 \<le> 1
      then Ok (mk_layout 6 5 1 8 (Some 4) (Some 12) (Some 3) (Some 11) False)
      else if program_id = PUMPSWAP_PROGRAM_ID \<and> length d = 24 \<and> slice 0 8 d = PUMPSWAP_SELL
      then Ok (mk_layout 5 6 1 8 (Some 3) (Some 11) (Some 4) (Some 12) False)
      else if program_id = RAYDIUM_AMM_V4_PROGRAM_ID \<and> length d = 17 \<and> d ! 0 = 16
      then Ok (mk_layout 5 6 7 1 None (Some 0) None (Some 0) False)
      else if program_id = RAYDIUM_CLMM_PROGRAM_ID \<and> length d = 41
         \<and> slice 0 8 d = CLMM_SWAP_V2 \<and> d ! 40 = 1
      then Ok (mk_layout 3 4 0 8 (Some 11) None (Some 12) None False)
      else if program_id = METEORA_DLMM_PROGRAM_ID \<and> length d = 28
         \<and> slice 0 8 d = METEORA_DLMM_SWAP2 \<and> slice 24 28 d = replicate 4 0
      then Ok (mk_layout 4 5 10 8 (Some 6) (Some 11) (Some 7) (Some 12) True)
      else if program_id = METEORA_DAMM_V2_PROGRAM_ID \<and> length d = 25
         \<and> slice 0 8 d = METEORA_DLMM_SWAP2 \<and> d ! 24 = 0
      then Ok (mk_layout 2 3 8 8 (Some 6) (Some 9) (Some 7) (Some 10) True)
      else if program_id = ORCA_WHIRLPOOL_PROGRAM_ID \<and> valid_whirlpool_remaining_accounts d
         \<and> slice 0 8 d = CLMM_SWAP_V2 \<and> d ! 40 = 1 \<and> d ! 41 \<le> 1
      then (if d ! 41 = 1
            then Ok (mk_layout 7 9 3 8 (Some 5) (Some 0) (Some 6) (Some 1) False)
            else Ok (mk_layout 9 7 3 8 (Some 6) (Some 1) (Some 5) (Some 0) False))
      else Err (router InvalidDynamicLeg))"

section \<open>Account checks\<close>

definition optional :: "nat option \<Rightarrow> (nat \<Rightarrow> bool) \<Rightarrow> bool" where
  "optional i P = (case i of None \<Rightarrow> True | Some j \<Rightarrow> P j)"

text \<open>The account at an index the layout may lack; only \<open>paired_mints\<close> layouts read it
  without a test, and those have every index.\<close>

definition key_at :: "account_view list \<Rightarrow> nat option \<Rightarrow> pubkey option" where
  "key_at accs i = (case i of None \<Rightarrow> None
     | Some j \<Rightarrow> if j < length accs then Some (address (accs ! j)) else None)"

definition layout_in_range :: "dyn_layout \<Rightarrow> nat \<Rightarrow> bool" where
  "layout_in_range l n = (input_account l < n \<and> output_account l < n \<and> signer l < n
     \<and> optional (input_mint l) (\<lambda>i. i < n) \<and> optional (input_program l) (\<lambda>i. i < n)
     \<and> optional (output_mint l) (\<lambda>i. i < n) \<and> optional (output_program l) (\<lambda>i. i < n))"

definition validate_dynamic_accounts ::
  "dyn_layout \<Rightarrow> account_view list \<Rightarrow> account_view \<Rightarrow> account_view \<Rightarrow> account_view \<Rightarrow> ledger
   \<Rightarrow> program_error + unit" where
  "validate_dynamic_accounts l accs user inp out L =
     (if \<not> layout_in_range l (length accs)
         \<or> address (accs ! signer l) \<noteq> address user
         \<or> \<not> is_signer (accs ! signer l)
         \<or> address (accs ! input_account l) \<noteq> address inp
         \<or> \<not> is_writable (accs ! input_account l)
         \<or> address (accs ! output_account l) \<noteq> address out
         \<or> \<not> is_writable (accs ! output_account l)
      then Err (router InvalidDynamicLeg)
      else bind_r (token_mint (L (address inp))) (\<lambda>im.
           bind_r (token_mint (L (address out))) (\<lambda>om.
             let ip = owner (L (address inp)); op = owner (L (address out)) in
             if paired_mints l then
               let forward = key_at accs (input_mint l) = Some im
                     \<and> key_at accs (output_mint l) = Some om
                     \<and> key_at accs (input_program l) = Some ip
                     \<and> key_at accs (output_program l) = Some op;
                   backward = key_at accs (output_mint l) = Some im
                     \<and> key_at accs (input_mint l) = Some om
                     \<and> key_at accs (output_program l) = Some ip
                     \<and> key_at accs (input_program l) = Some op
               in if \<not> forward \<and> \<not> backward then Err (router InvalidDynamicLeg) else Ok ()
             else if \<not> optional (input_mint l) (\<lambda>i. address (accs ! i) = im)
                 \<or> \<not> optional (output_mint l) (\<lambda>i. address (accs ! i) = om)
                 \<or> \<not> optional (input_program l) (\<lambda>i. address (accs ! i) = ip)
                 \<or> \<not> optional (output_program l) (\<lambda>i. address (accs ! i) = op)
             then Err (router InvalidDynamicLeg)
             else Ok ())))"

section \<open>Amounts\<close>

definition received_quote :: "u64 \<Rightarrow> u64 \<Rightarrow> u64 \<Rightarrow> program_error + u64" where
  "received_quote before after minimum =
     bind_r (ok_or (checked_sub after before) (router InvalidIntermediateAccount)) (\<lambda>received.
       if received < minimum then Err (router SlippageExceeded) else Ok received)"

definition patch_second_leg_amount :: "bytes \<Rightarrow> u64 \<Rightarrow> nat \<Rightarrow> bytes" where
  "patch_second_leg_amount d amount offset =
     take (length d) (copy_into offset (u64_bytes amount)
       (copy_into 0 d (replicate MAX_DYNAMIC_LEG_DATA 0)))"

definition read_u16 :: "bytes \<Rightarrow> nat \<Rightarrow> program_error + u16" where
  "read_u16 d offset = bind_r
     (ok_or (get_range d offset (offset + 2)) (router InvalidInstructionData)) (\<lambda>bs. Ok (u16_of bs))"

definition read_u64 :: "bytes \<Rightarrow> nat \<Rightarrow> program_error + u64" where
  "read_u64 d offset = bind_r
     (ok_or (get_range d offset (offset + 8)) (router InvalidInstructionData)) (\<lambda>bs. Ok (u64_of bs))"

text \<open>\<open>amount_in as u128 * fee_bps as u128 / 10_000\<close>, back to u64.\<close>

definition checked_fee :: "u64 \<Rightarrow> u16 \<Rightarrow> program_error + u64" where
  "checked_fee amount_in bps =
     (if bps = 0 then Ok 0
      else ok_or (try_u64 (widen amount_in * ucast bps div 10000)) (router ArithmeticOverflow))"

definition validate_output ::
  "account_view \<Rightarrow> account_view \<Rightarrow> pubkey \<Rightarrow> bool \<Rightarrow> ledger \<Rightarrow> program_error + bool" where
  "validate_output user out expected_mint dyn L =
     (if expected_mint = SYSTEM_PROGRAM_ID then
        (if dyn \<or> address out \<noteq> address user then Err (router InvalidOutputAccount) else Ok True)
      else if \<not> is_token_program (owner (L (address out))) then Err (router InvalidOutputAccount)
      else bind_r (token_mint (L (address out))) (\<lambda>mint.
        if mint \<noteq> expected_mint then Err (router InvalidOutputMint)
        else if dyn then bind_r (token_owner (L (address out))) (\<lambda>o1.
          if o1 \<noteq> address user then Err (router InvalidOutputAccount) else Ok False)
        else Ok False))"

definition output_balance :: "account_state \<Rightarrow> bool \<Rightarrow> program_error + u64" where
  "output_balance a native_sol = (if native_sol then Ok (lamports a) else token_amount a)"

definition validate_spend :: "u64 \<Rightarrow> u64 \<Rightarrow> u64 \<Rightarrow> u64 \<Rightarrow> bool \<Rightarrow> program_error + unit" where
  "validate_spend before after amount_in fee exact_out =
     bind_r (ok_or (checked_sub before after) (router FeeSourceMismatch)) (\<lambda>spent.
       if (exact_out \<and> (spent > amount_in \<or> spent < fee)) \<or> (\<not> exact_out \<and> spent \<noteq> amount_in)
       then Err (router FeeSourceMismatch) else Ok ())"

end
