(* ===== verification/Router_Route.thy ===== *)
theory Router_Route
  imports Route_Layout
begin

unbundle bit_operations_syntax

text \<open>
  The route handler, \<open>process_inner\<close> of \<open>route.rs\<close>, in the stages of its body: the
  header, the fixed accounts, the configuration, the snapshot of the fee source, the
  platform fee, the snapshots after the fee, the loop over the legs and the settlement.
  The last argument of \<open>process_inner\<close> (\<open>dynamic_intermediates\<close>) is 0, 1 or 2.
\<close>

section \<open>The header\<close>

record route_header =
  amount_in :: u64
  min_amount_out :: u64
  fee_asset_byte :: u8
  num_legs :: nat
  expected_output_mint :: pubkey
  intermediate_min_out :: u64
  second_intermediate_min_out :: u64

definition read_header :: "bytes \<Rightarrow> nat \<Rightarrow> program_error + route_header" where
  "read_header d n =
     (if length d < ROUTE_HEADER_LEN + 8 * n then Err (router InvalidInstructionData)
      else bind_r (read_u64 d 0) (\<lambda>amount.
           bind_r (read_u64 d 8) (\<lambda>min_out.
           bind_r (if n \<noteq> 0 then read_u64 d ROUTE_HEADER_LEN else Ok 0) (\<lambda>mid1.
           bind_r (if n = 2 then read_u64 d (ROUTE_HEADER_LEN + 8) else Ok 0) (\<lambda>mid2.
             Ok \<lparr>amount_in = amount, min_amount_out = min_out, fee_asset_byte = d ! 16,
                 num_legs = unat (d ! 17), expected_output_mint = key_of (slice 18 ROUTE_HEADER_LEN d),
                 intermediate_min_out = mid1, second_intermediate_min_out = mid2\<rparr>)))))"

definition check_header :: "route_header \<Rightarrow> nat \<Rightarrow> program_error + unit" where
  "check_header h n =
     (if amount_in h = 0 then Err (router InvalidInstructionData)
      else if \<not> (1 \<le> num_legs h \<and> num_legs h \<le> MAX_LEGS) then Err (router TooManyLegs)
      else if n \<noteq> 0 \<and> (num_legs h \<noteq> n + 1 \<or> fee_asset_byte h \<noteq> 1 \<or> intermediate_min_out h = 0
          \<or> (n = 2 \<and> second_intermediate_min_out h = 0) \<or> min_amount_out h = 0)
      then Err (router InvalidInstructionData)
      else Ok ())"

text \<open>Bit 7 of the fee asset byte asks for exact-out, bit 0 is the asset.\<close>

definition exact_out :: "route_header \<Rightarrow> bool" where
  "exact_out h = (fee_asset_byte h AND 128 \<noteq> 0)"

definition fee_asset :: "route_header \<Rightarrow> u8" where
  "fee_asset h = fee_asset_byte h AND 1"

section \<open>The accounts\<close>

record route_accounts =
  user :: account_view
  config_acc :: account_view
  fee_destination :: account_view
  fee_source :: account_view
  user_output :: account_view
  fee_program :: account_view
  intermediate :: "account_view option"
  second_intermediate :: "account_view option"
  remaining :: "account_view list"

definition split_accounts :: "account_view list \<Rightarrow> nat \<Rightarrow> program_error + route_accounts" where
  "split_accounts accs n =
     (case accs of
        u # c # fd # fs # uo # fp # rest \<Rightarrow>
          bind_r (if n \<noteq> 0 then (case rest of i # r \<Rightarrow> Ok (Some i, r)
                                   | [] \<Rightarrow> Err (router InsufficientAccounts))
                  else Ok (None, rest)) (\<lambda>(i1, rest1).
          bind_r (if n = 2 then (case rest1 of i # r \<Rightarrow> Ok (Some i, r)
                                   | [] \<Rightarrow> Err (router InsufficientAccounts))
                  else Ok (None, rest1)) (\<lambda>(i2, rest2).
            Ok \<lparr>user = u, config_acc = c, fee_destination = fd, fee_source = fs, user_output = uo,
                fee_program = fp, intermediate = i1, second_intermediate = i2, remaining = rest2\<rparr>))
      | _ \<Rightarrow> Err (router InsufficientAccounts))"

definition check_config ::
  "runtime \<Rightarrow> pubkey \<Rightarrow> account_view \<Rightarrow> ledger \<Rightarrow> program_error + router_config" where
  "check_config R program_id c L =
     (if owner (L (address c)) \<noteq> program_id then Err (router InvalidConfig)
      else bind_r (config_read (L (address c))) (\<lambda>cfg.
        case create_program_address R [CONFIG_SEED, [bump cfg]] program_id of
          None \<Rightarrow> Err (router InvalidConfig)
        | Some expected \<Rightarrow>
            if address c \<noteq> expected then Err (router InvalidConfig)
            else if paused cfg \<noteq> 0 then Err (router Paused)
            else Ok cfg))"

section \<open>The platform fee\<close>

definition fee_source_snapshot :: "u8 \<Rightarrow> route_accounts \<Rightarrow> ledger \<Rightarrow> program_error + u64" where
  "fee_source_snapshot asset a L =
     (let src = L (address (fee_source a)) in
      if asset = 0 then
        (if address (fee_source a) \<noteq> address (user a) then Err (router InvalidFeeAsset)
         else Ok (lamports src))
      else if asset = 1 then
        (if \<not> is_token_program (owner src) then Err (router InvalidFeeAsset)
         else bind_r (token_owner src) (\<lambda>o1.
           if o1 \<noteq> address (user a) then Err (router InvalidFeeAsset) else token_amount src))
      else Err (router InvalidFeeAsset))"

definition pay_sol_fee ::
  "runtime \<Rightarrow> route_accounts \<Rightarrow> router_config \<Rightarrow> u64 \<Rightarrow> chain \<Rightarrow> program_error + chain" where
  "pay_sol_fee R a cfg fee s =
     (if address (fee_program a) \<noteq> SYSTEM_PROGRAM_ID then Err (router InvalidProgramId)
      else if address (fee_destination a) \<noteq> fee_recipient cfg then Err (router InvalidFeeAsset)
      else if address (fee_source a) \<noteq> address (user a) then Err (router InvalidFeeAsset)
      else invoke R (SystemTransfer (address (fee_source a)) (address (fee_destination a)) fee) s)"

definition meta :: "pubkey \<Rightarrow> bool \<Rightarrow> bool \<Rightarrow> account_view" where
  "meta k writable sig = \<lparr>address = k, is_signer = sig, is_writable = writable\<rparr>"

text \<open>The transfer itself: \<open>TransferChecked\<close> with the mint where a Token-2022 mint is
  among the remaining accounts, the unchecked transfer otherwise.\<close>

definition transfer_token_fee ::
  "runtime \<Rightarrow> route_accounts \<Rightarrow> pubkey \<Rightarrow> u64 \<Rightarrow> chain \<Rightarrow> program_error + chain" where
  "transfer_token_fee R a mint_address fee s =
     (let found = List.find (\<lambda>acc. address acc = mint_address) (remaining a) in
      case (if address (fee_program a) = TOKEN_2022_PROGRAM_ID then found else None) of
        Some mint \<Rightarrow>
          (let m = ledger s (address mint) in
           if owner m \<noteq> address (fee_program a) then Err (router InvalidFeeAsset)
           else if length (acc_data m) < 82 \<or> acc_data m ! 45 \<noteq> 1 then Err (router InvalidFeeAsset)
           else invoke R (Invoke (address (fee_program a))
             [meta (address (fee_source a)) True False, meta (address mint) False False,
              meta (address (fee_destination a)) True False, meta (address (user a)) False True]
             (12 # u64_bytes fee @ [acc_data m ! 44])) s)
      | None \<Rightarrow>
          invoke R (TokenTransfer (address (fee_source a)) (address (fee_destination a))
            (address (user a)) fee (address (fee_program a))) s)"

definition pay_token_fee ::
  "runtime \<Rightarrow> route_accounts \<Rightarrow> router_config \<Rightarrow> u64 \<Rightarrow> chain \<Rightarrow> program_error + chain" where
  "pay_token_fee R a cfg fee s =
     (let fp = address (fee_program a);
          src = ledger s (address (fee_source a)); dst = ledger s (address (fee_destination a)) in
      if fp \<noteq> TOKEN_PROGRAM_ID \<and> fp \<noteq> TOKEN_2022_PROGRAM_ID then Err (router InvalidProgramId)
      else if fp \<noteq> owner src then Err (router InvalidProgramId)
      else if \<not> is_token_program (owner dst) then Err (router InvalidFeeAsset)
      else if owner dst \<noteq> owner src then Err (router InvalidFeeAsset)
      else bind_r (token_owner dst) (\<lambda>o1.
        if o1 \<noteq> fee_recipient cfg then Err (router InvalidFeeAsset)
        else bind_r (token_mint dst) (\<lambda>dmint. bind_r (token_mint src) (\<lambda>smint.
          if dmint \<noteq> smint then Err (router InvalidFeeAsset)
          else transfer_token_fee R a smint fee s))))"

definition pay_fee ::
  "runtime \<Rightarrow> route_accounts \<Rightarrow> router_config \<Rightarrow> u8 \<Rightarrow> u64 \<Rightarrow> chain \<Rightarrow> program_error + chain" where
  "pay_fee R a cfg asset fee s =
     (if fee > 0 then
        (if asset = 0 then pay_sol_fee R a cfg fee s
         else if asset = 1 then pay_token_fee R a cfg fee s
         else Err (router InvalidFeeAsset))
      else Ok s)"

section \<open>Snapshots after the fee\<close>

definition intermediate_snapshot ::
  "route_accounts \<Rightarrow> account_view option \<Rightarrow> account_view option \<Rightarrow> ledger \<Rightarrow> program_error + u64" where
  "intermediate_snapshot a acc first L =
     (case acc of None \<Rightarrow> Ok 0
      | Some i \<Rightarrow>
          if \<not> is_writable i \<or> \<not> is_token_program (owner (L (address i)))
          then Err (router InvalidIntermediateAccount)
          else bind_r (token_owner (L (address i))) (\<lambda>o1.
            if o1 \<noteq> address (user a) \<or> address i = address (fee_source a)
              \<or> address i = address (user_output a)
              \<or> (case first of Some f \<Rightarrow> address i = address f | None \<Rightarrow> False)
            then Err (router InvalidIntermediateAccount)
            else token_amount (L (address i))))"

section \<open>Legs\<close>

record route_ctx =
  rc_dynamic :: nat
  rc_header :: route_header
  rc_accounts :: route_accounts
  rc_quote_before :: u64
  rc_second_before :: u64

record leg_frame =
  lf_program :: pubkey
  lf_num_accounts :: nat
  lf_data :: bytes
  lf_next :: nat

definition read_leg :: "bytes \<Rightarrow> nat \<Rightarrow> program_error + leg_frame" where
  "read_leg d cursor =
     bind_r (ok_or (get_range d cursor (cursor + 32)) (router InvalidLeg)) (\<lambda>pid.
     bind_r (ok_or (get_at d (cursor + 32)) (router InvalidLeg)) (\<lambda>na.
     bind_r (read_u16 d (cursor + 33)) (\<lambda>len.
       if unat na = 0 \<or> unat na > MAX_LEG_ACCOUNTS then Err (router InvalidLeg)
       else bind_r (ok_or (get_range d (cursor + 35) (cursor + 35 + unat len)) (router InvalidLeg))
         (\<lambda>ld. Ok \<lparr>lf_program = key_of pid, lf_num_accounts = unat na, lf_data = ld,
                    lf_next = cursor + 35 + unat len\<rparr>))))"

definition take_leg_accounts ::
  "route_accounts \<Rightarrow> nat \<Rightarrow> nat \<Rightarrow> program_error + account_view list" where
  "take_leg_accounts a off n =
     (if 2 ^ 64 \<le> off + n then Err (router ArithmeticOverflow)
      else if off + n > length (remaining a) then Err (router InsufficientAccounts)
      else Ok (slice off (off + n) (remaining a)))"

definition writes_to :: "account_view list \<Rightarrow> account_view \<Rightarrow> bool" where
  "writes_to accs acc = list_ex (\<lambda>x. address x = address acc \<and> is_writable x) accs"

definition zero_amount :: "dyn_layout \<Rightarrow> bytes \<Rightarrow> bool" where
  "zero_amount l ld = (slice (amount_offset l) (amount_offset l + 8) ld = replicate 8 0)"

text \<open>\<open>ok_or(InvalidIntermediateAccount)\<close> on an absent account.\<close>

definition need_intermediate :: "account_view option \<Rightarrow> program_error + account_view" where
  "need_intermediate acc = ok_or acc (router InvalidIntermediateAccount)"

definition middle_leg_data ::
  "route_ctx \<Rightarrow> leg_frame \<Rightarrow> account_view list \<Rightarrow> u64 \<Rightarrow> ledger \<Rightarrow> program_error + bytes" where
  "middle_leg_data c f accs received L =
     (let a = rc_accounts c in
      bind_r (need_intermediate (intermediate a)) (\<lambda>inp.
      bind_r (need_intermediate (second_intermediate a)) (\<lambda>out.
        if lf_program f = LAUNCHLAB_PROGRAM_ID then Err (router InvalidDynamicLeg)
        else bind_r (dynamic_second_leg (lf_program f) (lf_data f)) (\<lambda>l.
          if \<not> zero_amount l (lf_data f) then Err (router InvalidDynamicLeg)
          else bind_r (validate_dynamic_accounts l accs (user a) inp out L) (\<lambda>_.
            Ok (patch_second_leg_amount (lf_data f) received (amount_offset l)))))))"

definition final_leg_data ::
  "route_ctx \<Rightarrow> leg_frame \<Rightarrow> account_view list \<Rightarrow> u64 \<Rightarrow> ledger \<Rightarrow> program_error + bytes" where
  "final_leg_data c f accs received L =
     (let a = rc_accounts c in
      bind_r (need_intermediate
        (if rc_dynamic c = 2 then second_intermediate a else intermediate a)) (\<lambda>inp.
      bind_r (dynamic_second_leg (lf_program f) (lf_data f)) (\<lambda>l.
        if rc_dynamic c = 2 \<and> \<not> zero_amount l (lf_data f) then Err (router InvalidDynamicLeg)
        else bind_r (validate_dynamic_accounts l accs (user a) inp (user_output a) L) (\<lambda>_.
          Ok (patch_second_leg_amount (lf_data f) received (amount_offset l))))))"

definition fixed_leg_data ::
  "route_ctx \<Rightarrow> nat \<Rightarrow> leg_frame \<Rightarrow> account_view list \<Rightarrow> program_error + bytes" where
  "fixed_leg_data c i f accs =
     (let a = rc_accounts c in
      if rc_dynamic c \<noteq> 0 \<and> i = 0 then
        bind_r (need_intermediate (intermediate a)) (\<lambda>mid.
          if \<not> writes_to accs mid
            \<or> (rc_dynamic c = 2 \<and> (case second_intermediate a of
                  Some snd_mid \<Rightarrow> writes_to accs snd_mid | None \<Rightarrow> False))
          then Err (router InvalidIntermediateAccount)
          else Ok (lf_data f))
      else Ok (lf_data f))"

definition leg_invoke_data ::
  "route_ctx \<Rightarrow> nat \<Rightarrow> leg_frame \<Rightarrow> account_view list \<Rightarrow> u64 \<Rightarrow> ledger \<Rightarrow> program_error + bytes" where
  "leg_invoke_data c i f accs received L =
     (if rc_dynamic c = 2 \<and> i = 1 then middle_leg_data c f accs received L
      else if rc_dynamic c \<noteq> 0 \<and> i = num_legs (rc_header c) - 1
      then final_leg_data c f accs received L
      else fixed_leg_data c i f accs)"

text \<open>The tokens the leg credited, measured after its CPI.\<close>

definition leg_received :: "route_ctx \<Rightarrow> nat \<Rightarrow> u64 \<Rightarrow> ledger \<Rightarrow> program_error + u64" where
  "leg_received c i received L =
     (let a = rc_accounts c; h = rc_header c in
      if rc_dynamic c \<noteq> 0 \<and> i = 0 then
        bind_r (need_intermediate (intermediate a)) (\<lambda>mid.
        bind_r (token_amount (L (address mid))) (\<lambda>after.
          received_quote (rc_quote_before c) after (intermediate_min_out h)))
      else if rc_dynamic c = 2 \<and> i = 1 then
        bind_r (need_intermediate (second_intermediate a)) (\<lambda>mid.
        bind_r (token_amount (L (address mid))) (\<lambda>after.
          received_quote (rc_second_before c) after (second_intermediate_min_out h)))
      else Ok received)"

record loop_state =
  ls_cursor :: nat
  ls_offset :: nat
  ls_received :: u64
  ls_chain :: chain

definition run_leg ::
  "runtime \<Rightarrow> route_ctx \<Rightarrow> bytes \<Rightarrow> nat \<Rightarrow> loop_state \<Rightarrow> program_error + loop_state" where
  "run_leg R c d i st =
     bind_r (read_leg d (ls_cursor st)) (\<lambda>f.
     bind_r (take_leg_accounts (rc_accounts c) (ls_offset st) (lf_num_accounts f)) (\<lambda>accs.
     bind_r (leg_invoke_data c i f accs (ls_received st) (ledger (ls_chain st))) (\<lambda>ld.
     bind_r (invoke R (Invoke (lf_program f) accs ld) (ls_chain st)) (\<lambda>s'.
     bind_r (leg_received c i (ls_received st) (ledger s')) (\<lambda>received.
       Ok \<lparr>ls_cursor = lf_next f, ls_offset = ls_offset st + lf_num_accounts f,
           ls_received = received, ls_chain = s'\<rparr>)))))"

text \<open>\<open>for leg_index in i..i + k\<close>\<close>

fun run_legs ::
  "runtime \<Rightarrow> route_ctx \<Rightarrow> bytes \<Rightarrow> nat \<Rightarrow> nat \<Rightarrow> loop_state \<Rightarrow> program_error + loop_state" where
  "run_legs R c d 0 i st = Ok st"
| "run_legs R c d (Suc k) i st = bind_r (run_leg R c d i st) (\<lambda>st'. run_legs R c d k (Suc i) st')"

section \<open>Settlement\<close>

definition intermediate_spent ::
  "account_view option \<Rightarrow> u64 \<Rightarrow> ledger \<Rightarrow> program_error + unit" where
  "intermediate_spent acc before L =
     (case acc of None \<Rightarrow> Ok ()
      | Some i \<Rightarrow> bind_r (token_amount (L (address i))) (\<lambda>after.
          if after \<noteq> before then Err (router IntermediateNotSpent) else Ok ()))"

definition fee_source_after :: "u8 \<Rightarrow> route_accounts \<Rightarrow> ledger \<Rightarrow> program_error + u64" where
  "fee_source_after asset a L =
     (if asset = 0 then Ok (lamports (L (address (fee_source a))))
      else if asset = 1 then token_amount (L (address (fee_source a)))
      else Err (router InvalidFeeAsset))"

definition settle ::
  "route_ctx \<Rightarrow> u64 \<Rightarrow> u64 \<Rightarrow> bool \<Rightarrow> u64 \<Rightarrow> ledger \<Rightarrow> program_error + unit" where
  "settle c source_before fee native_out output_before L =
     (let a = rc_accounts c; h = rc_header c in
      bind_r (intermediate_spent (intermediate a) (rc_quote_before c) L) (\<lambda>_.
      bind_r (intermediate_spent (second_intermediate a) (rc_second_before c) L) (\<lambda>_.
      bind_r (fee_source_after (fee_asset h) a L) (\<lambda>source_after.
      bind_r (validate_spend source_before source_after (amount_in h) fee (exact_out h)) (\<lambda>_.
      bind_r (output_balance (L (address (user_output a))) native_out) (\<lambda>output_after.
        if sat_sub output_after output_before < min_amount_out h
        then Err (router SlippageExceeded) else Ok ()))))))"

section \<open>The handler\<close>

text \<open>Everything after the checks of the accounts: fee, snapshots, legs, settlement.\<close>

definition execute_route ::
  "runtime \<Rightarrow> nat \<Rightarrow> route_header \<Rightarrow> route_accounts \<Rightarrow> router_config \<Rightarrow> bool \<Rightarrow> u64 \<Rightarrow> u64
   \<Rightarrow> bytes \<Rightarrow> chain \<Rightarrow> program_error + chain" where
  "execute_route R n h a cfg native_out fee source_before d s =
     bind_r (pay_fee R a cfg (fee_asset h) fee s) (\<lambda>s1.
     bind_r (output_balance (ledger s1 (address (user_output a))) native_out) (\<lambda>output_before.
     bind_r (intermediate_snapshot a (intermediate a) None (ledger s1)) (\<lambda>qb.
     bind_r (intermediate_snapshot a (second_intermediate a) (intermediate a) (ledger s1)) (\<lambda>sb.
       let c = \<lparr>rc_dynamic = n, rc_header = h, rc_accounts = a, rc_quote_before = qb,
                rc_second_before = sb\<rparr> in
       bind_r (run_legs R c d (num_legs h) 0
           \<lparr>ls_cursor = ROUTE_HEADER_LEN + 8 * n, ls_offset = 0, ls_received = 0, ls_chain = s1\<rparr>)
         (\<lambda>st.
           if n \<noteq> 0 \<and> ls_cursor st \<noteq> length d then Err (router InvalidInstructionData)
           else bind_r (settle c source_before fee native_out output_before (ledger (ls_chain st)))
             (\<lambda>_. Ok (ls_chain st)))))))"

definition process_inner ::
  "runtime \<Rightarrow> pubkey \<Rightarrow> account_view list \<Rightarrow> bytes \<Rightarrow> nat \<Rightarrow> chain \<Rightarrow> program_error + chain" where
  "process_inner R program_id accounts d n s =
     bind_r (read_header d n) (\<lambda>h.
     bind_r (check_header h n) (\<lambda>_.
     bind_r (split_accounts accounts n) (\<lambda>a.
       if \<not> is_signer (user a) then Err MissingRequiredSignature
       else
         bind_r (check_config R program_id (config_acc a) (ledger s)) (\<lambda>cfg.
         bind_r (validate_output (user a) (user_output a) (expected_output_mint h) (n \<noteq> 0) (ledger s))
           (\<lambda>native_out.
         bind_r (checked_fee (amount_in h) (fee_bps cfg)) (\<lambda>fee.
         bind_r (fee_source_snapshot (fee_asset h) a (ledger s)) (\<lambda>source_before.
           execute_route R n h a cfg native_out fee source_before d s)))))))"

definition route_process ::
  "runtime \<Rightarrow> pubkey \<Rightarrow> account_view list \<Rightarrow> bytes \<Rightarrow> chain \<Rightarrow> program_error + chain" where
  "route_process R program_id accounts d s = process_inner R program_id accounts d 0 s"

definition route_process_dynamic ::
  "runtime \<Rightarrow> pubkey \<Rightarrow> account_view list \<Rightarrow> bytes \<Rightarrow> chain \<Rightarrow> program_error + chain" where
  "route_process_dynamic R program_id accounts d s = process_inner R program_id accounts d 1 s"

definition route_process_dynamic_three ::
  "runtime \<Rightarrow> pubkey \<Rightarrow> account_view list \<Rightarrow> bytes \<Rightarrow> chain \<Rightarrow> program_error + chain" where
  "route_process_dynamic_three R program_id accounts d s = process_inner R program_id accounts d 2 s"

end
