(* ===== verification/Router_Dispatch.thy ===== *)
theory Router_Dispatch
  imports Router_Admin Router_Route
begin

text \<open>\<open>process_instruction\<close> of \<open>lib.rs\<close>: the first byte of the data selects the handler.\<close>

definition TAG_INITIALIZE :: u8 where "TAG_INITIALIZE = 0"
definition TAG_UPDATE_CONFIG :: u8 where "TAG_UPDATE_CONFIG = 1"
definition TAG_ROUTE :: u8 where "TAG_ROUTE = 2"
definition TAG_PREPARE_PUMPFUN :: u8 where "TAG_PREPARE_PUMPFUN = 7"
definition TAG_ROUTE_DYNAMIC :: u8 where "TAG_ROUTE_DYNAMIC = 5"
definition TAG_ROUTE_DYNAMIC_THREE :: u8 where "TAG_ROUTE_DYNAMIC_THREE = 6"

lemmas tag_defs = TAG_INITIALIZE_def TAG_UPDATE_CONFIG_def TAG_ROUTE_def TAG_PREPARE_PUMPFUN_def
  TAG_ROUTE_DYNAMIC_def TAG_ROUTE_DYNAMIC_THREE_def

fun process_instruction ::
  "runtime \<Rightarrow> pubkey \<Rightarrow> account_view list \<Rightarrow> bytes \<Rightarrow> chain \<Rightarrow> program_error + chain" where
  "process_instruction R program_id accounts [] s = Err (router InvalidInstructionData)"
| "process_instruction R program_id accounts (disc # d) s =
     (if disc = TAG_INITIALIZE then initialize R program_id accounts d s
      else if disc = TAG_UPDATE_CONFIG then update_config R program_id accounts d s
      else if disc = TAG_PREPARE_PUMPFUN then prepare_pumpfun R program_id accounts d s
      else if disc = TAG_ROUTE then route_process R program_id accounts d s
      else if disc = TAG_ROUTE_DYNAMIC then route_process_dynamic R program_id accounts d s
      else if disc = TAG_ROUTE_DYNAMIC_THREE
      then route_process_dynamic_three R program_id accounts d s
      else Err (router UnknownInstruction))"

end
