(* ===== verification/Route_Facts.thy ===== *)
theory Route_Facts
  imports Router_Dispatch
begin

text \<open>
  What a successful route has done. \<open>process_inner_run\<close> inverts the handler into the
  successful steps of its body, and the properties of the route are read off them.
\<close>

section \<open>Inversion of a successful route\<close>

definition initial_loop :: "nat \<Rightarrow> chain \<Rightarrow> loop_state" where
  "initial_loop n s = \<lparr>ls_cursor = ROUTE_HEADER_LEN + 8 * n, ls_offset = 0, ls_received = 0,
     ls_chain = s\<rparr>"

definition mk_ctx :: "nat \<Rightarrow> route_header \<Rightarrow> route_accounts \<Rightarrow> u64 \<Rightarrow> u64 \<Rightarrow> route_ctx" where
  "mk_ctx n h a qb sb = \<lparr>rc_dynamic = n, rc_header = h, rc_accounts = a, rc_quote_before = qb,
     rc_second_before = sb\<rparr>"

lemma mk_ctx_simps [simp]:
  "rc_dynamic (mk_ctx n h a qb sb) = n" "rc_header (mk_ctx n h a qb sb) = h"
  "rc_accounts (mk_ctx n h a qb sb) = a" "rc_quote_before (mk_ctx n h a qb sb) = qb"
  "rc_second_before (mk_ctx n h a qb sb) = sb"
  by (simp_all add: mk_ctx_def)

lemma process_inner_run:
  assumes "process_inner R program_id accounts d n s = Ok s'"
    "read_header d n = Ok h" "split_accounts accounts n = Ok a"
  obtains cfg native fee before s1 out q1 q2 st where
    "check_header h n = Ok ()" "is_signer (user a)"
    "check_config R program_id (config_acc a) (ledger s) = Ok cfg"
    "validate_output (user a) (user_output a) (expected_output_mint h) (n \<noteq> 0) (ledger s) = Ok native"
    "checked_fee (amount_in h) (fee_bps cfg) = Ok fee"
    "fee_source_snapshot (fee_asset h) a (ledger s) = Ok before"
    "pay_fee R a cfg (fee_asset h) fee s = Ok s1"
    "output_balance (ledger s1 (address (user_output a))) native = Ok out"
    "intermediate_snapshot a (intermediate a) None (ledger s1) = Ok q1"
    "intermediate_snapshot a (second_intermediate a) (intermediate a) (ledger s1) = Ok q2"
    "run_legs R (mk_ctx n h a q1 q2) d (num_legs h) 0 (initial_loop n s1) = Ok st"
    "n \<noteq> 0 \<longrightarrow> ls_cursor st = length d"
    "settle (mk_ctx n h a q1 q2) before fee native out (ledger (ls_chain st)) = Ok ()"
    "s' = ls_chain st"
proof -
  have g: "check_header h n = Ok ()" "is_signer (user a)"
    using assms by (auto simp: process_inner_def result_inv split: if_splits)
  obtain cfg native fee before where c:
    "check_config R program_id (config_acc a) (ledger s) = Ok cfg"
    "validate_output (user a) (user_output a) (expected_output_mint h) (n \<noteq> 0) (ledger s) = Ok native"
    "checked_fee (amount_in h) (fee_bps cfg) = Ok fee"
    "fee_source_snapshot (fee_asset h) a (ledger s) = Ok before"
    and ex: "execute_route R n h a cfg native fee before d s = Ok s'"
    using assms g by (auto simp: process_inner_def result_inv)
  obtain s1 out q1 q2 st where
    "pay_fee R a cfg (fee_asset h) fee s = Ok s1"
    "output_balance (ledger s1 (address (user_output a))) native = Ok out"
    "intermediate_snapshot a (intermediate a) None (ledger s1) = Ok q1"
    "intermediate_snapshot a (second_intermediate a) (intermediate a) (ledger s1) = Ok q2"
    "run_legs R (mk_ctx n h a q1 q2) d (num_legs h) 0 (initial_loop n s1) = Ok st"
    "n \<noteq> 0 \<longrightarrow> ls_cursor st = length d"
    "settle (mk_ctx n h a q1 q2) before fee native out (ledger (ls_chain st)) = Ok ()"
    "s' = ls_chain st"
    using ex by (auto simp: execute_route_def Let_def result_inv initial_loop_def mk_ctx_def
        split: if_splits)
  with g c show thesis by (rule that)
qed

lemma process_inner_parts:
  assumes "process_inner R program_id accounts d n s = Ok s'"
  obtains h a where "read_header d n = Ok h" "split_accounts accounts n = Ok a"
  using assms by (auto simp: process_inner_def result_inv)

section \<open>The calls of a route\<close>

lemma invoke_Ok: "invoke R c s = Ok s' \<longleftrightarrow>
  (\<exists>L. cpi R c (ledger s) = Ok L \<and> s' = \<lparr>ledger = L, trace = trace s @ [c]\<rparr>)"
  by (auto simp: invoke_def result_inv)

lemma pay_fee_trace:
  assumes "pay_fee R a cfg asset fee s = Ok s1"
  shows "(fee = 0 \<and> s1 = s) \<or> (0 < fee \<and> (\<exists>c. trace s1 = trace s @ [c]))"
  using assms
  by (auto simp: pay_fee_def pay_sol_fee_def pay_token_fee_def transfer_token_fee_def Let_def
      result_inv invoke_Ok word_gt_0 split: if_splits option.splits)

lemma run_leg_trace:
  assumes "run_leg R c d i st = Ok st'"
  shows "\<exists>p accs ld. trace (ls_chain st') = trace (ls_chain st) @ [Invoke p accs ld]"
  using assms by (auto simp: run_leg_def result_inv invoke_Ok)

lemma run_legs_trace:
  assumes "run_legs R c d k i st = Ok st'"
  shows "\<exists>cs. trace (ls_chain st') = trace (ls_chain st) @ cs \<and> length cs = k \<and>
           (\<forall>x \<in> set cs. \<exists>p accs ld. x = Invoke p accs ld)"
  using assms
proof (induction k arbitrary: i st)
  case 0
  then show ?case by simp
next
  case (Suc k)
  then obtain st1 where 1: "run_leg R c d i st = Ok st1" and 2: "run_legs R c d k (Suc i) st1 = Ok st'"
    by (auto simp: result_inv)
  from run_leg_trace [OF 1] Suc.IH [OF 2] show ?case by fastforce
qed

section \<open>Spending and settlement\<close>

lemma validate_spend_Ok:
  "validate_spend before after amount fee exact = Ok () \<longleftrightarrow>
   unat after \<le> unat before \<and>
   (if exact then unat before - unat after \<le> unat amount \<and> unat fee \<le> unat before - unat after
    else unat before - unat after = unat amount)"
proof (cases "unat after \<le> unat before")
  case True
  then have "checked_sub before after = Some (before - after)"
    by (simp add: checked_sub_def word_le_nat_alt)
  with True show ?thesis
    by (auto simp: validate_spend_def word_eq_unat word_less_nat_alt unat_sub_exact)
next
  case False
  then have "checked_sub before after = None"
    by (simp add: checked_sub_def word_le_nat_alt)
  with False show ?thesis by (simp add: validate_spend_def)
qed

lemma settle_Ok:
  assumes "settle c sb fee native ob L = Ok ()"
  obtains sa oa where
    "fee_source_after (fee_asset (rc_header c)) (rc_accounts c) L = Ok sa"
    "validate_spend sb sa (amount_in (rc_header c)) fee (exact_out (rc_header c)) = Ok ()"
    "output_balance (L (address (user_output (rc_accounts c)))) native = Ok oa"
    "unat (min_amount_out (rc_header c)) \<le> unat oa - unat ob"
    "intermediate_spent (intermediate (rc_accounts c)) (rc_quote_before c) L = Ok ()"
    "intermediate_spent (second_intermediate (rc_accounts c)) (rc_second_before c) L = Ok ()"
  using assms
  by (auto simp: settle_def Let_def result_inv rust_unat not_less split: if_splits)

lemma fee_source_snapshot_after:
  "fee_source_snapshot asset a L = Ok b \<Longrightarrow> fee_source_after asset a L = Ok b"
  by (auto simp: fee_source_snapshot_def fee_source_after_def Let_def result_inv split: if_splits)

lemma intermediate_snapshot_Some:
  "intermediate_snapshot a (Some i) f L = Ok b \<Longrightarrow>
   is_writable i \<and> is_token_program (owner (L (address i))) \<and>
   token_owner (L (address i)) = Ok (address (user a)) \<and> address i \<noteq> address (fee_source a) \<and>
   address i \<noteq> address (user_output a) \<and> token_amount (L (address i)) = Ok b"
  by (auto simp: intermediate_snapshot_def result_inv split: if_splits option.splits)

lemma intermediate_spent_Some:
  "intermediate_spent (Some i) b L = Ok () \<longleftrightarrow> token_amount (L (address i)) = Ok b"
  by (auto simp: intermediate_spent_def result_inv split: if_splits)

lemma received_quote_Ok:
  "received_quote before after minimum = Ok r \<longleftrightarrow>
   unat after = unat before + unat r \<and> unat minimum \<le> unat r"
  by (auto simp: received_quote_def result_inv rust_unat split: if_splits)
    (auto simp: rust_unat not_less)

lemma checked_fee_value:
  "checked_fee amount bps = Ok fee \<Longrightarrow> unat fee = unat amount * unat bps div 10000"
proof (cases "bps = 0")
  case False
  assume f: "checked_fee amount bps = Ok fee"
  have b: "unat (ucast bps :: u128) = unat bps"
    using unat_u16 [of bps]
    by (simp add: unsigned_ucast_eq take_bit_nat_eq_self order_less_le_trans [OF unat_u16])
  have "unat amount * unat bps \<le> 18446744073709551615 * 65535"
    using unat_u64_le [of amount] unat_u16_le [of bps] by (rule mult_le_mono)
  then have "unat (widen amount * ucast bps :: u128) = unat amount * unat bps"
    by (simp add: unat_mul_exact b)
  with f False show ?thesis
    by (simp add: checked_fee_def result_inv try_u64_Some unat_div)
qed (simp add: checked_fee_def)

section \<open>Patched legs\<close>

text \<open>One case per layout, without the negations of the earlier branches.\<close>

lemma if_branchE:
  "(if b then m else r) = Ok l \<Longrightarrow> (b \<Longrightarrow> m = Ok l \<Longrightarrow> P) \<Longrightarrow> (r = Ok l \<Longrightarrow> P) \<Longrightarrow> P"
  by (simp split: if_splits)

lemma dynamic_layout_offsets:
  assumes "dynamic_second_leg p d = Ok l"
  shows "length d \<le> MAX_DYNAMIC_LEG_DATA"
    "(amount_offset l = 8 \<and> 16 \<le> length d) \<or>
     (amount_offset l = 1 \<and> length d = 17 \<and> p = RAYDIUM_AMM_V4_PROGRAM_ID \<and> d ! 0 = 16)"
  using assms unfolding dynamic_second_leg_def
  by (elim if_branchE; auto simp: mk_layout_def MAX_DYNAMIC_LEG_DATA_def
      valid_whirlpool_remaining_accounts_def)+

lemma patch_is_copy_into:
  assumes "off + 8 \<le> length d" "length d \<le> MAX_DYNAMIC_LEG_DATA"
  shows "patch_second_leg_amount d r off = copy_into off (u64_bytes r) d"
proof (rule nth_equalityI)
  have l0: "length (copy_into 0 d (replicate MAX_DYNAMIC_LEG_DATA 0)) = MAX_DYNAMIC_LEG_DATA"
    using assms by (simp add: copy_into_def)
  show "length (patch_second_leg_amount d r off) = length (copy_into off (u64_bytes r) d)"
    using assms l0 by (simp add: patch_second_leg_amount_def length_copy_into)
  fix i
  assume "i < length (patch_second_leg_amount d r off)"
  then have i: "i < length d" by (simp add: patch_second_leg_amount_def)
  then show "patch_second_leg_amount d r off ! i = copy_into off (u64_bytes r) d ! i"
    using assms l0 by (simp add: patch_second_leg_amount_def nth_copy_into)
qed

lemma slice_copy_into_other:
  assumes "off + length src \<le> length d" "b \<le> off \<or> off + length src \<le> a"
  shows "slice a b (copy_into off src d) = slice a b d"
proof (rule nth_equalityI)
  show "length (slice a b (copy_into off src d)) = length (slice a b d)"
    using assms by (simp add: length_copy_into)
  fix i
  assume "i < length (slice a b (copy_into off src d))"
  then have "a + i < length d" "a + i < b" using assms by (auto simp: length_copy_into)
  then show "slice a b (copy_into off src d) ! i = slice a b d ! i"
    using assms nth_copy_into [of off src d "a + i"] by (auto simp: slice_def length_copy_into)
qed

text \<open>The layout is a function of the length, the selector and the bytes after the amount.\<close>

lemma dynamic_second_leg_cong:
  assumes "length d' = length d" "slice 0 8 d' = slice 0 8 d" "slice 24 32 d' = slice 24 32 d"
    "slice 24 28 d' = slice 24 28 d" "slice 42 48 d' = slice 42 48 d"
    "d' ! 0 = d ! 0" "d' ! 24 = d ! 24" "d' ! 40 = d ! 40" "d' ! 41 = d ! 41" "d' ! 42 = d ! 42"
    "d' ! 48 = d ! 48"
  shows "dynamic_second_leg p d' = dynamic_second_leg p d"
  unfolding dynamic_second_leg_def valid_whirlpool_remaining_accounts_def assms by (rule refl)

lemma dynamic_second_leg_short_cong:
  assumes "length d' = length d" "length d = 17" "d' ! 0 = d ! 0"
  shows "dynamic_second_leg p d' = dynamic_second_leg p d"
  unfolding dynamic_second_leg_def valid_whirlpool_remaining_accounts_def assms(1,2,3) by simp

lemma nth_copy_into_after:
  "a + length src \<le> length xs \<Longrightarrow> a + length src \<le> i \<Longrightarrow> copy_into a src xs ! i = xs ! i"
  by (auto simp: copy_into_def nth_append)

text \<open>Patching keeps the instruction an exact-input swap of the same layout.\<close>

lemma dynamic_second_leg_patch:
  assumes "dynamic_second_leg p d = Ok l"
  shows "dynamic_second_leg p (copy_into (amount_offset l) (u64_bytes r) d) = Ok l"
proof -
  let ?d = "copy_into (amount_offset l) (u64_bytes r) d"
  have o: "amount_offset l + 8 \<le> length d" using dynamic_layout_offsets(2) [OF assms] by auto
  have len: "length ?d = length d" using o by (simp add: length_copy_into)
  have first: "?d ! 0 = d ! 0" if "0 < amount_offset l"
    using nth_copy_into [of "amount_offset l" "u64_bytes r" d 0] o that by (cases d) auto
  consider "amount_offset l = 8" | "amount_offset l = 1" "length d = 17"
    using dynamic_layout_offsets(2) [OF assms] by blast
  then have "dynamic_second_leg p ?d = dynamic_second_leg p d"
  proof cases
    case 1
    have other: "slice a b ?d = slice a b d" if "b \<le> 8 \<or> 16 \<le> a" for a b
      using slice_copy_into_other [of "amount_offset l" "u64_bytes r" d b a] o 1 that by simp
    have nth: "?d ! i = d ! i" if "16 \<le> i" for i
      using nth_copy_into_after [of "amount_offset l" "u64_bytes r" d i] o 1 that by simp
    show ?thesis
      by (rule dynamic_second_leg_cong) (simp_all only: len, (rule other nth first; use 1 in simp)+)
  next
    case 2
    with first show ?thesis by (intro dynamic_second_leg_short_cong len) simp_all
  qed
  with assms show ?thesis by simp
qed

end
