(* ===== verification/Route_Demo.thy ===== *)
theory Route_Demo
  imports Route_Facts
begin

text \<open>
  Concrete runs of the route handler. The runtime below is one instance of the parameter:
  a system program and a token program that move balances, and a DEX that swaps one to one
  from account 4 to account 5 of a leg. The witnesses of the route properties run the
  handler on it.
\<close>

section \<open>A ledger\<close>

definition demo_token :: "pubkey \<Rightarrow> pubkey \<Rightarrow> u64 \<Rightarrow> account_state" where
  "demo_token m holder x = \<lparr>lamports = 0, owner = TOKEN_PROGRAM_ID,
     acc_data = key_bytes m @ key_bytes holder @ u64_bytes x\<rparr>"

lemma demo_token_simps [simp]:
  "token_mint (demo_token m h x) = Ok m" "token_owner (demo_token m h x) = Ok h"
  "token_amount (demo_token m h x) = Ok x" "owner (demo_token m h x) = TOKEN_PROGRAM_ID"
  by (simp_all add: demo_token_def token_mint_def token_owner_def token_amount_def slice_def)

definition demo_config :: router_config where
  "demo_config = \<lparr>discriminator = CONFIG_DISCRIMINATOR, authority = 1, fee_recipient = 9,
     fee_bps = 100, bump = 255, paused = 0, padding = [0, 0, 0, 0]\<rparr>"

definition demo_config_account :: account_state where
  "demo_config_account = \<lparr>lamports = 0, owner = 7, acc_data = encode_config demo_config\<rparr>"

lemma demo_config_read [simp]:
  "config_read demo_config_account = Ok demo_config" "owner demo_config_account = 7"
proof -
  have "decode_config (encode_config demo_config) = demo_config"
    using decode_encode_config [of demo_config "[]"] by (simp add: wf_config_def demo_config_def CONFIG_DISCRIMINATOR_def)
  moreover have "length (encode_config demo_config) = CONFIG_LEN"
    by (rule length_encode_config) (simp add: wf_config_def demo_config_def CONFIG_DISCRIMINATOR_def)
  ultimately show "config_read demo_config_account = Ok demo_config" "owner demo_config_account = 7"
    by (simp_all add: config_read_def demo_config_account_def is_initialized_def demo_config_def)
qed

text \<open>User 1, program 7 with its configuration at 2, fee account 3, input account 4, output
  account 5, intermediates 10 and 11, mints 20 to 23.\<close>

definition demo_ledger :: ledger where
  "demo_ledger = (\<lambda>_. \<lparr>lamports = 0, owner = 0, acc_data = []\<rparr>)
     (2 := demo_config_account, 3 := demo_token 20 9 0, 4 := demo_token 20 1 1000,
      5 := demo_token 21 1 7, 10 := demo_token 22 1 3, 11 := demo_token 23 1 4)"

definition demo_move :: "pubkey \<Rightarrow> pubkey \<Rightarrow> u64 \<Rightarrow> ledger \<Rightarrow> program_error + ledger" where
  "demo_move a b x L =
     bind_r (token_mint (L a)) (\<lambda>ma. bind_r (token_owner (L a)) (\<lambda>ha. bind_r (token_amount (L a)) (\<lambda>xa.
     bind_r (token_mint (L b)) (\<lambda>mb. bind_r (token_owner (L b)) (\<lambda>hb. bind_r (token_amount (L b)) (\<lambda>xb.
       if xa < x then Err (External 1)
       else Ok (L(a := demo_token ma ha (xa - x), b := demo_token mb hb (xb + x)))))))))"

fun demo_cpi :: "cpi_call \<Rightarrow> ledger \<Rightarrow> program_error + ledger" where
  "demo_cpi (SystemTransfer a b x) L =
     (if lamports (L a) < x then Err (External 1)
      else Ok (L(a := (L a)\<lparr>lamports := lamports (L a) - x\<rparr>,
                 b := (L b)\<lparr>lamports := lamports (L b) + x\<rparr>)))"
| "demo_cpi (CreateAccount a space own payer seeds) L =
     Ok (L(a := \<lparr>lamports = 1, owner = own, acc_data = replicate space 0\<rparr>))"
| "demo_cpi (TokenTransfer a b auth x p) L = demo_move a b x L"
| "demo_cpi (Invoke p accs d) L =
     demo_move (address (accs ! 4)) (address (accs ! 5)) (u64_of (slice 8 16 d)) L"

definition demo_runtime :: runtime where
  "demo_runtime = \<lparr>find_program_address = (\<lambda>seeds p. (2, 255)),
     create_program_address = (\<lambda>seeds p. Some 2), minimum_balance = (\<lambda>n. Ok 890880),
     cpi = demo_cpi\<rparr>"

definition demo_chain :: chain where
  "demo_chain = \<lparr>ledger = demo_ledger, trace = []\<rparr>"

section \<open>Routes\<close>

definition demo_leg_accounts :: "pubkey \<Rightarrow> pubkey \<Rightarrow> pubkey \<Rightarrow> pubkey \<Rightarrow> account_view list" where
  "demo_leg_accounts a b ma mb =
     [meta 1 False True, meta 50 False False, meta 51 False False, meta 52 True False,
      meta a True False, meta b True False, meta 53 True False, meta 54 True False,
      meta TOKEN_PROGRAM_ID False False, meta TOKEN_PROGRAM_ID False False,
      meta ma False False, meta mb False False, meta 55 True False]"

definition demo_leg :: "u64 \<Rightarrow> bytes" where
  "demo_leg x = key_bytes RAYDIUM_CPMM_PROGRAM_ID @ [13] @ u16_bytes 24 @
     CPMM_SWAP_BASE_IN @ u64_bytes x @ u64_bytes 0"

definition demo_fixed_accounts :: "account_view list" where
  "demo_fixed_accounts = [meta 1 True True, meta 2 False False, meta 3 True False,
     meta 4 True False, meta 5 True False, meta TOKEN_PROGRAM_ID False False]"

text \<open>One fixed leg from 4 to 5, with the account of its program after it; \<open>b\<close> is the fee
  asset byte.\<close>

definition demo_accounts0 :: "account_view list" where
  "demo_accounts0 = demo_fixed_accounts @ demo_leg_accounts 4 5 20 21
     @ [meta RAYDIUM_CPMM_PROGRAM_ID False False]"

definition demo_data0 :: "u64 \<Rightarrow> u8 \<Rightarrow> bytes" where
  "demo_data0 budget b = u64_bytes budget @ u64_bytes 90 @ [b, 1] @ key_bytes 21 @ demo_leg 99"

text \<open>Two legs, 4 to 10 to 5, the second sized on chain.\<close>

definition demo_accounts1 :: "account_view list" where
  "demo_accounts1 = demo_fixed_accounts @ [meta 10 True False] @
     demo_leg_accounts 4 10 20 22 @ demo_leg_accounts 10 5 22 21"

definition demo_data1 :: bytes where
  "demo_data1 = u64_bytes 100 @ u64_bytes 90 @ [1, 2] @ key_bytes 21 @ u64_bytes 50 @
     demo_leg 99 @ demo_leg 0"

text \<open>Three legs, 4 to 10 to 11 to 5.\<close>

definition demo_accounts2 :: "account_view list" where
  "demo_accounts2 = demo_fixed_accounts @ [meta 10 True False, meta 11 True False] @
     demo_leg_accounts 4 10 20 22 @ demo_leg_accounts 10 11 22 23 @ demo_leg_accounts 11 5 23 21"

definition demo_data2 :: bytes where
  "demo_data2 = u64_bytes 100 @ u64_bytes 90 @ [1, 3] @ key_bytes 21 @ u64_bytes 50 @ u64_bytes 60 @
     demo_leg 99 @ demo_leg 0 @ demo_leg 0"


lemma demo_meta [simp]:
  "address (meta k w g) = k" "is_signer (meta k w g) = g" "is_writable (meta k w g) = w"
  by (simp_all add: meta_def)

lemma demo_program_ids [simp]:
  "TOKEN_PROGRAM_ID \<noteq> TOKEN_2022_PROGRAM_ID" "TOKEN_PROGRAM_ID \<noteq> SYSTEM_PROGRAM_ID"
  "is_token_program TOKEN_PROGRAM_ID" "RAYDIUM_CPMM_PROGRAM_ID \<noteq> LAUNCHLAB_PROGRAM_ID"
  by (simp_all add: TOKEN_PROGRAM_ID_def TOKEN_2022_PROGRAM_ID_def SYSTEM_PROGRAM_ID_def
      is_token_program_def RAYDIUM_CPMM_PROGRAM_ID_def LAUNCHLAB_PROGRAM_ID_def key_of_def)

section \<open>What the handler reads\<close>

lemmas demo_bytes = slice_def get_range_def get_at_def nth_append CPMM_SWAP_BASE_IN_def demo_leg_def

lemma demo_to_le_0: "to_le k 0 = replicate k 0"
  by (induction k) simp_all

definition demo_swap :: "u64 \<Rightarrow> bytes" where
  "demo_swap x = CPMM_SWAP_BASE_IN @ u64_bytes x @ u64_bytes 0"

definition demo_frame :: "u64 \<Rightarrow> nat \<Rightarrow> leg_frame" where
  "demo_frame x n = \<lparr>lf_program = RAYDIUM_CPMM_PROGRAM_ID, lf_num_accounts = 13,
     lf_data = demo_swap x, lf_next = n\<rparr>"

lemma demo_frame_simps [simp]:
  "lf_program (demo_frame x n) = RAYDIUM_CPMM_PROGRAM_ID" "lf_num_accounts (demo_frame x n) = 13"
  "lf_data (demo_frame x n) = demo_swap x" "lf_next (demo_frame x n) = n"
  by (simp_all add: demo_frame_def)

lemmas demo_read_leg = read_leg_def read_u16_def demo_bytes MAX_LEG_ACCOUNTS_def demo_frame_def
  demo_swap_def

lemma demo_leg0: "read_leg (demo_data0 x b) 50 = Ok (demo_frame 99 109)"
  by (simp add: demo_read_leg demo_data0_def)

lemma demo_leg1_1: "read_leg demo_data1 58 = Ok (demo_frame 99 117)"
  by (simp add: demo_read_leg demo_data1_def)

lemma demo_leg1_2: "read_leg demo_data1 117 = Ok (demo_frame 0 176)"
  by (simp add: demo_read_leg demo_data1_def)

lemma demo_leg2_1: "read_leg demo_data2 66 = Ok (demo_frame 99 125)"
  by (simp add: demo_read_leg demo_data2_def)

lemma demo_leg2_2: "read_leg demo_data2 125 = Ok (demo_frame 0 184)"
  by (simp add: demo_read_leg demo_data2_def)

lemma demo_leg2_3: "read_leg demo_data2 184 = Ok (demo_frame 0 243)"
  by (simp add: demo_read_leg demo_data2_def)

lemma demo_lengths: "length demo_data1 = 176" "length demo_data2 = 243"
  by (simp_all add: demo_data1_def demo_data2_def demo_leg_def CPMM_SWAP_BASE_IN_def)

definition demo_layout :: dyn_layout where
  "demo_layout = mk_layout 4 5 0 8 (Some 10) (Some 8) (Some 11) (Some 9) False"

lemma demo_layout: "dynamic_second_leg RAYDIUM_CPMM_PROGRAM_ID (demo_swap x) = Ok demo_layout"
  by (simp add: dynamic_second_leg_def demo_bytes demo_swap_def demo_layout_def)

lemma demo_patch: "patch_second_leg_amount (demo_swap x) r (amount_offset demo_layout) = demo_swap r"
  by (simp add: demo_swap_def demo_layout_def mk_layout_def patch_is_copy_into demo_bytes
      copy_into_def MAX_DYNAMIC_LEG_DATA_def)

lemma demo_zero: "zero_amount demo_layout (demo_swap 0)"
  by (simp add: zero_amount_def demo_layout_def mk_layout_def demo_swap_def demo_bytes u64_bytes_def
      demo_to_le_0 replicate_add [symmetric])

definition demo_header :: "u64 \<Rightarrow> u8 \<Rightarrow> nat \<Rightarrow> u64 \<Rightarrow> u64 \<Rightarrow> route_header" where
  "demo_header x b k m1 m2 = \<lparr>amount_in = x, min_amount_out = 90, fee_asset_byte = b, num_legs = k,
     expected_output_mint = 21, intermediate_min_out = m1, second_intermediate_min_out = m2\<rparr>"

lemma demo_header_simps [simp]:
  "amount_in (demo_header x b k m1 m2) = x" "min_amount_out (demo_header x b k m1 m2) = 90"
  "fee_asset_byte (demo_header x b k m1 m2) = b"
  "num_legs (demo_header x b k m1 m2) = k" "expected_output_mint (demo_header x b k m1 m2) = 21"
  "intermediate_min_out (demo_header x b k m1 m2) = m1"
  "second_intermediate_min_out (demo_header x b k m1 m2) = m2"
  by (simp_all add: demo_header_def)

lemmas demo_read_header = read_header_def ROUTE_HEADER_LEN_def read_u64_def demo_bytes
  demo_header_def

lemma demo_header0: "read_header (demo_data0 x b) 0 = Ok (demo_header x b 1 0 0)"
  by (simp add: demo_read_header demo_data0_def)

lemma demo_header1: "read_header demo_data1 1 = Ok (demo_header 100 1 2 50 0)"
  by (simp add: demo_read_header demo_data1_def)

lemma demo_header2: "read_header demo_data2 2 = Ok (demo_header 100 1 3 50 60)"
  by (simp add: demo_read_header demo_data2_def)

lemma demo_asset [simp]:
  "fee_asset (demo_header x 1 k m1 m2) = 1" "fee_asset (demo_header x 129 k m1 m2) = 1"
  "\<not> exact_out (demo_header x 1 k m1 m2)" "exact_out (demo_header x 129 k m1 m2)"
  by (simp_all add: fee_asset_def exact_out_def)

definition demo_accounts :: "account_view option \<Rightarrow> account_view option \<Rightarrow> account_view list \<Rightarrow> route_accounts" where
  "demo_accounts i1 i2 r = \<lparr>user = meta 1 True True, config_acc = meta 2 False False,
     fee_destination = meta 3 True False, fee_source = meta 4 True False,
     user_output = meta 5 True False, fee_program = meta TOKEN_PROGRAM_ID False False,
     intermediate = i1, second_intermediate = i2, remaining = r\<rparr>"

lemma demo_accounts_simps [simp]:
  "user (demo_accounts i1 i2 r) = meta 1 True True"
  "config_acc (demo_accounts i1 i2 r) = meta 2 False False"
  "fee_destination (demo_accounts i1 i2 r) = meta 3 True False"
  "fee_source (demo_accounts i1 i2 r) = meta 4 True False"
  "user_output (demo_accounts i1 i2 r) = meta 5 True False"
  "fee_program (demo_accounts i1 i2 r) = meta TOKEN_PROGRAM_ID False False"
  "intermediate (demo_accounts i1 i2 r) = i1" "second_intermediate (demo_accounts i1 i2 r) = i2"
  "remaining (demo_accounts i1 i2 r) = r"
  by (simp_all add: demo_accounts_def)

lemmas demo_split_defs = split_accounts_def demo_accounts_def demo_accounts0_def demo_accounts1_def
  demo_accounts2_def demo_fixed_accounts_def

definition demo_parts0 :: route_accounts where
  "demo_parts0 = demo_accounts None None
     (demo_leg_accounts 4 5 20 21 @ [meta RAYDIUM_CPMM_PROGRAM_ID False False])"

definition demo_parts1 :: route_accounts where
  "demo_parts1 = demo_accounts (Some (meta 10 True False)) None
     (demo_leg_accounts 4 10 20 22 @ demo_leg_accounts 10 5 22 21)"

definition demo_parts2 :: route_accounts where
  "demo_parts2 = demo_accounts (Some (meta 10 True False)) (Some (meta 11 True False))
     (demo_leg_accounts 4 10 20 22 @ demo_leg_accounts 10 11 22 23 @ demo_leg_accounts 11 5 23 21)"

lemmas demo_parts = demo_parts0_def demo_parts1_def demo_parts2_def

lemma demo_split:
  "split_accounts demo_accounts0 0 = Ok demo_parts0"
  "split_accounts demo_accounts1 1 = Ok demo_parts1"
  "split_accounts demo_accounts2 2 = Ok demo_parts2"
  by (simp_all add: demo_split_defs demo_parts)

section \<open>The steps of a run\<close>

lemma demo_check_config:
  "check_config demo_runtime 7 (meta 2 False False) (ledger demo_chain) = Ok demo_config"
  by (simp add: check_config_def demo_chain_def demo_ledger_def demo_runtime_def)
    (simp add: demo_config_def)

lemma demo_fee:
  "checked_fee 120 (fee_bps demo_config) = Ok 1" "checked_fee 100 (fee_bps demo_config) = Ok 1"
  by (simp_all add: checked_fee_def demo_config_def widen_def try_u64_def)

lemma demo_snapshot: "fee_source_snapshot 1 (demo_accounts i1 i2 r) (ledger demo_chain) = Ok 1000"
  by (simp add: fee_source_snapshot_def demo_chain_def demo_ledger_def)

lemma demo_output:
  "validate_output (meta 1 True True) (meta 5 True False) 21 b (ledger demo_chain) = Ok False"
  by (simp add: validate_output_def demo_chain_def demo_ledger_def SYSTEM_PROGRAM_ID_def)

lemma demo_move:
  "a \<noteq> b \<Longrightarrow> L a = demo_token ma ha xa \<Longrightarrow> L b = demo_token mb hb xb \<Longrightarrow> x \<le> xa \<Longrightarrow>
   demo_move a b x L = Ok (L(a := demo_token ma ha (xa - x), b := demo_token mb hb (xb + x)))"
  by (simp add: demo_move_def)

definition demo_paid :: chain where
  "demo_paid = \<lparr>ledger = demo_ledger(4 := demo_token 20 1 999, 3 := demo_token 20 9 1),
     trace = [TokenTransfer 4 3 1 1 TOKEN_PROGRAM_ID]\<rparr>"

lemma demo_pay_fee: "pay_fee demo_runtime (demo_accounts i1 i2 r) demo_config 1 1 demo_chain = Ok demo_paid"
  by (simp add: pay_fee_def pay_token_fee_def demo_chain_def transfer_token_fee_def demo_config_def
      invoke_def demo_ledger_def demo_runtime_def demo_move demo_paid_def)

lemma length_demo_leg_accounts [simp]: "length (demo_leg_accounts a b ma mb) = 13"
  by (simp add: demo_leg_accounts_def)

definition demo_loop :: "nat \<Rightarrow> nat \<Rightarrow> u64 \<Rightarrow> chain \<Rightarrow> loop_state" where
  "demo_loop cur off rcv s = \<lparr>ls_cursor = cur, ls_offset = off, ls_received = rcv, ls_chain = s\<rparr>"

text \<open>One leg, swapping \<open>y\<close> from \<open>a\<close> to \<open>b\<close>.\<close>

lemma demo_step:
  assumes "read_leg d cur = Ok (demo_frame x nxt)"
    "off + 13 \<le> length (remaining (rc_accounts c))" "length (remaining (rc_accounts c)) < 100"
    "slice off (off + 13) (remaining (rc_accounts c)) = demo_leg_accounts a b ma mb"
    "leg_invoke_data c i (demo_frame x nxt) (demo_leg_accounts a b ma mb) rcv (ledger s)
       = Ok (demo_swap y)"
    "demo_move a b y (ledger s) = Ok L" "leg_received c i rcv L = Ok r"
    "\<exists>st'. run_legs demo_runtime c d k (Suc i) (demo_loop nxt (off + 13) r \<lparr>ledger = L, trace = trace s @
       [Invoke RAYDIUM_CPMM_PROGRAM_ID (demo_leg_accounts a b ma mb) (demo_swap y)]\<rparr>) = Ok st' \<and> P st'"
  shows "\<exists>st'. run_legs demo_runtime c d (Suc k) i (demo_loop cur off rcv s) = Ok st' \<and> P st'"
proof -
  have "take_leg_accounts (rc_accounts c) off 13 = Ok (demo_leg_accounts a b ma mb)"
    using assms(2-4) by (simp add: take_leg_accounts_def)
  moreover have "u64_of (slice 8 16 (demo_swap y)) = y"
    by (simp add: demo_swap_def demo_bytes)
  ultimately show ?thesis using assms(1,5-8)
    by (simp add: run_leg_def invoke_def demo_runtime_def demo_leg_accounts_def demo_loop_def)
qed


section \<open>The runs\<close>

text \<open>A run of the handler after its checks: the loop succeeds and the settlement passes.\<close>

lemma demo_run:
  assumes "read_header d n = Ok h" "check_header h n = Ok ()" "split_accounts accs n = Ok a"
    "a = demo_accounts i1 i2 r" "expected_output_mint h = 21" "fee_asset h = 1"
    "amount_in h = 120 \<or> amount_in h = 100"
    "intermediate_snapshot a i1 None (ledger demo_paid) = Ok qb"
    "intermediate_snapshot a i2 i1 (ledger demo_paid) = Ok sb"
    "c = mk_ctx n h a qb sb" "num_legs h = k"
    "50 + 8 * n = pos" "\<exists>st. run_legs demo_runtime c d k 0 (demo_loop pos 0 0 demo_paid) = Ok st \<and>
       (ls_cursor st = length d \<and> settle c 1000 1 False 7 (ledger (ls_chain st)) = Ok ())"
  shows "\<exists>s'. process_inner demo_runtime 7 accs d n demo_chain = Ok s'"
proof -
  have "output_balance (ledger demo_paid 5) False = Ok 7"
    by (simp add: output_balance_def demo_paid_def demo_ledger_def)
  with assms show ?thesis
    by (auto simp: process_inner_def execute_route_def demo_check_config demo_fee demo_output
        demo_snapshot demo_pay_fee Let_def mk_ctx_def ROUTE_HEADER_LEN_def demo_loop_def)
qed

lemmas demo_settle = settle_def intermediate_spent_def fee_source_after_def validate_spend_def
  checked_sub_def output_balance_def sat_sub_def demo_loop_def


lemmas demo_leg_defs = leg_invoke_data_def middle_leg_data_def final_leg_data_def fixed_leg_data_def
  leg_received_def need_intermediate_def received_quote_def demo_layout demo_patch
  demo_zero

text \<open>The token accounts of a run; the whole ledger is determined by their balances.\<close>

definition demo_balances :: "u64 \<Rightarrow> u64 \<Rightarrow> u64 \<Rightarrow> u64 \<Rightarrow> ledger" where
  "demo_balances x i1 i2 y = demo_ledger(3 := demo_token 20 9 1, 4 := demo_token 20 1 x,
     10 := demo_token 22 1 i1, 11 := demo_token 23 1 i2, 5 := demo_token 21 1 y)"

lemma demo_balances_simps [simp]:
  "demo_balances x i1 i2 y 4 = demo_token 20 1 x" "demo_balances x i1 i2 y 5 = demo_token 21 1 y"
  "demo_balances x i1 i2 y 10 = demo_token 22 1 i1" "demo_balances x i1 i2 y 11 = demo_token 23 1 i2"
  by (simp_all add: demo_balances_def)

lemma demo_balances_upd [simp]:
  "(demo_balances x i1 i2 y)(4 := demo_token 20 1 x') = demo_balances x' i1 i2 y"
  "(demo_balances x i1 i2 y)(5 := demo_token 21 1 y') = demo_balances x i1 i2 y'"
  "(demo_balances x i1 i2 y)(10 := demo_token 22 1 i1') = demo_balances x i1' i2 y"
  "(demo_balances x i1 i2 y)(11 := demo_token 23 1 i2') = demo_balances x i1 i2' y"
  by (simp_all add: demo_balances_def fun_eq_iff)

lemma demo_paid_ledger [simp]: "ledger demo_paid = demo_balances 999 3 4 7"
  by (simp add: demo_paid_def demo_balances_def demo_ledger_def fun_eq_iff)

lemma demo_accounts_valid:
  "L a = demo_token ma 1 xa \<Longrightarrow> L b = demo_token mb 1 xb \<Longrightarrow>
   validate_dynamic_accounts demo_layout (demo_leg_accounts a b ma mb) (meta 1 True True)
     (meta a True False) (meta b True False) L = Ok ()"
  by (simp add: validate_dynamic_accounts_def demo_layout_def mk_layout_def demo_leg_accounts_def
      layout_in_range_def optional_def)

lemma demo_writes:
  "writes_to (demo_leg_accounts a b ma mb) (meta k w g) \<longleftrightarrow> k \<in> {52, a, b, 53, 54, 55}"
  by (auto simp: writes_to_def demo_leg_accounts_def)

lemma demo_run0:
  "\<exists>s'. process_inner demo_runtime 7 demo_accounts0 (demo_data0 120 129) 0 demo_chain = Ok s'"
proof -
  let ?c = "mk_ctx 0 (demo_header 120 129 1 0 0) demo_parts0 0 0"
  have len: "length (demo_data0 120 129) = 109"
    by (simp add: demo_data0_def demo_leg_def CPMM_SWAP_BASE_IN_def)
  have loop: "\<exists>st. run_legs demo_runtime ?c (demo_data0 120 129) (Suc 0) 0 (demo_loop 50 0 0 demo_paid)
      = Ok st \<and> (ls_cursor st = length (demo_data0 120 129) \<and>
        settle ?c 1000 1 False 7 (ledger (ls_chain st)) = Ok ())"
    by (rule demo_step [OF demo_leg0, where y = 99 and L = "demo_balances 900 3 4 106" and r = 0
          and a = 4 and b = 5 and ma = 20 and mb = 21])
      (simp_all add: demo_parts0_def slice_def demo_leg_defs demo_move len demo_settle)
  show ?thesis
    by (rule demo_run [OF demo_header0 _ demo_split(1) demo_parts0_def _ _ _ _ _ refl _ _ loop])
      (simp_all add: check_header_def MAX_LEGS_def intermediate_snapshot_def demo_parts0_def)
qed

lemma demo_run1:
  "\<exists>s'. process_inner demo_runtime 7 demo_accounts1 demo_data1 1 demo_chain = Ok s'"
proof -
  let ?c = "mk_ctx 1 (demo_header 100 1 2 50 0) demo_parts1 3 0"
  have loop: "\<exists>st. run_legs demo_runtime ?c demo_data1 (Suc (Suc 0)) 0 (demo_loop 58 0 0 demo_paid)
      = Ok st \<and> (ls_cursor st = length demo_data1 \<and>
        settle ?c 1000 1 False 7 (ledger (ls_chain st)) = Ok ())"
    by (rule demo_step [OF demo_leg1_1, where y = 99 and L = "demo_balances 900 102 4 7"
          and r = 99 and a = 4 and b = 10 and ma = 20 and mb = 22], rule_tac [7]
        demo_step [OF demo_leg1_2, where y = 99 and L = "demo_balances 900 3 4 106"
          and r = 99 and a = 10 and b = 5 and ma = 22 and mb = 21])
      (simp_all add: demo_parts1_def slice_def demo_leg_defs demo_writes demo_move demo_lengths
        demo_accounts_valid demo_settle)
  show ?thesis
    by (rule demo_run [OF demo_header1 _ demo_split(2) demo_parts1_def _ _ _ _ _ refl _ _ loop])
      (simp_all add: check_header_def MAX_LEGS_def intermediate_snapshot_def demo_parts1_def)
qed

lemma demo_run2:
  "\<exists>s'. process_inner demo_runtime 7 demo_accounts2 demo_data2 2 demo_chain = Ok s'"
proof -
  let ?c = "mk_ctx 2 (demo_header 100 1 3 50 60) demo_parts2 3 4"
  have loop: "\<exists>st. run_legs demo_runtime ?c demo_data2 (Suc (Suc (Suc 0))) 0 (demo_loop 66 0 0 demo_paid)
      = Ok st \<and> (ls_cursor st = length demo_data2 \<and>
        settle ?c 1000 1 False 7 (ledger (ls_chain st)) = Ok ())"
    by (rule demo_step [OF demo_leg2_1, where y = 99 and L = "demo_balances 900 102 4 7"
          and r = 99 and a = 4 and b = 10 and ma = 20 and mb = 22], rule_tac [7]
        demo_step [OF demo_leg2_2, where y = 99 and L = "demo_balances 900 3 103 7"
          and r = 99 and a = 10 and b = 11 and ma = 22 and mb = 23], rule_tac [13]
        demo_step [OF demo_leg2_3, where y = 99 and L = "demo_balances 900 3 4 106"
          and r = 99 and a = 11 and b = 5 and ma = 23 and mb = 21])
      (simp_all add: demo_parts2_def slice_def demo_leg_defs demo_writes demo_move demo_lengths
        demo_accounts_valid demo_settle)
  show ?thesis
    by (rule demo_run [OF demo_header2 _ demo_split(3) demo_parts2_def _ _ _ _ _ refl _ _ loop])
      (simp_all add: check_header_def MAX_LEGS_def intermediate_snapshot_def demo_parts2_def)
qed
end
