(* ===== verification/Route_Props.thy ===== *)
theory Route_Props
  imports Route_Demo
begin

text \<open>
  The properties of the route handler: what it spends, what the user receives, what the
  intermediate accounts hold afterwards, which calls it makes and with which amounts, and
  what it checks before making any.
\<close>

section \<open>Balances\<close>

text \<open>C7. A successful route debits the fee source by exactly the input amount, fee included;
  an exact-output route debits it by at most the budget and at least the fee. The fee is
  \<open>floor (amount * fee_bps / 10000)\<close> of the configuration read.\<close>

theorem route_spend:
  assumes "process_inner R program_id accs d n s = Ok s'"
    "read_header d n = Ok h" "split_accounts accs n = Ok a"
  shows "\<exists>cfg before after. check_config R program_id (config_acc a) (ledger s) = Ok cfg \<and>
    fee_source_after (fee_asset h) a (ledger s) = Ok before \<and>
    fee_source_after (fee_asset h) a (ledger s') = Ok after \<and> unat after \<le> unat before \<and>
    (if exact_out h
     then unat before - unat after \<le> unat (amount_in h)
       \<and> unat (amount_in h) * unat (fee_bps cfg) div 10000 \<le> unat before - unat after
     else unat before - unat after = unat (amount_in h))"
proof -
  from process_inner_run [OF assms] obtain cfg native fee before out q1 q2 where
    c: "check_config R program_id (config_acc a) (ledger s) = Ok cfg"
    "checked_fee (amount_in h) (fee_bps cfg) = Ok fee"
    "fee_source_snapshot (fee_asset h) a (ledger s) = Ok before"
    and "settle (mk_ctx n h a q1 q2) before fee native out (ledger s') = Ok ()"
    by metis
  then obtain after where "fee_source_after (fee_asset h) a (ledger s') = Ok after"
    "validate_spend before after (amount_in h) fee (exact_out h) = Ok ()"
    by (auto elim: settle_Ok)
  with c(1) fee_source_snapshot_after [OF c(3)] show ?thesis
    by (intro exI [of _ cfg] exI [of _ before] exI [of _ after])
      (simp add: validate_spend_Ok checked_fee_value [OF c(2)] split: if_splits)
qed

theorem route_spend_witness:
  "(\<exists>s' (cfg :: router_config) before after. process_inner demo_runtime 7 demo_accounts0 (demo_data0 120 129) 0 demo_chain = Ok s' \<and>
     fee_source_after 1 demo_parts0 (ledger demo_chain) = Ok before \<and>
     fee_source_after 1 demo_parts0 (ledger s') = Ok after \<and>
     unat before - unat after \<le> 120 \<and> 120 * unat (fee_bps cfg) div 10000 \<le> unat before - unat after) \<and>
   (\<exists>s' before after. process_inner demo_runtime 7 demo_accounts1 demo_data1 1 demo_chain = Ok s' \<and>
     fee_source_after 1 demo_parts1 (ledger demo_chain) = Ok before \<and>
     fee_source_after 1 demo_parts1 (ledger s') = Ok after \<and> unat before - unat after = 100)"
proof -
  obtain s0 s1 where
    s0: "process_inner demo_runtime 7 demo_accounts0 (demo_data0 120 129) 0 demo_chain = Ok s0" and
    s1: "process_inner demo_runtime 7 demo_accounts1 demo_data1 1 demo_chain = Ok s1"
    using demo_run0 demo_run1 by blast
  show ?thesis
    using route_spend [OF s0 demo_header0 demo_split(1)] s0
      route_spend [OF s1 demo_header1 demo_split(2)] s1 by (simp del: One_nat_def) metis
qed

text \<open>C14. A successful route credits the output account, measured after the fee was paid, with
  at least the requested minimum.\<close>

theorem route_min_output:
  assumes "process_inner R program_id accs d n s = Ok s'"
    "read_header d n = Ok h" "split_accounts accs n = Ok a"
  shows "\<exists>cfg fee native s1 before after.
    check_config R program_id (config_acc a) (ledger s) = Ok cfg \<and>
    checked_fee (amount_in h) (fee_bps cfg) = Ok fee \<and>
    validate_output (user a) (user_output a) (expected_output_mint h) (n \<noteq> 0) (ledger s) = Ok native \<and>
    pay_fee R a cfg (fee_asset h) fee s = Ok s1 \<and>
    output_balance (ledger s1 (address (user_output a))) native = Ok before \<and>
    output_balance (ledger s' (address (user_output a))) native = Ok after \<and>
    unat (min_amount_out h) \<le> unat after - unat before"
proof -
  from process_inner_run [OF assms] obtain cfg native fee before s1 out q1 q2 where c:
    "check_config R program_id (config_acc a) (ledger s) = Ok cfg"
    "checked_fee (amount_in h) (fee_bps cfg) = Ok fee"
    "validate_output (user a) (user_output a) (expected_output_mint h) (n \<noteq> 0) (ledger s) = Ok native"
    "pay_fee R a cfg (fee_asset h) fee s = Ok s1"
    "output_balance (ledger s1 (address (user_output a))) native = Ok out"
    and e: "settle (mk_ctx n h a q1 q2) before fee native out (ledger s') = Ok ()"
    by metis
  from e obtain after where "output_balance (ledger s' (address (user_output a))) native = Ok after"
    "unat (min_amount_out h) \<le> unat after - unat out"
    by (auto elim: settle_Ok)
  with c show ?thesis by blast
qed

theorem route_min_output_witness:
  "\<exists>s'. process_inner demo_runtime 7 demo_accounts1 demo_data1 1 demo_chain = Ok s' \<and>
     (\<exists>native (s1 :: chain) before after.
        output_balance (ledger s1 (address (user_output demo_parts1))) native = Ok before \<and>
        output_balance (ledger s' (address (user_output demo_parts1))) native = Ok after \<and>
        90 \<le> unat after - unat before)"
proof -
  obtain s' where s': "process_inner demo_runtime 7 demo_accounts1 demo_data1 1 demo_chain = Ok s'"
    using demo_run1 ..
  with route_min_output [OF s' demo_header1 demo_split(2)] show ?thesis
    by (simp del: One_nat_def) metis
qed

text \<open>A route with dynamic legs leaves every intermediate account with the balance it had
  after the fee was paid: all that a leg credited was spent by the next. Each is a writable
  token account of the user, distinct from the other one, the fee source and the output.\<close>

theorem route_intermediates_restored:
  assumes "process_inner R program_id accs d n s = Ok s'"
    "read_header d n = Ok h" "split_accounts accs n = Ok a"
    "intermediate a = Some mid \<or> second_intermediate a = Some mid"
  shows "\<exists>cfg fee s1 q. check_config R program_id (config_acc a) (ledger s) = Ok cfg \<and>
    checked_fee (amount_in h) (fee_bps cfg) = Ok fee \<and>
    pay_fee R a cfg (fee_asset h) fee s = Ok s1 \<and>
    token_amount (ledger s1 (address mid)) = Ok q \<and> token_amount (ledger s' (address mid)) = Ok q \<and>
    is_writable mid \<and> token_owner (ledger s1 (address mid)) = Ok (address (user a)) \<and>
    address mid \<noteq> address (fee_source a) \<and> address mid \<noteq> address (user_output a)"
proof -
  from process_inner_run [OF assms(1-3)] obtain cfg native fee before s1 out q1 q2 where c:
    "check_config R program_id (config_acc a) (ledger s) = Ok cfg"
    "checked_fee (amount_in h) (fee_bps cfg) = Ok fee"
    "pay_fee R a cfg (fee_asset h) fee s = Ok s1"
    and q: "intermediate_snapshot a (intermediate a) None (ledger s1) = Ok q1"
    "intermediate_snapshot a (second_intermediate a) (intermediate a) (ledger s1) = Ok q2"
    and e: "settle (mk_ctx n h a q1 q2) before fee native out (ledger s') = Ok ()"
    by metis
  from e have r: "intermediate_spent (intermediate a) q1 (ledger s') = Ok ()"
    "intermediate_spent (second_intermediate a) q2 (ledger s') = Ok ()"
    by (auto elim: settle_Ok)
  from assms(4) show ?thesis
  proof
    assume m: "intermediate a = Some mid"
    with c intermediate_snapshot_Some [OF q(1) [unfolded m]] r(1) show ?thesis
      by (auto simp: intermediate_spent_Some)
  next
    assume m: "second_intermediate a = Some mid"
    with c intermediate_snapshot_Some [OF q(2) [unfolded m]] r(2) show ?thesis
      by (auto simp: intermediate_spent_Some)
  qed
qed

theorem route_intermediates_restored_witness:
  "\<exists>s' (s1 :: chain) q. process_inner demo_runtime 7 demo_accounts2 demo_data2 2 demo_chain = Ok s' \<and>
     token_amount (ledger s1 11) = Ok q \<and> token_amount (ledger s' 11) = Ok q"
proof -
  obtain s' where s': "process_inner demo_runtime 7 demo_accounts2 demo_data2 2 demo_chain = Ok s'"
    using demo_run2 ..
  have "intermediate demo_parts2 = Some (meta 11 True False) \<or>
      second_intermediate demo_parts2 = Some (meta 11 True False)" by (simp add: demo_parts2_def)
  from route_intermediates_restored [OF s' demo_header2 demo_split(3) this] s' show ?thesis
    by simp metis
qed

section \<open>Checks\<close>

text \<open>No route succeeds unless the user signed it, the configuration account is owned by
  the program, holds an initialised and unpaused configuration and is the program's
  canonical PDA for the stored bump, and the leg count is 1 to 4.\<close>

theorem route_guards:
  assumes "process_inner R program_id accs d n s = Ok s'"
  shows "\<exists>h a cfg. read_header d n = Ok h \<and> split_accounts accs n = Ok a \<and> is_signer (user a) \<and>
    owner (ledger s (address (config_acc a))) = program_id \<and>
    config_read (ledger s (address (config_acc a))) = Ok cfg \<and> paused cfg = 0 \<and>
    create_program_address R [CONFIG_SEED, [bump cfg]] program_id = Some (address (config_acc a)) \<and>
    amount_in h \<noteq> 0 \<and> 1 \<le> num_legs h \<and> num_legs h \<le> 4 \<and>
    (n \<noteq> 0 \<longrightarrow> num_legs h = n + 1 \<and> fee_asset h = 1 \<and> \<not> exact_out h \<and> min_amount_out h \<noteq> 0 \<and>
      intermediate_min_out h \<noteq> 0)"
proof -
  from process_inner_parts [OF assms] obtain h a
    where p: "read_header d n = Ok h" "split_accounts accs n = Ok a" .
  from process_inner_run [OF assms p] obtain cfg where
    g: "check_header h n = Ok ()" "is_signer (user a)"
    "check_config R program_id (config_acc a) (ledger s) = Ok cfg" by metis
  have "n \<noteq> 0 \<longrightarrow> fee_asset h = 1 \<and> \<not> exact_out h"
    using g(1) by (auto simp: check_header_def fee_asset_def exact_out_def split: if_splits)
  with p g show ?thesis
    by (auto simp: check_header_def check_config_def MAX_LEGS_def result_inv
        split: if_splits option.splits)
qed

theorem route_guards_witness:
  "\<exists>cfg. config_read (ledger demo_chain 2) = Ok cfg \<and> paused cfg = 0"
proof -
  obtain s' where s': "process_inner demo_runtime 7 demo_accounts2 demo_data2 2 demo_chain = Ok s'"
    using demo_run2 ..
  from route_guards [OF s'] show ?thesis by (auto simp: demo_split demo_parts2_def)
qed

end
