(* ===== verification/Route_Calls.thy ===== *)
theory Route_Calls
  imports Route_Demo
begin

text \<open>
  The calls a route makes: how a leg frame of the instruction becomes a call, which transfer
  pays the fee, and in which order the calls come.
\<close>

section \<open>Leg frames and calls\<close>

text \<open>The bytes of the instruction a fixed leg comes from, and the accounts it takes.\<close>

fun call_bytes :: "cpi_call \<Rightarrow> bytes" where
  "call_bytes (Invoke p accs ld) =
     key_bytes p @ [of_nat (length accs)] @ u16_bytes (of_nat (length ld)) @ ld"
| "call_bytes _ = []"

fun call_accounts :: "cpi_call \<Rightarrow> account_view list" where
  "call_accounts (Invoke p accs ld) = accs"
| "call_accounts _ = []"

lemma slice_split:
  assumes "a \<le> b" "b \<le> c"
  shows "slice a c xs = slice a b xs @ slice b c xs"
proof -
  have "c - a = (b - a) + (c - b)" "b - a + a = b" using assms by simp_all
  then show ?thesis by (simp only: slice_def take_add drop_drop)
qed

lemma slice_to_drop: "a \<le> b \<Longrightarrow> drop a xs = slice a b xs @ drop b xs"
  using append_take_drop_id [of "b - a" "drop a xs"] by (simp add: slice_def)

lemma slice_single: "i < length xs \<Longrightarrow> j = Suc i \<Longrightarrow> slice i j xs = [xs ! i]"
  by (simp add: slice_def take_Suc hd_drop_conv_nth)

lemma read_leg_frame:
  assumes "read_leg d cur = Ok f"
  shows "slice cur (lf_next f) d = key_bytes (lf_program f) @ [of_nat (lf_num_accounts f)] @
      u16_bytes (of_nat (length (lf_data f))) @ lf_data f"
    "lf_next f = cur + 35 + length (lf_data f)" "lf_next f \<le> length d"
    "1 \<le> lf_num_accounts f" "lf_num_accounts f \<le> MAX_LEG_ACCOUNTS"
proof -
  let ?len = "u16_of (slice (cur + 33) (cur + 35) d)"
  have f: "lf_program f = key_of (slice cur (cur + 32) d)" "lf_num_accounts f = unat (d ! (cur + 32))"
    "lf_data f = slice (cur + 35) (cur + 35 + unat ?len) d" "lf_next f = cur + 35 + unat ?len"
    "cur + 35 + unat ?len \<le> length d" "lf_num_accounts f \<noteq> 0" "lf_num_accounts f \<le> MAX_LEG_ACCOUNTS"
    using assms by (auto simp: read_leg_def read_u16_def result_inv get_range_Some get_at_def
        add.commute [of 35 cur] split: if_splits)
  then show "lf_next f = cur + 35 + length (lf_data f)" "lf_next f \<le> length d"
    "1 \<le> lf_num_accounts f" "lf_num_accounts f \<le> MAX_LEG_ACCOUNTS" by auto
  have s: "slice cur (cur + 35 + unat ?len) d = slice cur (cur + 32) d @ slice (cur + 32) (cur + 33) d @
      slice (cur + 33) (cur + 35) d @ slice (cur + 35) (cur + 35 + unat ?len) d"
    using slice_split [of cur "cur + 32" "cur + 35 + unat ?len" d]
      slice_split [of "cur + 32" "cur + 33" "cur + 35 + unat ?len" d]
      slice_split [of "cur + 33" "cur + 35" "cur + 35 + unat ?len" d] by simp
  have len: "length (lf_data f) = unat ?len" using f(3,5) by simp
  show "slice cur (lf_next f) d = key_bytes (lf_program f) @ [of_nat (lf_num_accounts f)] @
      u16_bytes (of_nat (length (lf_data f))) @ lf_data f"
    unfolding f(4) s len using f(1-3,5) slice_single [of "cur + 32" d "cur + 33"]
    by (simp add: bytes_of_field)
qed

lemma run_leg_Ok:
  assumes "run_leg R c d i st = Ok st'"
  obtains f accs ld where
    "read_leg d (ls_cursor st) = Ok f"
    "accs = slice (ls_offset st) (ls_offset st') (remaining (rc_accounts c))"
    "length accs = lf_num_accounts f" "ls_offset st' = ls_offset st + length accs"
    "ls_offset st' \<le> length (remaining (rc_accounts c))"
    "leg_invoke_data c i f accs (ls_received st) (ledger (ls_chain st)) = Ok ld"
    "cpi R (Invoke (lf_program f) accs ld) (ledger (ls_chain st)) = Ok (ledger (ls_chain st'))"
    "trace (ls_chain st') = trace (ls_chain st) @ [Invoke (lf_program f) accs ld]"
    "leg_received c i (ls_received st) (ledger (ls_chain st')) = Ok (ls_received st')"
    "ls_cursor st' = lf_next f"
  using assms
  by (auto simp: run_leg_def result_inv invoke_Ok take_leg_accounts_def split: if_splits)

text \<open>A route without dynamic legs relays the instruction's legs as they are.\<close>

lemma run_legs_fixed:
  assumes "run_legs R c d k i st = Ok st'" "rc_dynamic c = 0" "ls_cursor st \<le> length d"
    "ls_offset st \<le> length (remaining (rc_accounts c))"
  shows "\<exists>cs. trace (ls_chain st') = trace (ls_chain st) @ cs \<and> length cs = k \<and>
    ls_cursor st \<le> ls_cursor st' \<and> ls_cursor st' \<le> length d \<and>
    ls_offset st \<le> ls_offset st' \<and> ls_offset st' \<le> length (remaining (rc_accounts c)) \<and>
    slice (ls_cursor st) (ls_cursor st') d = concat (map call_bytes cs) \<and>
    slice (ls_offset st) (ls_offset st') (remaining (rc_accounts c)) = concat (map call_accounts cs)"
  using assms
proof (induction k arbitrary: i st)
  case 0
  then show ?case by (simp add: slice_def)
next
  case (Suc k)
  then obtain st1 where 1: "run_leg R c d i st = Ok st1" and 2: "run_legs R c d k (Suc i) st1 = Ok st'"
    by (auto simp: result_inv)
  from 1 obtain f accs ld where l: "read_leg d (ls_cursor st) = Ok f"
    "accs = slice (ls_offset st) (ls_offset st1) (remaining (rc_accounts c))"
    "length accs = lf_num_accounts f" "ls_offset st1 = ls_offset st + length accs"
    "ls_offset st1 \<le> length (remaining (rc_accounts c))"
    "leg_invoke_data c i f accs (ls_received st) (ledger (ls_chain st)) = Ok ld"
    "trace (ls_chain st1) = trace (ls_chain st) @ [Invoke (lf_program f) accs ld]"
    "ls_cursor st1 = lf_next f"
    by (rule run_leg_Ok)
  have ld: "ld = lf_data f"
    using l(6) Suc.prems(2) by (simp add: leg_invoke_data_def fixed_leg_data_def Let_def)
  note fr = read_leg_frame [OF l(1)]
  obtain cs where cs: "trace (ls_chain st') = trace (ls_chain st1) @ cs" "length cs = k"
    "ls_cursor st1 \<le> ls_cursor st'" "ls_cursor st' \<le> length d"
    "ls_offset st1 \<le> ls_offset st'" "ls_offset st' \<le> length (remaining (rc_accounts c))"
    "slice (ls_cursor st1) (ls_cursor st') d = concat (map call_bytes cs)"
    "slice (ls_offset st1) (ls_offset st') (remaining (rc_accounts c)) = concat (map call_accounts cs)"
    using Suc.IH [OF 2 Suc.prems(2)] l(5,8) fr(3) by auto
  have b: "slice (ls_cursor st) (ls_cursor st') d =
      call_bytes (Invoke (lf_program f) accs ld) @ concat (map call_bytes cs)"
    using slice_split [of "ls_cursor st" "ls_cursor st1" "ls_cursor st'" d] cs(3,7) l(3,8) fr(1,2) ld
    by simp
  have a: "slice (ls_offset st) (ls_offset st') (remaining (rc_accounts c)) =
      accs @ concat (map call_accounts cs)"
    using slice_split [OF _ cs(5), of "ls_offset st" "remaining (rc_accounts c)"] l(4)
    unfolding cs(8) l(2) [symmetric] by simp
  have "ls_cursor st \<le> ls_cursor st'" "ls_offset st \<le> ls_offset st'"
    using cs(3,5) l(4,8) fr(2) by linarith+
  with a b cs(1,2,4,6) l(7) show ?case
    by (intro exI [of _ "Invoke (lf_program f) accs ld # cs"]) simp
qed

section \<open>The fee call\<close>

text \<open>The transfer of the platform fee: from the fee source to the fee destination, signed by
  the user, in lamports or in tokens (checked or not).\<close>

definition is_fee_call :: "route_accounts \<Rightarrow> u8 \<Rightarrow> u64 \<Rightarrow> cpi_call \<Rightarrow> bool" where
  "is_fee_call a asset fee c \<longleftrightarrow>
     (if asset = 0
      then c = SystemTransfer (address (fee_source a)) (address (fee_destination a)) fee
      else c = TokenTransfer (address (fee_source a)) (address (fee_destination a))
          (address (user a)) fee (address (fee_program a)) \<or>
        (\<exists>mint decimals. c = Invoke (address (fee_program a))
          [meta (address (fee_source a)) True False, meta mint False False,
           meta (address (fee_destination a)) True False, meta (address (user a)) False True]
          (12 # u64_bytes fee @ [decimals])))"

definition fee_recipient_ok :: "route_accounts \<Rightarrow> router_config \<Rightarrow> u8 \<Rightarrow> ledger \<Rightarrow> bool" where
  "fee_recipient_ok a cfg asset L \<longleftrightarrow>
     (if asset = 0 then address (fee_destination a) = fee_recipient cfg
      else token_owner (L (address (fee_destination a))) = Ok (fee_recipient cfg) \<and>
        token_mint (L (address (fee_destination a))) = token_mint (L (address (fee_source a))) \<and>
        owner (L (address (fee_destination a))) = address (fee_program a) \<and>
        is_token_program (address (fee_program a)))"

lemma transfer_token_fee_call:
  assumes "transfer_token_fee R a m fee s = Ok s1" "asset \<noteq> 0"
  shows "\<exists>c. is_fee_call a asset fee c \<and> trace s1 = trace s @ [c] \<and> cpi R c (ledger s) = Ok (ledger s1)"
  using assms
  by (fastforce simp: transfer_token_fee_def Let_def is_fee_call_def invoke_Ok
      split: option.splits if_splits)

lemma pay_fee_call:
  assumes "pay_fee R a cfg asset fee s = Ok s1" "0 < fee"
  shows "\<exists>c. is_fee_call a asset fee c \<and> trace s1 = trace s @ [c] \<and>
    cpi R c (ledger s) = Ok (ledger s1) \<and> fee_recipient_ok a cfg asset (ledger s)"
proof (cases "asset = 0")
  case True
  with assms show ?thesis
    by (auto simp: pay_fee_def pay_sol_fee_def is_fee_call_def fee_recipient_ok_def invoke_Ok
        split: if_splits)
next
  case False
  with assms have p: "pay_token_fee R a cfg fee s = Ok s1"
    by (auto simp: pay_fee_def split: if_splits)
  then obtain m where t: "transfer_token_fee R a m fee s = Ok s1"
    by (auto simp: pay_token_fee_def Let_def result_inv split: if_splits)
  have "fee_recipient_ok a cfg asset (ledger s)"
    using p False by (auto simp: pay_token_fee_def Let_def result_inv fee_recipient_ok_def
        is_token_program_def split: if_splits)
  with transfer_token_fee_call [OF t False] show ?thesis by blast
qed

text \<open>Every successful route makes its calls in this order: one transfer of the platform
  fee from the fee source to the recipient of the configuration (none if the fee is zero),
  then exactly one invocation per leg and nothing else.\<close>

theorem route_calls:
  assumes "process_inner R program_id accs d n s = Ok s'"
    "read_header d n = Ok h" "split_accounts accs n = Ok a"
  shows "\<exists>cfg fees legs. check_config R program_id (config_acc a) (ledger s) = Ok cfg \<and>
    trace s' = trace s @ fees @ legs \<and> length legs = num_legs h \<and>
    (\<forall>x \<in> set legs. \<exists>p leg_accs ld. x = Invoke p leg_accs ld) \<and>
    (if unat (amount_in h) * unat (fee_bps cfg) div 10000 = 0 then fees = []
     else \<exists>c fee. fees = [c] \<and> is_fee_call a (fee_asset h) fee c \<and>
       unat fee = unat (amount_in h) * unat (fee_bps cfg) div 10000 \<and>
       fee_recipient_ok a cfg (fee_asset h) (ledger s))"
proof -
  from process_inner_run [OF assms] obtain cfg fee s1 q1 q2 st where
    c: "check_config R program_id (config_acc a) (ledger s) = Ok cfg"
    "checked_fee (amount_in h) (fee_bps cfg) = Ok fee"
    "pay_fee R a cfg (fee_asset h) fee s = Ok s1"
    and l: "run_legs R (mk_ctx n h a q1 q2) d (num_legs h) 0 (initial_loop n s1) = Ok st"
    and s': "s' = ls_chain st" by metis
  from run_legs_trace [OF l] obtain legs where legs: "trace s' = trace s1 @ legs"
    "length legs = num_legs h" "\<forall>x \<in> set legs. \<exists>p leg_accs ld. x = Invoke p leg_accs ld"
    by (auto simp: s' initial_loop_def)
  note v = checked_fee_value [OF c(2)]
  show ?thesis
  proof (cases "fee = 0")
    case True
    then have "s1 = s" using pay_fee_trace [OF c(3)] by simp
    with True c(1) legs v show ?thesis
      by (intro exI [of _ cfg] exI [of _ "[]"] exI [of _ legs]) simp
  next
    case False
    then have "0 < fee" by (simp add: word_gt_0)
    from pay_fee_call [OF c(3) this] obtain k where "is_fee_call a (fee_asset h) fee k"
      "trace s1 = trace s @ [k]" "fee_recipient_ok a cfg (fee_asset h) (ledger s)" by blast
    moreover have "unat fee \<noteq> 0" using False by (simp add: unat_eq_zero)
    ultimately show ?thesis using c(1) legs v
      by (intro exI [of _ cfg] exI [of _ "[k]"] exI [of _ legs]) auto
  qed
qed

theorem route_calls_witness:
  "\<exists>s' fees legs. process_inner demo_runtime 7 demo_accounts2 demo_data2 2 demo_chain = Ok s' \<and>
     trace s' = fees @ legs \<and> length legs = 3"
proof -
  obtain s' where s': "process_inner demo_runtime 7 demo_accounts2 demo_data2 2 demo_chain = Ok s'"
    using demo_run2 ..
  from route_calls [OF s' demo_header2 demo_split(3)] s' show ?thesis
    by (auto simp: demo_chain_def)
qed

text \<open>A route without dynamic legs relays its legs unchanged: the concatenated frames of
  the calls it makes are the instruction data after the header, the concatenated account
  lists are the accounts after the six fixed ones, each up to an unread rest.\<close>

theorem route_fixed_relays:
  assumes "route_process R program_id accs d s = Ok s'"
    "read_header d 0 = Ok h" "split_accounts accs 0 = Ok a"
  shows "\<exists>fees legs rest more. trace s' = trace s @ fees @ legs \<and> length fees \<le> 1 \<and>
    length legs = num_legs h \<and> drop 50 d = concat (map call_bytes legs) @ rest \<and>
    drop 6 accs = concat (map call_accounts legs) @ more"
proof -
  from assms(1) have run: "process_inner R program_id accs d 0 s = Ok s'"
    by (simp add: route_process_def)
  from process_inner_run [OF run assms(2,3)] obtain cfg fee s1 q1 q2 st where
    f: "pay_fee R a cfg (fee_asset h) fee s = Ok s1"
    and l: "run_legs R (mk_ctx 0 h a q1 q2) d (num_legs h) 0 (initial_loop 0 s1) = Ok st"
    and s': "s' = ls_chain st" by metis
  have rem: "remaining a = drop 6 accs" using assms(3)
    by (auto simp: split_accounts_def split: list.splits)
  have "50 \<le> length d" using assms(2) by (simp add: read_header_def ROUTE_HEADER_LEN_def split: if_splits)
  then have b: "ls_cursor (initial_loop 0 s1) \<le> length d" "ls_cursor (initial_loop 0 s1) = 50"
    "ls_offset (initial_loop 0 s1) = 0" "ls_chain (initial_loop 0 s1) = s1"
    by (simp_all add: initial_loop_def ROUTE_HEADER_LEN_def)
  obtain legs where legs: "trace s' = trace s1 @ legs" "length legs = num_legs h" "50 \<le> ls_cursor st"
    "slice 50 (ls_cursor st) d = concat (map call_bytes legs)"
    "slice 0 (ls_offset st) (drop 6 accs) = concat (map call_accounts legs)"
    using run_legs_fixed [OF l _ b(1)] unfolding b(2-4) mk_ctx_simps s' rem by auto
  obtain fees where "trace s1 = trace s @ fees" "length fees \<le> 1"
    using pay_fee_trace [OF f] by auto
  with legs slice_to_drop [OF legs(3), of d] slice_to_drop [of 0 "ls_offset st" "drop 6 accs"]
  show ?thesis by (intro exI [of _ fees] exI [of _ legs]) auto
qed

theorem route_fixed_relays_witness:
  "\<exists>s' fees legs rest. route_process demo_runtime 7 demo_accounts0 (demo_data0 120 129) demo_chain = Ok s' \<and>
     trace s' = fees @ legs \<and> length legs = 1 \<and>
     drop 50 (demo_data0 120 129) = concat (map call_bytes legs) @ rest"
proof -
  obtain s' where s': "route_process demo_runtime 7 demo_accounts0 (demo_data0 120 129) demo_chain = Ok s'"
    using demo_run0 unfolding route_process_def ..
  from route_fixed_relays [OF s' demo_header0 demo_split(1)] s' show ?thesis
    by (auto simp: demo_chain_def)
qed

end
