(* ===== verification/Route_Dynamic.thy ===== *)
theory Route_Dynamic
  imports Route_Calls
begin

text \<open>
  Legs sized on chain. The amount a dynamic leg spends is not in the instruction: it is the
  balance change of an intermediate account across the previous leg.
\<close>

section \<open>A leg sized on chain\<close>

text \<open>A call of an exact-input swap of amount \<open>r\<close> from \<open>inp\<close> to \<open>out\<close>, signed by the user,
  whose data is the instruction's leg \<open>ld\<close> with the amount written into it.\<close>

definition sized_swap ::
  "account_view \<Rightarrow> account_view \<Rightarrow> account_view \<Rightarrow> u64 \<Rightarrow> pubkey \<Rightarrow> account_view list \<Rightarrow> bytes \<Rightarrow> bytes \<Rightarrow> bool" where
  "sized_swap usr inp out r p accs ld sized \<longleftrightarrow>
     (\<exists>l. dynamic_second_leg p ld = Ok l \<and> dynamic_second_leg p sized = Ok l \<and>
       sized = copy_into (amount_offset l) (u64_bytes r) ld \<and>
       u64_of (slice (amount_offset l) (amount_offset l + 8) sized) = r \<and>
       layout_in_range l (length accs) \<and>
       address (accs ! input_account l) = address inp \<and> is_writable (accs ! input_account l) \<and>
       address (accs ! output_account l) = address out \<and> is_writable (accs ! output_account l) \<and>
       address (accs ! signer l) = address usr \<and> is_signer (accs ! signer l))"

lemma validate_dynamic_accounts_Ok:
  "validate_dynamic_accounts l accs usr inp out L = Ok () \<Longrightarrow>
   layout_in_range l (length accs) \<and>
   address (accs ! input_account l) = address inp \<and> is_writable (accs ! input_account l) \<and>
   address (accs ! output_account l) = address out \<and> is_writable (accs ! output_account l) \<and>
   address (accs ! signer l) = address usr \<and> is_signer (accs ! signer l)"
  by (simp add: validate_dynamic_accounts_def split: if_splits)

lemma sized_swapI:
  assumes "dynamic_second_leg p ld = Ok l" "validate_dynamic_accounts l accs usr inp out L = Ok ()"
  shows "sized_swap usr inp out r p accs ld (patch_second_leg_amount ld r (amount_offset l))"
proof -
  have o: "amount_offset l + 8 \<le> length ld" "length ld \<le> MAX_DYNAMIC_LEG_DATA"
    using dynamic_layout_offsets [OF assms(1)] by auto
  then show ?thesis
    unfolding sized_swap_def patch_is_copy_into [OF o]
    using assms(1) dynamic_second_leg_patch [OF assms(1), of r] validate_dynamic_accounts_Ok [OF assms(2)]
      u64c.copy_back [of "amount_offset l" ld r] by blast
qed

lemma need_intermediate_Ok [result_inv]: "need_intermediate x = Ok y \<longleftrightarrow> x = Some y"
  by (simp add: need_intermediate_def result_inv)

lemma final_leg_sized:
  assumes "final_leg_data c f accs r L = Ok ld"
  shows "\<exists>inp. (if rc_dynamic c = 2 then second_intermediate (rc_accounts c)
      else intermediate (rc_accounts c)) = Some inp \<and>
    sized_swap (user (rc_accounts c)) inp (user_output (rc_accounts c)) r (lf_program f) accs
      (lf_data f) ld \<and>
    (\<exists>l. dynamic_second_leg (lf_program f) (lf_data f) = Ok l \<and>
      validate_dynamic_accounts l accs (user (rc_accounts c)) inp (user_output (rc_accounts c)) L = Ok ())"
  using assms
  by (auto simp: final_leg_data_def Let_def result_inv intro: sized_swapI split: if_splits)

lemma middle_leg_sized:
  assumes "middle_leg_data c f accs r L = Ok ld"
  shows "\<exists>inp out. intermediate (rc_accounts c) = Some inp \<and>
    second_intermediate (rc_accounts c) = Some out \<and> lf_program f \<noteq> LAUNCHLAB_PROGRAM_ID \<and>
    sized_swap (user (rc_accounts c)) inp out r (lf_program f) accs (lf_data f) ld"
  using assms
  by (auto simp: middle_leg_data_def Let_def result_inv intro: sized_swapI split: if_splits)

section \<open>Two legs\<close>

text \<open>A successful two-leg route, from the state after the fee.\<close>

lemma two_leg_run:
  assumes run: "process_inner R program_id accs d 1 s = Ok s'"
    and "read_header d 1 = Ok h" "split_accounts accs 1 = Ok a"
  obtains cfg fee s1 mid fees p1 accs1 d1 p2 accs2 leg2 d2 L1 q q1 r where
    "check_config R program_id (config_acc a) (ledger s) = Ok cfg"
    "checked_fee (amount_in h) (fee_bps cfg) = Ok fee" "pay_fee R a cfg (fee_asset h) fee s = Ok s1"
    "intermediate a = Some mid" "length fees \<le> 1"
    "trace s' = trace s @ fees @ [Invoke p1 accs1 d1, Invoke p2 accs2 d2]"
    "cpi R (Invoke p1 accs1 d1) (ledger s1) = Ok L1" "cpi R (Invoke p2 accs2 d2) L1 = Ok (ledger s')"
    "token_amount (ledger s1 (address mid)) = Ok q" "token_amount (L1 (address mid)) = Ok q1"
    "unat q1 = unat q + unat r" "token_amount (ledger s' (address mid)) = Ok q"
    "unat (intermediate_min_out h) \<le> unat r" "sized_swap (user a) mid (user_output a) r p2 accs2 leg2 d2"
    "\<exists>l. dynamic_second_leg p2 leg2 = Ok l \<and>
      validate_dynamic_accounts l accs2 (user a) mid (user_output a) L1 = Ok ()"
proof -
  from process_inner_run [OF assms] obtain cfg native fee before out s1 q1 q2 st where
    k: "check_config R program_id (config_acc a) (ledger s) = Ok cfg"
    "checked_fee (amount_in h) (fee_bps cfg) = Ok fee"
    and g: "check_header h 1 = Ok ()" and f: "pay_fee R a cfg (fee_asset h) fee s = Ok s1"
    and q: "intermediate_snapshot a (intermediate a) None (ledger s1) = Ok q1"
    and l: "run_legs R (mk_ctx 1 h a q1 q2) d (num_legs h) 0 (initial_loop 1 s1) = Ok st"
    and e: "settle (mk_ctx 1 h a q1 q2) before fee native out (ledger (ls_chain st)) = Ok ()"
    and s': "s' = ls_chain st" by metis
  let ?c = "mk_ctx 1 h a q1 q2"
  from g have n: "num_legs h = 2" by (auto simp: check_header_def split: if_splits)
  then obtain st1 where 1: "run_leg R ?c d 0 (initial_loop 1 s1) = Ok st1"
    and 2: "run_leg R ?c d 1 st1 = Ok st"
    using l by (auto simp: numeral_2_eq_2 result_inv)
  from 1 obtain p1 accs1 d1 where c1: "cpi R (Invoke p1 accs1 d1) (ledger s1) = Ok (ledger (ls_chain st1))"
    "trace (ls_chain st1) = trace s1 @ [Invoke p1 accs1 d1]"
    "leg_received ?c 0 0 (ledger (ls_chain st1)) = Ok (ls_received st1)"
    by (auto simp: initial_loop_def elim: run_leg_Ok)
  from 2 obtain f accs2 d2 where c2: "leg_invoke_data ?c 1 f accs2 (ls_received st1) (ledger (ls_chain st1)) = Ok d2"
    "cpi R (Invoke (lf_program f) accs2 d2) (ledger (ls_chain st1)) = Ok (ledger s')"
    "trace s' = trace (ls_chain st1) @ [Invoke (lf_program f) accs2 d2]"
    by (auto simp: s' elim: run_leg_Ok)
  from c2(1) n obtain mid where mid: "intermediate a = Some mid"
    and sw: "sized_swap (user a) mid (user_output a) (ls_received st1) (lf_program f) accs2 (lf_data f) d2"
      "\<exists>l. dynamic_second_leg (lf_program f) (lf_data f) = Ok l \<and> validate_dynamic_accounts l accs2 (user a) mid
        (user_output a) (ledger (ls_chain st1)) = Ok ()"
    using final_leg_sized [of ?c f accs2 "ls_received st1" "ledger (ls_chain st1)" d2]
    by (auto simp: leg_invoke_data_def)
  from c1(3) mid obtain q' where r: "token_amount (ledger (ls_chain st1) (address mid)) = Ok q'"
    "unat q' = unat q1 + unat (ls_received st1)" "unat (intermediate_min_out h) \<le> unat (ls_received st1)"
    by (auto simp: leg_received_def Let_def result_inv received_quote_Ok)
  have b: "token_amount (ledger s1 (address mid)) = Ok q1"
    using intermediate_snapshot_Some [OF q [unfolded mid]] by blast
  have e': "token_amount (ledger s' (address mid)) = Ok q1"
    using settle_Ok [OF e] mid by (auto simp: intermediate_spent_Some s')
  obtain fees where fees: "trace s1 = trace s @ fees" "length fees \<le> 1" using pay_fee_trace [OF f] by auto
  then have "trace s' = trace s @ fees @ [Invoke p1 accs1 d1, Invoke (lf_program f) accs2 d2]"
    using c1(2) c2(3) by simp
  from that [OF k f mid fees(2) this c1(1) c2(2) b r(1,2) e' r(3) sw] show thesis .
qed

text \<open>C15. In a two-leg dynamic route the second call spends exactly what the first one credited:
  the amount in its data is the change of the intermediate balance across the first call, at
  least the requested minimum, and is gone from that account at the end.\<close>

theorem dynamic_route_spends_delta:
  assumes "route_process_dynamic R program_id accs d s = Ok s'"
    "read_header d 1 = Ok h" "split_accounts accs 1 = Ok a"
  shows "\<exists>mid fees p1 accs1 d1 p2 accs2 leg2 d2 L0 L1 q r.
    intermediate a = Some mid \<and>
    trace s' = trace s @ fees @ [Invoke p1 accs1 d1, Invoke p2 accs2 d2] \<and>
    cpi R (Invoke p1 accs1 d1) L0 = Ok L1 \<and> cpi R (Invoke p2 accs2 d2) L1 = Ok (ledger s') \<and>
    token_amount (L0 (address mid)) = Ok q \<and>
    (\<exists>q1. token_amount (L1 (address mid)) = Ok q1 \<and> unat q1 = unat q + unat r) \<and>
    token_amount (ledger s' (address mid)) = Ok q \<and>
    unat (intermediate_min_out h) \<le> unat r \<and>
    sized_swap (user a) mid (user_output a) r p2 accs2 leg2 d2"
  by (rule two_leg_run [OF assms [unfolded route_process_dynamic_def]]) blast

theorem dynamic_route_spends_delta_witness:
  "\<exists>s' fees p1 accs1 d1 p2 accs2 leg2 d2 r.
     route_process_dynamic demo_runtime 7 demo_accounts1 demo_data1 demo_chain = Ok s' \<and>
     trace s' = fees @ [Invoke p1 accs1 d1, Invoke p2 accs2 d2] \<and> 50 \<le> unat r \<and>
     sized_swap (user demo_parts1) (meta 10 True False) (user_output demo_parts1) r p2 accs2 leg2 d2"
proof -
  obtain s' where s': "route_process_dynamic demo_runtime 7 demo_accounts1 demo_data1 demo_chain = Ok s'"
    using demo_run1 unfolding route_process_dynamic_def ..
  have "intermediate demo_parts1 = Some (meta 10 True False)" "trace demo_chain = []"
    by (simp_all add: demo_parts1_def demo_chain_def)
  with dynamic_route_spends_delta [OF s' demo_header1 demo_split(2)] s' show ?thesis
    by (simp del: One_nat_def) metis
qed

section \<open>Three legs\<close>

text \<open>C6. In a three-leg dynamic route the second call spends exactly what the first one
  credited to the first intermediate account, the third exactly what the second credited to
  the second one, each at least its minimum; both accounts end with their initial balance.
  The second leg is never a LaunchLab buy.\<close>

theorem dynamic_route_three_spends_deltas:
  assumes "route_process_dynamic_three R program_id accs d s = Ok s'"
    "read_header d 2 = Ok h" "split_accounts accs 2 = Ok a"
  shows "\<exists>m1 m2 fees p1 accs1 d1 p2 accs2 leg2 d2 p3 accs3 leg3 d3 L0 L1 L2 q1 q1' q2 q2' r1 r2.
    intermediate a = Some m1 \<and> second_intermediate a = Some m2 \<and> address m1 \<noteq> address m2 \<and>
    trace s' = trace s @ fees @ [Invoke p1 accs1 d1, Invoke p2 accs2 d2, Invoke p3 accs3 d3] \<and>
    cpi R (Invoke p1 accs1 d1) L0 = Ok L1 \<and> cpi R (Invoke p2 accs2 d2) L1 = Ok L2 \<and>
    cpi R (Invoke p3 accs3 d3) L2 = Ok (ledger s') \<and>
    token_amount (L0 (address m1)) = Ok q1 \<and> token_amount (L0 (address m2)) = Ok q2 \<and>
    token_amount (L1 (address m1)) = Ok q1' \<and> unat q1' = unat q1 + unat r1 \<and>
    token_amount (L2 (address m2)) = Ok q2' \<and> unat q2' = unat q2 + unat r2 \<and>
    token_amount (ledger s' (address m1)) = Ok q1 \<and> token_amount (ledger s' (address m2)) = Ok q2 \<and>
    unat (intermediate_min_out h) \<le> unat r1 \<and> unat (second_intermediate_min_out h) \<le> unat r2 \<and>
    p2 \<noteq> LAUNCHLAB_PROGRAM_ID \<and>
    sized_swap (user a) m1 m2 r1 p2 accs2 leg2 d2 \<and>
    sized_swap (user a) m2 (user_output a) r2 p3 accs3 leg3 d3"
proof -
  from assms(1) have run: "process_inner R program_id accs d 2 s = Ok s'"
    by (simp add: route_process_dynamic_three_def)
  from process_inner_run [OF run assms(2,3)] obtain cfg native fee before out s1 q1 q2 st where
    g: "check_header h 2 = Ok ()" and f: "pay_fee R a cfg (fee_asset h) fee s = Ok s1"
    and q: "intermediate_snapshot a (intermediate a) None (ledger s1) = Ok q1"
      "intermediate_snapshot a (second_intermediate a) (intermediate a) (ledger s1) = Ok q2"
    and l: "run_legs R (mk_ctx 2 h a q1 q2) d (num_legs h) 0 (initial_loop 2 s1) = Ok st"
    and e: "settle (mk_ctx 2 h a q1 q2) before fee native out (ledger (ls_chain st)) = Ok ()"
    and s': "s' = ls_chain st" by metis
  let ?c = "mk_ctx 2 h a q1 q2"
  from g have n: "num_legs h = 3" by (auto simp: check_header_def split: if_splits)
  then obtain st1 st2 where 1: "run_leg R ?c d 0 (initial_loop 2 s1) = Ok st1"
    and 2: "run_leg R ?c d 1 st1 = Ok st2" and 3: "run_leg R ?c d 2 st2 = Ok st"
    using l by (auto simp: numeral_3_eq_3 numeral_2_eq_2 result_inv)
  from 1 obtain p1 accs1 d1 where c1: "cpi R (Invoke p1 accs1 d1) (ledger s1) = Ok (ledger (ls_chain st1))"
    "trace (ls_chain st1) = trace s1 @ [Invoke p1 accs1 d1]"
    "leg_received ?c 0 0 (ledger (ls_chain st1)) = Ok (ls_received st1)"
    by (auto simp: initial_loop_def elim: run_leg_Ok)
  from 2 obtain f2 accs2 d2 where c2: "leg_invoke_data ?c 1 f2 accs2 (ls_received st1) (ledger (ls_chain st1)) = Ok d2"
    "cpi R (Invoke (lf_program f2) accs2 d2) (ledger (ls_chain st1)) = Ok (ledger (ls_chain st2))"
    "trace (ls_chain st2) = trace (ls_chain st1) @ [Invoke (lf_program f2) accs2 d2]"
    "leg_received ?c 1 (ls_received st1) (ledger (ls_chain st2)) = Ok (ls_received st2)"
    by (auto elim: run_leg_Ok)
  from 3 obtain f3 accs3 d3 where c3: "leg_invoke_data ?c 2 f3 accs3 (ls_received st2) (ledger (ls_chain st2)) = Ok d3"
    "cpi R (Invoke (lf_program f3) accs3 d3) (ledger (ls_chain st2)) = Ok (ledger s')"
    "trace s' = trace (ls_chain st2) @ [Invoke (lf_program f3) accs3 d3]"
    by (auto simp: s' elim: run_leg_Ok)
  from c2(1) have "middle_leg_data ?c f2 accs2 (ls_received st1) (ledger (ls_chain st1)) = Ok d2"
    by (simp add: leg_invoke_data_def)
  from middle_leg_sized [OF this] obtain m1 m2 where m: "intermediate a = Some m1"
    "second_intermediate a = Some m2" "lf_program f2 \<noteq> LAUNCHLAB_PROGRAM_ID"
    and sw2: "sized_swap (user a) m1 m2 (ls_received st1) (lf_program f2) accs2 (lf_data f2) d2"
    by auto
  from c3(1) n have "final_leg_data ?c f3 accs3 (ls_received st2) (ledger (ls_chain st2)) = Ok d3"
    by (simp add: leg_invoke_data_def)
  from final_leg_sized [OF this] m have
    sw3: "sized_swap (user a) m2 (user_output a) (ls_received st2) (lf_program f3) accs3 (lf_data f3) d3"
    by auto
  from c1(3) m(1) obtain q1' where r1: "token_amount (ledger (ls_chain st1) (address m1)) = Ok q1'"
    "unat q1' = unat q1 + unat (ls_received st1)" "unat (intermediate_min_out h) \<le> unat (ls_received st1)"
    by (auto simp: leg_received_def Let_def result_inv received_quote_Ok)
  from c2(4) m(2) obtain q2' where r2: "token_amount (ledger (ls_chain st2) (address m2)) = Ok q2'"
    "unat q2' = unat q2 + unat (ls_received st2)"
    "unat (second_intermediate_min_out h) \<le> unat (ls_received st2)"
    by (auto simp: leg_received_def Let_def result_inv received_quote_Ok)
  have b: "token_amount (ledger s1 (address m1)) = Ok q1" "token_amount (ledger s1 (address m2)) = Ok q2"
    using intermediate_snapshot_Some [OF q(1) [unfolded m]] intermediate_snapshot_Some [OF q(2) [unfolded m(2)]]
    by blast+
  have d: "address m1 \<noteq> address m2"
    using q(2) by (auto simp: intermediate_snapshot_def m result_inv split: if_splits)
  have e': "token_amount (ledger s' (address m1)) = Ok q1" "token_amount (ledger s' (address m2)) = Ok q2"
    using settle_Ok [OF e] m by (auto simp: intermediate_spent_Some s')
  obtain fees where "trace s1 = trace s @ fees" using pay_fee_trace [OF f] by auto
  then have t: "trace s' = trace s @ fees @ [Invoke p1 accs1 d1, Invoke (lf_program f2) accs2 d2,
      Invoke (lf_program f3) accs3 d3]"
    using c1(2) c2(3) c3(3) by simp
  show ?thesis
    by (intro exI conjI) (fact t m(1,2) d c1(1) c2(2) c3(2) b r1(1,2) r2(1,2) e' r1(3) r2(3) m(3) sw2 sw3)+
qed

theorem dynamic_route_three_spends_deltas_witness:
  "\<exists>s' fees p1 accs1 d1 p2 accs2 leg2 d2 p3 accs3 leg3 d3 r1 r2.
     route_process_dynamic_three demo_runtime 7 demo_accounts2 demo_data2 demo_chain = Ok s' \<and>
     trace s' = fees @ [Invoke p1 accs1 d1, Invoke p2 accs2 d2, Invoke p3 accs3 d3] \<and>
     50 \<le> unat r1 \<and> 60 \<le> unat r2 \<and>
     sized_swap (user demo_parts2) (meta 10 True False) (meta 11 True False) r1 p2 accs2 leg2 d2 \<and>
     sized_swap (user demo_parts2) (meta 11 True False) (user_output demo_parts2) r2 p3 accs3 leg3 d3"
proof -
  obtain s' where s': "route_process_dynamic_three demo_runtime 7 demo_accounts2 demo_data2 demo_chain = Ok s'"
    using demo_run2 unfolding route_process_dynamic_three_def ..
  have i: "intermediate demo_parts2 = Some (meta 10 True False)"
    "second_intermediate demo_parts2 = Some (meta 11 True False)" and t: "trace demo_chain = []"
    by (simp_all add: demo_parts2_def demo_chain_def)
  from dynamic_route_three_spends_deltas [OF s' demo_header2 demo_split(3)] s' show ?thesis
    unfolding i t by simp metis
qed

end
