(* ===== verification/Config_Props.thy ===== *)
theory Config_Props
  imports Route_Calls
begin

text \<open>
  The configuration account over time. Each handler is characterised by what it does to the
  account; instructions of the program, which may call itself, and steps of other programs form
  a transition relation, and its invariants are proved by induction on reachability.
\<close>

section \<open>The two configuration handlers\<close>

lemma config_write_new_Ok:
  "config_write_new a auth recipient bps bmp = Ok a' \<longleftrightarrow>
   \<not> bps > MAX_FEE_BPS \<and> CONFIG_LEN \<le> length (acc_data a) \<and>
   \<not> is_initialized (decode_config (acc_data a)) \<and>
   a' = store_config \<lparr>discriminator = CONFIG_DISCRIMINATOR, authority = auth,
        fee_recipient = recipient, fee_bps = bps, bump = bmp, paused = 0, padding = [0, 0, 0, 0]\<rparr> a"
  by (auto simp: config_write_new_def)

lemma owner_store_config [simp]: "owner (store_config c a) = owner a"
  by (simp add: store_config_def)

definition updated_config :: "pubkey option \<Rightarrow> u16 option \<Rightarrow> bool option \<Rightarrow> router_config \<Rightarrow> router_config" where
  "updated_config recipient bps pause cfg = cfg\<lparr>
     fee_recipient := (case recipient of Some r \<Rightarrow> r | None \<Rightarrow> fee_recipient cfg),
     fee_bps := (case bps of Some b \<Rightarrow> b | None \<Rightarrow> fee_bps cfg),
     paused := (case pause of Some p \<Rightarrow> if p then 1 else 0 | None \<Rightarrow> paused cfg)\<rparr>"

lemma config_update_Ok:
  assumes "config_read a = Ok cfg" "config_update a recipient bps pause = Ok a'"
  shows "a' = store_config (updated_config recipient bps pause cfg) a"
    "config_read a' = Ok (updated_config recipient bps pause cfg)"
proof -
  have u: "decode_config (acc_data a) = cfg" "is_initialized cfg" "CONFIG_LEN \<le> length (acc_data a)"
    using assms(1) by (auto simp: config_read_Ok)
  then show a': "a' = store_config (updated_config recipient bps pause cfg) a"
    using assms(2)
    by (auto simp: config_update_def Let_def updated_config_def split: if_splits option.splits)
  have "wf_config cfg" using u wf_decode_config by blast
  then show "config_read a' = Ok (updated_config recipient bps pause cfg)"
    unfolding a' using u(2) by (intro config_read_store) (simp_all add: updated_config_def)
qed

definition initial_config :: "pubkey \<Rightarrow> pubkey \<Rightarrow> u16 \<Rightarrow> u8 \<Rightarrow> router_config" where
  "initial_config auth recipient bps bmp =
     \<lparr>discriminator = CONFIG_DISCRIMINATOR, authority = auth, fee_recipient = recipient,
      fee_bps = bps, bump = bmp, paused = 0, padding = [0, 0, 0, 0]\<rparr>"

lemma initialize_Ok:
  assumes "initialize R program_id accs d s = Ok s'"
  obtains payer config recipient rest s1 where "accs = payer # config # recipient # rest"
    "is_signer payer" "config_pda R program_id = (address config, d ! 2)"
    "unat (u16_of (slice 0 2 d)) \<le> 1000"
    "invoke R (CreateAccount (address config) CONFIG_LEN program_id (address payer)
      [CONFIG_SEED, [d ! 2]]) s = Ok s1"
    "s' = set_account (address config) (store_config (initial_config (address payer)
      (address recipient) (u16_of (slice 0 2 d)) (d ! 2)) (ledger s1 (address config))) s1"
    "config_read (ledger s' (address config)) = Ok (initial_config (address payer)
      (address recipient) (u16_of (slice 0 2 d)) (d ! 2))"
proof -
  from assms obtain payer config recipient rest where
    a: "accs = payer # config # recipient # rest" "is_signer payer"
    "config_pda R program_id = (address config, d ! 2)" "\<not> u16_of (slice 0 2 d) > MAX_FEE_BPS"
    and i: "initialize_create R program_id (address payer) (address config) (address recipient)
      (u16_of (slice 0 2 d)) (d ! 2) s = Ok s'"
    by (auto simp: initialize.simps Let_def split: if_splits list.splits prod.splits)
  let ?cfg = "initial_config (address payer) (address recipient) (u16_of (slice 0 2 d)) (d ! 2)"
  from i obtain s1 acc where s1: "invoke R (CreateAccount (address config) CONFIG_LEN program_id
      (address payer) [CONFIG_SEED, [d ! 2]]) s = Ok s1"
    and acc: "acc = store_config ?cfg (ledger s1 (address config))"
    and s': "s' = set_account (address config) acc s1"
    by (auto simp: initialize_create_def result_inv config_write_new_Ok initial_config_def)
  have "config_read acc = Ok ?cfg" unfolding acc
    by (rule config_read_store)
      (simp_all add: initial_config_def wf_config_def is_initialized_def CONFIG_DISCRIMINATOR_def)
  then have "config_read (ledger s' (address config)) = Ok ?cfg" by (simp add: s' set_account_def)
  moreover have "unat (u16_of (slice 0 2 d)) \<le> 1000"
    using a(4) by (simp add: MAX_FEE_BPS_def word_le_nat_alt [symmetric] not_less word_less_nat_alt)
  ultimately show ?thesis using that [OF a(1-3) _ s1] s' acc by simp
qed

text \<open>A successful initialisation makes one call, which creates the canonical account, and
  leaves there an unpaused configuration with the payer as authority, the given recipient
  and a fee of at most 1000 basis points.\<close>

theorem initialize_establishes:
  assumes "initialize R program_id accs d s = Ok s'"
  shows "\<exists>payer config recipient cfg L. take 3 accs = [payer, config, recipient] \<and> is_signer payer \<and>
    config_pda R program_id = (address config, d ! 2) \<and>
    cpi R (CreateAccount (address config) CONFIG_LEN program_id (address payer)
      [CONFIG_SEED, [d ! 2]]) (ledger s) = Ok L \<and>
    (\<forall>k. k \<noteq> address config \<longrightarrow> ledger s' k = L k) \<and> length (trace s') = Suc (length (trace s)) \<and>
    config_read (ledger s' (address config)) = Ok cfg \<and> authority cfg = address payer \<and>
    fee_recipient cfg = address recipient \<and> fee_bps cfg = u16_of (slice 0 2 d) \<and>
    unat (fee_bps cfg) \<le> 1000 \<and> bump cfg = d ! 2 \<and> paused cfg = 0"
proof -
  from assms obtain payer config recipient rest s1 where
    "accs = payer # config # recipient # rest" "is_signer payer"
    "config_pda R program_id = (address config, d ! 2)" "unat (u16_of (slice 0 2 d)) \<le> 1000"
    "invoke R (CreateAccount (address config) CONFIG_LEN program_id (address payer)
      [CONFIG_SEED, [d ! 2]]) s = Ok s1"
    "s' = set_account (address config) (store_config (initial_config (address payer)
      (address recipient) (u16_of (slice 0 2 d)) (d ! 2)) (ledger s1 (address config))) s1"
    "config_read (ledger s' (address config)) = Ok (initial_config (address payer)
      (address recipient) (u16_of (slice 0 2 d)) (d ! 2))" by (rule initialize_Ok)
  then show ?thesis
    by (rule_tac x = payer in exI, rule_tac x = config in exI, rule_tac x = recipient in exI)
      (auto simp: set_account_def invoke_Ok initial_config_def)
qed

lemma demo_initialize:
  "\<exists>s'. initialize demo_runtime 7 [meta 1 True True, meta 2 True False, meta 9 False False]
     [100, 0, 255] \<lparr>ledger = \<lambda>_. \<lparr>lamports = 0, owner = 0, acc_data = []\<rparr>, trace = []\<rparr> = Ok s'"
proof -
  have "is_initialized (decode_config (replicate CONFIG_LEN 0)) = False"
    by (auto simp: is_initialized_def decode_config_def slice_def CONFIG_LEN_def
        CONFIG_DISCRIMINATOR_def dest: arg_cong [of _ _ hd])
  then show ?thesis
    by (simp add: initialize.simps initialize_create_def demo_runtime_def config_pda_def invoke_def
        CONFIG_LEN_def MAX_FEE_BPS_def u16_of_def slice_def config_write_new_def)
qed

theorem initialize_establishes_witness:
  "\<exists>(s' :: chain) cfg. config_read (ledger s' 2) = Ok cfg \<and> authority cfg = 1 \<and> fee_recipient cfg = 9"
proof -
  obtain s' where "initialize demo_runtime 7 [meta 1 True True, meta 2 True False, meta 9 False False]
     [100, 0, 255] \<lparr>ledger = \<lambda>_. \<lparr>lamports = 0, owner = 0, acc_data = []\<rparr>, trace = []\<rparr> = Ok s'"
    using demo_initialize ..
  from initialize_establishes [OF this] show ?thesis by auto
qed

lemma initialize_refused:
  assumes "config_read (ledger s (address config)) = Ok cfg"
  shows "\<not> is_ok (initialize R program_id (payer # config # recipient # rest) d s)"
proof -
  have "CONFIG_LEN \<le> length (acc_data (ledger s (address config)))"
    using assms by (simp add: config_read_Ok)
  with assms show ?thesis by (simp add: initialize.simps Let_def split: prod.splits)
qed

text \<open>Initialisation is refused once the configuration account holds a configuration.\<close>

theorem initialize_once:
  assumes "config_read (ledger s (address config)) = Ok cfg"
  shows "\<not> is_ok (initialize R program_id (payer # config # recipient # rest) d s)"
  by (rule initialize_refused [OF assms])

theorem initialize_once_witness:
  "\<not> is_ok (initialize demo_runtime 7 [meta 1 True True, meta 2 True False, meta 9 False False]
     [100, 0, 255] demo_chain)"
  by (rule initialize_once [of _ _ demo_config]) (simp add: demo_chain_def demo_ledger_def)

lemma update_config_Ok:
  assumes "update_config R program_id accs d s = Ok s'"
  shows "\<exists>auth config rest cfg recipient. accs = auth # config # rest \<and> is_signer auth \<and>
    address config = fst (config_pda R program_id) \<and>
    owner (ledger s (address config)) = program_id \<and>
    config_read (ledger s (address config)) = Ok cfg \<and> authority cfg = address auth \<and>
    unat (u16_of (slice 0 2 d)) \<le> 1000 \<and>
    recipient = (if d ! 3 = 1 then Some (address (hd rest)) else None) \<and>
    s' = set_account (address config) (store_config
      (updated_config recipient (Some (u16_of (slice 0 2 d))) (Some (d ! 2 = 1)) cfg)
      (ledger s (address config))) s \<and>
    config_read (ledger s' (address config)) = Ok (updated_config recipient
      (Some (u16_of (slice 0 2 d))) (Some (d ! 2 = 1)) cfg)"
proof -
  from assms obtain auth config rest cfg recipient acc where
    a: "accs = auth # config # rest" "is_signer auth" "address config = fst (config_pda R program_id)"
    "owner (ledger s (address config)) = program_id" "config_read (ledger s (address config)) = Ok cfg"
    "authority cfg = address auth" "\<not> u16_of (slice 0 2 d) > MAX_FEE_BPS"
    and r: "recipient = (if d ! 3 = 1 then Some (address (hd rest)) else None)"
    and u: "config_update (ledger s (address config)) recipient (Some (u16_of (slice 0 2 d)))
      (Some (d ! 2 = 1)) = Ok acc" "s' = set_account (address config) acc s"
    by (auto simp: update_config.simps Let_def result_inv split: if_splits list.splits)
  have "unat (u16_of (slice 0 2 d)) \<le> 1000"
    using a(7) by (simp add: MAX_FEE_BPS_def not_less word_less_nat_alt word_le_nat_alt)
  with a r config_update_Ok [OF a(5) u(1)] u(2) show ?thesis
    by (auto simp: set_account_def)
qed

text \<open>A successful update was signed by the stored authority and acts on the canonical
  account; it sets the fee (at most 1000 basis points), the pause flag and, if asked, the
  recipient, keeps authority, bump and everything else on chain, and makes no call.\<close>

theorem update_config_effect:
  assumes "update_config R program_id accs d s = Ok s'"
  shows "\<exists>auth config rest cfg recipient. accs = auth # config # rest \<and> is_signer auth \<and>
    address config = fst (config_pda R program_id) \<and>
    owner (ledger s (address config)) = program_id \<and>
    config_read (ledger s (address config)) = Ok cfg \<and> authority cfg = address auth \<and>
    unat (u16_of (slice 0 2 d)) \<le> 1000 \<and>
    recipient = (if d ! 3 = 1 then Some (address (hd rest)) else None) \<and>
    s' = set_account (address config) (store_config
      (updated_config recipient (Some (u16_of (slice 0 2 d))) (Some (d ! 2 = 1)) cfg)
      (ledger s (address config))) s \<and>
    config_read (ledger s' (address config)) = Ok (updated_config recipient
      (Some (u16_of (slice 0 2 d))) (Some (d ! 2 = 1)) cfg)"
  by (rule update_config_Ok [OF assms])


text \<open>The demonstration runtime with the ownership rule enforced.\<close>

definition demo_owner_runtime :: runtime where
  "demo_owner_runtime = demo_runtime\<lparr>cpi := (\<lambda>c L. bind_r (demo_cpi c L)
     (\<lambda>L'. Ok (\<lambda>k. if owner (L k) = 7 then (L k)\<lparr>lamports := lamports (L' k)\<rparr> else L' k)))\<rparr>"

lemma demo_update:
  "\<exists>s'. update_config demo_owner_runtime 7 [meta 1 True True, meta 2 True False] [44, 1, 1, 0] demo_chain = Ok s'"
proof -
  have "CONFIG_LEN \<le> length (acc_data demo_config_account)"
    "decode_config (acc_data demo_config_account) = demo_config" "is_initialized demo_config"
    using config_read_Ok [THEN iffD1, OF demo_config_read(1)] by simp_all
  then show ?thesis
    by (simp add: update_config.simps demo_chain_def demo_ledger_def demo_runtime_def
        demo_owner_runtime_def config_pda_def MAX_FEE_BPS_def u16_of_def slice_def config_update_def Let_def)
      (simp add: demo_config_def)
qed

theorem update_config_effect_witness:
  "\<exists>(s' :: chain) cfg. config_read (ledger s' 2) = Ok cfg \<and> authority cfg = 1 \<and> paused cfg = 1"
proof -
  obtain s' where "update_config demo_owner_runtime 7 [meta 1 True True, meta 2 True False] [44, 1, 1, 0]
      demo_chain = Ok s'" using demo_update ..
  have pda: "fst (config_pda demo_owner_runtime 7) = 2"
    by (simp add: config_pda_def demo_owner_runtime_def demo_runtime_def)
  from update_config_effect [OF \<open>update_config _ _ _ _ _ = Ok s'\<close>] pda obtain cfg where
    "authority cfg = 1" "config_read (ledger s' 2) = Ok (updated_config None
      (Some (u16_of (slice 0 2 [44, 1, 1, 0]))) (Some True) cfg)"
    by auto
  then show ?thesis
    by (intro exI [of _ s'] exI [of _ "updated_config None (Some (u16_of (slice 0 2 [44, 1, 1, 0])))
      (Some True) cfg"]) (simp add: updated_config_def)
qed

section \<open>Frames\<close>

text \<open>The runtime's ownership rule, for an account owned by the router: a call into another
  program changes neither its data nor its owner. It may credit lamports. \<open>foreign\<close> says the call
  is not addressed to the router itself; the programs the other calls name (the system and the
  token programs) are not the router.\<close>

definition foreign :: "pubkey \<Rightarrow> cpi_call \<Rightarrow> bool" where
  "foreign program_id c = (case c of Invoke p accs d \<Rightarrow> p \<noteq> program_id | _ \<Rightarrow> True)"

definition keeps_content :: "account_state \<Rightarrow> account_state \<Rightarrow> bool" where
  "keeps_content a b \<longleftrightarrow> owner b = owner a \<and> acc_data b = acc_data a"

definition cpi_respects_owner :: "runtime \<Rightarrow> pubkey \<Rightarrow> bool" where
  "cpi_respects_owner R program_id \<longleftrightarrow>
     (\<forall>c L L' k. cpi R c L = Ok L' \<longrightarrow> foreign program_id c \<longrightarrow> owner (L k) = program_id \<longrightarrow>
        keeps_content (L k) (L' k))"

definition new_calls :: "chain \<Rightarrow> chain \<Rightarrow> cpi_call list" where
  "new_calls s s' = drop (length (trace s)) (trace s')"

text \<open>The addresses that sign an instruction.\<close>

definition signers :: "account_view list \<Rightarrow> pubkey set" where
  "signers accs = address ` {a \<in> set accs. is_signer a}"

definition call_signers :: "cpi_call \<Rightarrow> pubkey set" where
  "call_signers c = (case c of Invoke p accs d \<Rightarrow> signers accs | _ \<Rightarrow> {})"

lemma signers_mono: "set a \<subseteq> set b \<Longrightarrow> signers a \<subseteq> signers b"
  by (auto simp: signers_def)

lemma call_signers_Invoke [simp]: "call_signers (Invoke p accs d) = signers accs"
  by (simp add: call_signers_def)

text \<open>A relation between ledgers that every call of a run respects holds across the run.\<close>

definition calls_within :: "runtime \<Rightarrow> (ledger \<Rightarrow> ledger \<Rightarrow> bool) \<Rightarrow> cpi_call set \<Rightarrow> bool" where
  "calls_within R rel cs \<longleftrightarrow> (\<forall>c L L'. c \<in> cs \<longrightarrow> cpi R c L = Ok L' \<longrightarrow> rel L L')"

lemma calls_within_Un: "calls_within R rel (a \<union> b) \<longleftrightarrow> calls_within R rel a \<and> calls_within R rel b"
  by (auto simp: calls_within_def)

lemma calls_within_step: "calls_within R rel cs \<Longrightarrow> c \<in> cs \<Longrightarrow> cpi R c L = Ok L' \<Longrightarrow> rel L L'"
  by (simp add: calls_within_def)

lemma run_leg_call:
  "run_leg R c d i st = Ok st' \<Longrightarrow> \<exists>p accs ld. set accs \<subseteq> set (remaining (rc_accounts c)) \<and>
     cpi R (Invoke p accs ld) (ledger (ls_chain st)) = Ok (ledger (ls_chain st')) \<and>
     trace (ls_chain st') = trace (ls_chain st) @ [Invoke p accs ld]"
  by (auto simp: run_leg_def result_inv invoke_Ok take_leg_accounts_def slice_def
      dest!: in_set_takeD in_set_dropD split: if_splits)

lemma run_legs_rel:
  assumes "run_legs R c d k i st = Ok st'" "reflp rel" "transp rel"
  shows "\<exists>cs. trace (ls_chain st') = trace (ls_chain st) @ cs \<and>
    (\<forall>x \<in> set cs. call_signers x \<subseteq> signers (remaining (rc_accounts c))) \<and>
    (calls_within R rel (set cs) \<longrightarrow> rel (ledger (ls_chain st)) (ledger (ls_chain st')))"
  using assms(1)
proof (induction k arbitrary: i st)
  case 0
  then show ?case using reflpD [OF assms(2)] by simp
next
  case (Suc k)
  then obtain st1 where 1: "run_leg R c d i st = Ok st1" and 2: "run_legs R c d k (Suc i) st1 = Ok st'"
    by (auto simp: result_inv)
  obtain p accs ld where l: "set accs \<subseteq> set (remaining (rc_accounts c))"
    "cpi R (Invoke p accs ld) (ledger (ls_chain st)) = Ok (ledger (ls_chain st1))"
    "trace (ls_chain st1) = trace (ls_chain st) @ [Invoke p accs ld]"
    using run_leg_call [OF 1] by blast
  from Suc.IH [OF 2] obtain cs where cs: "trace (ls_chain st') = trace (ls_chain st1) @ cs"
    "\<forall>x \<in> set cs. call_signers x \<subseteq> signers (remaining (rc_accounts c))"
    "calls_within R rel (set cs) \<longrightarrow> rel (ledger (ls_chain st1)) (ledger (ls_chain st'))" by blast
  have "rel (ledger (ls_chain st)) (ledger (ls_chain st'))"
    if "calls_within R rel (set (Invoke p accs ld # cs))"
    using that cs(3) calls_within_step [OF that _ l(2)] transpD [OF assms(3)]
    by (auto simp: calls_within_def)
  with l cs(1,2) signers_mono [OF l(1)] show ?case
    by (intro exI [of _ "Invoke p accs ld # cs"]) simp
qed

lemma split_accounts_set:
  "split_accounts accs n = Ok a \<Longrightarrow> user a \<in> set accs \<and> set (remaining a) \<subseteq> set accs"
  by (cases "n = 0"; cases "n = 2")
    (auto simp: split_accounts_def split: list.splits)

lemma pay_fee_rel:
  assumes "pay_fee R a cfg asset fee s = Ok s1" "is_signer (user a)" "reflp rel"
  shows "\<exists>cs. trace s1 = trace s @ cs \<and> (\<forall>x \<in> set cs. call_signers x \<subseteq> signers [user a]) \<and>
    (calls_within R rel (set cs) \<longrightarrow> rel (ledger s) (ledger s1))"
proof (cases "0 < fee")
  case True
  from pay_fee_call [OF assms(1) this] obtain c where c: "is_fee_call a asset fee c"
    "trace s1 = trace s @ [c]" "cpi R c (ledger s) = Ok (ledger s1)" by blast
  have "call_signers c \<subseteq> signers [user a]" using c(1) assms(2)
    by (auto simp: is_fee_call_def call_signers_def signers_def meta_def split: if_splits)
  with c(2,3) show ?thesis by (intro exI [of _ "[c]"]) (auto simp: calls_within_def)
next
  case False
  then have "s1 = s" using pay_fee_trace [OF assms(1)] by simp
  with assms(3) show ?thesis by (intro exI [of _ "[]"]) (simp add: reflpD)
qed

lemma process_inner_rel:
  assumes "process_inner R program_id accs d n s = Ok s'" "reflp rel" "transp rel"
  shows "\<exists>cs. trace s' = trace s @ cs \<and> (\<forall>x \<in> set cs. call_signers x \<subseteq> signers accs) \<and>
    (calls_within R rel (set cs) \<longrightarrow> rel (ledger s) (ledger s'))"
proof -
  from process_inner_parts [OF assms(1)] obtain h a
    where p: "read_header d n = Ok h" "split_accounts accs n = Ok a" .
  from process_inner_run [OF assms(1) p] obtain cfg fee s1 q1 q2 st where
    u: "is_signer (user a)" and f: "pay_fee R a cfg (fee_asset h) fee s = Ok s1"
    and l: "run_legs R (mk_ctx n h a q1 q2) d (num_legs h) 0 (initial_loop n s1) = Ok st"
    and s': "s' = ls_chain st" by metis
  have init: "ls_chain (initial_loop n s1) = s1" by (simp add: initial_loop_def)
  obtain fs where fs: "trace s1 = trace s @ fs" "\<forall>x \<in> set fs. call_signers x \<subseteq> signers [user a]"
    "calls_within R rel (set fs) \<longrightarrow> rel (ledger s) (ledger s1)"
    using pay_fee_rel [OF f u assms(2)] by blast
  obtain cs where cs: "trace s' = trace s1 @ cs"
    "\<forall>x \<in> set cs. call_signers x \<subseteq> signers (remaining a)"
    "calls_within R rel (set cs) \<longrightarrow> rel (ledger s1) (ledger s')"
    using run_legs_rel [OF l assms(2,3)] unfolding s' init mk_ctx_simps by blast
  have "signers [user a] \<subseteq> signers accs" "signers (remaining a) \<subseteq> signers accs"
    using split_accounts_set [OF p(2)] by (simp_all add: signers_mono)
  with fs(2) cs(2) have "\<forall>x \<in> set (fs @ cs). call_signers x \<subseteq> signers accs"
    by (auto dest!: bspec subsetD)
  moreover have "calls_within R rel (set (fs @ cs)) \<longrightarrow> rel (ledger s) (ledger s')"
    using fs(3) cs(3) transpD [OF assms(3)] by (auto simp: calls_within_Un)
  ultimately show ?thesis using fs(1) cs(1) by (intro exI [of _ "fs @ cs"]) simp
qed

lemma prepare_pumpfun_rel:
  assumes "prepare_pumpfun R program_id accs d s = Ok s'" "reflp rel"
  shows "\<exists>cs. trace s' = trace s @ cs \<and> (\<forall>x \<in> set cs. call_signers x = {}) \<and>
    (calls_within R rel (set cs) \<longrightarrow> rel (ledger s) (ledger s'))"
proof -
  from assms(1) obtain p v where t: "top_up_vault R p v s = Ok s'"
    by (auto simp: prepare_pumpfun.simps Let_def split: if_splits list.splits)
  then consider "s' = s" | x where "cpi R (SystemTransfer p v x) (ledger s) = Ok (ledger s')"
    "trace s' = trace s @ [SystemTransfer p v x]"
    by (auto simp: top_up_vault_def Let_def result_inv invoke_Ok split: if_splits)
  then show ?thesis
  proof cases
    case 1
    with reflpD [OF assms(2)] show ?thesis by simp
  next
    case 2
    then show ?thesis
      by (intro exI [of _ "[SystemTransfer p v x]"]) (auto simp: calls_within_def call_signers_def)
  qed
qed

section \<open>The program calling itself\<close>

text \<open>A leg may name the router itself: the runtime lets a program call itself directly, to a
  bounded depth. \<open>self_runtime R program_id k\<close> runs such calls by \<open>process_instruction\<close>, nested
  at most \<open>k\<close> deep, and leaves the others to \<open>R\<close>.\<close>

primrec self_runtime :: "runtime \<Rightarrow> pubkey \<Rightarrow> nat \<Rightarrow> runtime" where
  "self_runtime R program_id 0 = R\<lparr>cpi := (\<lambda>c L.
     if foreign program_id c then cpi R c L else Err (External 0))\<rparr>"
| "self_runtime R program_id (Suc k) = R\<lparr>cpi := (\<lambda>c L.
     if foreign program_id c then cpi R c L
     else case c of Invoke p accs d \<Rightarrow>
         bind_r (process_instruction (self_runtime R program_id k) program_id accs d
           \<lparr>ledger = L, trace = []\<rparr>) (\<lambda>s. Ok (ledger s))
       | _ \<Rightarrow> cpi R c L)\<rparr>"

lemma self_runtime_pda [simp]: "config_pda (self_runtime R program_id k) p = config_pda R p"
  by (cases k) (simp_all add: config_pda_def)

lemma self_runtime_foreign:
  "foreign program_id c \<Longrightarrow> cpi (self_runtime R program_id k) c = cpi R c"
  by (cases k) simp_all

text \<open>The configuration at the canonical address, with the fee bound.\<close>

definition config_ok :: "runtime \<Rightarrow> pubkey \<Rightarrow> router_config \<Rightarrow> ledger \<Rightarrow> bool" where
  "config_ok R program_id cfg L \<longleftrightarrow>
     owner (L (fst (config_pda R program_id))) = program_id \<and>
     config_read (L (fst (config_pda R program_id))) = Ok cfg \<and> unat (fee_bps cfg) \<le> 1000"

text \<open>What a step signed by \<open>S\<close> may do to it: the configuration stays valid, with the authority
  and the bump it had, and is as it was unless the authority is among the signers.\<close>

definition config_kept :: "runtime \<Rightarrow> pubkey \<Rightarrow> pubkey set \<Rightarrow> ledger \<Rightarrow> ledger \<Rightarrow> bool" where
  "config_kept R program_id S L L' \<longleftrightarrow> (\<forall>cfg. config_ok R program_id cfg L \<longrightarrow>
     (\<exists>cfg'. config_ok R program_id cfg' L' \<and> authority cfg' = authority cfg \<and> bump cfg' = bump cfg) \<and>
     (authority cfg \<notin> S \<longrightarrow>
        keeps_content (L (fst (config_pda R program_id))) (L' (fst (config_pda R program_id)))))"

lemma config_keptD:
  "config_kept R program_id S L L' \<Longrightarrow> config_ok R program_id cfg L \<Longrightarrow>
   \<exists>cfg'. config_ok R program_id cfg' L' \<and> authority cfg' = authority cfg \<and> bump cfg' = bump cfg"
  by (simp add: config_kept_def)

lemma keeps_content_refl [simp]: "keeps_content a a"
  by (simp add: keeps_content_def)

lemma config_read_content: "keeps_content a b \<Longrightarrow> config_read b = config_read a"
  by (simp add: keeps_content_def config_read_def)

lemma config_kept_content:
  assumes "owner (L (fst (config_pda R program_id))) = program_id \<Longrightarrow>
    keeps_content (L (fst (config_pda R program_id))) (L' (fst (config_pda R program_id)))"
  shows "config_kept R program_id S L L'"
  unfolding config_kept_def
proof (intro allI impI)
  fix cfg
  assume c: "config_ok R program_id cfg L"
  then have k: "keeps_content (L (fst (config_pda R program_id))) (L' (fst (config_pda R program_id)))"
    using assms by (simp add: config_ok_def)
  with c config_read_content [OF k] have "config_ok R program_id cfg L'"
    by (simp add: config_ok_def keeps_content_def)
  with k show "(\<exists>cfg'. config_ok R program_id cfg' L' \<and> authority cfg' = authority cfg \<and> bump cfg' = bump cfg) \<and>
     (authority cfg \<notin> S \<longrightarrow>
        keeps_content (L (fst (config_pda R program_id))) (L' (fst (config_pda R program_id))))" by blast
qed

lemma config_kept_mono: "config_kept R program_id S L L' \<Longrightarrow> S \<subseteq> T \<Longrightarrow> config_kept R program_id T L L'"
  by (auto simp: config_kept_def)

lemma config_kept_refl: "reflp (config_kept R program_id S)"
  by (intro reflpI config_kept_content) simp

lemma config_kept_trans: "transp (config_kept R program_id S)"
proof (rule transpI)
  fix L1 L2 L3
  assume 1: "config_kept R program_id S L1 L2" and 2: "config_kept R program_id S L2 L3"
  show "config_kept R program_id S L1 L3" unfolding config_kept_def
  proof (intro allI impI)
    fix cfg
    assume c: "config_ok R program_id cfg L1"
    from config_keptD [OF 1 c] obtain c2 where c2: "config_ok R program_id c2 L2"
      "authority c2 = authority cfg" "bump c2 = bump cfg" by blast
    from config_keptD [OF 2 c2(1)] obtain c3 where c3: "config_ok R program_id c3 L3"
      "authority c3 = authority c2" "bump c3 = bump c2" by blast
    have "keeps_content (L1 (fst (config_pda R program_id))) (L3 (fst (config_pda R program_id)))"
      if "authority cfg \<notin> S"
      using that 1 2 c c2(1,2) unfolding config_kept_def keeps_content_def by metis
    with c2 c3 show "(\<exists>cfg'. config_ok R program_id cfg' L3 \<and> authority cfg' = authority cfg \<and> bump cfg' = bump cfg) \<and>
     (authority cfg \<notin> S \<longrightarrow>
        keeps_content (L1 (fst (config_pda R program_id))) (L3 (fst (config_pda R program_id))))"
      by metis
  qed
qed

lemma update_config_kept:
  assumes "update_config R program_id accs d s = Ok s'" "config_ok R program_id cfg (ledger s)"
  shows "(\<exists>cfg'. config_ok R program_id cfg' (ledger s') \<and> authority cfg' = authority cfg \<and>
      bump cfg' = bump cfg) \<and>
    (\<exists>auth rest. accs = auth # rest \<and> is_signer auth \<and> address auth = authority cfg)"
proof -
  from update_config_Ok [OF assms(1)] obtain auth config :: account_view and rest cfg0 recipient where
    a: "accs = auth # config # rest" "is_signer auth" "authority cfg0 = address auth" and
    u: "address config = fst (config_pda R program_id)"
    "config_read (ledger s (address config)) = Ok cfg0" "unat (u16_of (slice 0 2 d)) \<le> 1000"
    "s' = set_account (address config) (store_config
      (updated_config recipient (Some (u16_of (slice 0 2 d))) (Some (d ! 2 = 1)) cfg0)
      (ledger s (address config))) s"
    "config_read (ledger s' (address config)) = Ok (updated_config recipient
      (Some (u16_of (slice 0 2 d))) (Some (d ! 2 = 1)) cfg0)" by blast
  from u(1,2) assms(2) have c: "cfg0 = cfg" by (simp add: config_ok_def)
  with u assms(2) have "config_ok R program_id (updated_config recipient
      (Some (u16_of (slice 0 2 d))) (Some (d ! 2 = 1)) cfg) (ledger s')"
    by (simp add: config_ok_def set_account_def) (simp add: updated_config_def)
  moreover have "authority (updated_config recipient (Some (u16_of (slice 0 2 d))) (Some (d ! 2 = 1)) cfg) =
      authority cfg"
    "bump (updated_config recipient (Some (u16_of (slice 0 2 d))) (Some (d ! 2 = 1)) cfg) = bump cfg"
    by (simp_all add: updated_config_def)
  ultimately show ?thesis using a c by auto
qed

text \<open>An instruction on a chain with a configuration is an authorised update, or all it does to
  the ledger is done by its calls, which carry no signature the instruction does not.\<close>

lemma process_instruction_rel:
  assumes "process_instruction R program_id accs d s = Ok s'"
    "config_ok R program_id cfg (ledger s)" "reflp rel" "transp rel"
  shows "(\<exists>dd. d = TAG_UPDATE_CONFIG # dd \<and> update_config R program_id accs dd s = Ok s') \<or>
    (\<exists>cs. trace s' = trace s @ cs \<and> (\<forall>x \<in> set cs. call_signers x \<subseteq> signers accs) \<and>
      (calls_within R rel (set cs) \<longrightarrow> rel (ledger s) (ledger s')))"
proof -
  from assms(1) obtain t dd where d: "d = t # dd" by (cases d) auto
  consider "initialize R program_id accs dd s = Ok s'"
    | "update_config R program_id accs dd s = Ok s'" "t = TAG_UPDATE_CONFIG"
    | "prepare_pumpfun R program_id accs dd s = Ok s'"
    | n where "process_inner R program_id accs dd n s = Ok s'"
    using assms(1) unfolding d
    by (auto simp: route_process_def route_process_dynamic_def route_process_dynamic_three_def
        split: if_splits)
  then show ?thesis
  proof cases
    case 1
    then obtain payer config recipient rest where a: "accs = payer # config # recipient # rest"
      "address config = fst (config_pda R program_id)" by (elim initialize_Ok) simp
    with 1 initialize_refused [of s config cfg R program_id payer recipient rest dd] assms(2)
    show ?thesis by (simp add: a config_ok_def)
  next
    case 2
    then show ?thesis by (simp add: d)
  next
    case 3
    from prepare_pumpfun_rel [OF 3 assms(3)] show ?thesis by (metis empty_subsetI)
  next
    case 4
    from process_inner_rel [OF 4 assms(3,4)] show ?thesis ..
  qed
qed

lemma process_instruction_kept:
  assumes "process_instruction R' program_id accs d s = Ok s'"
    and "config_pda R' program_id = config_pda R program_id"
    and "\<And>c L L'. cpi R' c L = Ok L' \<Longrightarrow> config_kept R program_id (call_signers c) L L'"
  shows "config_kept R program_id (signers accs) (ledger s) (ledger s')"
  unfolding config_kept_def
proof (rule allI, rule impI)
  fix cfg
  assume c: "config_ok R program_id cfg (ledger s)"
  have c': "config_ok R' program_id cfg (ledger s)"
    using c by (simp add: config_ok_def assms(2))
  let ?goal = "(\<exists>cfg'. config_ok R program_id cfg' (ledger s') \<and> authority cfg' = authority cfg \<and>
      bump cfg' = bump cfg) \<and>
     (authority cfg \<notin> signers accs \<longrightarrow> keeps_content (ledger s (fst (config_pda R program_id)))
        (ledger s' (fst (config_pda R program_id))))"
  from process_instruction_rel [OF assms(1) c' config_kept_refl config_kept_trans, of R program_id "signers accs"]
  show ?goal
  proof
    assume "\<exists>dd. d = TAG_UPDATE_CONFIG # dd \<and> update_config R' program_id accs dd s = Ok s'"
    then obtain dd where u: "update_config R' program_id accs dd s = Ok s'" by blast
    from update_config_kept [OF u c'] have "authority cfg \<in> signers accs"
      by (force simp: signers_def)
    with update_config_kept [OF u c'] show ?goal
      by (simp add: config_ok_def assms(2))
  next
    assume "\<exists>cs. trace s' = trace s @ cs \<and> (\<forall>x \<in> set cs. call_signers x \<subseteq> signers accs) \<and>
      (calls_within R' (config_kept R program_id (signers accs)) (set cs) \<longrightarrow>
        config_kept R program_id (signers accs) (ledger s) (ledger s'))"
    then have "config_kept R program_id (signers accs) (ledger s) (ledger s')"
      using assms(3) config_kept_mono unfolding calls_within_def by metis
    with c show ?goal by (simp add: config_kept_def)
  qed
qed

lemma self_runtime_kept:
  assumes "cpi_respects_owner R program_id" "cpi (self_runtime R program_id k) c L = Ok L'"
  shows "config_kept R program_id (call_signers c) L L'"
  using assms(2)
proof (induction k arbitrary: c L L')
  case 0
  then show ?case using assms(1)
    by (intro config_kept_content) (auto simp: cpi_respects_owner_def split: if_splits)
next
  case (Suc k)
  show ?case
  proof (cases "foreign program_id c")
    case True
    with Suc.prems assms(1) show ?thesis
      by (intro config_kept_content) (auto simp: cpi_respects_owner_def)
  next
    case False
    then obtain accs d where c: "c = Invoke program_id accs d"
      by (auto simp: foreign_def split: cpi_call.splits)
    with Suc.prems False obtain s' where
      "process_instruction (self_runtime R program_id k) program_id accs d \<lparr>ledger = L, trace = []\<rparr> = Ok s'"
      "L' = ledger s'" by (auto simp: result_inv)
    with process_instruction_kept [OF this(1) self_runtime_pda Suc.IH] show ?thesis
      by (simp add: c)
  qed
qed

section \<open>Steps of the program\<close>

text \<open>The chain as the program sees it over time: instructions of the router, which may call
  itself, between steps of other programs, which keep the ownership rule.\<close>

inductive router_step :: "runtime \<Rightarrow> pubkey \<Rightarrow> chain \<Rightarrow> chain \<Rightarrow> bool" for R program_id where
  own: "process_instruction (self_runtime R program_id k) program_id accs d s = Ok s' \<Longrightarrow>
     router_step R program_id s s'"
| other: "\<forall>key. owner (ledger s key) = program_id \<longrightarrow> keeps_content (ledger s key) (ledger s' key) \<Longrightarrow>
     router_step R program_id s s'"

lemma router_step_config:
  assumes "router_step R program_id s s'" "cpi_respects_owner R program_id"
    "config_ok R program_id cfg (ledger s)"
  shows "\<exists>cfg'. config_ok R program_id cfg' (ledger s') \<and> authority cfg' = authority cfg \<and>
    bump cfg' = bump cfg"
  using assms(1)
proof cases
  case (own k accs d)
  have "config_kept R program_id (signers accs) (ledger s) (ledger s')"
    by (rule process_instruction_kept [OF own self_runtime_pda]) (rule self_runtime_kept [OF assms(2)])
  then show ?thesis by (rule config_keptD) (rule assms(3))
next
  case other
  then have "config_kept R program_id {} (ledger s) (ledger s')"
    by (intro config_kept_content) simp
  then show ?thesis by (rule config_keptD) (rule assms(3))
qed

text \<open>C9. Once initialised, the configuration stays valid for ever: after any sequence of
  instructions of the program, direct calls into itself included, and of steps of other
  programs, it is still owned by the program and initialised, its fee is at most 1000 basis
  points, and its authority and bump are those it was created with. The other programs keep the
  runtime's ownership rule: they change neither data nor owner of the program's accounts.\<close>

theorem config_invariant:
  assumes "(router_step R program_id)\<^sup>*\<^sup>* s s'" "cpi_respects_owner R program_id"
    "config_ok R program_id cfg (ledger s)"
  shows "\<exists>cfg'. config_ok R program_id cfg' (ledger s') \<and> authority cfg' = authority cfg \<and>
    bump cfg' = bump cfg"
  using assms(1)
proof induction
  case base
  with assms(3) show ?case by blast
next
  case (step t t')
  then obtain ct where "config_ok R program_id ct (ledger t)" "authority ct = authority cfg"
    "bump ct = bump cfg" by blast
  with router_step_config [OF step(2) assms(2)] show ?case by metis
qed

lemma demo_owner: "cpi_respects_owner demo_owner_runtime 7"
  by (auto simp: cpi_respects_owner_def demo_owner_runtime_def result_inv keeps_content_def)

lemma demo_owner_pda [simp]: "config_pda demo_owner_runtime 7 = (2, 255)"
  by (simp add: config_pda_def demo_owner_runtime_def demo_runtime_def)

lemma demo_config_ok: "config_ok demo_owner_runtime 7 demo_config (ledger demo_chain)"
  by (simp add: config_ok_def demo_chain_def demo_ledger_def) (simp add: demo_config_def)

lemma update_config_pda:
  "config_pda R program_id = config_pda R' program_id \<Longrightarrow>
   update_config R program_id accs d s = update_config R' program_id accs d s"
  unfolding update_config.simps by (simp only:)

lemma demo_update_step:
  "\<exists>s'. process_instruction (self_runtime demo_owner_runtime 7 3) 7
       [meta 1 True True, meta 2 True False] [1, 44, 1, 1, 0] demo_chain = Ok s' \<and>
     new_calls demo_chain s' = [] \<and>
     \<not> keeps_content (ledger demo_chain (fst (config_pda demo_owner_runtime 7)))
         (ledger s' (fst (config_pda demo_owner_runtime 7)))"
proof -
  obtain s' where s': "update_config demo_owner_runtime 7 [meta 1 True True, meta 2 True False]
      [44, 1, 1, 0] demo_chain = Ok s'" using demo_update ..
  then have up: "update_config (self_runtime demo_owner_runtime 7 3) 7
      [meta 1 True True, meta 2 True False] [44, 1, 1, 0] demo_chain = Ok s'"
    using update_config_pda [of demo_owner_runtime 7 "self_runtime demo_owner_runtime 7 3"] by simp
  from update_config_Ok [OF s'] obtain cfg acc where u: "s' = set_account 2 acc demo_chain"
    "config_read (ledger s' 2) = Ok (updated_config None (Some (u16_of (slice 0 2 [44, 1, 1, 0])))
      (Some True) cfg)" by auto
  have "config_read (ledger demo_chain 2) = Ok demo_config" "paused demo_config = 0"
    by (simp_all add: demo_chain_def demo_ledger_def) (simp add: demo_config_def)
  moreover have "paused (updated_config recipient bps (Some True) cfg) = 1" for recipient bps
    by (simp add: updated_config_def)
  ultimately have "config_read (ledger s' 2) \<noteq> config_read (ledger demo_chain 2)"
    unfolding u(2) by (metis Inr_inject zero_neq_one)
  then have "\<not> keeps_content (ledger demo_chain 2) (ledger s' 2)"
    using config_read_content by blast
  with up u(1) show ?thesis
    by (simp add: tag_defs new_calls_def set_account_def)
qed

text \<open>A stranger credits the configuration account, then the authority updates it.\<close>

definition credited_chain :: "chain \<Rightarrow> chain" where
  "credited_chain s = s\<lparr>ledger := (ledger s)(2 := (ledger s 2)\<lparr>lamports := 5\<rparr>)\<rparr>"

theorem config_invariant_witness:
  "\<exists>s' cfg'. (router_step demo_owner_runtime 7)\<^sup>*\<^sup>* demo_chain (credited_chain s') \<and>
     \<not> keeps_content (ledger demo_chain 2) (ledger s' 2) \<and>
     config_ok demo_owner_runtime 7 cfg' (ledger (credited_chain s')) \<and> authority cfg' = 1 \<and> bump cfg' = 255"
proof -
  obtain s' where s': "process_instruction (self_runtime demo_owner_runtime 7 3) 7
      [meta 1 True True, meta 2 True False] [1, 44, 1, 1, 0] demo_chain = Ok s'"
    "\<not> keeps_content (ledger demo_chain 2) (ledger s' 2)"
    using demo_update_step by auto
  have "router_step demo_owner_runtime 7 demo_chain s'" by (rule router_step.own [OF s'(1)])
  moreover have "router_step demo_owner_runtime 7 s' (credited_chain s')"
    by (rule router_step.other) (simp add: credited_chain_def keeps_content_def)
  ultimately have r: "(router_step demo_owner_runtime 7)\<^sup>*\<^sup>* demo_chain (credited_chain s')" by simp
  from config_invariant [OF r demo_owner demo_config_ok] r s'(2) show ?thesis
    by (auto simp: demo_config_def)
qed

text \<open>C16. If an instruction changes the owner or the data of the configuration account, the
  stored authority is among its signers, and it is an update with the authority first, or a
  route that calls the program itself with an account list the authority signs. A foreign call
  may only credit lamports to the account.\<close>

theorem config_change_authorised:
  assumes "process_instruction (self_runtime R program_id k) program_id accs d s = Ok s'"
    "cpi_respects_owner R program_id" "config_ok R program_id cfg (ledger s)"
    "\<not> keeps_content (ledger s (fst (config_pda R program_id))) (ledger s' (fst (config_pda R program_id)))"
  shows "authority cfg \<in> signers accs \<and>
    (hd d = TAG_UPDATE_CONFIG \<and> is_signer (hd accs) \<and> address (hd accs) = authority cfg \<or>
     (\<exists>sub_accs sub_d. Invoke program_id sub_accs sub_d \<in> set (new_calls s s') \<and>
        authority cfg \<in> signers sub_accs))"
proof -
  let ?S = "self_runtime R program_id k"
  let ?rel = "\<lambda>L L'. config_kept R program_id (UNIV - {authority cfg}) L L'"
  have c: "config_ok ?S program_id cfg (ledger s)" using assms(3) by (simp add: config_ok_def)
  have a: "authority cfg \<in> signers accs"
    using process_instruction_kept [OF assms(1) self_runtime_pda self_runtime_kept [OF assms(2), of k]]
      assms(3,4) unfolding config_kept_def by blast
  from process_instruction_rel [OF assms(1) c config_kept_refl config_kept_trans,
      of R program_id "UNIV - {authority cfg}"]
  show ?thesis
  proof
    assume "\<exists>dd. d = TAG_UPDATE_CONFIG # dd \<and> update_config ?S program_id accs dd s = Ok s'"
    with update_config_kept [OF _ c] a show ?thesis by fastforce
  next
    assume "\<exists>cs. trace s' = trace s @ cs \<and> (\<forall>x \<in> set cs. call_signers x \<subseteq> signers accs) \<and>
      (calls_within ?S ?rel (set cs) \<longrightarrow> ?rel (ledger s) (ledger s'))"
    then obtain cs where cs: "trace s' = trace s @ cs"
      "calls_within ?S ?rel (set cs) \<longrightarrow> ?rel (ledger s) (ledger s')" by blast
    have "\<not> ?rel (ledger s) (ledger s')" using assms(3,4) by (auto simp: config_kept_def)
    with cs(2) obtain x L L' where x: "x \<in> set cs" "cpi ?S x L = Ok L'" "\<not> ?rel L L'"
      by (auto simp: calls_within_def)
    have "config_kept R program_id (call_signers x) L L'" by (rule self_runtime_kept [OF assms(2) x(2)])
    with x(3) have s: "authority cfg \<in> call_signers x"
      using config_kept_mono by blast
    have "\<not> foreign program_id x"
      using x(2,3) assms(2) config_kept_content [of L R program_id L']
      by (auto simp: self_runtime_foreign cpi_respects_owner_def)
    with s x(1) cs(1) a show ?thesis
      by (auto simp: foreign_def new_calls_def split: cpi_call.splits)
  qed
qed

theorem config_change_authorised_witness:
  "\<exists>s'. process_instruction (self_runtime demo_owner_runtime 7 3) 7
       [meta 1 True True, meta 2 True False] [1, 44, 1, 1, 0] demo_chain = Ok s' \<and>
     authority demo_config \<in> signers [meta 1 True True, meta 2 True False]"
proof -
  obtain s' where s': "process_instruction (self_runtime demo_owner_runtime 7 3) 7
      [meta 1 True True, meta 2 True False] [1, 44, 1, 1, 0] demo_chain = Ok s'"
    "\<not> keeps_content (ledger demo_chain (fst (config_pda demo_owner_runtime 7)))
       (ledger s' (fst (config_pda demo_owner_runtime 7)))"
    using demo_update_step by blast
  from config_change_authorised [OF s'(1) demo_owner demo_config_ok s'(2)] s' show ?thesis by blast
qed

section \<open>The creator vault\<close>

text \<open>C40. Preparing a Pump.fun trade does nothing if the creator vault, the PDA of the creator
  recorded in the bonding curve, holds the rent floor, and otherwise makes one transfer from
  the payer that fills it up to the floor exactly.\<close>

theorem prepare_pumpfun_effect:
  assumes "prepare_pumpfun R program_id accs d s = Ok s'"
  shows "\<exists>payer curve vault system rent_floor. accs = [payer, curve, vault, system] \<and> is_signer payer \<and>
    owner (ledger s (address curve)) = PUMP \<and>
    address vault = fst (find_program_address R
      [CREATOR_VAULT_SEED, slice 49 81 (acc_data (ledger s (address curve)))] PUMP) \<and>
    minimum_balance R 0 = Ok rent_floor \<and>
    (if unat rent_floor \<le> unat (lamports (ledger s (address vault))) then s' = s
     else \<exists>x. cpi R (SystemTransfer (address payer) (address vault) x) (ledger s) = Ok (ledger s') \<and>
       trace s' = trace s @ [SystemTransfer (address payer) (address vault) x] \<and>
       unat (lamports (ledger s (address vault))) + unat x = unat rent_floor)"
proof -
  from assms obtain payer curve vault system where a: "accs = [payer, curve, vault, system]"
    "is_signer payer" "owner (ledger s (address curve)) = PUMP"
    "address vault = fst (find_program_address R
      [CREATOR_VAULT_SEED, slice 49 81 (acc_data (ledger s (address curve)))] PUMP)"
    and t: "top_up_vault R (address payer) (address vault) s = Ok s'"
    by (auto simp: prepare_pumpfun.simps Let_def split: if_splits list.splits)
  from t obtain rent_floor where f: "minimum_balance R 0 = Ok rent_floor"
    "(if sat_sub rent_floor (lamports (ledger s (address vault))) > 0
      then invoke R (SystemTransfer (address payer) (address vault)
        (sat_sub rent_floor (lamports (ledger s (address vault))))) s else Ok s) = Ok s'"
    by (auto simp: top_up_vault_def Let_def result_inv)
  let ?x = "sat_sub rent_floor (lamports (ledger s (address vault)))"
  have x: "unat ?x = unat rent_floor - unat (lamports (ledger s (address vault)))"
    by (rule unat_sat_sub)
  show ?thesis
  proof (cases "unat rent_floor \<le> unat (lamports (ledger s (address vault)))")
    case True
    with x f(2) have "s' = s" by (simp add: word_less_nat_alt)
    with a f(1) True show ?thesis by (intro exI conjI) (assumption | simp)+
  next
    case False
    with x f(2) have "cpi R (SystemTransfer (address payer) (address vault) ?x) (ledger s) = Ok (ledger s')"
      "trace s' = trace s @ [SystemTransfer (address payer) (address vault) ?x]"
      "unat (lamports (ledger s (address vault))) + unat ?x = unat rent_floor"
      by (auto simp: word_less_nat_alt invoke_Ok)
    with a f(1) False show ?thesis by (intro exI conjI) (assumption | simp)+
  qed
qed

definition demo_vault_runtime :: runtime where
  "demo_vault_runtime = demo_runtime\<lparr>find_program_address := (\<lambda>seeds p. (61, 254))\<rparr>"

definition demo_vault_chain :: chain where
  "demo_vault_chain = \<lparr>ledger = (\<lambda>_. \<lparr>lamports = 0, owner = SYSTEM_PROGRAM_ID, acc_data = []\<rparr>)
     (1 := \<lparr>lamports = 1000000, owner = SYSTEM_PROGRAM_ID, acc_data = []\<rparr>,
      60 := \<lparr>lamports = 0, owner = PUMP, acc_data = CURVE_DISCRIMINATOR @ replicate 73 0\<rparr>,
      61 := \<lparr>lamports = 880, owner = SYSTEM_PROGRAM_ID, acc_data = []\<rparr>), trace = []\<rparr>"

lemma demo_prepare:
  "\<exists>s'. prepare_pumpfun demo_vault_runtime 7
     [meta 1 True True, meta 60 False False, meta 61 True False, meta SYSTEM_PROGRAM_ID False False] []
     demo_vault_chain = Ok s'"
  by (simp add: prepare_pumpfun.simps demo_vault_runtime_def demo_vault_chain_def demo_runtime_def
      CURVE_DISCRIMINATOR_def slice_def top_up_vault_def sat_sub_def Let_def invoke_def)

theorem prepare_pumpfun_effect_witness:
  "\<exists>(s' :: chain) x. trace s' = [SystemTransfer 1 61 x] \<and> unat x = 890000"
proof -
  obtain s' where s': "prepare_pumpfun demo_vault_runtime 7
     [meta 1 True True, meta 60 False False, meta 61 True False, meta SYSTEM_PROGRAM_ID False False] []
     demo_vault_chain = Ok s'" using demo_prepare ..
  have v: "minimum_balance demo_vault_runtime 0 = Ok 890880"
    "lamports (ledger demo_vault_chain 61) = 880" "trace demo_vault_chain = []"
    by (simp_all add: demo_vault_runtime_def demo_runtime_def demo_vault_chain_def)
  from prepare_pumpfun_effect [OF s'] v show ?thesis by auto
qed

section \<open>Dispatch\<close>

text \<open>The first byte of the instruction selects the handler: the routes run with zero, one or
  two on-chain sized legs under their own tags, the configuration tags and the vault tag run
  their handlers, and every other tag, the retired 3 and 4 among them, is refused.\<close>

theorem dispatch:
  "process_instruction R program_id accs (t # d) s =
     (if t = 0 then initialize R program_id accs d s
      else if t = 1 then update_config R program_id accs d s
      else if t = 2 then process_inner R program_id accs d 0 s
      else if t = 5 then process_inner R program_id accs d 1 s
      else if t = 6 then process_inner R program_id accs d 2 s
      else if t = 7 then prepare_pumpfun R program_id accs d s
      else Err (router UnknownInstruction))"
  by (simp add: tag_defs route_process_def route_process_dynamic_def route_process_dynamic_three_def)

end
