(* ===== verification/Sdk_Constants.thy ===== *)
theory Sdk_Constants
  imports Router_State
begin

text \<open>
  The addresses and instruction selectors of \<open>constants.rs\<close>. Names the on-chain program
  uses for its own constants carry the prefix \<open>SDK_\<close> here; that both sides agree is proved
  where they meet.
\<close>

section \<open>Addresses\<close>

definition PROGRAM_ID :: pubkey where
  "PROGRAM_ID = pubkey58 ''CmNFUmRJL7YcnVn22oZzwG5Xg5WJqbcHEc6BK5mzDNR8''"

definition WSOL_MINT :: pubkey where
  "WSOL_MINT = pubkey58 ''So11111111111111111111111111111111111111112''"

definition USDC_MINT :: pubkey where
  "USDC_MINT = pubkey58 ''EPjFWdd5AufqSSqeM2qN1xzybapC8G4wEGGkZwyTDt1v''"

definition USDT_MINT :: pubkey where
  "USDT_MINT = pubkey58 ''Es9vMFrzaCERmJfrF4H2FYD4KCoNkY11McCe8BenwNYB''"

definition TOKEN_PROGRAM :: pubkey where
  "TOKEN_PROGRAM = pubkey58 ''TokenkegQfeZyiNwAJbNbGKPFXCWuBvf9Ss623VQ5DA''"

definition TOKEN_2022_PROGRAM :: pubkey where
  "TOKEN_2022_PROGRAM = pubkey58 ''TokenzQdBNbLqP5VEhdkAS6EPFLC1PHnBqCXEpPxuEb''"

definition SYSTEM_PROGRAM :: pubkey where
  "SYSTEM_PROGRAM = pubkey58 ''11111111111111111111111111111111''"

definition ASSOCIATED_TOKEN_PROGRAM :: pubkey where
  "ASSOCIATED_TOKEN_PROGRAM = pubkey58 ''ATokenGPvbdGVxr1b2hvZbsiqW5xWH25efTNsLJA8knL''"

definition LAUNCHLAB_PROGRAM :: pubkey where
  "LAUNCHLAB_PROGRAM = pubkey58 ''LanMV9sAd7wArD4vJFi2qDdfnVhFxYSUg6eADduJ3uj''"

definition LAUNCHLAB_AUTHORITY :: pubkey where
  "LAUNCHLAB_AUTHORITY = pubkey58 ''WLHv2UAZm6z4KyaaELi5pjdbJh6RESMva1Rnn8pJVVh''"

definition LAUNCHLAB_EVENT_AUTHORITY :: pubkey where
  "LAUNCHLAB_EVENT_AUTHORITY = pubkey58 ''2DPAtwB8L12vrMRExbLuyGnC7n2J5LNoZQSejeQGpwkr''"

definition STONKFUN_STANDARD_PLATFORM_CONFIG :: pubkey where
  "STONKFUN_STANDARD_PLATFORM_CONFIG = pubkey58 ''4E876qZTE9FJMrBzgVtBrSrzz2TLivB5Y5QXPjB4gZL7''"

definition STONKFUN_REWARD_PLATFORM_CONFIG :: pubkey where
  "STONKFUN_REWARD_PLATFORM_CONFIG = pubkey58 ''6BwHHDg3u1854jC8PDLXvR4spTcLNaoBxLJNGC4nTESt''"

definition RAYDIUM_CPMM_PROGRAM :: pubkey where
  "RAYDIUM_CPMM_PROGRAM = pubkey58 ''CPMMoo8L3F4NbTegBCKVNunggL7H1ZpdTHKxQB5qKP1C''"

definition RAYDIUM_CPMM_AUTHORITY :: pubkey where
  "RAYDIUM_CPMM_AUTHORITY = pubkey58 ''GpMZbSM2GgvTKHJirzeGfMFoaZ8UR2X7F4v8vHTvxFbL''"

definition PUMPFUN_PROGRAM :: pubkey where
  "PUMPFUN_PROGRAM = pubkey58 ''6EF8rrecthR5Dkzon8Nwu78hRvfCKubJ14M5uBEwF6P''"

definition PUMPFUN_GLOBAL :: pubkey where
  "PUMPFUN_GLOBAL = pubkey58 ''4wTV1YmiEkRvAtNtsSGPtUrqRYQMe5SKy2uB4Jjaxnjf''"

definition PUMPFUN_EVENT_AUTHORITY :: pubkey where
  "PUMPFUN_EVENT_AUTHORITY = pubkey58 ''Ce6TQqeHC9p8KetsN6JsjHK7UTZk7nasjjnr7XxXp9F1''"

definition PUMPFUN_FEE_PROGRAM :: pubkey where
  "PUMPFUN_FEE_PROGRAM = pubkey58 ''pfeeUxB6jkeY1Hxd7CsFCAjcbHA9rWtchMGdZ6VojVZ''"

definition PUMPFUN_GLOBAL_VOLUME_ACCUMULATOR :: pubkey where
  "PUMPFUN_GLOBAL_VOLUME_ACCUMULATOR = pubkey58 ''Hq2wp8uJ9jCPsYgNHex8RtqdvMPfVGoYwjvF1ATiwn2Y''"

definition PUMPFUN_FEE_CONFIG :: pubkey where
  "PUMPFUN_FEE_CONFIG = pubkey58 ''8Wf5TiAheLUqBrKXeYg2JtAFFMWtKdG2BSFgqUcPVwTt''"

definition PUMPSWAP_PROGRAM :: pubkey where
  "PUMPSWAP_PROGRAM = pubkey58 ''pAMMBay6oceH9fJKBRHGP5D4bD4sWpmSwMn52FMfXEA''"

definition PUMPSWAP_GLOBAL :: pubkey where
  "PUMPSWAP_GLOBAL = pubkey58 ''ADyA8hdefvWN2dbGGWFotbzWxrAvLW83WG6QCVXvJKqw''"

definition PUMPSWAP_EVENT_AUTHORITY :: pubkey where
  "PUMPSWAP_EVENT_AUTHORITY = pubkey58 ''GS4CU59F31iL7aR2Q8zVS8DRrcRnXX1yjQ66TqNVQnaR''"

definition PUMPSWAP_PROTOCOL_FEE_RECIPIENT :: pubkey where
  "PUMPSWAP_PROTOCOL_FEE_RECIPIENT = pubkey58 ''62qc2CNXwrYqQScmEdiZFFAnJR262PxWEuNQtxfafNgV''"

definition PUMPSWAP_BUYBACK_FEE_RECIPIENT :: pubkey where
  "PUMPSWAP_BUYBACK_FEE_RECIPIENT = pubkey58 ''5YxQFdt3Tr9zJLvkFccqXVUwhdTWJQc1fFg2YPbxvxeD''"

definition PUMP_MAYHEM_FEE_RECIPIENT :: pubkey where
  "PUMP_MAYHEM_FEE_RECIPIENT = pubkey58 ''GesfTA3X2arioaHp8bbKdjG9vJtskViWACZoYvxp4twS''"

definition PUMPSWAP_GLOBAL_VOLUME_ACCUMULATOR :: pubkey where
  "PUMPSWAP_GLOBAL_VOLUME_ACCUMULATOR = pubkey58 ''C2aFPdENg4A2HQsmrd5rTw5TaYBX5Ku887cWjbFKtZpw''"

definition PUMPSWAP_FEE_CONFIG :: pubkey where
  "PUMPSWAP_FEE_CONFIG = pubkey58 ''5PHirr8joyTMp9JMm6nW7hNDVyEYdkzDqazxPD7RaTjx''"

definition PUMPSWAP_FEE_PROGRAM :: pubkey where
  "PUMPSWAP_FEE_PROGRAM = pubkey58 ''pfeeUxB6jkeY1Hxd7CsFCAjcbHA9rWtchMGdZ6VojVZ''"

definition RAYDIUM_AMM_V4_PROGRAM :: pubkey where
  "RAYDIUM_AMM_V4_PROGRAM = pubkey58 ''675kPX9MHTjS2zt1qfr1NYHuzeLXfQM9H24wFSUt1Mp8''"

definition RAYDIUM_AMM_V4_AUTHORITY :: pubkey where
  "RAYDIUM_AMM_V4_AUTHORITY = pubkey58 ''5Q544fKrFoe6tsEbD7S8EmxGTJYAKtTVhAW5Q5pge4j1''"

definition METEORA_DAMM_V2_PROGRAM :: pubkey where
  "METEORA_DAMM_V2_PROGRAM = pubkey58 ''cpamdpZCGKUy5JxQXB4dcpGPiikHawvSWAd6mEn1sGG''"

definition METEORA_DAMM_V2_AUTHORITY :: pubkey where
  "METEORA_DAMM_V2_AUTHORITY = pubkey58 ''HLnpSz9h2S4hiLQ43rnSD9XkcUThA7B8hQMKmDaiTLcC''"

definition RAYDIUM_CLMM_PROGRAM :: pubkey where
  "RAYDIUM_CLMM_PROGRAM = pubkey58 ''CAMMCzo5YL8w4VFF8KVHrK22GGUsp5VTaW7grrKgrWqK''"

definition ORCA_WHIRLPOOL_PROGRAM :: pubkey where
  "ORCA_WHIRLPOOL_PROGRAM = pubkey58 ''whirLbMiicVdio4qvUfM5KAg6Ct8VwpYzGff3uctyCc''"

definition METEORA_DLMM_PROGRAM :: pubkey where
  "METEORA_DLMM_PROGRAM = pubkey58 ''LBUZKhRxPF3XUpBCjp4YzTKgLccjZhTSDM9YuVaPwxo''"

definition MEMO_PROGRAM :: pubkey where
  "MEMO_PROGRAM = pubkey58 ''MemoSq4gqABAXKb96qnH8TysNcWxMyWCqXgDLGmfcHr''"

definition METEORA_DLMM_EVENT_AUTHORITY :: pubkey where
  "METEORA_DLMM_EVENT_AUTHORITY = pubkey58 ''D1ZN9Wj1fRSUQfCjhvnu1hqDMT7hzjzBBpi12nVniYD6''"

definition SYSVAR_INSTRUCTIONS :: pubkey where
  "SYSVAR_INSTRUCTIONS = pubkey58 ''Sysvar1nstructions1111111111111111111111111''"

definition PUMPFUN_BUYBACK_FEE_RECIPIENT :: pubkey where
  "PUMPFUN_BUYBACK_FEE_RECIPIENT = pubkey58 ''5YxQFdt3Tr9zJLvkFccqXVUwhdTWJQc1fFg2YPbxvxeD''"

section \<open>Selectors and bounds\<close>

definition BUY_EXACT_IN_LAUNCHLAB :: bytes where
  "BUY_EXACT_IN_LAUNCHLAB = [250, 234, 13, 123, 213, 156, 19, 236]"

definition SELL_EXACT_IN_LAUNCHLAB :: bytes where
  "SELL_EXACT_IN_LAUNCHLAB = [149, 39, 222, 155, 211, 124, 152, 26]"

definition SDK_CPMM_SWAP_BASE_IN :: bytes where
  "SDK_CPMM_SWAP_BASE_IN = [143, 190, 90, 218, 196, 30, 51, 222]"

definition PUMPFUN_BUY_EXACT_SOL_IN :: bytes where
  "PUMPFUN_BUY_EXACT_SOL_IN = [56, 252, 116, 8, 158, 223, 205, 95]"

definition PUMPFUN_SELL :: bytes where
  "PUMPFUN_SELL = [51, 230, 133, 164, 1, 127, 131, 173]"

definition PUMPFUN_BUY_EXACT_QUOTE_IN_V2 :: bytes where
  "PUMPFUN_BUY_EXACT_QUOTE_IN_V2 = [194, 171, 28, 70, 104, 77, 91, 47]"

definition PUMPFUN_SELL_V2 :: bytes where
  "PUMPFUN_SELL_V2 = [93, 246, 130, 60, 231, 233, 64, 178]"

definition SDK_PUMPSWAP_BUY_EXACT_QUOTE_IN :: bytes where
  "SDK_PUMPSWAP_BUY_EXACT_QUOTE_IN = [198, 46, 21, 82, 180, 217, 232, 112]"

definition PUMPSWAP_BUY :: bytes where
  "PUMPSWAP_BUY = [102, 6, 61, 18, 1, 218, 235, 234]"

definition SDK_PUMPSWAP_SELL :: bytes where
  "SDK_PUMPSWAP_SELL = [51, 230, 133, 164, 1, 127, 131, 173]"

definition CPMM_SWAP_BASE_OUT :: bytes where
  "CPMM_SWAP_BASE_OUT = [55, 217, 98, 86, 163, 74, 180, 173]"

definition METEORA_DAMM_V2_SWAP2 :: bytes where
  "METEORA_DAMM_V2_SWAP2 = [65, 75, 63, 76, 235, 91, 91, 136]"

definition SDK_CLMM_SWAP_V2 :: bytes where
  "SDK_CLMM_SWAP_V2 = [43, 4, 237, 11, 26, 201, 30, 98]"

definition SDK_METEORA_DLMM_SWAP2 :: bytes where
  "SDK_METEORA_DLMM_SWAP2 = [65, 75, 63, 76, 235, 91, 91, 136]"

definition WHIRLPOOL_SWAP_V2 :: bytes where
  "WHIRLPOOL_SWAP_V2 = SDK_CLMM_SWAP_V2"

definition CPMM_DEFAULT_TRADE_FEE_RATE :: u64 where
  "CPMM_DEFAULT_TRADE_FEE_RATE = 2500"

definition RAYDIUM_AMM_V4_SWAP_BASE_IN :: u8 where
  "RAYDIUM_AMM_V4_SWAP_BASE_IN = 9"

definition RAYDIUM_AMM_V4_SWAP_BASE_IN_V2 :: u8 where
  "RAYDIUM_AMM_V4_SWAP_BASE_IN_V2 = 16"

definition RAYDIUM_AMM_V4_SWAP_BASE_OUT_V2 :: u8 where
  "RAYDIUM_AMM_V4_SWAP_BASE_OUT_V2 = 17"

definition METEORA_DAMM_V2_EXACT_IN :: u8 where
  "METEORA_DAMM_V2_EXACT_IN = 0"

definition METEORA_DAMM_V2_PARTIAL_FILL :: u8 where
  "METEORA_DAMM_V2_PARTIAL_FILL = 1"

definition METEORA_DAMM_V2_EXACT_OUT :: u8 where
  "METEORA_DAMM_V2_EXACT_OUT = 2"

definition MIN_SQRT_PRICE_X64 :: u128 where
  "MIN_SQRT_PRICE_X64 = 4295048016"

definition MAX_SQRT_PRICE_X64 :: u128 where
  "MAX_SQRT_PRICE_X64 = 79226673521066979257578248091"

definition WHIRLPOOL_MIN_SQRT_PRICE_X64 :: u128 where
  "WHIRLPOOL_MIN_SQRT_PRICE_X64 = 4295048016"

definition WHIRLPOOL_MAX_SQRT_PRICE_X64 :: u128 where
  "WHIRLPOOL_MAX_SQRT_PRICE_X64 = 79226673515401279992447579055"

section \<open>Account metas\<close>

text \<open>\<open>AccountMeta::new\<close> is writable, \<open>AccountMeta::new_readonly\<close> is not; the second
  argument says whether the account signs. The constants named \<open>.._META\<close> are read-only
  metas without a signature.\<close>

definition meta_new :: "pubkey \<Rightarrow> bool \<Rightarrow> account_view" where
  "meta_new k sig = \<lparr>address = k, is_signer = sig, is_writable = True\<rparr>"

definition meta_ro :: "pubkey \<Rightarrow> bool \<Rightarrow> account_view" where
  "meta_ro k sig = \<lparr>address = k, is_signer = sig, is_writable = False\<rparr>"

definition META :: "pubkey \<Rightarrow> account_view" where
  "META k = \<lparr>address = k, is_signer = False, is_writable = False\<rparr>"

section \<open>Derived addresses\<close>

text \<open>\<open>Pubkey::find_program_address\<close> and its fallible variant are the Solana SDK's; the
  functions that use them take them as the record \<open>pda\<close>.\<close>

record pda =
  find_pda :: "bytes list \<Rightarrow> pubkey \<Rightarrow> pubkey \<times> u8"
  try_find_pda :: "bytes list \<Rightarrow> pubkey \<Rightarrow> (pubkey \<times> u8) option"

definition ascii :: "string \<Rightarrow> bytes" where
  "ascii s = map of_char s"

definition raydium_clmm_tick_array_bitmap_extension :: "'z pda_scheme \<Rightarrow> pubkey \<Rightarrow> pubkey" where
  "raydium_clmm_tick_array_bitmap_extension R pool_state = fst (find_pda R
     [ascii ''pool_tick_array_bitmap_extension'', key_bytes pool_state] RAYDIUM_CLMM_PROGRAM)"

definition pumpfun_user_volume_accumulator :: "'z pda_scheme \<Rightarrow> pubkey \<Rightarrow> pubkey" where
  "pumpfun_user_volume_accumulator R usr = fst (find_pda R
     [ascii ''user_volume_accumulator'', key_bytes usr] PUMPFUN_PROGRAM)"

definition pumpfun_bonding_curve_v2 :: "'z pda_scheme \<Rightarrow> pubkey \<Rightarrow> pubkey" where
  "pumpfun_bonding_curve_v2 R mint = fst (find_pda R
     [ascii ''bonding-curve-v2'', key_bytes mint] PUMPFUN_PROGRAM)"

end
