(* ===== verification/Sdk_Market.thy ===== *)
theory Sdk_Market
  imports Sdk_Constants
begin

text \<open>
  The SDK's market snapshots: \<open>transfer_fee.rs\<close>, \<open>asset.rs\<close> and \<open>market.rs\<close>. The fields of
  a pool carry a prefix of two letters; \<open>Result\<close> errors are the messages of \<open>anyhow!\<close>.
\<close>

type_synonym sdk_error = string

section \<open>Token-2022 transfer fee\<close>

record token_transfer_fee =
  basis_points :: u16
  maximum_fee :: u64

definition no_transfer_fee :: token_transfer_fee where
  "no_transfer_fee = \<lparr>basis_points = 0, maximum_fee = 0\<rparr>"

definition calculate :: "token_transfer_fee \<Rightarrow> u64 \<Rightarrow> u64" where
  "calculate f amount =
     (if basis_points f = 0 \<or> amount = 0 \<or> maximum_fee f = 0 then 0
      else let numerator = sat_mul (widen amount) (ucast (basis_points f));
               fee = div_ceil numerator 10000
           in as_u64 (min fee (widen (maximum_fee f))))"

definition calculate_inverse :: "token_transfer_fee \<Rightarrow> u64 \<Rightarrow> u64" where
  "calculate_inverse f post_fee_amount =
     (if basis_points f = 0 \<or> post_fee_amount = 0 \<or> maximum_fee f = 0 then 0
      else if basis_points f \<ge> 10000 then maximum_fee f
      else let numerator = sat_mul (widen post_fee_amount) (ucast (basis_points f));
               fee = div_ceil numerator (10000 - ucast (basis_points f))
           in as_u64 (min fee (widen (maximum_fee f))))"

section \<open>Assets\<close>

datatype buy_with = BuySol | BuyWsol | BuyToken pubkey
datatype sell_to = SellSol | SellWsol | SellToken pubkey

definition buy_is_sol_family :: "buy_with \<Rightarrow> bool" where
  "buy_is_sol_family b = (case b of BuyToken m \<Rightarrow> False | _ \<Rightarrow> True)"

definition buy_mint :: "buy_with \<Rightarrow> pubkey option" where
  "buy_mint b = (case b of BuyToken m \<Rightarrow> Some m | _ \<Rightarrow> Some WSOL_MINT)"

definition sell_is_sol_family :: "sell_to \<Rightarrow> bool" where
  "sell_is_sol_family s = (case s of SellToken m \<Rightarrow> False | _ \<Rightarrow> True)"

definition sell_mint :: "sell_to \<Rightarrow> pubkey option" where
  "sell_mint s = (case s of SellToken m \<Rightarrow> Some m | _ \<Rightarrow> Some WSOL_MINT)"

definition needs_wsol_unwrap :: "sell_to \<Rightarrow> bool" where
  "needs_wsol_unwrap s = (s = SellSol)"

section \<open>Pools\<close>

record launchlab_pool =
  ll_base_mint :: pubkey
  ll_quote_mint :: pubkey
  ll_base_token_program :: pubkey
  ll_quote_token_program :: pubkey
  ll_pool_state :: pubkey
  ll_base_vault :: pubkey
  ll_quote_vault :: pubkey
  ll_platform_config :: pubkey
  ll_platform_associated_account :: pubkey
  ll_creator_associated_account :: pubkey
  ll_global_config :: pubkey
  ll_virtual_base :: u128
  ll_virtual_quote :: u128
  ll_real_base :: u128
  ll_real_quote :: u128
  ll_total_base_sell :: u128
  ll_curve_type :: u8
  ll_fee_rates_known :: bool
  ll_trade_fee_rate :: u64
  ll_platform_fee_rate :: u64
  ll_creator_fee_rate :: u64
  ll_base_transfer_fee :: token_transfer_fee
  ll_quote_transfer_fee :: token_transfer_fee

record cpmm_pool =
  cp_pool_state :: pubkey
  cp_amm_config :: pubkey
  cp_observation_state :: pubkey
  cp_base_mint :: pubkey
  cp_quote_mint :: pubkey
  cp_base_vault :: pubkey
  cp_quote_vault :: pubkey
  cp_base_token_program :: pubkey
  cp_quote_token_program :: pubkey
  cp_base_reserve :: u64
  cp_quote_reserve :: u64
  cp_fee_rates_known :: bool
  cp_trade_fee_rate :: u64
  cp_creator_fee_rate :: u64
  cp_creator_fee_on :: u8
  cp_enable_creator_fee :: bool
  cp_base_transfer_fee :: token_transfer_fee
  cp_quote_transfer_fee :: token_transfer_fee

record pumpfun_pool =
  pf_mint :: pubkey
  pf_mint_token_program :: pubkey
  pf_quote_mint :: pubkey
  pf_quote_token_program :: pubkey
  pf_use_v2 :: bool
  pf_bonding_curve :: pubkey
  pf_associated_bonding_curve :: pubkey
  pf_creator_vault :: pubkey
  pf_fee_recipient :: pubkey
  pf_buyback_fee_recipient :: pubkey
  pf_global :: pubkey
  pf_event_authority :: pubkey
  pf_global_volume_accumulator :: pubkey
  pf_user_volume_accumulator :: pubkey
  pf_fee_config :: pubkey
  pf_fee_program :: pubkey
  pf_bonding_curve_v2 :: pubkey
  pf_protocol_fee_recipient :: pubkey
  pf_virtual_token_reserves :: u64
  pf_virtual_sol_reserves :: u64
  pf_real_token_reserves :: u64
  pf_protocol_fee_bps :: u64
  pf_creator_fee_bps :: u64
  pf_fee_rates_known :: bool
  pf_has_creator :: bool
  pf_is_cashback_coin :: bool

record pumpswap_pool =
  ps_pool :: pubkey
  ps_base_mint :: pubkey
  ps_quote_mint :: pubkey
  ps_pool_base_token_account :: pubkey
  ps_pool_quote_token_account :: pubkey
  ps_base_token_program :: pubkey
  ps_quote_token_program :: pubkey
  ps_coin_creator_vault_ata :: pubkey
  ps_coin_creator_vault_authority :: pubkey
  ps_coin_creator :: pubkey
  ps_base_reserve :: u64
  ps_quote_reserve :: u64
  ps_virtual_quote_reserves :: i128
  ps_quote_fee_reserves :: "u64 option"
  ps_lp_fee_bps :: u64
  ps_protocol_fee_bps :: u64
  ps_creator_fee_bps :: u64
  ps_is_cashback_coin :: bool
  ps_protocol_fee_recipient :: pubkey
  ps_buyback_fee_recipient :: pubkey

record raydium_amm_v4_pool =
  rv_amm :: pubkey
  rv_coin_mint :: pubkey
  rv_pc_mint :: pubkey
  rv_token_coin :: pubkey
  rv_token_pc :: pubkey
  rv_token_program :: pubkey
  rv_amm_open_orders :: pubkey
  rv_amm_target_orders :: pubkey
  rv_serum_program :: pubkey
  rv_serum_market :: pubkey
  rv_serum_bids :: pubkey
  rv_serum_asks :: pubkey
  rv_serum_event_queue :: pubkey
  rv_serum_coin_vault_account :: pubkey
  rv_serum_pc_vault_account :: pubkey
  rv_serum_vault_signer :: pubkey
  rv_coin_reserve :: u64
  rv_pc_reserve :: u64
  rv_trade_fee_numerator :: u64
  rv_swap_fee_numerator :: u64
  rv_swap_fee_denominator :: u64

record meteora_damm_v2_pool =
  dm_pool :: pubkey
  dm_token_a_vault :: pubkey
  dm_token_b_vault :: pubkey
  dm_token_a_mint :: pubkey
  dm_token_b_mint :: pubkey
  dm_token_a_program :: pubkey
  dm_token_b_program :: pubkey
  dm_token_a_reserve :: u64
  dm_token_b_reserve :: u64
  dm_fee_bps :: u64
  dm_quoted_amount_in :: "u64 option"
  dm_quoted_input_mint :: "pubkey option"
  dm_expected_out :: "u64 option"
  dm_swap_mode :: u8
  dm_referral_token_account :: "pubkey option"
  dm_include_rate_limiter_sysvar :: bool

record raydium_clmm_pool =
  cl_amm_config :: pubkey
  cl_pool_state :: pubkey
  cl_observation_state :: pubkey
  cl_token_0_mint :: pubkey
  cl_token_1_mint :: pubkey
  cl_token_0_vault :: pubkey
  cl_token_1_vault :: pubkey
  cl_token_0_program :: pubkey
  cl_token_1_program :: pubkey
  cl_tick_arrays :: "pubkey list"
  cl_tick_array_bitmap_extension :: "pubkey option"
  cl_quoted_amount_in :: "u64 option"
  cl_quoted_input_mint :: "pubkey option"
  cl_expected_out :: "u64 option"
  cl_fee_bps :: u16

record whirlpool_pool =
  wp_whirlpool :: pubkey
  wp_mint_a :: pubkey
  wp_mint_b :: pubkey
  wp_vault_a :: pubkey
  wp_vault_b :: pubkey
  wp_token_program_a :: pubkey
  wp_token_program_b :: pubkey
  wp_tick_arrays :: "pubkey list"
  wp_quoted_amount_in :: "u64 option"
  wp_quoted_input_mint :: "pubkey option"
  wp_expected_out :: "u64 option"
  wp_fee_bps :: u16

record meteora_dlmm_pool =
  dl_lb_pair :: pubkey
  dl_bitmap_extension :: "pubkey option"
  dl_reserve_x :: pubkey
  dl_reserve_y :: pubkey
  dl_token_x_mint :: pubkey
  dl_token_y_mint :: pubkey
  dl_token_x_program :: pubkey
  dl_token_y_program :: pubkey
  dl_oracle :: pubkey
  dl_bin_arrays :: "pubkey list"
  dl_quoted_amount_in :: "u64 option"
  dl_quoted_input_mint :: "pubkey option"
  dl_expected_out :: "u64 option"
  dl_fee_bps :: u16

section \<open>Operations of the pools\<close>

definition is_sol_quote :: "launchlab_pool \<Rightarrow> bool" where
  "is_sol_quote p = (ll_quote_mint p = WSOL_MINT)"

definition cpmm_other_mint :: "cpmm_pool \<Rightarrow> pubkey \<Rightarrow> pubkey option" where
  "cpmm_other_mint p m = (if m = cp_base_mint p then Some (cp_quote_mint p)
     else if m = cp_quote_mint p then Some (cp_base_mint p) else None)"

definition token_program_for :: "cpmm_pool \<Rightarrow> pubkey \<Rightarrow> pubkey option" where
  "token_program_for p m = (if m = cp_base_mint p then Some (cp_base_token_program p)
     else if m = cp_quote_mint p then Some (cp_quote_token_program p) else None)"

definition meme_mint_sol_paired :: "cpmm_pool \<Rightarrow> pubkey option" where
  "meme_mint_sol_paired p = (if cp_base_mint p = WSOL_MINT then Some (cp_quote_mint p)
     else if cp_quote_mint p = WSOL_MINT then Some (cp_base_mint p) else None)"

definition unwrap_or :: "'a option \<Rightarrow> 'a \<Rightarrow> 'a" where
  "unwrap_or x d = (case x of Some y \<Rightarrow> y | None \<Rightarrow> d)"

definition cpmm_meme_mint :: "cpmm_pool \<Rightarrow> pubkey" where
  "cpmm_meme_mint p = unwrap_or (meme_mint_sol_paired p) (cp_base_mint p)"

definition cpmm_pay_mint :: "cpmm_pool \<Rightarrow> pubkey" where
  "cpmm_pay_mint p = (if cp_base_mint p = WSOL_MINT \<or> cp_quote_mint p = WSOL_MINT then WSOL_MINT
     else cp_quote_mint p)"

definition track_volume_byte :: "pumpfun_pool \<Rightarrow> u8" where
  "track_volume_byte p = (if pf_is_cashback_coin p then 1 else 0)"

definition uses_v2 :: "pumpfun_pool \<Rightarrow> bool" where
  "uses_v2 p = (pf_use_v2 p \<or> pf_quote_mint p \<noteq> WSOL_MINT)"

definition is_native_sol_quote :: "pumpfun_pool \<Rightarrow> bool" where
  "is_native_sol_quote p = (pf_quote_mint p = WSOL_MINT)"

definition uses_wsol_ata_settlement :: "pumpfun_pool \<Rightarrow> bool" where
  "uses_wsol_ata_settlement p = (is_native_sol_quote p \<and> pf_use_v2 p)"

definition uses_openbook_market :: "raydium_amm_v4_pool \<Rightarrow> bool" where
  "uses_openbook_market p = (rv_serum_market p \<noteq> 0 \<and> rv_amm_open_orders p \<noteq> 0)"

text \<open>The fields of the direct trade SDK's \<open>Pool\<close> account that are compared or read.\<close>

record pumpswap_account =
  pa_base_mint :: pubkey
  pa_quote_mint :: pubkey
  pa_base_token_account :: pubkey
  pa_quote_token_account :: pubkey
  pa_virtual_quote_reserves :: i128
  pa_coin_creator :: pubkey
  pa_is_cashback_coin :: bool
  pa_protocol_fees :: u64
  pa_creator_fees :: u64

definition apply_pool_fee_reserves ::
  "pumpswap_pool \<Rightarrow> pumpswap_account \<Rightarrow> sdk_error + pumpswap_pool" where
  "apply_pool_fee_reserves p st =
     (if \<not> (pa_base_mint st = ps_base_mint p \<and> pa_quote_mint st = ps_quote_mint p
         \<and> pa_base_token_account st = ps_pool_base_token_account p
         \<and> pa_quote_token_account st = ps_pool_quote_token_account p
         \<and> pa_virtual_quote_reserves st = ps_virtual_quote_reserves p
         \<and> pa_coin_creator st = ps_coin_creator p
         \<and> pa_is_cashback_coin st = ps_is_cashback_coin p)
      then Err ''PumpSwap Pool changed or does not match the market snapshot; reload state''
      else case checked_add (pa_protocol_fees st) (pa_creator_fees st) of
        None \<Rightarrow> Err ''PumpSwap reserved fees exceed quote vault balance''
      | Some fees \<Rightarrow> if fees \<le> ps_quote_reserve p then Ok (p\<lparr>ps_quote_fee_reserves := Some fees\<rparr>)
          else Err ''PumpSwap reserved fees exceed quote vault balance'')"

section \<open>Bridges\<close>

datatype bridge_pool = BridgeCpmm cpmm_pool | BridgeAmmV4 raydium_amm_v4_pool

fun bridge_mints :: "bridge_pool \<Rightarrow> pubkey \<times> pubkey" where
  "bridge_mints (BridgeCpmm p) = (cp_base_mint p, cp_quote_mint p)"
| "bridge_mints (BridgeAmmV4 p) = (rv_coin_mint p, rv_pc_mint p)"

definition contains_mint :: "bridge_pool \<Rightarrow> pubkey \<Rightarrow> bool" where
  "contains_mint b m = (case bridge_mints b of (x, y) \<Rightarrow> m = x \<or> m = y)"

definition bridge_other_mint :: "bridge_pool \<Rightarrow> pubkey \<Rightarrow> pubkey option" where
  "bridge_other_mint b m = (case bridge_mints b of (x, y) \<Rightarrow>
     if m = x then Some y else if m = y then Some x else None)"

fun pool_key :: "bridge_pool \<Rightarrow> pubkey" where
  "pool_key (BridgeCpmm p) = cp_pool_state p"
| "pool_key (BridgeAmmV4 p) = rv_amm p"

section \<open>Markets\<close>

datatype market =
    LaunchLabInner launchlab_pool
  | CpmmOuter cpmm_pool
  | PumpFunInner pumpfun_pool
  | PumpSwapOuter pumpswap_pool
  | RaydiumAmmV4 raydium_amm_v4_pool
  | MeteoraDammV2 meteora_damm_v2_pool
  | RaydiumClmm raydium_clmm_pool
  | Whirlpool whirlpool_pool
  | MeteoraDlmm meteora_dlmm_pool

definition pair_base :: "pubkey \<Rightarrow> pubkey \<Rightarrow> pubkey" where
  "pair_base a b = (if a = WSOL_MINT then b else if b = WSOL_MINT then a
     else if a = USDC_MINT then b else a)"

definition pair_quote :: "pubkey \<Rightarrow> pubkey \<Rightarrow> pubkey" where
  "pair_quote a b = (if a = WSOL_MINT \<or> b = WSOL_MINT then WSOL_MINT
     else if a = USDC_MINT then USDC_MINT else b)"

fun market_base_mint :: "market \<Rightarrow> pubkey" where
  "market_base_mint (LaunchLabInner p) = ll_base_mint p"
| "market_base_mint (CpmmOuter p) = cpmm_meme_mint p"
| "market_base_mint (PumpFunInner p) = pf_mint p"
| "market_base_mint (PumpSwapOuter p) = ps_base_mint p"
| "market_base_mint (RaydiumAmmV4 p) = pair_base (rv_coin_mint p) (rv_pc_mint p)"
| "market_base_mint (MeteoraDammV2 p) = pair_base (dm_token_a_mint p) (dm_token_b_mint p)"
| "market_base_mint (RaydiumClmm p) = pair_base (cl_token_0_mint p) (cl_token_1_mint p)"
| "market_base_mint (Whirlpool p) = pair_base (wp_mint_a p) (wp_mint_b p)"
| "market_base_mint (MeteoraDlmm p) = pair_base (dl_token_x_mint p) (dl_token_y_mint p)"

fun market_quote_mint :: "market \<Rightarrow> pubkey" where
  "market_quote_mint (LaunchLabInner p) = ll_quote_mint p"
| "market_quote_mint (CpmmOuter p) = cpmm_pay_mint p"
| "market_quote_mint (PumpFunInner p) = pf_quote_mint p"
| "market_quote_mint (PumpSwapOuter p) = ps_quote_mint p"
| "market_quote_mint (RaydiumAmmV4 p) = pair_quote (rv_coin_mint p) (rv_pc_mint p)"
| "market_quote_mint (MeteoraDammV2 p) = pair_quote (dm_token_a_mint p) (dm_token_b_mint p)"
| "market_quote_mint (RaydiumClmm p) = pair_quote (cl_token_0_mint p) (cl_token_1_mint p)"
| "market_quote_mint (Whirlpool p) = pair_quote (wp_mint_a p) (wp_mint_b p)"
| "market_quote_mint (MeteoraDlmm p) = pair_quote (dl_token_x_mint p) (dl_token_y_mint p)"

definition neither_wsol :: "pubkey \<Rightarrow> pubkey \<Rightarrow> bool" where
  "neither_wsol a b = (a \<noteq> WSOL_MINT \<and> b \<noteq> WSOL_MINT)"

fun needs_sol_bridge :: "market \<Rightarrow> bool" where
  "needs_sol_bridge (LaunchLabInner p) = (\<not> is_sol_quote p)"
| "needs_sol_bridge (CpmmOuter p) = neither_wsol (cp_base_mint p) (cp_quote_mint p)"
| "needs_sol_bridge (PumpFunInner p) = (pf_quote_mint p \<noteq> WSOL_MINT)"
| "needs_sol_bridge (PumpSwapOuter p) = (ps_quote_mint p \<noteq> WSOL_MINT)"
| "needs_sol_bridge (RaydiumAmmV4 p) = neither_wsol (rv_coin_mint p) (rv_pc_mint p)"
| "needs_sol_bridge (MeteoraDammV2 p) = neither_wsol (dm_token_a_mint p) (dm_token_b_mint p)"
| "needs_sol_bridge (RaydiumClmm p) = neither_wsol (cl_token_0_mint p) (cl_token_1_mint p)"
| "needs_sol_bridge (Whirlpool p) = neither_wsol (wp_mint_a p) (wp_mint_b p)"
| "needs_sol_bridge (MeteoraDlmm p) = neither_wsol (dl_token_x_mint p) (dl_token_y_mint p)"

fun market_base_token_program :: "market \<Rightarrow> pubkey" where
  "market_base_token_program (LaunchLabInner p) = ll_base_token_program p"
| "market_base_token_program (CpmmOuter p) =
     unwrap_or (token_program_for p (cpmm_meme_mint p)) (cp_base_token_program p)"
| "market_base_token_program (PumpFunInner p) = pf_mint_token_program p"
| "market_base_token_program (PumpSwapOuter p) = ps_base_token_program p"
| "market_base_token_program (RaydiumAmmV4 p) = rv_token_program p"
| "market_base_token_program (MeteoraDammV2 p) =
     (if market_base_mint (MeteoraDammV2 p) = dm_token_a_mint p then dm_token_a_program p
      else dm_token_b_program p)"
| "market_base_token_program (RaydiumClmm p) =
     (if market_base_mint (RaydiumClmm p) = cl_token_0_mint p then cl_token_0_program p
      else cl_token_1_program p)"
| "market_base_token_program (Whirlpool p) =
     (if market_base_mint (Whirlpool p) = wp_mint_a p then wp_token_program_a p
      else wp_token_program_b p)"
| "market_base_token_program (MeteoraDlmm p) =
     (if market_base_mint (MeteoraDlmm p) = dl_token_x_mint p then dl_token_x_program p
      else dl_token_y_program p)"

fun market_quote_token_program :: "market \<Rightarrow> pubkey" where
  "market_quote_token_program (LaunchLabInner p) = ll_quote_token_program p"
| "market_quote_token_program (CpmmOuter p) =
     unwrap_or (token_program_for p (cpmm_pay_mint p)) (cp_quote_token_program p)"
| "market_quote_token_program (PumpFunInner p) = pf_quote_token_program p"
| "market_quote_token_program (PumpSwapOuter p) = ps_quote_token_program p"
| "market_quote_token_program (RaydiumAmmV4 p) = rv_token_program p"
| "market_quote_token_program (MeteoraDammV2 p) =
     (if market_quote_mint (MeteoraDammV2 p) = dm_token_a_mint p then dm_token_a_program p
      else dm_token_b_program p)"
| "market_quote_token_program (RaydiumClmm p) =
     (if market_quote_mint (RaydiumClmm p) = cl_token_0_mint p then cl_token_0_program p
      else cl_token_1_program p)"
| "market_quote_token_program (Whirlpool p) =
     (if market_quote_mint (Whirlpool p) = wp_mint_a p then wp_token_program_a p
      else wp_token_program_b p)"
| "market_quote_token_program (MeteoraDlmm p) =
     (if market_quote_mint (MeteoraDlmm p) = dl_token_x_mint p then dl_token_x_program p
      else dl_token_y_program p)"

section \<open>Routed markets\<close>

record routed_market =
  rm_market :: market
  rm_bridge :: "bridge_pool option"

definition shared_in :: "cpmm_pool \<Rightarrow> pubkey list \<Rightarrow> pubkey option" where
  "shared_in p pair = (if cp_quote_mint p \<in> set pair then Some (cp_quote_mint p)
     else if cp_base_mint p \<in> set pair then Some (cp_base_mint p) else None)"

definition shared_mint :: "cpmm_pool \<Rightarrow> cpmm_pool \<Rightarrow> pubkey option" where
  "shared_mint p b = shared_in p [cp_base_mint b, cp_quote_mint b]"

fun shared_mint_with_bridge :: "cpmm_pool \<Rightarrow> bridge_pool \<Rightarrow> pubkey option" where
  "shared_mint_with_bridge p (BridgeCpmm b) = shared_mint p b"
| "shared_mint_with_bridge p (BridgeAmmV4 b) = shared_in p [rv_coin_mint b, rv_pc_mint b]"

definition routed_meme_mint :: "routed_market \<Rightarrow> pubkey" where
  "routed_meme_mint rm = (case rm_market rm of
     CpmmOuter pool \<Rightarrow>
       (case (if needs_sol_bridge (rm_market rm) then rm_bridge rm else None) of
          Some bridge \<Rightarrow> (case shared_mint_with_bridge pool bridge of
             Some stock \<Rightarrow> unwrap_or (cpmm_other_mint pool stock) (cpmm_meme_mint pool)
           | None \<Rightarrow> cpmm_meme_mint pool)
        | None \<Rightarrow> unwrap_or (meme_mint_sol_paired pool) (cp_base_mint pool))
   | m \<Rightarrow> market_base_mint m)"

definition routed_meme_token_program :: "routed_market \<Rightarrow> pubkey" where
  "routed_meme_token_program rm = (case rm_market rm of
     CpmmOuter pool \<Rightarrow> unwrap_or (token_program_for pool (routed_meme_mint rm))
       (market_base_token_program (rm_market rm))
   | m \<Rightarrow> market_base_token_program m)"

definition routed_quote_mint :: "routed_market \<Rightarrow> pubkey" where
  "routed_quote_mint rm = (case rm_market rm of
     CpmmOuter pool \<Rightarrow> unwrap_or (cpmm_other_mint pool (routed_meme_mint rm)) (cpmm_pay_mint pool)
   | m \<Rightarrow> market_quote_mint m)"

definition routed_quote_token_program :: "routed_market \<Rightarrow> pubkey" where
  "routed_quote_token_program rm = (case rm_market rm of
     CpmmOuter pool \<Rightarrow> unwrap_or (token_program_for pool (routed_quote_mint rm))
       (market_quote_token_program (rm_market rm))
   | m \<Rightarrow> market_quote_token_program m)"

definition launchlab_platform_associated_account :: "'z pda_scheme \<Rightarrow> pubkey \<Rightarrow> pubkey \<Rightarrow> pubkey option" where
  "launchlab_platform_associated_account P platform_config quote_mint = map_option fst
     (try_find_pda P [key_bytes platform_config, key_bytes quote_mint] LAUNCHLAB_PROGRAM)"

definition launchlab_creator_associated_account :: "'z pda_scheme \<Rightarrow> pubkey \<Rightarrow> pubkey \<Rightarrow> pubkey option" where
  "launchlab_creator_associated_account P creator quote_mint = map_option fst
     (try_find_pda P [key_bytes creator, key_bytes quote_mint] LAUNCHLAB_PROGRAM)"

end
