(* ===== verification/Sdk_Quote.thy ===== *)
theory Sdk_Quote
  imports Sdk_Market
begin

unbundle bit_operations_syntax

text \<open>
  The local quotes of \<open>quote.rs\<close>: slippage, platform fee and the swap mathematics of the
  venues, on the machine integers of the code. Plain \<open>+\<close>, \<open>*\<close> and \<open>-\<close> on u128 are word
  operators; \<open>saturating_*\<close> and \<open>checked_*\<close> are the operators of the prelude.
\<close>

section \<open>Slippage and fees\<close>

definition MAX_SLIPPAGE_BPS :: u64 where "MAX_SLIPPAGE_BPS = 9999"
definition FEE_DENOM :: u128 where "FEE_DENOM = 1000000"
definition U64_MAX :: u64 where "U64_MAX = - 1"

definition validate_router_fee_bps :: "u16 \<Rightarrow> sdk_error + unit" where
  "validate_router_fee_bps bps =
     (if bps > 1000 then Err ''router fee exceeds the on-chain maximum of 1_000 bps'' else Ok ())"

definition clamp_slippage_bps :: "u64 \<Rightarrow> u64" where
  "clamp_slippage_bps bps = min bps MAX_SLIPPAGE_BPS"

definition apply_slippage_min_out :: "u64 \<Rightarrow> u64 \<Rightarrow> u64" where
  "apply_slippage_min_out amount bps =
     (let slip = widen (clamp_slippage_bps bps);
          out = as_u64 (min (sat_mul (widen amount) (sat_sub 10000 slip) div 10000) (widen U64_MAX))
      in if amount = 0 then 0 else max out 1)"

definition fee_amount :: "u64 \<Rightarrow> u16 \<Rightarrow> u64" where
  "fee_amount amount bps =
     as_u64 (min (sat_mul (widen amount) (ucast bps) div 10000) (widen U64_MAX))"

definition fee_ceil :: "u128 \<Rightarrow> u128 \<Rightarrow> u128" where
  "fee_ceil amount rate = div_ceil (sat_mul amount rate) FEE_DENOM"

definition compute_fee_bps :: "u128 \<Rightarrow> u128 \<Rightarrow> u128" where
  "compute_fee_bps amount bps =
     (case checked_mul (amount div 10000) bps of
        None \<Rightarrow> - 1
      | Some whole \<Rightarrow> (case checked_mul (amount mod 10000) bps of
          None \<Rightarrow> - 1
        | Some rem \<Rightarrow>
            let rem_ceil = (if rem mod 10000 = 0 then rem div 10000 else rem div 10000 + 1)
            in sat_add whole rem_ceil))"

definition cpmm_trade_fee :: "u64 \<Rightarrow> u64 \<Rightarrow> u64" where
  "cpmm_trade_fee amount rate =
     (let numerator = sat_mul (widen amount) (widen rate)
      in as_u64 ((numerator + FEE_DENOM - 1) div FEE_DENOM))"

section \<open>LaunchLab\<close>

record launchlab_buy =
  bq_amount_in :: u64
  bq_amount_out :: u64

definition launchlab_total_fee_rate :: "launchlab_pool \<Rightarrow> u64 \<Rightarrow> sdk_error + u128" where
  "launchlab_total_fee_rate p share_fee_rate =
     (if \<not> ll_fee_rates_known p
      then Err ''LaunchLab current Global/Platform/mint fee state is missing''
      else let rate = sat_add (sat_add (sat_add (widen (ll_trade_fee_rate p))
                (widen (ll_platform_fee_rate p))) (widen (ll_creator_fee_rate p)))
                (widen share_fee_rate)
           in if rate > FEE_DENOM then Err ''LaunchLab total fee rate exceeds 1_000_000'' else Ok rate)"

definition pre_fee_amount :: "u128 \<Rightarrow> u128 \<Rightarrow> sdk_error + u128" where
  "pre_fee_amount post_fee fee_rate =
     (case checked_sub FEE_DENOM fee_rate of
        None \<Rightarrow> Err ''LaunchLab fee rate must be below 1_000_000''
      | Some denom \<Rightarrow> if denom > 0 then Ok (div_ceil (sat_mul post_fee FEE_DENOM) denom)
          else Err ''LaunchLab fee rate must be below 1_000_000'')"

text \<open>The graduation clamp: the curve cannot sell more than remains of \<open>total_base_sell\<close>.\<close>

definition launchlab_graduation ::
  "launchlab_pool \<Rightarrow> u64 \<Rightarrow> u128 \<Rightarrow> u128 \<Rightarrow> u128 \<Rightarrow> u128 \<Rightarrow> sdk_error + u64" where
  "launchlab_graduation p amount_in rate input_reserve output_reserve remaining =
     bind_r (case checked_sub output_reserve remaining of
         Some v \<Rightarrow> if v > 0 then Ok v else Err ''LaunchLab graduation exhausts reserve''
       | None \<Rightarrow> Err ''LaunchLab graduation exhausts reserve'') (\<lambda>output_after.
     bind_r (ok_or (map_option (\<lambda>v. div_ceil v output_after) (checked_mul input_reserve remaining))
       ''LaunchLab graduation input overflow'') (\<lambda>required_curve.
     bind_r (pre_fee_amount required_curve rate) (\<lambda>required_vault.
     bind_r (ok_or (try_u64 required_vault) ''LaunchLab graduation input exceeds u64'') (\<lambda>rv.
     bind_r (ok_or (checked_add rv (calculate_inverse (ll_quote_transfer_fee p) rv))
       ''LaunchLab transfer-fee input overflow'') (\<lambda>actual. Ok (min actual amount_in))))))"

definition launchlab_clamp ::
  "launchlab_pool \<Rightarrow> u64 \<Rightarrow> u128 \<Rightarrow> u128 \<Rightarrow> u128 \<Rightarrow> u128 \<Rightarrow> sdk_error + (u64 \<times> u128)" where
  "launchlab_clamp p amount_in rate input_reserve output_reserve quoted_output =
     (if ll_total_base_sell p = 0 then Ok (amount_in, quoted_output)
      else bind_r (ok_or (checked_sub (ll_total_base_sell p) (ll_real_base p))
          ''LaunchLab sold amount exceeds total_base_sell'') (\<lambda>remaining.
        if quoted_output \<le> remaining then Ok (amount_in, quoted_output)
        else bind_r (launchlab_graduation p amount_in rate input_reserve output_reserve remaining)
          (\<lambda>actual. Ok (actual, remaining))))"

definition launchlab_buy_quote :: "launchlab_pool \<Rightarrow> u64 \<Rightarrow> u64 \<Rightarrow> sdk_error + launchlab_buy" where
  "launchlab_buy_quote p amount_in share_fee_rate =
     (if amount_in = 0 then Err ''quote_in is zero''
      else if ll_curve_type p \<noteq> 0 then Err ''unsupported LaunchLab curve_type''
      else bind_r (launchlab_total_fee_rate p share_fee_rate) (\<lambda>rate.
      bind_r (ok_or (checked_sub amount_in (calculate (ll_quote_transfer_fee p) amount_in))
        ''LaunchLab quote transfer fee exceeds input'') (\<lambda>vault64. let vault_input = widen vault64 in
      bind_r (ok_or (checked_sub vault_input (fee_ceil vault_input rate))
        ''LaunchLab fees exceed input'') (\<lambda>curve_input.
      bind_r (ok_or (checked_add (ll_virtual_quote p) (ll_real_quote p))
        ''LaunchLab quote reserve overflow'') (\<lambda>input_reserve.
      bind_r (ok_or (checked_sub (ll_virtual_base p) (ll_real_base p))
        ''LaunchLab base reserve underflow'') (\<lambda>output_reserve.
        if input_reserve = 0 \<or> output_reserve = 0 then Err ''invalid launchlab reserves''
        else bind_r (ok_or (checked_add input_reserve curve_input)
          ''LaunchLab buy denominator overflow'') (\<lambda>denominator.
        bind_r (ok_or (case checked_mul curve_input output_reserve of
            Some v \<Rightarrow> checked_div v denominator | None \<Rightarrow> None)
          ''Failed to quote LaunchLab buy'') (\<lambda>quoted_output.
        bind_r (launchlab_clamp p amount_in rate input_reserve output_reserve quoted_output)
          (\<lambda>(actual_in, gross).
        bind_r (ok_or (try_u64 gross) ''LaunchLab buy out > u64'') (\<lambda>gross_out.
        Ok \<lparr>bq_amount_in = actual_in,
            bq_amount_out = sat_sub gross_out (calculate (ll_base_transfer_fee p) gross_out)\<rparr>))))))))))"

definition launchlab_buy_base_out :: "launchlab_pool \<Rightarrow> u64 \<Rightarrow> sdk_error + u64" where
  "launchlab_buy_base_out p quote_in = bind_r (launchlab_buy_quote p quote_in 0) (\<lambda>q. Ok (bq_amount_out q))"

definition launchlab_sell_quote_out :: "launchlab_pool \<Rightarrow> u64 \<Rightarrow> sdk_error + u64" where
  "launchlab_sell_quote_out p base_in =
     (if base_in = 0 then Err ''base_in is zero''
      else if ll_curve_type p \<noteq> 0 then Err ''unsupported LaunchLab curve_type''
      else bind_r (ok_or (checked_sub base_in (calculate (ll_base_transfer_fee p) base_in))
        ''LaunchLab base transfer fee exceeds input'') (\<lambda>credited. let curve_input = widen credited in
        if curve_input > ll_real_base p then Err ''LaunchLab sell input exceeds base previously sold''
        else bind_r (ok_or (checked_sub (ll_virtual_base p) (ll_real_base p))
          ''LaunchLab base reserve underflow'') (\<lambda>input_reserve.
        bind_r (ok_or (checked_add (ll_virtual_quote p) (ll_real_quote p))
          ''LaunchLab quote reserve overflow'') (\<lambda>output_reserve.
          if input_reserve = 0 then Err ''invalid launchlab reserves''
          else bind_r (ok_or (checked_add input_reserve curve_input)
            ''LaunchLab sell denominator overflow'') (\<lambda>denominator.
          bind_r (ok_or (case checked_mul curve_input output_reserve of
              Some v \<Rightarrow> checked_div v denominator | None \<Rightarrow> None)
            ''Failed to quote LaunchLab sell'') (\<lambda>gross.
            if gross > ll_real_quote p
            then Err ''LaunchLab real quote reserve cannot cover gross output''
            else bind_r (launchlab_total_fee_rate p 0) (\<lambda>rate.
            bind_r (ok_or (checked_sub gross (fee_ceil gross rate))
              ''LaunchLab fees exceed output'') (\<lambda>net.
            bind_r (ok_or (try_u64 net) ''LaunchLab sell out > u64'') (\<lambda>vault_out.
              Ok (sat_sub vault_out (calculate (ll_quote_transfer_fee p) vault_out)))))))))))"

section \<open>CPMM\<close>

definition creator_fee_on_input :: "cpmm_pool \<Rightarrow> bool \<Rightarrow> sdk_error + bool" where
  "creator_fee_on_input p input_is_base =
     (if \<not> cp_enable_creator_fee p \<or> cp_creator_fee_rate p = 0 then Ok True
      else if cp_creator_fee_on p = 0 then Ok True
      else if cp_creator_fee_on p = 1 then Ok input_is_base
      else if cp_creator_fee_on p = 2 then Ok (\<not> input_is_base)
      else Err ''invalid CPMM creator_fee_on'')"

text \<open>Input reserve, output reserve, transfer fee of the input mint and of the output mint.\<close>

definition cpmm_sides ::
  "cpmm_pool \<Rightarrow> bool \<Rightarrow> u64 \<times> u64 \<times> token_transfer_fee \<times> token_transfer_fee" where
  "cpmm_sides p input_is_base =
     (if input_is_base
      then (cp_base_reserve p, cp_quote_reserve p, cp_base_transfer_fee p, cp_quote_transfer_fee p)
      else (cp_quote_reserve p, cp_base_reserve p, cp_quote_transfer_fee p, cp_base_transfer_fee p))"

definition cpmm_creator_rate :: "cpmm_pool \<Rightarrow> u64" where
  "cpmm_creator_rate p = (if cp_enable_creator_fee p then cp_creator_fee_rate p else 0)"

text \<open>\<open>(output_reserve * net) / (input_reserve + net)\<close> in u128, truncated to u64.\<close>

definition cpmm_curve :: "u64 \<Rightarrow> u64 \<Rightarrow> u64 \<Rightarrow> u64" where
  "cpmm_curve input_reserve output_reserve net =
     as_u64 (sat_mul (widen output_reserve) (widen net) div sat_add (widen input_reserve) (widen net))"

definition cpmm_swapped :: "cpmm_pool \<Rightarrow> bool \<Rightarrow> u64 \<Rightarrow> u64 \<Rightarrow> u64 \<Rightarrow> u64" where
  "cpmm_swapped p on_input input_reserve output_reserve actual_in =
     (let creator_rate = cpmm_creator_rate p in
      if on_input then
        let total_fee = cpmm_trade_fee actual_in (sat_add (cp_trade_fee_rate p) creator_rate)
        in cpmm_curve input_reserve output_reserve (sat_sub actual_in total_fee)
      else
        let trade_fee = cpmm_trade_fee actual_in (cp_trade_fee_rate p);
            out_swapped = cpmm_curve input_reserve output_reserve (sat_sub actual_in trade_fee)
        in sat_sub out_swapped (cpmm_trade_fee out_swapped creator_rate))"

definition cpmm_out :: "cpmm_pool \<Rightarrow> u64 \<Rightarrow> bool \<Rightarrow> sdk_error + u64" where
  "cpmm_out p amount_in input_is_base =
     (if \<not> cp_fee_rates_known p then Err ''CPMM current config and mint fee state is missing''
      else if widen (cp_trade_fee_rate p) + widen (cpmm_creator_rate p) \<ge> FEE_DENOM
        \<or> basis_points (cp_base_transfer_fee p) > 10000 \<or> basis_points (cp_quote_transfer_fee p) > 10000
      then Err ''invalid CPMM fee configuration''
      else if amount_in = 0 then Err ''amount_in is zero''
      else case cpmm_sides p input_is_base of (input_reserve, output_reserve, in_fee, out_fee) \<Rightarrow>
        if input_reserve = 0 \<or> output_reserve = 0 then Err ''empty cpmm reserves''
        else bind_r (ok_or (checked_sub amount_in (calculate in_fee amount_in))
          ''CPMM input fee exceeds amount'') (\<lambda>actual_in.
        bind_r (ok_or (checked_add input_reserve actual_in)
          ''CPMM input reserve overflows token balance'') (\<lambda>_.
        bind_r (creator_fee_on_input p input_is_base) (\<lambda>on_input.
          let swapped = cpmm_swapped p on_input input_reserve output_reserve actual_in
          in Ok (sat_sub swapped (calculate out_fee swapped))))))"

section \<open>CPMM exact output\<close>

text \<open>The largest gross input whose vault credit fits the token balance of the vault.\<close>

function max_gross :: "token_transfer_fee \<Rightarrow> u64 \<Rightarrow> u64 \<Rightarrow> u64 \<Rightarrow> u64" where
  "max_gross fee capacity max_lo max_hi =
     (if max_lo < max_hi then
        let distance = max_hi - max_lo;
            mid = max_lo + distance div 2 + distance mod 2;
            credit = mid - calculate fee mid
        in if credit \<le> capacity then max_gross fee capacity mid max_hi
           else max_gross fee capacity max_lo (mid - 1)
      else max_lo)"
  by pat_completeness auto

text \<open>Doubling the upper end; the loop ends only where the target is reached.\<close>

partial_function (option) grow_hi :: "cpmm_pool \<Rightarrow> bool \<Rightarrow> u64 \<Rightarrow> u64 \<Rightarrow> u64 \<Rightarrow> (sdk_error + u64) option" where
  "grow_hi p b amount_out max_input hi =
     (case cpmm_out p hi b of
        Inl e \<Rightarrow> Some (Err e)
      | Inr out \<Rightarrow> if out < amount_out
          then grow_hi p b amount_out max_input (min (max (sat_mul hi 2) (sat_add hi 1)) max_input)
          else Some (Ok hi))"

function narrow :: "cpmm_pool \<Rightarrow> bool \<Rightarrow> u64 \<Rightarrow> u64 \<Rightarrow> u64 \<Rightarrow> sdk_error + u64" where
  "narrow p b amount_out lo hi =
     (if lo < hi then
        let mid = lo + (hi - lo) div 2 in
        case cpmm_out p mid b of
          Inl e \<Rightarrow> Err e
        | Inr out \<Rightarrow> if out \<ge> amount_out then narrow p b amount_out lo mid
            else narrow p b amount_out (mid + 1) hi
      else Ok lo)"
  by pat_completeness auto

definition cpmm_in_for_out :: "cpmm_pool \<Rightarrow> u64 \<Rightarrow> bool \<Rightarrow> (sdk_error + u64) option" where
  "cpmm_in_for_out p amount_out b =
     (if amount_out = 0 then Some (Ok 0)
      else case cpmm_sides p b of (input_reserve, output_reserve, input_fee, _) \<Rightarrow>
      if amount_out \<ge> output_reserve then Some (Err ''cpmm amount_out exceeds reserve'')
      else case cpmm_out p 1 b of Inl e \<Rightarrow> Some (Err e) | Inr _ \<Rightarrow>
      let capacity = U64_MAX - input_reserve;
          max_input = max_gross input_fee capacity 0 U64_MAX;
          unreachable = Some (Err ''cpmm amount_out is unreachable within token vault capacity'')
      in if max_input = 0 then unreachable
      else case cpmm_out p max_input b of Inl e \<Rightarrow> Some (Err e) | Inr reached \<Rightarrow>
      if reached < amount_out then unreachable
      else case try_u64 (div_ceil (sat_mul (widen amount_out) (widen input_reserve))
          (widen (output_reserve - amount_out))) of
        None \<Rightarrow> Some (Err ''cpmm exact-out input exceeds u64'')
      | Some naive \<Rightarrow>
          let lo = max naive 1; hi = min (sat_add (sat_mul lo 2) 10000) max_input
          in case grow_hi p b amount_out max_input hi of
               None \<Rightarrow> None
             | Some (Inl e) \<Rightarrow> Some (Err e)
             | Some (Inr hi') \<Rightarrow> Some (narrow p b amount_out lo hi'))"

section \<open>Pump.fun\<close>

definition pumpfun_total_fee_bps :: "bool \<Rightarrow> u64" where
  "pumpfun_total_fee_bps has_creator = 95 + (if has_creator then 30 else 0)"

definition pumpfun_rates :: "pumpfun_pool \<Rightarrow> sdk_error + (u128 \<times> u128)" where
  "pumpfun_rates p =
     (if \<not> pf_fee_rates_known p
      then Err ''PumpFun current fee rates are missing; supply current rates or explicit min_out''
      else let protocol = widen (pf_protocol_fee_bps p);
               creator = (if pf_has_creator p then widen (pf_creator_fee_bps p) else 0)
           in if protocol + creator \<ge> 10000 then Err ''invalid PumpFun fee rates''
              else Ok (protocol, creator))"

definition pumpfun_net :: "u64 \<Rightarrow> u128 \<Rightarrow> u128 \<Rightarrow> sdk_error + u128" where
  "pumpfun_net quote_in protocol creator =
     (let net = widen quote_in * 10000 div (10000 + protocol + creator);
          total = net + compute_fee_bps net protocol + compute_fee_bps net creator
      in bind_r (if total > widen quote_in
          then ok_or (checked_sub net (total - widen quote_in)) ''PumpFun input cannot cover fees''
          else Ok net) (\<lambda>net'.
         ok_or (checked_sub net' 1) ''PumpFun input too small after fees''))"

definition pumpfun_buy_token_out :: "pumpfun_pool \<Rightarrow> u64 \<Rightarrow> sdk_error + u64" where
  "pumpfun_buy_token_out p quote_in =
     bind_r (pumpfun_rates p) (\<lambda>(protocol, creator).
       if quote_in = 0 \<or> pf_virtual_token_reserves p = 0 \<or> pf_virtual_sol_reserves p = 0
       then Err ''invalid PumpFun input or reserves''
       else bind_r (pumpfun_net quote_in protocol creator) (\<lambda>curve_in.
         let tokens = curve_in * widen (pf_virtual_token_reserves p)
               div (widen (pf_virtual_sol_reserves p) + curve_in);
             out = as_u64 (min tokens (widen (pf_real_token_reserves p)))
         in if out = 0 then Err ''PumpFun quote output rounds to zero'' else Ok out))"

definition pumpfun_sell_sol_out :: "pumpfun_pool \<Rightarrow> u64 \<Rightarrow> sdk_error + u64" where
  "pumpfun_sell_sol_out p token_in =
     bind_r (pumpfun_rates p) (\<lambda>(protocol, creator).
       if token_in = 0 \<or> pf_virtual_token_reserves p = 0 \<or> pf_virtual_sol_reserves p = 0
       then Err ''invalid PumpFun input or reserves''
       else let gross = widen token_in * widen (pf_virtual_sol_reserves p)
                  div (widen (pf_virtual_token_reserves p) + widen token_in);
                fees = compute_fee_bps gross protocol + compute_fee_bps gross creator
            in bind_r (ok_or (checked_sub gross fees) ''PumpFun fees exceed output'') (\<lambda>net.
               ok_or (try_u64 net) ''PumpFun output exceeds u64''))"

section \<open>PumpSwap\<close>

text \<open>\<open>(quote_reserve as i128).checked_add(virtual)\<close>, then \<open>u64::try_from\<close> and \<open>> 0\<close>, on
  the signed values.\<close>

definition pumpswap_effective_quote :: "pumpswap_pool \<Rightarrow> sdk_error + u64" where
  "pumpswap_effective_quote p =
     (let effective = uint (ps_quote_reserve p) + sint (ps_virtual_quote_reserves p) in
      if effective < - (2 ^ 127) \<or> 2 ^ 127 \<le> effective
      then Err ''PumpSwap effective quote reserve overflow''
      else if 0 < effective \<and> effective < 2 ^ 64 then Ok (of_int effective)
      else Err ''invalid PumpSwap effective quote reserve'')"

definition pumpswap_buy_base_out :: "pumpswap_pool \<Rightarrow> u64 \<Rightarrow> sdk_error + u64" where
  "pumpswap_buy_base_out p quote_in =
     (if quote_in = 0 \<or> ps_base_reserve p = 0 \<or> ps_quote_reserve p = 0
      then Err ''invalid PumpSwap input or reserves''
      else bind_r (ok_or (case checked_add (ps_lp_fee_bps p) (ps_protocol_fee_bps p) of
          Some v \<Rightarrow> checked_add v (ps_creator_fee_bps p) | None \<Rightarrow> None)
        ''PumpSwap fee bps overflow'') (\<lambda>total_fee_bps.
      bind_r (ok_or (checked_add 10000 total_fee_bps) ''PumpSwap fee denominator overflow'')
        (\<lambda>denominator.
        let effective_in = sat_mul (widen quote_in) 10000 div widen denominator;
            total_with_fees = sat_add (sat_add (sat_add effective_in
              (compute_fee_bps effective_in (widen (ps_lp_fee_bps p))))
              (compute_fee_bps effective_in (widen (ps_protocol_fee_bps p))))
              (compute_fee_bps effective_in (widen (ps_creator_fee_bps p)));
            effective_in' = (if total_with_fees > widen quote_in
              then sat_sub effective_in (total_with_fees - widen quote_in) else effective_in)
        in bind_r (ok_or (checked_sub effective_in' 1) ''PumpSwap quote input is too small after fees'')
          (\<lambda>curve_in. bind_r (pumpswap_effective_quote p) (\<lambda>effective_quote.
            Ok (as_u64 (min (sat_mul (widen (ps_base_reserve p)) curve_in
              div sat_add (widen effective_quote) curve_in) (widen U64_MAX))))))))"

definition pumpswap_sell_quote_out :: "pumpswap_pool \<Rightarrow> u64 \<Rightarrow> sdk_error + u64" where
  "pumpswap_sell_quote_out p base_in =
     (if base_in = 0 \<or> ps_base_reserve p = 0 \<or> ps_quote_reserve p = 0
      then Err ''invalid PumpSwap input or reserves''
      else bind_r (ok_or (ps_quote_fee_reserves p)
        ''PumpSwap sell quote requires current Pool reserved fees'') (\<lambda>reserved.
      bind_r (ok_or (checked_sub (ps_quote_reserve p) reserved)
        ''PumpSwap reserved fees exceed quote vault balance'') (\<lambda>real_quote.
      bind_r (pumpswap_effective_quote p) (\<lambda>effective_quote.
        let gross = sat_mul (widen effective_quote) (widen base_in)
              div sat_add (widen (ps_base_reserve p)) (widen base_in);
            fees = sat_add (sat_add (compute_fee_bps gross (widen (ps_lp_fee_bps p)))
              (compute_fee_bps gross (widen (ps_protocol_fee_bps p))))
              (compute_fee_bps gross (widen (ps_creator_fee_bps p)))
        in bind_r (ok_or (checked_sub gross fees) ''PumpSwap fees exceed gross output'') (\<lambda>net.
           bind_r (ok_or (try_u64 net) ''PumpSwap output exceeds u64'') (\<lambda>out.
             if sat_sub gross (compute_fee_bps gross (widen (ps_lp_fee_bps p))) > widen real_quote
             then Err ''PumpSwap real quote reserve cannot cover output''
             else Ok out))))))"

section \<open>Raydium AMM V4\<close>

definition amm_sides :: "raydium_amm_v4_pool \<Rightarrow> bool \<Rightarrow> u64 \<times> u64" where
  "amm_sides p input_is_coin = (if input_is_coin then (rv_coin_reserve p, rv_pc_reserve p)
     else (rv_pc_reserve p, rv_coin_reserve p))"

definition amm_trade_fee :: "u64 \<Rightarrow> u64 \<Rightarrow> u64 \<Rightarrow> u64" where
  "amm_trade_fee fee_num fee_den amount =
     as_u64 (div_ceil (widen amount * widen fee_num) (widen fee_den))"

definition raydium_amm_v4_out :: "raydium_amm_v4_pool \<Rightarrow> u64 \<Rightarrow> bool \<Rightarrow> sdk_error + u64" where
  "raydium_amm_v4_out p amount_in input_is_coin =
     (if amount_in = 0 then Err ''amount_in is zero''
      else case amm_sides p input_is_coin of (input_reserve, output_reserve) \<Rightarrow>
        if input_reserve = 0 \<or> output_reserve = 0 then Err ''empty Raydium AMM V4 reserves''
        else let fee_num = rv_swap_fee_numerator p; fee_den = rv_swap_fee_denominator p in
          if fee_den = 0 \<or> fee_num \<ge> fee_den then Err ''invalid Raydium AMM V4 swap fee fraction''
          else bind_r (ok_or (checked_add input_reserve amount_in)
            ''Raydium AMM V4 input reserve overflows token balance'') (\<lambda>_.
            let net_in = sat_sub amount_in (amm_trade_fee fee_num fee_den amount_in);
                swapped = sat_mul (widen output_reserve) (widen net_in)
                  div sat_add (widen input_reserve) (widen net_in)
            in Ok (as_u64 (min swapped (widen U64_MAX)))))"

definition raydium_amm_v4_in_for_out :: "raydium_amm_v4_pool \<Rightarrow> u64 \<Rightarrow> bool \<Rightarrow> sdk_error + u64" where
  "raydium_amm_v4_in_for_out p amount_out input_is_coin =
     (if amount_out = 0 then Err ''amount_out is zero''
      else case amm_sides p input_is_coin of (input_reserve, output_reserve) \<Rightarrow>
        if input_reserve = 0 \<or> output_reserve = 0 then Err ''empty Raydium AMM V4 reserves''
        else if amount_out \<ge> output_reserve
        then Err ''Raydium AMM V4 amount_out exceeds output reserve''
        else let net = div_ceil (sat_mul (widen amount_out) (widen input_reserve))
                   (widen (output_reserve - amount_out));
                 trade_num = widen (rv_swap_fee_numerator p);
                 fee_den = widen (rv_swap_fee_denominator p) in
          if fee_den = 0 \<or> trade_num \<ge> fee_den
          then Err ''invalid Raydium AMM V4 swap fee fraction''
          else bind_r (ok_or (try_u64 net) ''Raydium AMM V4 exact-out net input exceeds u64'')
            (\<lambda>net_in.
          bind_r (ok_or (try_u64 (div_ceil (widen net_in * fee_den) (fee_den - trade_num)))
            ''Raydium AMM V4 exact-out gross input exceeds u64'') (\<lambda>amount_in.
          bind_r (raydium_amm_v4_out p amount_in input_is_coin) (\<lambda>out.
            if out < amount_out then Err ''Raydium AMM V4 exact-out quote cannot reach target''
            else Ok amount_in))))"

section \<open>Externally quoted venues\<close>

definition snapshot_expected_out :: "u64 option \<Rightarrow> u64 option \<Rightarrow> u64 \<Rightarrow> string \<Rightarrow> sdk_error + u64" where
  "snapshot_expected_out expected_out quoted_amount_in amount_in dex =
     bind_r (ok_or expected_out (dex @ '' snapshot has no expected_out; provide TradeOpts::with_min_out''))
       (\<lambda>expected. case quoted_amount_in of
          Some qin \<Rightarrow> if qin = amount_in then Ok expected
            else Err (dex @ '' expected_out quoted for another amount_in'')
        | None \<Rightarrow> Err (dex @ '' snapshot missing quoted_amount_in; provide TradeOpts::with_min_out''))"

definition meteora_damm_v2_out :: "meteora_damm_v2_pool \<Rightarrow> u64 \<Rightarrow> bool \<Rightarrow> sdk_error + u64" where
  "meteora_damm_v2_out p amount_in input_is_a =
     (let inp = (if input_is_a then dm_token_a_mint p else dm_token_b_mint p) in
      if dm_quoted_input_mint p \<noteq> Some inp
      then Err ''Meteora DAMM V2 quote input mint/direction is missing or mismatched''
      else snapshot_expected_out (dm_expected_out p) (dm_quoted_amount_in p) amount_in ''Meteora DAMM V2'')"

definition raydium_clmm_out :: "raydium_clmm_pool \<Rightarrow> u64 \<Rightarrow> sdk_error + u64" where
  "raydium_clmm_out p amount_in =
     snapshot_expected_out (cl_expected_out p) (cl_quoted_amount_in p) amount_in ''Raydium CLMM''"

definition whirlpool_out :: "whirlpool_pool \<Rightarrow> u64 \<Rightarrow> sdk_error + u64" where
  "whirlpool_out p amount_in =
     snapshot_expected_out (wp_expected_out p) (wp_quoted_amount_in p) amount_in ''Orca Whirlpool''"

definition meteora_dlmm_out :: "meteora_dlmm_pool \<Rightarrow> u64 \<Rightarrow> sdk_error + u64" where
  "meteora_dlmm_out p amount_in =
     snapshot_expected_out (dl_expected_out p) (dl_quoted_amount_in p) amount_in ''Meteora DLMM''"

section \<open>Termination of the searches\<close>

lemma mid_up:
  assumes "lo < (hi :: u64)"
  shows "unat (lo + (hi - lo) div 2 + (hi - lo) mod 2) =
    unat lo + (unat hi - unat lo) div 2 + (unat hi - unat lo) mod 2"
proof -
  have l: "unat lo < unat hi" using assms by (simp add: word_less_nat_alt)
  then have d: "unat (hi - lo) = unat hi - unat lo" by (simp add: unat_sub_exact)
  have "unat lo + (unat hi - unat lo) div 2 < 18446744073709551616"
    "unat lo + (unat hi - unat lo) div 2 + (unat hi - unat lo) mod 2 < 18446744073709551616"
    using l unat_u64_le [of hi] by linarith+
  then show ?thesis by (simp add: unat_add_exact unat_div unat_mod d)
qed

lemma mid_down:
  assumes "lo < (hi :: u64)"
  shows "unat (lo + (hi - lo) div 2) = unat lo + (unat hi - unat lo) div 2"
proof -
  have l: "unat lo < unat hi" using assms by (simp add: word_less_nat_alt)
  then have d: "unat (hi - lo) = unat hi - unat lo" by (simp add: unat_sub_exact)
  have "unat lo + (unat hi - unat lo) div 2 < 18446744073709551616"
    using l unat_u64_le [of hi] by linarith
  then show ?thesis by (simp add: unat_add_exact unat_div d)
qed

lemma mid_up_bounds:
  assumes "lo < (hi :: u64)"
  shows "unat lo < unat (lo + (hi - lo) div 2 + (hi - lo) mod 2)"
    "unat (lo + (hi - lo) div 2 + (hi - lo) mod 2) \<le> unat hi"
  using assms div_mult_mod_eq [of "unat hi - unat lo" 2]
  unfolding mid_up [OF assms] word_less_nat_alt by linarith+

lemma mid_down_bounds:
  assumes "lo < (hi :: u64)"
  shows "unat lo \<le> unat (lo + (hi - lo) div 2)" "unat (lo + (hi - lo) div 2) < unat hi"
  using assms unfolding mid_down [OF assms] word_less_nat_alt by linarith+

lemma unat_pred: "0 < unat (x :: u64) \<Longrightarrow> unat (x - 1) = unat x - 1"
  by (simp add: unat_sub_exact)

lemma unat_succ: "unat (x :: u64) < unat (y :: u64) \<Longrightarrow> unat (x + 1) = unat x + 1"
proof -
  assume "unat x < unat y"
  then have "unat x + 1 < 18446744073709551616" using unat_u64_le [of y] by linarith
  then show ?thesis using unat_add_exact [of x 1] by simp
qed

termination max_gross
proof (relation "measure (\<lambda>(_, _, lo, hi). unat hi - unat lo)", goal_cases)
  case (2 fee capacity lo hi)
  then show ?case using mid_up_bounds [OF 2(1)] by simp
next
  case (3 fee capacity lo hi)
  then show ?case using mid_up_bounds [OF 3(1)] by (simp add: unat_pred)
qed simp

termination narrow
proof (relation "measure (\<lambda>(_, _, _, lo, hi). unat hi - unat lo)", goal_cases)
  case (2 p b amount lo hi)
  then show ?case using mid_down_bounds [OF 2(1)] by simp
next
  case (3 p b amount lo hi)
  then show ?case using mid_down_bounds [OF 3(1)] by (simp add: unat_succ [OF mid_down_bounds(2) [OF 3(1)]])
qed simp

declare max_gross.simps [simp del] narrow.simps [simp del]

end
