(* ===== verification/Quote_Facts.thy ===== *)
theory Quote_Facts
  imports Sdk_Quote
begin

text \<open>
  Facts about the quotes. Every fee of the SDK is a rounded share of an amount; the locale
  \<open>fee_rule\<close> states what the quotes need of it, and each fee of the code is an instance.
\<close>

section \<open>Fees as rules\<close>

locale fee_rule =
  fixes fee :: "'c \<Rightarrow> u64 \<Rightarrow> u64" and rate_ok :: "'c \<Rightarrow> bool"
  assumes fee_zero: "fee c 0 = 0"
    and fee_mono: "rate_ok c \<Longrightarrow> unat x \<le> unat y \<Longrightarrow> unat (fee c x) \<le> unat (fee c y)"
    and fee_step: "rate_ok c \<Longrightarrow> unat x \<le> unat y \<Longrightarrow>
      unat (fee c y) \<le> unat (fee c x) + (unat y - unat x)"
begin

lemma fee_le: "rate_ok c \<Longrightarrow> unat (fee c x) \<le> unat x"
  using fee_step [of c 0 x] by (simp add: fee_zero)

lemma net_exact: "rate_ok c \<Longrightarrow> unat (x - fee c x) = unat x - unat (fee c x)"
  using fee_le [of c x] by (rule unat_sub_exact)

lemma net_mono: "rate_ok c \<Longrightarrow> unat x \<le> unat y \<Longrightarrow> unat (x - fee c x) \<le> unat (y - fee c y)"
  using fee_step [of c x y] fee_le [of c x] fee_le [of c y] by (simp add: net_exact)

lemma net_le: "rate_ok c \<Longrightarrow> unat (x - fee c x) \<le> unat x"
  by (simp add: net_exact)

lemma sat_net: "rate_ok c \<Longrightarrow> sat_sub x (fee c x) = x - fee c x"
  using fee_le [of c x] by (simp add: sat_sub_def word_le_nat_alt)

lemma checked_net: "rate_ok c \<Longrightarrow> checked_sub x (fee c x) = Some (x - fee c x)"
  using fee_le [of c x] by (simp add: checked_sub_def word_le_nat_alt)

end

section \<open>The values of the fees\<close>

lemma le_u64_less: "n \<le> unat (x :: u64) \<Longrightarrow> n < 18446744073709551616"
  using unat_u64_le [of x] by linarith

lemma ceil_div_step:
  assumes "0 < d" "b \<le> d" "x \<le> y"
  shows "ceil_div (y * b) d \<le> ceil_div (x * b) d + (y - x)"
proof -
  have "y * b = x * b + (y - x) * b" using assms(3) by (simp add: add_mult_distrib [symmetric])
  also have "\<dots> \<le> ceil_div (x * b) d * d + (y - x) * d"
    using assms(1,2) by (intro add_mono mult_le_mono le_mult_ceil_div) simp_all
  finally show ?thesis using assms(1) by (simp add: ceil_div_le_iff add_mult_distrib)
qed

lemma min_step: "(a :: nat) \<le> b + k \<Longrightarrow> min a m \<le> min b m + k"
  by simp

lemma unat_ucast_u16 [simp]: "unat (ucast (b :: u16) :: u128) = unat b"
  using unat_u16_le [of b] by (simp add: unsigned_ucast_eq take_bit_nat_eq_self)

lemma widen_mult:
  assumes "unat (b :: u128) < 18446744073709551616"
  shows "unat (widen a) * unat b < 2 ^ LENGTH(128)"
proof -
  have "unat a * unat b \<le> 18446744073709551615 * 18446744073709551615"
    using unat_u64_le [of a] assms by (intro mult_le_mono) simp_all
  then show ?thesis by simp
qed

lemma unat_sat_mul_widen [rust_unat]:
  "unat (b :: u128) < 18446744073709551616 \<Longrightarrow> unat (sat_mul (widen a) b) = unat a * unat b"
  using widen_mult [of b a] by (simp add: unat_sat_mul)

lemma unat_u16_u64: "unat (b :: u16) < 18446744073709551616"
  using unat_u16_le [of b] by linarith

lemma unat_min: "unat (min a b) = min (unat a) (unat (b :: 'a::len word))"
  by (simp add: min_def word_le_nat_alt)

lemma unat_max2: "unat (max a b) = max (unat a) (unat (b :: 'a::len word))"
  by (simp add: max_def word_le_nat_alt)

lemma unat_as_u64_min: "unat (as_u64 (min a (widen b))) = min (unat a) (unat b)"
proof -
  have "unat (min a (widen b)) < 2 ^ 64" by (simp add: unat_min min_less_iff_disj)
  then show ?thesis by (simp add: unat_as_u64_exact unat_min)
qed

lemma unat_calculate:
  "unat (calculate f a) =
     min (ceil_div (unat a * unat (basis_points f)) 10000) (unat (maximum_fee f))"
  by (simp add: calculate_def Let_def unat_as_u64_min unat_div_ceil unat_sat_mul_widen unat_u16_u64)

definition transfer_fee_ok :: "token_transfer_fee \<Rightarrow> bool" where
  "transfer_fee_ok f = (basis_points f \<le> 10000)"

interpretation transfer: fee_rule calculate transfer_fee_ok
proof unfold_locales
  fix c and x y :: u64
  show "calculate c 0 = 0" by (simp add: calculate_def)
  assume ok: "transfer_fee_ok c" and le: "unat x \<le> unat y"
  then have b: "unat (basis_points c) \<le> 10000"
    by (simp add: transfer_fee_ok_def word_le_nat_alt)
  show "unat (calculate c x) \<le> unat (calculate c y)"
    unfolding unat_calculate using le by (intro min.mono ceil_div_mono) simp_all
  show "unat (calculate c y) \<le> unat (calculate c x) + (unat y - unat x)"
    unfolding unat_calculate using b le by (intro min_step ceil_div_step) simp_all
qed

text \<open>CPMM trade and creator fee; the rate is at most the denominator.\<close>

lemma ceil_div_add: "0 < d \<Longrightarrow> (n + (d - 1)) div d = ceil_div n d"
proof -
  assume d: "0 < d"
  have "(n + (d - 1)) div d \<le> c \<longleftrightarrow> n \<le> c * d" for c
    using d less_Suc_eq_le [of "(n + (d - 1)) div d" c]
      div_less_iff_less_mult [of d "n + (d - 1)" "Suc c"] by auto
  then show ?thesis using d by (metis ceil_div_le_iff le_antisym order_refl)
qed

lemma unat_cpmm_trade_fee:
  assumes "unat rate \<le> 1000000"
  shows "unat (cpmm_trade_fee a rate) = ceil_div (unat a * unat rate) 1000000"
proof -
  have m: "unat a * unat rate \<le> 18446744073709551615 * 1000000"
    using unat_u64_le [of a] assms by (rule mult_le_mono)
  have n: "unat (sat_mul (widen a) (widen rate)) = unat a * unat rate"
    by (simp add: unat_sat_mul_widen)
  have "unat (sat_mul (widen a) (widen rate) + FEE_DENOM - 1) = unat a * unat rate + (1000000 - 1)"
    using m n by (simp add: FEE_DENOM_def unat_add_exact unat_sub_exact)
  moreover have "ceil_div (unat a * unat rate) 1000000 \<le> unat a"
    using assms by (simp add: ceil_div_le_iff)
  ultimately show ?thesis
    using le_u64_less [of _ a] ceil_div_add [of 1000000 "unat a * unat rate"]
    by (simp add: cpmm_trade_fee_def Let_def unat_as_u64_exact unat_div FEE_DENOM_def)
qed

interpretation cpmm_fee: fee_rule "\<lambda>rate a. cpmm_trade_fee a rate" "\<lambda>rate. rate \<le> 1000000"
proof unfold_locales
  fix rate x y :: u64
  show "cpmm_trade_fee 0 rate = 0"
    by (simp add: cpmm_trade_fee_def FEE_DENOM_def widen_def sat_mul_def word_eq_unat unat_as_u64 unat_div)
  assume "rate \<le> 1000000" and le: "unat x \<le> unat y"
  then have b: "unat rate \<le> 1000000" by (simp add: word_le_nat_alt)
  show "unat (cpmm_trade_fee x rate) \<le> unat (cpmm_trade_fee y rate)"
    unfolding unat_cpmm_trade_fee [OF b] using le by (intro ceil_div_mono) simp_all
  show "unat (cpmm_trade_fee y rate) \<le> unat (cpmm_trade_fee x rate) + (unat y - unat x)"
    unfolding unat_cpmm_trade_fee [OF b] using b le by (intro ceil_div_step) simp_all
qed

text \<open>Raydium AMM V4: numerator below denominator.\<close>

lemma unat_amm_trade_fee:
  assumes "unat num < unat den"
  shows "unat (amm_trade_fee num den a) = ceil_div (unat a * unat num) (unat den)"
proof -
  have "ceil_div (unat a * unat num) (unat den) \<le> unat a"
    using assms by (simp add: ceil_div_le_iff)
  then have "ceil_div (unat a * unat num) (unat den) < 2 ^ 64" using le_u64_less by simp
  moreover have "unat (widen a * widen num) = unat a * unat num"
    using widen_mult [of "widen num" a] by (simp add: unat_mul_exact)
  ultimately show ?thesis
    by (simp add: amm_trade_fee_def unat_as_u64_exact unat_div_ceil)
qed

interpretation amm_fee: fee_rule "\<lambda>(num, den) a. amm_trade_fee num den a" "\<lambda>(num, den). num < den"
proof unfold_locales
  fix c :: "u64 \<times> u64" and x y :: u64
  obtain num den where c: "c = (num, den)" by (cases c)
  show "(case c of (num, den) \<Rightarrow> amm_trade_fee num den) 0 = 0"
    by (simp add: c amm_trade_fee_def word_eq_unat unat_as_u64 unat_div_ceil widen_def)
  assume "case c of (num, den) \<Rightarrow> num < den" and le: "unat x \<le> unat y"
  then have b: "unat num < unat den" by (simp add: c word_less_nat_alt)
  show "unat ((case c of (num, den) \<Rightarrow> amm_trade_fee num den) x)
      \<le> unat ((case c of (num, den) \<Rightarrow> amm_trade_fee num den) y)"
    unfolding c prod.case unat_amm_trade_fee [OF b] using b le by (intro ceil_div_mono) simp_all
  show "unat ((case c of (num, den) \<Rightarrow> amm_trade_fee num den) y)
      \<le> unat ((case c of (num, den) \<Rightarrow> amm_trade_fee num den) x) + (unat y - unat x)"
    unfolding c prod.case unat_amm_trade_fee [OF b] using b le by (intro ceil_div_step) simp_all
qed

text \<open>The router's own fee, rounded down, at most 10000 basis points.\<close>

lemma unat_fee_amount: "unat (fee_amount a bps) =
   min (unat a * unat bps div 10000) 18446744073709551615"
  by (simp add: fee_amount_def unat_as_u64_min unat_div unat_sat_mul_widen unat_u16_u64 U64_MAX_def)

interpretation platform: fee_rule "\<lambda>bps a. fee_amount a bps" "\<lambda>bps. bps \<le> 10000"
proof unfold_locales
  fix bps :: u16 and x y :: u64
  show "fee_amount 0 bps = 0" by (simp add: word_eq_unat unat_fee_amount)
  assume "bps \<le> 10000" and le: "unat x \<le> unat y"
  then have b: "unat bps \<le> 10000" by (simp add: word_le_nat_alt)
  show "unat (fee_amount x bps) \<le> unat (fee_amount y bps)"
    unfolding unat_fee_amount using le by (intro min.mono div_le_mono mult_le_mono) simp_all
  have "unat y * unat bps = unat x * unat bps + (unat y - unat x) * unat bps"
    using le by (simp add: add_mult_distrib [symmetric])
  also have "\<dots> \<le> unat x * unat bps + (unat y - unat x) * 10000" using b by simp
  finally have "unat y * unat bps div 10000 \<le> (unat x * unat bps + (unat y - unat x) * 10000) div 10000"
    by (rule div_le_mono)
  then show "unat (fee_amount y bps) \<le> unat (fee_amount x bps) + (unat y - unat x)"
    unfolding unat_fee_amount by (intro min_step) simp
qed


section \<open>Quotes that grow with the input\<close>

locale monotone_quote =
  fixes quote :: "'p \<Rightarrow> u64 \<Rightarrow> sdk_error + u64"
  assumes quote_mono: "quote p x = Ok a \<Longrightarrow> quote p y = Ok b \<Longrightarrow> unat x \<le> unat y \<Longrightarrow> unat a \<le> unat b"
    and quote_down: "quote p y = Ok b \<Longrightarrow> 0 < unat x \<Longrightarrow> unat x \<le> unat y \<Longrightarrow> \<exists>a. quote p x = Ok a"
    and quote_zero: "quote p 0 = Ok a \<Longrightarrow> False"
begin

text \<open>\<open>reaches\<close> a target: the inputs that do form an upper set of the quotable inputs.\<close>

lemma below:
  assumes "quote p x = Ok a" "unat a < t" "unat y \<le> unat x" "quote p y = Ok b"
  shows "unat b < t"
  using quote_mono [OF assms(4,1,3)] assms(2) by simp

lemma least_unique:
  assumes "quote p x = Ok a" "t \<le> unat a" "\<And>z c. unat z < unat x \<Longrightarrow> quote p z = Ok c \<Longrightarrow> unat c < t"
    "quote p y = Ok b" "t \<le> unat b" "\<And>z c. unat z < unat y \<Longrightarrow> quote p z = Ok c \<Longrightarrow> unat c < t"
  shows "x = y"
proof -
  have "\<not> unat x < unat y" using assms(1,2,6) by force
  moreover have "\<not> unat y < unat x" using assms(3,4,5) by force
  ultimately show ?thesis by (simp add: word_eq_unat)
qed

end

section \<open>The constant-product curve\<close>

lemma unat_cpmm_curve:
  assumes "0 < unat i"
  shows "unat (cpmm_curve i out n) = unat out * unat n div (unat i + unat n)"
proof -
  have "unat (sat_add (widen i) (widen n)) = unat i + unat n"
    using unat_u64_le [of i] unat_u64_le [of n] by (simp add: unat_sat_add)
  moreover have "unat out * unat n div (unat i + unat n) \<le> unat out * (unat i + unat n) div (unat i + unat n)"
    by (rule div_le_mono) simp
  then have "unat out * unat n div (unat i + unat n) \<le> unat out" using assms by simp
  then have "unat out * unat n div (unat i + unat n) < 2 ^ 64" using le_u64_less by simp
  ultimately show ?thesis
    by (simp add: cpmm_curve_def unat_as_u64_exact unat_div unat_sat_mul_widen)
qed

lemma curve_mono:
  assumes "0 < (i :: nat)" "m \<le> n"
  shows "out * m div (i + m) \<le> out * n div (i + n)"
proof -
  have "out * m div (i + m) * (i + n) \<le> out * n"
  proof -
    have "(out * m div (i + m)) * (i + m) \<le> out * m" by (rule div_times_less_eq_dividend)
    then have "(out * m div (i + m)) * (i + m) * (i + n) \<le> out * m * (i + n)" by (rule mult_le_mono1)
    also have "\<dots> \<le> out * n * (i + m)"
      using assms(2) by (simp add: algebra_simps)
    finally have "((out * m div (i + m)) * (i + n)) * (i + m) \<le> (out * n) * (i + m)"
      by (simp add: mult_ac)
    then show ?thesis using assms(1) by simp
  qed
  then show ?thesis using assms(1) by (simp add: less_eq_div_iff_mult_less_eq)
qed

lemma curve_less:
  assumes "0 < (i :: nat)" "0 < out"
  shows "out * n div (i + n) < out"
  using assms by (simp add: div_less_iff_less_mult)

lemma curve_lower:
  assumes "0 < (i :: nat)" "t \<le> out * n div (i + n)" "t < out"
  shows "ceil_div (t * i) (out - t) \<le> n"
proof -
  have "t * (i + n) \<le> out * n"
    using assms(1,2) by (simp add: less_eq_div_iff_mult_less_eq)
  then have "t * i \<le> n * (out - t)" by (simp add: algebra_simps diff_mult_distrib2)
  then show ?thesis using assms(3) by (simp add: ceil_div_le_iff)
qed

end
