(* ===== verification/Cpmm_Quote.thy ===== *)
theory Cpmm_Quote
  imports Quote_Facts
begin

text \<open>
  The CPMM quote: it is a growing function of the input, keeps the constant product, and the
  exact-output search finds its least preimage.
\<close>

section \<open>When a CPMM quote succeeds\<close>

definition cpmm_in_reserve :: "cpmm_pool \<Rightarrow> bool \<Rightarrow> u64" where
  "cpmm_in_reserve p b = (if b then cp_base_reserve p else cp_quote_reserve p)"

definition cpmm_out_reserve :: "cpmm_pool \<Rightarrow> bool \<Rightarrow> u64" where
  "cpmm_out_reserve p b = (if b then cp_quote_reserve p else cp_base_reserve p)"

definition cpmm_in_fee :: "cpmm_pool \<Rightarrow> bool \<Rightarrow> token_transfer_fee" where
  "cpmm_in_fee p b = (if b then cp_base_transfer_fee p else cp_quote_transfer_fee p)"

definition cpmm_out_fee :: "cpmm_pool \<Rightarrow> bool \<Rightarrow> token_transfer_fee" where
  "cpmm_out_fee p b = (if b then cp_quote_transfer_fee p else cp_base_transfer_fee p)"

lemma cpmm_sides: "cpmm_sides p b =
  (cpmm_in_reserve p b, cpmm_out_reserve p b, cpmm_in_fee p b, cpmm_out_fee p b)"
  by (simp add: cpmm_sides_def cpmm_in_reserve_def cpmm_out_reserve_def cpmm_in_fee_def cpmm_out_fee_def)

text \<open>The part of the checks that does not depend on the amount.\<close>

definition cpmm_valid :: "cpmm_pool \<Rightarrow> bool \<Rightarrow> bool \<Rightarrow> bool" where
  "cpmm_valid p b on_input \<longleftrightarrow> cp_fee_rates_known p \<and>
     unat (cp_trade_fee_rate p) + unat (cpmm_creator_rate p) < 1000000 \<and>
     transfer_fee_ok (cpmm_in_fee p b) \<and> transfer_fee_ok (cpmm_out_fee p b) \<and>
     0 < unat (cpmm_in_reserve p b) \<and> 0 < unat (cpmm_out_reserve p b) \<and>
     creator_fee_on_input p b = Ok on_input"

text \<open>What reaches the vault of an input: the amount without the mint's transfer fee.\<close>

definition cpmm_credit :: "cpmm_pool \<Rightarrow> bool \<Rightarrow> u64 \<Rightarrow> u64" where
  "cpmm_credit p b x = x - calculate (cpmm_in_fee p b) x"

definition cpmm_gross :: "cpmm_pool \<Rightarrow> bool \<Rightarrow> bool \<Rightarrow> u64 \<Rightarrow> u64" where
  "cpmm_gross p b on_input x =
     cpmm_swapped p on_input (cpmm_in_reserve p b) (cpmm_out_reserve p b) (cpmm_credit p b x)"

lemma rates_ok: "widen t + widen c \<ge> FEE_DENOM \<longleftrightarrow> \<not> unat t + unat c < 1000000"
proof -
  have "unat (widen t + widen c) = unat t + unat c"
    using unat_u64_le [of t] unat_u64_le [of c] by (simp add: unat_add_exact)
  then show ?thesis by (auto simp: word_le_nat_alt FEE_DENOM_def)
qed

lemma cpmm_out_Ok:
  "cpmm_out p x b = Ok r \<longleftrightarrow> (\<exists>on_input. cpmm_valid p b on_input \<and> 0 < unat x \<and>
     unat (cpmm_in_reserve p b) + unat (cpmm_credit p b x) < 2 ^ 64 \<and>
     r = cpmm_gross p b on_input x - calculate (cpmm_out_fee p b) (cpmm_gross p b on_input x))"
proof (cases "transfer_fee_ok (cp_base_transfer_fee p) \<and> transfer_fee_ok (cp_quote_transfer_fee p)")
  case True
  then have ok: "transfer_fee_ok (cpmm_in_fee p b)" "transfer_fee_ok (cpmm_out_fee p b)"
    by (simp_all add: cpmm_in_fee_def cpmm_out_fee_def)
  have bps: "\<not> basis_points (cp_base_transfer_fee p) > 10000"
    "\<not> basis_points (cp_quote_transfer_fee p) > 10000"
    using True by (simp_all add: transfer_fee_ok_def not_less)
  show ?thesis
    using ok unfolding cpmm_out_def cpmm_sides prod.case rates_ok cpmm_valid_def
      transfer.checked_net [OF ok(1)] transfer.sat_net [OF ok(2)] ok_or_simps bind_r_simps
    by (auto simp: bps Let_def result_inv checked_add_def cpmm_credit_def cpmm_gross_def
        unat_gt_0 split: if_splits)
next
  case False
  then have "\<not> (\<exists>i. cpmm_valid p b i)"
    by (auto simp: cpmm_valid_def cpmm_in_fee_def cpmm_out_fee_def split: if_splits)
  with False show ?thesis
    by (auto simp: cpmm_out_def transfer_fee_ok_def not_le split: if_splits)
qed


section \<open>Growth and bounds\<close>

lemma cpmm_valid_rates:
  assumes "cpmm_valid p b on_input"
  shows "sat_add (cp_trade_fee_rate p) (cpmm_creator_rate p) \<le> 1000000"
    "cp_trade_fee_rate p \<le> 1000000" "cpmm_creator_rate p \<le> 1000000"
  using assms by (auto simp: cpmm_valid_def word_le_nat_alt unat_sat_add)

lemma cpmm_swapped_mono:
  assumes "cpmm_valid p b on_input" "unat x \<le> unat y"
  shows "unat (cpmm_swapped p on_input (cpmm_in_reserve p b) out x)
    \<le> unat (cpmm_swapped p on_input (cpmm_in_reserve p b) out y)"
proof -
  note r = cpmm_valid_rates [OF assms(1)]
  have i: "0 < unat (cpmm_in_reserve p b)" using assms(1) by (simp add: cpmm_valid_def)
  show ?thesis
    unfolding cpmm_swapped_def Let_def cpmm_fee.sat_net [OF r(1)] cpmm_fee.sat_net [OF r(2)]
      cpmm_fee.sat_net [OF r(3)]
    using cpmm_fee.net_mono [OF r(1) assms(2)]
      cpmm_fee.net_mono [OF r(3) , OF curve_mono [OF i cpmm_fee.net_mono [OF r(2) assms(2)], of "unat out",
        folded unat_cpmm_curve [OF i]]]
    by (auto simp: unat_cpmm_curve [OF i] intro: curve_mono [OF i])
qed

lemma cpmm_swapped_le_curve:
  assumes "cpmm_valid p b on_input"
  shows "\<exists>n :: u64. unat n \<le> unat x \<and> unat (cpmm_swapped p on_input (cpmm_in_reserve p b) out x)
    \<le> unat out * unat n div (unat (cpmm_in_reserve p b) + unat n)"
proof -
  note r = cpmm_valid_rates [OF assms(1)]
  have i: "0 < unat (cpmm_in_reserve p b)" using assms(1) by (simp add: cpmm_valid_def)
  show ?thesis
  proof (cases on_input)
    case True
    then show ?thesis
      by (intro exI [of _ "x - cpmm_trade_fee x (sat_add (cp_trade_fee_rate p) (cpmm_creator_rate p))"])
        (simp add: cpmm_swapped_def Let_def cpmm_fee.sat_net [OF r(1)] unat_cpmm_curve [OF i]
          cpmm_fee.net_le [OF r(1)])
  next
    case False
    then show ?thesis
      using cpmm_fee.net_le [OF r(3), of "cpmm_curve (cpmm_in_reserve p b) out
          (x - cpmm_trade_fee x (cp_trade_fee_rate p))"]
      by (intro exI [of _ "x - cpmm_trade_fee x (cp_trade_fee_rate p)"])
        (simp add: cpmm_swapped_def Let_def cpmm_fee.sat_net [OF r(2)] cpmm_fee.sat_net [OF r(3)]
          unat_cpmm_curve [OF i] cpmm_fee.net_le [OF r(2)])
  qed
qed

lemma cpmm_credit_mono:
  "cpmm_valid p b on_input \<Longrightarrow> unat x \<le> unat y \<Longrightarrow> unat (cpmm_credit p b x) \<le> unat (cpmm_credit p b y)"
  unfolding cpmm_credit_def by (rule transfer.net_mono) (simp_all add: cpmm_valid_def)

lemma cpmm_credit_le: "cpmm_valid p b on_input \<Longrightarrow> unat (cpmm_credit p b x) \<le> unat x"
  unfolding cpmm_credit_def by (rule transfer.net_le) (simp add: cpmm_valid_def)

lemma cpmm_valid_unique: "cpmm_valid p b i \<Longrightarrow> cpmm_valid p b j \<Longrightarrow> i = j"
  by (simp add: cpmm_valid_def)

interpretation cpmm_q: monotone_quote "\<lambda>(p, b) x. cpmm_out p x b"
proof (unfold_locales, goal_cases)
  case (1 pb x a y c)
  then obtain p b where pb: "pb = (p, b)" by (cases pb)
  from 1 obtain i where v: "cpmm_valid p b i" and a: "a = cpmm_gross p b i x - calculate (cpmm_out_fee p b) (cpmm_gross p b i x)"
    by (auto simp: pb cpmm_out_Ok)
  from 1 v have c: "c = cpmm_gross p b i y - calculate (cpmm_out_fee p b) (cpmm_gross p b i y)"
    by (auto simp: pb cpmm_out_Ok dest: cpmm_valid_unique)
  have "unat (cpmm_gross p b i x) \<le> unat (cpmm_gross p b i y)"
    unfolding cpmm_gross_def by (intro cpmm_swapped_mono [OF v] cpmm_credit_mono [OF v] 1(3))
  then show ?case
    unfolding a c using v by (intro transfer.net_mono) (simp add: cpmm_valid_def)
next
  case (2 pb y c x)
  then obtain p b where pb: "pb = (p, b)" by (cases pb)
  from 2 obtain i where v: "cpmm_valid p b i"
    "unat (cpmm_in_reserve p b) + unat (cpmm_credit p b y) < 2 ^ 64" by (auto simp: pb cpmm_out_Ok)
  with cpmm_credit_mono [OF v(1) 2(3)] have "unat (cpmm_in_reserve p b) + unat (cpmm_credit p b x) < 2 ^ 64"
    by linarith
  with v(1) 2(2) show ?case by (auto simp: pb cpmm_out_Ok)
next
  case (3 pb a)
  then show ?case by (cases pb) (auto simp: cpmm_out_Ok)
qed

text \<open>Every quote is below the output reserve, and needs at least the fee-free input.\<close>

lemma cpmm_out_curve:
  assumes "cpmm_out p x b = Ok r"
  obtains n :: u64 where "unat n \<le> unat (cpmm_credit p b x)" "unat (cpmm_credit p b x) \<le> unat x"
    "unat r \<le> unat (cpmm_out_reserve p b) * unat n div (unat (cpmm_in_reserve p b) + unat n)"
proof -
  from assms obtain i where v: "cpmm_valid p b i"
    and r: "r = cpmm_gross p b i x - calculate (cpmm_out_fee p b) (cpmm_gross p b i x)"
    by (auto simp: cpmm_out_Ok)
  from cpmm_swapped_le_curve [OF v] obtain n :: u64 where n: "unat n \<le> unat (cpmm_credit p b x)"
    "unat (cpmm_gross p b i x) \<le> unat (cpmm_out_reserve p b) * unat n div (unat (cpmm_in_reserve p b) + unat n)"
    unfolding cpmm_gross_def by blast
  have "unat r \<le> unat (cpmm_gross p b i x)"
    unfolding r using v by (intro transfer.net_le) (simp add: cpmm_valid_def)
  with n cpmm_credit_le [OF v, of x] show thesis by (intro that [of n]) linarith+
qed


lemma cpmm_out_bounds:
  assumes "cpmm_out p x b = Ok r"
  shows "unat r < unat (cpmm_out_reserve p b)"
    "t \<le> unat r \<Longrightarrow> ceil_div (t * unat (cpmm_in_reserve p b)) (unat (cpmm_out_reserve p b) - t) \<le> unat x"
proof -
  have i: "0 < unat (cpmm_in_reserve p b)" "0 < unat (cpmm_out_reserve p b)"
    using assms by (auto simp: cpmm_out_Ok cpmm_valid_def)
  from cpmm_out_curve [OF assms] obtain n :: u64 where n: "unat n \<le> unat (cpmm_credit p b x)"
    "unat (cpmm_credit p b x) \<le> unat x"
    "unat r \<le> unat (cpmm_out_reserve p b) * unat n div (unat (cpmm_in_reserve p b) + unat n)" .
  from n(3) curve_less [OF i, of "unat n"] show r: "unat r < unat (cpmm_out_reserve p b)" by linarith
  assume t: "t \<le> unat r"
  from curve_lower [OF i(1), of t "unat (cpmm_out_reserve p b)" "unat n"] t r n(3)
  have "ceil_div (t * unat (cpmm_in_reserve p b)) (unat (cpmm_out_reserve p b) - t) \<le> unat n" by linarith
  with n(1,2) show "ceil_div (t * unat (cpmm_in_reserve p b)) (unat (cpmm_out_reserve p b) - t) \<le> unat x"
    by linarith
qed

section \<open>The searches\<close>

lemma max_gross_greatest:
  assumes "transfer_fee_ok f" "unat lo \<le> unat hi" "unat (lo - calculate f lo) \<le> unat c"
    "\<And>x. unat hi < unat x \<Longrightarrow> unat c < unat (x - calculate f x)"
  shows "unat (x - calculate f x) \<le> unat c \<longleftrightarrow> unat x \<le> unat (max_gross f c lo hi)"
  using assms
proof (induction f c lo hi rule: max_gross.induct)
  case (1 f c lo hi)
  let ?mid = "lo + (hi - lo) div 2 + (hi - lo) mod 2"
  show ?case
  proof (cases "lo < hi")
    case True
    note b = mid_up_bounds [OF True]
    show ?thesis
    proof (cases "?mid - calculate f ?mid \<le> c")
      case le: True
      have "unat (x - calculate f x) \<le> unat c \<longleftrightarrow> unat x \<le> unat (max_gross f c ?mid hi)"
        using 1(1) [OF True refl refl refl le 1(3) b(2)] le 1(6) by (simp add: word_le_nat_alt)
      with True le show ?thesis by (simp add: max_gross.simps [of f c lo] Let_def)
    next
      case gt: False
      have p: "unat (?mid - 1) = unat ?mid - 1" using b(1) by (simp add: unat_pred)
      have "unat c < unat (y - calculate f y)" if "unat (?mid - 1) < unat y" for y
      proof -
        have "unat ?mid \<le> unat y" using that p b(1) by linarith
        from transfer.net_mono [OF 1(3) this] gt show ?thesis
          unfolding word_le_nat_alt by linarith
      qed
      with 1(2) [OF True refl refl refl gt 1(3) _ 1(5)] p b(1)
      have "unat (x - calculate f x) \<le> unat c \<longleftrightarrow> unat x \<le> unat (max_gross f c lo (?mid - 1))"
        by simp
      with True gt show ?thesis by (simp add: max_gross.simps [of f c lo] Let_def)
    qed
  next
    case False
    with 1(4) have "unat lo = unat hi" by (simp add: word_less_nat_alt)
    have "unat (x - calculate f x) \<le> unat c \<longleftrightarrow> unat x \<le> unat lo"
    proof (cases "unat x \<le> unat lo")
      case True
      from transfer.net_mono [OF 1(3) this] True 1(5) show ?thesis by linarith
    next
      case gt: False
      with 1(6) [of x] \<open>unat lo = unat hi\<close> show ?thesis by linarith
    qed
    with False show ?thesis by (simp add: max_gross.simps [of f c lo])
  qed
qed

lemma grow_hi_returns:
  assumes "cpmm_out p m b = Ok z" "t \<le> z" "0 < unat hi" "unat hi \<le> unat m"
  shows "\<exists>hi' r. grow_hi p b t m hi = Some (Ok hi') \<and> unat hi \<le> unat hi' \<and> unat hi' \<le> unat m \<and>
    cpmm_out p hi' b = Ok r \<and> t \<le> r"
  using assms(3,4)
proof (induction "unat m - unat hi" arbitrary: hi rule: less_induct)
  case less
  from cpmm_q.quote_down [of "(p, b)" m z hi] less(2,3) assms(1) obtain r where
    r: "cpmm_out p hi b = Ok r" by auto
  show ?case
  proof (cases "r < t")
    case False
    with r less(3) show ?thesis by (subst grow_hi.simps) (auto simp: not_less)
  next
    case True
    let ?n = "min (max (sat_mul hi 2) (sat_add hi 1)) m"
    have "unat hi \<noteq> unat m"
      using True r assms(1,2) by (auto simp: word_eq_unat [symmetric])
    with less(3) have lt: "unat hi < unat m" by simp
    then have n: "unat hi < unat ?n" "unat ?n \<le> unat m"
      using unat_u64_le [of m] by (auto simp: unat_min unat_max2 unat_sat_add unat_sat_mul)
    have "unat m - unat ?n < unat m - unat hi" "0 < unat ?n" using n lt by linarith+
    from less(1) [OF this n(2)] obtain hi' r' where "grow_hi p b t m ?n = Some (Ok hi')"
      "unat ?n \<le> unat hi'" "unat hi' \<le> unat m" "cpmm_out p hi' b = Ok r'" "t \<le> r'"
      by blast
    with True r n show ?thesis by (subst grow_hi.simps) auto
  qed
qed

lemma narrow_least:
  assumes "cpmm_out p hi b = Ok r" "t \<le> r" "0 < unat lo" "unat lo \<le> unat hi"
    "\<forall>y c. unat y < unat lo \<longrightarrow> cpmm_out p y b = Ok c \<longrightarrow> c < t"
  shows "\<exists>x r. narrow p b t lo hi = Ok x \<and> cpmm_out p x b = Ok r \<and> t \<le> r \<and>
    (\<forall>y c. unat y < unat x \<longrightarrow> cpmm_out p y b = Ok c \<longrightarrow> c < t)"
  using assms
proof (induction p b t lo hi arbitrary: r rule: narrow.induct)
  case (1 p b t lo hi)
  let ?mid = "lo + (hi - lo) div 2"
  show ?case
  proof (cases "lo < hi")
    case True
    note m = mid_down_bounds [OF True]
    from cpmm_q.quote_down [of "(p, b)" hi r ?mid] 1(3,5) m obtain c where c: "cpmm_out p ?mid b = Ok c"
      by auto
    show ?thesis
    proof (cases "c \<ge> t")
      case ge: True
      from 1(1) [OF True refl c ge c ge 1(5) m(1) 1(7)] True c ge show ?thesis
        by (simp add: narrow.simps [of p b t lo] Let_def)
    next
      case lt: False
      have s: "unat (?mid + 1) = unat ?mid + 1" using m(2) by (rule unat_succ)
      have "\<forall>y d. unat y < unat (?mid + 1) \<longrightarrow> cpmm_out p y b = Ok d \<longrightarrow> d < t"
      proof (intro allI impI)
        fix y d
        assume that: "unat y < unat (?mid + 1)" "cpmm_out p y b = Ok d"
        show "d < t"
        using cpmm_q.below [of "(p, b)" ?mid c "unat t" y d] c lt that s
        by (auto simp: word_le_nat_alt word_less_nat_alt)
      qed
      with 1(2) [OF True refl c lt 1(3,4)] m s True c lt show ?thesis
        by (simp add: narrow.simps [of p b t lo] Let_def)
    qed
  next
    case False
    with 1(6) have "lo = hi" by (simp add: word_less_nat_alt word_eq_unat)
    moreover have "narrow p b t hi hi = Ok hi" by (simp add: narrow.simps)
    ultimately show ?thesis using 1(3,4,7) by blast
  qed
qed


section \<open>Exact output\<close>

definition cpmm_reaches :: "cpmm_pool \<Rightarrow> bool \<Rightarrow> u64 \<Rightarrow> u64 \<Rightarrow> bool" where
  "cpmm_reaches p b t x = (case cpmm_out p x b of Inl e \<Rightarrow> False | Inr r \<Rightarrow> t \<le> r)"

lemma cpmm_reaches_iff: "cpmm_reaches p b t x \<longleftrightarrow> (\<exists>r. cpmm_out p x b = Ok r \<and> t \<le> r)"
  by (auto simp: cpmm_reaches_def split: sum.splits)

text \<open>The end of the search: from the top of the quotable inputs down to the least solution.\<close>

definition least_reaching :: "cpmm_pool \<Rightarrow> bool \<Rightarrow> u64 \<Rightarrow> u64 \<Rightarrow> bool" where
  "least_reaching p b t x \<longleftrightarrow> cpmm_reaches p b t x \<and> (\<forall>y. unat y < unat x \<longrightarrow> \<not> cpmm_reaches p b t y)"

lemma cpmm_search:
  assumes top: "cpmm_out p m b = Ok z" "t \<le> z" and naive: "unat naive =
      ceil_div (unat t * unat (cpmm_in_reserve p b)) (unat (cpmm_out_reserve p b) - unat t)"
  shows "\<exists>hi x. grow_hi p b t m (min (sat_add (sat_mul (max naive 1) 2) 10000) m) = Some (Ok hi) \<and>
    narrow p b t (max naive 1) hi = Ok x \<and> least_reaching p b t x"
proof -
  let ?lo = "max naive 1" and ?hi = "min (sat_add (sat_mul (max naive 1) 2) 10000) m"
  have m: "0 < unat m" using top(1) by (auto simp: cpmm_out_Ok)
  have lo: "unat ?lo = max (unat naive) 1" by (simp add: unat_max2)
  have below: "\<not> cpmm_reaches p b t y" if "unat y < unat ?lo" for y
  proof
    assume "cpmm_reaches p b t y"
    then obtain r where r: "cpmm_out p y b = Ok r" "t \<le> r" by (auto simp: cpmm_reaches_iff)
    then have "unat naive \<le> unat y" "0 < unat y"
      using cpmm_out_bounds(2) [OF r(1), of "unat t"] naive by (auto simp: word_le_nat_alt cpmm_out_Ok)
    with that lo show False by simp
  qed
  have "unat ?lo \<le> unat m"
    using below [of m] top by (force simp: cpmm_reaches_iff)
  moreover have "unat ?lo \<le> unat (sat_add (sat_mul ?lo 2) 10000)"
    using unat_u64_le [of ?lo] by (simp add: unat_sat_add unat_sat_mul min_def)
  ultimately have hi: "unat ?lo \<le> unat ?hi" "unat ?hi \<le> unat m" "0 < unat ?lo"
    using lo by (simp_all add: unat_min)
  from grow_hi_returns [OF top, of ?hi] hi obtain hi' r where
    g: "grow_hi p b t m ?hi = Some (Ok hi')" "unat ?hi \<le> unat hi'" "cpmm_out p hi' b = Ok r" "t \<le> r"
    by auto
  have nl: "\<forall>y c. unat y < unat ?lo \<longrightarrow> cpmm_out p y b = Ok c \<longrightarrow> c < t"
    using below by (auto simp: cpmm_reaches_iff not_le)
  have le: "unat ?lo \<le> unat hi'" using hi(1) g(2) by linarith
  from narrow_least [OF g(3,4) hi(3) le nl] obtain x c where
    "narrow p b t ?lo hi' = Ok x" "cpmm_out p x b = Ok c" "t \<le> c"
    "\<forall>y c. unat y < unat x \<longrightarrow> cpmm_out p y b = Ok c \<longrightarrow> c < t" by blast
  with g(1) show ?thesis by (auto simp: least_reaching_def cpmm_reaches_iff not_le)
qed


lemma cpmm_naive:
  assumes "unat t < unat (cpmm_out_reserve p b)"
  shows "unat (div_ceil (sat_mul (widen t) (widen (cpmm_in_reserve p b)))
      (widen (cpmm_out_reserve p b - t))) =
    ceil_div (unat t * unat (cpmm_in_reserve p b)) (unat (cpmm_out_reserve p b) - unat t)"
  using assms by (simp add: unat_div_ceil unat_sat_mul_widen unat_sub_exact)

text \<open>The inputs that can be quoted are those up to the result of the first search.\<close>

lemma cpmm_max_input:
  assumes "cpmm_valid p b i"
  shows "(\<exists>r. cpmm_out p x b = Ok r) \<longleftrightarrow>
    0 < unat x \<and> unat x \<le> unat (max_gross (cpmm_in_fee p b) (U64_MAX - cpmm_in_reserve p b) 0 U64_MAX)"
proof -
  let ?c = "U64_MAX - cpmm_in_reserve p b"
  have c: "unat ?c = 18446744073709551615 - unat (cpmm_in_reserve p b)"
    using unat_u64_le [of "cpmm_in_reserve p b"] by (simp add: U64_MAX_def unat_sub_exact)
  have "unat (x - calculate (cpmm_in_fee p b) x) \<le> unat ?c \<longleftrightarrow>
      unat x \<le> unat (max_gross (cpmm_in_fee p b) ?c 0 U64_MAX)"
  proof (rule max_gross_greatest)
    show "transfer_fee_ok (cpmm_in_fee p b)" using assms by (simp add: cpmm_valid_def)
    show "unat (0 - calculate (cpmm_in_fee p b) 0) \<le> unat ?c" by (simp add: transfer.fee_zero)
    show "unat ?c < unat (y - calculate (cpmm_in_fee p b) y)" if "unat U64_MAX < unat y" for y
      using that unat_u64_le [of y] by (simp add: U64_MAX_def)
  qed simp
  moreover have "unat (cpmm_credit p b x) \<le> unat ?c \<longleftrightarrow>
      unat (cpmm_in_reserve p b) + unat (cpmm_credit p b x) < 2 ^ 64"
    using c unat_u64_le [of "cpmm_in_reserve p b"] by auto
  ultimately show ?thesis using assms by (auto simp: cpmm_out_Ok cpmm_credit_def)
qed

text \<open>What the exact-output routine returns, by the three cases of its specification.\<close>

lemma cpmm_in_for_out_cases:
  assumes "0 < unat t"
  shows "(\<exists>x. cpmm_in_for_out p t b = Some (Ok x) \<and> least_reaching p b t x) \<or>
    (\<exists>e. cpmm_in_for_out p t b = Some (Err e)) \<and> (\<forall>y. \<not> cpmm_reaches p b t y)"
proof (cases "\<exists>y. cpmm_reaches p b t y")
  case True
  let ?m = "max_gross (cpmm_in_fee p b) (U64_MAX - cpmm_in_reserve p b) 0 U64_MAX"
  from True obtain y r where y: "cpmm_out p y b = Ok r" "t \<le> r" by (auto simp: cpmm_reaches_iff)
  then obtain i where v: "cpmm_valid p b i" by (auto simp: cpmm_out_Ok)
  note iff = cpmm_max_input [OF v]
  have ym: "0 < unat y" "unat y \<le> unat ?m" using iff [of y] y(1) by auto
  then have m: "0 < unat ?m" by linarith
  obtain reached where top: "cpmm_out p ?m b = Ok reached" using iff [of ?m] m by auto
  obtain one where one: "cpmm_out p 1 b = Ok one" using iff [of 1] m by auto
  have ge: "t \<le> reached"
    using cpmm_q.quote_mono [of "(p, b)" y r ?m reached] y top ym(2) by (simp add: word_le_nat_alt)
  have res: "unat t < unat (cpmm_out_reserve p b)"
    using cpmm_out_bounds(1) [OF y(1)] y(2) by (simp add: word_le_nat_alt)
  note naive = cpmm_naive [OF res]
  have "ceil_div (unat t * unat (cpmm_in_reserve p b)) (unat (cpmm_out_reserve p b) - unat t) \<le> unat y"
    using cpmm_out_bounds(2) [OF y(1)] y(2) by (simp add: word_le_nat_alt)
  then have "unat (div_ceil (sat_mul (widen t) (widen (cpmm_in_reserve p b)))
      (widen (cpmm_out_reserve p b - t))) < 2 ^ 64"
    unfolding naive using le_u64_less by simp
  then obtain n where n: "try_u64 (div_ceil (sat_mul (widen t) (widen (cpmm_in_reserve p b)))
      (widen (cpmm_out_reserve p b - t))) = Some n" by (auto simp: try_u64_def)
  then have "unat n = ceil_div (unat t * unat (cpmm_in_reserve p b)) (unat (cpmm_out_reserve p b) - unat t)"
    by (simp add: try_u64_Some naive)
  from cpmm_search [OF top ge this] obtain hi x where
    s: "grow_hi p b t ?m (min (sat_add (sat_mul (max n 1) 2) 10000) ?m) = Some (Ok hi)"
    "narrow p b t (max n 1) hi = Ok x" "least_reaching p b t x" by auto
  have "t \<noteq> 0" "\<not> t \<ge> cpmm_out_reserve p b" "?m \<noteq> 0" "\<not> reached < t"
    using assms res m ge by (auto simp: word_le_nat_alt word_less_nat_alt)
  then have "cpmm_in_for_out p t b = Some (Ok x)"
    unfolding cpmm_in_for_out_def cpmm_sides Let_def prod.case by (simp add: one top n s(1,2))
  with s(3) show ?thesis by blast
next
  case False
  let ?m = "max_gross (cpmm_in_fee p b) (U64_MAX - cpmm_in_reserve p b) 0 U64_MAX"
  have "t \<noteq> 0" using assms by auto
  moreover have "reached < t" if "cpmm_out p ?m b = Ok reached" for reached
    using False that by (auto simp: cpmm_reaches_iff not_le)
  ultimately have "\<exists>e. cpmm_in_for_out p t b = Some (Err e)"
    unfolding cpmm_in_for_out_def cpmm_sides Let_def prod.case by (auto split: sum.splits)
  with False show ?thesis by blast
qed

end
