(* ===== verification/Amm_Quote.thy ===== *)
theory Amm_Quote
  imports Cpmm_Quote
begin

text \<open>
  The Raydium AMM V4 quote and its closed-form inverse: the inverse is exactly the least
  input that reaches the target.
\<close>

section \<open>Raydium AMM V4\<close>

definition amm_in_reserve :: "raydium_amm_v4_pool \<Rightarrow> bool \<Rightarrow> u64" where
  "amm_in_reserve p b = (if b then rv_coin_reserve p else rv_pc_reserve p)"

definition amm_out_reserve :: "raydium_amm_v4_pool \<Rightarrow> bool \<Rightarrow> u64" where
  "amm_out_reserve p b = (if b then rv_pc_reserve p else rv_coin_reserve p)"

lemma amm_sides: "amm_sides p b = (amm_in_reserve p b, amm_out_reserve p b)"
  by (simp add: amm_sides_def amm_in_reserve_def amm_out_reserve_def)

definition amm_valid :: "raydium_amm_v4_pool \<Rightarrow> bool \<Rightarrow> bool" where
  "amm_valid p b \<longleftrightarrow> 0 < unat (amm_in_reserve p b) \<and> 0 < unat (amm_out_reserve p b) \<and>
     rv_swap_fee_numerator p < rv_swap_fee_denominator p"

definition amm_net :: "raydium_amm_v4_pool \<Rightarrow> u64 \<Rightarrow> u64" where
  "amm_net p x = x - amm_trade_fee (rv_swap_fee_numerator p) (rv_swap_fee_denominator p) x"

lemma amm_out_value:
  assumes "0 < unat i"
  shows "as_u64 (min (sat_mul (widen out) (widen n) div sat_add (widen i) (widen n)) (widen U64_MAX))
    = cpmm_curve i out n"
proof -
  have v: "unat (sat_mul (widen out) (widen n) div sat_add (widen i) (widen n)) =
      unat out * unat n div (unat i + unat n)"
    using unat_u64_le [of i] unat_u64_le [of n]
    by (simp add: unat_div unat_sat_mul_widen unat_sat_add)
  show ?thesis
    using unat_u64_le [of "cpmm_curve i out n"] unat_cpmm_curve [OF assms, of out n]
    by (simp add: word_eq_unat unat_as_u64_min v U64_MAX_def)
qed

lemma amm_out_Ok:
  "raydium_amm_v4_out p x b = Ok r \<longleftrightarrow> amm_valid p b \<and> 0 < unat x \<and>
     unat (amm_in_reserve p b) + unat x < 2 ^ 64 \<and>
     r = cpmm_curve (amm_in_reserve p b) (amm_out_reserve p b) (amm_net p x)"
proof (cases "0 < unat (amm_in_reserve p b) \<and> rv_swap_fee_numerator p < rv_swap_fee_denominator p")
  case True
  then have c: "case (rv_swap_fee_numerator p, rv_swap_fee_denominator p) of (n, d) \<Rightarrow> n < d"
    and i: "0 < unat (amm_in_reserve p b)" and d: "rv_swap_fee_denominator p \<noteq> 0"
    by auto
  from True amm_fee.sat_net [OF c, of x] show ?thesis
    by (auto simp: raydium_amm_v4_out_def amm_sides Let_def result_inv checked_add_def amm_valid_def
        amm_net_def amm_out_value [OF i] d unat_gt_0 split: if_splits)
next
  case False
  then show ?thesis
    by (auto simp: raydium_amm_v4_out_def amm_sides Let_def amm_valid_def not_le unat_gt_0 split: if_splits)
qed

lemma amm_net_mono: "amm_valid p b \<Longrightarrow> unat x \<le> unat y \<Longrightarrow> unat (amm_net p x) \<le> unat (amm_net p y)"
  using amm_fee.net_mono [of "(rv_swap_fee_numerator p, rv_swap_fee_denominator p)" x y]
  by (simp add: amm_net_def amm_valid_def)

interpretation amm_q: monotone_quote "\<lambda>(p, b) x. raydium_amm_v4_out p x b"
proof (unfold_locales, goal_cases)
  case (1 pb x a y c)
  then show ?case
    by (cases pb) (auto simp: amm_out_Ok amm_valid_def unat_cpmm_curve intro!: curve_mono amm_net_mono)
next
  case (2 pb y c x)
  then show ?case by (cases pb) (auto simp: amm_out_Ok)
next
  case (3 pb a)
  then show ?case by (cases pb) (auto simp: amm_out_Ok)
qed

text \<open>\<open>net = floor (gross * (den - num) / den)\<close>, the equation the inverse is computed from.\<close>

lemma amm_net_ge:
  assumes "amm_valid p b"
  shows "n \<le> unat (amm_net p x) \<longleftrightarrow> n * unat (rv_swap_fee_denominator p) \<le>
    unat x * (unat (rv_swap_fee_denominator p) - unat (rv_swap_fee_numerator p))"
proof -
  let ?num = "unat (rv_swap_fee_numerator p)" and ?den = "unat (rv_swap_fee_denominator p)"
  have lt: "?num < ?den" using assms by (simp add: amm_valid_def word_less_nat_alt)
  have le: "ceil_div (unat x * ?num) ?den \<le> unat x" using lt by (simp add: ceil_div_le_iff)
  have net: "unat (amm_net p x) = unat x - ceil_div (unat x * ?num) ?den"
    using le by (simp add: amm_net_def unat_sub_exact unat_amm_trade_fee [OF lt])
  show ?thesis
  proof (cases "n \<le> unat x")
    case True
    have "n \<le> unat (amm_net p x) \<longleftrightarrow> ceil_div (unat x * ?num) ?den \<le> unat x - n"
      unfolding net using le True by linarith
    also have "\<dots> \<longleftrightarrow> unat x * ?num \<le> (unat x - n) * ?den" using lt by (simp add: ceil_div_le_iff)
    also have "\<dots> \<longleftrightarrow> n * ?den \<le> unat x * (?den - ?num)"
    proof -
      have "(unat x - n) * ?den + n * ?den = unat x * ?den"
        using True by (simp add: add_mult_distrib [symmetric])
      moreover have "unat x * (?den - ?num) + unat x * ?num = unat x * ?den"
        using lt by (simp add: add_mult_distrib2 [symmetric])
      ultimately show ?thesis by linarith
    qed
    finally show ?thesis .
  next
    case False
    have "unat x * (?den - ?num) \<le> unat x * ?den" by simp
    also have "\<dots> < n * ?den" using False lt by (intro mult_strict_right_mono) simp_all
    finally show ?thesis using False net by simp
  qed
qed

definition amm_reaches :: "raydium_amm_v4_pool \<Rightarrow> bool \<Rightarrow> u64 \<Rightarrow> u64 \<Rightarrow> bool" where
  "amm_reaches p b t x = (case raydium_amm_v4_out p x b of Inl e \<Rightarrow> False | Inr r \<Rightarrow> t \<le> r)"

lemma amm_reaches_ex: "amm_reaches p b t x \<longleftrightarrow> (\<exists>r. raydium_amm_v4_out p x b = Ok r \<and> t \<le> r)"
  by (auto simp: amm_reaches_def split: sum.splits)

lemma curve_ge_iff:
  assumes "0 < (i :: nat)" "t < out"
  shows "t \<le> out * n div (i + n) \<longleftrightarrow> ceil_div (t * i) (out - t) \<le> n"
proof -
  have "t \<le> out * n div (i + n) \<longleftrightarrow> t * (i + n) \<le> out * n"
    using assms(1) by (simp add: less_eq_div_iff_mult_less_eq)
  also have "\<dots> \<longleftrightarrow> t * i \<le> n * (out - t)"
  proof -
    have "n * (out - t) + t * n = out * n" using assms(2) by (simp add: algebra_simps diff_mult_distrib2)
    moreover have "t * (i + n) = t * i + t * n" by (simp add: add_mult_distrib2)
    ultimately show ?thesis by linarith
  qed
  also have "\<dots> \<longleftrightarrow> ceil_div (t * i) (out - t) \<le> n" using assms(2) by (simp add: ceil_div_le_iff)
  finally show ?thesis .
qed

text \<open>The least input, as the code computes it.\<close>

definition amm_least :: "raydium_amm_v4_pool \<Rightarrow> bool \<Rightarrow> nat \<Rightarrow> nat" where
  "amm_least p b t = ceil_div (ceil_div (t * unat (amm_in_reserve p b)) (unat (amm_out_reserve p b) - t)
     * unat (rv_swap_fee_denominator p))
     (unat (rv_swap_fee_denominator p) - unat (rv_swap_fee_numerator p))"

lemma amm_reaches_iff:
  assumes "0 < unat t"
  shows "amm_reaches p b t x \<longleftrightarrow> amm_valid p b \<and> unat t < unat (amm_out_reserve p b) \<and>
     unat (amm_in_reserve p b) + unat x < 2 ^ 64 \<and> amm_least p b (unat t) \<le> unat x"
proof (cases "amm_valid p b \<and> unat (amm_in_reserve p b) + unat x < 2 ^ 64")
  case True
  let ?i = "amm_in_reserve p b" and ?o = "amm_out_reserve p b"
  have i: "0 < unat ?i" "0 < unat ?o" and lt: "unat (rv_swap_fee_numerator p) < unat (rv_swap_fee_denominator p)"
    using True by (auto simp: amm_valid_def word_less_nat_alt)
  have "amm_reaches p b t x \<longleftrightarrow> 0 < unat x \<and> t \<le> cpmm_curve ?i ?o (amm_net p x)"
    using True by (auto simp: amm_reaches_ex amm_out_Ok)
  also have "\<dots> \<longleftrightarrow> 0 < unat x \<and> unat t \<le> unat ?o * unat (amm_net p x) div (unat ?i + unat (amm_net p x))"
    by (simp add: word_le_nat_alt unat_cpmm_curve [OF i(1)])
  also have "\<dots> \<longleftrightarrow> unat t < unat ?o \<and> amm_least p b (unat t) \<le> unat x"
  proof (cases "unat t < unat ?o")
    case t: True
    have pos: "0 < ceil_div (unat t * unat ?i) (unat ?o - unat t)"
      using assms i t by (simp add: less_ceil_div_iff)
    then have "0 < amm_least p b (unat t)"
      using lt unfolding amm_least_def by (subst less_ceil_div_iff) auto
    moreover have "unat t \<le> unat ?o * unat (amm_net p x) div (unat ?i + unat (amm_net p x)) \<longleftrightarrow>
        amm_least p b (unat t) \<le> unat x"
      unfolding curve_ge_iff [OF i(1) t] amm_net_ge [OF True [THEN conjunct1]] amm_least_def
      using lt by (subst ceil_div_le_iff) simp_all
    ultimately show ?thesis using t by auto
  next
    case False
    with curve_less [OF i, of "unat (amm_net p x)"] show ?thesis by linarith
  qed
  finally show ?thesis using True by simp
next
  case False
  then show ?thesis by (auto simp: amm_reaches_ex amm_out_Ok)
qed


lemma amm_in_for_out_Ok:
  assumes "0 < unat t"
  shows "raydium_amm_v4_in_for_out p t b = Ok x \<longleftrightarrow>
    unat x = amm_least p b (unat t) \<and> amm_reaches p b t x"
proof (cases "amm_valid p b \<and> unat t < unat (amm_out_reserve p b)")
  case True
  let ?i = "amm_in_reserve p b" and ?o = "amm_out_reserve p b"
  let ?num = "rv_swap_fee_numerator p" and ?den = "rv_swap_fee_denominator p"
  have lt: "unat ?num < unat ?den" using True by (simp add: amm_valid_def word_less_nat_alt)
  let ?net = "div_ceil (sat_mul (widen t) (widen ?i)) (widen (?o - t))"
  let ?n = "ceil_div (unat t * unat ?i) (unat ?o - unat t)"
  have net: "unat ?net = ?n"
    using True by (simp add: unat_div_ceil unat_sat_mul_widen unat_sub_exact)
  have gross: "unat (div_ceil (widen n * widen ?den) (widen ?den - widen ?num)) =
      ceil_div (unat n * unat ?den) (unat ?den - unat ?num)" for n
    using lt widen_mult [of "widen ?den" n] by (simp add: unat_div_ceil unat_mul_exact unat_sub_exact)
  have c: "t \<noteq> 0" "?i \<noteq> 0" "?o \<noteq> 0" "\<not> t \<ge> ?o" "widen ?den \<noteq> 0" "\<not> widen ?num \<ge> widen ?den"
    using assms True lt by (auto simp: amm_valid_def word_le_nat_alt word_eq_unat)
  have "raydium_amm_v4_in_for_out p t b = Ok x \<longleftrightarrow> (\<exists>n :: u64. unat n = ?n \<and>
      unat x = ceil_div (unat n * unat ?den) (unat ?den - unat ?num) \<and> amm_reaches p b t x)"
    unfolding raydium_amm_v4_in_for_out_def amm_sides Let_def prod.case
    by (simp add: c result_inv try_u64_Some net gross amm_reaches_ex)
      (unfold not_less, blast)
  also have "\<dots> \<longleftrightarrow> unat x = amm_least p b (unat t) \<and> amm_reaches p b t x"
  proof -
    have "?n < 2 ^ 64" if "unat x = amm_least p b (unat t)"
    proof -
      have "?n \<le> amm_least p b (unat t)"
      proof -
        have "?n * (unat ?den - unat ?num) \<le> ?n * unat ?den" by simp
        also have "\<dots> \<le> amm_least p b (unat t) * (unat ?den - unat ?num)"
          unfolding amm_least_def using lt by (intro le_mult_ceil_div) simp
        finally show ?thesis using lt by simp
      qed
      with that show ?thesis using le_u64_less [of ?n x] by simp
    qed
    then have "\<exists>n :: u64. unat n = ?n" if "unat x = amm_least p b (unat t)"
      using that by (intro exI [of _ "of_nat ?n"]) (simp add: unsigned_of_nat take_bit_nat_eq_self)
    note ex = this
    show ?thesis
    proof
      assume r: "unat x = amm_least p b (unat t) \<and> amm_reaches p b t x"
      with ex obtain n :: u64 where "unat n = ?n" by blast
      with r show "\<exists>n :: u64. unat n = ?n \<and>
          unat x = ceil_div (unat n * unat ?den) (unat ?den - unat ?num) \<and> amm_reaches p b t x"
        by (intro exI [of _ n]) (simp add: amm_least_def)
    qed (auto simp: amm_least_def)
  qed
  finally show ?thesis .
next
  case False
  then have "\<not> amm_reaches p b t x" by (auto simp: amm_reaches_iff [OF assms])
  moreover have "raydium_amm_v4_in_for_out p t b \<noteq> Ok x"
    using False by (auto simp: raydium_amm_v4_in_for_out_def amm_sides Let_def result_inv amm_valid_def
        word_le_nat_alt word_less_nat_alt not_less word_eq_unat split: if_splits)
  ultimately show ?thesis by blast
qed


definition amm_least_reaching :: "raydium_amm_v4_pool \<Rightarrow> bool \<Rightarrow> u64 \<Rightarrow> u64 \<Rightarrow> bool" where
  "amm_least_reaching p b t x \<longleftrightarrow> amm_reaches p b t x \<and> (\<forall>y. unat y < unat x \<longrightarrow> \<not> amm_reaches p b t y)"

lemma amm_in_for_out_cases:
  assumes "0 < unat t"
  shows "(\<exists>x. raydium_amm_v4_in_for_out p t b = Ok x \<and> amm_least_reaching p b t x) \<or>
    (\<exists>e. raydium_amm_v4_in_for_out p t b = Err e) \<and> (\<forall>y. \<not> amm_reaches p b t y)"
proof (cases "raydium_amm_v4_in_for_out p t b")
  case (Inr x)
  then have x: "unat x = amm_least p b (unat t)" "amm_reaches p b t x"
    using amm_in_for_out_Ok [OF assms] by auto
  then have "amm_least_reaching p b t x"
    by (auto simp: amm_least_reaching_def amm_reaches_iff [OF assms])
  with Inr show ?thesis by blast
next
  case (Inl e)
  have "\<not> amm_reaches p b t y" for y
  proof
    assume y: "amm_reaches p b t y"
    then have le: "amm_least p b (unat t) \<le> unat y" by (simp add: amm_reaches_iff [OF assms])
    then have u: "unat (of_nat (amm_least p b (unat t)) :: u64) = amm_least p b (unat t)"
      using le_u64_less [OF le] by (simp add: unsigned_of_nat take_bit_nat_eq_self)
    with y le have "amm_reaches p b t (of_nat (amm_least p b (unat t)))"
      by (auto simp: amm_reaches_iff [OF assms])
    with u have "raydium_amm_v4_in_for_out p t b = Ok (of_nat (amm_least p b (unat t)))"
      using amm_in_for_out_Ok [OF assms] by blast
    with Inl show False by simp
  qed
  with Inl show ?thesis by blast
qed

end
