(* ===== verification/Quote_Props.thy ===== *)
theory Quote_Props
  imports Amm_Quote Route_Facts
begin

text \<open>
  The properties of the SDK's quotes.
\<close>

section \<open>CPMM\<close>

text \<open>C27. The exact-output search of the CPMM quote always returns. It returns the least input
  whose quote reaches the target, or an error exactly if no input does.\<close>

theorem cpmm_in_for_out_least:
  "case cpmm_in_for_out p t b of
     None \<Rightarrow> False
   | Some (Inr x) \<Rightarrow> if t = 0 then x = 0 else least_reaching p b t x
   | Some (Inl e) \<Rightarrow> t \<noteq> 0 \<and> (\<forall>y. \<not> cpmm_reaches p b t y)"
proof (cases "t = 0")
  case True
  then show ?thesis by (simp add: cpmm_in_for_out_def)
next
  case False
  then have "0 < unat t" by (simp add: unat_gt_0)
  from cpmm_in_for_out_cases [OF this, of p b] False show ?thesis by auto
qed

text \<open>C32. A CPMM quote grows with the input and never lowers the product of the reserves: with
  the credited input in the vault and the quoted output taken out, the product is at least
  what it was, so the output reserve is never exhausted.\<close>

theorem cpmm_out_keeps_product:
  assumes "cpmm_out p x b = Ok r"
  shows "unat (cpmm_in_reserve p b) * unat (cpmm_out_reserve p b) \<le>
      (unat (cpmm_in_reserve p b) + unat (cpmm_credit p b x)) * (unat (cpmm_out_reserve p b) - unat r)
    \<and> unat r < unat (cpmm_out_reserve p b) \<and> unat (cpmm_credit p b x) \<le> unat x
    \<and> (\<forall>y r'. cpmm_out p y b = Ok r' \<longrightarrow> unat x \<le> unat y \<longrightarrow> unat r \<le> unat r')"
proof -
  let ?i = "unat (cpmm_in_reserve p b)" and ?o = "unat (cpmm_out_reserve p b)"
  have i: "0 < ?i" "0 < ?o" using assms by (auto simp: cpmm_out_Ok cpmm_valid_def)
  from cpmm_out_curve [OF assms] obtain n :: u64 where n: "unat n \<le> unat (cpmm_credit p b x)"
    "unat (cpmm_credit p b x) \<le> unat x" "unat r \<le> ?o * unat n div (?i + unat n)" .
  have "unat r * (?i + unat n) \<le> ?o * unat n"
    using n(3) i(1) by (simp add: less_eq_div_iff_mult_less_eq)
  then have "?i * ?o \<le> (?i + unat n) * (?o - unat r)"
    using cpmm_out_bounds(1) [OF assms] by (simp add: algebra_simps diff_mult_distrib2)
  also have "\<dots> \<le> (?i + unat (cpmm_credit p b x)) * (?o - unat r)"
    using n(1) by (intro mult_le_mono1) simp
  finally show ?thesis
    using n(2) cpmm_out_bounds(1) [OF assms] cpmm_q.quote_mono [of "(p, b)" x r] assms by auto
qed

definition demo_cpmm :: cpmm_pool where
  "demo_cpmm = \<lparr>cp_pool_state = 1, cp_amm_config = 2, cp_observation_state = 3, cp_base_mint = 4,
     cp_quote_mint = 5, cp_base_vault = 6, cp_quote_vault = 7, cp_base_token_program = 8,
     cp_quote_token_program = 8, cp_base_reserve = 1000, cp_quote_reserve = 5000,
     cp_fee_rates_known = True, cp_trade_fee_rate = 2500, cp_creator_fee_rate = 0,
     cp_creator_fee_on = 0, cp_enable_creator_fee = False, cp_base_transfer_fee = no_transfer_fee,
     cp_quote_transfer_fee = no_transfer_fee\<rparr>"

lemma demo_cpmm_out: "\<exists>r. cpmm_out demo_cpmm 100 True = Ok r"
  by (simp add: cpmm_out_def cpmm_sides_def demo_cpmm_def cpmm_creator_rate_def FEE_DENOM_def
      widen_def no_transfer_fee_def calculate_def checked_sub_def checked_add_def
      creator_fee_on_input_def Let_def)

theorem cpmm_out_keeps_product_witness:
  "\<exists>r. cpmm_out demo_cpmm 100 True = Ok r \<and>
     unat (cpmm_in_reserve demo_cpmm True) * unat (cpmm_out_reserve demo_cpmm True) \<le>
      (unat (cpmm_in_reserve demo_cpmm True) + unat (cpmm_credit demo_cpmm True 100))
        * (unat (cpmm_out_reserve demo_cpmm True) - unat r)"
proof -
  obtain r where r: "cpmm_out demo_cpmm 100 True = Ok r" using demo_cpmm_out ..
  with cpmm_out_keeps_product [OF r] show ?thesis by blast
qed

section \<open>Raydium AMM V4\<close>

text \<open>C28. The closed-form inverse of the AMM V4 quote returns the least input whose quote
  reaches the target, or an error exactly if the target is zero or no input reaches it.\<close>

theorem amm_in_for_out_least:
  "case raydium_amm_v4_in_for_out p t b of
     Inr x \<Rightarrow> t \<noteq> 0 \<and> amm_least_reaching p b t x
   | Inl e \<Rightarrow> t = 0 \<or> (\<forall>y. \<not> amm_reaches p b t y)"
proof (cases "t = 0")
  case True
  then show ?thesis by (simp add: raydium_amm_v4_in_for_out_def)
next
  case False
  then have "0 < unat t" by (simp add: unat_gt_0)
  from amm_in_for_out_cases [OF this, of p b] False show ?thesis by auto
qed

section \<open>Fees and slippage\<close>

text \<open>The minimum output is the quote less the tolerance, rounded down, with the tolerance
  capped at 99.99 per cent; a positive quote never allows a zero output, and the minimum
  never exceeds the quote.\<close>

theorem slippage_min_out:
  "unat (apply_slippage_min_out amount bps) =
     (if amount = 0 then 0
      else max (unat amount * (10000 - min (unat bps) 9999) div 10000) 1)
   \<and> apply_slippage_min_out amount bps \<le> amount
   \<and> (apply_slippage_min_out amount bps = 0 \<longleftrightarrow> amount = 0)"
proof -
  let ?k = "10000 - min (unat bps) 9999"
  let ?slip = "widen (clamp_slippage_bps bps)"
  have slip: "unat ?slip = min (unat bps) 9999"
    by (simp add: clamp_slippage_bps_def MAX_SLIPPAGE_BPS_def unat_min)
  have k: "unat (sat_sub 10000 ?slip) = ?k" unfolding unat_sat_sub slip by simp
  have "unat amount * ?k \<le> unat amount * 10000" by simp
  then have le: "unat amount * ?k div 10000 \<le> unat amount"
    using div_le_mono [of "unat amount * ?k" "unat amount * 10000" 10000] by simp
  have "unat (sat_mul (widen amount) (sat_sub 10000 ?slip) div 10000) = unat amount * ?k div 10000"
    by (simp add: unat_div unat_sat_mul_widen k)
  then have "unat (as_u64 (min (sat_mul (widen amount) (sat_sub 10000 ?slip) div 10000) (widen U64_MAX)))
      = unat amount * ?k div 10000"
    using le unat_u64_le [of amount] by (simp add: unat_as_u64_min U64_MAX_def)
  then have v: "unat (apply_slippage_min_out amount bps) =
      (if amount = 0 then 0 else max (unat amount * ?k div 10000) 1)"
    by (simp add: apply_slippage_min_out_def Let_def unat_max2)
  moreover have "0 < unat amount" if "amount \<noteq> 0" using that by (simp add: unat_gt_0)
  ultimately have "unat (apply_slippage_min_out amount bps) \<le> unat amount"
    using le by (auto simp: max_def)
  with v show ?thesis by (auto simp: word_le_nat_alt word_eq_unat)
qed

text \<open>The SDK predicts the router's fee exactly: for every rate up to 10000 basis points,
  and so for every rate the program accepts, the off-chain formula and the on-chain one give
  the same amount, and the on-chain one does not fail.\<close>

theorem platform_fee_agrees:
  assumes "unat bps \<le> 10000"
  shows "checked_fee amount bps = Ok (fee_amount amount bps)"
proof -
  have m: "unat amount * unat bps \<le> unat amount * 10000" using assms by simp
  then have le: "unat amount * unat bps div 10000 \<le> unat amount"
    using div_le_mono [of "unat amount * unat bps" "unat amount * 10000" 10000] by simp
  then have fee: "unat (fee_amount amount bps) = unat amount * unat bps div 10000"
    using unat_u64_le [of amount] by (simp add: unat_fee_amount)
  show ?thesis
  proof (cases "bps = 0")
    case True
    with fee have "unat (fee_amount amount bps) = 0" by simp
    then have "fee_amount amount bps = 0" by (simp only: unat_eq_zero)
    with True show ?thesis by (simp add: checked_fee_def)
  next
    case False
    have "unat (widen amount * ucast bps :: u128) = unat amount * unat bps"
      using widen_mult [of "ucast bps" amount] by (simp add: unat_mul_exact unat_u16_u64)
    then have "try_u64 (widen amount * ucast bps div 10000) = Some (fee_amount amount bps)"
      by (simp add: try_u64_Some unat_div fee)
    with False show ?thesis by (simp add: checked_fee_def)
  qed
qed

theorem platform_fee_agrees_witness: "checked_fee 1000000 100 = Ok (fee_amount 1000000 100)"
  by (rule platform_fee_agrees) simp

text \<open>The inverse transfer fee is enough: adding it to an amount leaves, after the mint
  takes its fee of the sum, at least the amount.\<close>

theorem inverse_fee_covers:
  assumes "transfer_fee_ok f" "unat x + unat (calculate_inverse f x) < 2 ^ 64"
  shows "unat x \<le> unat (x + calculate_inverse f x - calculate f (x + calculate_inverse f x))"
proof -
  let ?v = "calculate_inverse f x" and ?b = "unat (basis_points f)" and ?m = "unat (maximum_fee f)"
  have b: "?b \<le> 10000" using assms(1) by (simp add: transfer_fee_ok_def word_le_nat_alt)
  have s: "unat (x + ?v) = unat x + unat ?v" using assms(2) by (simp add: unat_add_exact)
  have "min (ceil_div ((unat x + unat ?v) * ?b) 10000) ?m \<le> unat ?v"
  proof (cases "basis_points f = 0 \<or> x = 0 \<or> maximum_fee f = 0")
    case True
    then show ?thesis by (auto simp: calculate_inverse_def)
  next
    case False
    show ?thesis
    proof (cases "?b = 10000")
      case True
      then have "basis_points f \<ge> 10000" by (simp add: word_le_nat_alt)
      with False have "?v = maximum_fee f" by (simp add: calculate_inverse_def)
      then show ?thesis by simp
    next
      case lt: False
      with b have lt: "?b < 10000" by simp
      then have "\<not> basis_points f \<ge> 10000" by (simp add: word_le_nat_alt)
      moreover have "unat (10000 - ucast (basis_points f) :: u128) = 10000 - ?b"
        using lt by (simp add: unat_sub_exact)
      ultimately have v: "unat ?v = min (ceil_div (unat x * ?b) (10000 - ?b)) ?m"
        using False by (simp add: calculate_inverse_def Let_def unat_as_u64_min unat_div_ceil
            unat_sat_mul_widen unat_u16_u64)
      have "ceil_div ((unat x + unat ?v) * ?b) 10000 \<le> unat ?v" if "unat ?v \<noteq> ?m"
      proof -
        have "unat x * ?b \<le> unat ?v * (10000 - ?b)"
          using that v lt le_mult_ceil_div [of "10000 - ?b" "unat x * ?b"] by (simp add: min_def split: if_splits)
        moreover have "unat ?v * (10000 - ?b) + unat ?v * ?b = unat ?v * 10000"
          unfolding distrib_left [symmetric] using lt by simp
        ultimately have "(unat x + unat ?v) * ?b \<le> unat ?v * 10000"
          by (simp add: distrib_right)
        then show ?thesis by (simp add: ceil_div_le_iff)
      qed
      then show ?thesis by (cases "unat ?v = ?m") auto
    qed
  qed
  then have "unat (calculate f (x + ?v)) \<le> unat ?v" by (simp add: unat_calculate s)
  then show ?thesis using s by (simp add: unat_sub_exact)
qed

theorem inverse_fee_covers_witness:
  "unat (1000 :: u64) \<le> unat (1000 + calculate_inverse \<lparr>basis_points = 300, maximum_fee = 50\<rparr> 1000
     - calculate \<lparr>basis_points = 300, maximum_fee = 50\<rparr>
         (1000 + calculate_inverse \<lparr>basis_points = 300, maximum_fee = 50\<rparr> 1000))"
proof (rule inverse_fee_covers)
  show "transfer_fee_ok \<lparr>basis_points = 300, maximum_fee = 50\<rparr>" by (simp add: transfer_fee_ok_def)
  show "unat (1000 :: u64) + unat (calculate_inverse \<lparr>basis_points = 300, maximum_fee = 50\<rparr> 1000) < 2 ^ 64"
    by (simp add: calculate_inverse_def Let_def sat_mul_def widen_def div_ceil_def as_u64_def min_def)
qed

end
