(* ===== verification/Sdk_Ata.thy ===== *)
theory Sdk_Ata
  imports Sdk_Market "HOL-Library.Mapping"
begin

text \<open>
  Instructions around token accounts: \<open>ata.rs\<close> (the cached derivation of associated token
  accounts, their creation and closing, wrapping of SOL, the policy of a trade) and the
  builders of \<open>admin.rs\<close>. The derivation of an associated account is the pure function
  \<open>ata\<close>; the code's version with its per-thread cache is \<open>ata_cached\<close>, and \<open>Trade_Safety\<close>
  shows that the cache cannot be observed.
\<close>

record instruction =
  ix_program_id :: pubkey
  ix_accounts :: "account_view list"
  ix_data :: bytes

text \<open>What the builders use of crates outside the repository, beside the derivation of
  addresses: the bitmap extension address and the account check of \<open>sol_trade_sdk\<close>, and
  the transfer of \<open>solana_system_interface\<close> (from, to, lamports).\<close>

record sdk_env = pda +
  dlmm_bitmap_extension_pda :: "pubkey \<Rightarrow> pubkey"
  pumpswap_params_valid :: "pumpswap_pool \<Rightarrow> sdk_error + unit"
  system_transfer :: "pubkey \<Rightarrow> pubkey \<Rightarrow> u64 \<Rightarrow> instruction"

section \<open>Derivation and cache\<close>

definition ata :: "'z pda_scheme \<Rightarrow> pubkey \<Rightarrow> pubkey \<Rightarrow> pubkey \<Rightarrow> pubkey" where
  "ata R own mint tp =
     fst (find_pda R [key_bytes own, key_bytes tp, key_bytes mint] ASSOCIATED_TOKEN_PROGRAM)"

type_synonym ata_key = "pubkey \<times> pubkey \<times> pubkey"
type_synonym ata_cache = "(ata_key, pubkey) mapping"

definition ATA_CACHE_CAPACITY :: nat where "ATA_CACHE_CAPACITY = 4096"

definition ata_cached ::
  "'z pda_scheme \<Rightarrow> pubkey \<Rightarrow> pubkey \<Rightarrow> pubkey \<Rightarrow> ata_cache \<Rightarrow> pubkey \<times> ata_cache" where
  "ata_cached R own mint tp m =
     (case Mapping.lookup m (own, mint, tp) of
        Some cached \<Rightarrow> (cached, m)
      | None \<Rightarrow>
          let addr = fst (find_pda R [key_bytes own, key_bytes tp, key_bytes mint]
                            ASSOCIATED_TOKEN_PROGRAM)
          in (addr, if Mapping.size m < ATA_CACHE_CAPACITY
                    then Mapping.update (own, mint, tp) addr m else m))"

definition warm_ata_cache ::
  "'z pda_scheme \<Rightarrow> pubkey \<Rightarrow> (pubkey \<times> pubkey) list \<Rightarrow> ata_cache \<Rightarrow> ata_cache" where
  "warm_ata_cache R own mints m =
     snd (ata_cached R own WSOL_MINT TOKEN_PROGRAM
       (fold (\<lambda>(mint, tp) m. snd (ata_cached R own mint tp m)) mints m))"

section \<open>Instructions\<close>

definition create_ata :: "'z pda_scheme \<Rightarrow> pubkey \<Rightarrow> pubkey \<Rightarrow> pubkey \<Rightarrow> pubkey \<Rightarrow> instruction" where
  "create_ata R payer own mint tp =
     \<lparr>ix_program_id = ASSOCIATED_TOKEN_PROGRAM,
      ix_accounts = [meta_new payer True, meta_new (ata R own mint tp) False, meta_ro own False,
        meta_ro mint False, meta_ro SYSTEM_PROGRAM False, meta_ro tp False],
      ix_data = [1]\<rparr>"

definition create_ata_idempotent ::
  "'z pda_scheme \<Rightarrow> pubkey \<Rightarrow> pubkey \<Rightarrow> pubkey \<Rightarrow> pubkey \<Rightarrow> instruction" where
  "create_ata_idempotent R payer own mint tp = create_ata R payer own mint tp"

definition create_wsol_ata :: "'z pda_scheme \<Rightarrow> pubkey \<Rightarrow> instruction" where
  "create_wsol_ata R payer = create_ata R payer payer WSOL_MINT TOKEN_PROGRAM"

definition close_ata :: "'z pda_scheme \<Rightarrow> pubkey \<Rightarrow> pubkey \<Rightarrow> pubkey \<Rightarrow> pubkey \<Rightarrow> instruction" where
  "close_ata R own mint tp destination =
     \<lparr>ix_program_id = tp,
      ix_accounts = [meta_new (ata R own mint tp) False, meta_new destination False, meta_ro own True],
      ix_data = [9]\<rparr>"

definition close_wsol_ata :: "'z pda_scheme \<Rightarrow> pubkey \<Rightarrow> instruction" where
  "close_wsol_ata R own = close_ata R own WSOL_MINT TOKEN_PROGRAM own"

definition sync_native :: "pubkey \<Rightarrow> pubkey \<Rightarrow> instruction" where
  "sync_native tp account =
     \<lparr>ix_program_id = tp, ix_accounts = [meta_new account False], ix_data = [17]\<rparr>"

definition wrap_sol_with_options :: "sdk_env \<Rightarrow> pubkey \<Rightarrow> u64 \<Rightarrow> bool \<Rightarrow> instruction list" where
  "wrap_sol_with_options R payer amount create_ata_account =
     (let wsol_ata = ata R payer WSOL_MINT TOKEN_PROGRAM
      in (if create_ata_account then [create_wsol_ata R payer] else [])
         @ [system_transfer R payer wsol_ata amount, sync_native TOKEN_PROGRAM wsol_ata])"

definition wrap_sol :: "sdk_env \<Rightarrow> pubkey \<Rightarrow> u64 \<Rightarrow> instruction list" where
  "wrap_sol R payer amount = wrap_sol_with_options R payer amount False"

section \<open>The policy of a trade\<close>

datatype ata_kind = KindMeme | KindWsol | KindQuote

record touched_atas =
  ta_meme_mint :: "pubkey option"
  ta_meme_token_program :: "pubkey option"
  ta_quote_mint :: "pubkey option"
  ta_quote_token_program :: "pubkey option"
  ta_wsol :: bool

definition no_touched :: touched_atas where
  "no_touched = \<lparr>ta_meme_mint = None, ta_meme_token_program = None, ta_quote_mint = None,
     ta_quote_token_program = None, ta_wsol = False\<rparr>"

definition touch_meme :: "pubkey \<Rightarrow> pubkey \<Rightarrow> touched_atas \<Rightarrow> touched_atas" where
  "touch_meme mint tp t = t\<lparr>ta_meme_mint := Some mint, ta_meme_token_program := Some tp\<rparr>"

definition touch_quote :: "pubkey \<Rightarrow> pubkey \<Rightarrow> touched_atas \<Rightarrow> touched_atas" where
  "touch_quote mint tp t = (if mint = WSOL_MINT then t\<lparr>ta_wsol := True\<rparr>
     else t\<lparr>ta_quote_mint := Some mint, ta_quote_token_program := Some tp\<rparr>)"

definition touch_wsol :: "touched_atas \<Rightarrow> touched_atas" where
  "touch_wsol t = t\<lparr>ta_wsol := True\<rparr>"

record ata_policy =
  create_meme :: bool
  create_wsol :: bool
  create_quote :: bool
  close_wsol :: bool
  close_meme :: bool
  close_quote :: bool

definition policy_default :: ata_policy where
  "policy_default = \<lparr>create_meme = False, create_wsol = False, create_quote = False,
     close_wsol = False, close_meme = False, close_quote = False\<rparr>"

definition policy_none :: ata_policy where "policy_none = policy_default"
definition policy_for_buy :: ata_policy where "policy_for_buy = policy_default\<lparr>create_meme := True\<rparr>"
definition policy_for_sell :: ata_policy where "policy_for_sell = policy_default"

definition create_all_in_trade :: ata_policy where
  "create_all_in_trade =
     policy_default\<lparr>create_meme := True, create_wsol := True, create_quote := True\<rparr>"

fun allows :: "ata_policy \<Rightarrow> ata_kind \<Rightarrow> bool" where
  "allows p KindMeme = create_meme p"
| "allows p KindWsol = create_wsol p"
| "allows p KindQuote = create_quote p"

text \<open>\<open>if let (Some(mint), Some(tp)) = ..\<close>\<close>

definition close_touched ::
  "'z pda_scheme \<Rightarrow> pubkey \<Rightarrow> pubkey option \<Rightarrow> pubkey option \<Rightarrow> instruction list" where
  "close_touched R own mint tp =
     (case (mint, tp) of (Some m, Some t) \<Rightarrow> [close_ata R own m t own] | _ \<Rightarrow> [])"

definition build_cleanup :: "'z pda_scheme \<Rightarrow> ata_policy \<Rightarrow> pubkey \<Rightarrow> touched_atas \<Rightarrow> instruction list" where
  "build_cleanup R p own t =
     (if close_wsol p \<and> ta_wsol t then [close_wsol_ata R own] else [])
     @ (if close_quote p then close_touched R own (ta_quote_mint t) (ta_quote_token_program t) else [])
     @ (if close_meme p then close_touched R own (ta_meme_mint t) (ta_meme_token_program t) else [])"

section \<open>Administration\<close>

definition SDK_CONFIG_SEED :: bytes where "SDK_CONFIG_SEED = ascii ''config''"

definition sdk_config_pda :: "'z pda_scheme \<Rightarrow> pubkey \<Rightarrow> pubkey \<times> u8" where
  "sdk_config_pda R program_id = find_pda R [SDK_CONFIG_SEED] program_id"

definition SDK_TAG_INITIALIZE :: u8 where "SDK_TAG_INITIALIZE = 0"
definition SDK_TAG_UPDATE_CONFIG :: u8 where "SDK_TAG_UPDATE_CONFIG = 1"

definition initialize_config :: "'z pda_scheme \<Rightarrow> pubkey \<Rightarrow> pubkey \<Rightarrow> pubkey \<Rightarrow> u16 \<Rightarrow> instruction" where
  "initialize_config R program_id auth recipient bps =
     (case sdk_config_pda R program_id of (config, bmp) \<Rightarrow>
       \<lparr>ix_program_id = program_id,
        ix_accounts = [meta_new auth True, meta_new config False, meta_ro recipient False,
          meta_ro SYSTEM_PROGRAM False],
        ix_data = [SDK_TAG_INITIALIZE] @ u16_bytes bps @ [bmp]\<rparr>)"

definition update_config_ix ::
  "'z pda_scheme \<Rightarrow> pubkey \<Rightarrow> pubkey \<Rightarrow> u16 \<Rightarrow> bool \<Rightarrow> pubkey option \<Rightarrow> instruction" where
  "update_config_ix R program_id auth bps pause new_recipient =
     (case sdk_config_pda R program_id of (config, _) \<Rightarrow>
       \<lparr>ix_program_id = program_id,
        ix_accounts = [meta_ro auth True, meta_new config False]
          @ (case new_recipient of Some r \<Rightarrow> [meta_ro r False] | None \<Rightarrow> []),
        ix_data = [SDK_TAG_UPDATE_CONFIG] @ u16_bytes bps @ [of_bool pause]
          @ [of_bool (new_recipient \<noteq> None)]\<rparr>)"

end
