(* ===== verification/Sdk_Legs.thy ===== *)
theory Sdk_Legs
  imports Sdk_Ata
begin

text \<open>
  The DEX legs of \<open>legs.rs\<close>: for every venue the program id, the account metas in the order
  of the venue's interface and the instruction data. A fixed-size buffer filled field by
  field is the concatenation of its fields. Error messages that interpolate keys or counts
  keep their constant part.
\<close>

definition SDK_MAX_LEG_ACCOUNTS :: nat where "SDK_MAX_LEG_ACCOUNTS = 64"

record leg =
  leg_program :: pubkey
  leg_accounts :: "account_view list"
  leg_data :: bytes

section \<open>Checks and encodings\<close>

definition ensure_leg_account_budget :: "nat \<Rightarrow> sdk_error + unit" where
  "ensure_leg_account_budget n =
     (if n = 0 \<or> n > SDK_MAX_LEG_ACCOUNTS then Err ''leg account count exceeds router MAX_LEG_ACCOUNTS''
      else Ok ())"

definition require_token_programs :: "pubkey list \<Rightarrow> string \<Rightarrow> sdk_error + unit" where
  "require_token_programs programs dex =
     (if list_ex (\<lambda>p. p \<noteq> TOKEN_PROGRAM \<and> p \<noteq> TOKEN_2022_PROGRAM) programs
      then Err (dex @ '' mint token program is missing or unsupported; supply actual mint owners'')
      else Ok ())"

fun require_mint_programs :: "(pubkey \<times> pubkey) list \<Rightarrow> string \<Rightarrow> sdk_error + unit" where
  "require_mint_programs [] dex = Ok ()"
| "require_mint_programs ((mint, program) # rest) dex =
     bind_r (require_token_programs [program] dex) (\<lambda>_.
       if mint = WSOL_MINT \<and> program \<noteq> TOKEN_PROGRAM
       then Err (dex @ '' canonical WSOL mint requires classic WSOL token program'')
       else require_mint_programs rest dex)"

definition require_array_addresses :: "pubkey list \<Rightarrow> string \<Rightarrow> sdk_error + unit" where
  "require_array_addresses addresses dex =
     (if list_ex (\<lambda>k. k = 0) addresses
      then Err (dex @ '' snapshot has a missing liquidity array address'') else Ok ())"

definition encode_u64_triple :: "bytes \<Rightarrow> u64 \<Rightarrow> u64 \<Rightarrow> u64 \<Rightarrow> bytes" where
  "encode_u64_triple disc a b c = disc @ u64_bytes a @ u64_bytes b @ u64_bytes c"

definition encode_u64_pair :: "bytes \<Rightarrow> u64 \<Rightarrow> u64 \<Rightarrow> bytes" where
  "encode_u64_pair disc a b = disc @ u64_bytes a @ u64_bytes b"

section \<open>LaunchLab\<close>

definition launchlab_buy_leg ::
  "pubkey \<Rightarrow> launchlab_pool \<Rightarrow> u64 \<Rightarrow> u64 \<Rightarrow> pubkey \<Rightarrow> pubkey \<Rightarrow> leg" where
  "launchlab_buy_leg usr p amount min_out user_base_ata user_quote_ata =
     \<lparr>leg_program = LAUNCHLAB_PROGRAM,
      leg_accounts = [meta_new usr True, META LAUNCHLAB_AUTHORITY, meta_ro (ll_global_config p) False,
        meta_ro (ll_platform_config p) False, meta_new (ll_pool_state p) False,
        meta_new user_base_ata False, meta_new user_quote_ata False,
        meta_new (ll_base_vault p) False, meta_new (ll_quote_vault p) False,
        meta_ro (ll_base_mint p) False, meta_ro (ll_quote_mint p) False,
        meta_ro (ll_base_token_program p) False, meta_ro (ll_quote_token_program p) False,
        META LAUNCHLAB_EVENT_AUTHORITY, META LAUNCHLAB_PROGRAM, META SYSTEM_PROGRAM,
        meta_new (ll_platform_associated_account p) False,
        meta_new (ll_creator_associated_account p) False],
      leg_data = encode_u64_triple BUY_EXACT_IN_LAUNCHLAB amount min_out 0\<rparr>"

definition launchlab_sell_leg ::
  "pubkey \<Rightarrow> launchlab_pool \<Rightarrow> u64 \<Rightarrow> u64 \<Rightarrow> pubkey \<Rightarrow> pubkey \<Rightarrow> leg" where
  "launchlab_sell_leg usr p amount min_out user_base_ata user_quote_ata =
     \<lparr>leg_program = LAUNCHLAB_PROGRAM,
      leg_accounts = [meta_new usr True, META LAUNCHLAB_AUTHORITY, meta_ro (ll_global_config p) False,
        meta_ro (ll_platform_config p) False, meta_new (ll_pool_state p) False,
        meta_new user_base_ata False, meta_new user_quote_ata False,
        meta_new (ll_base_vault p) False, meta_new (ll_quote_vault p) False,
        meta_ro (ll_base_mint p) False, meta_ro (ll_quote_mint p) False,
        meta_ro (ll_base_token_program p) False, meta_ro (ll_quote_token_program p) False,
        META LAUNCHLAB_EVENT_AUTHORITY, META LAUNCHLAB_PROGRAM, META SYSTEM_PROGRAM,
        meta_new (ll_platform_associated_account p) False,
        meta_new (ll_creator_associated_account p) False],
      leg_data = encode_u64_triple SELL_EXACT_IN_LAUNCHLAB amount min_out 0\<rparr>"

section \<open>Raydium CPMM\<close>

text \<open>Input vault, output vault, input token program and output token program.\<close>

definition cpmm_leg_sides ::
  "cpmm_pool \<Rightarrow> pubkey \<Rightarrow> pubkey \<Rightarrow> sdk_error + (pubkey \<times> pubkey \<times> pubkey \<times> pubkey)" where
  "cpmm_leg_sides p im om =
     (if im = cp_base_mint p \<and> om = cp_quote_mint p
      then Ok (cp_base_vault p, cp_quote_vault p, cp_base_token_program p, cp_quote_token_program p)
      else if im = cp_quote_mint p \<and> om = cp_base_mint p
      then Ok (cp_quote_vault p, cp_base_vault p, cp_quote_token_program p, cp_base_token_program p)
      else Err ''cpmm swap mints do not match pool'')"

definition cpmm_leg ::
  "pubkey \<Rightarrow> cpmm_pool \<Rightarrow> bytes \<Rightarrow> pubkey \<Rightarrow> pubkey \<Rightarrow> pubkey \<Rightarrow> pubkey \<Rightarrow> sdk_error + leg" where
  "cpmm_leg usr p d im om user_input_ata user_output_ata =
     bind_r (require_mint_programs [(cp_base_mint p, cp_base_token_program p),
       (cp_quote_mint p, cp_quote_token_program p)] ''Raydium CPMM'') (\<lambda>_.
     bind_r (cpmm_leg_sides p im om) (\<lambda>(input_vault, output_vault, input_tp, output_tp). Ok
       \<lparr>leg_program = RAYDIUM_CPMM_PROGRAM,
        leg_accounts = [meta_ro usr True, META RAYDIUM_CPMM_AUTHORITY, meta_ro (cp_amm_config p) False,
          meta_new (cp_pool_state p) False, meta_new user_input_ata False,
          meta_new user_output_ata False, meta_new input_vault False, meta_new output_vault False,
          meta_ro input_tp False, meta_ro output_tp False, meta_ro im False, meta_ro om False,
          meta_new (cp_observation_state p) False],
        leg_data = d\<rparr>))"

definition cpmm_swap_leg ::
  "pubkey \<Rightarrow> cpmm_pool \<Rightarrow> u64 \<Rightarrow> u64 \<Rightarrow> pubkey \<Rightarrow> pubkey \<Rightarrow> pubkey \<Rightarrow> pubkey \<Rightarrow> sdk_error + leg" where
  "cpmm_swap_leg usr p amount min_out im om user_input_ata user_output_ata =
     cpmm_leg usr p (encode_u64_pair SDK_CPMM_SWAP_BASE_IN amount min_out) im om
       user_input_ata user_output_ata"

definition cpmm_swap_exact_out_leg ::
  "pubkey \<Rightarrow> cpmm_pool \<Rightarrow> u64 \<Rightarrow> u64 \<Rightarrow> pubkey \<Rightarrow> pubkey \<Rightarrow> pubkey \<Rightarrow> pubkey \<Rightarrow> sdk_error + leg" where
  "cpmm_swap_exact_out_leg usr p max_amount_in amount_out im om user_input_ata user_output_ata =
     cpmm_leg usr p (encode_u64_pair CPMM_SWAP_BASE_OUT max_amount_in amount_out) im om
       user_input_ata user_output_ata"

section \<open>Pump.fun\<close>

text \<open>Addresses a snapshot may leave at the default key.\<close>

definition pumpfun_curve_v2 :: "'z pda_scheme \<Rightarrow> pumpfun_pool \<Rightarrow> pubkey" where
  "pumpfun_curve_v2 R p = (if pf_bonding_curve_v2 p = 0 then pumpfun_bonding_curve_v2 R (pf_mint p)
     else pf_bonding_curve_v2 p)"

definition pumpfun_buyback :: "pumpfun_pool \<Rightarrow> pubkey" where
  "pumpfun_buyback p = (if pf_buyback_fee_recipient p = 0 then PUMPFUN_BUYBACK_FEE_RECIPIENT
     else pf_buyback_fee_recipient p)"

definition pumpfun_buy_leg ::
  "'z pda_scheme \<Rightarrow> pubkey \<Rightarrow> pumpfun_pool \<Rightarrow> u64 \<Rightarrow> u64 \<Rightarrow> pubkey \<Rightarrow> leg" where
  "pumpfun_buy_leg R usr p lamports_in min_tokens_out user_token_ata =
     \<lparr>leg_program = PUMPFUN_PROGRAM,
      leg_accounts = [meta_ro (pf_global p) False, meta_new (pf_fee_recipient p) False,
        meta_ro (pf_mint p) False, meta_new (pf_bonding_curve p) False,
        meta_new (pf_associated_bonding_curve p) False, meta_new user_token_ata False,
        meta_new usr True, META SYSTEM_PROGRAM, meta_ro (pf_mint_token_program p) False,
        meta_new (pf_creator_vault p) False, meta_ro (pf_event_authority p) False,
        META PUMPFUN_PROGRAM, meta_ro (pf_global_volume_accumulator p) False,
        meta_new (pumpfun_user_volume_accumulator R usr) False, meta_ro (pf_fee_config p) False,
        meta_ro (pf_fee_program p) False, meta_ro (pumpfun_curve_v2 R p) False,
        meta_new (pumpfun_buyback p) False],
      leg_data = PUMPFUN_BUY_EXACT_SOL_IN @ u64_bytes lamports_in @ u64_bytes min_tokens_out
        @ [track_volume_byte p, 0]\<rparr>"

definition pumpfun_sell_leg ::
  "'z pda_scheme \<Rightarrow> pubkey \<Rightarrow> pumpfun_pool \<Rightarrow> u64 \<Rightarrow> u64 \<Rightarrow> pubkey \<Rightarrow> leg" where
  "pumpfun_sell_leg R usr p token_in min_sol_out user_token_ata =
     \<lparr>leg_program = PUMPFUN_PROGRAM,
      leg_accounts = [meta_ro (pf_global p) False, meta_new (pf_fee_recipient p) False,
        meta_ro (pf_mint p) False, meta_new (pf_bonding_curve p) False,
        meta_new (pf_associated_bonding_curve p) False, meta_new user_token_ata False,
        meta_new usr True, META SYSTEM_PROGRAM, meta_new (pf_creator_vault p) False,
        meta_ro (pf_mint_token_program p) False, meta_ro (pf_event_authority p) False,
        META PUMPFUN_PROGRAM, meta_ro (pf_fee_config p) False, meta_ro (pf_fee_program p) False]
        @ (if pf_is_cashback_coin p then [meta_new (pumpfun_user_volume_accumulator R usr) False] else [])
        @ [meta_ro (pumpfun_curve_v2 R p) False, meta_new (pumpfun_buyback p) False],
      leg_data = encode_u64_pair PUMPFUN_SELL token_in min_sol_out\<rparr>"

definition pumpfun_v2_accounts ::
  "'z pda_scheme \<Rightarrow> pubkey \<Rightarrow> pumpfun_pool \<Rightarrow> bool \<Rightarrow> account_view list" where
  "pumpfun_v2_accounts R usr p is_buy =
     (let buyback = pumpfun_buyback p;
          quote_ata = (\<lambda>own. ata R own (pf_quote_mint p) (pf_quote_token_program p));
          base_user = ata R usr (pf_mint p) (pf_mint_token_program p);
          sharing_config = fst (find_pda R [ascii ''sharing-config'', key_bytes (pf_mint p)]
            (pf_fee_program p));
          uva = pumpfun_user_volume_accumulator R usr
      in [meta_ro (pf_global p) False, meta_ro (pf_mint p) False, meta_ro (pf_quote_mint p) False,
          meta_ro (pf_mint_token_program p) False, meta_ro (pf_quote_token_program p) False,
          META ASSOCIATED_TOKEN_PROGRAM, meta_new (pf_fee_recipient p) False,
          meta_new (quote_ata (pf_fee_recipient p)) False, meta_new buyback False,
          meta_new (quote_ata buyback) False, meta_new (pf_bonding_curve p) False,
          meta_new (pf_associated_bonding_curve p) False,
          meta_new (quote_ata (pf_bonding_curve p)) False, meta_new usr True,
          meta_new base_user False, meta_new (quote_ata usr) False,
          meta_new (pf_creator_vault p) False, meta_new (quote_ata (pf_creator_vault p)) False,
          meta_ro sharing_config False]
         @ (if is_buy then [meta_ro (pf_global_volume_accumulator p) False] else [])
         @ [meta_new uva False, meta_new (quote_ata uva) False, meta_ro (pf_fee_config p) False,
            meta_ro (pf_fee_program p) False, META SYSTEM_PROGRAM, meta_ro (pf_event_authority p) False,
            META PUMPFUN_PROGRAM])"

definition pumpfun_buy_v2_leg :: "'z pda_scheme \<Rightarrow> pubkey \<Rightarrow> pumpfun_pool \<Rightarrow> u64 \<Rightarrow> u64 \<Rightarrow> leg" where
  "pumpfun_buy_v2_leg R usr p quote_in min_tokens_out =
     \<lparr>leg_program = PUMPFUN_PROGRAM, leg_accounts = pumpfun_v2_accounts R usr p True,
      leg_data = encode_u64_pair PUMPFUN_BUY_EXACT_QUOTE_IN_V2 quote_in min_tokens_out @ [0]\<rparr>"

definition pumpfun_sell_v2_leg :: "'z pda_scheme \<Rightarrow> pubkey \<Rightarrow> pumpfun_pool \<Rightarrow> u64 \<Rightarrow> u64 \<Rightarrow> leg" where
  "pumpfun_sell_v2_leg R usr p token_in min_quote_out =
     \<lparr>leg_program = PUMPFUN_PROGRAM, leg_accounts = pumpfun_v2_accounts R usr p False,
      leg_data = encode_u64_pair PUMPFUN_SELL_V2 token_in min_quote_out\<rparr>"

section \<open>PumpSwap\<close>

definition pumpswap_pda :: "sdk_env \<Rightarrow> bytes list \<Rightarrow> string \<Rightarrow> sdk_error + pubkey" where
  "pumpswap_pda R seeds e = ok_or (map_option fst (try_find_pda R seeds PUMPSWAP_PROGRAM)) e"

definition pumpswap_tail ::
  "sdk_env \<Rightarrow> pumpswap_pool \<Rightarrow> bool \<Rightarrow> pubkey \<Rightarrow> pubkey option \<Rightarrow> account_view list" where
  "pumpswap_tail R p is_buy accumulator pool_v2 =
     (let quote_ata = (\<lambda>own. ata R own (ps_quote_mint p) (ps_quote_token_program p)) in
      (if is_buy then [META PUMPSWAP_GLOBAL_VOLUME_ACCUMULATOR, meta_new accumulator False] else [])
      @ [META PUMPSWAP_FEE_CONFIG, META PUMPSWAP_FEE_PROGRAM]
      @ (if ps_is_cashback_coin p
         then [meta_new (quote_ata accumulator) False]
           @ (if \<not> is_buy then [meta_new accumulator False] else [])
         else [])
      @ (case pool_v2 of Some k \<Rightarrow> [meta_ro k False] | None \<Rightarrow> [])
      @ [meta_ro (ps_buyback_fee_recipient p) False,
         meta_new (quote_ata (ps_buyback_fee_recipient p)) False])"

definition pumpswap_head :: "sdk_env \<Rightarrow> pubkey \<Rightarrow> pumpswap_pool \<Rightarrow> account_view list" where
  "pumpswap_head R usr p =
     (let protocol_fee = ps_protocol_fee_recipient p
      in [meta_new (ps_pool p) False, meta_new usr True, META PUMPSWAP_GLOBAL,
          meta_ro (ps_base_mint p) False, meta_ro (ps_quote_mint p) False,
          meta_new (ata R usr (ps_base_mint p) (ps_base_token_program p)) False,
          meta_new (ata R usr (ps_quote_mint p) (ps_quote_token_program p)) False,
          meta_new (ps_pool_base_token_account p) False,
          meta_new (ps_pool_quote_token_account p) False, meta_ro protocol_fee False,
          meta_new (ata R protocol_fee (ps_quote_mint p) (ps_quote_token_program p)) False,
          meta_ro (ps_base_token_program p) False, meta_ro (ps_quote_token_program p) False,
          META SYSTEM_PROGRAM, META ASSOCIATED_TOKEN_PROGRAM, META PUMPSWAP_EVENT_AUTHORITY,
          META PUMPSWAP_PROGRAM, meta_new (ps_coin_creator_vault_ata p) False,
          meta_ro (ps_coin_creator_vault_authority p) False])"

definition pumpswap_accounts ::
  "sdk_env \<Rightarrow> pubkey \<Rightarrow> pumpswap_pool \<Rightarrow> bool \<Rightarrow> sdk_error + account_view list" where
  "pumpswap_accounts R usr p is_buy =
     bind_r (require_mint_programs [(ps_base_mint p, ps_base_token_program p),
       (ps_quote_mint p, ps_quote_token_program p)] ''PumpSwap'') (\<lambda>_.
     bind_r (pumpswap_params_valid R p) (\<lambda>_.
     bind_r (pumpswap_pda R [ascii ''user_volume_accumulator'', key_bytes usr]
       ''PumpSwap user volume accumulator derivation failed'') (\<lambda>accumulator.
     bind_r (if ps_coin_creator p \<noteq> 0
       then bind_r (pumpswap_pda R [ascii ''pool-v2'', key_bytes (ps_base_mint p)]
         ''PumpSwap pool-v2 derivation failed'') (\<lambda>k. Ok (Some k))
       else Ok None) (\<lambda>pool_v2.
       let accounts = pumpswap_head R usr p @ pumpswap_tail R p is_buy accumulator pool_v2
       in bind_r (ensure_leg_account_budget (length accounts)) (\<lambda>_. Ok accounts)))))"

definition pumpswap_leg :: "sdk_env \<Rightarrow> pubkey \<Rightarrow> pumpswap_pool \<Rightarrow> bool \<Rightarrow> bytes \<Rightarrow> sdk_error + leg" where
  "pumpswap_leg R usr p is_buy d = bind_r (pumpswap_accounts R usr p is_buy) (\<lambda>accounts.
     Ok \<lparr>leg_program = PUMPSWAP_PROGRAM, leg_accounts = accounts, leg_data = d\<rparr>)"

definition pumpswap_buy_leg :: "sdk_env \<Rightarrow> pubkey \<Rightarrow> pumpswap_pool \<Rightarrow> u64 \<Rightarrow> u64 \<Rightarrow> sdk_error + leg" where
  "pumpswap_buy_leg R usr p quote_in min_base_out = pumpswap_leg R usr p True
     (SDK_PUMPSWAP_BUY_EXACT_QUOTE_IN @ u64_bytes quote_in @ u64_bytes min_base_out @ [1])"

definition pumpswap_buy_exact_out_leg ::
  "sdk_env \<Rightarrow> pubkey \<Rightarrow> pumpswap_pool \<Rightarrow> u64 \<Rightarrow> u64 \<Rightarrow> sdk_error + leg" where
  "pumpswap_buy_exact_out_leg R usr p base_amount_out max_quote_in = pumpswap_leg R usr p True
     (PUMPSWAP_BUY @ u64_bytes base_amount_out @ u64_bytes max_quote_in @ [1])"

definition pumpswap_sell_leg :: "sdk_env \<Rightarrow> pubkey \<Rightarrow> pumpswap_pool \<Rightarrow> u64 \<Rightarrow> u64 \<Rightarrow> sdk_error + leg" where
  "pumpswap_sell_leg R usr p base_in min_quote_out = pumpswap_leg R usr p False
     (encode_u64_pair SDK_PUMPSWAP_SELL base_in min_quote_out)"

end
