(* ===== verification/Sdk_Route_Ix.thy ===== *)
theory Sdk_Route_Ix
  imports Sdk_Legs
begin

unbundle bit_operations_syntax

text \<open>
  The route instruction of \<open>route_ix.rs\<close>: the SDK's copy of the dynamic leg layouts, its
  checks before it builds a dynamic route, and the encoders of the fixed, the two-leg and
  the three-leg dynamic route.
\<close>

definition TAG_ROUTE_IX :: u8 where "TAG_ROUTE_IX = 2"
definition TAG_PREPARE_PUMPFUN_IX :: u8 where "TAG_PREPARE_PUMPFUN_IX = 7"
definition TAG_ROUTE_DYNAMIC_IX :: u8 where "TAG_ROUTE_DYNAMIC_IX = 5"
definition TAG_ROUTE_DYNAMIC_THREE_IX :: u8 where "TAG_ROUTE_DYNAMIC_THREE_IX = 6"
definition FEE_ASSET_SOL :: u8 where "FEE_ASSET_SOL = 0"
definition FEE_ASSET_TOKEN :: u8 where "FEE_ASSET_TOKEN = 1"
definition FEE_ASSET_EXACT_OUT :: u8 where "FEE_ASSET_EXACT_OUT = 128"

section \<open>Layouts of dynamic legs\<close>

record ix_layout =
  xl_input :: nat
  xl_output :: nat
  xl_signer :: nat
  xl_offset :: nat
  xl_minimum :: nat

definition mk_ix_layout :: "nat \<Rightarrow> nat \<Rightarrow> nat \<Rightarrow> nat \<Rightarrow> nat \<Rightarrow> ix_layout" where
  "mk_ix_layout i out sg off n =
     \<lparr>xl_input = i, xl_output = out, xl_signer = sg, xl_offset = off, xl_minimum = n\<rparr>"

definition whirlpool_dynamic_accounts :: "bytes \<Rightarrow> nat option" where
  "whirlpool_dynamic_accounts d =
     (if length d = 43 \<and> d ! 42 = 0 then Some 15
      else if length d = 49 \<and> slice 42 48 d = [1, 1, 0, 0, 0, 6] \<and> 1 \<le> d ! 48 \<and> d ! 48 \<le> 3
      then Some (15 + unat (d ! 48)) else None)"

definition dynamic_leg_layout :: "leg \<Rightarrow> sdk_error + ix_layout" where
  "dynamic_leg_layout l =
     (let d = leg_data l; pid = leg_program l in
      if pid = LAUNCHLAB_PROGRAM \<and> length d = 32 \<and> slice 0 8 d = BUY_EXACT_IN_LAUNCHLAB
        \<and> slice 24 32 d = replicate 8 0
      then Ok (mk_ix_layout 6 5 0 8 13)
      else if pid = RAYDIUM_CPMM_PROGRAM \<and> length d = 24 \<and> slice 0 8 d = SDK_CPMM_SWAP_BASE_IN
      then Ok (mk_ix_layout 4 5 0 8 12)
      else if pid = PUMPSWAP_PROGRAM \<and> length d = 25
        \<and> slice 0 8 d = SDK_PUMPSWAP_BUY_EXACT_QUOTE_IN \<and> d ! 24 \<le> 1
      then Ok (mk_ix_layout 6 5 1 8 13)
      else if pid = PUMPSWAP_PROGRAM \<and> length d = 24 \<and> slice 0 8 d = SDK_PUMPSWAP_SELL
      then Ok (mk_ix_layout 5 6 1 8 13)
      else if pid = RAYDIUM_AMM_V4_PROGRAM \<and> length d = 17 \<and> d ! 0 = RAYDIUM_AMM_V4_SWAP_BASE_IN_V2
      then Ok (mk_ix_layout 5 6 7 1 8)
      else if pid = RAYDIUM_CLMM_PROGRAM \<and> length d = 41 \<and> slice 0 8 d = SDK_CLMM_SWAP_V2 \<and> d ! 40 = 1
      then Ok (mk_ix_layout 3 4 0 8 13)
      else if pid = METEORA_DLMM_PROGRAM \<and> length d = 28 \<and> slice 0 8 d = SDK_METEORA_DLMM_SWAP2
        \<and> slice 24 28 d = replicate 4 0
      then Ok (mk_ix_layout 4 5 10 8 13)
      else if pid = METEORA_DAMM_V2_PROGRAM \<and> length d = 25 \<and> slice 0 8 d = METEORA_DAMM_V2_SWAP2
        \<and> d ! 24 = METEORA_DAMM_V2_EXACT_IN
      then Ok (mk_ix_layout 2 3 8 8 11)
      else case whirlpool_dynamic_accounts d of
        Some n \<Rightarrow>
          if pid = ORCA_WHIRLPOOL_PROGRAM \<and> slice 0 8 d = WHIRLPOOL_SWAP_V2 \<and> d ! 40 = 1 \<and> d ! 41 \<le> 1
          then (if d ! 41 = 1 then Ok (mk_ix_layout 7 9 3 8 n) else Ok (mk_ix_layout 9 7 3 8 n))
          else Err ''dynamic leg must be a supported exact-input swap''
      | None \<Rightarrow> Err ''dynamic leg must be a supported exact-input swap'')"

definition validate_dynamic_leg ::
  "leg \<Rightarrow> pubkey \<Rightarrow> pubkey \<Rightarrow> pubkey \<Rightarrow> bool \<Rightarrow> bool \<Rightarrow> sdk_error + unit" where
  "validate_dynamic_leg l payer inp out require_zero_amount allow_launchlab =
     (if \<not> allow_launchlab \<and> leg_program l = LAUNCHLAB_PROGRAM
      then Err ''LaunchLab is only supported as the dynamic final leg''
      else bind_r (dynamic_leg_layout l) (\<lambda>y.
        let accs = leg_accounts l in
        if length accs < xl_minimum y
          \<or> address (accs ! xl_signer y) \<noteq> payer
          \<or> \<not> is_signer (accs ! xl_signer y)
          \<or> address (accs ! xl_input y) \<noteq> inp
          \<or> \<not> is_writable (accs ! xl_input y)
          \<or> address (accs ! xl_output y) \<noteq> out
          \<or> \<not> is_writable (accs ! xl_output y)
          \<or> (require_zero_amount \<and> slice (xl_offset y) (xl_offset y + 8) (leg_data l) \<noteq> replicate 8 0)
        then Err ''dynamic leg accounts or input amount do not match the route''
        else Ok ()))"

section \<open>Accounts and frames\<close>

record ix_accounts_in =
  ra_payer :: pubkey
  ra_fee_destination :: pubkey
  ra_fee_source :: pubkey
  ra_output_token_account :: pubkey
  ra_fee_program :: pubkey
  ra_fee_mint :: pubkey

text \<open>The six fixed accounts of every route.\<close>

definition fixed_metas :: "ix_accounts_in \<Rightarrow> pubkey \<Rightarrow> account_view list" where
  "fixed_metas a config = [meta_new (ra_payer a) True, meta_ro config False,
     meta_new (ra_fee_destination a) False, meta_new (ra_fee_source a) False,
     meta_new (ra_output_token_account a) False, meta_ro (ra_fee_program a) False]"

text \<open>\<open>accounts.len() as u8\<close> and \<open>data.len() as u16\<close> truncate.\<close>

definition leg_frame_bytes :: "leg \<Rightarrow> bytes" where
  "leg_frame_bytes l = key_bytes (leg_program l) @ [of_nat (length (leg_accounts l))]
     @ u16_bytes (of_nat (length (leg_data l))) @ leg_data l"

text \<open>Program metas: one per program id not yet in the \<open>seen\<close> buffer, which has a fixed
  capacity; a program that no longer fits is repeated for each of its legs.\<close>

fun program_metas :: "nat \<Rightarrow> pubkey list \<Rightarrow> leg list \<Rightarrow> account_view list" where
  "program_metas capacity seen [] = []"
| "program_metas capacity seen (l # ls) =
     (if leg_program l \<in> set seen then program_metas capacity seen ls
      else meta_ro (leg_program l) False
        # program_metas capacity (if length seen < capacity then seen @ [leg_program l] else seen) ls)"

definition append_fee_mint :: "account_view list \<Rightarrow> ix_accounts_in \<Rightarrow> account_view list" where
  "append_fee_mint metas a =
     (if ra_fee_program a = TOKEN_2022_PROGRAM \<and> \<not> list_ex (\<lambda>m. address m = ra_fee_mint a) metas
      then metas @ [meta_ro (ra_fee_mint a) False] else metas)"

section \<open>Routes with fixed inputs\<close>

definition build_route_instruction_ex ::
  "'z pda_scheme \<Rightarrow> pubkey \<Rightarrow> ix_accounts_in \<Rightarrow> u64 \<Rightarrow> u64 \<Rightarrow> u8 \<Rightarrow> bool \<Rightarrow> pubkey \<Rightarrow> leg list
   \<Rightarrow> instruction" where
  "build_route_instruction_ex R program_id a amount min_out asset exact expected_mint legs =
     (let config = fst (sdk_config_pda R program_id);
          asset_byte = (if exact then (asset AND 1) OR FEE_ASSET_EXACT_OUT else asset AND 1)
      in \<lparr>ix_program_id = program_id,
          ix_accounts = append_fee_mint (fixed_metas a config @ concat (map leg_accounts legs)
            @ program_metas 4 [] legs) a,
          ix_data = [TAG_ROUTE_IX] @ u64_bytes amount @ u64_bytes min_out
            @ [asset_byte, of_nat (length legs)] @ key_bytes expected_mint
            @ concat (map leg_frame_bytes legs)\<rparr>)"

definition build_route_instruction ::
  "'z pda_scheme \<Rightarrow> pubkey \<Rightarrow> ix_accounts_in \<Rightarrow> u64 \<Rightarrow> u64 \<Rightarrow> u8 \<Rightarrow> pubkey \<Rightarrow> leg list \<Rightarrow> instruction" where
  "build_route_instruction R program_id a amount min_out asset expected_mint legs =
     build_route_instruction_ex R program_id a amount min_out asset False expected_mint legs"

section \<open>Dynamic routes\<close>

definition writes_key :: "leg \<Rightarrow> pubkey \<Rightarrow> bool" where
  "writes_key l k = list_ex (\<lambda>m. address m = k \<and> is_writable m) (leg_accounts l)"

definition check_dynamic_route ::
  "ix_accounts_in \<Rightarrow> pubkey \<Rightarrow> u64 \<Rightarrow> u64 \<Rightarrow> u64 \<Rightarrow> pubkey \<Rightarrow> leg \<Rightarrow> leg \<Rightarrow> sdk_error + unit" where
  "check_dynamic_route a mid amount mid_min_out min_out expected_mint l1 l2 =
     (if amount = 0 \<or> mid_min_out = 0 \<or> min_out = 0
      then Err ''dynamic route amounts must be positive''
      else if expected_mint = SYSTEM_PROGRAM
      then Err ''dynamic route output must be a token mint; use WSOL for SOL settlement''
      else if mid = ra_fee_source a \<or> mid = ra_output_token_account a
      then Err ''intermediate token account must differ from source and output''
      else if \<not> writes_key l1 mid
      then Err ''first leg must write to the intermediate token account''
      else if leg_accounts l1 = [] \<or> length (leg_accounts l1) > 64 \<or> length (leg_accounts l2) > 64
      then Err ''dynamic route leg account count is invalid''
      else bind_r (validate_dynamic_leg l2 (ra_payer a) mid (ra_output_token_account a) False True)
        (\<lambda>_. if length (leg_data l1) > 65535 \<or> length (leg_data l2) > 65535
             then Err ''dynamic route leg instruction data is too long'' else Ok ()))"

definition build_dynamic_route_instruction ::
  "'z pda_scheme \<Rightarrow> pubkey \<Rightarrow> ix_accounts_in \<Rightarrow> pubkey \<Rightarrow> u64 \<Rightarrow> u64 \<Rightarrow> u64 \<Rightarrow> pubkey \<Rightarrow> leg \<Rightarrow> leg
   \<Rightarrow> sdk_error + instruction" where
  "build_dynamic_route_instruction R program_id a mid amount mid_min_out min_out expected_mint l1 l2 =
     bind_r (check_dynamic_route a mid amount mid_min_out min_out expected_mint l1 l2) (\<lambda>_.
       let config = fst (sdk_config_pda R program_id) in Ok
       \<lparr>ix_program_id = program_id,
        ix_accounts = append_fee_mint (fixed_metas a config @ [meta_new mid False]
          @ leg_accounts l1 @ leg_accounts l2 @ [meta_ro (leg_program l1) False]
          @ (if leg_program l2 \<noteq> leg_program l1 then [meta_ro (leg_program l2) False] else [])) a,
        ix_data = [TAG_ROUTE_DYNAMIC_IX] @ u64_bytes amount @ u64_bytes min_out
          @ [FEE_ASSET_TOKEN, 2] @ key_bytes expected_mint @ u64_bytes mid_min_out
          @ leg_frame_bytes l1 @ leg_frame_bytes l2\<rparr>)"

definition three_hop_leg_ok :: "leg \<Rightarrow> bool" where
  "three_hop_leg_ok l = (\<not> (leg_accounts l = [] \<or> length (leg_accounts l) > 64
     \<or> leg_data l = [] \<or> length (leg_data l) > 65535))"

definition check_three_hop ::
  "ix_accounts_in \<Rightarrow> pubkey \<Rightarrow> pubkey \<Rightarrow> u64 \<Rightarrow> u64 \<Rightarrow> u64 \<Rightarrow> u64 \<Rightarrow> pubkey \<Rightarrow> leg list
   \<Rightarrow> sdk_error + unit" where
  "check_three_hop a mid1 mid2 amount min1 min2 min_out expected_mint legs =
     (if amount = 0 \<or> min1 = 0 \<or> min2 = 0 \<or> min_out = 0
      then Err ''dynamic three-hop route amounts must be positive''
      else if expected_mint = SYSTEM_PROGRAM
      then Err ''dynamic route output must be a token mint; use WSOL for SOL settlement''
      else if mid1 = mid2 \<or> mid1 = ra_fee_source a \<or> mid1 = ra_output_token_account a
        \<or> mid2 = ra_fee_source a \<or> mid2 = ra_output_token_account a
      then Err ''dynamic intermediate token accounts must be distinct from source and output''
      else if \<not> list_all three_hop_leg_ok legs
      then Err ''dynamic three-hop leg account count or data length is invalid''
      else if \<not> writes_key (legs ! 0) mid1 \<or> writes_key (legs ! 0) mid2
      then Err ''first leg must write the first intermediate but not the second intermediate''
      else bind_r (validate_dynamic_leg (legs ! 1) (ra_payer a) mid1 mid2 True False) (\<lambda>_.
        validate_dynamic_leg (legs ! 2) (ra_payer a) mid2 (ra_output_token_account a) True True))"

definition build_three_hop_route_instruction ::
  "'z pda_scheme \<Rightarrow> pubkey \<Rightarrow> ix_accounts_in \<Rightarrow> pubkey \<Rightarrow> pubkey \<Rightarrow> u64 \<Rightarrow> u64 \<Rightarrow> u64 \<Rightarrow> u64 \<Rightarrow> pubkey
   \<Rightarrow> leg list \<Rightarrow> bool \<Rightarrow> sdk_error + instruction" where
  "build_three_hop_route_instruction R program_id a mid1 mid2 amount min1 min2 min_out expected_mint
       legs spend_actual_output =
     (if length legs \<noteq> 3 then Err ''three-hop route requires exactly three legs''
      else if \<not> spend_actual_output
      then Ok (build_route_instruction_ex R program_id a amount min_out FEE_ASSET_TOKEN False
        expected_mint legs)
      else bind_r (check_three_hop a mid1 mid2 amount min1 min2 min_out expected_mint legs) (\<lambda>_.
        let config = fst (sdk_config_pda R program_id) in Ok
        \<lparr>ix_program_id = program_id,
         ix_accounts = append_fee_mint (fixed_metas a config
           @ [meta_new mid1 False, meta_new mid2 False]
           @ concat (map leg_accounts legs) @ program_metas 3 [] legs) a,
         ix_data = [TAG_ROUTE_DYNAMIC_THREE_IX] @ u64_bytes amount @ u64_bytes min_out
           @ [FEE_ASSET_TOKEN, 3] @ key_bytes expected_mint @ u64_bytes min1 @ u64_bytes min2
           @ concat (map leg_frame_bytes legs)\<rparr>))"

definition sol_fee_program :: pubkey where "sol_fee_program = SYSTEM_PROGRAM"
definition spl_fee_program :: pubkey where "spl_fee_program = TOKEN_PROGRAM"

definition token_fee_program :: "pubkey \<Rightarrow> pubkey" where
  "token_fee_program tp = (if tp = TOKEN_2022_PROGRAM then TOKEN_2022_PROGRAM else TOKEN_PROGRAM)"

end
