(* ===== verification/Sdk_Agreement.thy ===== *)
theory Sdk_Agreement
  imports Route_Layout Sdk_Route_Ix
begin

text \<open>
  The SDK and the program declare the same program ids, discriminators, tags and seeds twice: the
  SDK in base 58, the program as byte arrays. Here they are shown equal, and with them the two
  tables of exact-input layouts.
\<close>

section \<open>Constants\<close>

lemmas key58_eval = pubkey58_def b58_number_def b58_digit_def Let_def to_le_numeral

lemma TOKEN_PROGRAM_agrees: "TOKEN_PROGRAM = TOKEN_PROGRAM_ID"
  unfolding TOKEN_PROGRAM_def TOKEN_PROGRAM_ID_def by (simp add: key58_eval)

lemma TOKEN_2022_PROGRAM_agrees: "TOKEN_2022_PROGRAM = TOKEN_2022_PROGRAM_ID"
  unfolding TOKEN_2022_PROGRAM_def TOKEN_2022_PROGRAM_ID_def by (simp add: key58_eval)

lemma SYSTEM_PROGRAM_agrees: "SYSTEM_PROGRAM = SYSTEM_PROGRAM_ID"
  unfolding SYSTEM_PROGRAM_def SYSTEM_PROGRAM_ID_def by (simp add: key58_eval key_of_def)

lemma LAUNCHLAB_PROGRAM_agrees: "LAUNCHLAB_PROGRAM = LAUNCHLAB_PROGRAM_ID"
  unfolding LAUNCHLAB_PROGRAM_def LAUNCHLAB_PROGRAM_ID_def by (simp add: key58_eval)

lemma RAYDIUM_CPMM_PROGRAM_agrees: "RAYDIUM_CPMM_PROGRAM = RAYDIUM_CPMM_PROGRAM_ID"
  unfolding RAYDIUM_CPMM_PROGRAM_def RAYDIUM_CPMM_PROGRAM_ID_def by (simp add: key58_eval)

lemma PUMPSWAP_PROGRAM_agrees: "PUMPSWAP_PROGRAM = PUMPSWAP_PROGRAM_ID"
  unfolding PUMPSWAP_PROGRAM_def PUMPSWAP_PROGRAM_ID_def by (simp add: key58_eval)

lemma RAYDIUM_AMM_V4_PROGRAM_agrees: "RAYDIUM_AMM_V4_PROGRAM = RAYDIUM_AMM_V4_PROGRAM_ID"
  unfolding RAYDIUM_AMM_V4_PROGRAM_def RAYDIUM_AMM_V4_PROGRAM_ID_def by (simp add: key58_eval)

lemma RAYDIUM_CLMM_PROGRAM_agrees: "RAYDIUM_CLMM_PROGRAM = RAYDIUM_CLMM_PROGRAM_ID"
  unfolding RAYDIUM_CLMM_PROGRAM_def RAYDIUM_CLMM_PROGRAM_ID_def by (simp add: key58_eval)

lemma METEORA_DLMM_PROGRAM_agrees: "METEORA_DLMM_PROGRAM = METEORA_DLMM_PROGRAM_ID"
  unfolding METEORA_DLMM_PROGRAM_def METEORA_DLMM_PROGRAM_ID_def by (simp add: key58_eval)

lemma METEORA_DAMM_V2_PROGRAM_agrees: "METEORA_DAMM_V2_PROGRAM = METEORA_DAMM_V2_PROGRAM_ID"
  unfolding METEORA_DAMM_V2_PROGRAM_def METEORA_DAMM_V2_PROGRAM_ID_def by (simp add: key58_eval)

lemma ORCA_WHIRLPOOL_PROGRAM_agrees: "ORCA_WHIRLPOOL_PROGRAM = ORCA_WHIRLPOOL_PROGRAM_ID"
  unfolding ORCA_WHIRLPOOL_PROGRAM_def ORCA_WHIRLPOOL_PROGRAM_ID_def by (simp add: key58_eval)

lemmas program_agrees = TOKEN_PROGRAM_agrees TOKEN_2022_PROGRAM_agrees SYSTEM_PROGRAM_agrees
  LAUNCHLAB_PROGRAM_agrees RAYDIUM_CPMM_PROGRAM_agrees PUMPSWAP_PROGRAM_agrees
  RAYDIUM_AMM_V4_PROGRAM_agrees RAYDIUM_CLMM_PROGRAM_agrees METEORA_DLMM_PROGRAM_agrees
  METEORA_DAMM_V2_PROGRAM_agrees ORCA_WHIRLPOOL_PROGRAM_agrees

lemma discriminator_agrees:
  "BUY_EXACT_IN_LAUNCHLAB = LAUNCHLAB_BUY_EXACT_IN" "SDK_CPMM_SWAP_BASE_IN = CPMM_SWAP_BASE_IN"
  "SDK_PUMPSWAP_BUY_EXACT_QUOTE_IN = PUMPSWAP_BUY_EXACT_QUOTE_IN" "SDK_PUMPSWAP_SELL = PUMPSWAP_SELL"
  "SDK_CLMM_SWAP_V2 = CLMM_SWAP_V2" "SDK_METEORA_DLMM_SWAP2 = METEORA_DLMM_SWAP2"
  "METEORA_DAMM_V2_SWAP2 = METEORA_DLMM_SWAP2" "WHIRLPOOL_SWAP_V2 = CLMM_SWAP_V2"
  "RAYDIUM_AMM_V4_SWAP_BASE_IN_V2 = 16" "METEORA_DAMM_V2_EXACT_IN = 0"
  by (simp_all add: BUY_EXACT_IN_LAUNCHLAB_def LAUNCHLAB_BUY_EXACT_IN_def SDK_CPMM_SWAP_BASE_IN_def
      CPMM_SWAP_BASE_IN_def SDK_PUMPSWAP_BUY_EXACT_QUOTE_IN_def PUMPSWAP_BUY_EXACT_QUOTE_IN_def
      SDK_PUMPSWAP_SELL_def PUMPSWAP_SELL_def SDK_CLMM_SWAP_V2_def CLMM_SWAP_V2_def
      SDK_METEORA_DLMM_SWAP2_def METEORA_DLMM_SWAP2_def METEORA_DAMM_V2_SWAP2_def WHIRLPOOL_SWAP_V2_def
      RAYDIUM_AMM_V4_SWAP_BASE_IN_V2_def METEORA_DAMM_V2_EXACT_IN_def)

lemma seed_agrees: "SDK_CONFIG_SEED = CONFIG_SEED"
  by (simp add: SDK_CONFIG_SEED_def CONFIG_SEED_def ascii_def)

lemma whirlpool_accounts_agree:
  "valid_whirlpool_remaining_accounts d \<longleftrightarrow> whirlpool_dynamic_accounts d \<noteq> None"
  by (auto simp: valid_whirlpool_remaining_accounts_def whirlpool_dynamic_accounts_def)


section \<open>The layouts of dynamic legs\<close>

text \<open>The layout the SDK checks a leg against and the one the program checks it against.\<close>

definition same_layout :: "ix_layout \<Rightarrow> dyn_layout \<Rightarrow> bool" where
  "same_layout x y = (input_account y = xl_input x \<and> output_account y = xl_output x
     \<and> signer y = xl_signer x \<and> amount_offset y = xl_offset x \<and> layout_in_range y (xl_minimum x))"

lemma layout_of_sdk:
  assumes "dynamic_leg_layout l = Ok x"
  shows "\<exists>y. dynamic_second_leg (leg_program l) (leg_data l) = Ok y \<and> same_layout x y"
  using assms unfolding dynamic_leg_layout_def dynamic_second_leg_def Let_def program_agrees
    discriminator_agrees whirlpool_accounts_agree
  by (auto simp: same_layout_def mk_ix_layout_def mk_layout_def layout_in_range_def optional_def
      whirlpool_dynamic_accounts_def split: if_splits option.splits)

lemma layout_of_program:
  assumes "dynamic_second_leg (leg_program l) (leg_data l) = Ok y"
  shows "\<exists>x. dynamic_leg_layout l = Ok x"
  using assms unfolding dynamic_leg_layout_def dynamic_second_leg_def Let_def program_agrees
    discriminator_agrees whirlpool_accounts_agree
  by (simp split: if_splits option.splits)

end
