(* ===== verification/Route_Encode.thy ===== *)
theory Route_Encode
  imports Route_Calls Sdk_Agreement
begin

text \<open>
  The interface between the SDK and the program: the bytes and accounts of a route instruction
  are read back by the program as the legs they were built from.
\<close>

section \<open>Delivery\<close>

text \<open>The views an instruction's accounts become. The runtime merges the flags of an account
  over the whole transaction, so a view can have more privileges than the instruction asked
  for, never fewer.\<close>

definition delivers1 :: "account_view \<Rightarrow> account_view \<Rightarrow> bool" where
  "delivers1 v m = (address v = address m \<and> (is_signer m \<longrightarrow> is_signer v)
     \<and> (is_writable m \<longrightarrow> is_writable v))"

definition delivers :: "account_view list \<Rightarrow> account_view list \<Rightarrow> bool" where
  "delivers vs ms = list_all2 delivers1 vs ms"

lemma delivers_refl [simp]: "delivers ms ms"
  by (simp add: delivers_def delivers1_def list_all2_refl)

lemma delivers_length: "delivers vs ms \<Longrightarrow> length vs = length ms"
  by (simp add: delivers_def list_all2_lengthD)

lemma delivers_append:
  "delivers vs (ms @ ns) \<longleftrightarrow> (\<exists>us ws. vs = us @ ws \<and> delivers us ms \<and> delivers ws ns)"
  unfolding delivers_def by (auto simp: list_all2_append2 dest: list_all2_lengthD)

lemma delivers_Cons:
  "delivers vs (m # ms) \<longleftrightarrow> (\<exists>u us. vs = u # us \<and> delivers1 u m \<and> delivers us ms)"
  unfolding delivers_def by (auto simp: list_all2_Cons2)

lemma delivers_nth:
  "delivers vs ms \<Longrightarrow> i < length ms \<Longrightarrow> delivers1 (vs ! i) (ms ! i)"
  by (simp add: delivers_def list_all2_nthD2)

lemma delivers_address: "delivers vs ms \<Longrightarrow> map address vs = map address ms"
  by (auto simp: delivers_def delivers1_def list_all2_conv_all_nth intro: nth_equalityI)

section \<open>Legs as the program reads them\<close>

fun parse_legs ::
  "bytes \<Rightarrow> nat \<Rightarrow> nat \<Rightarrow> account_view list \<Rightarrow> program_error + (leg list \<times> nat)" where
  "parse_legs d 0 cur accs = Ok ([], cur)"
| "parse_legs d (Suc k) cur accs =
     bind_r (read_leg d cur) (\<lambda>f.
       if length accs < lf_num_accounts f then Err (router InsufficientAccounts)
       else bind_r (parse_legs d k (lf_next f) (drop (lf_num_accounts f) accs)) (\<lambda>(ls, end_cur).
         Ok (\<lparr>leg_program = lf_program f, leg_accounts = take (lf_num_accounts f) accs,
              leg_data = lf_data f\<rparr> # ls, end_cur)))"

definition leg_call :: "leg \<Rightarrow> cpi_call" where
  "leg_call l = Invoke (leg_program l) (leg_accounts l) (leg_data l)"

text \<open>A call serves a leg: its program, its accounts, and data of the same length.\<close>

definition serves :: "cpi_call \<Rightarrow> leg \<Rightarrow> bool" where
  "serves c l = (\<exists>ld. c = Invoke (leg_program l) (leg_accounts l) ld \<and> length ld = length (leg_data l))"

text \<open>The loop of the handler reads the legs \<open>parse_legs\<close> reads, in order.\<close>

lemma run_legs_parse:
  assumes "run_legs R c d k i st = Ok st'" "ls_offset st \<le> length (remaining (rc_accounts c))"
    "rc_dynamic c = 0"
  shows "\<exists>ls. parse_legs d k (ls_cursor st) (drop (ls_offset st) (remaining (rc_accounts c))) =
      Ok (ls, ls_cursor st') \<and> trace (ls_chain st') = trace (ls_chain st) @ map leg_call ls"
  using assms
proof (induction k arbitrary: i st)
  case 0
  then show ?case by simp
next
  case (Suc k)
  then obtain st1 where 1: "run_leg R c d i st = Ok st1" and 2: "run_legs R c d k (Suc i) st1 = Ok st'"
    by (auto simp: result_inv)
  let ?rem = "remaining (rc_accounts c)"
  from 1 obtain f accs ld where l: "read_leg d (ls_cursor st) = Ok f"
    "accs = slice (ls_offset st) (ls_offset st1) ?rem"
    "length accs = lf_num_accounts f" "ls_offset st1 = ls_offset st + length accs"
    "ls_offset st1 \<le> length ?rem"
    "leg_invoke_data c i f accs (ls_received st) (ledger (ls_chain st)) = Ok ld"
    "trace (ls_chain st1) = trace (ls_chain st) @ [Invoke (lf_program f) accs ld]"
    "ls_cursor st1 = lf_next f"
    by (rule run_leg_Ok)
  have ld: "ld = lf_data f"
    using l(6) Suc.prems(3) by (simp add: leg_invoke_data_def fixed_leg_data_def Let_def)
  obtain ls where ls: "parse_legs d k (lf_next f) (drop (ls_offset st1) ?rem) = Ok (ls, ls_cursor st')"
    "trace (ls_chain st') = trace (ls_chain st1) @ map leg_call ls"
    using Suc.IH [OF 2 l(5) Suc.prems(3)] l(8) by auto
  have n: "ls_offset st1 = ls_offset st + lf_num_accounts f" using l(3,4) by simp
  have "accs = take (lf_num_accounts f) (drop (ls_offset st) ?rem)"
    using l(2) n by (simp add: slice_def)
  then show ?case
    using l(1,5,7) ls n ld
    by (intro exI [of _ "\<lparr>leg_program = lf_program f, leg_accounts = accs, leg_data = lf_data f\<rparr> # ls"])
      (simp add: leg_call_def add.commute)
qed

section \<open>Frames\<close>

text \<open>What a leg must satisfy to be sent: \<open>as u8\<close> and \<open>as u16\<close> lose nothing, and the program
  takes 1 to 64 accounts per leg.\<close>

definition sendable :: "leg \<Rightarrow> bool" where
  "sendable l = (leg_accounts l \<noteq> [] \<and> length (leg_accounts l) \<le> 64 \<and> length (leg_data l) \<le> 65535)"

lemma unat_of_nat_u8: "n < 256 \<Longrightarrow> unat (of_nat n :: u8) = n"
  by (simp add: unsigned_of_nat take_bit_eq_mod)

lemma unat_of_nat_u16: "n \<le> 65535 \<Longrightarrow> unat (of_nat n :: u16) = n"
  by (simp add: unsigned_of_nat take_bit_eq_mod)

lemma length_leg_frame [simp]: "length (leg_frame_bytes l) = 35 + length (leg_data l)"
  by (simp add: leg_frame_bytes_def)

lemma read_leg_of_frame:
  assumes "sendable l"
  shows "read_leg (pre @ leg_frame_bytes l @ post) (length pre) =
    Ok \<lparr>lf_program = leg_program l, lf_num_accounts = length (leg_accounts l),
        lf_data = leg_data l, lf_next = length pre + 35 + length (leg_data l)\<rparr>"
proof -
  let ?na = "of_nat (length (leg_accounts l)) :: u8" and ?len = "of_nat (length (leg_data l)) :: u16"
  let ?d = "pre @ leg_frame_bytes l @ post"
  let ?tail = "u16_bytes ?len @ leg_data l @ post"
  have d: "?d = pre @ key_bytes (leg_program l) @ (?na # ?tail)"
    "?d = (pre @ key_bytes (leg_program l)) @ ?na # ?tail"
    "?d = (pre @ key_bytes (leg_program l) @ [?na]) @ u16_bytes ?len @ (leg_data l @ post)"
    "?d = (pre @ key_bytes (leg_program l) @ [?na] @ u16_bytes ?len) @ leg_data l @ post"
    by (simp_all add: leg_frame_bytes_def)
  have n: "unat ?na = length (leg_accounts l)" "unat ?len = length (leg_data l)"
    using assms by (simp_all add: sendable_def unat_of_nat_u8 unat_of_nat_u16)
  have 1: "get_range ?d (length pre) (length pre + 32) = Some (key_bytes (leg_program l))"
    unfolding d(1) by (rule get_range_mid) simp_all
  have 2: "get_at ?d (length pre + 32) = Some ?na"
    unfolding d(2) by (rule get_at_mid) simp
  have 3: "get_range ?d (length pre + 33) (length pre + 33 + 2) = Some (u16_bytes ?len)"
    unfolding d(3) by (rule get_range_mid) simp_all
  have 4: "get_range ?d (length pre + 35) (length pre + 35 + length (leg_data l)) = Some (leg_data l)"
    unfolding d(4) by (rule get_range_mid) simp_all
  show ?thesis
    using assms unfolding read_leg_def read_u16_def 1 2 3
    by (simp add: n 4 sendable_def MAX_LEG_ACCOUNTS_def)
qed

text \<open>The legs read back: same programs and data, the accounts delivered.\<close>

definition same_leg :: "leg \<Rightarrow> leg \<Rightarrow> bool" where
  "same_leg x l = (leg_program x = leg_program l \<and> leg_data x = leg_data l
     \<and> delivers (leg_accounts x) (leg_accounts l))"

lemma same_legI:
  "delivers us (leg_accounts l) \<Longrightarrow>
   same_leg \<lparr>leg_program = leg_program l, leg_accounts = us, leg_data = leg_data l\<rparr> l"
  by (simp add: same_leg_def)

lemma parse_legs_of_frames:
  assumes "list_all sendable legs" "delivers accs (concat (map leg_accounts legs) @ extra)"
  shows "\<exists>xs. parse_legs (pre @ concat (map leg_frame_bytes legs)) (length legs) (length pre) accs =
      Ok (xs, length (pre @ concat (map leg_frame_bytes legs))) \<and> list_all2 same_leg xs legs"
  using assms
proof (induction legs arbitrary: pre accs)
  case Nil
  then show ?case by simp
next
  case (Cons l legs)
  from Cons.prems(2) obtain us ws where u: "accs = us @ ws" "delivers us (leg_accounts l)"
    "delivers ws (concat (map leg_accounts legs) @ extra)" by (auto simp: delivers_append)
  have len: "length us = length (leg_accounts l)" using u(2) by (rule delivers_length)
  from Cons.IH [OF _ u(3), of "pre @ leg_frame_bytes l"] Cons.prems(1) obtain xs where
    xs: "parse_legs (pre @ concat (map leg_frame_bytes (l # legs))) (length legs)
        (length pre + 35 + length (leg_data l)) ws =
      Ok (xs, length (pre @ concat (map leg_frame_bytes (l # legs))))" "list_all2 same_leg xs legs"
    by (auto simp: add.assoc)
  have "sendable l" using Cons.prems(1) by simp
  from read_leg_of_frame [OF this, of pre "concat (map leg_frame_bytes legs)"] xs u len show ?case
    by (intro exI [of _ "\<lparr>leg_program = leg_program l, leg_accounts = us, leg_data = leg_data l\<rparr> # xs"])
      (simp add: same_legI)
qed

section \<open>The payload of a route\<close>

text \<open>Everything after the tag: the header with as many intermediate minimums as the route has
  intermediate accounts, then the frames.\<close>

definition route_payload ::
  "u64 \<Rightarrow> u64 \<Rightarrow> u8 \<Rightarrow> nat \<Rightarrow> pubkey \<Rightarrow> u64 list \<Rightarrow> bytes \<Rightarrow> bytes" where
  "route_payload amount min_out b k mint mids frames =
     u64_bytes amount @ u64_bytes min_out @ [b, of_nat k] @ key_bytes mint
     @ concat (map u64_bytes mids) @ frames"

lemma read_u64_mid: "i = length pre \<Longrightarrow> read_u64 (pre @ u64_bytes x @ post) i = Ok x"
  by (simp add: read_u64_def u64c.get_back)

lemma length_mids [simp]: "length (concat (map u64_bytes mids)) = 8 * length mids"
  by (induction mids) simp_all

definition header_of :: "u64 \<Rightarrow> u64 \<Rightarrow> u8 \<Rightarrow> nat \<Rightarrow> pubkey \<Rightarrow> u64 list \<Rightarrow> route_header" where
  "header_of amount min_out b k mint mids =
     \<lparr>amount_in = amount, min_amount_out = min_out, fee_asset_byte = b, num_legs = k,
      expected_output_mint = mint, intermediate_min_out = (case mids of [] \<Rightarrow> 0 | x # _ \<Rightarrow> x),
      second_intermediate_min_out = (case mids of [x, y] \<Rightarrow> y | _ \<Rightarrow> 0)\<rparr>"

lemma header_of_simps [simp]:
  "amount_in (header_of amount min_out b k mint mids) = amount"
  "min_amount_out (header_of amount min_out b k mint mids) = min_out"
  "fee_asset_byte (header_of amount min_out b k mint mids) = b"
  "num_legs (header_of amount min_out b k mint mids) = k"
  "expected_output_mint (header_of amount min_out b k mint mids) = mint"
  by (simp_all add: header_of_def)

lemma read_header_of_payload:
  assumes "k < 256" "length mids \<le> 2"
  shows "read_header (route_payload amount min_out b k mint mids frames) (length mids) =
    Ok (header_of amount min_out b k mint mids)"
proof -
  let ?d = "route_payload amount min_out b k mint mids frames"
  let ?pre = "u64_bytes amount @ u64_bytes min_out @ [b, of_nat k] @ key_bytes mint"
  have 0: "read_u64 ?d 0 = Ok amount"
    using read_u64_mid [of 0 "[]" amount] by (simp add: route_payload_def)
  have 8: "read_u64 ?d 8 = Ok min_out"
    using read_u64_mid [of 8 "u64_bytes amount" min_out] by (simp add: route_payload_def)
  have at: "?d ! 16 = b" "?d ! 17 = of_nat k"
    by (simp_all add: route_payload_def nth_append)
  have key: "slice 18 50 ?d = key_bytes mint"
    using slice_mid [of 18 "u64_bytes amount @ u64_bytes min_out @ [b, of_nat k]" 50 "key_bytes mint"
        "concat (map u64_bytes mids) @ frames"] by (simp add: route_payload_def)
  have m1: "read_u64 ?d 50 = Ok x" if "mids = x # r" for x r
    using read_u64_mid [of 50 ?pre x] that by (simp add: route_payload_def)
  have m2: "read_u64 ?d 58 = Ok y" if "mids = [x, y]" for x y
    using read_u64_mid [of 58 "?pre @ u64_bytes x" y] that by (simp add: route_payload_def)
  have len: "length ?d = 50 + 8 * length mids + length frames" by (simp add: route_payload_def)
  have k: "unat (of_nat k :: u8) = k" using assms(1) by (rule unat_of_nat_u8)
  consider "mids = []" | x where "mids = [x]" | x y where "mids = [x, y]"
    using assms(2) by (cases mids rule: remdups_adj.cases) auto
  then show ?thesis
  proof cases
    case 1
    with 0 8 at key len k show ?thesis
      by (simp add: read_header_def ROUTE_HEADER_LEN_def header_of_def)
  next
    case 2
    with 0 8 at key len k m1 show ?thesis
      by (simp add: read_header_def ROUTE_HEADER_LEN_def header_of_def)
  next
    case 3
    with 0 8 at key len k m1 m2 show ?thesis
      by (simp add: read_header_def ROUTE_HEADER_LEN_def header_of_def)
  qed
qed

lemma append_fee_mint_extra: "\<exists>extra. append_fee_mint ms a = ms @ extra"
  by (simp add: append_fee_mint_def)

lemma delivered_split:
  assumes "delivers accs (fixed_metas a config @ map (\<lambda>k. meta_new k False) mids @ rest)" "length mids \<le> 2"
  shows "\<exists>p. split_accounts accs (length mids) = Ok p \<and> delivers (remaining p) rest \<and>
    address (user p) = ra_payer a \<and> is_signer (user p) \<and> address (config_acc p) = config \<and>
    address (fee_destination p) = ra_fee_destination a \<and> address (fee_source p) = ra_fee_source a \<and>
    address (user_output p) = ra_output_token_account a \<and> address (fee_program p) = ra_fee_program a \<and>
    map_option address (intermediate p) = (case mids of [] \<Rightarrow> None | x # _ \<Rightarrow> Some x) \<and>
    map_option address (second_intermediate p) = (case mids of [x, y] \<Rightarrow> Some y | _ \<Rightarrow> None) \<and>
    (\<forall>m. intermediate p = Some m \<or> second_intermediate p = Some m \<longrightarrow> is_writable m)"
proof -
  consider "mids = []" | x where "mids = [x]" | x y where "mids = [x, y]"
    using assms(2) by (cases mids rule: remdups_adj.cases) auto
  then show ?thesis
    by cases (use assms(1) in \<open>auto simp: fixed_metas_def delivers_Cons delivers1_def split_accounts_def
      meta_new_def meta_ro_def\<close>)
qed

end
