(* ===== verification/Encode_Props.thy ===== *)
theory Encode_Props
  imports Route_Encode Route_Dynamic
begin

unbundle bit_operations_syntax

text \<open>
  The SDK's route instructions as the program sees them: what it parses, what it checks before
  it reads the ledger, and what it calls.
\<close>

section \<open>Layouts\<close>

text \<open>C11. The two tables of exact-input layouts agree: the SDK accepts a leg's program and data as
  dynamic exactly where the program does, with the same input, output and signer positions and
  the same offset of the amount, and the number of accounts the SDK asks for is enough for every
  index the program reads.\<close>

theorem sdk_layout_agrees:
  "case dynamic_leg_layout l of
     Inl e \<Rightarrow> \<not> is_ok (dynamic_second_leg (leg_program l) (leg_data l))
   | Inr x \<Rightarrow> \<exists>y. dynamic_second_leg (leg_program l) (leg_data l) = Ok y \<and> same_layout x y"
proof (cases "dynamic_leg_layout l")
  case (Inl e)
  then show ?thesis using layout_of_program [of l] by (auto simp: is_ok_iff)
next
  case (Inr x)
  then show ?thesis using layout_of_sdk [OF Inr] by simp
qed

section \<open>Routes with fixed inputs\<close>

lemma asset_byte_exact:
  "(if exact then (x AND 1) OR FEE_ASSET_EXACT_OUT else x AND 1) AND 128 \<noteq> 0 \<longleftrightarrow> exact" for x :: u8
  by (simp add: FEE_ASSET_EXACT_OUT_def bit.conj_disj_distrib2 and.assoc)

lemma asset_byte_asset:
  "(if exact then (x AND 1) OR FEE_ASSET_EXACT_OUT else x AND 1) AND 1 = x AND 1" for x :: u8
  by (simp add: FEE_ASSET_EXACT_OUT_def bit.conj_disj_distrib2 and.assoc)

lemma route_ix_data:
  "ix_data (build_route_instruction_ex R pid a amount min_out asset exact mint legs) =
     TAG_ROUTE # route_payload amount min_out
       (if exact then (asset AND 1) OR FEE_ASSET_EXACT_OUT else asset AND 1) (length legs) mint []
       (concat (map leg_frame_bytes legs))"
  by (simp add: build_route_instruction_ex_def Let_def route_payload_def TAG_ROUTE_IX_def TAG_ROUTE_def)

lemma route_ix_accounts:
  "\<exists>extra. ix_accounts (build_route_instruction_ex R pid a amount min_out asset exact mint legs) =
     fixed_metas a (fst (sdk_config_pda R pid)) @ map (\<lambda>k. meta_new k False) []
     @ concat (map leg_accounts legs) @ extra"
  using append_fee_mint_extra [of "fixed_metas a (fst (sdk_config_pda R pid))
    @ concat (map leg_accounts legs) @ program_metas 4 [] legs" a]
  by (auto simp: build_route_instruction_ex_def Let_def)

text \<open>What the program reads from the fixed accounts of a route.\<close>

definition addressed :: "route_accounts \<Rightarrow> ix_accounts_in \<Rightarrow> pubkey \<Rightarrow> bool" where
  "addressed p a config = (address (user p) = ra_payer a \<and> is_signer (user p)
     \<and> address (config_acc p) = config \<and> address (fee_destination p) = ra_fee_destination a
     \<and> address (fee_source p) = ra_fee_source a \<and> address (user_output p) = ra_output_token_account a
     \<and> address (fee_program p) = ra_fee_program a)"

lemma route_framed:
  assumes "length legs < 256" "delivers accs (ix_accounts i)"
    "i = build_route_instruction_ex R pid a amount min_out asset exact mint legs"
  obtains b frames p extra where "frames = concat (map leg_frame_bytes legs)"
    "ix_data i = TAG_ROUTE # route_payload amount min_out b (length legs) mint [] frames"
    "read_header (route_payload amount min_out b (length legs) mint [] frames) 0 =
       Ok (header_of amount min_out b (length legs) mint [])"
    "exact_out (header_of amount min_out b (length legs) mint []) = exact"
    "fee_asset (header_of amount min_out b (length legs) mint []) = asset AND 1"
    "split_accounts accs 0 = Ok p" "addressed p a (fst (sdk_config_pda R pid))"
    "delivers (remaining p) (concat (map leg_accounts legs) @ extra)"
proof -
  let ?b = "if exact then (asset AND 1) OR FEE_ASSET_EXACT_OUT else asset AND 1"
  let ?frames = "concat (map leg_frame_bytes legs)"
  let ?h = "header_of amount min_out ?b (length legs) mint []"
  obtain extra where accs: "delivers accs (fixed_metas a (fst (sdk_config_pda R pid))
      @ map (\<lambda>k. meta_new k False) [] @ concat (map leg_accounts legs) @ extra)"
    using assms(2,3) route_ix_accounts [of R pid a amount min_out asset exact mint legs] by auto
  obtain p where p: "split_accounts accs 0 = Ok p" "addressed p a (fst (sdk_config_pda R pid))"
    "delivers (remaining p) (concat (map leg_accounts legs) @ extra)"
    using delivered_split [OF accs] by (auto simp: addressed_def)
  have "read_header (route_payload amount min_out ?b (length legs) mint [] ?frames) 0 = Ok ?h"
    using read_header_of_payload [OF assms(1), of "[]" amount min_out ?b mint ?frames] by simp
  moreover have "exact_out ?h = exact" "fee_asset ?h = asset AND 1"
    by (simp_all add: exact_out_def fee_asset_def asset_byte_exact asset_byte_asset del: if_split)
  moreover have "ix_data i = TAG_ROUTE # route_payload amount min_out ?b (length legs) mint [] ?frames"
    unfolding assms(3) route_ix_data ..
  ultimately show ?thesis using p by (intro that [of ?frames ?b p extra]) simp_all
qed

lemma route_parsed:
  assumes "list_all sendable legs" "length legs < 256"
    "i = build_route_instruction_ex R pid a amount min_out asset exact mint legs"
    "delivers accs (ix_accounts i)"
  shows "\<exists>d b p xs. ix_data i = TAG_ROUTE # d \<and>
    read_header d 0 = Ok (header_of amount min_out b (length legs) mint []) \<and>
    exact_out (header_of amount min_out b (length legs) mint []) = exact \<and>
    fee_asset (header_of amount min_out b (length legs) mint []) = asset AND 1 \<and>
    split_accounts accs 0 = Ok p \<and> addressed p a (fst (sdk_config_pda R pid)) \<and>
    parse_legs d (length legs) 50 (remaining p) = Ok (xs, length d) \<and> list_all2 same_leg xs legs"
proof -
  obtain b frames p extra where f: "frames = concat (map leg_frame_bytes legs)"
    "ix_data i = TAG_ROUTE # route_payload amount min_out b (length legs) mint [] frames"
    "read_header (route_payload amount min_out b (length legs) mint [] frames) 0 =
       Ok (header_of amount min_out b (length legs) mint [])"
    "exact_out (header_of amount min_out b (length legs) mint []) = exact"
    "fee_asset (header_of amount min_out b (length legs) mint []) = asset AND 1"
    "split_accounts accs 0 = Ok p" "addressed p a (fst (sdk_config_pda R pid))"
    "delivers (remaining p) (concat (map leg_accounts legs) @ extra)"
    by (rule route_framed [OF assms(2,4,3)])
  let ?d = "route_payload amount min_out b (length legs) mint [] frames"
  have "?d = route_payload amount min_out b (length legs) mint [] [] @ frames"
    "length (route_payload amount min_out b (length legs) mint [] []) = 50"
    by (simp_all add: route_payload_def)
  with parse_legs_of_frames [OF assms(1) f(8)] obtain xs where
    "parse_legs ?d (length legs) 50 (remaining p) = Ok (xs, length ?d)" "list_all2 same_leg xs legs"
    unfolding f(1) by metis
  with f(2-7) show ?thesis
    by (intro exI [of _ ?d] exI [of _ b] exI [of _ p] exI [of _ xs]) simp
qed

text \<open>C24. The program parses a route instruction of the SDK back: the header holds the amounts,
  the fee asset, the exact-out flag, the expected mint and the number of legs it was built from,
  the six fixed accounts are the ones given, and the leg loop reads exactly the given legs and
  ends at the end of the data. The views of the accounts may carry more privileges than asked.\<close>

theorem sdk_route_roundtrip:
  assumes "list_all sendable legs" "length legs < 256"
    "i = build_route_instruction_ex R pid a amount min_out asset exact mint legs"
    "delivers accs (ix_accounts i)"
  shows "\<exists>d h p xs. ix_data i = TAG_ROUTE # d \<and> read_header d 0 = Ok h \<and>
    amount_in h = amount \<and> min_amount_out h = min_out \<and> expected_output_mint h = mint \<and>
    exact_out h = exact \<and> fee_asset h = asset AND 1 \<and> num_legs h = length legs \<and>
    split_accounts accs 0 = Ok p \<and> addressed p a (fst (sdk_config_pda R pid)) \<and>
    parse_legs d (num_legs h) 50 (remaining p) = Ok (xs, length d) \<and> list_all2 same_leg xs legs"
  using route_parsed [OF assms] by (metis header_of_simps)

text \<open>The fee transfer of a route over the fixed accounts \<open>p\<close>: none for a zero fee, else one.\<close>

definition fee_calls :: "route_accounts \<Rightarrow> router_config \<Rightarrow> u8 \<Rightarrow> u64 \<Rightarrow> ledger \<Rightarrow> cpi_call list \<Rightarrow> bool" where
  "fee_calls p cfg asset fee L fees \<longleftrightarrow>
     (if fee = 0 then fees = []
      else (\<exists>k. fees = [k] \<and> is_fee_call p asset fee k) \<and> fee_recipient_ok p cfg asset L)"

lemma pay_fee_calls:
  assumes "pay_fee RT p cfg asset fee s = Ok s1"
  obtains fees where "trace s1 = trace s @ fees" "fee_calls p cfg asset fee (ledger s) fees"
proof (cases "fee = 0")
  case True
  with assms that [of "[]"] show thesis by (simp add: pay_fee_def fee_calls_def)
next
  case False
  then have "0 < fee" by (simp add: word_gt_0)
  from pay_fee_call [OF assms this] obtain k where "is_fee_call p asset fee k"
    "trace s1 = trace s @ [k]" "fee_recipient_ok p cfg asset (ledger s)" by blast
  with False that [of "[k]"] show thesis by (simp add: fee_calls_def)
qed

lemma route_executes_full:
  assumes "list_all sendable legs" "length legs < 256"
    "i = build_route_instruction_ex R pid a amount min_out asset exact mint legs"
    "delivers accs (ix_accounts i)"
    "process_instruction RT pid accs (ix_data i) s = Ok s'"
  obtains p cfg fee fees xs where "split_accounts accs 0 = Ok p"
    "addressed p a (fst (sdk_config_pda R pid))"
    "check_config RT pid (config_acc p) (ledger s) = Ok cfg" "checked_fee amount (fee_bps cfg) = Ok fee"
    "fee_calls p cfg (asset AND 1) fee (ledger s) fees"
    "trace s' = trace s @ fees @ map leg_call xs" "list_all2 same_leg xs legs"
proof -
  from route_parsed [OF assms(1-4)] obtain d b p xs where
    d: "ix_data i = TAG_ROUTE # d"
    and h: "read_header d 0 = Ok (header_of amount min_out b (length legs) mint [])"
    and asset: "fee_asset (header_of amount min_out b (length legs) mint []) = asset AND 1"
    and p: "split_accounts accs 0 = Ok p" "addressed p a (fst (sdk_config_pda R pid))"
    and l: "parse_legs d (length legs) 50 (remaining p) = Ok (xs, length d)" "list_all2 same_leg xs legs"
    by blast
  let ?h = "header_of amount min_out b (length legs) mint []"
  from assms(5) d have run: "process_inner RT pid accs d 0 s = Ok s'"
    by (simp add: tag_defs route_process_def)
  have amt: "amount_in ?h = amount" by (simp add: header_of_def)
  from process_inner_run [OF run h p(1)] obtain cfg fee s1 q1 q2 st where
    c: "check_config RT pid (config_acc p) (ledger s) = Ok cfg" "checked_fee amount (fee_bps cfg) = Ok fee"
    and f: "pay_fee RT p cfg (asset AND 1) fee s = Ok s1"
    and r: "run_legs RT (mk_ctx 0 ?h p q1 q2) d (length legs) 0 (initial_loop 0 s1) = Ok st"
    and s': "s' = ls_chain st" by (metis header_of_simps(4) amt asset)
  have b: "ls_cursor (initial_loop 0 s1) = 50" "ls_offset (initial_loop 0 s1) = 0"
    "ls_chain (initial_loop 0 s1) = s1" by (simp_all add: initial_loop_def ROUTE_HEADER_LEN_def)
  from run_legs_parse [OF r] l(1) have t: "trace s' = trace s1 @ map leg_call xs"
    by (auto simp: b s')
  obtain fees where "trace s1 = trace s @ fees" "fee_calls p cfg (asset AND 1) fee (ledger s) fees"
    using f by (rule pay_fee_calls)
  with p c t l(2) show thesis by (intro that [of p cfg fee fees xs]) simp_all
qed

text \<open>The program makes exactly the calls the SDK encoded: when a route instruction of the
  SDK succeeds, its calls are at most one fee transfer and then one call per leg, in the order of
  the legs, each with the leg's program, the leg's data and the leg's accounts.\<close>

theorem sdk_route_executes:
  assumes "list_all sendable legs" "length legs < 256"
    "i = build_route_instruction_ex R pid a amount min_out asset exact mint legs"
    "delivers accs (ix_accounts i)"
    "process_instruction RT pid accs (ix_data i) s = Ok s'"
  shows "\<exists>fees xs. trace s' = trace s @ fees @ map leg_call xs \<and> length fees \<le> 1 \<and>
    list_all2 same_leg xs legs"
proof -
  from assms obtain p cfg fee fees xs where f: "fee_calls p cfg (asset AND 1) fee (ledger s) fees"
    and "trace s' = trace s @ fees @ map leg_call xs" "list_all2 same_leg xs legs"
    by (rule route_executes_full)
  moreover have "length fees \<le> 1" using f by (auto simp: fee_calls_def split: if_splits)
  ultimately show ?thesis by blast
qed

text \<open>What an executed route of the SDK has done to the account that pays and the output account.\<close>

lemma route_settled:
  assumes "length legs < 256" "delivers accs (ix_accounts i)"
    "i = build_route_instruction_ex R pid a amount min_out asset exact mint legs"
    "process_instruction RT pid accs (ix_data i) s = Ok s'"
  obtains p cfg fee paid0 paid1 s1 native got0 got1 where
    "split_accounts accs 0 = Ok p" "addressed p a (fst (sdk_config_pda R pid))"
    "check_config RT pid (config_acc p) (ledger s) = Ok cfg" "checked_fee amount (fee_bps cfg) = Ok fee"
    "fee_source_after (asset AND 1) p (ledger s) = Ok paid0"
    "fee_source_after (asset AND 1) p (ledger s') = Ok paid1" "unat paid0 \<le> unat paid1 + unat amount"
    "pay_fee RT p cfg (asset AND 1) fee s = Ok s1"
    "validate_output (user p) (user_output p) mint False (ledger s) = Ok native"
    "output_balance (ledger s1 (address (user_output p))) native = Ok got0"
    "output_balance (ledger s' (address (user_output p))) native = Ok got1"
    "unat min_out \<le> unat got1 - unat got0"
proof -
  obtain bt frames p extra where f:
    "ix_data i = TAG_ROUTE # route_payload amount min_out bt (length legs) mint [] frames"
    "read_header (route_payload amount min_out bt (length legs) mint [] frames) 0 =
       Ok (header_of amount min_out bt (length legs) mint [])"
    "fee_asset (header_of amount min_out bt (length legs) mint []) = asset AND 1"
    and p: "split_accounts accs 0 = Ok p" "addressed p a (fst (sdk_config_pda R pid))"
    by (rule route_framed [OF assms(1,2,3)])
  define h where "h = header_of amount min_out bt (length legs) mint []"
  define d where "d = route_payload amount min_out bt (length legs) mint [] frames"
  have d: "ix_data i = TAG_ROUTE # d" and h: "read_header d 0 = Ok h" "amount_in h = amount"
    "min_amount_out h = min_out" "expected_output_mint h = mint" "fee_asset h = asset AND 1"
    using f by (simp_all add: d_def h_def)
  from assms(4) d have "process_inner RT pid accs d 0 s = Ok s'"
    by (simp add: tag_defs route_process_def)
  from process_inner_run [OF this h(1) p(1)] obtain cfg native fee before s1 out q1 q2 st where r:
    "fee_source_snapshot (fee_asset h) p (ledger s) = Ok before"
    "check_config RT pid (config_acc p) (ledger s) = Ok cfg" "checked_fee (amount_in h) (fee_bps cfg) = Ok fee"
    "pay_fee RT p cfg (fee_asset h) fee s = Ok s1"
    "output_balance (ledger s1 (address (user_output p))) native = Ok out"
    "settle (mk_ctx 0 h p q1 q2) before fee native out (ledger s') = Ok ()"
    and v: "validate_output (user p) (user_output p) mint False (ledger s) = Ok native"
    using h(4) by (metis (no_types, lifting))
  from r(6) obtain sa oa where o: "fee_source_after (fee_asset h) p (ledger s') = Ok sa"
    "validate_spend before sa amount fee (exact_out h) = Ok ()"
    "output_balance (ledger s' (address (user_output p))) native = Ok oa" "unat min_out \<le> unat oa - unat out"
    by (elim settle_Ok) (simp add: h(2,3))
  have "unat before \<le> unat sa + unat amount"
    using o(2) by (auto simp: validate_spend_Ok split: if_splits)
  with that p fee_source_snapshot_after [OF r(1)] r(2-5) o(1,3,4) v show thesis
    by (simp add: h(2,5))
qed

section \<open>Witnesses\<close>

text \<open>The demonstration route as the SDK builds it.\<close>

definition demo_pda :: pda where
  "demo_pda = \<lparr>find_pda = (\<lambda>seeds p. (2, 255)), try_find_pda = (\<lambda>seeds p. Some (2, 255))\<rparr>"

definition demo_sdk_leg :: "pubkey \<Rightarrow> pubkey \<Rightarrow> pubkey \<Rightarrow> pubkey \<Rightarrow> u64 \<Rightarrow> leg" where
  "demo_sdk_leg src dst m1 m2 x = \<lparr>leg_program = RAYDIUM_CPMM_PROGRAM_ID,
     leg_accounts = demo_leg_accounts src dst m1 m2, leg_data = demo_swap x\<rparr>"

definition demo_ix_accounts :: ix_accounts_in where
  "demo_ix_accounts = \<lparr>ra_payer = 1, ra_fee_destination = 3, ra_fee_source = 4,
     ra_output_token_account = 5, ra_fee_program = TOKEN_PROGRAM_ID, ra_fee_mint = 20\<rparr>"

definition demo_route_ix :: instruction where
  "demo_route_ix = build_route_instruction_ex demo_pda 7 demo_ix_accounts 120 90 1 True 21
     [demo_sdk_leg 4 5 20 21 99]"

lemma demo_config_pda: "fst (sdk_config_pda demo_pda pid) = 2"
  by (simp add: sdk_config_pda_def demo_pda_def)

lemma demo_sdk_leg_sendable: "sendable (demo_sdk_leg src dst m1 m2 x)"
  by (simp add: sendable_def demo_sdk_leg_def demo_swap_def CPMM_SWAP_BASE_IN_def demo_leg_accounts_def)

lemma demo_route_accounts: "ix_accounts demo_route_ix = demo_accounts0"
  by (simp add: demo_route_ix_def build_route_instruction_ex_def Let_def demo_config_pda fixed_metas_def
      demo_ix_accounts_def demo_sdk_leg_def demo_accounts0_def demo_fixed_accounts_def append_fee_mint_def
      program_agrees meta_new_def meta_ro_def meta_def)

lemma demo_route_data: "ix_data demo_route_ix = TAG_ROUTE # demo_data0 120 129"
  by (simp add: demo_route_ix_def build_route_instruction_ex_def Let_def demo_sdk_leg_def demo_data0_def
      demo_leg_def leg_frame_bytes_def demo_swap_def CPMM_SWAP_BASE_IN_def demo_leg_accounts_def
      TAG_ROUTE_IX_def TAG_ROUTE_def FEE_ASSET_EXACT_OUT_def)

theorem sdk_route_roundtrip_witness:
  "\<exists>d h. ix_data demo_route_ix = TAG_ROUTE # d \<and> read_header d 0 = Ok h \<and> amount_in h = 120 \<and>
     min_amount_out h = 90 \<and> exact_out h \<and> num_legs h = 1"
  using sdk_route_roundtrip [of "[demo_sdk_leg 4 5 20 21 99]" demo_route_ix demo_pda 7 demo_ix_accounts
      120 90 1 True 21 "ix_accounts demo_route_ix"]
  by (auto simp: demo_sdk_leg_sendable demo_route_ix_def)

theorem sdk_route_executes_witness:
  "\<exists>s' fees xs. process_instruction demo_runtime 7 demo_accounts0 (ix_data demo_route_ix) demo_chain = Ok s' \<and>
     trace s' = fees @ map leg_call xs \<and> length fees \<le> 1 \<and>
     list_all2 same_leg xs [demo_sdk_leg 4 5 20 21 99]"
proof -
  obtain s' where "process_inner demo_runtime 7 demo_accounts0 (demo_data0 120 129) 0 demo_chain = Ok s'"
    using demo_run0 ..
  then have s': "process_instruction demo_runtime 7 demo_accounts0 (ix_data demo_route_ix) demo_chain = Ok s'"
    by (simp add: demo_route_data tag_defs route_process_def)
  from sdk_route_executes [OF _ _ demo_route_ix_def _ s'] show ?thesis
    using s' by (simp add: demo_sdk_leg_sendable demo_route_accounts demo_chain_def)
qed

end
