(* ===== verification/Dynamic_Encode.thy ===== *)
theory Dynamic_Encode
  imports Encode_Props
begin

text \<open>
  The dynamic route instructions of the SDK: what its checks guarantee is what the program
  checks again before it reads the ledger.
\<close>

section \<open>Wired legs\<close>

text \<open>The checks of \<open>validate_dynamic_accounts\<close> that do not read the ledger: the leg is signed by
  the user, spends the input account and credits the output account.\<close>

definition wired ::
  "dyn_layout \<Rightarrow> account_view list \<Rightarrow> account_view \<Rightarrow> account_view \<Rightarrow> account_view \<Rightarrow> bool" where
  "wired y accs usr inp out = (layout_in_range y (length accs)
     \<and> address (accs ! signer y) = address usr \<and> is_signer (accs ! signer y)
     \<and> address (accs ! input_account y) = address inp \<and> is_writable (accs ! input_account y)
     \<and> address (accs ! output_account y) = address out \<and> is_writable (accs ! output_account y))"

lemma layout_in_range_mono: "layout_in_range y n \<Longrightarrow> n \<le> m \<Longrightarrow> layout_in_range y m"
  by (auto simp: layout_in_range_def optional_def split: option.splits)

lemma validate_dynamic_leg_Ok:
  assumes "validate_dynamic_leg l payer inp out z al = Ok ()"
  obtains x where "dynamic_leg_layout l = Ok x" "xl_minimum x \<le> length (leg_accounts l)"
    "address (leg_accounts l ! xl_signer x) = payer" "is_signer (leg_accounts l ! xl_signer x)"
    "address (leg_accounts l ! xl_input x) = inp" "is_writable (leg_accounts l ! xl_input x)"
    "address (leg_accounts l ! xl_output x) = out" "is_writable (leg_accounts l ! xl_output x)"
    "z \<longrightarrow> slice (xl_offset x) (xl_offset x + 8) (leg_data l) = replicate 8 0"
    "al \<or> leg_program l \<noteq> LAUNCHLAB_PROGRAM"
  using assms by (auto simp: validate_dynamic_leg_def Let_def result_inv split: if_splits)

lemma validated_leg_wired:
  assumes "validate_dynamic_leg l payer inp out z al = Ok ()" "same_leg x l"
    "address usr = payer" "address i = inp" "address ob = out"
  shows "\<exists>y. dynamic_second_leg (leg_program x) (leg_data x) = Ok y \<and>
    wired y (leg_accounts x) usr i ob \<and> (z \<longrightarrow> zero_amount y (leg_data x)) \<and>
    (al \<or> leg_program x \<noteq> LAUNCHLAB_PROGRAM_ID)"
proof -
  from assms(1) obtain xl where v: "dynamic_leg_layout l = Ok xl" "xl_minimum xl \<le> length (leg_accounts l)"
    "address (leg_accounts l ! xl_signer xl) = payer" "is_signer (leg_accounts l ! xl_signer xl)"
    "address (leg_accounts l ! xl_input xl) = inp" "is_writable (leg_accounts l ! xl_input xl)"
    "address (leg_accounts l ! xl_output xl) = out" "is_writable (leg_accounts l ! xl_output xl)"
    "z \<longrightarrow> slice (xl_offset xl) (xl_offset xl + 8) (leg_data l) = replicate 8 0"
    "al \<or> leg_program l \<noteq> LAUNCHLAB_PROGRAM" by (rule validate_dynamic_leg_Ok)
  from layout_of_sdk [OF v(1)] obtain y where y: "dynamic_second_leg (leg_program l) (leg_data l) = Ok y"
    "same_layout xl y" by blast
  have d: "delivers (leg_accounts x) (leg_accounts l)" and s: "leg_program x = leg_program l" "leg_data x = leg_data l"
    using assms(2) by (simp_all add: same_leg_def)
  have r: "layout_in_range y (length (leg_accounts l))"
    using y(2) v(2) layout_in_range_mono by (auto simp: same_layout_def)
  then have "delivers1 (leg_accounts x ! signer y) (leg_accounts l ! signer y)"
    "delivers1 (leg_accounts x ! input_account y) (leg_accounts l ! input_account y)"
    "delivers1 (leg_accounts x ! output_account y) (leg_accounts l ! output_account y)"
    by (simp_all add: layout_in_range_def delivers_nth [OF d])
  with r v y s assms(3-5) delivers_length [OF d] show ?thesis
    by (auto simp: wired_def same_layout_def delivers1_def zero_amount_def program_agrees)
qed

lemma validated_leg_nonempty:
  assumes "validate_dynamic_leg l payer inp out z al = Ok ()"
  shows "leg_accounts l \<noteq> []"
  using validated_leg_wired [OF assms, of l "meta payer False False" "meta inp False False" "meta out False False"]
  by (auto simp: same_leg_def wired_def layout_in_range_def)

lemma writes_key_writes_to:
  assumes "writes_key l k" "same_leg x l" "address m = k"
  shows "writes_to (leg_accounts x) m"
proof -
  from assms(1) obtain i where i: "i < length (leg_accounts l)" "address (leg_accounts l ! i) = k"
    "is_writable (leg_accounts l ! i)" by (auto simp: writes_key_def list_ex_length)
  have d: "delivers (leg_accounts x) (leg_accounts l)" using assms(2) by (simp add: same_leg_def)
  from delivers_nth [OF d i(1)] i delivers_length [OF d] assms(3) show ?thesis
    by (auto simp: writes_to_def list_ex_length delivers1_def)
qed

lemma append_fee_mint_prefix: "\<exists>extra. append_fee_mint (xs @ ys) a = xs @ extra"
  by (simp add: append_fee_mint_def)

section \<open>Two legs\<close>

lemma dynamic_ix_parts:
  assumes "build_dynamic_route_instruction R pid a mid amount mid_min min_out mint l1 l2 = Ok i"
  obtains extra where
    "check_dynamic_route a mid amount mid_min min_out mint l1 l2 = Ok ()"
    "ix_data i = TAG_ROUTE_DYNAMIC # route_payload amount min_out 1 2 mint [mid_min]
       (concat (map leg_frame_bytes [l1, l2]))"
    "ix_accounts i = fixed_metas a (fst (sdk_config_pda R pid)) @ map (\<lambda>k. meta_new k False) [mid]
       @ concat (map leg_accounts [l1, l2]) @ extra"
proof -
  let ?pm = "[meta_ro (leg_program l1) False]
    @ (if leg_program l2 \<noteq> leg_program l1 then [meta_ro (leg_program l2) False] else [])"
  obtain extra where e: "append_fee_mint ((fixed_metas a (fst (sdk_config_pda R pid)) @ [meta_new mid False]
      @ leg_accounts l1 @ leg_accounts l2) @ ?pm) a = (fixed_metas a (fst (sdk_config_pda R pid))
      @ [meta_new mid False] @ leg_accounts l1 @ leg_accounts l2) @ extra"
    using append_fee_mint_prefix by metis
  from assms have c: "check_dynamic_route a mid amount mid_min min_out mint l1 l2 = Ok ()"
    by (simp add: build_dynamic_route_instruction_def result_inv)
  with assms have i: "i = \<lparr>ix_program_id = pid,
      ix_accounts = append_fee_mint ((fixed_metas a (fst (sdk_config_pda R pid)) @ [meta_new mid False]
        @ leg_accounts l1 @ leg_accounts l2) @ ?pm) a,
      ix_data = [TAG_ROUTE_DYNAMIC_IX] @ u64_bytes amount @ u64_bytes min_out
        @ [FEE_ASSET_TOKEN, 2] @ key_bytes mint @ u64_bytes mid_min
        @ leg_frame_bytes l1 @ leg_frame_bytes l2\<rparr>"
    by (simp add: build_dynamic_route_instruction_def Let_def)
  have ia: "ix_accounts i = (fixed_metas a (fst (sdk_config_pda R pid))
      @ [meta_new mid False] @ leg_accounts l1 @ leg_accounts l2) @ extra"
    by (simp only: i instruction.select_convs e)
  have "ix_data i = TAG_ROUTE_DYNAMIC # route_payload amount min_out 1 2 mint [mid_min]
      (concat (map leg_frame_bytes [l1, l2]))"
    by (simp add: i route_payload_def TAG_ROUTE_DYNAMIC_IX_def TAG_ROUTE_DYNAMIC_def FEE_ASSET_TOKEN_def)
  with c ia show thesis by (intro that [of extra]) simp_all
qed

text \<open>C33. A two-leg dynamic route that the SDK builds passes every check the program makes before
  it reads the ledger: the header parses to the amounts given and is accepted, the legs parse back,
  the first leg writes the intermediate account, and the second leg is an exact-input swap of the
  program's table, signed by the user, from the intermediate account to the output account.\<close>

theorem sdk_dynamic_accepted:
  assumes "build_dynamic_route_instruction R pid a mid amount mid_min min_out mint l1 l2 = Ok i"
    "delivers accs (ix_accounts i)"
  shows "\<exists>d h p m x1 x2 y. ix_data i = TAG_ROUTE_DYNAMIC # d \<and> read_header d 1 = Ok h \<and>
    check_header h 1 = Ok () \<and> amount_in h = amount \<and> min_amount_out h = min_out \<and>
    intermediate_min_out h = mid_min \<and> expected_output_mint h = mint \<and> mint \<noteq> SYSTEM_PROGRAM_ID \<and>
    split_accounts accs 1 = Ok p \<and> addressed p a (fst (sdk_config_pda R pid)) \<and>
    intermediate p = Some m \<and> address m = mid \<and> is_writable m \<and>
    parse_legs d 2 58 (remaining p) = Ok ([x1, x2], length d) \<and> same_leg x1 l1 \<and> same_leg x2 l2 \<and>
    writes_to (leg_accounts x1) m \<and> dynamic_second_leg (leg_program x2) (leg_data x2) = Ok y \<and>
    wired y (leg_accounts x2) (user p) m (user_output p)"
proof -
  from assms(1) obtain extra where c: "check_dynamic_route a mid amount mid_min min_out mint l1 l2 = Ok ()"
    and d: "ix_data i = TAG_ROUTE_DYNAMIC # route_payload amount min_out 1 2 mint [mid_min]
       (concat (map leg_frame_bytes [l1, l2]))"
    and ia: "ix_accounts i = fixed_metas a (fst (sdk_config_pda R pid)) @ map (\<lambda>k. meta_new k False) [mid]
       @ concat (map leg_accounts [l1, l2]) @ extra"
    by (rule dynamic_ix_parts)
  let ?frames = "concat (map leg_frame_bytes [l1, l2])"
  let ?d = "route_payload amount min_out 1 2 mint [mid_min] ?frames"
  let ?h = "header_of amount min_out 1 2 mint [mid_min]"
  from c have k: "amount \<noteq> 0" "mid_min \<noteq> 0" "min_out \<noteq> 0" "mint \<noteq> SYSTEM_PROGRAM" "writes_key l1 mid"
    "leg_accounts l1 \<noteq> []" "length (leg_accounts l1) \<le> 64" "length (leg_accounts l2) \<le> 64"
    "length (leg_data l1) \<le> 65535" "length (leg_data l2) \<le> 65535"
    and v: "validate_dynamic_leg l2 (ra_payer a) mid (ra_output_token_account a) False True = Ok ()"
    by (auto simp: check_dynamic_route_def result_inv split: if_splits)
  have s: "list_all sendable [l1, l2]"
    using k validated_leg_nonempty [OF v] by (simp add: sendable_def)
  obtain p m where p: "split_accounts accs 1 = Ok p" "addressed p a (fst (sdk_config_pda R pid))"
    "delivers (remaining p) (concat (map leg_accounts [l1, l2]) @ extra)"
    "intermediate p = Some m" "address m = mid" "is_writable m"
    using delivered_split [OF assms(2) [unfolded ia]] by (auto simp: addressed_def)
  have "?d = route_payload amount min_out 1 2 mint [mid_min] [] @ ?frames"
    "length (route_payload amount min_out 1 2 mint [mid_min] []) = 58"
    by (simp_all add: route_payload_def)
  with parse_legs_of_frames [OF s p(3)] obtain xs where
    xs: "parse_legs ?d 2 58 (remaining p) = Ok (xs, length ?d)" "list_all2 same_leg xs [l1, l2]"
    by (metis length_Cons list.size(3) numeral_2_eq_2)
  then obtain x1 x2 where x: "xs = [x1, x2]" "same_leg x1 l1" "same_leg x2 l2"
    by (auto simp: list_all2_Cons2)
  have pu: "address (user p) = ra_payer a" "address (user_output p) = ra_output_token_account a"
    using p(2) by (simp_all add: addressed_def)
  obtain y where y: "dynamic_second_leg (leg_program x2) (leg_data x2) = Ok y"
    "wired y (leg_accounts x2) (user p) m (user_output p)"
    using validated_leg_wired [OF v x(3) pu(1) p(5) pu(2)] by blast
  have "read_header ?d 1 = Ok ?h"
    using read_header_of_payload [of 2 "[mid_min]" amount min_out 1 mint ?frames] by simp
  moreover have "check_header ?h 1 = Ok ()" "intermediate_min_out ?h = mid_min"
    using k by (simp_all add: check_header_def header_of_def MAX_LEGS_def)
  moreover have "mint \<noteq> SYSTEM_PROGRAM_ID" using k(4) by (simp add: program_agrees)
  ultimately show ?thesis using p x xs(1) y writes_key_writes_to [OF k(5) x(2) p(5)] unfolding d
    by (intro exI [of _ ?d] exI [of _ ?h] exI [of _ p] exI [of _ m] exI [of _ x1] exI [of _ x2]
        exI [of _ y]) simp
qed

section \<open>Three legs\<close>

lemma three_hop_ix_parts:
  assumes "build_three_hop_route_instruction R pid a mid1 mid2 amount min1 min2 min_out mint legs True = Ok i"
  obtains extra where "length legs = 3"
    "check_three_hop a mid1 mid2 amount min1 min2 min_out mint legs = Ok ()"
    "ix_data i = TAG_ROUTE_DYNAMIC_THREE # route_payload amount min_out 1 3 mint [min1, min2]
       (concat (map leg_frame_bytes legs))"
    "ix_accounts i = fixed_metas a (fst (sdk_config_pda R pid)) @ map (\<lambda>k. meta_new k False) [mid1, mid2]
       @ concat (map leg_accounts legs) @ extra"
proof -
  let ?xs = "fixed_metas a (fst (sdk_config_pda R pid)) @ [meta_new mid1 False, meta_new mid2 False]
    @ concat (map leg_accounts legs)"
  from assms have l: "length legs = 3"
    and c: "check_three_hop a mid1 mid2 amount min1 min2 min_out mint legs = Ok ()"
    and i: "i = \<lparr>ix_program_id = pid, ix_accounts = append_fee_mint (?xs @ program_metas 3 [] legs) a,
      ix_data = [TAG_ROUTE_DYNAMIC_THREE_IX] @ u64_bytes amount @ u64_bytes min_out
        @ [FEE_ASSET_TOKEN, 3] @ key_bytes mint @ u64_bytes min1 @ u64_bytes min2
        @ concat (map leg_frame_bytes legs)\<rparr>"
    by (auto simp: build_three_hop_route_instruction_def Let_def result_inv split: if_splits)
  obtain extra where "append_fee_mint (?xs @ program_metas 3 [] legs) a = ?xs @ extra"
    using append_fee_mint_prefix by metis
  then have "ix_accounts i = ?xs @ extra" by (simp only: i instruction.select_convs)
  moreover have "ix_data i = TAG_ROUTE_DYNAMIC_THREE # route_payload amount min_out 1 3 mint [min1, min2]
      (concat (map leg_frame_bytes legs))"
    by (simp add: i route_payload_def TAG_ROUTE_DYNAMIC_THREE_IX_def TAG_ROUTE_DYNAMIC_THREE_def FEE_ASSET_TOKEN_def)
  ultimately show thesis using l c by (intro that [of extra]) simp_all
qed

lemma writes_to_named: "writes_to accs m \<Longrightarrow> address m \<in> address ` set accs"
proof -
  assume "writes_to accs m"
  then obtain v where "v \<in> set accs" "address v = address m" by (auto simp: writes_to_def list_ex_iff)
  then show ?thesis by (metis image_eqI)
qed

lemma not_writes_to:
  assumes "same_leg x l" "address m \<notin> address ` set (leg_accounts l)"
  shows "\<not> writes_to (leg_accounts x) m"
proof
  assume "writes_to (leg_accounts x) m"
  then have "address m \<in> set (map address (leg_accounts x))" using writes_to_named by simp
  moreover have "map address (leg_accounts x) = map address (leg_accounts l)"
    using assms(1) by (auto simp: same_leg_def intro: delivers_address)
  ultimately have "address m \<in> set (map address (leg_accounts l))" by (simp only:)
  with assms(2) show False by simp
qed

text \<open>The runtime merges the flags of a transaction's account metas: the views of one account share
  whether it is writable.\<close>

definition merged_flags :: "account_view list \<Rightarrow> bool" where
  "merged_flags accs \<longleftrightarrow>
     (\<forall>v \<in> set accs. \<forall>w \<in> set accs. address v = address w \<longrightarrow> is_writable v = is_writable w)"

definition merge_flags :: "account_view list \<Rightarrow> account_view list" where
  "merge_flags accs = map (\<lambda>v. v\<lparr>is_writable := list_ex (\<lambda>w. address w = address v \<and> is_writable w) accs\<rparr>) accs"

lemma merge_flags_ok: "delivers (merge_flags accs) accs" "merged_flags (merge_flags accs)"
proof -
  have "list_all2 delivers1 (map (\<lambda>v. v\<lparr>is_writable := list_ex (\<lambda>w. address w = address v \<and> is_writable w) all\<rparr>) xs) xs"
    if "set xs \<subseteq> set all" for xs all
    using that by (induction xs) (auto simp: delivers1_def list_ex_iff)
  then show "delivers (merge_flags accs) accs" by (simp add: delivers_def merge_flags_def)
  show "merged_flags (merge_flags accs)" by (auto simp: merged_flags_def merge_flags_def)
qed

lemma named_is_written:
  assumes "merged_flags accs" "set xs \<subseteq> set accs" "m \<in> set accs" "is_writable m"
    "address m \<in> address ` set xs"
  shows "writes_to xs m"
proof -
  from assms(5) obtain v where v: "v \<in> set xs" "address v = address m" by (metis imageE)
  with assms(1-4) have "is_writable v" unfolding merged_flags_def by blast
  with v show ?thesis by (auto simp: writes_to_def list_ex_iff)
qed

text \<open>The accounts a split hands out are the ones the program was given.\<close>

lemma split_accounts_from:
  assumes "split_accounts accs n = Ok p"
  shows "set (remaining p) \<subseteq> set accs" "second_intermediate p = Some m \<Longrightarrow> m \<in> set accs"
proof -
  from assms obtain u c fd fs uo fp rest where a: "accs = u # c # fd # fs # uo # fp # rest"
    by (auto simp: split_accounts_def split: list.splits)
  show "set (remaining p) \<subseteq> set accs" "second_intermediate p = Some m \<Longrightarrow> m \<in> set accs"
    using assms unfolding a
    by (cases rest; cases "tl rest"; auto simp: split_accounts_def result_inv split: if_splits)+
qed

text \<open>A first leg that may write the second intermediate account is never run.\<close>

lemma first_leg_refused:
  assumes "process_inner RT pid accs d 2 s = Ok s'" "read_header d 2 = Ok h" "num_legs h = 3"
    "split_accounts accs 2 = Ok p" "second_intermediate p = Some m2"
    "parse_legs d 3 66 (remaining p) = Ok (x # xs, k)"
  shows "\<not> writes_to (leg_accounts x) m2"
proof -
  from process_inner_run [OF assms(1,2,4)] obtain s1 q1 q2 st where
    "run_legs RT (mk_ctx 2 h p q1 q2) d 3 0 (initial_loop 2 s1) = Ok st" by (metis assms(3))
  then obtain st1 where "run_leg RT (mk_ctx 2 h p q1 q2) d 0 (initial_loop 2 s1) = Ok st1"
    by (auto simp: numeral_3_eq_3 result_inv)
  then obtain f vs ld where f: "read_leg d (ls_cursor (initial_loop 2 s1)) = Ok f"
    "vs = slice (ls_offset (initial_loop 2 s1)) (ls_offset st1) (remaining (rc_accounts (mk_ctx 2 h p q1 q2)))"
    "length vs = lf_num_accounts f" "ls_offset st1 = ls_offset (initial_loop 2 s1) + length vs"
    "leg_invoke_data (mk_ctx 2 h p q1 q2) 0 f vs (ls_received (initial_loop 2 s1))
      (ledger (ls_chain (initial_loop 2 s1))) = Ok ld"
    by (rule run_leg_Ok)
  have c: "ls_cursor (initial_loop 2 s1) = 66" "ls_offset (initial_loop 2 s1) = 0"
    by (simp_all add: initial_loop_def ROUTE_HEADER_LEN_def)
  have "leg_accounts x = vs"
    using assms(6) f(1-4) by (auto simp: c numeral_3_eq_3 result_inv slice_def split: if_splits)
  moreover have "\<not> writes_to vs m2"
    using f(5) assms(3,5) by (auto simp: leg_invoke_data_def fixed_leg_data_def result_inv split: if_splits)
  ultimately show ?thesis by simp
qed

text \<open>C34. A three-leg dynamic route that the SDK builds passes the checks the program makes before it
  reads the ledger: the header is accepted, the legs parse back, the first leg writes the first
  intermediate account, the second leg is a swap from the first to the second intermediate and is
  not LaunchLab's, the third is a swap from the second intermediate to the output, and both carry a
  zero amount. The one check left open is that the first leg must not be able to write the second
  intermediate account: it is passed if the first leg does not name that account. The SDK also
  builds a route whose first leg names it read-only; the runtime merges the flags of an account, and
  then the program never executes the route.\<close>

theorem sdk_three_hop_accepted:
  assumes "build_three_hop_route_instruction R pid a mid1 mid2 amount min1 min2 min_out mint legs True = Ok i"
    "delivers accs (ix_accounts i)"
  shows "\<exists>d h p m1 m2 x1 x2 x3 y2 y3. ix_data i = TAG_ROUTE_DYNAMIC_THREE # d \<and> read_header d 2 = Ok h \<and>
    check_header h 2 = Ok () \<and> amount_in h = amount \<and> min_amount_out h = min_out \<and>
    intermediate_min_out h = min1 \<and> second_intermediate_min_out h = min2 \<and>
    expected_output_mint h = mint \<and> mint \<noteq> SYSTEM_PROGRAM_ID \<and>
    split_accounts accs 2 = Ok p \<and> addressed p a (fst (sdk_config_pda R pid)) \<and>
    intermediate p = Some m1 \<and> address m1 = mid1 \<and> is_writable m1 \<and>
    second_intermediate p = Some m2 \<and> address m2 = mid2 \<and> is_writable m2 \<and> mid1 \<noteq> mid2 \<and>
    parse_legs d 3 66 (remaining p) = Ok ([x1, x2, x3], length d) \<and> list_all2 same_leg [x1, x2, x3] legs \<and>
    writes_to (leg_accounts x1) m1 \<and>
    (mid2 \<notin> address ` set (leg_accounts (legs ! 0)) \<longrightarrow> \<not> writes_to (leg_accounts x1) m2) \<and>
    (mid2 \<in> address ` set (leg_accounts (legs ! 0)) \<and> merged_flags accs \<longrightarrow>
      (\<forall>RT s. \<not> is_ok (process_instruction RT pid accs (ix_data i) s))) \<and>
    leg_program x2 \<noteq> LAUNCHLAB_PROGRAM_ID \<and>
    dynamic_second_leg (leg_program x2) (leg_data x2) = Ok y2 \<and> zero_amount y2 (leg_data x2) \<and>
    wired y2 (leg_accounts x2) (user p) m1 m2 \<and>
    dynamic_second_leg (leg_program x3) (leg_data x3) = Ok y3 \<and> zero_amount y3 (leg_data x3) \<and>
    wired y3 (leg_accounts x3) (user p) m2 (user_output p)"
proof -
  from assms(1) obtain extra where len: "length legs = 3"
    and c: "check_three_hop a mid1 mid2 amount min1 min2 min_out mint legs = Ok ()"
    and d: "ix_data i = TAG_ROUTE_DYNAMIC_THREE # route_payload amount min_out 1 3 mint [min1, min2]
       (concat (map leg_frame_bytes legs))"
    and ia: "ix_accounts i = fixed_metas a (fst (sdk_config_pda R pid))
       @ map (\<lambda>k. meta_new k False) [mid1, mid2] @ concat (map leg_accounts legs) @ extra"
    by (rule three_hop_ix_parts)
  let ?frames = "concat (map leg_frame_bytes legs)"
  let ?d = "route_payload amount min_out 1 3 mint [min1, min2] ?frames"
  let ?h = "header_of amount min_out 1 3 mint [min1, min2]"
  from c have k: "amount \<noteq> 0" "min1 \<noteq> 0" "min2 \<noteq> 0" "min_out \<noteq> 0" "mint \<noteq> SYSTEM_PROGRAM" "mid1 \<noteq> mid2"
    "list_all three_hop_leg_ok legs" "writes_key (legs ! 0) mid1"
    and v: "validate_dynamic_leg (legs ! 1) (ra_payer a) mid1 mid2 True False = Ok ()"
    "validate_dynamic_leg (legs ! 2) (ra_payer a) mid2 (ra_output_token_account a) True True = Ok ()"
    by (auto simp: check_three_hop_def result_inv split: if_splits)
  have s: "list_all sendable legs"
    using k(7) by (auto simp: three_hop_leg_ok_def sendable_def list_all_iff)
  obtain p m1 m2 where p: "split_accounts accs 2 = Ok p" "addressed p a (fst (sdk_config_pda R pid))"
    "delivers (remaining p) (concat (map leg_accounts legs) @ extra)"
    "intermediate p = Some m1" "address m1 = mid1" "is_writable m1"
    "second_intermediate p = Some m2" "address m2 = mid2" "is_writable m2"
    using delivered_split [OF assms(2) [unfolded ia]] by (auto simp: addressed_def numeral_2_eq_2)
  have "?d = route_payload amount min_out 1 3 mint [min1, min2] [] @ ?frames"
    "length (route_payload amount min_out 1 3 mint [min1, min2] []) = 66"
    by (simp_all add: route_payload_def)
  with parse_legs_of_frames [OF s p(3)] len obtain xs where
    xs: "parse_legs ?d 3 66 (remaining p) = Ok (xs, length ?d)" "list_all2 same_leg xs legs"
    by metis
  then have "length xs = 3" using len by (simp add: list_all2_lengthD)
  then obtain x1 x2 x3 where x: "xs = [x1, x2, x3]"
    by (metis length_0_conv length_Suc_conv numeral_3_eq_3)
  with xs(2) have sl: "same_leg x1 (legs ! 0)" "same_leg x2 (legs ! 1)" "same_leg x3 (legs ! 2)"
    by (auto simp: list_all2_Cons1)
  have pu: "address (user p) = ra_payer a" "address (user_output p) = ra_output_token_account a"
    using p(2) by (simp_all add: addressed_def)
  obtain y2 where y2: "dynamic_second_leg (leg_program x2) (leg_data x2) = Ok y2"
    "wired y2 (leg_accounts x2) (user p) m1 m2" "zero_amount y2 (leg_data x2)"
    "leg_program x2 \<noteq> LAUNCHLAB_PROGRAM_ID"
    using validated_leg_wired [OF v(1) sl(2) pu(1) p(5) p(8)] by blast
  obtain y3 where y3: "dynamic_second_leg (leg_program x3) (leg_data x3) = Ok y3"
    "wired y3 (leg_accounts x3) (user p) m2 (user_output p)" "zero_amount y3 (leg_data x3)"
    using validated_leg_wired [OF v(2) sl(3) pu(1) p(8) pu(2)] by blast
  have nw: "\<not> writes_to (leg_accounts x1) m2" if "mid2 \<notin> address ` set (leg_accounts (legs ! 0))"
    using not_writes_to [OF sl(1), of m2] that p(8) by simp
  have rh: "read_header ?d 2 = Ok ?h"
    using read_header_of_payload [of 3 "[min1, min2]" amount min_out 1 mint ?frames]
    by (simp add: numeral_2_eq_2)
  have refused: "\<not> is_ok (process_instruction RT pid accs (ix_data i) s)"
    if n: "mid2 \<in> address ` set (leg_accounts (legs ! 0))" and mf: "merged_flags accs" for RT s
  proof
    assume "is_ok (process_instruction RT pid accs (ix_data i) s)"
    then obtain s' where "process_inner RT pid accs ?d 2 s = Ok s'"
      unfolding d by (cases "process_instruction RT pid accs (TAG_ROUTE_DYNAMIC_THREE # ?d) s")
        (auto simp: tag_defs route_process_dynamic_three_def)
    from first_leg_refused [OF this rh _ p(1,7) xs(1) [unfolded x]]
    have "\<not> writes_to (leg_accounts x1) m2" by (simp add: header_of_def)
    moreover have "map address (leg_accounts x1) = map address (leg_accounts (legs ! 0))"
      using sl(1) by (auto simp: same_leg_def intro: delivers_address)
    then have "address m2 \<in> address ` set (leg_accounts x1)" using n p(8) by (metis list.set_map)
    moreover obtain n where "leg_accounts x1 = take n (remaining p)"
      using xs(1) by (auto simp: x numeral_3_eq_3 result_inv split: if_splits)
    then have "set (leg_accounts x1) \<subseteq> set accs"
      using split_accounts_from(1) [OF p(1)] set_take_subset by force
    ultimately show False
      using named_is_written [OF mf _ split_accounts_from(2) [OF p(1,7)] p(9)] by blast
  qed
  have "check_header ?h 2 = Ok ()" "intermediate_min_out ?h = min1"
    "second_intermediate_min_out ?h = min2"
    using k by (simp_all add: check_header_def header_of_def MAX_LEGS_def)
  moreover have "mint \<noteq> SYSTEM_PROGRAM_ID" using k(5) by (simp add: program_agrees)
  ultimately show ?thesis
    using p x xs y2 y3 nw refused rh writes_key_writes_to [OF k(8) sl(1) p(5)] k(6) unfolding d
    by (intro exI [of _ ?d] exI [of _ ?h] exI [of _ p] exI [of _ m1] exI [of _ m2] exI [of _ x1]
        exI [of _ x2] exI [of _ x3] exI [of _ y2] exI [of _ y3]) simp
qed

section \<open>Witnesses\<close>

lemma demo_leg_layout:
  "dynamic_leg_layout (demo_sdk_leg src dst m1 m2 x) = Ok (mk_ix_layout 4 5 0 8 12)"
  by (simp add: dynamic_leg_layout_def Let_def demo_sdk_leg_def program_agrees discriminator_agrees
      demo_swap_def CPMM_SWAP_BASE_IN_def slice_def)

lemma demo_sdk_leg_simps:
  "leg_program (demo_sdk_leg src dst m1 m2 x) = RAYDIUM_CPMM_PROGRAM_ID"
  "leg_accounts (demo_sdk_leg src dst m1 m2 x) = demo_leg_accounts src dst m1 m2"
  "leg_data (demo_sdk_leg src dst m1 m2 x) = demo_swap x"
  by (simp_all add: demo_sdk_leg_def)

lemma demo_validated:
  "validate_dynamic_leg (demo_sdk_leg src dst m1 m2 0) 1 src dst z al = Ok ()"
proof -
  have "slice 8 16 (demo_swap 0) = replicate 8 0"
    by (simp add: demo_swap_def CPMM_SWAP_BASE_IN_def slice_def u64_bytes_def demo_to_le_0)
  then show ?thesis
    unfolding validate_dynamic_leg_def demo_leg_layout demo_sdk_leg_simps
    by (simp add: mk_ix_layout_def Let_def demo_leg_accounts_def program_agrees)
qed

lemma demo_writes_key: "writes_key (demo_sdk_leg src dst m1 m2 x) dst"
  by (simp add: writes_key_def demo_sdk_leg_def demo_leg_accounts_def)

lemma demo_leg_length [simp]:
  "length (leg_accounts (demo_sdk_leg src dst m1 m2 x)) = 13" "length (leg_data (demo_sdk_leg src dst m1 m2 x)) = 24"
  by (simp_all add: demo_sdk_leg_def demo_leg_accounts_def demo_swap_def CPMM_SWAP_BASE_IN_def)

lemma demo_dynamic_built:
  "\<exists>i. build_dynamic_route_instruction demo_pda 7 demo_ix_accounts 10 100 50 90 21
     (demo_sdk_leg 4 10 20 22 99) (demo_sdk_leg 10 5 22 21 0) = Ok i"
  using demo_validated [of 10 5 22 21 False True] demo_writes_key [of 4 10 20 22 99]
  by (simp add: build_dynamic_route_instruction_def check_dynamic_route_def demo_ix_accounts_def
      SYSTEM_PROGRAM_agrees SYSTEM_PROGRAM_ID_def flip: length_greater_0_conv)

theorem sdk_dynamic_accepted_witness:
  "\<exists>i d h p. build_dynamic_route_instruction demo_pda 7 demo_ix_accounts 10 100 50 90 21
      (demo_sdk_leg 4 10 20 22 99) (demo_sdk_leg 10 5 22 21 0) = Ok i \<and>
     ix_data i = TAG_ROUTE_DYNAMIC # d \<and> read_header d 1 = Ok h \<and> check_header h 1 = Ok () \<and>
     split_accounts (ix_accounts i) 1 = Ok p"
proof -
  obtain i where i: "build_dynamic_route_instruction demo_pda 7 demo_ix_accounts 10 100 50 90 21
      (demo_sdk_leg 4 10 20 22 99) (demo_sdk_leg 10 5 22 21 0) = Ok i" using demo_dynamic_built ..
  with sdk_dynamic_accepted [OF i delivers_refl] show ?thesis by blast
qed

lemma demo_three_built:
  "\<exists>i. build_three_hop_route_instruction demo_pda 7 demo_ix_accounts 10 11 100 50 60 90 21
     [demo_sdk_leg 4 10 20 22 99, demo_sdk_leg 10 11 22 23 0, demo_sdk_leg 11 5 23 21 0] True = Ok i"
  using demo_validated [of 10 11 22 23 True False] demo_validated [of 11 5 23 21 True True]
    demo_writes_key [of 4 10 20 22 99]
  by (simp add: build_three_hop_route_instruction_def check_three_hop_def demo_ix_accounts_def
      three_hop_leg_ok_def SYSTEM_PROGRAM_agrees SYSTEM_PROGRAM_ID_def demo_sdk_leg_def
      demo_leg_accounts_def demo_swap_def CPMM_SWAP_BASE_IN_def writes_key_def)

text \<open>The same route with a first leg that names the second intermediate account read-only.\<close>

definition demo_naming_leg :: leg where
  "demo_naming_leg = (demo_sdk_leg 4 10 20 22 99)\<lparr>leg_accounts :=
     demo_leg_accounts 4 10 20 22 @ [meta_ro 11 False]\<rparr>"

lemma demo_naming_built:
  "\<exists>i. build_three_hop_route_instruction demo_pda 7 demo_ix_accounts 10 11 100 50 60 90 21
     [demo_naming_leg, demo_sdk_leg 10 11 22 23 0, demo_sdk_leg 11 5 23 21 0] True = Ok i"
  using demo_validated [of 10 11 22 23 True False] demo_validated [of 11 5 23 21 True True]
  by (simp add: build_three_hop_route_instruction_def check_three_hop_def demo_ix_accounts_def
      three_hop_leg_ok_def SYSTEM_PROGRAM_agrees SYSTEM_PROGRAM_ID_def demo_sdk_leg_def demo_naming_leg_def
      demo_leg_accounts_def demo_swap_def CPMM_SWAP_BASE_IN_def writes_key_def meta_ro_def)

theorem sdk_three_hop_accepted_witness:
  "(\<exists>i d h. build_three_hop_route_instruction demo_pda 7 demo_ix_accounts 10 11 100 50 60 90 21
      [demo_sdk_leg 4 10 20 22 99, demo_sdk_leg 10 11 22 23 0, demo_sdk_leg 11 5 23 21 0] True = Ok i \<and>
     ix_data i = TAG_ROUTE_DYNAMIC_THREE # d \<and> read_header d 2 = Ok h \<and> check_header h 2 = Ok ()) \<and>
   (\<exists>i. build_three_hop_route_instruction demo_pda 7 demo_ix_accounts 10 11 100 50 60 90 21
      [demo_naming_leg, demo_sdk_leg 10 11 22 23 0, demo_sdk_leg 11 5 23 21 0] True = Ok i \<and>
     (\<forall>RT s. \<not> is_ok (process_instruction RT 7 (merge_flags (ix_accounts i)) (ix_data i) s)))"
proof -
  obtain i j where i: "build_three_hop_route_instruction demo_pda 7 demo_ix_accounts 10 11 100 50 60 90 21
      [demo_sdk_leg 4 10 20 22 99, demo_sdk_leg 10 11 22 23 0, demo_sdk_leg 11 5 23 21 0] True = Ok i"
    and j: "build_three_hop_route_instruction demo_pda 7 demo_ix_accounts 10 11 100 50 60 90 21
      [demo_naming_leg, demo_sdk_leg 10 11 22 23 0, demo_sdk_leg 11 5 23 21 0] True = Ok j"
    using demo_three_built demo_naming_built by blast
  have "11 \<in> address ` set (leg_accounts ([demo_naming_leg, demo_sdk_leg 10 11 22 23 0,
      demo_sdk_leg 11 5 23 21 0] ! 0))"
    by (simp add: demo_naming_leg_def meta_ro_def)
  with sdk_three_hop_accepted [OF j merge_flags_ok(1)] merge_flags_ok(2)
  have "\<forall>RT s. \<not> is_ok (process_instruction RT 7 (merge_flags (ix_accounts j)) (ix_data j) s)" by blast
  with j sdk_three_hop_accepted [OF i delivers_refl] i show ?thesis by blast
qed

end
