(* ===== verification/Admin_Props.thy ===== *)
theory Admin_Props
  imports Config_Props Encode_Props
begin

text \<open>
  The administration instructions of the SDK, executed by the program. The program and the SDK
  derive addresses by the same function of the runtime; that is the hypothesis \<open>same_pdas\<close>.
\<close>

definition same_pdas :: "runtime \<Rightarrow> 'z pda_scheme \<Rightarrow> bool" where
  "same_pdas R P \<longleftrightarrow> find_program_address R = find_pda P"

lemma delivers_Nil [simp]: "delivers vs [] \<longleftrightarrow> vs = []"
  by (simp add: delivers_def)

lemma same_config_pda: "same_pdas R P \<Longrightarrow> config_pda R pid = sdk_config_pda P pid"
  by (simp add: same_pdas_def config_pda_def sdk_config_pda_def seed_agrees)

lemma u16_read: "u16_of (slice 0 2 (u16_bytes b @ xs)) = b"
  by (simp add: slice_def)

lemma update_ix_data:
  "ix_data (update_config_ix P pid auth bps pause new) =
     TAG_UPDATE_CONFIG # u16_bytes bps @ [of_bool pause, of_bool (new \<noteq> None)]"
  by (simp add: update_config_ix_def SDK_TAG_UPDATE_CONFIG_def TAG_UPDATE_CONFIG_def split: prod.split)

lemma initialize_ix_data:
  "ix_data (initialize_config P pid auth recipient bps) =
     TAG_INITIALIZE # u16_bytes bps @ [snd (sdk_config_pda P pid)]"
  by (simp add: initialize_config_def SDK_TAG_INITIALIZE_def TAG_INITIALIZE_def split: prod.split)

lemma update_ix_accounts:
  assumes "delivers accs (ix_accounts (update_config_ix P pid auth bps pause new))"
  obtains a c rest where "accs = a # c # rest" "address a = auth" "is_signer a"
    "address c = fst (sdk_config_pda P pid)"
    "case new of None \<Rightarrow> rest = [] | Some r \<Rightarrow> \<exists>v. rest = [v] \<and> address v = r"
proof -
  from assms have "delivers accs ([meta_ro auth True, meta_new (fst (sdk_config_pda P pid)) False]
      @ (case new of Some r \<Rightarrow> [meta_ro r False] | None \<Rightarrow> []))"
    by (simp add: update_config_ix_def split: prod.splits)
  then obtain a c rest where "accs = a # c # rest" "delivers1 a (meta_ro auth True)"
    "delivers1 c (meta_new (fst (sdk_config_pda P pid)) False)"
    "delivers rest (case new of Some r \<Rightarrow> [meta_ro r False] | None \<Rightarrow> [])"
    by (auto simp only: delivers_Cons append.simps)
  then show ?thesis
    by (intro that [of a c rest])
      (auto simp: delivers_Cons delivers1_def meta_new_def meta_ro_def split: option.splits)
qed

lemma update_decoded:
  fixes bps :: u16
  shows "u16_of (slice 0 2 (u16_bytes bps @ [x, y])) = bps"
    "(u16_bytes bps @ [x, y]) ! 2 = x" "(u16_bytes bps @ [x, y]) ! 3 = y"
    "length (u16_bytes bps @ [x, y]) = 4"
  by (simp_all add: u16_read nth_append)

lemma config_update_new:
  assumes "config_read a = Ok cfg"
  shows "config_update a r (Some bps) (Some p) =
    (if bps > MAX_FEE_BPS then Err (router InvalidFeeBps)
     else Ok (store_config (updated_config r (Some bps) (Some p) cfg) a))"
  using assms config_read_Ok [THEN iffD1, OF assms]
  by (auto simp: config_update_def Let_def updated_config_def split: option.splits)

text \<open>C39. An update built by the SDK and signed by the authority does what its arguments say:
  the program refuses a fee above 1000 basis points, and otherwise stores the fee and the pause
  flag, and the new recipient if one is given, in the configuration account, changes nothing else
  and makes no call.\<close>

theorem sdk_update_config:
  assumes "same_pdas R P" "k = fst (sdk_config_pda P pid)"
    "owner (ledger s k) = pid" "config_read (ledger s k) = Ok cfg" "authority cfg = auth"
    "i = update_config_ix P pid auth bps pause new" "delivers accs (ix_accounts i)"
  shows "case process_instruction R pid accs (ix_data i) s of
     Inl e \<Rightarrow> e = router InvalidFeeBps \<and> 1000 < unat bps
   | Inr s' \<Rightarrow> unat bps \<le> 1000 \<and> trace s' = trace s \<and> (\<forall>x. x \<noteq> k \<longrightarrow> ledger s' x = ledger s x) \<and>
       config_read (ledger s' k) = Ok (cfg\<lparr>
         fee_recipient := (case new of Some r \<Rightarrow> r | None \<Rightarrow> fee_recipient cfg),
         fee_bps := bps, paused := of_bool pause\<rparr>)"
proof -
  obtain a c rest where accs: "accs = a # c # rest" "address a = auth" "is_signer a" "address c = k"
    and rest: "case new of None \<Rightarrow> rest = [] | Some r \<Rightarrow> \<exists>v. rest = [v] \<and> address v = r"
    by (rule update_ix_accounts [of accs P pid auth bps pause new])
      (use assms(2,6,7) in simp_all)
  let ?d = "u16_bytes bps @ [of_bool pause, of_bool (new \<noteq> None)] :: bytes"
  have pda: "fst (config_pda R pid) = k" by (simp add: same_config_pda [OF assms(1)] assms(2))
  have "process_instruction R pid accs (ix_data i) s = update_config R pid accs ?d s"
    unfolding assms(6) update_ix_data by (simp add: tag_defs)
  also have "\<dots> = (if bps > MAX_FEE_BPS then Err (router InvalidFeeBps)
      else Ok (set_account k (store_config (updated_config new (Some bps) (Some pause) cfg)
        (ledger s k)) s))"
    unfolding accs(1) update_config.simps update_decoded Let_def
    using rest
    by (cases new; cases pause)
      (auto simp: accs(2-4) pda assms(3,4,5) config_update_new [OF assms(4)])
  finally have p: "process_instruction R pid accs (ix_data i) s = \<dots>" .
  show ?thesis
  proof (cases "bps > MAX_FEE_BPS")
    case True
    then show ?thesis by (simp add: p MAX_FEE_BPS_def word_less_nat_alt)
  next
    case False
    then have le: "unat bps \<le> 1000" by (simp add: MAX_FEE_BPS_def not_less word_le_nat_alt)
    have "config_update (ledger s k) new (Some bps) (Some pause) =
        Ok (store_config (updated_config new (Some bps) (Some pause) cfg) (ledger s k))"
      using False by (simp add: config_update_new [OF assms(4)])
    from config_update_Ok(2) [OF assms(4) this] le False show ?thesis
      by (simp add: p set_account_def) (simp add: updated_config_def)
  qed
qed

lemma demo_same_pdas: "same_pdas demo_owner_runtime demo_pda"
  by (simp add: same_pdas_def demo_owner_runtime_def demo_runtime_def demo_pda_def)

theorem sdk_update_config_witness:
  "case process_instruction demo_owner_runtime 7
      (ix_accounts (update_config_ix demo_pda 7 1 300 True (Some 9)))
      (ix_data (update_config_ix demo_pda 7 1 300 True (Some 9))) demo_chain of
     Inl e \<Rightarrow> False
   | Inr s' \<Rightarrow> config_read (ledger s' 2) = Ok (demo_config\<lparr>fee_recipient := 9, fee_bps := 300, paused := 1\<rparr>)"
proof -
  have "config_read (ledger demo_chain 2) = Ok demo_config" "owner (ledger demo_chain 2) = 7"
    by (simp_all add: demo_chain_def demo_ledger_def)
  with sdk_update_config [OF demo_same_pdas, of 2 7 demo_chain demo_config 1 _ 300 True "Some 9",
      OF demo_config_pda [symmetric] _ _ _ refl delivers_refl]
  show ?thesis by (simp add: demo_config_def split: sum.splits)
qed

section \<open>Initialisation\<close>

lemma initialize_ix_accounts:
  assumes "delivers accs (ix_accounts (initialize_config P pid auth recipient bps))"
  obtains a c r rest where "accs = a # c # r # rest" "address a = auth" "is_signer a"
    "address c = fst (sdk_config_pda P pid)" "address r = recipient"
proof -
  from assms have "delivers accs [meta_new auth True, meta_new (fst (sdk_config_pda P pid)) False,
      meta_ro recipient False, meta_ro SYSTEM_PROGRAM False]"
    by (simp add: initialize_config_def split: prod.splits)
  then obtain a c r y where "accs = [a, c, r, y]" "delivers1 a (meta_new auth True)"
    "delivers1 c (meta_new (fst (sdk_config_pda P pid)) False)" "delivers1 r (meta_ro recipient False)"
    by (auto simp: delivers_Cons)
  then show ?thesis
    by (intro that [of a c r "[y]"]) (auto simp: delivers1_def meta_new_def meta_ro_def)
qed

text \<open>C38. The initialisation the SDK builds, executed by the program, makes the one call that
  creates the configuration account at its canonical address, and stores there exactly the
  configuration asked for: the signer as authority, the given recipient and fee, unpaused, with
  the canonical bump.\<close>

theorem sdk_initialize_config:
  assumes "same_pdas R P" "sdk_config_pda P pid = (k, bmp)"
    "i = initialize_config P pid auth recipient bps" "delivers accs (ix_accounts i)"
    "process_instruction R pid accs (ix_data i) s = Ok s'"
  shows "unat bps \<le> 1000 \<and> trace s' = trace s @ [CreateAccount k CONFIG_LEN pid auth [CONFIG_SEED, [bmp]]] \<and>
    config_read (ledger s' k) = Ok \<lparr>discriminator = CONFIG_DISCRIMINATOR, authority = auth,
      fee_recipient = recipient, fee_bps = bps, bump = bmp, paused = 0, padding = [0, 0, 0, 0]\<rparr>"
proof -
  obtain a c r rest where accs: "accs = a # c # r # rest" "address a = auth" "is_signer a" "address c = k"
    "address r = recipient"
    using initialize_ix_accounts [of accs P pid auth recipient bps] assms(4)
    unfolding assms(2,3) fst_conv by metis
  let ?d = "u16_bytes bps @ [bmp]"
  have "initialize R pid accs ?d s = Ok s'"
    using assms(5) unfolding assms(3) initialize_ix_data by (simp add: assms(2) tag_defs)
  then obtain s1 where "unat (u16_of (slice 0 2 ?d)) \<le> 1000"
    "invoke R (CreateAccount (address c) CONFIG_LEN pid (address a) [CONFIG_SEED, [?d ! 2]]) s = Ok s1"
    "trace s' = trace s1" "config_read (ledger s' (address c)) = Ok (initial_config (address a)
      (address r) (u16_of (slice 0 2 ?d)) (?d ! 2))"
    by (elim initialize_Ok) (auto simp: accs set_account_def)
  then show ?thesis by (auto simp: accs u16_read nth_append invoke_Ok initial_config_def)
qed

definition demo_empty_chain :: chain where
  "demo_empty_chain = \<lparr>ledger = (\<lambda>_. \<lparr>lamports = 0, owner = 0, acc_data = []\<rparr>), trace = []\<rparr>"

lemma demo_sdk_initialize:
  "\<exists>s'. process_instruction demo_runtime 7 (ix_accounts (initialize_config demo_pda 7 1 9 100))
     (ix_data (initialize_config demo_pda 7 1 9 100)) demo_empty_chain = Ok s'"
proof -
  have "is_initialized (decode_config (replicate CONFIG_LEN 0)) = False"
    by (auto simp: is_initialized_def decode_config_def slice_def CONFIG_LEN_def
        CONFIG_DISCRIMINATOR_def dest: arg_cong [of _ _ hd])
  moreover have "sdk_config_pda demo_pda 7 = (2, 255)" by (simp add: sdk_config_pda_def demo_pda_def)
  ultimately show ?thesis
    by (simp add: SDK_TAG_INITIALIZE_def tag_defs u16_read nth_append initialize_config_def meta_new_def
        meta_ro_def initialize.simps initialize_create_def demo_empty_chain_def
        demo_runtime_def config_pda_def invoke_def CONFIG_LEN_def MAX_FEE_BPS_def config_write_new_def)
qed

theorem sdk_initialize_config_witness:
  "\<exists>s'. process_instruction demo_runtime 7 (ix_accounts (initialize_config demo_pda 7 1 9 100))
     (ix_data (initialize_config demo_pda 7 1 9 100)) demo_empty_chain = Ok s' \<and>
     config_read (ledger s' 2) = Ok (initial_config 1 9 100 255)"
proof -
  obtain s' where s': "process_instruction demo_runtime 7 (ix_accounts (initialize_config demo_pda 7 1 9 100))
     (ix_data (initialize_config demo_pda 7 1 9 100)) demo_empty_chain = Ok s'"
    using demo_sdk_initialize ..
  have "same_pdas demo_runtime demo_pda" "sdk_config_pda demo_pda 7 = (2, 255)"
    by (simp_all add: same_pdas_def demo_runtime_def demo_pda_def sdk_config_pda_def)
  from sdk_initialize_config [OF this refl delivers_refl s'] s' show ?thesis
    by (simp add: initial_config_def)
qed

end
