(* ===== verification/Sdk_Pool_Legs.thy ===== *)
theory Sdk_Pool_Legs
  imports Sdk_Legs
begin

text \<open>
  The legs of \<open>legs.rs\<close> for the constant-product pool of Raydium AMM V4 and the concentrated
  and dynamic pools: Meteora DAMM V2, Raydium CLMM, Orca Whirlpool and Meteora DLMM.
\<close>

section \<open>Raydium AMM V4\<close>

definition amm_v4_output_mint :: "raydium_amm_v4_pool \<Rightarrow> pubkey \<Rightarrow> sdk_error + pubkey" where
  "amm_v4_output_mint p im =
     (if rv_coin_mint p = 0 \<or> rv_pc_mint p = 0
      then Err ''Raydium AMM V4 coin/pc mints unset''
      else if im = rv_coin_mint p then Ok (rv_pc_mint p)
      else if im = rv_pc_mint p then Ok (rv_coin_mint p)
      else Err ''Raydium AMM V4 input mint does not match pool'')"

definition amm_v4_token_program :: "raydium_amm_v4_pool \<Rightarrow> sdk_error + pubkey" where
  "amm_v4_token_program p =
     (let tp = (if rv_token_program p = 0 then TOKEN_PROGRAM else rv_token_program p)
      in if tp \<noteq> TOKEN_PROGRAM then Err ''Raydium AMM V4 V2 supports only classic SPL Token'' else Ok tp)"

definition amm_v4_leg ::
  "'z pda_scheme \<Rightarrow> pubkey \<Rightarrow> raydium_amm_v4_pool \<Rightarrow> bytes \<Rightarrow> pubkey \<Rightarrow> sdk_error + leg" where
  "amm_v4_leg R usr p d im =
     bind_r (amm_v4_output_mint p im) (\<lambda>om.
     bind_r (amm_v4_token_program p) (\<lambda>tp. Ok
       \<lparr>leg_program = RAYDIUM_AMM_V4_PROGRAM,
        leg_accounts = [meta_ro tp False, meta_new (rv_amm p) False, META RAYDIUM_AMM_V4_AUTHORITY,
          meta_new (rv_token_coin p) False, meta_new (rv_token_pc p) False,
          meta_new (ata R usr im tp) False, meta_new (ata R usr om tp) False, meta_ro usr True],
        leg_data = d\<rparr>))"

definition raydium_amm_v4_swap_leg ::
  "'z pda_scheme \<Rightarrow> pubkey \<Rightarrow> raydium_amm_v4_pool \<Rightarrow> u64 \<Rightarrow> u64 \<Rightarrow> pubkey \<Rightarrow> sdk_error + leg" where
  "raydium_amm_v4_swap_leg R usr p amount min_out im =
     amm_v4_leg R usr p ([RAYDIUM_AMM_V4_SWAP_BASE_IN_V2] @ u64_bytes amount @ u64_bytes min_out) im"

definition raydium_amm_v4_swap_exact_out_leg ::
  "'z pda_scheme \<Rightarrow> pubkey \<Rightarrow> raydium_amm_v4_pool \<Rightarrow> u64 \<Rightarrow> u64 \<Rightarrow> pubkey \<Rightarrow> sdk_error + leg" where
  "raydium_amm_v4_swap_exact_out_leg R usr p amount_out max_amount_in im =
     amm_v4_leg R usr p
       ([RAYDIUM_AMM_V4_SWAP_BASE_OUT_V2] @ u64_bytes max_amount_in @ u64_bytes amount_out) im"

section \<open>Meteora DAMM V2\<close>

definition damm_v2_mode_ok :: "meteora_damm_v2_pool \<Rightarrow> sdk_error + unit" where
  "damm_v2_mode_ok p =
     (if dm_swap_mode p = METEORA_DAMM_V2_PARTIAL_FILL
      then Err ''Meteora DAMM V2 partial-fill unsupported (router requires exact-in/exact-out spend)''
      else if dm_swap_mode p \<noteq> METEORA_DAMM_V2_EXACT_IN \<and> dm_swap_mode p \<noteq> METEORA_DAMM_V2_EXACT_OUT
      then Err ''unsupported Meteora DAMM V2 swap mode'' else Ok ())"

text \<open>Input program, output mint and output program.\<close>

definition damm_v2_sides ::
  "meteora_damm_v2_pool \<Rightarrow> pubkey \<Rightarrow> sdk_error + (pubkey \<times> pubkey \<times> pubkey)" where
  "damm_v2_sides p im =
     (if im = dm_token_a_mint p then Ok (dm_token_a_program p, dm_token_b_mint p, dm_token_b_program p)
      else if im = dm_token_b_mint p then Ok (dm_token_b_program p, dm_token_a_mint p, dm_token_a_program p)
      else Err ''Meteora DAMM V2 input mint does not match pool'')"

definition damm_v2_referral :: "meteora_damm_v2_pool \<Rightarrow> account_view" where
  "damm_v2_referral p =
     (case dm_referral_token_account p of
        Some referral \<Rightarrow>
          if referral \<noteq> 0 \<and> referral \<noteq> METEORA_DAMM_V2_PROGRAM then meta_new referral False
          else META METEORA_DAMM_V2_PROGRAM
      | None \<Rightarrow> META METEORA_DAMM_V2_PROGRAM)"

definition meteora_damm_v2_swap_leg ::
  "'z pda_scheme \<Rightarrow> pubkey \<Rightarrow> meteora_damm_v2_pool \<Rightarrow> u64 \<Rightarrow> u64 \<Rightarrow> pubkey \<Rightarrow> sdk_error + leg" where
  "meteora_damm_v2_swap_leg R usr p amount min_out im =
     bind_r (require_mint_programs [(dm_token_a_mint p, dm_token_a_program p),
       (dm_token_b_mint p, dm_token_b_program p)] ''Meteora DAMM V2'') (\<lambda>_.
     bind_r (damm_v2_mode_ok p) (\<lambda>_.
     bind_r (damm_v2_sides p im) (\<lambda>(input_tp, om, output_tp).
       let event_authority = fst (find_pda R [ascii ''__event_authority''] METEORA_DAMM_V2_PROGRAM)
       in Ok
       \<lparr>leg_program = METEORA_DAMM_V2_PROGRAM,
        leg_accounts = [META METEORA_DAMM_V2_AUTHORITY, meta_new (dm_pool p) False,
          meta_new (ata R usr im input_tp) False, meta_new (ata R usr om output_tp) False,
          meta_new (dm_token_a_vault p) False, meta_new (dm_token_b_vault p) False,
          meta_ro (dm_token_a_mint p) False, meta_ro (dm_token_b_mint p) False, meta_ro usr True,
          meta_ro (dm_token_a_program p) False, meta_ro (dm_token_b_program p) False,
          damm_v2_referral p, meta_ro event_authority False, META METEORA_DAMM_V2_PROGRAM]
          @ (if dm_include_rate_limiter_sysvar p then [META SYSVAR_INSTRUCTIONS] else []),
        leg_data = METEORA_DAMM_V2_SWAP2 @ u64_bytes amount @ u64_bytes min_out @ [dm_swap_mode p]\<rparr>)))"

section \<open>Raydium CLMM\<close>

text \<open>Output mint, input and output vault, input and output token program.\<close>

definition clmm_sides ::
  "raydium_clmm_pool \<Rightarrow> pubkey \<Rightarrow> sdk_error + (pubkey \<times> pubkey \<times> pubkey \<times> pubkey \<times> pubkey)" where
  "clmm_sides p im =
     (if im = cl_token_0_mint p
      then Ok (cl_token_1_mint p, cl_token_0_vault p, cl_token_1_vault p,
        cl_token_0_program p, cl_token_1_program p)
      else if im = cl_token_1_mint p
      then Ok (cl_token_0_mint p, cl_token_1_vault p, cl_token_0_vault p,
        cl_token_1_program p, cl_token_0_program p)
      else Err ''Raydium CLMM input mint does not match pool'')"

text \<open>The loop over the arrays of the snapshot: the bitmap extension is taken out of the
  list, wherever it stands, and everything else keeps its order.\<close>

fun clmm_split :: "pubkey \<Rightarrow> pubkey list \<Rightarrow> pubkey option \<times> pubkey list \<Rightarrow> pubkey option \<times> pubkey list" where
  "clmm_split bitmap_pda [] st = st"
| "clmm_split bitmap_pda (k # ks) (bitmap, arrays) =
     clmm_split bitmap_pda ks (if k = bitmap_pda then (Some k, arrays) else (bitmap, arrays @ [k]))"

definition clmm_sqrt_limit :: "raydium_clmm_pool \<Rightarrow> pubkey \<Rightarrow> u128" where
  "clmm_sqrt_limit p im =
     (if im = cl_token_0_mint p then MIN_SQRT_PRICE_X64 + 1 else MAX_SQRT_PRICE_X64 - 1)"

definition raydium_clmm_swap_leg ::
  "'z pda_scheme \<Rightarrow> pubkey \<Rightarrow> raydium_clmm_pool \<Rightarrow> u64 \<Rightarrow> u64 \<Rightarrow> pubkey \<Rightarrow> sdk_error + leg" where
  "raydium_clmm_swap_leg R usr p amount min_out im =
     bind_r (require_mint_programs [(cl_token_0_mint p, cl_token_0_program p),
       (cl_token_1_mint p, cl_token_1_program p)] ''Raydium CLMM'') (\<lambda>_.
       let bitmap_pda = raydium_clmm_tick_array_bitmap_extension R (cl_pool_state p);
           ext = cl_tick_array_bitmap_extension p;
           (bitmap, arrays) = clmm_split bitmap_pda (cl_tick_arrays p) (ext, [])
       in if (case ext of Some k \<Rightarrow> k \<noteq> bitmap_pda | None \<Rightarrow> False)
       then Err ''Raydium CLMM bitmap extension does not match pool PDA''
       else if arrays = [] then Err ''Raydium CLMM snapshot has no tick arrays''
       else bind_r (require_array_addresses arrays ''Raydium CLMM'') (\<lambda>_.
       bind_r (clmm_sides p im) (\<lambda>(om, input_vault, output_vault, input_tp, output_tp).
       let accounts = [meta_ro usr True, meta_ro (cl_amm_config p) False,
             meta_new (cl_pool_state p) False, meta_new (ata R usr im input_tp) False,
             meta_new (ata R usr om output_tp) False, meta_new input_vault False,
             meta_new output_vault False, meta_new (cl_observation_state p) False,
             META TOKEN_PROGRAM, META TOKEN_2022_PROGRAM, META MEMO_PROGRAM,
             meta_ro im False, meta_ro om False]
             @ (case bitmap of Some k \<Rightarrow> [meta_new k False] | None \<Rightarrow> [])
             @ map (\<lambda>k. meta_new k False) arrays
       in bind_r (ensure_leg_account_budget (length accounts)) (\<lambda>_. Ok
         \<lparr>leg_program = RAYDIUM_CLMM_PROGRAM, leg_accounts = accounts,
          leg_data = SDK_CLMM_SWAP_V2 @ u64_bytes amount @ u64_bytes min_out
            @ u128_bytes (clmm_sqrt_limit p im) @ [1]\<rparr>))))"

section \<open>Orca Whirlpool\<close>

definition whirlpool_direction :: "whirlpool_pool \<Rightarrow> pubkey \<Rightarrow> sdk_error + bool" where
  "whirlpool_direction p im = (if im = wp_mint_a p then Ok True else if im = wp_mint_b p then Ok False
     else Err ''Whirlpool input mint does not match pool'')"

text \<open>\<open>remaining_accounts_info\<close>: none, or one slice of supplemental tick arrays.\<close>

definition whirlpool_remaining_info :: "pubkey list \<Rightarrow> bytes" where
  "whirlpool_remaining_info supplemental =
     (if supplemental = [] then [0] else [1] @ to_le 4 1 @ [6, of_nat (length supplemental)])"

definition whirlpool_swap_data :: "u64 \<Rightarrow> u64 \<Rightarrow> bool \<Rightarrow> pubkey list \<Rightarrow> bytes" where
  "whirlpool_swap_data amount min_out a_to_b supplemental =
     WHIRLPOOL_SWAP_V2 @ u64_bytes amount @ u64_bytes min_out
     @ u128_bytes (if a_to_b then WHIRLPOOL_MIN_SQRT_PRICE_X64 else WHIRLPOOL_MAX_SQRT_PRICE_X64)
     @ [1, of_bool a_to_b] @ whirlpool_remaining_info supplemental"

definition whirlpool_swap_leg ::
  "'z pda_scheme \<Rightarrow> pubkey \<Rightarrow> whirlpool_pool \<Rightarrow> u64 \<Rightarrow> u64 \<Rightarrow> pubkey \<Rightarrow> sdk_error + leg" where
  "whirlpool_swap_leg R usr p amount min_out im =
     bind_r (require_mint_programs [(wp_mint_a p, wp_token_program_a p),
       (wp_mint_b p, wp_token_program_b p)] ''Orca Whirlpool'') (\<lambda>_.
       let arrays = wp_tick_arrays p in
       if length arrays < 3 then Err ''Whirlpool swap_v2 requires 3 tick arrays''
       else if length arrays > 6 then Err ''Whirlpool allows at most 3 supplemental tick arrays''
       else bind_r (require_array_addresses arrays ''Orca Whirlpool'') (\<lambda>_.
       bind_r (whirlpool_direction p im) (\<lambda>a_to_b.
       let supplemental = drop 3 arrays;
           oracle = fst (find_pda R [ascii ''oracle'', key_bytes (wp_whirlpool p)] ORCA_WHIRLPOOL_PROGRAM);
           accounts = [meta_ro (wp_token_program_a p) False, meta_ro (wp_token_program_b p) False,
             META MEMO_PROGRAM, meta_ro usr True, meta_new (wp_whirlpool p) False,
             meta_ro (wp_mint_a p) False, meta_ro (wp_mint_b p) False,
             meta_new (ata R usr (wp_mint_a p) (wp_token_program_a p)) False,
             meta_new (wp_vault_a p) False,
             meta_new (ata R usr (wp_mint_b p) (wp_token_program_b p)) False,
             meta_new (wp_vault_b p) False, meta_new (arrays ! 0) False,
             meta_new (arrays ! 1) False, meta_new (arrays ! 2) False, meta_new oracle False]
             @ map (\<lambda>k. meta_new k False) supplemental
       in bind_r (ensure_leg_account_budget (length accounts)) (\<lambda>_. Ok
         \<lparr>leg_program = ORCA_WHIRLPOOL_PROGRAM, leg_accounts = accounts,
          leg_data = whirlpool_swap_data amount min_out a_to_b supplemental\<rparr>))))"

section \<open>Meteora DLMM\<close>

definition dlmm_output_mint :: "meteora_dlmm_pool \<Rightarrow> pubkey \<Rightarrow> sdk_error + pubkey" where
  "dlmm_output_mint p im = (if im = dl_token_x_mint p then Ok (dl_token_y_mint p)
     else if im = dl_token_y_mint p then Ok (dl_token_x_mint p)
     else Err ''Meteora DLMM input mint does not match pool'')"

definition dlmm_program_of :: "meteora_dlmm_pool \<Rightarrow> pubkey \<Rightarrow> pubkey" where
  "dlmm_program_of p m = (if m = dl_token_x_mint p then dl_token_x_program p else dl_token_y_program p)"

definition dlmm_bitmap_meta :: "meteora_dlmm_pool \<Rightarrow> account_view" where
  "dlmm_bitmap_meta p =
     (case dl_bitmap_extension p of
        Some k \<Rightarrow> if k = METEORA_DLMM_PROGRAM then meta_ro k False else meta_new k False
      | None \<Rightarrow> meta_ro METEORA_DLMM_PROGRAM False)"

definition meteora_dlmm_swap_leg ::
  "sdk_env \<Rightarrow> pubkey \<Rightarrow> meteora_dlmm_pool \<Rightarrow> u64 \<Rightarrow> u64 \<Rightarrow> pubkey \<Rightarrow> sdk_error + leg" where
  "meteora_dlmm_swap_leg R usr p amount min_out im =
     bind_r (require_mint_programs [(dl_token_x_mint p, dl_token_x_program p),
       (dl_token_y_mint p, dl_token_y_program p)] ''Meteora DLMM'') (\<lambda>_.
       if dl_bin_arrays p = [] then Err ''Meteora DLMM snapshot has no bin arrays''
       else bind_r (require_array_addresses (dl_bin_arrays p) ''Meteora DLMM'') (\<lambda>_.
       if (case dl_bitmap_extension p of
             Some k \<Rightarrow> k \<noteq> dlmm_bitmap_extension_pda R (dl_lb_pair p) \<and> k \<noteq> METEORA_DLMM_PROGRAM
           | None \<Rightarrow> False)
       then Err ''Meteora DLMM bitmap extension does not match pair PDA''
       else bind_r (dlmm_output_mint p im) (\<lambda>om.
       let accounts = [meta_new (dl_lb_pair p) False, dlmm_bitmap_meta p,
             meta_new (dl_reserve_x p) False, meta_new (dl_reserve_y p) False,
             meta_new (ata R usr im (dlmm_program_of p im)) False,
             meta_new (ata R usr om (dlmm_program_of p om)) False,
             meta_ro (dl_token_x_mint p) False, meta_ro (dl_token_y_mint p) False,
             meta_new (dl_oracle p) False, meta_ro METEORA_DLMM_PROGRAM False, meta_ro usr True,
             meta_ro (dl_token_x_program p) False, meta_ro (dl_token_y_program p) False,
             META MEMO_PROGRAM, META METEORA_DLMM_EVENT_AUTHORITY, META METEORA_DLMM_PROGRAM]
             @ map (\<lambda>k. meta_new k False) (dl_bin_arrays p)
       in bind_r (ensure_leg_account_budget (length accounts)) (\<lambda>_. Ok
         \<lparr>leg_program = METEORA_DLMM_PROGRAM, leg_accounts = accounts,
          leg_data = SDK_METEORA_DLMM_SWAP2 @ u64_bytes amount @ u64_bytes min_out
            @ replicate 4 0\<rparr>))))"

end
