(* ===== verification/Sdk_Pool_Guard.thy ===== *)
theory Sdk_Pool_Guard
  imports Sdk_Ata
begin

text \<open>
  The rejection of non-canonical pools, \<open>pool_guard.rs\<close>: the policies, the canonical addresses
  of the venues and the checks of a market and its bridge. The set of trusted pools is a
  set; rejections keep the constant part of their message.
\<close>

record pool_guard_policy =
  guard_enabled :: bool
  stonk_platform_only :: bool
  trusted_pools :: "pubkey set"
  require_trusted_for_amm :: bool

definition guard_default :: pool_guard_policy where
  "guard_default = \<lparr>guard_enabled = True, stonk_platform_only = False, trusted_pools = {},
     require_trusted_for_amm = False\<rparr>"

definition guard_disabled :: pool_guard_policy where
  "guard_disabled = guard_default\<lparr>guard_enabled := False\<rparr>"

definition stonk_strict :: pool_guard_policy where
  "stonk_strict = \<lparr>guard_enabled = True, stonk_platform_only = True, trusted_pools = {},
     require_trusted_for_amm = True\<rparr>"

definition with_trusted_pools :: "pubkey list \<Rightarrow> pool_guard_policy \<Rightarrow> pool_guard_policy" where
  "with_trusted_pools pools g = g\<lparr>trusted_pools := trusted_pools g \<union> set pools\<rparr>"

definition trust :: "pubkey \<Rightarrow> pool_guard_policy \<Rightarrow> pool_guard_policy" where
  "trust pool g = g\<lparr>trusted_pools := insert pool (trusted_pools g)\<rparr>"

definition is_trusted :: "pool_guard_policy \<Rightarrow> pubkey \<Rightarrow> bool" where
  "is_trusted g pool = (pool \<in> trusted_pools g)"

section \<open>Canonical addresses\<close>

definition is_stonkfun_platform :: "pubkey \<Rightarrow> bool" where
  "is_stonkfun_platform k =
     (k = STONKFUN_STANDARD_PLATFORM_CONFIG \<or> k = STONKFUN_REWARD_PLATFORM_CONFIG)"

definition launchlab_pool_pda :: "'z pda_scheme \<Rightarrow> pubkey \<Rightarrow> pubkey \<Rightarrow> pubkey option" where
  "launchlab_pool_pda R base quote = map_option fst
     (try_find_pda R [ascii ''pool'', key_bytes base, key_bytes quote] LAUNCHLAB_PROGRAM)"

definition launchlab_vault_pda :: "'z pda_scheme \<Rightarrow> pubkey \<Rightarrow> pubkey \<Rightarrow> pubkey option" where
  "launchlab_vault_pda R pool_state mint = map_option fst
     (try_find_pda R [ascii ''pool_vault'', key_bytes pool_state, key_bytes mint] LAUNCHLAB_PROGRAM)"

definition pumpfun_bonding_curve_pda :: "'z pda_scheme \<Rightarrow> pubkey \<Rightarrow> pubkey option" where
  "pumpfun_bonding_curve_pda R mint = map_option fst
     (try_find_pda R [ascii ''bonding-curve'', key_bytes mint] PUMPFUN_PROGRAM)"

definition pump_pool_authority_pda :: "'z pda_scheme \<Rightarrow> pubkey \<Rightarrow> pubkey" where
  "pump_pool_authority_pda R mint =
     fst (find_pda R [ascii ''pool-authority'', key_bytes mint] PUMPFUN_PROGRAM)"

definition pumpswap_canonical_pool_pda :: "'z pda_scheme \<Rightarrow> pubkey \<Rightarrow> pubkey" where
  "pumpswap_canonical_pool_pda R mint = fst (find_pda R
     [ascii ''pool'', u16_bytes 0, key_bytes (pump_pool_authority_pda R mint), key_bytes mint,
      key_bytes WSOL_MINT] PUMPSWAP_PROGRAM)"

definition cpmm_vault_pda :: "'z pda_scheme \<Rightarrow> pubkey \<Rightarrow> pubkey \<Rightarrow> pubkey option" where
  "cpmm_vault_pda R pool_state mint = map_option fst
     (try_find_pda R [ascii ''pool_vault'', key_bytes pool_state, key_bytes mint] RAYDIUM_CPMM_PROGRAM)"

definition cpmm_observation_pda :: "'z pda_scheme \<Rightarrow> pubkey \<Rightarrow> pubkey option" where
  "cpmm_observation_pda R pool_state = map_option fst
     (try_find_pda R [ascii ''observation'', key_bytes pool_state] RAYDIUM_CPMM_PROGRAM)"

definition cpmm_pool_pda :: "'z pda_scheme \<Rightarrow> pubkey \<Rightarrow> pubkey \<Rightarrow> pubkey \<Rightarrow> pubkey option" where
  "cpmm_pool_pda R amm_config a b = map_option fst
     (try_find_pda R [ascii ''pool'', key_bytes amm_config, key_bytes a, key_bytes b]
        RAYDIUM_CPMM_PROGRAM)"

section \<open>Checks\<close>

definition reject :: "string \<Rightarrow> sdk_error + unit" where
  "reject msg = Err (''wild pool rejected: '' @ msg)"

definition require_trusted_or :: "pool_guard_policy \<Rightarrow> pubkey \<Rightarrow> string \<Rightarrow> sdk_error + unit" where
  "require_trusted_or g pool label =
     (if is_trusted g pool then Ok ()
      else if require_trusted_for_amm g then reject (label @ '' pool not in trusted_pools'')
      else Ok ())"

text \<open>\<open>if let Some(v) = pda { if key != default && key != v { return reject(..) } }\<close>\<close>

definition matches_pda :: "pubkey option \<Rightarrow> pubkey \<Rightarrow> string \<Rightarrow> sdk_error + unit" where
  "matches_pda derived k msg =
     (case derived of Some v \<Rightarrow> if k \<noteq> 0 \<and> k \<noteq> v then reject msg else Ok () | None \<Rightarrow> Ok ())"

definition assert_launchlab_ok ::
  "'z pda_scheme \<Rightarrow> launchlab_pool \<Rightarrow> pool_guard_policy \<Rightarrow> sdk_error + unit" where
  "assert_launchlab_ok R p g =
     (if \<not> guard_enabled g then Ok ()
      else if is_trusted g (ll_pool_state p) then Ok ()
      else if stonk_platform_only g \<and> \<not> is_stonkfun_platform (ll_platform_config p)
      then reject ''LaunchLab platform_config is not StonkFun''
      else bind_r (ok_or (launchlab_pool_pda R (ll_base_mint p) (ll_quote_mint p))
        ''LaunchLab pool PDA derivation failed'') (\<lambda>expected.
        if ll_pool_state p \<noteq> expected then reject ''LaunchLab pool_state is not the PDA''
        else bind_r (matches_pda (launchlab_vault_pda R (ll_pool_state p) (ll_base_mint p))
          (ll_base_vault p) ''LaunchLab base_vault is not the PDA'') (\<lambda>_.
        matches_pda (launchlab_vault_pda R (ll_pool_state p) (ll_quote_mint p))
          (ll_quote_vault p) ''LaunchLab quote_vault is not the PDA'')))"

definition assert_pumpfun_ok ::
  "'z pda_scheme \<Rightarrow> pumpfun_pool \<Rightarrow> pool_guard_policy \<Rightarrow> sdk_error + unit" where
  "assert_pumpfun_ok R p g =
     (if \<not> guard_enabled g then Ok ()
      else if is_trusted g (pf_bonding_curve p) then Ok ()
      else bind_r (ok_or (pumpfun_bonding_curve_pda R (pf_mint p))
        ''PumpFun bonding-curve PDA derivation failed'') (\<lambda>expected.
        if pf_bonding_curve p \<noteq> expected then reject ''PumpFun bonding_curve is not the PDA''
        else Ok ()))"

definition assert_pumpswap_ok ::
  "'z pda_scheme \<Rightarrow> pumpswap_pool \<Rightarrow> pool_guard_policy \<Rightarrow> sdk_error + unit" where
  "assert_pumpswap_ok R p g =
     (if \<not> guard_enabled g then Ok ()
      else if is_trusted g (ps_pool p) then Ok ()
      else if ps_quote_mint p = WSOL_MINT then
        (if ps_pool p = pumpswap_canonical_pool_pda R (ps_base_mint p) then Ok ()
         else reject ''PumpSwap pool is not canonical (wild / non-graduation pool)'')
      else require_trusted_or g (ps_pool p) ''PumpSwap non-WSOL'')"

definition assert_cpmm_ok ::
  "'z pda_scheme \<Rightarrow> cpmm_pool \<Rightarrow> pool_guard_policy \<Rightarrow> sdk_error + unit" where
  "assert_cpmm_ok R p g =
     (if \<not> guard_enabled g then Ok ()
      else if is_trusted g (cp_pool_state p) then Ok ()
      else bind_r (require_trusted_or g (cp_pool_state p) ''CPMM'') (\<lambda>_.
        if cp_amm_config p \<noteq> 0
          \<and> cpmm_pool_pda R (cp_amm_config p) (cp_base_mint p) (cp_quote_mint p) \<noteq> Some (cp_pool_state p)
          \<and> cpmm_pool_pda R (cp_amm_config p) (cp_quote_mint p) (cp_base_mint p) \<noteq> Some (cp_pool_state p)
        then reject ''CPMM pool_state does not match PDA for amm_config''
        else bind_r (matches_pda (cpmm_vault_pda R (cp_pool_state p) (cp_base_mint p))
          (cp_base_vault p) ''CPMM base_vault is not the PDA'') (\<lambda>_.
        bind_r (matches_pda (cpmm_vault_pda R (cp_pool_state p) (cp_quote_mint p))
          (cp_quote_vault p) ''CPMM quote_vault is not the PDA'') (\<lambda>_.
        matches_pda (cpmm_observation_pda R (cp_pool_state p))
          (cp_observation_state p) ''CPMM observation_state is not the PDA''))))"

definition assert_amm_listed :: "pool_guard_policy \<Rightarrow> pubkey \<Rightarrow> string \<Rightarrow> sdk_error + unit" where
  "assert_amm_listed g pool label =
     (if \<not> guard_enabled g then Ok () else require_trusted_or g pool label)"

fun assert_market_ok :: "'z pda_scheme \<Rightarrow> market \<Rightarrow> pool_guard_policy \<Rightarrow> sdk_error + unit" where
  "assert_market_ok R (LaunchLabInner p) g = assert_launchlab_ok R p g"
| "assert_market_ok R (PumpFunInner p) g = assert_pumpfun_ok R p g"
| "assert_market_ok R (PumpSwapOuter p) g = assert_pumpswap_ok R p g"
| "assert_market_ok R (CpmmOuter p) g = assert_cpmm_ok R p g"
| "assert_market_ok R (RaydiumAmmV4 p) g = assert_amm_listed g (rv_amm p) ''Raydium AmmV4''"
| "assert_market_ok R (MeteoraDammV2 p) g = assert_amm_listed g (dm_pool p) ''Meteora DAMM V2''"
| "assert_market_ok R (RaydiumClmm p) g = assert_amm_listed g (cl_pool_state p) ''Raydium CLMM''"
| "assert_market_ok R (Whirlpool p) g = assert_amm_listed g (wp_whirlpool p) ''Orca Whirlpool''"
| "assert_market_ok R (MeteoraDlmm p) g = assert_amm_listed g (dl_lb_pair p) ''Meteora DLMM''"

definition assert_bridge_ok ::
  "'z pda_scheme \<Rightarrow> bridge_pool option \<Rightarrow> pool_guard_policy \<Rightarrow> sdk_error + unit" where
  "assert_bridge_ok R b g =
     (case b of
        None \<Rightarrow> Ok ()
      | Some (BridgeCpmm p) \<Rightarrow> assert_cpmm_ok R p g
      | Some (BridgeAmmV4 p) \<Rightarrow> assert_amm_listed g (rv_amm p) ''Raydium AmmV4 bridge'')"

definition assert_routed_market_ok ::
  "'z pda_scheme \<Rightarrow> routed_market \<Rightarrow> pool_guard_policy \<Rightarrow> sdk_error + unit" where
  "assert_routed_market_ok R m g =
     bind_r (assert_market_ok R (rm_market m) g) (\<lambda>_. assert_bridge_ok R (rm_bridge m) g)"

end
