(* ===== verification/Sdk_Trade.thy ===== *)
theory Sdk_Trade
  imports Sdk_Quote Sdk_Pool_Legs Sdk_Route_Ix Sdk_Pool_Guard
begin

text \<open>
  The high-level trade builder, first part of \<open>trade.rs\<close>: options, the router client, the
  validation of a market and the helpers of the paths. The buffers a path writes to, the
  setup instructions and the set of touched accounts, are threaded as \<open>trade_state\<close>.
\<close>

section \<open>Computations\<close>

text \<open>\<open>None\<close> is a computation that does not return: the exact-output search of the CPMM
  quote is a loop without a bound in the code.\<close>

type_synonym 'a computation = "(sdk_error + 'a) option"

definition bind_o :: "'a computation \<Rightarrow> ('a \<Rightarrow> 'b computation) \<Rightarrow> 'b computation" where
  "bind_o m f = (case m of None \<Rightarrow> None | Some (Inl e) \<Rightarrow> Some (Inl e) | Some (Inr x) \<Rightarrow> f x)"

lemma bind_o_simps [simp]:
  "bind_o None f = None" "bind_o (Some (Inl e)) f = Some (Inl e)" "bind_o (Some (Inr x)) f = f x"
  by (simp_all add: bind_o_def)

section \<open>Options and client\<close>

record trade_opts =
  to_slippage_bps :: u64
  to_min_out :: "u64 option"
  to_fixed_output :: "u64 option"
  to_buy_with :: buy_with
  to_sell_to :: sell_to
  to_ata :: ata_policy

definition opts_default :: trade_opts where
  "opts_default = \<lparr>to_slippage_bps = 100, to_min_out = None, to_fixed_output = None,
     to_buy_with = BuySol, to_sell_to = SellSol, to_ata = policy_default\<rparr>"

definition opts_buy_with :: "buy_with \<Rightarrow> trade_opts \<Rightarrow> trade_opts" where
  "opts_buy_with b t = t\<lparr>to_buy_with := b, to_ata := (to_ata t)\<lparr>create_meme := True\<rparr>\<rparr>"

definition opts_sell_to_sol :: "trade_opts \<Rightarrow> trade_opts" where
  "opts_sell_to_sol t = t\<lparr>to_sell_to := SellSol,
     to_ata := (to_ata t)\<lparr>create_meme := False, close_wsol := True\<rparr>\<rparr>"

definition opts_sell_to_wsol :: "trade_opts \<Rightarrow> trade_opts" where
  "opts_sell_to_wsol t = t\<lparr>to_sell_to := SellWsol,
     to_ata := (to_ata t)\<lparr>create_meme := False, close_wsol := False\<rparr>\<rparr>"

definition opts_sell_to_token :: "pubkey \<Rightarrow> trade_opts \<Rightarrow> trade_opts" where
  "opts_sell_to_token m t = t\<lparr>to_sell_to := SellToken m,
     to_ata := (to_ata t)\<lparr>create_meme := False, close_wsol := False\<rparr>\<rparr>"

definition validate_fixed_output :: "trade_opts \<Rightarrow> bool \<Rightarrow> sdk_error + unit" where
  "validate_fixed_output t supported =
     (case to_fixed_output t of
        None \<Rightarrow> Ok ()
      | Some target \<Rightarrow>
          if target = 0 then Err ''fixed_output must be positive''
          else if (case to_min_out t of Some minimum \<Rightarrow> minimum > target | None \<Rightarrow> False)
          then Err ''min_out exceeds fixed_output target''
          else if \<not> supported then Err ''fixed_output is unsupported for this trade path''
          else Ok ())"

record built_trade =
  bt_setup :: "instruction list"
  bt_route :: "instruction option"
  bt_cleanup :: "instruction list"

definition into_instructions :: "built_trade \<Rightarrow> instruction list" where
  "into_instructions t = bt_setup t @ (case bt_route t of Some r \<Rightarrow> [r] | None \<Rightarrow> []) @ bt_cleanup t"

record router_client =
  rt_payer :: pubkey
  rt_program_id :: pubkey
  rt_fee_recipient :: pubkey
  rt_fee_bps :: u16
  rt_pool_guard :: pool_guard_policy

definition client_new :: "pubkey \<Rightarrow> pubkey \<Rightarrow> u16 \<Rightarrow> router_client" where
  "client_new payer recipient bps = \<lparr>rt_payer = payer, rt_program_id = PROGRAM_ID,
     rt_fee_recipient = recipient, rt_fee_bps = bps, rt_pool_guard = guard_default\<rparr>"

definition config_address :: "'z pda_scheme \<Rightarrow> router_client \<Rightarrow> pubkey" where
  "config_address R c = fst (sdk_config_pda R (rt_program_id c))"

record trade_state =
  ts_setup :: "instruction list"
  ts_touched :: touched_atas

section \<open>Account preparation\<close>

definition client_create_ata :: "'z pda_scheme \<Rightarrow> router_client \<Rightarrow> pubkey \<Rightarrow> pubkey \<Rightarrow> instruction" where
  "client_create_ata R c mint tp = create_ata R (rt_payer c) (rt_payer c) mint tp"

definition client_close_ata :: "'z pda_scheme \<Rightarrow> router_client \<Rightarrow> pubkey \<Rightarrow> pubkey \<Rightarrow> instruction" where
  "client_close_ata R c mint tp = close_ata R (rt_payer c) mint tp (rt_payer c)"

definition create_meme_ata :: "'z pda_scheme \<Rightarrow> router_client \<Rightarrow> routed_market \<Rightarrow> instruction" where
  "create_meme_ata R c m = client_create_ata R c (routed_meme_mint m) (routed_meme_token_program m)"

definition close_meme_ata :: "'z pda_scheme \<Rightarrow> router_client \<Rightarrow> routed_market \<Rightarrow> instruction" where
  "close_meme_ata R c m = client_close_ata R c (routed_meme_mint m) (routed_meme_token_program m)"

definition create_quote_ata :: "'z pda_scheme \<Rightarrow> router_client \<Rightarrow> routed_market \<Rightarrow> instruction" where
  "create_quote_ata R c m = client_create_ata R c (routed_quote_mint m) (routed_quote_token_program m)"

definition close_quote_ata :: "'z pda_scheme \<Rightarrow> router_client \<Rightarrow> routed_market \<Rightarrow> instruction" where
  "close_quote_ata R c m = client_close_ata R c (routed_quote_mint m) (routed_quote_token_program m)"

text \<open>Whether a SOL-family trade of the market goes through a WSOL account; \<open>as_wsol\<close> says
  that WSOL, and not native SOL, was asked for.\<close>

fun needs_wsol_account :: "market \<Rightarrow> bool \<Rightarrow> bool" where
  "needs_wsol_account (PumpFunInner p) as_wsol =
     (if is_native_sol_quote p then as_wsol \<and> uses_wsol_ata_settlement p else True)"
| "needs_wsol_account m as_wsol = True"

definition token_program_of_payment :: "routed_market \<Rightarrow> pubkey \<Rightarrow> pubkey" where
  "token_program_of_payment m mint =
     (if mint = WSOL_MINT then TOKEN_PROGRAM else routed_quote_token_program m)"

definition prepare_buy_atas ::
  "'z pda_scheme \<Rightarrow> router_client \<Rightarrow> routed_market \<Rightarrow> buy_with \<Rightarrow> instruction list" where
  "prepare_buy_atas R c m b =
     (case b of
        BuyToken mint \<Rightarrow> let tp = token_program_of_payment m mint in
          [client_create_ata R c mint tp, create_ata R (rt_payer c) (rt_fee_recipient c) mint tp]
      | _ \<Rightarrow>
          (if needs_wsol_account (rm_market m) (b = BuyWsol)
           then [create_wsol_ata R (rt_payer c),
                 create_ata R (rt_payer c) (rt_fee_recipient c) WSOL_MINT TOKEN_PROGRAM]
           else [])
          @ (if needs_sol_bridge (rm_market m) then [create_quote_ata R c m] else []))"

definition prepare_sell_atas ::
  "'z pda_scheme \<Rightarrow> router_client \<Rightarrow> routed_market \<Rightarrow> sell_to \<Rightarrow> instruction list" where
  "prepare_sell_atas R c m s =
     [create_ata R (rt_payer c) (rt_fee_recipient c) (routed_meme_mint m) (routed_meme_token_program m)]
     @ (case s of
          SellToken mint \<Rightarrow> [client_create_ata R c mint (token_program_of_payment m mint)]
        | _ \<Rightarrow>
            (if needs_wsol_account (rm_market m) (s = SellWsol)
             then [create_wsol_ata R (rt_payer c)] else [])
            @ (if needs_sol_bridge (rm_market m) then [create_quote_ata R c m] else []))"

definition push_setup :: "instruction \<Rightarrow> trade_state \<Rightarrow> trade_state" where
  "push_setup i st = st\<lparr>ts_setup := ts_setup st @ [i]\<rparr>"

definition touch :: "(touched_atas \<Rightarrow> touched_atas) \<Rightarrow> trade_state \<Rightarrow> trade_state" where
  "touch f st = st\<lparr>ts_touched := f (ts_touched st)\<rparr>"

definition push_create_ata ::
  "'z pda_scheme \<Rightarrow> ata_policy \<Rightarrow> ata_kind \<Rightarrow> pubkey \<Rightarrow> pubkey \<Rightarrow> pubkey \<Rightarrow> trade_state \<Rightarrow> trade_state" where
  "push_create_ata R policy kind payer mint tp st =
     (if allows policy kind then push_setup (create_ata_idempotent R payer payer mint tp) st else st)"

text \<open>The block every path repeats for the account of a payment or quote mint: record it as
  touched, WSOL apart, and create it where the policy allows.\<close>

definition kind_of_mint :: "pubkey \<Rightarrow> ata_kind" where
  "kind_of_mint mint = (if mint = WSOL_MINT then KindWsol else KindQuote)"

definition touch_mint :: "pubkey \<Rightarrow> pubkey \<Rightarrow> trade_state \<Rightarrow> trade_state" where
  "touch_mint mint tp = touch (if mint = WSOL_MINT then touch_wsol else touch_quote mint tp)"

definition use_mint ::
  "'z pda_scheme \<Rightarrow> ata_policy \<Rightarrow> pubkey \<Rightarrow> pubkey \<Rightarrow> pubkey \<Rightarrow> trade_state \<Rightarrow> trade_state" where
  "use_mint R policy payer mint tp st =
     push_create_ata R policy (kind_of_mint mint) payer mint tp (touch_mint mint tp st)"

definition INIT_VOLUME_DATA :: bytes where
  "INIT_VOLUME_DATA = [94, 6, 202, 115, 255, 96, 232, 183]"

definition init_volume_ix :: "'z pda_scheme \<Rightarrow> pubkey \<Rightarrow> instruction" where
  "init_volume_ix R payer =
     \<lparr>ix_program_id = PUMPFUN_PROGRAM,
      ix_accounts = [meta_new payer True, meta_ro payer False,
        meta_new (pumpfun_user_volume_accumulator R payer) False, meta_ro SYSTEM_PROGRAM False,
        meta_ro PUMPFUN_EVENT_AUTHORITY False, meta_ro PUMPFUN_PROGRAM False],
      ix_data = INIT_VOLUME_DATA\<rparr>"

definition prepare_pumpfun_ix :: "pubkey \<Rightarrow> pubkey \<Rightarrow> pumpfun_pool \<Rightarrow> instruction" where
  "prepare_pumpfun_ix rid payer p =
     \<lparr>ix_program_id = rid,
      ix_accounts = [meta_new payer True, meta_ro (pf_bonding_curve p) False,
        meta_new (pf_creator_vault p) False, meta_ro SYSTEM_PROGRAM False],
      ix_data = [TAG_PREPARE_PUMPFUN_IX]\<rparr>"

definition prepare_pumpfun_native_accounts ::
  "'z pda_scheme \<Rightarrow> pubkey \<Rightarrow> pubkey \<Rightarrow> pumpfun_pool \<Rightarrow> bool \<Rightarrow> trade_state \<Rightarrow> trade_state" where
  "prepare_pumpfun_native_accounts R rid payer p initialize_volume st =
     push_setup (prepare_pumpfun_ix rid payer p)
       (if initialize_volume then push_setup (init_volume_ix R payer) st else st)"

section \<open>Validation\<close>

fun validate_inner_market_programs :: "market \<Rightarrow> bool \<Rightarrow> sdk_error + unit" where
  "validate_inner_market_programs (LaunchLabInner p) quote_ata =
     require_mint_programs [(ll_base_mint p, ll_base_token_program p),
       (ll_quote_mint p, ll_quote_token_program p)] ''LaunchLab''"
| "validate_inner_market_programs (PumpFunInner p) quote_ata =
     bind_r (require_token_programs [pf_mint_token_program p] ''PumpFun'') (\<lambda>_.
       if \<not> is_native_sol_quote p \<or> quote_ata then
         bind_r (require_token_programs [pf_quote_token_program p] ''PumpFun quote'') (\<lambda>_.
           if is_native_sol_quote p \<and> pf_quote_token_program p \<noteq> TOKEN_PROGRAM
           then Err ''PumpFun WSOL ATA settlement requires classic WSOL token program'' else Ok ())
       else Ok ())"
| "validate_inner_market_programs m quote_ata = Ok ()"

fun bridge_program_for :: "bridge_pool \<Rightarrow> pubkey \<Rightarrow> pubkey option" where
  "bridge_program_for (BridgeCpmm p) quote = token_program_for p quote"
| "bridge_program_for (BridgeAmmV4 p) quote =
     (if contains_mint (BridgeAmmV4 p) quote
      then Some (if rv_token_program p = 0 then TOKEN_PROGRAM else rv_token_program p) else None)"

definition validate_bridge_quote_program :: "routed_market \<Rightarrow> sdk_error + unit" where
  "validate_bridge_quote_program m =
     bind_r (ok_or (rm_bridge m) ''missing SOL/WSOL bridge'') (\<lambda>bridge.
       if bridge_program_for bridge (routed_quote_mint m) \<noteq> Some (routed_quote_token_program m)
       then Err ''bridge quote token program does not match target market'' else Ok ())"

section \<open>Helpers of the paths\<close>

definition assert_quote_direction :: "pubkey option \<Rightarrow> pubkey \<Rightarrow> u64 option \<Rightarrow> sdk_error + unit" where
  "assert_quote_direction quoted_input inp explicit =
     (if explicit = None \<and> quoted_input \<noteq> Some inp
      then Err ''quote input mint/direction is missing or mismatched; refresh quote or provide min_out''
      else Ok ())"

definition concentrated_min_out ::
  "u64 option \<Rightarrow> u64 option \<Rightarrow> u64 \<Rightarrow> u64 option \<Rightarrow> u64 \<Rightarrow> string \<Rightarrow> sdk_error + u64" where
  "concentrated_min_out expected quoted amount explicit slippage_bps dex =
     (case explicit of
        Some m \<Rightarrow> Ok m
      | None \<Rightarrow> (case quoted of
          None \<Rightarrow> Err (dex @ '' snapshot missing quoted_amount_in; refresh snapshot (required even with with_min_out)'')
        | Some qin \<Rightarrow>
            if qin \<noteq> amount
            then Err (dex @ '' expected_out was quoted for another amount_in; refresh snapshot'')
            else bind_r (ok_or expected
              (dex @ '' snapshot has no expected_out; provide TradeOpts::with_min_out'')) (\<lambda>e.
              Ok (apply_slippage_min_out e slippage_bps))))"

definition bridge_intermediate_min_out :: "u64 \<Rightarrow> u64" where
  "bridge_intermediate_min_out quoted = quoted"

definition bridged_concentrated_min_out :: "u64 option \<Rightarrow> string \<Rightarrow> sdk_error + u64" where
  "bridged_concentrated_min_out explicit dex = ok_or explicit
     (''bridged '' @ dex @ '' requires TradeOpts::with_min_out (do not reuse single-hop expected_out)'')"

definition pair_input_and_output_program ::
  "pubkey \<Rightarrow> pubkey \<Rightarrow> pubkey \<Rightarrow> pubkey \<Rightarrow> pubkey \<Rightarrow> string \<Rightarrow> sdk_error + (pubkey \<times> pubkey)" where
  "pair_input_and_output_program out a b program_a program_b dex =
     (if out = a then Ok (b, program_a) else if out = b then Ok (a, program_b)
      else Err (dex @ '' output mint does not match pool''))"

definition route_amount_in_for_spend :: "u64 \<Rightarrow> u16 \<Rightarrow> sdk_error + u64" where
  "route_amount_in_for_spend spend bps =
     (if bps \<ge> 10000 then Err ''router fee must be below 10_000 bps''
      else if spend = 0 then Ok 0
      else let denominator = 10000 - ucast bps;
               amount = (widen spend - 1) * 10000 div denominator + 1
           in ok_or (try_u64 amount) ''router input including fee exceeds u64'')"

fun resolve_shared_mint :: "cpmm_pool \<Rightarrow> bridge_pool \<Rightarrow> sdk_error + pubkey" where
  "resolve_shared_mint p (BridgeCpmm b) =
     ok_or (shared_in p [cp_base_mint b, cp_quote_mint b]) ''bridge and market pool share no mint''"
| "resolve_shared_mint p (BridgeAmmV4 b) =
     ok_or (shared_in p [rv_coin_mint b, rv_pc_mint b]) ''bridge and market pool share no mint''"

definition bridge_quote_out :: "bridge_pool \<Rightarrow> u64 \<Rightarrow> pubkey \<Rightarrow> sdk_error + u64" where
  "bridge_quote_out b amount im =
     (if \<not> contains_mint b im then Err ''bridge input mint mismatch''
      else case b of
        BridgeCpmm p \<Rightarrow> cpmm_out p amount (im = cp_base_mint p)
      | BridgeAmmV4 p \<Rightarrow> raydium_amm_v4_out p amount (im = rv_coin_mint p))"

definition bridge_in_for_out :: "bridge_pool \<Rightarrow> u64 \<Rightarrow> pubkey \<Rightarrow> u64 computation" where
  "bridge_in_for_out b amount_out im =
     (if \<not> contains_mint b im then Some (Err ''bridge input mint mismatch'')
      else case b of
        BridgeCpmm p \<Rightarrow> cpmm_in_for_out p amount_out (im = cp_base_mint p)
      | BridgeAmmV4 p \<Rightarrow> Some (raydium_amm_v4_in_for_out p amount_out (im = rv_coin_mint p)))"

fun bridge_swap_leg ::
  "'z pda_scheme \<Rightarrow> pubkey \<Rightarrow> bridge_pool \<Rightarrow> u64 \<Rightarrow> u64 \<Rightarrow> pubkey \<Rightarrow> pubkey \<Rightarrow> pubkey \<Rightarrow> pubkey
   \<Rightarrow> sdk_error + leg" where
  "bridge_swap_leg R usr (BridgeCpmm p) amount min_out im om src dst =
     cpmm_swap_leg usr p amount min_out im om src dst"
| "bridge_swap_leg R usr (BridgeAmmV4 p) amount min_out im om src dst =
     raydium_amm_v4_swap_leg R usr p amount min_out im"

definition other_mint :: "cpmm_pool \<Rightarrow> pubkey \<Rightarrow> pubkey" where
  "other_mint p m = (if m = cp_base_mint p then cp_quote_mint p else cp_base_mint p)"

definition pool_token_program :: "cpmm_pool \<Rightarrow> pubkey \<Rightarrow> pubkey" where
  "pool_token_program p m =
     (if m = cp_base_mint p then cp_base_token_program p else cp_quote_token_program p)"

end
