(* ===== verification/Sdk_Buy.thy ===== *)
theory Sdk_Buy
  imports Sdk_Trade
begin

text \<open>
  The buying side of \<open>trade.rs\<close>: one definition per path (\<open>buy_.._with_..\<close>, \<open>buy_via_bridge_..\<close>),
  the dispatch over payment and market in \<open>build_buy_legs\<close>, and \<open>buy_with_opts\<close>. A path
  returns its legs, the minimum output and, where the code reports it, the input spent.
\<close>

section \<open>Paths of one hop\<close>

definition buy_launchlab_with_quote ::
  "'z pda_scheme \<Rightarrow> router_client \<Rightarrow> u64 \<Rightarrow> launchlab_pool \<Rightarrow> pubkey \<Rightarrow> u64 \<Rightarrow> u64 option \<Rightarrow> pubkey
   \<Rightarrow> ata_policy \<Rightarrow> trade_state \<Rightarrow> sdk_error + ((leg list \<times> u64 \<times> u64) \<times> trade_state)" where
  "buy_launchlab_with_quote R c spend p pay_mint slip explicit meme_ata policy st =
     (if pay_mint \<noteq> ll_quote_mint p then Err ''LaunchLab pay mint must be pool quote''
      else
        let payer = rt_payer c; tp = ll_quote_token_program p;
            st' = use_mint R policy payer pay_mint tp st
        in bind_r (launchlab_buy_quote p spend 0) (\<lambda>q.
           let min_out = unwrap_or explicit (apply_slippage_min_out (bq_amount_out q) slip)
           in Ok (([launchlab_buy_leg payer p (bq_amount_in q) min_out meme_ata
                      (ata R payer pay_mint tp)], min_out, bq_amount_in q), st')))"

definition buy_pumpswap_with_quote ::
  "sdk_env \<Rightarrow> router_client \<Rightarrow> u64 \<Rightarrow> pumpswap_pool \<Rightarrow> pubkey \<Rightarrow> u64 \<Rightarrow> u64 option \<Rightarrow> u64 option
   \<Rightarrow> sdk_error + (leg list \<times> u64)" where
  "buy_pumpswap_with_quote R c spend p pay_mint slip explicit fixed_output =
     (if pay_mint \<noteq> ps_quote_mint p then Err ''PumpSwap pay mint must be pool quote''
      else case fixed_output of
        Some amount_out \<Rightarrow> bind_r (pumpswap_buy_exact_out_leg R (rt_payer c) p amount_out spend) (\<lambda>l.
          Ok ([l], amount_out))
      | None \<Rightarrow> bind_r (pumpswap_buy_base_out p spend) (\<lambda>expected.
          let min_out = unwrap_or explicit (apply_slippage_min_out expected slip)
          in bind_r (pumpswap_buy_leg R (rt_payer c) p spend min_out) (\<lambda>l. Ok ([l], min_out))))"

definition buy_raydium_v4_with_mint ::
  "'z pda_scheme \<Rightarrow> router_client \<Rightarrow> u64 \<Rightarrow> raydium_amm_v4_pool \<Rightarrow> pubkey \<Rightarrow> u64 \<Rightarrow> u64 option
   \<Rightarrow> u64 option \<Rightarrow> sdk_error + (leg list \<times> u64)" where
  "buy_raydium_v4_with_mint R c spend p im slip explicit fixed_output =
     (case fixed_output of
        Some amount_out \<Rightarrow>
          bind_r (raydium_amm_v4_swap_exact_out_leg R (rt_payer c) p amount_out spend im) (\<lambda>l.
            Ok ([l], amount_out))
      | None \<Rightarrow> bind_r (raydium_amm_v4_out p spend (im = rv_coin_mint p)) (\<lambda>expected.
          let min_out = unwrap_or explicit (apply_slippage_min_out expected slip)
          in bind_r (raydium_amm_v4_swap_leg R (rt_payer c) p spend min_out im) (\<lambda>l.
            Ok ([l], min_out))))"

text \<open>\<open>match explicit_min_out { Some(min) => min, None => quote? }\<close>\<close>

definition quote_unless :: "u64 option \<Rightarrow> sdk_error + u64 \<Rightarrow> sdk_error + u64" where
  "quote_unless explicit quote = (case explicit of Some m \<Rightarrow> Ok m | None \<Rightarrow> quote)"

definition buy_meteora_v2_with_mint ::
  "'z pda_scheme \<Rightarrow> router_client \<Rightarrow> u64 \<Rightarrow> meteora_damm_v2_pool \<Rightarrow> pubkey \<Rightarrow> u64 \<Rightarrow> u64 option
   \<Rightarrow> u64 option \<Rightarrow> sdk_error + (leg list \<times> u64)" where
  "buy_meteora_v2_with_mint R c spend p im slip explicit fixed_output =
     (case fixed_output of
        Some amount_out \<Rightarrow>
          bind_r (meteora_damm_v2_swap_leg R (rt_payer c) (p\<lparr>dm_swap_mode := METEORA_DAMM_V2_EXACT_OUT\<rparr>)
            amount_out spend im) (\<lambda>l. Ok ([l], amount_out))
      | None \<Rightarrow>
          bind_r (quote_unless explicit (meteora_damm_v2_out p spend (im = dm_token_a_mint p))) (\<lambda>expected.
          let min_out = unwrap_or explicit (apply_slippage_min_out expected slip)
          in bind_r (meteora_damm_v2_swap_leg R (rt_payer c) (p\<lparr>dm_swap_mode := METEORA_DAMM_V2_EXACT_IN\<rparr>)
            spend min_out im) (\<lambda>l. Ok ([l], min_out))))"

definition buy_raydium_clmm_with_mint ::
  "'z pda_scheme \<Rightarrow> router_client \<Rightarrow> u64 \<Rightarrow> raydium_clmm_pool \<Rightarrow> pubkey \<Rightarrow> u64 \<Rightarrow> u64 option
   \<Rightarrow> sdk_error + (leg list \<times> u64)" where
  "buy_raydium_clmm_with_mint R c amount p inp slip explicit =
     bind_r (assert_quote_direction (cl_quoted_input_mint p) inp explicit) (\<lambda>_.
     bind_r (concentrated_min_out (cl_expected_out p) (cl_quoted_amount_in p) amount explicit slip
       ''Raydium CLMM'') (\<lambda>m.
     bind_r (raydium_clmm_swap_leg R (rt_payer c) p amount m inp) (\<lambda>l. Ok ([l], m))))"

definition buy_whirlpool_with_mint ::
  "'z pda_scheme \<Rightarrow> router_client \<Rightarrow> u64 \<Rightarrow> whirlpool_pool \<Rightarrow> pubkey \<Rightarrow> u64 \<Rightarrow> u64 option
   \<Rightarrow> sdk_error + (leg list \<times> u64)" where
  "buy_whirlpool_with_mint R c amount p inp slip explicit =
     bind_r (assert_quote_direction (wp_quoted_input_mint p) inp explicit) (\<lambda>_.
     bind_r (concentrated_min_out (wp_expected_out p) (wp_quoted_amount_in p) amount explicit slip
       ''Orca Whirlpool'') (\<lambda>m.
     bind_r (whirlpool_swap_leg R (rt_payer c) p amount m inp) (\<lambda>l. Ok ([l], m))))"

definition buy_meteora_dlmm_with_mint ::
  "sdk_env \<Rightarrow> router_client \<Rightarrow> u64 \<Rightarrow> meteora_dlmm_pool \<Rightarrow> pubkey \<Rightarrow> u64 \<Rightarrow> u64 option
   \<Rightarrow> sdk_error + (leg list \<times> u64)" where
  "buy_meteora_dlmm_with_mint R c amount p inp slip explicit =
     bind_r (assert_quote_direction (dl_quoted_input_mint p) inp explicit) (\<lambda>_.
     bind_r (concentrated_min_out (dl_expected_out p) (dl_quoted_amount_in p) amount explicit slip
       ''Meteora DLMM'') (\<lambda>m.
     bind_r (meteora_dlmm_swap_leg R (rt_payer c) p amount m inp) (\<lambda>l. Ok ([l], m))))"

definition buy_cpmm_with_mint ::
  "'z pda_scheme \<Rightarrow> router_client \<Rightarrow> u64 \<Rightarrow> cpmm_pool \<Rightarrow> pubkey \<Rightarrow> pubkey \<Rightarrow> u64 \<Rightarrow> u64 option
   \<Rightarrow> u64 option \<Rightarrow> ata_policy \<Rightarrow> trade_state \<Rightarrow> sdk_error + ((leg list \<times> u64) \<times> trade_state)" where
  "buy_cpmm_with_mint R c spend p im om slip explicit fixed_output policy st =
     (let payer = rt_payer c; input_is_base = (im = cp_base_mint p);
          input_tp = pool_token_program p im; output_tp = pool_token_program p om;
          user_in = ata R payer im input_tp; user_out = ata R payer om output_tp;
          st' = (if om = WSOL_MINT
            then push_create_ata R policy KindWsol payer om output_tp (touch touch_wsol st)
            else push_create_ata R policy KindMeme payer om output_tp (touch (touch_meme om output_tp) st))
      in case fixed_output of
        Some amount_out \<Rightarrow>
          bind_r (cpmm_swap_exact_out_leg payer p spend amount_out im om user_in user_out) (\<lambda>l.
            Ok (([l], amount_out), st'))
      | None \<Rightarrow> bind_r (cpmm_out p spend input_is_base) (\<lambda>expected.
          let min_out = unwrap_or explicit (apply_slippage_min_out expected slip)
          in bind_r (cpmm_swap_leg payer p spend min_out im om user_in user_out) (\<lambda>l.
            Ok (([l], min_out), st'))))"

section \<open>Paths over a bridge\<close>

text \<open>Near the graduation of the curve LaunchLab takes less than the first hop would give, and
  the first hop is resized with the inverse quote of the bridge.\<close>

definition launchlab_hop1 ::
  "bridge_pool \<Rightarrow> launchlab_pool \<Rightarrow> u64 \<Rightarrow> u64 \<Rightarrow> launchlab_buy \<Rightarrow> (u64 \<times> launchlab_buy) computation" where
  "launchlab_hop1 b p spend provisional q0 =
     (if bq_amount_in q0 < provisional then
        bind_o (bridge_in_for_out b (bq_amount_in q0) WSOL_MINT) (\<lambda>wsol. Some (
          bind_r (bridge_quote_out b wsol WSOL_MINT) (\<lambda>stock_out.
          bind_r (launchlab_buy_quote p (min stock_out (bq_amount_in q0)) 0) (\<lambda>q. Ok (wsol, q)))))
      else Some (Ok (spend, q0)))"

definition buy_via_bridge_launchlab ::
  "'z pda_scheme \<Rightarrow> router_client \<Rightarrow> u64 \<Rightarrow> launchlab_pool \<Rightarrow> bridge_pool \<Rightarrow> u64 \<Rightarrow> u64 option
   \<Rightarrow> ata_policy \<Rightarrow> trade_state \<Rightarrow> ((leg list \<times> u64 \<times> u64) \<times> trade_state) computation" where
  "buy_via_bridge_launchlab R c spend p b slip explicit policy st =
     (let payer = rt_payer c; stock = ll_quote_mint p; stock_tp = ll_quote_token_program p;
          stock_ata = ata R payer stock stock_tp; wsol_ata = ata R payer WSOL_MINT TOKEN_PROGRAM;
          meme_ata = ata R payer (ll_base_mint p) (ll_base_token_program p);
          st' = use_mint R policy payer stock stock_tp st
      in if bridge_other_mint b WSOL_MINT \<noteq> Some stock
      then Some (Err ''bridge does not connect WSOL to LaunchLab quote'')
      else bind_o (Some (bridge_quote_out b spend WSOL_MINT)) (\<lambda>provisional.
      bind_o (Some (launchlab_buy_quote p provisional 0)) (\<lambda>q0.
      bind_o (launchlab_hop1 b p spend provisional q0) (\<lambda>(wsol_spent, q). Some (
      let hop1_min = bridge_intermediate_min_out (bq_amount_in q) in
      bind_r (bridge_swap_leg R payer b wsol_spent hop1_min WSOL_MINT stock wsol_ata stock_ata) (\<lambda>leg1.
      let hop2_in = min hop1_min (bq_amount_in q) in
      bind_r (launchlab_buy_quote p hop2_in 0) (\<lambda>q2.
      let min_meme = unwrap_or explicit (apply_slippage_min_out (bq_amount_out q2) slip) in
      Ok (([leg1, launchlab_buy_leg payer p hop2_in min_meme meme_ata stock_ata], min_meme, wsol_spent),
        st'))))))))"

text \<open>The second hop of the other venues: the leg and the expected output. A bridged
  concentrated pool needs an explicit minimum, its snapshot was quoted for another amount.\<close>

definition buy_second_hop ::
  "sdk_env \<Rightarrow> pubkey \<Rightarrow> market \<Rightarrow> pubkey \<Rightarrow> u64 \<Rightarrow> u64 \<Rightarrow> u64 option \<Rightarrow> sdk_error + (leg \<times> u64)" where
  "buy_second_hop R payer m quote hop1_min slip explicit =
     (let floor = (\<lambda>expected. unwrap_or explicit (apply_slippage_min_out expected slip)) in
      case m of
        PumpFunInner p \<Rightarrow>
          if \<not> uses_v2 p then Err ''unsupported mainstream bridge market''
          else if pf_quote_mint p \<noteq> quote then Err ''PumpFun V2 bridge quote mismatch''
          else bind_r (quote_unless explicit (pumpfun_buy_token_out p hop1_min)) (\<lambda>expected.
            Ok (pumpfun_buy_v2_leg R payer p hop1_min (floor expected), expected))
      | PumpSwapOuter p \<Rightarrow> bind_r (pumpswap_buy_base_out p hop1_min) (\<lambda>expected.
          bind_r (pumpswap_buy_leg R payer p hop1_min (floor expected)) (\<lambda>l. Ok (l, expected)))
      | RaydiumAmmV4 p \<Rightarrow> bind_r (raydium_amm_v4_out p hop1_min (quote = rv_coin_mint p)) (\<lambda>expected.
          bind_r (raydium_amm_v4_swap_leg R payer p hop1_min (floor expected) quote) (\<lambda>l. Ok (l, expected)))
      | MeteoraDammV2 p \<Rightarrow>
          bind_r (quote_unless explicit (meteora_damm_v2_out p hop1_min (quote = dm_token_a_mint p))) (\<lambda>expected.
          bind_r (meteora_damm_v2_swap_leg R payer (p\<lparr>dm_swap_mode := METEORA_DAMM_V2_EXACT_IN\<rparr>)
            hop1_min (floor expected) quote) (\<lambda>l. Ok (l, expected)))
      | RaydiumClmm p \<Rightarrow> bind_r (bridged_concentrated_min_out explicit ''Raydium CLMM'') (\<lambda>m.
          bind_r (raydium_clmm_swap_leg R payer p hop1_min m quote) (\<lambda>l. Ok (l, m)))
      | Whirlpool p \<Rightarrow> bind_r (bridged_concentrated_min_out explicit ''Orca Whirlpool'') (\<lambda>m.
          bind_r (whirlpool_swap_leg R payer p hop1_min m quote) (\<lambda>l. Ok (l, m)))
      | MeteoraDlmm p \<Rightarrow> bind_r (bridged_concentrated_min_out explicit ''Meteora DLMM'') (\<lambda>m.
          bind_r (meteora_dlmm_swap_leg R payer p hop1_min m quote) (\<lambda>l. Ok (l, m)))
      | _ \<Rightarrow> Err ''unsupported mainstream bridge market'')"

definition buy_via_bridge_mainstream ::
  "sdk_env \<Rightarrow> router_client \<Rightarrow> u64 \<Rightarrow> market \<Rightarrow> bridge_pool \<Rightarrow> u64 \<Rightarrow> u64 option
   \<Rightarrow> ata_policy \<Rightarrow> trade_state \<Rightarrow> sdk_error + ((leg list \<times> u64) \<times> trade_state)" where
  "buy_via_bridge_mainstream R c spend m b slip explicit policy st =
     (let payer = rt_payer c; quote = market_quote_mint m; quote_tp = market_quote_token_program m;
          quote_ata = ata R payer quote quote_tp; wsol_ata = ata R payer WSOL_MINT TOKEN_PROGRAM;
          st' = push_create_ata R policy KindQuote payer quote quote_tp (touch (touch_quote quote quote_tp) st)
      in if bridge_other_mint b WSOL_MINT \<noteq> Some quote
      then Err ''bridge does not connect WSOL to market quote''
      else bind_r (bridge_quote_out b spend WSOL_MINT) (\<lambda>quote_out.
      let hop1_min = bridge_intermediate_min_out quote_out in
      bind_r (bridge_swap_leg R payer b spend hop1_min WSOL_MINT quote wsol_ata quote_ata) (\<lambda>leg1.
      bind_r (buy_second_hop R payer m quote hop1_min slip explicit) (\<lambda>(leg2, expected).
        Ok (([leg1, leg2], unwrap_or explicit (apply_slippage_min_out expected slip)), st')))))"

definition buy_via_bridge_cpmm ::
  "'z pda_scheme \<Rightarrow> router_client \<Rightarrow> u64 \<Rightarrow> cpmm_pool \<Rightarrow> bridge_pool \<Rightarrow> u64 \<Rightarrow> u64 option
   \<Rightarrow> ata_policy \<Rightarrow> trade_state \<Rightarrow> sdk_error + ((leg list \<times> u64) \<times> trade_state)" where
  "buy_via_bridge_cpmm R c spend p b slip explicit policy st =
     bind_r (resolve_shared_mint p b) (\<lambda>stock.
       let payer = rt_payer c; meme = other_mint p stock; stock_tp = pool_token_program p stock;
           meme_tp = pool_token_program p meme; stock_ata = ata R payer stock stock_tp;
           meme_ata = ata R payer meme meme_tp; wsol_ata = ata R payer WSOL_MINT TOKEN_PROGRAM;
           st' = touch (touch_meme meme meme_tp) (use_mint R policy payer stock stock_tp st)
       in if bridge_other_mint b WSOL_MINT \<noteq> Some stock
       then Err ''bridge does not connect WSOL to shared stock mint''
       else bind_r (bridge_quote_out b spend WSOL_MINT) (\<lambda>stock_out.
       let hop1_min = bridge_intermediate_min_out stock_out in
       bind_r (bridge_swap_leg R payer b spend hop1_min WSOL_MINT stock wsol_ata stock_ata) (\<lambda>leg1.
       bind_r (cpmm_out p hop1_min (stock = cp_base_mint p)) (\<lambda>meme_out.
       let min_meme = unwrap_or explicit (apply_slippage_min_out meme_out slip) in
       bind_r (cpmm_swap_leg payer p hop1_min min_meme stock meme stock_ata meme_ata) (\<lambda>leg2.
         Ok (([leg1, leg2], min_meme), st'))))))"

section \<open>Dispatch\<close>

text \<open>\<open>.map(|(legs, min)| (legs, min, spend))\<close>\<close>

definition spending ::
  "u64 \<Rightarrow> sdk_error + ((leg list \<times> u64) \<times> trade_state)
   \<Rightarrow> ((leg list \<times> u64 \<times> u64) \<times> trade_state) computation" where
  "spending spend r = Some (bind_r r (\<lambda>((legs, m), st). Ok ((legs, m, spend), st)))"

definition with_state :: "trade_state \<Rightarrow> sdk_error + 'a \<Rightarrow> sdk_error + ('a \<times> trade_state)" where
  "with_state st r = bind_r r (\<lambda>x. Ok (x, st))"

definition buy_pumpfun ::
  "'z pda_scheme \<Rightarrow> pumpfun_pool \<Rightarrow> u64 \<Rightarrow> trade_opts \<Rightarrow> trade_state \<Rightarrow> (u64 \<Rightarrow> leg)
   \<Rightarrow> sdk_error + ((leg list \<times> u64) \<times> trade_state)" where
  "buy_pumpfun R p spend opts st build =
     bind_r (if to_min_out opts \<noteq> None then Ok 0 else pumpfun_buy_token_out p spend) (\<lambda>expected.
       let min_out = unwrap_or (to_min_out opts) (apply_slippage_min_out expected (to_slippage_bps opts))
       in Ok (([build min_out], min_out), st))"

definition buy_legs_token ::
  "sdk_env \<Rightarrow> router_client \<Rightarrow> u64 \<Rightarrow> routed_market \<Rightarrow> trade_opts \<Rightarrow> pubkey \<Rightarrow> trade_state
   \<Rightarrow> ((leg list \<times> u64 \<times> u64) \<times> trade_state) computation" where
  "buy_legs_token R c spend rm opts pay st =
     (let payer = rt_payer c; meme = routed_meme_mint rm;
          meme_ata = ata R payer meme (routed_meme_token_program rm);
          slip = to_slippage_bps opts; explicit = to_min_out opts; fixed = to_fixed_output opts;
          policy = to_ata opts; paying = (\<lambda>tp. use_mint R policy payer pay tp st)
      in case rm_market rm of
        PumpFunInner p \<Rightarrow>
          if \<not> uses_v2 p then Some (Err ''unsupported buy path for this buy_with / market'')
          else if pay \<noteq> pf_quote_mint p then Some (Err ''PumpFun V2 pay mint must be pool quote'')
          else if is_native_sol_quote p
          then Some (Err ''PumpFun WSOL-quote: use BuyWith::Sol (native) or BuyWith::Wsol (use_v2)'')
          else spending spend (buy_pumpfun R p spend opts st (pumpfun_buy_v2_leg R payer p spend))
      | LaunchLabInner p \<Rightarrow> Some (buy_launchlab_with_quote R c spend p pay slip explicit meme_ata policy st)
      | CpmmOuter p \<Rightarrow> spending spend (buy_cpmm_with_mint R c spend p pay meme slip explicit fixed policy st)
      | PumpSwapOuter p \<Rightarrow> spending spend (with_state (paying (ps_quote_token_program p))
          (buy_pumpswap_with_quote R c spend p pay slip explicit fixed))
      | RaydiumAmmV4 p \<Rightarrow> spending spend (with_state (paying TOKEN_PROGRAM)
          (buy_raydium_v4_with_mint R c spend p pay slip explicit fixed))
      | MeteoraDammV2 p \<Rightarrow> spending spend (with_state
          (paying (if pay = dm_token_a_mint p then dm_token_a_program p else dm_token_b_program p))
          (buy_meteora_v2_with_mint R c spend p pay slip explicit fixed))
      | RaydiumClmm p \<Rightarrow> spending spend (with_state
          (paying (if pay = cl_token_0_mint p then cl_token_0_program p else cl_token_1_program p))
          (buy_raydium_clmm_with_mint R c spend p pay slip explicit))
      | Whirlpool p \<Rightarrow> spending spend (with_state
          (paying (if pay = wp_mint_a p then wp_token_program_a p else wp_token_program_b p))
          (buy_whirlpool_with_mint R c spend p pay slip explicit))
      | MeteoraDlmm p \<Rightarrow> spending spend (with_state
          (paying (if pay = dl_token_x_mint p then dl_token_x_program p else dl_token_y_program p))
          (buy_meteora_dlmm_with_mint R c spend p pay slip explicit)))"

definition bridged ::
  "bridge_pool option \<Rightarrow> string \<Rightarrow> (bridge_pool \<Rightarrow> 'a computation) \<Rightarrow> 'a computation" where
  "bridged b msg f = bind_o (Some (ok_or b msg)) f"

definition buy_legs_sol ::
  "sdk_env \<Rightarrow> router_client \<Rightarrow> u64 \<Rightarrow> routed_market \<Rightarrow> trade_opts \<Rightarrow> bool \<Rightarrow> trade_state
   \<Rightarrow> ((leg list \<times> u64 \<times> u64) \<times> trade_state) computation" where
  "buy_legs_sol R c spend rm opts as_wsol st =
     (let payer = rt_payer c; m = rm_market rm;
          meme_ata = ata R payer (routed_meme_mint rm) (routed_meme_token_program rm);
          slip = to_slippage_bps opts; explicit = to_min_out opts; fixed = to_fixed_output opts;
          policy = to_ata opts;
          direct = (\<lambda>r. spending spend (with_state st r));
          mainstream = (\<lambda>msg. bridged (rm_bridge rm) msg (\<lambda>b.
            spending spend (buy_via_bridge_mainstream R c spend m b slip explicit policy st)))
      in case m of
        PumpFunInner p \<Rightarrow>
          if \<not> as_wsol \<and> is_native_sol_quote p
          then spending spend (buy_pumpfun R p spend opts
            (prepare_pumpfun_native_accounts R (rt_program_id c) payer p True st)
            (\<lambda>min_out. pumpfun_buy_leg R payer p spend min_out meme_ata))
          else if as_wsol \<and> uses_wsol_ata_settlement p
          then spending spend (buy_pumpfun R p spend opts st (pumpfun_buy_v2_leg R payer p spend))
          else if uses_v2 p \<and> \<not> is_native_sol_quote p
          then mainstream ''PumpFun V2 non-WSOL quote needs SOL/quote bridge''
          else Some (Err ''unsupported buy path for this buy_with / market'')
      | LaunchLabInner p \<Rightarrow>
          if is_sol_quote p
          then Some (bind_r (launchlab_buy_quote p spend 0) (\<lambda>q.
            let min_out = unwrap_or explicit (apply_slippage_min_out (bq_amount_out q) slip)
            in Ok (([launchlab_buy_leg payer p (bq_amount_in q) min_out meme_ata
                 (ata R payer WSOL_MINT (ll_quote_token_program p))], min_out, bq_amount_in q), st)))
          else bridged (rm_bridge rm) ''missing SOL/stock bridge'' (\<lambda>b.
            buy_via_bridge_launchlab R c spend p b slip explicit policy st)
      | CpmmOuter p \<Rightarrow>
          if \<not> needs_sol_bridge m
          then spending spend (buy_cpmm_with_mint R c spend p WSOL_MINT (cpmm_meme_mint p) slip explicit
            fixed policy st)
          else bridged (rm_bridge rm) ''missing SOL/stock bridge'' (\<lambda>b.
            spending spend (buy_via_bridge_cpmm R c spend p b slip explicit policy st))
      | PumpSwapOuter p \<Rightarrow>
          if ps_quote_mint p = WSOL_MINT
          then direct (buy_pumpswap_with_quote R c spend p WSOL_MINT slip explicit fixed)
          else mainstream ''missing SOL/quote bridge''
      | RaydiumAmmV4 p \<Rightarrow>
          if \<not> needs_sol_bridge m
          then direct (buy_raydium_v4_with_mint R c spend p WSOL_MINT slip explicit fixed)
          else mainstream ''missing SOL/quote bridge''
      | MeteoraDammV2 p \<Rightarrow>
          if \<not> needs_sol_bridge m
          then direct (buy_meteora_v2_with_mint R c spend p WSOL_MINT slip explicit fixed)
          else mainstream ''missing SOL/quote bridge''
      | RaydiumClmm p \<Rightarrow>
          if \<not> needs_sol_bridge m
          then direct (buy_raydium_clmm_with_mint R c spend p WSOL_MINT slip explicit)
          else mainstream ''missing SOL/quote bridge''
      | Whirlpool p \<Rightarrow>
          if \<not> needs_sol_bridge m
          then direct (buy_whirlpool_with_mint R c spend p WSOL_MINT slip explicit)
          else mainstream ''missing SOL/quote bridge''
      | MeteoraDlmm p \<Rightarrow>
          if \<not> needs_sol_bridge m
          then direct (buy_meteora_dlmm_with_mint R c spend p WSOL_MINT slip explicit)
          else mainstream ''missing SOL/quote bridge'')"

definition build_buy_legs ::
  "sdk_env \<Rightarrow> router_client \<Rightarrow> u64 \<Rightarrow> routed_market \<Rightarrow> trade_opts \<Rightarrow> trade_state
   \<Rightarrow> ((leg list \<times> u64 \<times> u64) \<times> trade_state) computation" where
  "build_buy_legs R c spend rm opts st =
     (case to_buy_with opts of
        BuyToken pay \<Rightarrow> buy_legs_token R c spend rm opts pay st
      | BuySol \<Rightarrow> buy_legs_sol R c spend rm opts False st
      | BuyWsol \<Rightarrow> buy_legs_sol R c spend rm opts True st)"

section \<open>The trade\<close>

definition fixed_buy_supported :: "market \<Rightarrow> bool" where
  "fixed_buy_supported m = (case m of CpmmOuter _ \<Rightarrow> True | RaydiumAmmV4 _ \<Rightarrow> True
     | MeteoraDammV2 _ \<Rightarrow> True | PumpSwapOuter _ \<Rightarrow> True | _ \<Rightarrow> False)"

definition is_pump_native_sol :: "market \<Rightarrow> bool" where
  "is_pump_native_sol m = (case m of PumpFunInner p \<Rightarrow> is_native_sol_quote p | _ \<Rightarrow> False)"

definition pump_wsol_ata :: "market \<Rightarrow> bool" where
  "pump_wsol_ata m = (case m of PumpFunInner p \<Rightarrow> uses_wsol_ata_settlement p | _ \<Rightarrow> False)"

text \<open>The checks of the market and the amount, before the platform fee.\<close>

definition buy_market_checks ::
  "'z pda_scheme \<Rightarrow> router_client \<Rightarrow> u64 \<Rightarrow> routed_market \<Rightarrow> trade_opts \<Rightarrow> sdk_error + unit" where
  "buy_market_checks R c amount rm opts =
     bind_r (validate_router_fee_bps (rt_fee_bps c)) (\<lambda>_.
     bind_r (assert_routed_market_ok R rm (rt_pool_guard c)) (\<lambda>_.
     bind_r (validate_inner_market_programs (rm_market rm) (to_buy_with opts \<noteq> BuySol)) (\<lambda>_.
       if amount = 0 then Err ''amount_in is zero''
       else if sat_sub amount (fee_amount amount (rt_fee_bps c)) = 0
       then Err ''amount after fee is zero'' else Ok ())))"

text \<open>Whether the path needs the bridge, and the checks of the payment asset.\<close>

definition buy_needs_bridge :: "routed_market \<Rightarrow> buy_with \<Rightarrow> sdk_error + bool" where
  "buy_needs_bridge rm b =
     (case b of
        BuyToken mint \<Rightarrow>
          if mint = routed_meme_mint rm then Err ''buy_with token cannot be the meme mint''
          else if mint \<noteq> routed_quote_mint rm then Err ''buy_with token is not this market's quote''
          else Ok False
      | _ \<Rightarrow> Ok (needs_sol_bridge (rm_market rm)))"

definition buy_path_checks :: "routed_market \<Rightarrow> trade_opts \<Rightarrow> sdk_error + unit" where
  "buy_path_checks rm opts =
     bind_r (buy_needs_bridge rm (to_buy_with opts)) (\<lambda>needs_bridge.
     bind_r (validate_fixed_output opts (\<not> needs_bridge \<and> fixed_buy_supported (rm_market rm))) (\<lambda>_.
       if needs_bridge \<and> rm_bridge rm = None
       then Err ''SOL/WSOL path needs stock bridge; or use buy_with_token(mint)''
       else bind_r (if needs_bridge then validate_bridge_quote_program rm else Ok ()) (\<lambda>_.
         if \<not> is_pump_native_sol (rm_market rm) then Ok ()
         else case to_buy_with opts of
           BuySol \<Rightarrow> Ok ()
         | BuyWsol \<Rightarrow> if pump_wsol_ata (rm_market rm) then Ok ()
             else Err ''PumpFun WSOL-quote native settlement uses BuyWith::Sol; set use_v2 for WSOL ATA''
         | BuyToken _ \<Rightarrow> Err ''PumpFun WSOL-quote buy does not accept stock/quote token'')))"

text \<open>The account of the meme mint, and the WSOL account where the payment goes through it.\<close>

definition buy_initial_state ::
  "'z pda_scheme \<Rightarrow> router_client \<Rightarrow> routed_market \<Rightarrow> trade_opts \<Rightarrow> trade_state" where
  "buy_initial_state R c rm opts =
     (let payer = rt_payer c; meme = routed_meme_mint rm; meme_tp = routed_meme_token_program rm;
          st = push_create_ata R (to_ata opts) KindMeme payer meme meme_tp
            \<lparr>ts_setup = [], ts_touched = touch_meme meme meme_tp no_touched\<rparr>
      in if (to_buy_with opts = BuySol \<and> \<not> is_pump_native_sol (rm_market rm)) \<or> to_buy_with opts = BuyWsol
         then push_create_ata R (to_ata opts) KindWsol payer WSOL_MINT TOKEN_PROGRAM (touch touch_wsol st)
         else st)"

record fee_accounts =
  fa_asset :: u8
  fa_destination :: pubkey
  fa_source :: pubkey
  fa_program :: pubkey
  fa_mint :: pubkey

definition buy_fee_accounts ::
  "'z pda_scheme \<Rightarrow> router_client \<Rightarrow> routed_market \<Rightarrow> trade_opts \<Rightarrow> u64 \<Rightarrow> trade_state
   \<Rightarrow> fee_accounts \<times> trade_state" where
  "buy_fee_accounts R c rm opts fee st =
     (let payer = rt_payer c; recipient = rt_fee_recipient c; policy = to_ata opts;
          token = (\<lambda>tp mint prog. \<lparr>fa_asset = FEE_ASSET_TOKEN, fa_destination = ata R recipient mint tp,
            fa_source = ata R payer mint tp, fa_program = prog, fa_mint = mint\<rparr>);
          create = (\<lambda>cond mint tp s. if cond
            then push_setup (create_ata_idempotent R payer recipient mint tp) s else s)
      in case to_buy_with opts of
        BuyToken mint \<Rightarrow>
          let tp = token_program_of_payment rm mint; kind = kind_of_mint mint;
              st1 = create (fee > 0 \<or> allows policy kind) mint tp (touch_mint mint tp st)
          in (token tp mint (token_fee_program tp),
              push_create_ata R policy kind payer mint tp st1)
      | b \<Rightarrow>
          if b = BuySol \<and> is_pump_native_sol (rm_market rm)
          then (\<lparr>fa_asset = FEE_ASSET_SOL, fa_destination = recipient, fa_source = payer,
                fa_program = sol_fee_program, fa_mint = sol_fee_program\<rparr>, st)
          else (token TOKEN_PROGRAM WSOL_MINT TOKEN_PROGRAM,
                create (fee > 0 \<or> create_wsol policy) WSOL_MINT TOKEN_PROGRAM st))"

definition buy_route_amount :: "router_client \<Rightarrow> u64 \<Rightarrow> u64 \<Rightarrow> u64 \<Rightarrow> sdk_error + u64" where
  "buy_route_amount c amount spend swap_spent =
     (if swap_spent = spend then Ok amount else route_amount_in_for_spend swap_spent (rt_fee_bps c))"

text \<open>Everything after the legs: the wrapped amount, the fee accounts, the route.\<close>

definition finish_buy ::
  "sdk_env \<Rightarrow> router_client \<Rightarrow> routed_market \<Rightarrow> trade_opts \<Rightarrow> u64 \<Rightarrow> u64 \<Rightarrow> u64 \<Rightarrow> leg list
   \<Rightarrow> trade_state \<Rightarrow> built_trade" where
  "finish_buy R c rm opts fee route_amount min_out legs st =
     (let payer = rt_payer c; meme = routed_meme_mint rm;
          meme_ata = ata R payer meme (routed_meme_token_program rm);
          wrapped = (if to_buy_with opts = BuySol \<and> \<not> is_pump_native_sol (rm_market rm)
            then st\<lparr>ts_setup := ts_setup st @ wrap_sol_with_options R payer route_amount False\<rparr> else st);
          (fa, st') = buy_fee_accounts R c rm opts fee wrapped;
          route = build_route_instruction_ex R (rt_program_id c)
            \<lparr>ra_payer = payer, ra_fee_destination = fa_destination fa, ra_fee_source = fa_source fa,
             ra_output_token_account = meme_ata, ra_fee_program = fa_program fa, ra_fee_mint = fa_mint fa\<rparr>
            route_amount min_out (fa_asset fa) (to_fixed_output opts \<noteq> None) meme legs
      in \<lparr>bt_setup = ts_setup st', bt_route = Some route,
          bt_cleanup = build_cleanup R (to_ata opts) payer (ts_touched st')\<rparr>)"

definition buy_with_opts ::
  "sdk_env \<Rightarrow> router_client \<Rightarrow> u64 \<Rightarrow> routed_market \<Rightarrow> trade_opts \<Rightarrow> built_trade computation" where
  "buy_with_opts R c amount rm opts =
     bind_o (Some (buy_market_checks R c amount rm opts)) (\<lambda>_.
     bind_o (Some (buy_path_checks rm opts)) (\<lambda>_.
       let fee = fee_amount amount (rt_fee_bps c); spend = sat_sub amount fee in
       bind_o (build_buy_legs R c spend rm opts (buy_initial_state R c rm opts))
         (\<lambda>((legs, min_out, swap_spent), st).
         if to_min_out opts = None \<and> min_out = 0
         then Some (Err ''automatic buy quote rounds to zero output; increase input'')
         else Some (bind_r (buy_route_amount c amount spend swap_spent) (\<lambda>route_amount.
           Ok (finish_buy R c rm opts fee route_amount min_out legs st))))))"

definition client_buy_with :: "sdk_env \<Rightarrow> router_client \<Rightarrow> u64 \<Rightarrow> routed_market \<Rightarrow> buy_with \<Rightarrow> built_trade computation" where
  "client_buy_with R c amount rm b = buy_with_opts R c amount rm (opts_buy_with b opts_default)"

end
