(* ===== verification/Buy_Facts.thy ===== *)
theory Buy_Facts
  imports Sdk_Buy Amm_Quote Cpmm_Quote
begin

text \<open>
  What the paths of \<open>build_buy_legs\<close> return, one lemma per path: at most two legs, a
  minimum output that honours the caller's options, and a first hop within the budget.
\<close>

section \<open>Computations\<close>

lemma bind_o_Some [result_inv]:
  "bind_o m f = Some (Inr y) \<longleftrightarrow> (\<exists>x. m = Some (Inr x) \<and> f x = Some (Inr y))"
  by (cases m) (auto simp: bind_o_def split: sum.splits)

lemma bind_o_None: "bind_o m f = None \<longleftrightarrow> m = None \<or> (\<exists>x. m = Some (Inr x) \<and> f x = None)"
  by (cases m) (auto simp: bind_o_def split: sum.splits)

lemma unwrap_or_simps [simp]: "unwrap_or (Some x) y = x" "unwrap_or None y = y"
  by (simp_all add: unwrap_or_def)

lemma quote_unless_simps [simp]:
  "quote_unless (Some m) q = Ok m" "quote_unless None q = q"
  by (simp_all add: quote_unless_def)

section \<open>Minimum outputs\<close>

text \<open>The minimum a path returns is the fixed output if there is one, else the caller's minimum
  if there is one, else the path's own.\<close>

definition honours :: "u64 option \<Rightarrow> u64 option \<Rightarrow> u64 \<Rightarrow> bool" where
  "honours explicit fixed m = (case fixed of
     Some a \<Rightarrow> m = a | None \<Rightarrow> (case explicit of Some k \<Rightarrow> m = k | None \<Rightarrow> True))"

lemma honours_simps [simp]:
  "honours e (Some a) m \<longleftrightarrow> m = a" "honours (Some k) None m \<longleftrightarrow> m = k" "honours None None m"
  by (simp_all add: honours_def)

lemma honours_unwrap [simp]: "honours e None (unwrap_or e x)"
  by (cases e) simp_all

lemma concentrated_min_out_honours:
  "concentrated_min_out x q a e slip dex = Ok m \<Longrightarrow> honours e None m"
  by (cases e) (simp_all add: concentrated_min_out_def)

lemma buy_launchlab_with_quote_Ok:
  "buy_launchlab_with_quote R c spend p pay slip e ata_m pol st = Ok ((ls, m, x), st') \<Longrightarrow>
   \<exists>q. launchlab_buy_quote p spend 0 = Ok q \<and> x = bq_amount_in q \<and> length ls = 1 \<and> honours e None m"
  by (auto simp: buy_launchlab_with_quote_def Let_def result_inv split: if_splits)

lemma buy_pumpswap_Ok:
  "buy_pumpswap_with_quote R c spend p pay slip e fixed = Ok (ls, m) \<Longrightarrow>
   length ls = 1 \<and> honours e fixed m"
  by (auto simp: buy_pumpswap_with_quote_def Let_def result_inv split: if_splits option.splits)

lemma buy_raydium_v4_Ok:
  "buy_raydium_v4_with_mint R c spend p im slip e fixed = Ok (ls, m) \<Longrightarrow>
   length ls = 1 \<and> honours e fixed m"
  by (auto simp: buy_raydium_v4_with_mint_def Let_def result_inv split: option.splits)

lemma buy_meteora_v2_Ok:
  "buy_meteora_v2_with_mint R c spend p im slip e fixed = Ok (ls, m) \<Longrightarrow>
   length ls = 1 \<and> honours e fixed m"
  by (auto simp: buy_meteora_v2_with_mint_def Let_def result_inv split: option.splits)

lemma buy_concentrated_Ok:
  "buy_raydium_clmm_with_mint R c a p1 inp slip e = Ok (ls, m) \<Longrightarrow> length ls = 1 \<and> honours e None m"
  "buy_whirlpool_with_mint R c a p2 inp slip e = Ok (ls, m) \<Longrightarrow> length ls = 1 \<and> honours e None m"
  "buy_meteora_dlmm_with_mint R' c a p3 inp slip e = Ok (ls, m) \<Longrightarrow> length ls = 1 \<and> honours e None m"
  by (auto simp: buy_raydium_clmm_with_mint_def buy_whirlpool_with_mint_def
      buy_meteora_dlmm_with_mint_def result_inv dest: concentrated_min_out_honours)

lemma buy_cpmm_Ok:
  "buy_cpmm_with_mint R c spend p im om slip e fixed pol st = Ok ((ls, m), st') \<Longrightarrow>
   length ls = 1 \<and> honours e fixed m"
  by (auto simp: buy_cpmm_with_mint_def Let_def result_inv split: option.splits)

lemma buy_pumpfun_Ok:
  "buy_pumpfun R p spend opts st build = Ok ((ls, m), st') \<Longrightarrow>
   length ls = 1 \<and> honours (to_min_out opts) None m"
  by (auto simp: buy_pumpfun_def Let_def result_inv)

lemma buy_mainstream_Ok:
  "buy_via_bridge_mainstream R c spend mk b slip e pol st = Ok ((ls, m), st') \<Longrightarrow>
   length ls = 2 \<and> honours e None m"
  by (auto simp: buy_via_bridge_mainstream_def Let_def result_inv split: if_splits)

lemma buy_bridge_cpmm_Ok:
  "buy_via_bridge_cpmm R c spend p b slip e pol st = Ok ((ls, m), st') \<Longrightarrow>
   length ls = 2 \<and> honours e None m"
  by (auto simp: buy_via_bridge_cpmm_def Let_def result_inv split: if_splits)

section \<open>The input of a LaunchLab buy\<close>

lemma launchlab_graduation_le:
  "launchlab_graduation p a rate i o' r = Ok x \<Longrightarrow> x \<le> a"
  by (auto simp: launchlab_graduation_def result_inv)

lemma launchlab_clamp_le:
  "launchlab_clamp p a rate i o' quoted = Ok (x, g) \<Longrightarrow> x \<le> a"
  by (auto simp: launchlab_clamp_def result_inv dest: launchlab_graduation_le split: if_splits)

lemma launchlab_buy_quote_le:
  assumes "launchlab_buy_quote p a share = Ok q"
  shows "bq_amount_in q \<le> a"
  using assms
  by (auto simp: launchlab_buy_quote_def Let_def result_inv dest: launchlab_clamp_le split: if_splits)

text \<open>The first hop resized for a graduating curve stays within the budget: the budget itself
  reaches the needed amount, and the inverse quote is the least input that does.\<close>

lemma bridge_in_for_out_returns: "bridge_in_for_out b t im \<noteq> None"
proof (cases "t = 0")
  case True
  then show ?thesis by (simp add: bridge_in_for_out_def cpmm_in_for_out_def split: bridge_pool.splits)
next
  case False
  then have "0 < unat t" by (simp add: unat_gt_0)
  from cpmm_in_for_out_cases [OF this] show ?thesis
    by (auto simp: bridge_in_for_out_def split: bridge_pool.splits) (metis option.distinct(1))
qed

lemma bridge_in_for_out_le:
  assumes "bridge_quote_out b spend im = Ok y" "unat t \<le> unat y" "bridge_in_for_out b t im = Some (Ok x)"
  shows "x \<le> spend"
proof (cases "t = 0")
  case True
  with assms(3) show ?thesis
    by (auto simp: bridge_in_for_out_def cpmm_in_for_out_def raydium_amm_v4_in_for_out_def
        split: if_splits bridge_pool.splits)
next
  case False
  then have t: "0 < unat t" by (simp add: unat_gt_0)
  show ?thesis
  proof (cases b)
    case (BridgeCpmm p)
    with assms have "cpmm_reaches p (im = cp_base_mint p) t spend"
      by (auto simp: bridge_quote_out_def cpmm_reaches_iff word_le_nat_alt split: if_splits)
    with cpmm_in_for_out_cases [OF t, of p "im = cp_base_mint p"] assms(3) BridgeCpmm show ?thesis
      by (auto simp: bridge_in_for_out_def least_reaching_def word_le_nat_alt not_less split: if_splits)
  next
    case (BridgeAmmV4 p)
    with assms have "amm_reaches p (im = rv_coin_mint p) t spend"
      by (auto simp: bridge_quote_out_def amm_reaches_ex word_le_nat_alt split: if_splits)
    with amm_in_for_out_cases [OF t, of p "im = rv_coin_mint p"] assms(3) BridgeAmmV4 show ?thesis
      by (auto simp: bridge_in_for_out_def amm_least_reaching_def word_le_nat_alt not_less split: if_splits)
  qed
qed

lemma launchlab_hop1_le:
  assumes "launchlab_hop1 b p spend y q0 = Some (Ok (x, q))" "bridge_quote_out b spend WSOL_MINT = Ok y"
  shows "x \<le> spend"
  using assms bridge_in_for_out_le [OF assms(2), of "bq_amount_in q0"]
  by (auto simp: launchlab_hop1_def result_inv word_less_nat_alt split: if_splits)

lemma buy_bridge_launchlab_Ok:
  assumes "buy_via_bridge_launchlab R c spend p b slip e pol st = Some (Ok ((ls, m, x), st'))"
  shows "length ls = 2 \<and> honours e None m \<and> x \<le> spend"
  using assms
  by (auto simp: buy_via_bridge_launchlab_def Let_def result_inv split: if_splits dest: launchlab_hop1_le)

section \<open>Dispatch\<close>

definition path_ok :: "trade_opts \<Rightarrow> u64 \<Rightarrow> (leg list \<times> u64 \<times> u64) \<Rightarrow> bool" where
  "path_ok opts spend r = (case r of (ls, m, x) \<Rightarrow> 0 < length ls \<and> length ls \<le> 2 \<and> x \<le> spend
     \<and> honours (to_min_out opts) (to_fixed_output opts) m)"

lemma spending_Ok [result_inv]:
  "spending spend r = Some (Inr ((ls, m, x), st)) \<longleftrightarrow> x = spend \<and> r = Ok ((ls, m), st)"
  by (auto simp: spending_def result_inv)

lemma with_state_Ok [result_inv]: "with_state st r = Inr (y, st') \<longleftrightarrow> r = Ok y \<and> st' = st"
  by (auto simp: with_state_def result_inv)

lemma bridged_Ok [result_inv]:
  "bridged b msg f = Some (Inr y) \<longleftrightarrow> (\<exists>x. b = Some x \<and> f x = Some (Inr y))"
  by (cases b) (simp_all add: bridged_def)

lemmas buy_path_Ok = buy_pumpswap_Ok buy_raydium_v4_Ok buy_meteora_v2_Ok buy_concentrated_Ok
  buy_cpmm_Ok buy_pumpfun_Ok buy_mainstream_Ok buy_bridge_cpmm_Ok buy_bridge_launchlab_Ok

lemma buy_legs_token_Ok:
  assumes "buy_legs_token R c spend rm opts pay st = Some (Ok (r, st'))"
    "to_fixed_output opts = None \<or> fixed_buy_supported (rm_market rm)"
  shows "path_ok opts spend r"
proof (cases r)
  case (fields ls m x)
  show ?thesis
    using assms unfolding fields path_ok_def buy_legs_token_def Let_def fixed_buy_supported_def
    by (cases "rm_market rm")
      (auto simp: result_inv split: if_splits dest!: buy_path_Ok buy_launchlab_with_quote_Ok
        dest: launchlab_buy_quote_le)
qed

lemma buy_legs_sol_Ok:
  assumes "buy_legs_sol R c spend rm opts w st = Some (Ok (r, st'))"
    "to_fixed_output opts = None \<or>
     fixed_buy_supported (rm_market rm) \<and> \<not> needs_sol_bridge (rm_market rm)"
  shows "path_ok opts spend r"
proof (cases r)
  case (fields ls m x)
  show ?thesis
    using assms unfolding fields path_ok_def buy_legs_sol_def Let_def fixed_buy_supported_def
    by (cases "rm_market rm")
      (auto simp: result_inv split: if_splits dest!: buy_path_Ok dest: launchlab_buy_quote_le)
qed

lemma buy_path_checks_fixed:
  assumes "buy_path_checks rm opts = Ok ()"
  shows "to_fixed_output opts = None \<or> fixed_buy_supported (rm_market rm) \<and>
    (buy_is_sol_family (to_buy_with opts) \<longrightarrow> \<not> needs_sol_bridge (rm_market rm))"
  using assms
  by (auto simp: buy_path_checks_def result_inv validate_fixed_output_def buy_needs_bridge_def
      buy_is_sol_family_def split: if_splits option.splits buy_with.splits)

lemma build_buy_legs_Ok:
  assumes "build_buy_legs R c spend rm opts st = Some (Ok (r, st'))" "buy_path_checks rm opts = Ok ()"
  shows "path_ok opts spend r"
  using assms(1) buy_path_checks_fixed [OF assms(2)]
  by (auto simp: build_buy_legs_def buy_is_sol_family_def split: buy_with.splits
      intro: buy_legs_token_Ok buy_legs_sol_Ok)

lemma build_buy_legs_returns: "build_buy_legs R c spend rm opts st \<noteq> None"
proof -
  have hop: "launchlab_hop1 b p spend y q0 \<noteq> None" for b p y q0
    using bridge_in_for_out_returns [of b "bq_amount_in q0" WSOL_MINT]
    by (simp add: launchlab_hop1_def bind_o_None del: not_None_eq)
  have via: "buy_via_bridge_launchlab R c spend p b slip e pol st \<noteq> None" for p b slip e pol
    by (simp add: buy_via_bridge_launchlab_def Let_def bind_o_None hop del: not_None_eq split: prod.split)
  show ?thesis
    by (simp add: build_buy_legs_def buy_legs_token_def buy_legs_sol_def Let_def spending_def
        bridged_def bind_o_None via del: not_None_eq split: buy_with.splits market.splits)
qed

section \<open>The amount that is routed\<close>

text \<open>The routed amount is the least that leaves the spent one after the platform fee.\<close>

definition net_amount :: "u16 \<Rightarrow> u64 \<Rightarrow> nat" where
  "net_amount bps x = unat x - unat (fee_amount x bps)"

definition least_gross :: "u64 \<Rightarrow> u16 \<Rightarrow> u64 \<Rightarrow> bool" where
  "least_gross spend bps x \<longleftrightarrow> net_amount bps x = unat spend \<and>
     (\<forall>y. unat spend \<le> net_amount bps y \<longrightarrow> x \<le> y)"

lemma net_ge_iff:
  assumes "unat bps < 10000" "0 < n"
  shows "n \<le> net_amount bps x \<longleftrightarrow> (n - 1) * 10000 < unat x * (10000 - unat bps)"
proof -
  let ?b = "unat bps" and ?x = "unat x"
  have "?x * ?b div 10000 \<le> ?x"
    using div_le_mono [of "?x * ?b" "?x * 10000" 10000] assms(1) by simp
  then have f: "unat (fee_amount x bps) = ?x * ?b div 10000"
    using unat_u64_le [of x] by (simp add: unat_fee_amount)
  have s: "?x * (10000 - ?b) + ?x * ?b = ?x * 10000"
    unfolding distrib_left [symmetric] using assms(1) by simp
  have cut: "n \<le> X - q \<longleftrightarrow> n \<le> X \<and> q < X - n + 1" for X q :: nat
    using assms(2) by presburger
  have "n \<le> ?x - ?x * ?b div 10000 \<longleftrightarrow> n \<le> ?x \<and> ?x * ?b div 10000 < ?x - n + 1"
    by (rule cut)
  also have "\<dots> \<longleftrightarrow> n \<le> ?x \<and> ?x * ?b < (?x - n + 1) * 10000"
    by (simp add: div_less_iff_less_mult)
  also have "\<dots> \<longleftrightarrow> (n - 1) * 10000 < ?x * (10000 - ?b)"
  proof (cases "n \<le> ?x")
    case True
    then have "(?x - n + 1) * 10000 + (n - 1) * 10000 = ?x * 10000"
      using assms(2) by (simp add: algebra_simps)
    moreover have "P + Q = T \<Longrightarrow> M + N = T \<Longrightarrow> Q < M \<longleftrightarrow> N < P" for P Q M N T :: nat by linarith
    ultimately have "?x * ?b < (?x - n + 1) * 10000 \<longleftrightarrow> (n - 1) * 10000 < ?x * (10000 - ?b)"
      using s by blast
    with True show ?thesis by simp
  next
    case False
    then have "?x * (10000 - ?b) \<le> (n - 1) * 10000" by (intro mult_le_mono) simp_all
    with False show ?thesis by simp
  qed
  finally show ?thesis by (simp add: net_amount_def f)
qed

lemma route_amount_cases:
  assumes "unat bps < 10000"
  shows "case route_amount_in_for_spend spend bps of
    Inr x \<Rightarrow> least_gross spend bps x | Inl e \<Rightarrow> \<forall>y. net_amount bps y < unat spend"
proof (cases "spend = 0")
  case True
  have "fee_amount 0 bps = 0" by (simp add: word_eq_unat unat_fee_amount)
  moreover have "\<not> bps \<ge> 10000" using assms by (simp add: word_le_nat_alt)
  ultimately show ?thesis using True
    by (simp add: route_amount_in_for_spend_def least_gross_def net_amount_def)
next
  case False
  let ?k = "10000 - unat bps" and ?s = "unat spend"
  let ?a = "(widen spend - 1) * 10000 div (10000 - ucast bps) + 1 :: u128"
  have s: "0 < ?s" using False by (simp add: unat_gt_0)
  have k: "unat (10000 - ucast bps :: u128) = ?k" using assms by (simp add: unat_sub_exact)
  have "unat (widen spend - 1) = ?s - 1" using s by (simp add: unat_sub_exact)
  then have m: "unat ((widen spend - 1) * 10000) = (?s - 1) * 10000"
    using unat_u64_le [of spend] by (subst unat_mul_exact) simp_all
  have "(?s - 1) * 10000 \<le> 18446744073709551615 * 10000"
    using unat_u64_le [of spend] by (intro mult_le_mono) simp_all
  with div_le_dividend have d: "(?s - 1) * 10000 div ?k \<le> 18446744073709551615 * 10000"
    by (rule order_trans)
  have "unat ((widen spend - 1) * 10000 div (10000 - ucast bps)) = (?s - 1) * 10000 div ?k"
    by (simp only: unat_div m k)
  then have a: "unat ?a = (?s - 1) * 10000 div ?k + 1"
    using d by (subst unat_add_exact) simp_all
  have ge: "n \<le> net_amount bps y \<longleftrightarrow> (n - 1) * 10000 div ?k + 1 \<le> unat y" if "0 < n" for n y
    using net_ge_iff [OF assms that, of y] assms
    by (simp add: Suc_le_eq div_less_iff_less_mult)
  have b: "\<not> bps \<ge> 10000" using assms by (simp add: word_le_nat_alt)
  show ?thesis
  proof (cases "try_u64 ?a")
    case None
    then have "\<not> (?s \<le> net_amount bps y)" for y
      using ge [OF s, of y] a unat_u64_le [of y] by (simp add: try_u64_def split: if_splits)
    with None False b show ?thesis by (simp add: route_amount_in_for_spend_def Let_def not_le)
  next
    case (Some x)
    then have x: "unat x = (?s - 1) * 10000 div ?k + 1" using a by (simp add: try_u64_Some)
    have "\<not> (Suc ?s \<le> net_amount bps x)"
    proof -
      have "(?s - 1) * 10000 div ?k < ?s * 10000 div ?k"
      proof -
        have "((?s - 1) * 10000 + ?k) div ?k \<le> ?s * 10000 div ?k"
          using s by (intro div_le_mono) (simp add: algebra_simps)
        moreover have "((?s - 1) * 10000 + ?k) div ?k = (?s - 1) * 10000 div ?k + 1"
          by (rule div_add_self2 [THEN trans]) (use assms in simp_all)
        ultimately show ?thesis by simp
      qed
      then show ?thesis using ge [of "Suc ?s" x] x by simp
    qed
    moreover have "?s \<le> net_amount bps x" using ge [OF s, of x] x by simp
    ultimately have "net_amount bps x = ?s" by simp
    with ge [OF s] x Some False b show ?thesis
      by (simp add: route_amount_in_for_spend_def Let_def least_gross_def word_le_nat_alt)
  qed
qed

end
