(* ===== verification/Buy_Props.thy ===== *)
theory Buy_Props
  imports Buy_Facts Encode_Props
begin

unbundle bit_operations_syntax

text \<open>
  Buying: \<open>buy_with_opts\<close> always returns, never routes more than the caller's amount, puts the
  minimum the caller asked for into the route, and what the program then executes respects both.
\<close>

section \<open>What is built\<close>

definition buy_route_accounts ::
  "sdk_env \<Rightarrow> router_client \<Rightarrow> routed_market \<Rightarrow> fee_accounts \<Rightarrow> ix_accounts_in" where
  "buy_route_accounts R c rm fa = \<lparr>ra_payer = rt_payer c, ra_fee_destination = fa_destination fa,
     ra_fee_source = fa_source fa,
     ra_output_token_account = ata R (rt_payer c) (routed_meme_mint rm) (routed_meme_token_program rm),
     ra_fee_program = fa_program fa, ra_fee_mint = fa_mint fa\<rparr>"

text \<open>What the caller pays with, and from which account: the payer's lamports for the native settlement
  of Pump.fun, the payer's WSOL account for SOL and WSOL else, and the payer's account of the token
  the caller named.\<close>

definition buy_payment ::
  "'z pda_scheme \<Rightarrow> pubkey \<Rightarrow> routed_market \<Rightarrow> buy_with \<Rightarrow> bool \<times> pubkey" where
  "buy_payment R payer rm b =
     (case b of
        BuyToken mint \<Rightarrow> (False, ata R payer mint (token_program_of_payment rm mint))
      | BuyWsol \<Rightarrow> (False, ata R payer WSOL_MINT TOKEN_PROGRAM)
      | BuySol \<Rightarrow> if is_pump_native_sol (rm_market rm) then (True, payer)
          else (False, ata R payer WSOL_MINT TOKEN_PROGRAM))"

definition fee_asset_of :: "bool \<Rightarrow> u8" where
  "fee_asset_of lam = (if lam then FEE_ASSET_SOL else FEE_ASSET_TOKEN)"

lemma fee_asset_of_pays:
  "fee_asset_of lam AND 1 = fee_asset_of lam"
  "fee_source_after (fee_asset_of lam) p L = output_balance (L (address (fee_source p))) lam"
  by (simp_all add: fee_asset_of_def FEE_ASSET_SOL_def FEE_ASSET_TOKEN_def fee_source_after_def
      output_balance_def)

lemma buy_fee_accounts_payment:
  assumes "buy_payment R (rt_payer c) rm (to_buy_with opts) = (lam, src)"
  shows "fa_asset (fst (buy_fee_accounts R c rm opts fee st)) = fee_asset_of lam \<and>
    fa_source (fst (buy_fee_accounts R c rm opts fee st)) = src"
  using assms by (auto simp: buy_payment_def buy_fee_accounts_def Let_def fee_asset_of_def
      split: buy_with.splits if_splits)

lemma finish_buy_route:
  obtains fa fee' w where "fst (buy_fee_accounts R c rm opts fee' w) = fa"
    "bt_route (finish_buy R c rm opts fee ra m legs st) = Some (build_route_instruction_ex R
      (rt_program_id c) (buy_route_accounts R c rm fa) ra m (fa_asset fa) (to_fixed_output opts \<noteq> None)
      (routed_meme_mint rm) legs)"
proof -
  let ?w = "if to_buy_with opts = BuySol \<and> \<not> is_pump_native_sol (rm_market rm)
    then st\<lparr>ts_setup := ts_setup st @ wrap_sol_with_options R (rt_payer c) ra False\<rparr> else st"
  obtain fa st' where f: "buy_fee_accounts R c rm opts fee ?w = (fa, st')" by fastforce
  show thesis
  proof (rule that)
    show "fst (buy_fee_accounts R c rm opts fee ?w) = fa" by (simp add: f)
    show "bt_route (finish_buy R c rm opts fee ra m legs st) = Some (build_route_instruction_ex R
      (rt_program_id c) (buy_route_accounts R c rm fa) ra m (fa_asset fa) (to_fixed_output opts \<noteq> None)
      (routed_meme_mint rm) legs)"
      unfolding finish_buy_def Let_def f by (simp add: f buy_route_accounts_def)
  qed
qed

lemma buy_market_checks_Ok:
  "buy_market_checks R c amount rm opts = Ok () \<Longrightarrow> unat (rt_fee_bps c) \<le> 1000 \<and>
   assert_routed_market_ok R rm (rt_pool_guard c) = Ok () \<and> 0 < net_amount (rt_fee_bps c) amount"
  by (auto simp: buy_market_checks_def result_inv validate_router_fee_bps_def not_less word_le_nat_alt
      net_amount_def word_eq_unat unat_sat_sub split: if_splits)

lemma buy_route_amount_le:
  assumes "buy_route_amount c amount (sat_sub amount (fee_amount amount (rt_fee_bps c))) x = Ok ra"
    "x \<le> sat_sub amount (fee_amount amount (rt_fee_bps c))" "unat (rt_fee_bps c) \<le> 1000"
  shows "ra \<le> amount \<and> unat x \<le> net_amount (rt_fee_bps c) ra"
proof (cases "x = sat_sub amount (fee_amount amount (rt_fee_bps c))")
  case True
  with assms(1) show ?thesis by (simp add: buy_route_amount_def net_amount_def unat_sat_sub)
next
  case False
  with assms(1) have "route_amount_in_for_spend x (rt_fee_bps c) = Ok ra"
    by (simp add: buy_route_amount_def)
  with route_amount_cases [of "rt_fee_bps c" x] assms(3) have l: "least_gross x (rt_fee_bps c) ra"
    by simp
  have "unat x \<le> net_amount (rt_fee_bps c) amount"
    using assms(2) by (simp add: net_amount_def word_le_nat_alt unat_sat_sub)
  with l show ?thesis by (simp add: least_gross_def)
qed

lemma buy_with_opts_Ok:
  assumes "buy_with_opts R c amount rm opts = Some (Ok t)"
  obtains fa ra m legs x st where
    "bt_route t = Some (build_route_instruction_ex R (rt_program_id c) (buy_route_accounts R c rm fa)
       ra m (fa_asset fa) (to_fixed_output opts \<noteq> None) (routed_meme_mint rm) legs)"
    "ra \<le> amount" "unat x \<le> net_amount (rt_fee_bps c) ra" "0 < length legs" "length legs \<le> 2"
    "unat (rt_fee_bps c) \<le> 1000" "assert_routed_market_ok R rm (rt_pool_guard c) = Ok ()"
    "honours (to_min_out opts) (to_fixed_output opts) m" "to_min_out opts \<noteq> None \<or> m \<noteq> 0"
    "build_buy_legs R c (sat_sub amount (fee_amount amount (rt_fee_bps c))) rm opts
       (buy_initial_state R c rm opts) = Some (Ok ((legs, m, x), st))"
    "buy_payment R (rt_payer c) rm (to_buy_with opts) = (lam, src) \<longrightarrow>
       fa_asset fa = fee_asset_of lam \<and> fa_source fa = src"
proof -
  let ?fee = "fee_amount amount (rt_fee_bps c)"
  from assms obtain legs m x st ra where c: "buy_market_checks R c amount rm opts = Ok ()"
    "buy_path_checks rm opts = Ok ()"
    and b: "build_buy_legs R c (sat_sub amount ?fee) rm opts (buy_initial_state R c rm opts) =
      Some (Ok ((legs, m, x), st))" "\<not> (to_min_out opts = None \<and> m = 0)"
      "buy_route_amount c amount (sat_sub amount ?fee) x = Ok ra"
    and t: "t = finish_buy R c rm opts ?fee ra m legs st"
    by (auto simp: buy_with_opts_def Let_def result_inv split: if_splits)
  from build_buy_legs_Ok [OF b(1) c(2)] have p: "0 < length legs" "length legs \<le> 2"
    "x \<le> sat_sub amount ?fee" "honours (to_min_out opts) (to_fixed_output opts) m"
    by (simp_all add: path_ok_def)
  obtain fa fee w where fa: "fst (buy_fee_accounts R c rm opts fee w) = fa"
    and "bt_route t = Some (build_route_instruction_ex R (rt_program_id c)
      (buy_route_accounts R c rm fa) ra m (fa_asset fa) (to_fixed_output opts \<noteq> None)
      (routed_meme_mint rm) legs)" unfolding t by (rule finish_buy_route)
  note route = this(2)
  have "buy_payment R (rt_payer c) rm (to_buy_with opts) = (lam, src) \<longrightarrow>
      fa_asset fa = fee_asset_of lam \<and> fa_source fa = src"
    using buy_fee_accounts_payment fa by metis
  moreover note buy_market_checks_Ok [OF c(1)]
  moreover have "ra \<le> amount \<and> unat x \<le> net_amount (rt_fee_bps c) ra"
    using buy_route_amount_le [OF b(3) p(3)] buy_market_checks_Ok [OF c(1)] by simp
  ultimately show thesis using that route p(1,2,4) b(1,2) by blast
qed

text \<open>C26. Building a buy always returns, with a trade or an error: the one loop without a
  bound in the code, the inverse quote of a bridge, is left on every input.\<close>

theorem buy_returns: "buy_with_opts R c amount rm opts \<noteq> None"
  by (simp add: buy_with_opts_def Let_def bind_o_None build_buy_legs_returns del: not_None_eq
      split: prod.split)

text \<open>C25. A buy that is built keeps to the caller's amount and options: the pools passed the guard,
  the route has one or two legs, the routed amount is at most the caller's and covers what the
  first leg spends after the platform fee, and the minimum output in the route is the fixed
  output if one was asked for, else the caller's minimum, else a positive one from the quote.\<close>

theorem buy_within_options:
  assumes "buy_with_opts R c amount rm opts = Some (Ok t)"
  shows "\<exists>acc ra m asset legs x st'. bt_route t = Some (build_route_instruction_ex R (rt_program_id c)
      acc ra m asset (to_fixed_output opts \<noteq> None) (routed_meme_mint rm) legs) \<and>
    ra_payer acc = rt_payer c \<and> ra_output_token_account acc =
      ata R (rt_payer c) (routed_meme_mint rm) (routed_meme_token_program rm) \<and>
    assert_routed_market_ok R rm (rt_pool_guard c) = Ok () \<and> length legs \<in> {1, 2} \<and>
    build_buy_legs R c (sat_sub amount (fee_amount amount (rt_fee_bps c))) rm opts
      (buy_initial_state R c rm opts) = Some (Ok ((legs, m, x), st')) \<and>
    ra \<le> amount \<and> unat x + unat (fee_amount ra (rt_fee_bps c)) \<le> unat ra \<and>
    (case to_fixed_output opts of Some a \<Rightarrow> m = a
     | None \<Rightarrow> (case to_min_out opts of Some k \<Rightarrow> m = k | None \<Rightarrow> m \<noteq> 0))"
proof -
  from assms obtain fa ra m legs x st where b:
    "bt_route t = Some (build_route_instruction_ex R (rt_program_id c) (buy_route_accounts R c rm fa)
       ra m (fa_asset fa) (to_fixed_output opts \<noteq> None) (routed_meme_mint rm) legs)"
    "ra \<le> amount" "unat x \<le> net_amount (rt_fee_bps c) ra" "0 < length legs" "length legs \<le> 2"
    "unat (rt_fee_bps c) \<le> 1000" "assert_routed_market_ok R rm (rt_pool_guard c) = Ok ()"
    "honours (to_min_out opts) (to_fixed_output opts) m" "to_min_out opts \<noteq> None \<or> m \<noteq> 0"
    "build_buy_legs R c (sat_sub amount (fee_amount amount (rt_fee_bps c))) rm opts
       (buy_initial_state R c rm opts) = Some (Ok ((legs, m, x), st))"
    by (rule buy_with_opts_Ok)
  have "unat (fee_amount ra (rt_fee_bps c)) \<le> unat ra"
    using b(6) by (intro platform.fee_le) (simp add: word_le_nat_alt)
  then have "unat x + unat (fee_amount ra (rt_fee_bps c)) \<le> unat ra"
    using b(3) by (simp add: net_amount_def)
  moreover have "length legs \<in> {1, 2}" using b(4,5) by (simp only: insert_iff empty_iff) linarith
  moreover have "case to_fixed_output opts of Some a \<Rightarrow> m = a
     | None \<Rightarrow> (case to_min_out opts of Some k \<Rightarrow> m = k | None \<Rightarrow> m \<noteq> 0)"
    using b(8,9) by (auto simp: honours_def split: option.splits)
  ultimately show ?thesis using b(1,2,7,10)
    by (rule_tac x = "buy_route_accounts R c rm fa" in exI, rule_tac x = ra in exI, rule_tac x = m in exI,
        rule_tac x = "fa_asset fa" in exI, rule_tac x = legs in exI, rule_tac x = x in exI,
        rule_tac x = st in exI,
       (simp only: buy_route_accounts_def ix_accounts_in.select_convs simp_thms))
qed

lemma buy_settled:
  assumes "buy_with_opts R c amount rm opts = Some (Ok t)" "bt_route t = Some i"
    "delivers accs (ix_accounts i)"
    "process_instruction RT (rt_program_id c) accs (ix_data i) s = Ok s'"
  shows "\<exists>p lam src paid0 paid1 cfg ra fee s1 native got0 got1 m. split_accounts accs 0 = Ok p \<and>
    address (user p) = rt_payer c \<and> is_signer (user p) \<and>
    buy_payment R (rt_payer c) rm (to_buy_with opts) = (lam, src) \<and> address (fee_source p) = src \<and>
    output_balance (ledger s src) lam = Ok paid0 \<and> output_balance (ledger s' src) lam = Ok paid1 \<and>
    unat paid0 \<le> unat paid1 + unat amount \<and>
    address (user_output p) = ata R (rt_payer c) (routed_meme_mint rm) (routed_meme_token_program rm) \<and>
    validate_output (user p) (user_output p) (routed_meme_mint rm) False (ledger s) = Ok native \<and>
    check_config RT (rt_program_id c) (config_acc p) (ledger s) = Ok cfg \<and>
    ra \<le> amount \<and> checked_fee ra (fee_bps cfg) = Ok fee \<and>
    pay_fee RT p cfg (fee_asset_of lam) fee s = Ok s1 \<and>
    output_balance (ledger s1 (address (user_output p))) native = Ok got0 \<and>
    output_balance (ledger s' (address (user_output p))) native = Ok got1 \<and>
    unat m \<le> unat got1 - unat got0 \<and>
    (case to_fixed_output opts of Some a \<Rightarrow> m = a
     | None \<Rightarrow> (case to_min_out opts of Some k \<Rightarrow> m = k | None \<Rightarrow> m \<noteq> 0))"
proof -
  obtain lam src where pay: "buy_payment R (rt_payer c) rm (to_buy_with opts) = (lam, src)" by fastforce
  from assms(1) obtain fa ra m legs x st where b:
    "bt_route t = Some (build_route_instruction_ex R (rt_program_id c) (buy_route_accounts R c rm fa)
       ra m (fa_asset fa) (to_fixed_output opts \<noteq> None) (routed_meme_mint rm) legs)"
    "ra \<le> amount" "length legs \<le> 2" "honours (to_min_out opts) (to_fixed_output opts) m"
    "to_min_out opts \<noteq> None \<or> m \<noteq> 0"
    "buy_payment R (rt_payer c) rm (to_buy_with opts) = (lam, src) \<longrightarrow>
       fa_asset fa = fee_asset_of lam \<and> fa_source fa = src"
    by (rule buy_with_opts_Ok [where lam = lam and src = src])
  have fa: "fa_asset fa = fee_asset_of lam" "fa_source fa = src" using b(6) pay by simp_all
  from b(1) assms(2) have i: "i = build_route_instruction_ex R (rt_program_id c)
      (buy_route_accounts R c rm fa) ra m (fa_asset fa) (to_fixed_output opts \<noteq> None)
      (routed_meme_mint rm) legs" by simp
  have n: "length legs < 256" using b(3) by simp
  obtain p cfg fee paid0 paid1 s1 native got0 got1 where r: "split_accounts accs 0 = Ok p"
    "addressed p (buy_route_accounts R c rm fa) (fst (sdk_config_pda R (rt_program_id c)))"
    "check_config RT (rt_program_id c) (config_acc p) (ledger s) = Ok cfg"
    "checked_fee ra (fee_bps cfg) = Ok fee"
    "fee_source_after (fa_asset fa AND 1) p (ledger s) = Ok paid0"
    "fee_source_after (fa_asset fa AND 1) p (ledger s') = Ok paid1" "unat paid0 \<le> unat paid1 + unat ra"
    "pay_fee RT p cfg (fa_asset fa AND 1) fee s = Ok s1"
    "validate_output (user p) (user_output p) (routed_meme_mint rm) False (ledger s) = Ok native"
    "output_balance (ledger s1 (address (user_output p))) native = Ok got0"
    "output_balance (ledger s' (address (user_output p))) native = Ok got1"
    "unat m \<le> unat got1 - unat got0"
    by (rule route_settled [OF n assms(3) i assms(4)])
  have src: "address (user p) = rt_payer c" "is_signer (user p)" "address (fee_source p) = src"
    "address (user_output p) = ata R (rt_payer c) (routed_meme_mint rm) (routed_meme_token_program rm)"
    using r(2) by (simp_all add: addressed_def buy_route_accounts_def fa)
  have "unat paid0 \<le> unat paid1 + unat amount" using r(7) b(2) by (simp add: word_le_nat_alt)
  moreover have "case to_fixed_output opts of Some a \<Rightarrow> m = a
     | None \<Rightarrow> (case to_min_out opts of Some k \<Rightarrow> m = k | None \<Rightarrow> m \<noteq> 0)"
    using b(4,5) by (auto simp: honours_def split: option.splits)
  ultimately show ?thesis
    using pay src r(1,3,4) r(5,6,8-12) [unfolded fa(1) fee_asset_of_pays src(3)] b(2) by blast
qed

text \<open>C1. What a buy does when the program executes its route, whatever the pools and the other
  programs do: the payer's own account of what the caller pays with (the payer's lamports, the payer's
  WSOL account, or the payer's account of the token named) loses at most the caller's amount, the
  platform fee included, and the caller's associated account of the bought mint gains, after the fee
  of the Router's configuration was paid, at least the minimum the caller's options ask for, in the
  unit the program measures for that mint. The views the runtime delivers carry at least the
  privileges the instruction asks for.\<close>

theorem buy_executes:
  assumes "buy_with_opts R c amount rm opts = Some (Ok t)" "bt_route t = Some i"
    "delivers accs (ix_accounts i)"
    "process_instruction RT (rt_program_id c) accs (ix_data i) s = Ok s'"
  shows "\<exists>p lam src paid0 paid1 cfg ra fee s1 native got0 got1 m. split_accounts accs 0 = Ok p \<and>
    address (user p) = rt_payer c \<and> is_signer (user p) \<and>
    buy_payment R (rt_payer c) rm (to_buy_with opts) = (lam, src) \<and> address (fee_source p) = src \<and>
    output_balance (ledger s src) lam = Ok paid0 \<and> output_balance (ledger s' src) lam = Ok paid1 \<and>
    unat paid0 \<le> unat paid1 + unat amount \<and>
    address (user_output p) = ata R (rt_payer c) (routed_meme_mint rm) (routed_meme_token_program rm) \<and>
    validate_output (user p) (user_output p) (routed_meme_mint rm) False (ledger s) = Ok native \<and>
    check_config RT (rt_program_id c) (config_acc p) (ledger s) = Ok cfg \<and>
    ra \<le> amount \<and> checked_fee ra (fee_bps cfg) = Ok fee \<and>
    pay_fee RT p cfg (fee_asset_of lam) fee s = Ok s1 \<and>
    output_balance (ledger s1 (address (user_output p))) native = Ok got0 \<and>
    output_balance (ledger s' (address (user_output p))) native = Ok got1 \<and>
    unat m \<le> unat got1 - unat got0 \<and>
    (case to_fixed_output opts of Some a \<Rightarrow> m = a
     | None \<Rightarrow> (case to_min_out opts of Some k \<Rightarrow> m = k | None \<Rightarrow> m \<noteq> 0))"
  using assms by (rule buy_settled)

section \<open>Witnesses\<close>

definition demo_ata :: "pubkey \<Rightarrow> pubkey \<Rightarrow> pubkey" where
  "demo_ata own mint = (if mint = 21 then 5 else if own = 1 then 4 else 3)"

definition demo_env :: sdk_env where
  "demo_env = \<lparr>find_pda = (\<lambda>seeds p. if p = ASSOCIATED_TOKEN_PROGRAM
       then (demo_ata (key_of (seeds ! 0)) (key_of (seeds ! 2)), 255) else (2, 255)),
     try_find_pda = (\<lambda>seeds p. Some (2, 255)), dlmm_bitmap_extension_pda = (\<lambda>k. k),
     pumpswap_params_valid = (\<lambda>p. Ok ()),
     system_transfer = (\<lambda>a b x. \<lparr>ix_program_id = SYSTEM_PROGRAM, ix_accounts = [], ix_data = []\<rparr>)\<rparr>"

definition demo_buy_pool :: cpmm_pool where
  "demo_buy_pool = \<lparr>cp_pool_state = 52, cp_amm_config = 51, cp_observation_state = 55, cp_base_mint = 21,
     cp_quote_mint = 20, cp_base_vault = 54, cp_quote_vault = 53, cp_base_token_program = TOKEN_PROGRAM,
     cp_quote_token_program = TOKEN_PROGRAM, cp_base_reserve = 100000, cp_quote_reserve = 100000,
     cp_fee_rates_known = True, cp_trade_fee_rate = 2500, cp_creator_fee_rate = 0,
     cp_creator_fee_on = 0, cp_enable_creator_fee = False, cp_base_transfer_fee = no_transfer_fee,
     cp_quote_transfer_fee = no_transfer_fee\<rparr>"

definition demo_client :: router_client where
  "demo_client = \<lparr>rt_payer = 1, rt_program_id = 7, rt_fee_recipient = 9, rt_fee_bps = 100,
     rt_pool_guard = trust 52 guard_default\<rparr>"

definition demo_buy_market :: routed_market where
  "demo_buy_market = \<lparr>rm_market = CpmmOuter demo_buy_pool, rm_bridge = None\<rparr>"

definition demo_buy_opts :: trade_opts where
  "demo_buy_opts = (opts_buy_with (BuyToken 20) opts_default)\<lparr>to_min_out := Some 90\<rparr>"

text \<open>The leg and the route of the trade.\<close>

definition demo_buy_leg :: leg where
  "demo_buy_leg = \<lparr>leg_program = RAYDIUM_CPMM_PROGRAM,
     leg_accounts = [meta_ro 1 True, META RAYDIUM_CPMM_AUTHORITY, meta_ro 51 False, meta_new 52 False,
       meta_new 4 False, meta_new 5 False, meta_new 53 False, meta_new 54 False,
       meta_ro TOKEN_PROGRAM False, meta_ro TOKEN_PROGRAM False, meta_ro 20 False, meta_ro 21 False,
       meta_new 55 False],
     leg_data = encode_u64_pair SDK_CPMM_SWAP_BASE_IN 99 90\<rparr>"

definition demo_buy_ix :: instruction where
  "demo_buy_ix = build_route_instruction_ex demo_env 7 demo_ix_accounts 100 90 1 False 21 [demo_buy_leg]"

lemma demo_env_ata [simp]: "ata demo_env own mint tp = demo_ata own mint"
  by (simp add: ata_def demo_env_def)

lemma demo_mints [simp]: "20 \<noteq> WSOL_MINT" "21 \<noteq> WSOL_MINT"
  unfolding WSOL_MINT_def by (simp_all add: key58_eval key_of_def)

lemma demo_not_ata [simp]: "ASSOCIATED_TOKEN_PROGRAM \<noteq> 7"
  unfolding ASSOCIATED_TOKEN_PROGRAM_def by (simp add: key58_eval key_of_def)

lemma demo_buy_mints:
  "routed_meme_mint demo_buy_market = 21" "routed_meme_token_program demo_buy_market = TOKEN_PROGRAM"
  "routed_quote_mint demo_buy_market = 20" "routed_quote_token_program demo_buy_market = TOKEN_PROGRAM"
  by (simp_all add: routed_meme_mint_def routed_meme_token_program_def routed_quote_mint_def
      routed_quote_token_program_def demo_buy_market_def demo_buy_pool_def neither_wsol_def
      meme_mint_sol_paired_def unwrap_or_def token_program_for_def cpmm_other_mint_def)

lemma demo_buy_quote: "\<exists>r. cpmm_out demo_buy_pool 99 False = Ok r"
  by (simp add: cpmm_out_def cpmm_sides_def demo_buy_pool_def cpmm_creator_rate_def FEE_DENOM_def
      widen_def no_transfer_fee_def calculate_def checked_sub_def checked_add_def
      creator_fee_on_input_def Let_def)

lemma demo_buy_simps [simp]:
  "rm_market demo_buy_market = CpmmOuter demo_buy_pool" "rm_bridge demo_buy_market = None"
  "rt_payer demo_client = 1" "rt_program_id demo_client = 7" "rt_fee_recipient demo_client = 9"
  "rt_fee_bps demo_client = 100" "rt_pool_guard demo_client = trust 52 guard_default"
  "to_buy_with demo_buy_opts = BuyToken 20" "to_min_out demo_buy_opts = Some 90"
  "to_fixed_output demo_buy_opts = None"
  by (simp_all add: demo_buy_market_def demo_client_def demo_buy_opts_def opts_buy_with_def opts_default_def)

lemma demo_buy_swap:
  "cpmm_swap_leg 1 demo_buy_pool 99 90 20 21 (demo_ata 1 20) (demo_ata 1 21) = Ok demo_buy_leg"
  by (simp add: cpmm_swap_leg_def cpmm_leg_def demo_buy_pool_def cpmm_leg_sides_def demo_buy_leg_def
      demo_ata_def require_token_programs_def)

lemma demo_buy_legs:
  "\<exists>st'. build_buy_legs demo_env demo_client 99 demo_buy_market demo_buy_opts st =
     Some (Ok (([demo_buy_leg], 90, 99), st'))"
proof -
  obtain r where "cpmm_out demo_buy_pool 99 False = Ok r" using demo_buy_quote ..
  moreover have "(20 = cp_base_mint demo_buy_pool) = False" by (simp add: demo_buy_pool_def)
  ultimately show ?thesis
    by (simp add: build_buy_legs_def buy_legs_token_def spending_def buy_cpmm_with_mint_def
        demo_buy_mints Let_def demo_buy_swap)
qed

lemma demo_buy:
  "\<exists>t. buy_with_opts demo_env demo_client 100 demo_buy_market demo_buy_opts = Some (Ok t) \<and>
     bt_route t = Some demo_buy_ix"
proof -
  have f: "fee_amount 100 100 = 1"
    by (simp add: word_eq_unat unat_fee_amount)
  then have "buy_market_checks demo_env demo_client 100 demo_buy_market demo_buy_opts = Ok ()"
    by (simp add: buy_market_checks_def validate_router_fee_bps_def assert_routed_market_ok_def
        assert_cpmm_ok_def assert_bridge_ok_def trust_def guard_default_def is_trusted_def
        demo_buy_pool_def sat_sub_def)
  moreover have "buy_path_checks demo_buy_market demo_buy_opts = Ok ()"
    by (simp add: buy_path_checks_def buy_needs_bridge_def demo_buy_mints validate_fixed_output_def
        is_pump_native_sol_def)
  moreover obtain st where "build_buy_legs demo_env demo_client 99 demo_buy_market demo_buy_opts
      (buy_initial_state demo_env demo_client demo_buy_market demo_buy_opts) =
      Some (Ok (([demo_buy_leg], 90, 99), st))" using demo_buy_legs by blast
  moreover have "bt_route (finish_buy demo_env demo_client demo_buy_market demo_buy_opts 1 100 90
      [demo_buy_leg] st) = Some demo_buy_ix"
    by (simp add: finish_buy_def Let_def buy_fee_accounts_def demo_buy_mints demo_ata_def demo_buy_ix_def
        demo_ix_accounts_def FEE_ASSET_TOKEN_def token_program_of_payment_def token_fee_program_def
        program_agrees)
  ultimately show ?thesis
    by (simp add: buy_with_opts_def Let_def f sat_sub_def buy_route_amount_def)
qed

definition demo_buy_data :: bytes where
  "demo_buy_data = u64_bytes 100 @ u64_bytes 90 @ [1, 1] @ key_bytes 21 @
     key_bytes RAYDIUM_CPMM_PROGRAM_ID @ [13] @ u16_bytes 24 @ CPMM_SWAP_BASE_IN @ u64_bytes 99 @ u64_bytes 90"

lemma demo_buy_data: "ix_data demo_buy_ix = TAG_ROUTE # demo_buy_data"
  by (simp add: demo_buy_ix_def build_route_instruction_ex_def Let_def demo_buy_leg_def demo_buy_data_def
      leg_frame_bytes_def encode_u64_pair_def discriminator_agrees CPMM_SWAP_BASE_IN_def program_agrees
      TAG_ROUTE_IX_def TAG_ROUTE_def)

definition demo_buy_frame :: leg_frame where
  "demo_buy_frame = \<lparr>lf_program = RAYDIUM_CPMM_PROGRAM_ID, lf_num_accounts = 13,
     lf_data = leg_data demo_buy_leg, lf_next = 109\<rparr>"

lemma demo_buy_read:
  "read_leg demo_buy_data 50 = Ok demo_buy_frame" "length demo_buy_data = 109"
  "read_header demo_buy_data 0 = Ok (demo_header 100 1 1 0 0)"
  by (simp_all add: demo_read_leg demo_read_header demo_buy_data_def demo_buy_frame_def demo_buy_leg_def
      encode_u64_pair_def discriminator_agrees)

definition demo_buy_rest :: "account_view list" where
  "demo_buy_rest = leg_accounts demo_buy_leg @ [meta_ro RAYDIUM_CPMM_PROGRAM False]"

lemma demo_buy_split: "split_accounts (ix_accounts demo_buy_ix) 0 = Ok (demo_accounts None None demo_buy_rest)"
  by (simp add: demo_buy_ix_def build_route_instruction_ex_def Let_def fixed_metas_def sdk_config_pda_def
      demo_env_def demo_ix_accounts_def append_fee_mint_def split_accounts_def demo_accounts_def
      demo_buy_rest_def demo_buy_leg_def meta_new_def meta_ro_def meta_def program_agrees)

lemma demo_buy_run:
  "\<exists>s'. process_instruction demo_runtime 7 (ix_accounts demo_buy_ix) (ix_data demo_buy_ix) demo_chain = Ok s'"
proof -
  let ?c = "mk_ctx 0 (demo_header 100 1 1 0 0) (demo_accounts None None demo_buy_rest) 0 0"
  have accs: "take_leg_accounts (demo_accounts None None demo_buy_rest) 0 13 = Ok (leg_accounts demo_buy_leg)"
    by (simp add: take_leg_accounts_def demo_buy_rest_def demo_buy_leg_def slice_def)
  have "address (leg_accounts demo_buy_leg ! 4) = 4" "address (leg_accounts demo_buy_leg ! 5) = 5"
    "u64_of (slice 8 16 (leg_data demo_buy_leg)) = 99"
    by (simp_all add: demo_buy_leg_def meta_new_def encode_u64_pair_def discriminator_agrees demo_bytes)
  then have "demo_cpi (Invoke RAYDIUM_CPMM_PROGRAM_ID (leg_accounts demo_buy_leg) (leg_data demo_buy_leg))
      (ledger demo_paid) = Ok (demo_balances 900 3 4 106)"
    by (simp add: demo_move)
  then have loop: "\<exists>st. run_legs demo_runtime ?c demo_buy_data (Suc 0) 0 (demo_loop 50 0 0 demo_paid)
      = Ok st \<and> (ls_cursor st = length demo_buy_data \<and>
        settle ?c 1000 1 False 7 (ledger (ls_chain st)) = Ok ())"
    by (simp add: run_leg_def demo_loop_def demo_buy_read demo_buy_frame_def accs demo_leg_defs
        invoke_def demo_runtime_def demo_settle)
  have "\<exists>s'. process_inner demo_runtime 7 (ix_accounts demo_buy_ix) demo_buy_data 0 demo_chain = Ok s'"
    by (rule demo_run [OF demo_buy_read(3) _ demo_buy_split refl _ _ _ _ _ refl _ _ loop])
      (simp_all add: check_header_def MAX_LEGS_def intermediate_snapshot_def)
  then show ?thesis by (simp add: demo_buy_data tag_defs route_process_def)
qed

theorem buy_executes_witness:
  "\<exists>s' paid0 paid1 got0 got1. process_instruction demo_runtime 7 (ix_accounts demo_buy_ix)
      (ix_data demo_buy_ix) demo_chain = Ok s' \<and>
     token_amount (ledger demo_chain 4) = Ok paid0 \<and> token_amount (ledger s' 4) = Ok paid1 \<and>
     unat paid0 \<le> unat paid1 + unat (100 :: u64) \<and>
     (\<exists>native. output_balance (ledger s' 5) native = Ok got1) \<and> unat (90 :: u64) \<le> unat got1 - unat (got0 :: u64)"
proof -
  obtain s' where s': "process_instruction demo_runtime 7 (ix_accounts demo_buy_ix) (ix_data demo_buy_ix)
      demo_chain = Ok s'" using demo_buy_run ..
  obtain t where t: "buy_with_opts demo_env demo_client 100 demo_buy_market demo_buy_opts = Some (Ok t)"
    "bt_route t = Some demo_buy_ix" using demo_buy by blast
  from buy_executes [OF t delivers_refl, of demo_runtime demo_chain s', unfolded demo_buy_simps option.case,
      OF s']
  obtain lam src paid0 paid1 native and got0 got1 m :: u64 and p :: route_accounts where
    b: "buy_payment demo_env 1 demo_buy_market (BuyToken 20) = (lam, src)"
      "output_balance (ledger demo_chain src) lam = Ok paid0" "output_balance (ledger s' src) lam = Ok paid1"
      "unat paid0 \<le> unat paid1 + unat (100 :: u64)"
      "address (user_output p) = ata demo_env 1 (routed_meme_mint demo_buy_market)
        (routed_meme_token_program demo_buy_market)"
      "output_balance (ledger s' (address (user_output p))) native = Ok got1"
      "unat m \<le> unat got1 - unat got0" "m = 90"
    by (elim exE conjE) (rule that, assumption+)
  have "lam = False \<and> src = 4" using b(1) by (simp add: buy_payment_def demo_ata_def)
  with b(2,3) have "token_amount (ledger demo_chain 4) = Ok paid0" "token_amount (ledger s' 4) = Ok paid1"
    by (simp_all add: output_balance_def)
  moreover have "output_balance (ledger s' 5) native = Ok got1"
    using b(5,6) by (simp add: demo_buy_mints demo_ata_def)
  ultimately show ?thesis using s' b(4,7) [unfolded b(8)] by metis
qed

theorem buy_within_options_witness:
  "\<exists>acc ra m asset legs. demo_buy_ix = build_route_instruction_ex demo_env 7 acc ra m asset False 21 legs \<and>
     ra_payer acc = 1 \<and> length legs \<in> {1, 2} \<and> ra \<le> 100 \<and> m = 90"
proof -
  obtain t where t: "buy_with_opts demo_env demo_client 100 demo_buy_market demo_buy_opts = Some (Ok t)"
    "bt_route t = Some demo_buy_ix" using demo_buy by blast
  from buy_within_options [OF t(1)] obtain acc ra m asset legs where
    "Some demo_buy_ix = Some (build_route_instruction_ex demo_env 7 acc ra m asset False 21 legs)"
    "ra_payer acc = 1" "length legs \<in> {1, 2}" "ra \<le> 100" "m = 90"
    unfolding t(2) demo_buy_simps demo_buy_mints option.case by auto
  then show ?thesis by blast
qed

end
