(* ===== verification/Sdk_Sell.thy ===== *)
theory Sdk_Sell
  imports Sdk_Trade
begin

text \<open>
  The selling side of \<open>trade.rs\<close>: one definition per path, the dispatch over the received
  asset and the market in \<open>build_sell_legs\<close>, and \<open>sell_with_opts\<close>. A path returns its
  legs, the minimum output and the account that receives it.
\<close>

type_synonym sell_path = "sdk_error + (leg list \<times> u64 \<times> pubkey)"
type_synonym sell_path_st = "sdk_error + ((leg list \<times> u64 \<times> pubkey) \<times> trade_state)"

section \<open>Paths of one hop\<close>

definition sell_pumpswap_to_quote ::
  "sdk_env \<Rightarrow> router_client \<Rightarrow> u64 \<Rightarrow> pumpswap_pool \<Rightarrow> pubkey \<Rightarrow> u64 \<Rightarrow> u64 option \<Rightarrow> sell_path" where
  "sell_pumpswap_to_quote R c amount p om slip explicit =
     (if om \<noteq> ps_quote_mint p then Err ''PumpSwap receive mint must be pool quote''
      else bind_r (case explicit of Some minimum \<Rightarrow> Ok minimum
          | None \<Rightarrow> bind_r (pumpswap_sell_quote_out p amount) (\<lambda>e. Ok (apply_slippage_min_out e slip)))
        (\<lambda>min_out.
        bind_r (pumpswap_sell_leg R (rt_payer c) p amount min_out) (\<lambda>l.
          Ok ([l], min_out, ata R (rt_payer c) om (ps_quote_token_program p)))))"

definition sell_raydium_v4_to_mint ::
  "'z pda_scheme \<Rightarrow> router_client \<Rightarrow> u64 \<Rightarrow> raydium_amm_v4_pool \<Rightarrow> pubkey \<Rightarrow> u64 \<Rightarrow> u64 option
   \<Rightarrow> u64 option \<Rightarrow> sell_path" where
  "sell_raydium_v4_to_mint R c amount p om slip explicit fixed_output =
     bind_r (if om = rv_coin_mint p then Ok (rv_pc_mint p) else if om = rv_pc_mint p then Ok (rv_coin_mint p)
       else Err ''Raydium AMM V4 output mint does not match pool'') (\<lambda>im.
     let out_ata = ata R (rt_payer c) om TOKEN_PROGRAM in
     case fixed_output of
       Some target \<Rightarrow>
         bind_r (raydium_amm_v4_swap_exact_out_leg R (rt_payer c) p target amount im) (\<lambda>l.
           Ok ([l], target, out_ata))
     | None \<Rightarrow> bind_r (raydium_amm_v4_out p amount (im = rv_coin_mint p)) (\<lambda>expected.
         let min_out = unwrap_or explicit (apply_slippage_min_out expected slip)
         in bind_r (raydium_amm_v4_swap_leg R (rt_payer c) p amount min_out im) (\<lambda>l.
           Ok ([l], min_out, out_ata))))"

definition sell_meteora_v2_to_mint ::
  "'z pda_scheme \<Rightarrow> router_client \<Rightarrow> u64 \<Rightarrow> meteora_damm_v2_pool \<Rightarrow> pubkey \<Rightarrow> u64 \<Rightarrow> u64 option
   \<Rightarrow> u64 option \<Rightarrow> sell_path" where
  "sell_meteora_v2_to_mint R c amount p om slip explicit fixed_output =
     bind_r (if om = dm_token_a_mint p then Ok (dm_token_b_mint p, dm_token_a_program p)
       else if om = dm_token_b_mint p then Ok (dm_token_a_mint p, dm_token_b_program p)
       else Err ''Meteora DAMM V2 output mint does not match pool'') (\<lambda>(im, output_program).
     let out_ata = ata R (rt_payer c) om output_program in
     case fixed_output of
       Some target \<Rightarrow>
         bind_r (meteora_damm_v2_swap_leg R (rt_payer c) (p\<lparr>dm_swap_mode := METEORA_DAMM_V2_EXACT_OUT\<rparr>)
           target amount im) (\<lambda>l. Ok ([l], target, out_ata))
     | None \<Rightarrow>
         bind_r (case explicit of Some m \<Rightarrow> Ok m
           | None \<Rightarrow> meteora_damm_v2_out p amount (im = dm_token_a_mint p)) (\<lambda>expected.
         let min_out = unwrap_or explicit (apply_slippage_min_out expected slip)
         in bind_r (meteora_damm_v2_swap_leg R (rt_payer c) (p\<lparr>dm_swap_mode := METEORA_DAMM_V2_EXACT_IN\<rparr>)
           amount min_out im) (\<lambda>l. Ok ([l], min_out, out_ata))))"

definition sell_raydium_clmm_to_mint ::
  "'z pda_scheme \<Rightarrow> router_client \<Rightarrow> u64 \<Rightarrow> raydium_clmm_pool \<Rightarrow> pubkey \<Rightarrow> u64 \<Rightarrow> u64 option \<Rightarrow> sell_path" where
  "sell_raydium_clmm_to_mint R c amount p out slip explicit =
     bind_r (pair_input_and_output_program out (cl_token_0_mint p) (cl_token_1_mint p)
       (cl_token_0_program p) (cl_token_1_program p) ''Raydium CLMM'') (\<lambda>(inp, output_program).
     bind_r (assert_quote_direction (cl_quoted_input_mint p) inp explicit) (\<lambda>_.
     bind_r (concentrated_min_out (cl_expected_out p) (cl_quoted_amount_in p) amount explicit slip
       ''Raydium CLMM'') (\<lambda>m.
     bind_r (raydium_clmm_swap_leg R (rt_payer c) p amount m inp) (\<lambda>l.
       Ok ([l], m, ata R (rt_payer c) out output_program)))))"

definition sell_whirlpool_to_mint ::
  "'z pda_scheme \<Rightarrow> router_client \<Rightarrow> u64 \<Rightarrow> whirlpool_pool \<Rightarrow> pubkey \<Rightarrow> u64 \<Rightarrow> u64 option \<Rightarrow> sell_path" where
  "sell_whirlpool_to_mint R c amount p out slip explicit =
     bind_r (pair_input_and_output_program out (wp_mint_a p) (wp_mint_b p)
       (wp_token_program_a p) (wp_token_program_b p) ''Orca Whirlpool'') (\<lambda>(inp, output_program).
     bind_r (assert_quote_direction (wp_quoted_input_mint p) inp explicit) (\<lambda>_.
     bind_r (concentrated_min_out (wp_expected_out p) (wp_quoted_amount_in p) amount explicit slip
       ''Orca Whirlpool'') (\<lambda>m.
     bind_r (whirlpool_swap_leg R (rt_payer c) p amount m inp) (\<lambda>l.
       Ok ([l], m, ata R (rt_payer c) out output_program)))))"

definition sell_meteora_dlmm_to_mint ::
  "sdk_env \<Rightarrow> router_client \<Rightarrow> u64 \<Rightarrow> meteora_dlmm_pool \<Rightarrow> pubkey \<Rightarrow> u64 \<Rightarrow> u64 option \<Rightarrow> sell_path" where
  "sell_meteora_dlmm_to_mint R c amount p out slip explicit =
     bind_r (pair_input_and_output_program out (dl_token_x_mint p) (dl_token_y_mint p)
       (dl_token_x_program p) (dl_token_y_program p) ''Meteora DLMM'') (\<lambda>(inp, output_program).
     bind_r (assert_quote_direction (dl_quoted_input_mint p) inp explicit) (\<lambda>_.
     bind_r (concentrated_min_out (dl_expected_out p) (dl_quoted_amount_in p) amount explicit slip
       ''Meteora DLMM'') (\<lambda>m.
     bind_r (meteora_dlmm_swap_leg R (rt_payer c) p amount m inp) (\<lambda>l.
       Ok ([l], m, ata R (rt_payer c) out output_program)))))"

definition sell_launchlab_to_quote ::
  "'z pda_scheme \<Rightarrow> router_client \<Rightarrow> u64 \<Rightarrow> launchlab_pool \<Rightarrow> pubkey \<Rightarrow> u64 \<Rightarrow> u64 option \<Rightarrow> pubkey
   \<Rightarrow> ata_policy \<Rightarrow> trade_state \<Rightarrow> sell_path_st" where
  "sell_launchlab_to_quote R c amount p om slip explicit meme_ata policy st =
     (if om \<noteq> ll_quote_mint p then Err ''LaunchLab receive mint must be pool quote''
      else
        let payer = rt_payer c; tp = ll_quote_token_program p; quote_ata = ata R payer om tp;
            st' = use_mint R policy payer om tp st
        in bind_r (launchlab_sell_quote_out p amount) (\<lambda>expected.
           let min_out = unwrap_or explicit (apply_slippage_min_out expected slip)
           in Ok (([launchlab_sell_leg payer p amount min_out meme_ata quote_ata], min_out, quote_ata), st')))"

definition sell_cpmm_to_mint ::
  "'z pda_scheme \<Rightarrow> router_client \<Rightarrow> u64 \<Rightarrow> cpmm_pool \<Rightarrow> pubkey \<Rightarrow> pubkey \<Rightarrow> u64 \<Rightarrow> u64 option
   \<Rightarrow> u64 option \<Rightarrow> ata_policy \<Rightarrow> trade_state \<Rightarrow> sell_path_st" where
  "sell_cpmm_to_mint R c amount p im om slip explicit fixed_output policy st =
     (let payer = rt_payer c; input_is_base = (im = cp_base_mint p);
          output_tp = pool_token_program p om;
          user_in = ata R payer im (pool_token_program p im); user_out = ata R payer om output_tp;
          st' = use_mint R policy payer om output_tp st
      in case fixed_output of
        Some target \<Rightarrow>
          bind_r (cpmm_swap_exact_out_leg payer p amount target im om user_in user_out) (\<lambda>l.
            Ok (([l], target, user_out), st'))
      | None \<Rightarrow> bind_r (cpmm_out p amount input_is_base) (\<lambda>expected.
          let min_out = unwrap_or explicit (apply_slippage_min_out expected slip)
          in bind_r (cpmm_swap_leg payer p amount min_out im om user_in user_out) (\<lambda>l.
            Ok (([l], min_out, user_out), st'))))"

section \<open>Paths over a bridge\<close>

definition sell_via_bridge_launchlab ::
  "'z pda_scheme \<Rightarrow> router_client \<Rightarrow> u64 \<Rightarrow> launchlab_pool \<Rightarrow> bridge_pool \<Rightarrow> u64 \<Rightarrow> u64 option
   \<Rightarrow> ata_policy \<Rightarrow> trade_state \<Rightarrow> sell_path_st" where
  "sell_via_bridge_launchlab R c amount p b slip explicit policy st =
     (let payer = rt_payer c; stock = ll_quote_mint p; stock_tp = ll_quote_token_program p;
          stock_ata = ata R payer stock stock_tp;
          meme_ata = ata R payer (ll_base_mint p) (ll_base_token_program p);
          wsol_ata = ata R payer WSOL_MINT TOKEN_PROGRAM;
          st' = use_mint R policy payer stock stock_tp st
      in if bridge_other_mint b stock \<noteq> Some WSOL_MINT
      then Err ''bridge does not connect LaunchLab quote to WSOL''
      else bind_r (launchlab_sell_quote_out p amount) (\<lambda>stock_out.
      let hop1_min = bridge_intermediate_min_out stock_out;
          leg1 = launchlab_sell_leg payer p amount hop1_min meme_ata stock_ata
      in bind_r (bridge_quote_out b hop1_min stock) (\<lambda>sol_out.
      let min_sol = unwrap_or explicit (apply_slippage_min_out sol_out slip) in
      bind_r (bridge_swap_leg R payer b hop1_min min_sol stock WSOL_MINT stock_ata wsol_ata) (\<lambda>leg2.
        Ok (([leg1, leg2], min_sol, wsol_ata), st')))))"

text \<open>The first hop of the other venues: the leg and the quote it is pinned to.\<close>

definition sell_first_hop ::
  "sdk_env \<Rightarrow> pubkey \<Rightarrow> market \<Rightarrow> pubkey \<Rightarrow> u64 \<Rightarrow> sdk_error + (leg \<times> u64)" where
  "sell_first_hop R payer m quote amount =
     (let inp = market_base_mint m in
      case m of
        PumpFunInner p \<Rightarrow>
          if \<not> uses_v2 p then Err ''unsupported mainstream bridge market''
          else if pf_quote_mint p \<noteq> quote then Err ''PumpFun V2 bridge quote mismatch''
          else bind_r (pumpfun_sell_sol_out p amount) (\<lambda>expected.
            let hop1_min = bridge_intermediate_min_out expected
            in Ok (pumpfun_sell_v2_leg R payer p amount hop1_min, hop1_min))
      | PumpSwapOuter p \<Rightarrow> bind_r (pumpswap_sell_quote_out p amount) (\<lambda>expected.
          let hop1_min = bridge_intermediate_min_out expected
          in bind_r (pumpswap_sell_leg R payer p amount hop1_min) (\<lambda>l. Ok (l, hop1_min)))
      | RaydiumAmmV4 p \<Rightarrow> bind_r (raydium_amm_v4_out p amount (inp = rv_coin_mint p)) (\<lambda>expected.
          let hop1_min = bridge_intermediate_min_out expected
          in bind_r (raydium_amm_v4_swap_leg R payer p amount hop1_min inp) (\<lambda>l. Ok (l, hop1_min)))
      | MeteoraDammV2 p \<Rightarrow> bind_r (meteora_damm_v2_out p amount (inp = dm_token_a_mint p)) (\<lambda>expected.
          let hop1_min = bridge_intermediate_min_out expected
          in bind_r (meteora_damm_v2_swap_leg R payer (p\<lparr>dm_swap_mode := METEORA_DAMM_V2_EXACT_IN\<rparr>)
            amount hop1_min inp) (\<lambda>l. Ok (l, hop1_min)))
      | RaydiumClmm p \<Rightarrow> bind_r (assert_quote_direction (cl_quoted_input_mint p) inp None) (\<lambda>_.
          bind_r (concentrated_min_out (cl_expected_out p) (cl_quoted_amount_in p) amount None 0
            ''Raydium CLMM'') (\<lambda>q.
          bind_r (raydium_clmm_swap_leg R payer p amount q inp) (\<lambda>l. Ok (l, q))))
      | Whirlpool p \<Rightarrow> bind_r (assert_quote_direction (wp_quoted_input_mint p) inp None) (\<lambda>_.
          bind_r (concentrated_min_out (wp_expected_out p) (wp_quoted_amount_in p) amount None 0
            ''Orca Whirlpool'') (\<lambda>q.
          bind_r (whirlpool_swap_leg R payer p amount q inp) (\<lambda>l. Ok (l, q))))
      | MeteoraDlmm p \<Rightarrow> bind_r (assert_quote_direction (dl_quoted_input_mint p) inp None) (\<lambda>_.
          bind_r (concentrated_min_out (dl_expected_out p) (dl_quoted_amount_in p) amount None 0
            ''Meteora DLMM'') (\<lambda>q.
          bind_r (meteora_dlmm_swap_leg R payer p amount q inp) (\<lambda>l. Ok (l, q))))
      | _ \<Rightarrow> Err ''unsupported mainstream bridge market'')"

definition sell_via_bridge_mainstream ::
  "sdk_env \<Rightarrow> router_client \<Rightarrow> u64 \<Rightarrow> market \<Rightarrow> bridge_pool \<Rightarrow> u64 \<Rightarrow> u64 option
   \<Rightarrow> ata_policy \<Rightarrow> trade_state \<Rightarrow> sell_path_st" where
  "sell_via_bridge_mainstream R c amount m b slip explicit policy st =
     (let payer = rt_payer c; quote = market_quote_mint m; quote_tp = market_quote_token_program m;
          quote_ata = ata R payer quote quote_tp; wsol_ata = ata R payer WSOL_MINT TOKEN_PROGRAM;
          st' = push_create_ata R policy KindQuote payer quote quote_tp (touch (touch_quote quote quote_tp) st)
      in if bridge_other_mint b WSOL_MINT \<noteq> Some quote
      then Err ''bridge does not connect market quote to WSOL''
      else bind_r (sell_first_hop R payer m quote amount) (\<lambda>(leg1, quote_out).
      bind_r (bridge_quote_out b quote_out quote) (\<lambda>sol_out.
      let min_sol = unwrap_or explicit (apply_slippage_min_out sol_out slip) in
      bind_r (bridge_swap_leg R payer b quote_out min_sol quote WSOL_MINT quote_ata wsol_ata) (\<lambda>leg2.
        Ok (([leg1, leg2], min_sol, wsol_ata), st')))))"

definition sell_via_bridge_cpmm ::
  "'z pda_scheme \<Rightarrow> router_client \<Rightarrow> u64 \<Rightarrow> cpmm_pool \<Rightarrow> bridge_pool \<Rightarrow> u64 \<Rightarrow> u64 option
   \<Rightarrow> ata_policy \<Rightarrow> trade_state \<Rightarrow> sell_path_st" where
  "sell_via_bridge_cpmm R c amount p b slip explicit policy st =
     bind_r (resolve_shared_mint p b) (\<lambda>stock.
       let payer = rt_payer c; meme = other_mint p stock; stock_tp = pool_token_program p stock;
           meme_tp = pool_token_program p meme; stock_ata = ata R payer stock stock_tp;
           meme_ata = ata R payer meme meme_tp; wsol_ata = ata R payer WSOL_MINT TOKEN_PROGRAM;
           st' = use_mint R policy payer stock stock_tp st
       in if bridge_other_mint b stock \<noteq> Some WSOL_MINT
       then Err ''bridge does not connect shared stock mint to WSOL''
       else bind_r (cpmm_out p amount (meme = cp_base_mint p)) (\<lambda>stock_out.
       let hop1_min = bridge_intermediate_min_out stock_out in
       bind_r (cpmm_swap_leg payer p amount hop1_min meme stock meme_ata stock_ata) (\<lambda>leg1.
       bind_r (bridge_quote_out b hop1_min stock) (\<lambda>sol_out.
       let min_sol = unwrap_or explicit (apply_slippage_min_out sol_out slip) in
       bind_r (bridge_swap_leg R payer b hop1_min min_sol stock WSOL_MINT stock_ata wsol_ata) (\<lambda>leg2.
         Ok (([leg1, leg2], min_sol, wsol_ata), st'))))))"

section \<open>Dispatch\<close>

definition keeping :: "trade_state \<Rightarrow> sell_path \<Rightarrow> sell_path_st" where
  "keeping st r = bind_r r (\<lambda>x. Ok (x, st))"

definition sell_pumpfun ::
  "pumpfun_pool \<Rightarrow> u64 \<Rightarrow> trade_opts \<Rightarrow> trade_state \<Rightarrow> pubkey \<Rightarrow> (u64 \<Rightarrow> leg) \<Rightarrow> sell_path_st" where
  "sell_pumpfun p amount opts st out_ata build =
     bind_r (if to_min_out opts \<noteq> None then Ok 0 else pumpfun_sell_sol_out p amount) (\<lambda>expected.
       let min_out = unwrap_or (to_min_out opts) (apply_slippage_min_out expected (to_slippage_bps opts))
       in Ok (([build min_out], min_out, out_ata), st))"

definition sell_legs_token ::
  "sdk_env \<Rightarrow> router_client \<Rightarrow> u64 \<Rightarrow> routed_market \<Rightarrow> trade_opts \<Rightarrow> pubkey \<Rightarrow> trade_state
   \<Rightarrow> sell_path_st" where
  "sell_legs_token R c amount rm opts om st =
     (let payer = rt_payer c; meme = routed_meme_mint rm;
          meme_ata = ata R payer meme (routed_meme_token_program rm);
          slip = to_slippage_bps opts; explicit = to_min_out opts; fixed = to_fixed_output opts;
          policy = to_ata opts; receiving = (\<lambda>tp. use_mint R policy payer om tp st)
      in case rm_market rm of
        PumpFunInner p \<Rightarrow>
          if \<not> uses_v2 p then Err ''unsupported sell path for this sell_to / market''
          else if is_native_sol_quote p
          then Err ''PumpFun WSOL-quote: use SellTo::Sol (native) or SellTo::Wsol (use_v2)''
          else if om \<noteq> pf_quote_mint p then Err ''PumpFun V2 receive mint must be pool quote''
          else sell_pumpfun p amount opts st (ata R payer om (pf_quote_token_program p))
            (pumpfun_sell_v2_leg R payer p amount)
      | LaunchLabInner p \<Rightarrow> sell_launchlab_to_quote R c amount p om slip explicit meme_ata policy st
      | CpmmOuter p \<Rightarrow> sell_cpmm_to_mint R c amount p meme om slip explicit fixed policy st
      | PumpSwapOuter p \<Rightarrow> keeping (receiving (ps_quote_token_program p))
          (sell_pumpswap_to_quote R c amount p om slip explicit)
      | RaydiumAmmV4 p \<Rightarrow> keeping (receiving TOKEN_PROGRAM)
          (sell_raydium_v4_to_mint R c amount p om slip explicit fixed)
      | MeteoraDammV2 p \<Rightarrow> keeping
          (receiving (if om = dm_token_a_mint p then dm_token_a_program p else dm_token_b_program p))
          (sell_meteora_v2_to_mint R c amount p om slip explicit fixed)
      | RaydiumClmm p \<Rightarrow> keeping
          (receiving (if om = cl_token_0_mint p then cl_token_0_program p else cl_token_1_program p))
          (sell_raydium_clmm_to_mint R c amount p om slip explicit)
      | Whirlpool p \<Rightarrow> keeping
          (receiving (if om = wp_mint_a p then wp_token_program_a p else wp_token_program_b p))
          (sell_whirlpool_to_mint R c amount p om slip explicit)
      | MeteoraDlmm p \<Rightarrow> keeping
          (receiving (if om = dl_token_x_mint p then dl_token_x_program p else dl_token_y_program p))
          (sell_meteora_dlmm_to_mint R c amount p om slip explicit))"

definition sell_bridged ::
  "bridge_pool option \<Rightarrow> string \<Rightarrow> (bridge_pool \<Rightarrow> sell_path_st) \<Rightarrow> sell_path_st" where
  "sell_bridged b msg f = bind_r (ok_or b msg) f"

definition sell_legs_sol ::
  "sdk_env \<Rightarrow> router_client \<Rightarrow> u64 \<Rightarrow> routed_market \<Rightarrow> trade_opts \<Rightarrow> bool \<Rightarrow> trade_state
   \<Rightarrow> sell_path_st" where
  "sell_legs_sol R c amount rm opts as_wsol st =
     (let payer = rt_payer c; m = rm_market rm;
          meme_ata = ata R payer (routed_meme_mint rm) (routed_meme_token_program rm);
          slip = to_slippage_bps opts; explicit = to_min_out opts; fixed = to_fixed_output opts;
          policy = to_ata opts;
          mainstream = (\<lambda>msg. sell_bridged (rm_bridge rm) msg (\<lambda>b.
            sell_via_bridge_mainstream R c amount m b slip explicit policy st))
      in case m of
        PumpFunInner p \<Rightarrow>
          if \<not> as_wsol \<and> is_native_sol_quote p
          then sell_pumpfun p amount opts
            (prepare_pumpfun_native_accounts R (rt_program_id c) payer p (pf_is_cashback_coin p) st) meme_ata
            (\<lambda>min_out. pumpfun_sell_leg R payer p amount min_out meme_ata)
          else if as_wsol \<and> uses_wsol_ata_settlement p
          then sell_pumpfun p amount opts st (ata R payer WSOL_MINT TOKEN_PROGRAM)
            (pumpfun_sell_v2_leg R payer p amount)
          else if uses_v2 p \<and> \<not> is_native_sol_quote p
          then mainstream ''PumpFun V2 non-WSOL quote needs quote/SOL bridge''
          else Err ''unsupported sell path for this sell_to / market''
      | LaunchLabInner p \<Rightarrow>
          if is_sol_quote p
          then bind_r (launchlab_sell_quote_out p amount) (\<lambda>expected.
            let min_out = unwrap_or explicit (apply_slippage_min_out expected slip);
                quote_ata = ata R payer WSOL_MINT (ll_quote_token_program p)
            in Ok (([launchlab_sell_leg payer p amount min_out meme_ata quote_ata], min_out, quote_ata), st))
          else sell_bridged (rm_bridge rm) ''missing SOL/stock bridge'' (\<lambda>b.
            sell_via_bridge_launchlab R c amount p b slip explicit policy st)
      | CpmmOuter p \<Rightarrow>
          if \<not> needs_sol_bridge m
          then sell_cpmm_to_mint R c amount p (cpmm_meme_mint p) WSOL_MINT slip explicit fixed policy st
          else sell_bridged (rm_bridge rm) ''missing SOL/stock bridge'' (\<lambda>b.
            sell_via_bridge_cpmm R c amount p b slip explicit policy st)
      | PumpSwapOuter p \<Rightarrow>
          if ps_quote_mint p = WSOL_MINT
          then keeping st (sell_pumpswap_to_quote R c amount p WSOL_MINT slip explicit)
          else mainstream ''missing SOL/quote bridge''
      | RaydiumAmmV4 p \<Rightarrow>
          if \<not> needs_sol_bridge m
          then keeping st (sell_raydium_v4_to_mint R c amount p WSOL_MINT slip explicit fixed)
          else mainstream ''missing SOL/quote bridge''
      | MeteoraDammV2 p \<Rightarrow>
          if \<not> needs_sol_bridge m
          then keeping st (sell_meteora_v2_to_mint R c amount p WSOL_MINT slip explicit fixed)
          else mainstream ''missing SOL/quote bridge''
      | RaydiumClmm p \<Rightarrow>
          if \<not> needs_sol_bridge m
          then keeping st (sell_raydium_clmm_to_mint R c amount p WSOL_MINT slip explicit)
          else mainstream ''missing SOL/quote bridge''
      | Whirlpool p \<Rightarrow>
          if \<not> needs_sol_bridge m
          then keeping st (sell_whirlpool_to_mint R c amount p WSOL_MINT slip explicit)
          else mainstream ''missing SOL/quote bridge''
      | MeteoraDlmm p \<Rightarrow>
          if \<not> needs_sol_bridge m
          then keeping st (sell_meteora_dlmm_to_mint R c amount p WSOL_MINT slip explicit)
          else mainstream ''missing SOL/quote bridge'')"

definition build_sell_legs ::
  "sdk_env \<Rightarrow> router_client \<Rightarrow> u64 \<Rightarrow> routed_market \<Rightarrow> trade_opts \<Rightarrow> trade_state \<Rightarrow> sell_path_st" where
  "build_sell_legs R c amount rm opts st =
     (case to_sell_to opts of
        SellToken om \<Rightarrow> sell_legs_token R c amount rm opts om st
      | SellSol \<Rightarrow> sell_legs_sol R c amount rm opts False st
      | SellWsol \<Rightarrow> sell_legs_sol R c amount rm opts True st)"

section \<open>The trade\<close>

definition fixed_sell_supported :: "market \<Rightarrow> bool" where
  "fixed_sell_supported m = (case m of CpmmOuter _ \<Rightarrow> True | RaydiumAmmV4 _ \<Rightarrow> True
     | MeteoraDammV2 _ \<Rightarrow> True | _ \<Rightarrow> False)"

definition pump_native :: "market \<Rightarrow> bool" where
  "pump_native m = (case m of PumpFunInner p \<Rightarrow> is_native_sol_quote p | _ \<Rightarrow> False)"

definition pump_settles_wsol :: "market \<Rightarrow> bool" where
  "pump_settles_wsol m = (case m of PumpFunInner p \<Rightarrow> uses_wsol_ata_settlement p | _ \<Rightarrow> False)"

definition sell_market_checks ::
  "'z pda_scheme \<Rightarrow> router_client \<Rightarrow> u64 \<Rightarrow> routed_market \<Rightarrow> trade_opts \<Rightarrow> sdk_error + unit" where
  "sell_market_checks R c amount rm opts =
     bind_r (validate_router_fee_bps (rt_fee_bps c)) (\<lambda>_.
     bind_r (assert_routed_market_ok R rm (rt_pool_guard c)) (\<lambda>_.
     bind_r (validate_inner_market_programs (rm_market rm) (to_sell_to opts \<noteq> SellSol)) (\<lambda>_.
       if amount = 0 then Err ''amount_in is zero''
       else if sat_sub amount (fee_amount amount (rt_fee_bps c)) = 0
       then Err ''amount after fee is zero'' else Ok ())))"

definition sell_needs_bridge :: "routed_market \<Rightarrow> sell_to \<Rightarrow> sdk_error + bool" where
  "sell_needs_bridge rm s =
     (case s of
        SellToken mint \<Rightarrow>
          if mint = routed_meme_mint rm then Err ''sell_to token cannot be the meme mint''
          else if mint \<noteq> routed_quote_mint rm then Err ''sell_to token is not this market's quote''
          else Ok False
      | _ \<Rightarrow> Ok (needs_sol_bridge (rm_market rm)))"

definition sell_path_checks :: "routed_market \<Rightarrow> trade_opts \<Rightarrow> sdk_error + unit" where
  "sell_path_checks rm opts =
     bind_r (sell_needs_bridge rm (to_sell_to opts)) (\<lambda>needs_bridge.
     bind_r (validate_fixed_output opts (\<not> needs_bridge \<and> fixed_sell_supported (rm_market rm))) (\<lambda>_.
       if needs_bridge \<and> rm_bridge rm = None
       then Err ''SOL/WSOL receive needs stock bridge; or use sell_to_token(mint)''
       else bind_r (if needs_bridge then validate_bridge_quote_program rm else Ok ()) (\<lambda>_.
         if \<not> pump_native (rm_market rm) then Ok ()
         else case to_sell_to opts of
           SellSol \<Rightarrow> Ok ()
         | SellWsol \<Rightarrow> if pump_settles_wsol (rm_market rm) then Ok ()
             else Err ''PumpFun WSOL-quote native settlement uses SellTo::Sol; set use_v2 for WSOL ATA''
         | SellToken _ \<Rightarrow> Err ''PumpFun WSOL-quote sell only returns SOL/WSOL'')))"

definition sell_initial_state ::
  "'z pda_scheme \<Rightarrow> router_client \<Rightarrow> routed_market \<Rightarrow> trade_opts \<Rightarrow> u64 \<Rightarrow> trade_state" where
  "sell_initial_state R c rm opts fee =
     (let payer = rt_payer c; meme = routed_meme_mint rm; meme_tp = routed_meme_token_program rm;
          policy = to_ata opts; m = rm_market rm;
          st0 = \<lparr>ts_setup = [], ts_touched = touch_meme meme meme_tp no_touched\<rparr>;
          st = (if fee > 0 \<or> create_meme policy
            then push_setup (create_ata_idempotent R payer (rt_fee_recipient c) meme meme_tp) st0 else st0)
      in if (sell_is_sol_family (to_sell_to opts) \<and> \<not> pump_native m)
          \<or> (to_sell_to opts = SellWsol \<and> pump_settles_wsol m)
         then push_create_ata R policy KindWsol payer WSOL_MINT TOKEN_PROGRAM (touch touch_wsol st)
         else (case to_sell_to opts of
             SellToken mint \<Rightarrow> use_mint R policy payer mint (routed_quote_token_program rm) st
           | _ \<Rightarrow> st))"

text \<open>The mint the router checks and the account whose balance it measures.\<close>

definition sell_output :: "router_client \<Rightarrow> routed_market \<Rightarrow> trade_opts \<Rightarrow> pubkey \<Rightarrow> pubkey \<times> pubkey" where
  "sell_output c rm opts output_ata =
     (case to_sell_to opts of
        SellSol \<Rightarrow> if pump_native (rm_market rm) then (SYSTEM_PROGRAM, rt_payer c) else (WSOL_MINT, output_ata)
      | SellWsol \<Rightarrow> (WSOL_MINT, output_ata)
      | SellToken m \<Rightarrow> (m, output_ata))"

definition finish_sell ::
  "'z pda_scheme \<Rightarrow> router_client \<Rightarrow> routed_market \<Rightarrow> trade_opts \<Rightarrow> u64 \<Rightarrow> u64 \<Rightarrow> leg list \<Rightarrow> pubkey
   \<Rightarrow> trade_state \<Rightarrow> built_trade" where
  "finish_sell R c rm opts amount min_out legs output_ata st =
     (let payer = rt_payer c; meme = routed_meme_mint rm; meme_tp = routed_meme_token_program rm;
          (expected_mint, out_account) = sell_output c rm opts output_ata;
          route = build_route_instruction_ex R (rt_program_id c)
            \<lparr>ra_payer = payer, ra_fee_destination = ata R (rt_fee_recipient c) meme meme_tp,
             ra_fee_source = ata R payer meme meme_tp, ra_output_token_account = out_account,
             ra_fee_program = token_fee_program meme_tp, ra_fee_mint = meme\<rparr>
            amount min_out FEE_ASSET_TOKEN (to_fixed_output opts \<noteq> None) expected_mint legs
      in \<lparr>bt_setup = ts_setup st, bt_route = Some route,
          bt_cleanup = build_cleanup R (to_ata opts) payer (ts_touched st)\<rparr>)"

definition sell_with_opts ::
  "sdk_env \<Rightarrow> router_client \<Rightarrow> u64 \<Rightarrow> routed_market \<Rightarrow> trade_opts \<Rightarrow> sdk_error + built_trade" where
  "sell_with_opts R c amount rm opts =
     bind_r (sell_market_checks R c amount rm opts) (\<lambda>_.
     bind_r (sell_path_checks rm opts) (\<lambda>_.
       let fee = fee_amount amount (rt_fee_bps c); sell_amt = sat_sub amount fee in
       bind_r (build_sell_legs R c sell_amt rm opts (sell_initial_state R c rm opts fee))
         (\<lambda>((legs, min_out, output_ata), st).
         if to_min_out opts = None \<and> min_out = 0
         then Err ''automatic sell quote rounds to zero output; increase input''
         else Ok (finish_sell R c rm opts amount min_out legs output_ata st))))"

definition sell_to_sol :: "sdk_env \<Rightarrow> router_client \<Rightarrow> u64 \<Rightarrow> routed_market \<Rightarrow> sdk_error + built_trade" where
  "sell_to_sol R c amount rm = sell_with_opts R c amount rm (opts_sell_to_sol opts_default)"

definition sell_to_wsol :: "sdk_env \<Rightarrow> router_client \<Rightarrow> u64 \<Rightarrow> routed_market \<Rightarrow> sdk_error + built_trade" where
  "sell_to_wsol R c amount rm = sell_with_opts R c amount rm (opts_sell_to_wsol opts_default)"

definition sell_to_token ::
  "sdk_env \<Rightarrow> router_client \<Rightarrow> u64 \<Rightarrow> routed_market \<Rightarrow> pubkey \<Rightarrow> sdk_error + built_trade" where
  "sell_to_token R c amount rm mint = sell_with_opts R c amount rm (opts_sell_to_token mint opts_default)"

end
