(* ===== verification/Sell_Props.thy ===== *)
theory Sell_Props
  imports Buy_Props Sdk_Sell
begin

unbundle bit_operations_syntax

text \<open>
  Selling: what the paths of \<open>build_sell_legs\<close> return, and what an executed sell does. The
  proceeds go to the caller, natively or into the caller's associated account.
\<close>

section \<open>Paths\<close>

text \<open>The legs, the minimum and the receiving account of a path that ends in the mint \<open>om\<close>.\<close>

definition sell_ok ::
  "'z pda_scheme \<Rightarrow> pubkey \<Rightarrow> u64 option \<Rightarrow> u64 option \<Rightarrow> pubkey \<Rightarrow> (leg list \<times> u64 \<times> pubkey) \<Rightarrow> bool" where
  "sell_ok R payer explicit fixed om r = (case r of (ls, m, out) \<Rightarrow>
     length ls \<le> 2 \<and> honours explicit fixed m \<and> (\<exists>tp. out = ata R payer om tp))"

lemma sell_pumpswap_Ok:
  "sell_pumpswap_to_quote R c a p om slip e = Ok r \<Longrightarrow> sell_ok R (rt_payer c) e None om r"
  by (cases e) (auto simp: sell_pumpswap_to_quote_def sell_ok_def result_inv split: if_splits)

lemma sell_raydium_v4_Ok:
  "sell_raydium_v4_to_mint R c a p om slip e f = Ok r \<Longrightarrow> sell_ok R (rt_payer c) e f om r"
  by (auto simp: sell_raydium_v4_to_mint_def sell_ok_def Let_def result_inv split: if_splits option.splits)

lemma sell_meteora_v2_Ok:
  "sell_meteora_v2_to_mint R c a p om slip e f = Ok r \<Longrightarrow> sell_ok R (rt_payer c) e f om r"
  by (auto simp: sell_meteora_v2_to_mint_def sell_ok_def Let_def result_inv split: if_splits option.splits)

lemma sell_concentrated_Ok:
  "sell_raydium_clmm_to_mint R c a p1 om slip e = Ok r \<Longrightarrow> sell_ok R (rt_payer c) e None om r"
  "sell_whirlpool_to_mint R c a p2 om slip e = Ok r \<Longrightarrow> sell_ok R (rt_payer c) e None om r"
  "sell_meteora_dlmm_to_mint R' c a p3 om slip e = Ok r \<Longrightarrow> sell_ok R' (rt_payer c) e None om r"
  by (auto simp: sell_raydium_clmm_to_mint_def sell_whirlpool_to_mint_def sell_ok_def
      sell_meteora_dlmm_to_mint_def result_inv dest: concentrated_min_out_honours)

lemma sell_launchlab_Ok:
  "sell_launchlab_to_quote R c a p om slip e ma pol st = Ok (r, st') \<Longrightarrow> sell_ok R (rt_payer c) e None om r"
  by (auto simp: sell_launchlab_to_quote_def sell_ok_def Let_def result_inv split: if_splits)

lemma sell_cpmm_Ok:
  "sell_cpmm_to_mint R c a p im om slip e f pol st = Ok (r, st') \<Longrightarrow> sell_ok R (rt_payer c) e f om r"
  by (auto simp: sell_cpmm_to_mint_def sell_ok_def Let_def result_inv split: option.splits)

lemma sell_bridges_Ok:
  "sell_via_bridge_launchlab R c a p1 b slip e pol st = Ok (r, st') \<Longrightarrow>
     sell_ok R (rt_payer c) e None WSOL_MINT r"
  "sell_via_bridge_mainstream R' c a mk b slip e pol st = Ok (r, st') \<Longrightarrow>
     sell_ok R' (rt_payer c) e None WSOL_MINT r"
  "sell_via_bridge_cpmm R c a p2 b slip e pol st = Ok (r, st') \<Longrightarrow>
     sell_ok R (rt_payer c) e None WSOL_MINT r"
  by (auto simp: sell_via_bridge_launchlab_def sell_via_bridge_mainstream_def sell_via_bridge_cpmm_def
      sell_ok_def Let_def result_inv split: if_splits)

lemma sell_pumpfun_Ok:
  "sell_pumpfun p a opts st (ata R payer om tp) build = Ok (r, st') \<Longrightarrow>
     sell_ok R payer (to_min_out opts) None om r"
  by (auto simp: sell_pumpfun_def sell_ok_def Let_def result_inv)

lemma keeping_Ok [result_inv]: "keeping st r = Inr (y, st') \<longleftrightarrow> r = Ok y \<and> st' = st"
  by (cases y) (auto simp: keeping_def result_inv)

lemma sell_bridged_Ok [result_inv]: "sell_bridged b msg f = Inr y \<longleftrightarrow> (\<exists>x. b = Some x \<and> f x = Inr y)"
  by (cases b) (simp_all add: sell_bridged_def)

lemmas sell_path_Ok = sell_pumpswap_Ok sell_raydium_v4_Ok sell_meteora_v2_Ok sell_concentrated_Ok
  sell_launchlab_Ok sell_cpmm_Ok sell_bridges_Ok sell_pumpfun_Ok

section \<open>Dispatch\<close>

lemma sell_legs_token_Ok:
  assumes "sell_legs_token R c a rm opts om st = Ok (r, st')"
    "to_fixed_output opts = None \<or> fixed_sell_supported (rm_market rm)"
  shows "sell_ok R (rt_payer c) (to_min_out opts) (to_fixed_output opts) om r"
  using assms unfolding sell_legs_token_def Let_def fixed_sell_supported_def
  by (cases "rm_market rm") (auto simp: result_inv split: if_splits dest: sell_path_Ok)

lemma sell_legs_sol_Ok:
  assumes "sell_legs_sol R c a rm opts w st = Ok (r, st')" "w \<or> \<not> pump_native (rm_market rm)"
    "to_fixed_output opts = None \<or>
     fixed_sell_supported (rm_market rm) \<and> \<not> needs_sol_bridge (rm_market rm)"
  shows "sell_ok R (rt_payer c) (to_min_out opts) (to_fixed_output opts) WSOL_MINT r"
  using assms unfolding sell_legs_sol_def Let_def fixed_sell_supported_def
  by (cases "rm_market rm")
    (auto simp: result_inv pump_native_def sell_ok_def [of _ _ _ None] split: if_splits
      dest: sell_path_Ok)

lemma sell_legs_native_Ok:
  assumes "sell_legs_sol R c a rm opts False st = Ok (r, st')" "pump_native (rm_market rm)"
    "to_fixed_output opts = None"
  shows "\<exists>om. sell_ok R (rt_payer c) (to_min_out opts) None om r"
  using assms unfolding sell_legs_sol_def Let_def
  by (cases "rm_market rm") (auto simp: pump_native_def dest: sell_pumpfun_Ok)

lemma sell_path_checks_fixed:
  assumes "sell_path_checks rm opts = Ok ()"
  shows "to_fixed_output opts = None \<or> fixed_sell_supported (rm_market rm) \<and>
    (sell_is_sol_family (to_sell_to opts) \<longrightarrow> \<not> needs_sol_bridge (rm_market rm))"
  using assms
  by (auto simp: sell_path_checks_def result_inv validate_fixed_output_def sell_needs_bridge_def
      sell_is_sol_family_def split: if_splits option.splits sell_to.splits)

text \<open>The mint whose account the router measures, if it is not the caller's own lamports.\<close>

definition proceeds_mint :: "sell_to \<Rightarrow> pubkey" where
  "proceeds_mint s = (case s of SellToken m \<Rightarrow> m | _ \<Rightarrow> WSOL_MINT)"

lemma build_sell_legs_Ok:
  assumes "build_sell_legs R c a rm opts st = Ok (r, st')" "sell_path_checks rm opts = Ok ()"
  shows "\<exists>om. sell_ok R (rt_payer c) (to_min_out opts) (to_fixed_output opts) om r \<and>
    (om = proceeds_mint (to_sell_to opts) \<or> to_sell_to opts = SellSol \<and> pump_native (rm_market rm))"
proof -
  note fixed = sell_path_checks_fixed [OF assms(2)]
  show ?thesis
  proof (cases "to_sell_to opts")
    case SellSol
    have "pump_native (rm_market rm) \<Longrightarrow> to_fixed_output opts = None"
      using fixed by (auto simp: pump_native_def fixed_sell_supported_def split: market.splits)
    with SellSol assms(1) fixed show ?thesis
      using sell_legs_sol_Ok [of R c a rm opts False st r st'] sell_legs_native_Ok [of R c a rm opts st r st']
      by (cases "pump_native (rm_market rm)")
        (auto simp: build_sell_legs_def sell_is_sol_family_def proceeds_mint_def)
  next
    case SellWsol
    with assms(1) fixed sell_legs_sol_Ok [of R c a rm opts True st r st'] show ?thesis
      by (auto simp: build_sell_legs_def sell_is_sol_family_def proceeds_mint_def)
  next
    case (SellToken m)
    with assms(1) fixed sell_legs_token_Ok [of R c a rm opts m st r st'] show ?thesis
      by (auto simp: build_sell_legs_def proceeds_mint_def)
  qed
qed

text \<open>Where the proceeds go: the caller, for native SOL of a Pump.fun curve, and otherwise the
  caller's associated account of the mint asked for.\<close>

definition pays_caller :: "'z pda_scheme \<Rightarrow> pubkey \<Rightarrow> sell_to \<Rightarrow> pubkey \<Rightarrow> pubkey \<Rightarrow> bool" where
  "pays_caller R payer s mint out \<longleftrightarrow>
     (mint = SYSTEM_PROGRAM \<and> out = payer \<and> s = SellSol) \<or>
     (mint = proceeds_mint s \<and> (\<exists>tp. out = ata R payer mint tp))"

lemma sell_with_opts_Ok:
  assumes "sell_with_opts R c amount rm opts = Ok t"
  obtains acc m mint legs out st where
    "bt_route t = Some (build_route_instruction_ex R (rt_program_id c) acc amount m FEE_ASSET_TOKEN
       (to_fixed_output opts \<noteq> None) mint legs)"
    "ra_payer acc = rt_payer c"
    "ra_fee_source acc = ata R (rt_payer c) (routed_meme_mint rm) (routed_meme_token_program rm)"
    "pays_caller R (rt_payer c) (to_sell_to opts) mint (ra_output_token_account acc)"
    "length legs \<le> 2" "honours (to_min_out opts) (to_fixed_output opts) m"
    "to_min_out opts \<noteq> None \<or> m \<noteq> 0"
    "build_sell_legs R c (sat_sub amount (fee_amount amount (rt_fee_bps c))) rm opts
      (sell_initial_state R c rm opts (fee_amount amount (rt_fee_bps c))) = Ok ((legs, m, out), st)"
proof -
  from assms obtain legs m out st where c: "sell_path_checks rm opts = Ok ()"
    and b: "build_sell_legs R c (sat_sub amount (fee_amount amount (rt_fee_bps c))) rm opts
      (sell_initial_state R c rm opts (fee_amount amount (rt_fee_bps c))) = Ok ((legs, m, out), st)" "\<not> (to_min_out opts = None \<and> m = 0)"
    and t: "t = finish_sell R c rm opts amount m legs out st"
    by (auto simp: sell_with_opts_def Let_def result_inv split: if_splits)
  from build_sell_legs_Ok [OF b(1) c] obtain om where p: "length legs \<le> 2"
    "honours (to_min_out opts) (to_fixed_output opts) m" "\<exists>tp. out = ata R (rt_payer c) om tp"
    "om = proceeds_mint (to_sell_to opts) \<or> to_sell_to opts = SellSol \<and> pump_native (rm_market rm)"
    by (auto simp: sell_ok_def)
  obtain mint dst where so: "sell_output c rm opts out = (mint, dst)" by fastforce
  have "pays_caller R (rt_payer c) (to_sell_to opts) mint dst"
    using so p(3,4) by (auto simp: sell_output_def pays_caller_def proceeds_mint_def
        split: sell_to.splits if_splits)
  with p(1,2) b show thesis
    by (intro that) (auto simp: t finish_sell_def Let_def so)
qed

text \<open>C2. What a sell does when the program executes its route, whatever the pools and the other
  programs do: the caller's account of the sold mint pays at most the amount, the platform fee
  included, and the caller, in lamports or in the associated account of the mint asked for,
  receives at least the minimum the options ask for.\<close>

theorem sell_executes:
  assumes "sell_with_opts R c amount rm opts = Ok t" "bt_route t = Some i"
    "delivers accs (ix_accounts i)"
    "process_instruction RT (rt_program_id c) accs (ix_data i) s = Ok s'"
  shows "\<exists>p src out mint paid0 paid1 cfg fee s1 native got0 got1 m. split_accounts accs 0 = Ok p \<and>
    address (user p) = rt_payer c \<and> is_signer (user p) \<and>
    src = ata R (rt_payer c) (routed_meme_mint rm) (routed_meme_token_program rm) \<and>
    token_amount (ledger s src) = Ok paid0 \<and> token_amount (ledger s' src) = Ok paid1 \<and>
    unat paid0 \<le> unat paid1 + unat amount \<and>
    pays_caller R (rt_payer c) (to_sell_to opts) mint out \<and>
    validate_output (user p) (user_output p) mint False (ledger s) = Ok native \<and>
    pay_fee RT p cfg FEE_ASSET_TOKEN fee s = Ok s1 \<and>
    output_balance (ledger s1 out) native = Ok got0 \<and> output_balance (ledger s' out) native = Ok got1 \<and>
    unat m \<le> unat got1 - unat got0 \<and>
    (case to_fixed_output opts of Some a \<Rightarrow> m = a
     | None \<Rightarrow> (case to_min_out opts of Some k \<Rightarrow> m = k | None \<Rightarrow> m \<noteq> 0))"
proof -
  from assms(1) obtain acc m mint legs where b:
    "bt_route t = Some (build_route_instruction_ex R (rt_program_id c) acc amount m FEE_ASSET_TOKEN
       (to_fixed_output opts \<noteq> None) mint legs)"
    "ra_payer acc = rt_payer c"
    "ra_fee_source acc = ata R (rt_payer c) (routed_meme_mint rm) (routed_meme_token_program rm)"
    "pays_caller R (rt_payer c) (to_sell_to opts) mint (ra_output_token_account acc)"
    "length legs \<le> 2" "honours (to_min_out opts) (to_fixed_output opts) m"
    "to_min_out opts \<noteq> None \<or> m \<noteq> 0"
    by (rule sell_with_opts_Ok)
  from b(1) assms(2) have i: "i = build_route_instruction_ex R (rt_program_id c) acc amount m
      FEE_ASSET_TOKEN (to_fixed_output opts \<noteq> None) mint legs" by simp
  have n: "length legs < 256" and one: "FEE_ASSET_TOKEN AND 1 = 1"
    using b(5) by (simp_all add: FEE_ASSET_TOKEN_def)
  obtain p cfg fee paid0 paid1 s1 native got0 got1 where r: "split_accounts accs 0 = Ok p"
    "addressed p acc (fst (sdk_config_pda R (rt_program_id c)))"
    "check_config RT (rt_program_id c) (config_acc p) (ledger s) = Ok cfg"
    "checked_fee amount (fee_bps cfg) = Ok fee"
    "fee_source_after (FEE_ASSET_TOKEN AND 1) p (ledger s) = Ok paid0"
    "fee_source_after (FEE_ASSET_TOKEN AND 1) p (ledger s') = Ok paid1"
    "unat paid0 \<le> unat paid1 + unat amount" "pay_fee RT p cfg (FEE_ASSET_TOKEN AND 1) fee s = Ok s1"
    "validate_output (user p) (user_output p) mint False (ledger s) = Ok native"
    "output_balance (ledger s1 (address (user_output p))) native = Ok got0"
    "output_balance (ledger s' (address (user_output p))) native = Ok got1"
    "unat m \<le> unat got1 - unat got0"
    by (rule route_settled [OF n assms(3) i assms(4)])
  have "case to_fixed_output opts of Some a \<Rightarrow> m = a
     | None \<Rightarrow> (case to_min_out opts of Some k \<Rightarrow> m = k | None \<Rightarrow> m \<noteq> 0)"
    using b(6,7) by (auto simp: honours_def split: option.splits)
  moreover have "FEE_ASSET_TOKEN AND 1 = FEE_ASSET_TOKEN" by (simp add: FEE_ASSET_TOKEN_def)
  ultimately show ?thesis using r(1,2,5-12) b(2-4) one
    by (rule_tac x = p in exI, rule_tac x = "address (fee_source p)" in exI,
        rule_tac x = "address (user_output p)" in exI, rule_tac x = mint in exI, rule_tac x = paid0 in exI,
        rule_tac x = paid1 in exI, rule_tac x = cfg in exI, rule_tac x = fee in exI, rule_tac x = s1 in exI,
        rule_tac x = native in exI, rule_tac x = got0 in exI, rule_tac x = got1 in exI, rule_tac x = m in exI,
       (simp add: addressed_def fee_source_after_def))
qed

section \<open>Witness\<close>

text \<open>The demonstration buy, read as a sell: the same swap of mint 20 for mint 21, in a pool whose
  base is the sold mint.\<close>

definition demo_sell_pool :: cpmm_pool where
  "demo_sell_pool = demo_buy_pool\<lparr>cp_base_mint := 20, cp_quote_mint := 21, cp_base_vault := 53,
     cp_quote_vault := 54\<rparr>"

definition demo_sell_market :: routed_market where
  "demo_sell_market = \<lparr>rm_market = CpmmOuter demo_sell_pool, rm_bridge = None\<rparr>"

definition demo_sell_opts :: trade_opts where
  "demo_sell_opts = (opts_sell_to_token 21 opts_default)\<lparr>to_min_out := Some 90\<rparr>"

lemma demo_sell_simps [simp]:
  "rm_market demo_sell_market = CpmmOuter demo_sell_pool" "rm_bridge demo_sell_market = None"
  "to_sell_to demo_sell_opts = SellToken 21" "to_min_out demo_sell_opts = Some 90"
  "to_fixed_output demo_sell_opts = None"
  by (simp_all add: demo_sell_market_def demo_sell_opts_def opts_sell_to_token_def opts_default_def)

lemma demo_sell_mints:
  "routed_meme_mint demo_sell_market = 20" "routed_meme_token_program demo_sell_market = TOKEN_PROGRAM"
  "routed_quote_mint demo_sell_market = 21" "routed_quote_token_program demo_sell_market = TOKEN_PROGRAM"
  by (simp_all add: routed_meme_mint_def routed_meme_token_program_def routed_quote_mint_def
      routed_quote_token_program_def demo_sell_market_def demo_sell_pool_def demo_buy_pool_def
      neither_wsol_def meme_mint_sol_paired_def unwrap_or_def token_program_for_def cpmm_other_mint_def)

lemma demo_sell_quote: "\<exists>r. cpmm_out demo_sell_pool 99 True = Ok r"
  by (simp add: cpmm_out_def cpmm_sides_def demo_sell_pool_def demo_buy_pool_def cpmm_creator_rate_def
      FEE_DENOM_def widen_def no_transfer_fee_def calculate_def checked_sub_def checked_add_def
      creator_fee_on_input_def Let_def)

lemma demo_sell_legs:
  "\<exists>st'. build_sell_legs demo_env demo_client 99 demo_sell_market demo_sell_opts st =
     Ok (([demo_buy_leg], 90, 5), st')"
proof -
  obtain r where "cpmm_out demo_sell_pool 99 True = Ok r" using demo_sell_quote ..
  moreover have "cpmm_swap_leg 1 demo_sell_pool 99 90 20 21 (demo_ata 1 20) (demo_ata 1 21) = Ok demo_buy_leg"
    by (simp add: cpmm_swap_leg_def cpmm_leg_def demo_sell_pool_def demo_buy_pool_def cpmm_leg_sides_def
        demo_buy_leg_def demo_ata_def require_token_programs_def)
  moreover have "(20 = cp_base_mint demo_sell_pool) = True" "demo_ata 1 21 = 5"
    by (simp_all add: demo_sell_pool_def demo_ata_def)
  ultimately show ?thesis
    by (simp add: build_sell_legs_def sell_legs_token_def sell_cpmm_to_mint_def demo_sell_mints Let_def)
qed

lemma demo_sell:
  "\<exists>t. sell_with_opts demo_env demo_client 100 demo_sell_market demo_sell_opts = Ok t \<and>
     bt_route t = Some demo_buy_ix"
proof -
  have f: "fee_amount 100 100 = 1" by (simp add: word_eq_unat unat_fee_amount)
  then have "sell_market_checks demo_env demo_client 100 demo_sell_market demo_sell_opts = Ok ()"
    by (simp add: sell_market_checks_def validate_router_fee_bps_def assert_routed_market_ok_def
        assert_cpmm_ok_def assert_bridge_ok_def trust_def guard_default_def is_trusted_def
        demo_sell_pool_def demo_buy_pool_def sat_sub_def)
  moreover have "sell_path_checks demo_sell_market demo_sell_opts = Ok ()"
    by (simp add: sell_path_checks_def sell_needs_bridge_def demo_sell_mints validate_fixed_output_def
        pump_native_def)
  moreover obtain st where "build_sell_legs demo_env demo_client 99 demo_sell_market demo_sell_opts
      (sell_initial_state demo_env demo_client demo_sell_market demo_sell_opts 1) =
      Ok (([demo_buy_leg], 90, 5), st)" using demo_sell_legs by blast
  moreover have "bt_route (finish_sell demo_env demo_client demo_sell_market demo_sell_opts 100 90
      [demo_buy_leg] 5 st) = Some demo_buy_ix"
    by (simp add: finish_sell_def Let_def sell_output_def demo_sell_mints demo_ata_def demo_buy_ix_def
        demo_ix_accounts_def FEE_ASSET_TOKEN_def token_fee_program_def program_agrees)
  ultimately show ?thesis by (simp add: sell_with_opts_def Let_def f sat_sub_def)
qed

theorem sell_executes_witness:
  "\<exists>s' paid0 paid1 native got0 got1. process_instruction demo_runtime 7 (ix_accounts demo_buy_ix)
      (ix_data demo_buy_ix) demo_chain = Ok s' \<and>
     token_amount (ledger demo_chain 4) = Ok paid0 \<and> token_amount (ledger s' 4) = Ok paid1 \<and>
     unat paid0 \<le> unat paid1 + unat (100 :: u64) \<and>
     (\<exists>out. pays_caller demo_env 1 (SellToken 21) 21 out \<and> output_balance (ledger s' out) native = Ok got1) \<and>
     unat (90 :: u64) \<le> unat got1 - unat (got0 :: u64)"
proof -
  obtain s' where s': "process_instruction demo_runtime 7 (ix_accounts demo_buy_ix) (ix_data demo_buy_ix)
      demo_chain = Ok s'" using demo_buy_run ..
  obtain t where t: "sell_with_opts demo_env demo_client 100 demo_sell_market demo_sell_opts = Ok t"
    "bt_route t = Some demo_buy_ix" using demo_sell by blast
  have sys: "mint = 21" if "pays_caller demo_env 1 (SellToken 21) mint out" for mint out
    using that by (simp add: pays_caller_def proceeds_mint_def)
  from sell_executes [OF t delivers_refl, of demo_runtime demo_chain s'] s' obtain out mint native
      and paid0 paid1 got0 got1 m :: u64 where
    "token_amount (ledger demo_chain 4) = Ok paid0" "token_amount (ledger s' 4) = Ok paid1"
    "unat paid0 \<le> unat paid1 + unat (100 :: u64)" "pays_caller demo_env 1 (SellToken 21) mint out"
    "output_balance (ledger s' out) native = Ok got1" "unat m \<le> unat got1 - unat got0" "m = 90"
    by (auto simp: demo_sell_mints demo_ata_def)
  with s' sys show ?thesis by metis
qed

end
