(* ===== verification/Trade_Safety.thy ===== *)
theory Trade_Safety
  imports Sell_Props
begin

text \<open>
  What holds of every built trade beside its route: the cache of derived addresses cannot be
  observed, the cleanup closes what the policy asks for in the caller's favour, and every pool and
  bridge a trade uses has passed the guard.
\<close>

section \<open>Memoised lookups\<close>

text \<open>A bounded cache in front of a pure function. \<open>get\<close> answers a key and may change the cache;
  \<open>sound\<close> is the invariant of the cache.\<close>

fun thread :: "('k \<Rightarrow> 'c \<Rightarrow> 'v \<times> 'c) \<Rightarrow> 'k list \<Rightarrow> 'c \<Rightarrow> 'v list \<times> 'c" where
  "thread get [] c = ([], c)"
| "thread get (k # ks) c =
     (let (v, c1) = get k c; (vs, c2) = thread get ks c1 in (v # vs, c2))"

locale memo =
  fixes f :: "'k \<Rightarrow> 'v" and get :: "'k \<Rightarrow> 'c \<Rightarrow> 'v \<times> 'c" and sound :: "'c \<Rightarrow> bool"
  assumes get_value: "sound c \<Longrightarrow> fst (get k c) = f k"
    and get_sound: "sound c \<Longrightarrow> sound (snd (get k c))"
begin

lemma thread_transparent: "sound c \<Longrightarrow> fst (thread get ks c) = map f ks \<and> sound (snd (thread get ks c))"
proof (induction ks arbitrary: c)
  case (Cons k ks)
  from Cons.IH [OF get_sound [OF Cons.prems, of k]] get_value [OF Cons.prems, of k] show ?case
    by (simp add: Let_def split_beta)
qed simp

end

definition ata_of :: "'z pda_scheme \<Rightarrow> ata_key \<Rightarrow> pubkey" where
  "ata_of R k = (case k of (own, mint, tp) \<Rightarrow> ata R own mint tp)"

definition ata_get :: "'z pda_scheme \<Rightarrow> ata_key \<Rightarrow> ata_cache \<Rightarrow> pubkey \<times> ata_cache" where
  "ata_get R k c = (case k of (own, mint, tp) \<Rightarrow> ata_cached R own mint tp c)"

definition sound_cache :: "'z pda_scheme \<Rightarrow> ata_cache \<Rightarrow> bool" where
  "sound_cache R c \<longleftrightarrow> (\<forall>k v. Mapping.lookup c k = Some v \<longrightarrow> v = ata_of R k) \<and>
     finite (Mapping.keys c) \<and> Mapping.size c \<le> ATA_CACHE_CAPACITY"

lemma ata_cached_value: "sound_cache R c \<Longrightarrow> fst (ata_get R k c) = ata_of R k"
  by (auto simp: ata_get_def ata_cached_def ata_of_def ata_def sound_cache_def Let_def
      split: option.splits prod.splits)

lemma ata_cached_sound:
  assumes "sound_cache R c"
  shows "sound_cache R (snd (ata_get R k c))"
proof (cases "Mapping.lookup c k")
  case None
  then have "k \<notin> Mapping.keys c" by (simp add: keys_dom_lookup domIff)
  then have "Mapping.size (Mapping.update k v c) \<le> Suc (Mapping.size c)" for v
    using assms by (simp add: Mapping.size_def sound_cache_def)
  then have "Mapping.size c < ATA_CACHE_CAPACITY \<Longrightarrow> Mapping.size (Mapping.update k v c) \<le> ATA_CACHE_CAPACITY" for v
    by (meson Suc_leI le_trans)
  with assms None show ?thesis
    by (auto simp: sound_cache_def ata_get_def ata_cached_def ata_of_def ata_def Let_def lookup_update'
        split: prod.splits if_splits)
next
  case (Some v)
  with assms show ?thesis
    by (auto simp: ata_get_def ata_cached_def split: prod.splits)
qed

interpretation ata_memo: memo "ata_of R" "ata_get R" "sound_cache R"
  by unfold_locales (rule ata_cached_value ata_cached_sound; assumption)+

lemma sound_cache_empty: "sound_cache R Mapping.empty"
  by (simp add: sound_cache_def Mapping.size_def)

lemma warm_ata_cache_sound:
  assumes "sound_cache R c"
  shows "sound_cache R (warm_ata_cache R own mints c)"
proof -
  have step: "sound_cache R c \<Longrightarrow> sound_cache R (snd (ata_cached R own mint tp c))" for mint tp c
    using ata_memo.get_sound [of R c "(own, mint, tp)"] by (simp add: ata_get_def)
  have "sound_cache R (fold (\<lambda>(mint, tp) m. snd (ata_cached R own mint tp m)) mints c)"
    using assms by (induction mints arbitrary: c) (auto intro: step)
  then show ?thesis by (simp add: warm_ata_cache_def step)
qed

text \<open>C37. The per-thread cache of associated token accounts cannot be observed and is bounded:
  after any warm-up and any sequence of lookups, in any order and with repetitions, every answer is
  the address derived afresh, and the cache holds at most 4096 entries.\<close>

theorem ata_cache_transparent:
  "fst (thread (ata_get R) ks (warm_ata_cache R own mints Mapping.empty)) =
     map (\<lambda>(own, mint, tp). ata R own mint tp) ks \<and>
   Mapping.size (snd (thread (ata_get R) ks (warm_ata_cache R own mints Mapping.empty))) \<le> 4096"
  using ata_memo.thread_transparent [OF warm_ata_cache_sound [OF sound_cache_empty], of R ks own mints]
  by (auto simp: ata_of_def [abs_def] sound_cache_def ATA_CACHE_CAPACITY_def)

section \<open>Cleanup\<close>

text \<open>What the paths record as touched: the account of the traded mint always, WSOL where the trade
  goes through it (and only then), and beside those only the account of the market's quote mint.\<close>

definition tracks :: "routed_market \<Rightarrow> bool \<Rightarrow> trade_state \<Rightarrow> bool" where
  "tracks rm w st \<longleftrightarrow> ta_meme_mint (ts_touched st) = Some (routed_meme_mint rm) \<and>
     ta_meme_token_program (ts_touched st) = Some (routed_meme_token_program rm) \<and>
     (w \<longrightarrow> ta_wsol (ts_touched st)) \<and>
     (ta_wsol (ts_touched st) \<longrightarrow> w \<or> WSOL_MINT \<in> {routed_quote_mint rm, routed_meme_mint rm}) \<and>
     (\<forall>m. ta_quote_mint (ts_touched st) = Some m \<longrightarrow> m = routed_quote_mint rm \<and> m \<noteq> WSOL_MINT)"

lemma push_setup_touched [simp]: "ts_touched (push_setup i st) = ts_touched st"
  by (simp add: push_setup_def)

lemma push_create_ata_touched [simp]: "ts_touched (push_create_ata R pol k own mint tp st) = ts_touched st"
  by (simp add: push_create_ata_def)

lemma tracks_cong: "ts_touched st' = ts_touched st \<Longrightarrow> tracks rm w st' = tracks rm w st"
  by (simp add: tracks_def)

lemma tracks_push [simp]:
  "tracks rm w (push_setup i st) = tracks rm w st"
  "tracks rm w (push_create_ata R pol k own mint tp st) = tracks rm w st"
  "tracks rm w (prepare_pumpfun_native_accounts R rid own p v st) = tracks rm w st"
  by (rule tracks_cong; simp add: prepare_pumpfun_native_accounts_def)+

lemma tracks_wsol:
  "tracks rm w st \<Longrightarrow> w \<or> routed_quote_mint rm = WSOL_MINT \<or> routed_meme_mint rm = WSOL_MINT \<Longrightarrow>
   tracks rm w (touch touch_wsol st)"
  by (auto simp: tracks_def touch_def touch_wsol_def)

lemma tracks_quote:
  "tracks rm w st \<Longrightarrow> mint = routed_quote_mint rm \<Longrightarrow> tracks rm w (touch (touch_quote mint tp) st)"
  by (auto simp: tracks_def touch_def touch_quote_def)

lemma tracks_mint:
  assumes "tracks rm w st" "mint = routed_quote_mint rm"
  shows "tracks rm w (touch_mint mint tp st)" "tracks rm w (use_mint R pol own mint tp st)"
  using assms tracks_wsol tracks_quote by (simp_all add: use_mint_def touch_mint_def)

lemma tracks_meme:
  "tracks rm w st \<Longrightarrow> mint = routed_meme_mint rm \<Longrightarrow> tp = routed_meme_token_program rm \<Longrightarrow>
   tracks rm w (touch (touch_meme mint tp) st)"
  by (auto simp: tracks_def touch_def touch_meme_def)

lemmas tracks_intros = tracks_mint tracks_quote tracks_meme

text \<open>The mints of a CPMM trade: the traded mint is one of the pool's, the quote is the other.\<close>

lemma cpmm_routed:
  assumes "rm_market rm = CpmmOuter p"
  shows "routed_meme_token_program rm = pool_token_program p (routed_meme_mint rm)"
    "routed_quote_mint rm = other_mint p (routed_meme_mint rm)"
    "\<not> needs_sol_bridge (rm_market rm) \<Longrightarrow> routed_meme_mint rm = cpmm_meme_mint p"
    "\<not> needs_sol_bridge (rm_market rm) \<Longrightarrow> routed_quote_mint rm = WSOL_MINT"
    "needs_sol_bridge (rm_market rm) \<Longrightarrow> rm_bridge rm = Some b \<Longrightarrow> resolve_shared_mint p b = Ok stock \<Longrightarrow>
       routed_meme_mint rm = other_mint p stock \<and> routed_quote_mint rm = stock"
proof -
  have m: "routed_meme_mint rm \<in> {cp_base_mint p, cp_quote_mint p}"
    using assms by (auto simp: routed_meme_mint_def cpmm_meme_mint_def meme_mint_sol_paired_def unwrap_or_def
        cpmm_other_mint_def split: option.splits)
  then show "routed_meme_token_program rm = pool_token_program p (routed_meme_mint rm)"
    using assms by (auto simp: routed_meme_token_program_def token_program_for_def unwrap_or_def
        pool_token_program_def)
  show q: "routed_quote_mint rm = other_mint p (routed_meme_mint rm)"
    using assms m by (auto simp: routed_quote_mint_def cpmm_other_mint_def unwrap_or_def other_mint_def)
  show n: "routed_meme_mint rm = cpmm_meme_mint p" if "\<not> needs_sol_bridge (rm_market rm)"
    using assms that by (simp add: routed_meme_mint_def cpmm_meme_mint_def)
  show "routed_quote_mint rm = WSOL_MINT" if "\<not> needs_sol_bridge (rm_market rm)"
    using assms that unfolding q n [OF that]
    by (auto simp: neither_wsol_def cpmm_meme_mint_def meme_mint_sol_paired_def unwrap_or_def other_mint_def)
  show "routed_meme_mint rm = other_mint p stock \<and> routed_quote_mint rm = stock"
    if n: "needs_sol_bridge (rm_market rm)" and b: "rm_bridge rm = Some b"
      and r: "resolve_shared_mint p b = Ok stock"
  proof -
    have "shared_mint_with_bridge p b = Some stock"
      using r by (cases b) (auto simp: shared_mint_def result_inv)
    moreover from this have "stock \<in> {cp_base_mint p, cp_quote_mint p}"
      by (cases b) (auto simp: shared_mint_def shared_in_def split: if_splits)
    ultimately have "routed_meme_mint rm = other_mint p stock"
      using assms n b by (auto simp: routed_meme_mint_def cpmm_other_mint_def unwrap_or_def other_mint_def)
    then show ?thesis using \<open>stock \<in> _\<close> unfolding q by (auto simp: other_mint_def)
  qed
qed

lemma quote_not_cpmm:
  "\<forall>p. rm_market rm \<noteq> CpmmOuter p \<Longrightarrow> routed_quote_mint rm = market_quote_mint (rm_market rm)"
  by (cases "rm_market rm") (simp_all add: routed_quote_mint_def)

lemma buy_cpmm_tracks:
  assumes "buy_cpmm_with_mint R c spend p im om slip explicit fixed pol st = Ok (r, st')"
    "tracks rm w st" "rm_market rm = CpmmOuter p" "om = routed_meme_mint rm"
  shows "tracks rm w st'"
  using assms(1,2) cpmm_routed(1) [OF assms(3)] tracks_wsol [of rm w st] assms(4)
  by (auto simp: buy_cpmm_with_mint_def Let_def result_inv tracks_meme split: option.splits if_splits)

lemma buy_bridges_track:
  "buy_via_bridge_launchlab R c a p1 b slip e pol st = Some (Ok (r, st')) \<Longrightarrow> tracks rm w st \<Longrightarrow>
     routed_quote_mint rm = ll_quote_mint p1 \<Longrightarrow> tracks rm w st'"
  "buy_via_bridge_mainstream R' c a mk b slip e pol st = Ok (r', st') \<Longrightarrow> tracks rm w st \<Longrightarrow>
     routed_quote_mint rm = market_quote_mint mk \<Longrightarrow> tracks rm w st'"
  "buy_via_bridge_cpmm R c a p2 b slip e pol st = Ok (r'', st') \<Longrightarrow> tracks rm w st \<Longrightarrow>
     rm_market rm = CpmmOuter p2 \<Longrightarrow> needs_sol_bridge (rm_market rm) \<Longrightarrow> rm_bridge rm = Some b \<Longrightarrow>
     tracks rm w st'"
proof -
  show "tracks rm w st'" if "buy_via_bridge_launchlab R c a p1 b slip e pol st = Some (Ok (r, st'))"
    "tracks rm w st" "routed_quote_mint rm = ll_quote_mint p1"
    using that by (auto simp: buy_via_bridge_launchlab_def Let_def result_inv tracks_mint split: if_splits)
  show "tracks rm w st'" if "buy_via_bridge_mainstream R' c a mk b slip e pol st = Ok (r', st')"
    "tracks rm w st" "routed_quote_mint rm = market_quote_mint mk"
    using that by (auto simp: buy_via_bridge_mainstream_def Let_def result_inv tracks_quote split: if_splits)
  show "tracks rm w st'" if "buy_via_bridge_cpmm R c a p2 b slip e pol st = Ok (r'', st')"
    "tracks rm w st" "rm_market rm = CpmmOuter p2" "needs_sol_bridge (rm_market rm)" "rm_bridge rm = Some b"
  proof -
    from that(1) obtain stock where s: "resolve_shared_mint p2 b = Ok stock"
      and "st' = touch (touch_meme (other_mint p2 stock) (pool_token_program p2 (other_mint p2 stock)))
        (use_mint R pol (rt_payer c) stock (pool_token_program p2 stock) st)"
      by (auto simp: buy_via_bridge_cpmm_def Let_def result_inv split: if_splits)
    with cpmm_routed(5) [OF that(3,4,5) s] cpmm_routed(1) [OF that(3)] that(2) show ?thesis
      by (simp add: tracks_meme tracks_mint)
  qed
qed

lemma build_buy_legs_tracks:
  assumes "build_buy_legs R c a rm opts st = Some (Ok (r, st'))" "tracks rm w st"
    "\<And>m. to_buy_with opts = BuyToken m \<Longrightarrow> m = routed_quote_mint rm"
  shows "tracks rm w st'"
proof -
  have "tracks rm w st'" if t: "buy_legs_token R c a rm opts m st = Some (Ok (r, st'))"
    "m = routed_quote_mint rm" for m
    using t assms(2) unfolding buy_legs_token_def Let_def
    by (cases "rm_market rm") (auto simp: spending_def with_state_def buy_launchlab_with_quote_def
        buy_pumpfun_def Let_def result_inv tracks_mint split: if_splits dest: buy_cpmm_tracks)
  moreover have "tracks rm w st'" if t: "buy_legs_sol R c a rm opts n st = Some (Ok (r, st'))" for n
  proof (cases "\<exists>p. rm_market rm = CpmmOuter p")
    case True
    then obtain p where p: "rm_market rm = CpmmOuter p" by blast
    with t assms(2) cpmm_routed(3) [OF p] show ?thesis unfolding buy_legs_sol_def Let_def
      by (auto simp: spending_def bridged_def result_inv split: if_splits
          dest: buy_cpmm_tracks buy_bridges_track(3))
  next
    case False
    then have "routed_quote_mint rm = market_quote_mint (rm_market rm)" by (intro quote_not_cpmm) simp
    with t assms(2) False show ?thesis unfolding buy_legs_sol_def Let_def
      by (cases "rm_market rm") (auto simp: spending_def bridged_def with_state_def buy_pumpfun_def Let_def
          result_inv split: if_splits dest: buy_bridges_track(1,2))
  qed
  ultimately show ?thesis using assms(1,3)
    by (cases "to_buy_with opts") (auto simp: build_buy_legs_def)
qed

lemma sell_bridges_track:
  "sell_via_bridge_launchlab R c a p1 b slip e pol st = Ok (r, st') \<Longrightarrow> tracks rm w st \<Longrightarrow>
     routed_quote_mint rm = ll_quote_mint p1 \<Longrightarrow> tracks rm w st'"
  "sell_via_bridge_mainstream R' c a mk b slip e pol st = Ok (r', st') \<Longrightarrow> tracks rm w st \<Longrightarrow>
     routed_quote_mint rm = market_quote_mint mk \<Longrightarrow> tracks rm w st'"
  "sell_via_bridge_cpmm R c a p2 b slip e pol st = Ok (r'', st') \<Longrightarrow> tracks rm w st \<Longrightarrow>
     rm_market rm = CpmmOuter p2 \<Longrightarrow> needs_sol_bridge (rm_market rm) \<Longrightarrow> rm_bridge rm = Some b \<Longrightarrow>
     tracks rm w st'"
proof -
  show "tracks rm w st'" if "sell_via_bridge_launchlab R c a p1 b slip e pol st = Ok (r, st')"
    "tracks rm w st" "routed_quote_mint rm = ll_quote_mint p1"
    using that by (auto simp: sell_via_bridge_launchlab_def Let_def result_inv tracks_mint split: if_splits)
  show "tracks rm w st'" if "sell_via_bridge_mainstream R' c a mk b slip e pol st = Ok (r', st')"
    "tracks rm w st" "routed_quote_mint rm = market_quote_mint mk"
    using that by (auto simp: sell_via_bridge_mainstream_def Let_def result_inv tracks_quote split: if_splits)
  show "tracks rm w st'" if "sell_via_bridge_cpmm R c a p2 b slip e pol st = Ok (r'', st')"
    "tracks rm w st" "rm_market rm = CpmmOuter p2" "needs_sol_bridge (rm_market rm)" "rm_bridge rm = Some b"
  proof -
    from that(1) obtain stock where s: "resolve_shared_mint p2 b = Ok stock"
      and "st' = use_mint R pol (rt_payer c) stock (pool_token_program p2 stock) st"
      by (auto simp: sell_via_bridge_cpmm_def Let_def result_inv split: if_splits)
    with cpmm_routed(5) [OF that(3,4,5) s] that(2) show ?thesis by (simp add: tracks_mint)
  qed
qed

lemma build_sell_legs_tracks:
  assumes "build_sell_legs R c a rm opts st = Ok (r, st')" "tracks rm w st"
    "\<And>m. to_sell_to opts = SellToken m \<Longrightarrow> m = routed_quote_mint rm"
  shows "tracks rm w st'"
proof -
  have "tracks rm w st'" if t: "sell_legs_token R c a rm opts m st = Ok (r, st')"
    "m = routed_quote_mint rm" for m
    using t assms(2) unfolding sell_legs_token_def Let_def
    by (cases "rm_market rm") (auto simp: keeping_def sell_launchlab_to_quote_def sell_cpmm_to_mint_def
        sell_pumpfun_def Let_def result_inv tracks_mint split: if_splits option.splits)
  moreover have "tracks rm w st'" if t: "sell_legs_sol R c a rm opts n st = Ok (r, st')" for n
  proof (cases "\<exists>p. rm_market rm = CpmmOuter p")
    case True
    then obtain p where p: "rm_market rm = CpmmOuter p" by blast
    with t assms(2) cpmm_routed(4) [OF p] show ?thesis unfolding sell_legs_sol_def Let_def
      by (auto simp: sell_bridged_def sell_cpmm_to_mint_def Let_def result_inv tracks_mint
          split: if_splits option.splits dest: sell_bridges_track(3))
  next
    case False
    then have "routed_quote_mint rm = market_quote_mint (rm_market rm)" by (intro quote_not_cpmm) simp
    with t assms(2) False show ?thesis unfolding sell_legs_sol_def Let_def
      by (cases "rm_market rm") (auto simp: sell_bridged_def keeping_def sell_pumpfun_def Let_def
          result_inv split: if_splits dest: sell_bridges_track(1,2))
  qed
  ultimately show ?thesis using assms(1,3)
    by (cases "to_sell_to opts") (auto simp: build_sell_legs_def)
qed

text \<open>Whether the trade goes through the WSOL account of the caller: it pays or is paid in SOL or WSOL,
  but for the native settlement of Pump.fun.\<close>

definition buy_through_wsol :: "routed_market \<Rightarrow> trade_opts \<Rightarrow> bool" where
  "buy_through_wsol rm opts \<longleftrightarrow>
     to_buy_with opts = BuyWsol \<or> to_buy_with opts = BuySol \<and> \<not> is_pump_native_sol (rm_market rm)"

definition sell_through_wsol :: "routed_market \<Rightarrow> trade_opts \<Rightarrow> bool" where
  "sell_through_wsol rm opts \<longleftrightarrow>
     sell_is_sol_family (to_sell_to opts) \<and> \<not> pump_native (rm_market rm) \<or>
     to_sell_to opts = SellWsol \<and> pump_settles_wsol (rm_market rm)"

lemma tracks_start:
  "tracks rm False \<lparr>ts_setup = xs, ts_touched =
     touch_meme (routed_meme_mint rm) (routed_meme_token_program rm) no_touched\<rparr>"
  by (simp add: tracks_def touch_meme_def no_touched_def)

lemma tracks_more: "tracks rm False st \<Longrightarrow> tracks rm True (touch touch_wsol st)"
  by (auto simp: tracks_def touch_def touch_wsol_def)

lemma buy_initial_tracks: "tracks rm (buy_through_wsol rm opts) (buy_initial_state R c rm opts)"
  using tracks_start tracks_more
  by (auto simp: buy_initial_state_def Let_def buy_through_wsol_def)

lemma sell_initial_tracks:
  assumes "\<And>m. to_sell_to opts = SellToken m \<Longrightarrow> m = routed_quote_mint rm"
  shows "tracks rm (sell_through_wsol rm opts) (sell_initial_state R c rm opts fee)"
  using tracks_start tracks_more assms
  by (auto simp: sell_initial_state_def Let_def sell_through_wsol_def tracks_mint split: sell_to.splits)

lemma buy_fee_tracks:
  assumes "tracks rm w st" "\<And>m. to_buy_with opts = BuyToken m \<Longrightarrow> m = routed_quote_mint rm"
  shows "tracks rm w (snd (buy_fee_accounts R c rm opts fee st))"
  using assms by (auto simp: buy_fee_accounts_def Let_def tracks_mint split: buy_with.splits)

text \<open>What is touched, as the cleanup closes it.\<close>

definition closes_as_asked ::
  "'z pda_scheme \<Rightarrow> ata_policy \<Rightarrow> pubkey \<Rightarrow> routed_market \<Rightarrow> bool \<Rightarrow> instruction list \<Rightarrow> bool" where
  "closes_as_asked R pol own rm w ixs \<longleftrightarrow> (\<exists>wsol quote.
     ixs = (if close_wsol pol \<and> wsol then [close_ata R own WSOL_MINT TOKEN_PROGRAM own] else [])
       @ (if close_quote pol then quote else [])
       @ (if close_meme pol
          then [close_ata R own (routed_meme_mint rm) (routed_meme_token_program rm) own] else []) \<and>
     (w \<longrightarrow> wsol) \<and> (wsol \<longrightarrow> w \<or> WSOL_MINT \<in> {routed_quote_mint rm, routed_meme_mint rm}) \<and>
     (quote = [] \<or> routed_quote_mint rm \<noteq> WSOL_MINT \<and>
       (\<exists>tp. quote = [close_ata R own (routed_quote_mint rm) tp own])))"

lemma build_cleanup_tracks:
  assumes "tracks rm w st"
  shows "closes_as_asked R pol own rm w (build_cleanup R pol own (ts_touched st))"
  unfolding closes_as_asked_def
proof (intro exI conjI)
  let ?t = "ts_touched st"
  show "build_cleanup R pol own ?t =
      (if close_wsol pol \<and> ta_wsol ?t then [close_ata R own WSOL_MINT TOKEN_PROGRAM own] else [])
       @ (if close_quote pol then close_touched R own (ta_quote_mint ?t) (ta_quote_token_program ?t) else [])
       @ (if close_meme pol
          then [close_ata R own (routed_meme_mint rm) (routed_meme_token_program rm) own] else [])"
    using assms by (simp add: build_cleanup_def close_wsol_ata_def close_touched_def tracks_def)
qed (use assms in \<open>auto simp: tracks_def close_touched_def split: option.splits\<close>)

lemma buy_cleanup:
  assumes "buy_with_opts R c amount rm opts = Some (Ok t)"
  shows "closes_as_asked R (to_ata opts) (rt_payer c) rm (buy_through_wsol rm opts) (bt_cleanup t)"
proof -
  let ?fee = "fee_amount amount (rt_fee_bps c)"
  from assms obtain legs m x st ra where c: "buy_path_checks rm opts = Ok ()"
    and b: "build_buy_legs R c (sat_sub amount ?fee) rm opts (buy_initial_state R c rm opts) =
      Some (Ok ((legs, m, x), st))"
    and t: "t = finish_buy R c rm opts ?fee ra m legs st"
    by (auto simp: buy_with_opts_def Let_def result_inv split: if_splits)
  have pay: "m = routed_quote_mint rm" if "to_buy_with opts = BuyToken m" for m
    using c that by (auto simp: buy_path_checks_def buy_needs_bridge_def result_inv split: if_splits)
  have "tracks rm (buy_through_wsol rm opts) st"
    using build_buy_legs_tracks [OF b buy_initial_tracks] pay by blast
  then have "tracks rm (buy_through_wsol rm opts) (st\<lparr>ts_setup := xs\<rparr>)" for xs
    using tracks_cong [of "st\<lparr>ts_setup := xs\<rparr>" st] by simp
  with \<open>tracks rm _ st\<close> have w: "tracks rm (buy_through_wsol rm opts)
      (if to_buy_with opts = BuySol \<and> \<not> is_pump_native_sol (rm_market rm)
       then st\<lparr>ts_setup := ts_setup st @ wrap_sol_with_options R (rt_payer c) ra False\<rparr> else st)"
      (is "tracks _ _ ?w")
    by simp
  obtain fa st' where f: "buy_fee_accounts R c rm opts ?fee ?w = (fa, st')" by fastforce
  with buy_fee_tracks [where opts = opts and R = R and c = c and fee = ?fee, OF w pay]
  have "tracks rm (buy_through_wsol rm opts) st'" by simp
  moreover have "bt_cleanup t = build_cleanup R (to_ata opts) (rt_payer c) (ts_touched st')"
    unfolding t finish_buy_def Let_def f by simp
  ultimately show ?thesis by (simp add: build_cleanup_tracks)
qed

lemma sell_cleanup:
  assumes "sell_with_opts R c amount rm opts = Ok t"
  shows "closes_as_asked R (to_ata opts) (rt_payer c) rm (sell_through_wsol rm opts) (bt_cleanup t)"
proof -
  let ?fee = "fee_amount amount (rt_fee_bps c)"
  from assms obtain legs m out st where c: "sell_path_checks rm opts = Ok ()"
    and b: "build_sell_legs R c (sat_sub amount ?fee) rm opts (sell_initial_state R c rm opts ?fee) =
      Ok ((legs, m, out), st)"
    and t: "t = finish_sell R c rm opts amount m legs out st"
    by (auto simp: sell_with_opts_def Let_def result_inv split: if_splits)
  have pay: "m = routed_quote_mint rm" if "to_sell_to opts = SellToken m" for m
    using c that by (auto simp: sell_path_checks_def sell_needs_bridge_def result_inv split: if_splits)
  have "tracks rm (sell_through_wsol rm opts) st"
    using build_sell_legs_tracks [OF b sell_initial_tracks] pay by blast
  from build_cleanup_tracks [OF this] show ?thesis
    by (simp add: t finish_sell_def Let_def split: prod.split)
qed

text \<open>C36. What a built trade closes at its end is what the policy asks for, kind by kind: the caller's
  WSOL account only if the policy closes WSOL, the caller's account of the market's quote mint only if
  it closes the quote, the caller's account of the traded mint exactly if it closes that, and nothing
  else; the caller owns each account and receives its rent. With WSOL closing on, the WSOL account is
  closed when the trade goes through it, and otherwise only if WSOL is a mint of the market.\<close>

theorem cleanup_closes_own:
  "(buy_with_opts R c amount rm opts = Some (Ok t) \<longrightarrow>
      closes_as_asked R (to_ata opts) (rt_payer c) rm (buy_through_wsol rm opts) (bt_cleanup t)) \<and>
   (sell_with_opts R c amount rm opts = Ok t \<longrightarrow>
      closes_as_asked R (to_ata opts) (rt_payer c) rm (sell_through_wsol rm opts) (bt_cleanup t))"
  using buy_cleanup sell_cleanup by blast

theorem cleanup_closes_own_witness:
  "(\<exists>t. buy_with_opts demo_env demo_client 100 demo_buy_market demo_buy_opts = Some (Ok t) \<and>
     closes_as_asked demo_env (to_ata demo_buy_opts) 1 demo_buy_market False (bt_cleanup t)) \<and>
   (\<exists>t. sell_with_opts demo_env demo_client 100 demo_sell_market demo_sell_opts = Ok t \<and>
     closes_as_asked demo_env (to_ata demo_sell_opts) 1 demo_sell_market False (bt_cleanup t))"
proof -
  obtain t u where t: "buy_with_opts demo_env demo_client 100 demo_buy_market demo_buy_opts = Some (Ok t)"
    "sell_with_opts demo_env demo_client 100 demo_sell_market demo_sell_opts = Ok u"
    using demo_buy demo_sell by blast
  have "\<not> buy_through_wsol demo_buy_market demo_buy_opts" "\<not> sell_through_wsol demo_sell_market demo_sell_opts"
    by (simp_all add: buy_through_wsol_def sell_through_wsol_def sell_is_sol_family_def)
  with t cleanup_closes_own [of demo_env demo_client 100 demo_buy_market demo_buy_opts t]
    cleanup_closes_own [of demo_env demo_client 100 demo_sell_market demo_sell_opts u] show ?thesis
    by auto
qed

section \<open>Pools\<close>

text \<open>The pool of a market.\<close>

fun market_pool :: "market \<Rightarrow> pubkey" where
  "market_pool (LaunchLabInner p) = ll_pool_state p"
| "market_pool (PumpFunInner p) = pf_bonding_curve p"
| "market_pool (PumpSwapOuter p) = ps_pool p"
| "market_pool (CpmmOuter p) = cp_pool_state p"
| "market_pool (RaydiumAmmV4 p) = rv_amm p"
| "market_pool (MeteoraDammV2 p) = dm_pool p"
| "market_pool (RaydiumClmm p) = cl_pool_state p"
| "market_pool (Whirlpool p) = wp_whirlpool p"
| "market_pool (MeteoraDlmm p) = dl_lb_pair p"

text \<open>When the pool is the one its venue derives: from the mints for the curves and for the PumpSwap
  pools a curve graduates to, from the mints and the named configuration for CPMM, in either order of
  the mints. The other venues, the PumpSwap pools not quoted in WSOL, and a CPMM snapshot that names
  no configuration have no such address.\<close>

definition cpmm_derived :: "'z pda_scheme \<Rightarrow> cpmm_pool \<Rightarrow> bool" where
  "cpmm_derived R p \<longleftrightarrow> cp_amm_config p \<noteq> 0 \<and>
     (cpmm_pool_pda R (cp_amm_config p) (cp_base_mint p) (cp_quote_mint p) = Some (cp_pool_state p) \<or>
      cpmm_pool_pda R (cp_amm_config p) (cp_quote_mint p) (cp_base_mint p) = Some (cp_pool_state p))"

fun derived_pool :: "'z pda_scheme \<Rightarrow> market \<Rightarrow> bool" where
  "derived_pool R (LaunchLabInner p) =
     (launchlab_pool_pda R (ll_base_mint p) (ll_quote_mint p) = Some (ll_pool_state p))"
| "derived_pool R (PumpFunInner p) = (pumpfun_bonding_curve_pda R (pf_mint p) = Some (pf_bonding_curve p))"
| "derived_pool R (PumpSwapOuter p) =
     (ps_quote_mint p = WSOL_MINT \<and> ps_pool p = pumpswap_canonical_pool_pda R (ps_base_mint p))"
| "derived_pool R (CpmmOuter p) = cpmm_derived R p"
| "derived_pool R m = False"

fun underivable :: "market \<Rightarrow> bool" where
  "underivable (LaunchLabInner p) = False"
| "underivable (PumpFunInner p) = False"
| "underivable (PumpSwapOuter p) = (ps_quote_mint p \<noteq> WSOL_MINT)"
| "underivable (CpmmOuter p) = (cp_amm_config p = 0)"
| "underivable m = True"

fun bridge_market :: "bridge_pool \<Rightarrow> market" where
  "bridge_market (BridgeCpmm p) = CpmmOuter p"
| "bridge_market (BridgeAmmV4 p) = RaydiumAmmV4 p"

text \<open>What the guard lets pass: a pool the caller trusts; or one at its derived address, of a StonkFun
  platform if the policy asks for that, and not a CPMM pool if the policy wants AMM pools
  trusted; or, under a policy that does not want them trusted, a pool no address is known of.\<close>

definition passes :: "'z pda_scheme \<Rightarrow> pool_guard_policy \<Rightarrow> market \<Rightarrow> bool" where
  "passes R g m \<longleftrightarrow> market_pool m \<in> trusted_pools g \<or>
     derived_pool R m \<and>
       (case m of LaunchLabInner p \<Rightarrow> stonk_platform_only g \<longrightarrow> is_stonkfun_platform (ll_platform_config p)
        | CpmmOuter p \<Rightarrow> \<not> require_trusted_for_amm g | _ \<Rightarrow> True) \<or>
     \<not> require_trusted_for_amm g \<and> underivable m"

definition guarded :: "'z pda_scheme \<Rightarrow> pool_guard_policy \<Rightarrow> routed_market \<Rightarrow> bool" where
  "guarded R g rm \<longleftrightarrow> passes R g (rm_market rm) \<and>
     (case rm_bridge rm of None \<Rightarrow> True | Some b \<Rightarrow> passes R g (bridge_market b))"

lemma require_trusted_Ok [result_inv]:
  "require_trusted_or g k l = Inr () \<longleftrightarrow> is_trusted g k \<or> \<not> require_trusted_for_amm g"
  by (simp add: require_trusted_or_def reject_def)

lemma assert_cpmm_passes:
  "assert_cpmm_ok R p g = Ok () \<Longrightarrow> guard_enabled g \<Longrightarrow> passes R g (CpmmOuter p)"
  by (auto simp: assert_cpmm_ok_def passes_def cpmm_derived_def is_trusted_def result_inv reject_def
      split: if_splits)

lemma assert_amm_passes:
  "assert_amm_listed g k l = Ok () \<Longrightarrow> guard_enabled g \<Longrightarrow> k \<in> trusted_pools g \<or> \<not> require_trusted_for_amm g"
  by (simp add: assert_amm_listed_def result_inv is_trusted_def)

lemma assert_market_passes:
  assumes "assert_market_ok R m g = Ok ()" "guard_enabled g"
  shows "passes R g m"
proof (cases "\<exists>p. m = CpmmOuter p")
  case True
  with assms assert_cpmm_passes show ?thesis by auto
next
  case False
  with assms show ?thesis
    by (cases m) (auto simp: assert_launchlab_ok_def assert_pumpfun_ok_def assert_pumpswap_ok_def
      passes_def is_trusted_def result_inv reject_def split: if_splits dest: assert_amm_passes)
qed

lemma assert_bridge_passes:
  "assert_bridge_ok R (Some b) g = Ok () \<Longrightarrow> guard_enabled g \<Longrightarrow> passes R g (bridge_market b)"
  using assert_cpmm_passes [of R _ g]
  by (cases b) (auto simp: assert_bridge_ok_def passes_def [of _ _ "RaydiumAmmV4 _"] dest: assert_amm_passes)

lemma assert_routed_guarded:
  assumes "assert_routed_market_ok R rm g = Ok ()" "guard_enabled g"
  shows "guarded R g rm"
  using assms assert_market_passes [of R "rm_market rm" g] assert_bridge_passes [of R _ g]
  by (cases "rm_bridge rm") (auto simp: assert_routed_market_ok_def guarded_def result_inv)

text \<open>C10. With the guard enabled, every trade that is built, buy or sell, has a pool and a bridge
  the policy lets pass. A LaunchLab or Pump.fun curve, a PumpSwap pool quoted in WSOL, and a CPMM pool
  whose configuration is named is trusted by the caller or stands at the address its venue derives;
  if the policy wants AMM pools trusted (not the default), every other pool, CPMM included, is trusted
  by the caller. Under the default policy a pool of a venue without a derived address passes
  unchecked.\<close>

theorem trades_are_guarded:
  assumes "buy_with_opts R c amount rm opts = Some (Ok t) \<or> sell_with_opts R c amount rm opts = Ok t"
    "guard_enabled (rt_pool_guard c)"
  shows "guarded R (rt_pool_guard c) rm"
proof (rule assert_routed_guarded [OF _ assms(2)])
  show "assert_routed_market_ok R rm (rt_pool_guard c) = Ok ()"
    using assms(1)
    by (auto simp: buy_with_opts_def sell_with_opts_def buy_market_checks_def sell_market_checks_def
        result_inv)
qed

theorem trades_are_guarded_witness:
  "guarded demo_env (trust 52 guard_default) demo_buy_market \<and> guarded demo_env (trust 52 guard_default) demo_sell_market"
proof -
  obtain t u where
    "buy_with_opts demo_env demo_client 100 demo_buy_market demo_buy_opts = Some (Ok t)"
    "sell_with_opts demo_env demo_client 100 demo_sell_market demo_sell_opts = Ok u"
    using demo_buy demo_sell by blast
  moreover have "guard_enabled (rt_pool_guard demo_client)" by (simp add: trust_def guard_default_def)
  ultimately show ?thesis
    using trades_are_guarded [of demo_env demo_client 100 demo_buy_market demo_buy_opts t]
      trades_are_guarded [of demo_env demo_client 100 demo_sell_market demo_sell_opts u] by simp
qed

end
