(* ===== verification/Leg_Props.thy ===== *)
theory Leg_Props
  imports Trade_Safety
begin

text \<open>
  The legs the SDK builds fit the program's frame and are signed by the caller alone; a trade's legs
  are the calls the program makes.
\<close>

section \<open>Well-formed legs\<close>

text \<open>A leg the program can parse, that its payer signs and nobody else.\<close>

definition wf_leg :: "pubkey \<Rightarrow> leg \<Rightarrow> bool" where
  "wf_leg payer l \<longleftrightarrow> sendable l \<and> list_ex (\<lambda>m. address m = payer \<and> is_signer m) (leg_accounts l) \<and>
     list_all (\<lambda>m. is_signer m \<longrightarrow> address m = payer) (leg_accounts l)"

lemma meta_simps [simp]:
  "address (meta_new k g) = k" "is_signer (meta_new k g) = g" "address (meta_ro k g) = k"
  "is_signer (meta_ro k g) = g" "is_signer (META k) = False"
  by (simp_all add: meta_new_def meta_ro_def META_def)

lemma ensure_budget_Ok [result_inv]: "ensure_leg_account_budget n = Inr () \<longleftrightarrow> 0 < n \<and> n \<le> 64"
  by (auto simp: ensure_leg_account_budget_def SDK_MAX_LEG_ACCOUNTS_def)

lemmas discriminator_defs = BUY_EXACT_IN_LAUNCHLAB_def SELL_EXACT_IN_LAUNCHLAB_def SDK_CPMM_SWAP_BASE_IN_def
  CPMM_SWAP_BASE_OUT_def PUMPFUN_BUY_EXACT_SOL_IN_def PUMPFUN_SELL_def PUMPFUN_BUY_EXACT_QUOTE_IN_V2_def
  PUMPFUN_SELL_V2_def SDK_PUMPSWAP_BUY_EXACT_QUOTE_IN_def PUMPSWAP_BUY_def SDK_PUMPSWAP_SELL_def
  METEORA_DAMM_V2_SWAP2_def SDK_CLMM_SWAP_V2_def WHIRLPOOL_SWAP_V2_def SDK_METEORA_DLMM_SWAP2_def

lemmas wf_leg_defs = wf_leg_def sendable_def encode_u64_pair_def encode_u64_triple_def discriminator_defs

section \<open>The legs\<close>

lemma launchlab_leg_wf:
  "wf_leg u (launchlab_buy_leg u p a m x y)" "wf_leg u (launchlab_sell_leg u p a m x y)"
  by (simp_all add: wf_leg_defs launchlab_buy_leg_def launchlab_sell_leg_def)

lemma pumpfun_leg_wf:
  "wf_leg u (pumpfun_buy_leg R u p a m x)" "wf_leg u (pumpfun_sell_leg R u p a m x)"
  "wf_leg u (pumpfun_buy_v2_leg R u p a m)" "wf_leg u (pumpfun_sell_v2_leg R u p a m)"
  by (simp_all add: wf_leg_defs pumpfun_buy_leg_def pumpfun_sell_leg_def pumpfun_buy_v2_leg_def
      pumpfun_sell_v2_leg_def pumpfun_v2_accounts_def Let_def)

lemma cpmm_leg_wf: "cpmm_leg u p d im om x y = Ok l \<Longrightarrow> length d \<le> 65535 \<Longrightarrow> wf_leg u l"
  by (auto simp: cpmm_leg_def wf_leg_def sendable_def result_inv)

lemma cpmm_legs_wf:
  "cpmm_swap_leg u p a m im om x y = Ok l \<Longrightarrow> wf_leg u l"
  "cpmm_swap_exact_out_leg u p a m im om x y = Ok l \<Longrightarrow> wf_leg u l"
  by (auto simp: cpmm_swap_leg_def cpmm_swap_exact_out_leg_def encode_u64_pair_def discriminator_defs
      dest!: cpmm_leg_wf)

lemma amm_v4_leg_wf: "amm_v4_leg R u p d im = Ok l \<Longrightarrow> length d \<le> 65535 \<Longrightarrow> wf_leg u l"
  by (auto simp: amm_v4_leg_def wf_leg_def sendable_def result_inv)

lemma amm_v4_legs_wf:
  "raydium_amm_v4_swap_leg R u p a m im = Ok l \<Longrightarrow> wf_leg u l"
  "raydium_amm_v4_swap_exact_out_leg R u p a m im = Ok l \<Longrightarrow> wf_leg u l"
  by (auto simp: raydium_amm_v4_swap_leg_def raydium_amm_v4_swap_exact_out_leg_def dest!: amm_v4_leg_wf)

lemma damm_v2_leg_wf: "meteora_damm_v2_swap_leg R u p a m im = Ok l \<Longrightarrow> wf_leg u l"
  by (auto simp: meteora_damm_v2_swap_leg_def wf_leg_defs damm_v2_referral_def Let_def result_inv
      split: option.splits)

lemma not_signers [simp]: "list_all (\<lambda>m. is_signer m \<longrightarrow> P m) (map (\<lambda>k. meta_new k False) ks)"
  by (simp add: list_all_iff)

lemma clmm_leg_wf: "raydium_clmm_swap_leg R u p a m im = Ok l \<Longrightarrow> wf_leg u l"
  by (auto simp: raydium_clmm_swap_leg_def wf_leg_defs Let_def result_inv
      split: if_splits prod.splits option.splits)

lemma whirlpool_leg_wf: "whirlpool_swap_leg R u p a m im = Ok l \<Longrightarrow> wf_leg u l"
  by (auto simp: whirlpool_swap_leg_def wf_leg_defs whirlpool_swap_data_def whirlpool_remaining_info_def
      Let_def result_inv split: if_splits)

lemma dlmm_leg_wf: "meteora_dlmm_swap_leg R u p a m im = Ok l \<Longrightarrow> wf_leg u l"
  by (auto simp: meteora_dlmm_swap_leg_def wf_leg_defs dlmm_bitmap_meta_def Let_def result_inv
      split: if_splits option.splits)

lemma pumpswap_leg_wf: "pumpswap_leg R u p b d = Ok l \<Longrightarrow> length d \<le> 65535 \<Longrightarrow> wf_leg u l"
  by (auto simp: pumpswap_leg_def pumpswap_accounts_def pumpswap_head_def pumpswap_tail_def wf_leg_def
      sendable_def Let_def result_inv split: option.splits)

lemma pumpswap_legs_wf:
  "pumpswap_buy_leg R u p a m = Ok l \<Longrightarrow> wf_leg u l"
  "pumpswap_buy_exact_out_leg R u p a m = Ok l \<Longrightarrow> wf_leg u l"
  "pumpswap_sell_leg R u p a m = Ok l \<Longrightarrow> wf_leg u l"
  by (auto simp: pumpswap_buy_leg_def pumpswap_buy_exact_out_leg_def pumpswap_sell_leg_def
      encode_u64_pair_def discriminator_defs dest!: pumpswap_leg_wf)

lemma bridge_leg_wf: "bridge_swap_leg R u b a m im om x y = Ok l \<Longrightarrow> wf_leg u l"
  by (cases b) (auto dest: cpmm_legs_wf amm_v4_legs_wf)

lemmas leg_wf = cpmm_legs_wf amm_v4_legs_wf damm_v2_leg_wf clmm_leg_wf whirlpool_leg_wf dlmm_leg_wf
  pumpswap_legs_wf bridge_leg_wf

section \<open>The legs of a buy\<close>

lemma buy_one_hop_wf:
  "buy_launchlab_with_quote R c a p1 pay slip e ma pol st = Ok ((ls, m, x), st') \<Longrightarrow> list_all (wf_leg (rt_payer c)) ls"
  "buy_pumpswap_with_quote R' c a p2 pay slip e f = Ok (ls, m) \<Longrightarrow> list_all (wf_leg (rt_payer c)) ls"
  "buy_raydium_v4_with_mint R c a p3 im slip e f = Ok (ls, m) \<Longrightarrow> list_all (wf_leg (rt_payer c)) ls"
  "buy_meteora_v2_with_mint R c a p4 im slip e f = Ok (ls, m) \<Longrightarrow> list_all (wf_leg (rt_payer c)) ls"
  "buy_raydium_clmm_with_mint R c a p5 im slip e = Ok (ls, m) \<Longrightarrow> list_all (wf_leg (rt_payer c)) ls"
  "buy_whirlpool_with_mint R c a p6 im slip e = Ok (ls, m) \<Longrightarrow> list_all (wf_leg (rt_payer c)) ls"
  "buy_meteora_dlmm_with_mint R' c a p7 im slip e = Ok (ls, m) \<Longrightarrow> list_all (wf_leg (rt_payer c)) ls"
  "buy_cpmm_with_mint R c a p8 im om slip e f pol st = Ok ((ls, m), st') \<Longrightarrow> list_all (wf_leg (rt_payer c)) ls"
  by (auto simp: buy_launchlab_with_quote_def buy_pumpswap_with_quote_def buy_raydium_v4_with_mint_def
      buy_meteora_v2_with_mint_def buy_raydium_clmm_with_mint_def buy_whirlpool_with_mint_def
      buy_meteora_dlmm_with_mint_def buy_cpmm_with_mint_def Let_def result_inv launchlab_leg_wf
      split: if_splits option.splits dest: leg_wf)

lemma buy_second_hop_wf: "buy_second_hop R u mk q h slip e = Ok (l, x) \<Longrightarrow> wf_leg u l"
  by (cases mk) (auto simp: buy_second_hop_def Let_def result_inv pumpfun_leg_wf split: if_splits dest: leg_wf)

lemma buy_two_hops_wf:
  "buy_via_bridge_launchlab R c a p1 b slip e pol st = Some (Ok ((ls, m, x), st')) \<Longrightarrow> list_all (wf_leg (rt_payer c)) ls"
  "buy_via_bridge_mainstream R' c a mk b slip e pol st = Ok ((ls, m), st') \<Longrightarrow> list_all (wf_leg (rt_payer c)) ls"
  "buy_via_bridge_cpmm R c a p2 b slip e pol st = Ok ((ls, m), st') \<Longrightarrow> list_all (wf_leg (rt_payer c)) ls"
  by (auto simp: buy_via_bridge_launchlab_def buy_via_bridge_mainstream_def buy_via_bridge_cpmm_def Let_def
      result_inv launchlab_leg_wf split: if_splits dest: leg_wf buy_second_hop_wf)

lemma buy_pumpfun_wf:
  "buy_pumpfun R p a opts st build = Ok ((ls, m), st') \<Longrightarrow> (\<And>m. wf_leg u (build m)) \<Longrightarrow> list_all (wf_leg u) ls"
  by (auto simp: buy_pumpfun_def Let_def result_inv)

lemma build_buy_legs_wf:
  assumes "build_buy_legs R c a rm opts st = Some (Ok ((ls, m, x), st'))"
  shows "list_all (wf_leg (rt_payer c)) ls"
proof -
  have "list_all (wf_leg (rt_payer c)) ls"
    if "buy_legs_token R c a rm opts pay st = Some (Ok ((ls, m, x), st'))" for pay
    using that unfolding buy_legs_token_def Let_def
    by (cases "rm_market rm") (auto simp: result_inv split: if_splits
        dest: buy_one_hop_wf intro!: pumpfun_leg_wf elim!: buy_pumpfun_wf)
  moreover have "list_all (wf_leg (rt_payer c)) ls"
    if "buy_legs_sol R c a rm opts w st = Some (Ok ((ls, m, x), st'))" for w
    using that unfolding buy_legs_sol_def Let_def
    by (cases "rm_market rm") (auto simp: result_inv launchlab_leg_wf split: if_splits
        dest: buy_one_hop_wf buy_two_hops_wf intro!: pumpfun_leg_wf elim!: buy_pumpfun_wf)
  ultimately show ?thesis using assms by (auto simp: build_buy_legs_def split: buy_with.splits)
qed

section \<open>The legs of a sell\<close>

definition sell_wf :: "pubkey \<Rightarrow> (leg list \<times> u64 \<times> pubkey) \<Rightarrow> bool" where
  "sell_wf u r = list_all (wf_leg u) (fst r)"

lemma sell_one_hop_wf:
  "sell_launchlab_to_quote R c a p1 om slip e ma pol st = Ok (r, st') \<Longrightarrow> sell_wf (rt_payer c) r"
  "sell_pumpswap_to_quote R' c a p2 om slip e = Ok r \<Longrightarrow> sell_wf (rt_payer c) r"
  "sell_raydium_v4_to_mint R c a p3 om slip e f = Ok r \<Longrightarrow> sell_wf (rt_payer c) r"
  "sell_meteora_v2_to_mint R c a p4 om slip e f = Ok r \<Longrightarrow> sell_wf (rt_payer c) r"
  "sell_raydium_clmm_to_mint R c a p5 om slip e = Ok r \<Longrightarrow> sell_wf (rt_payer c) r"
  "sell_whirlpool_to_mint R c a p6 om slip e = Ok r \<Longrightarrow> sell_wf (rt_payer c) r"
  "sell_meteora_dlmm_to_mint R' c a p7 om slip e = Ok r \<Longrightarrow> sell_wf (rt_payer c) r"
  "sell_cpmm_to_mint R c a p8 im om slip e f pol st = Ok (r, st') \<Longrightarrow> sell_wf (rt_payer c) r"
  by (auto simp: sell_launchlab_to_quote_def sell_pumpswap_to_quote_def sell_raydium_v4_to_mint_def
      sell_meteora_v2_to_mint_def sell_raydium_clmm_to_mint_def sell_whirlpool_to_mint_def
      sell_meteora_dlmm_to_mint_def sell_cpmm_to_mint_def Let_def result_inv launchlab_leg_wf sell_wf_def
      split: if_splits option.splits dest: leg_wf)

lemma sell_first_hop_wf: "sell_first_hop R u mk q a = Ok (l, x) \<Longrightarrow> wf_leg u l"
  by (cases mk) (auto simp: sell_first_hop_def Let_def result_inv pumpfun_leg_wf split: if_splits dest: leg_wf)

lemma sell_two_hops_wf:
  "sell_via_bridge_launchlab R c a p1 b slip e pol st = Ok (r, st') \<Longrightarrow> sell_wf (rt_payer c) r"
  "sell_via_bridge_mainstream R' c a mk b slip e pol st = Ok (r, st') \<Longrightarrow> sell_wf (rt_payer c) r"
  "sell_via_bridge_cpmm R c a p2 b slip e pol st = Ok (r, st') \<Longrightarrow> sell_wf (rt_payer c) r"
  by (auto simp: sell_via_bridge_launchlab_def sell_via_bridge_mainstream_def sell_via_bridge_cpmm_def Let_def
      result_inv launchlab_leg_wf sell_wf_def split: if_splits dest: leg_wf sell_first_hop_wf)

lemma sell_pumpfun_wf:
  "sell_pumpfun p a opts st out build = Ok (r, st') \<Longrightarrow> (\<And>m. wf_leg u (build m)) \<Longrightarrow> sell_wf u r"
  by (auto simp: sell_pumpfun_def Let_def result_inv sell_wf_def)

lemma build_sell_legs_wf:
  assumes "build_sell_legs R c a rm opts st = Ok (r, st')"
  shows "sell_wf (rt_payer c) r"
proof -
  have "sell_wf (rt_payer c) r" if "sell_legs_token R c a rm opts om st = Ok (r, st')" for om
    using that unfolding sell_legs_token_def Let_def
    by (cases "rm_market rm") (auto simp: result_inv split: if_splits
        dest: sell_one_hop_wf intro!: pumpfun_leg_wf elim!: sell_pumpfun_wf)
  moreover have "sell_wf (rt_payer c) r" if "sell_legs_sol R c a rm opts w st = Ok (r, st')" for w
    using that unfolding sell_legs_sol_def Let_def
    by (cases "rm_market rm") (auto simp: result_inv launchlab_leg_wf sell_wf_def [of _ "(_, _)"] split: if_splits
        dest: sell_one_hop_wf sell_two_hops_wf intro!: pumpfun_leg_wf elim!: sell_pumpfun_wf)
  ultimately show ?thesis using assms by (auto simp: build_sell_legs_def split: sell_to.splits)
qed

section \<open>Trades\<close>

text \<open>The legs of a buy or a sell, as the path of the market builds them for the amount after the
  platform fee.\<close>

definition buy_legs_of ::
  "sdk_env \<Rightarrow> router_client \<Rightarrow> u64 \<Rightarrow> routed_market \<Rightarrow> trade_opts \<Rightarrow> leg list \<Rightarrow> bool" where
  "buy_legs_of R c amount rm opts legs \<longleftrightarrow> (\<exists>m x st.
     build_buy_legs R c (sat_sub amount (fee_amount amount (rt_fee_bps c))) rm opts
       (buy_initial_state R c rm opts) = Some (Ok ((legs, m, x), st)))"

definition sell_legs_of ::
  "sdk_env \<Rightarrow> router_client \<Rightarrow> u64 \<Rightarrow> routed_market \<Rightarrow> trade_opts \<Rightarrow> leg list \<Rightarrow> bool" where
  "sell_legs_of R c amount rm opts legs \<longleftrightarrow> (\<exists>m out st.
     build_sell_legs R c (sat_sub amount (fee_amount amount (rt_fee_bps c))) rm opts
       (sell_initial_state R c rm opts (fee_amount amount (rt_fee_bps c))) = Ok ((legs, m, out), st))"

text \<open>The route of a built trade: its instruction, from at most two legs.\<close>

lemma trade_route:
  assumes "buy_with_opts R c amount rm opts = Some (Ok t) \<or> sell_with_opts R c amount rm opts = Ok t"
  obtains acc a m asset mint legs where
    "bt_route t = Some (build_route_instruction_ex R (rt_program_id c) acc a m asset
       (to_fixed_output opts \<noteq> None) mint legs)"
    "ra_payer acc = rt_payer c" "length legs \<le> 2" "list_all (wf_leg (rt_payer c)) legs"
    "buy_with_opts R c amount rm opts = Some (Ok t) \<and> buy_legs_of R c amount rm opts legs \<or>
     sell_with_opts R c amount rm opts = Ok t \<and> sell_legs_of R c amount rm opts legs"
  using assms
proof
  assume t: "buy_with_opts R c amount rm opts = Some (Ok t)"
  then obtain fa ra m legs x st where b:
    "bt_route t = Some (build_route_instruction_ex R (rt_program_id c) (buy_route_accounts R c rm fa)
       ra m (fa_asset fa) (to_fixed_output opts \<noteq> None) (routed_meme_mint rm) legs)"
    "length legs \<le> 2"
    "build_buy_legs R c (sat_sub amount (fee_amount amount (rt_fee_bps c))) rm opts
       (buy_initial_state R c rm opts) = Some (Ok ((legs, m, x), st))"
    by (rule buy_with_opts_Ok)
  from b(3) have "buy_legs_of R c amount rm opts legs" unfolding buy_legs_of_def by blast
  with t show thesis
    by (intro that [OF b(1) _ b(2) build_buy_legs_wf [OF b(3)]]) (simp_all add: buy_route_accounts_def)
next
  assume t: "sell_with_opts R c amount rm opts = Ok t"
  then obtain acc m mint legs out st where b:
    "bt_route t = Some (build_route_instruction_ex R (rt_program_id c) acc amount m FEE_ASSET_TOKEN
       (to_fixed_output opts \<noteq> None) mint legs)"
    "ra_payer acc = rt_payer c" "length legs \<le> 2"
    "build_sell_legs R c (sat_sub amount (fee_amount amount (rt_fee_bps c))) rm opts
      (sell_initial_state R c rm opts (fee_amount amount (rt_fee_bps c))) = Ok ((legs, m, out), st)"
    by (rule sell_with_opts_Ok)
  from b(4) have "sell_legs_of R c amount rm opts legs" unfolding sell_legs_of_def by blast
  with t build_sell_legs_wf [OF b(4)] show thesis
    by (intro that [OF b(1-3)]) (simp_all add: sell_wf_def)
qed

text \<open>C35. Every leg of a built trade, whatever the venue and the snapshot, is one the program can
  parse, with 1 to 64 accounts and data of at most 65535 bytes; the caller signs it, and nobody
  else is asked to.\<close>

theorem trade_legs_well_formed:
  assumes "buy_with_opts R c amount rm opts = Some (Ok t) \<or> sell_with_opts R c amount rm opts = Ok t"
  shows "\<exists>acc a m asset mint legs. bt_route t = Some (build_route_instruction_ex R (rt_program_id c)
      acc a m asset (to_fixed_output opts \<noteq> None) mint legs) \<and> ra_payer acc = rt_payer c \<and>
    length legs \<le> 2 \<and> list_all (wf_leg (rt_payer c)) legs"
proof -
  from assms obtain acc a m asset mint legs where
    "bt_route t = Some (build_route_instruction_ex R (rt_program_id c) acc a m asset
       (to_fixed_output opts \<noteq> None) mint legs)"
    "ra_payer acc = rt_payer c" "length legs \<le> 2" "list_all (wf_leg (rt_payer c)) legs"
    by (rule trade_route)
  then show ?thesis by blast
qed

text \<open>C8. The program makes the calls of a built trade and no others: the route instruction of the
  trade encodes the legs its path built, and when the program executes it, the trace grows by the
  transfer of the platform fee from the fee source to the recipient of the Router's configuration (by
  none if the fee is zero), and then by one call per leg of the trade, in the order of the legs, with
  that leg's program, accounts and data.\<close>

theorem trade_calls:
  assumes "buy_with_opts R c amount rm opts = Some (Ok t) \<or> sell_with_opts R c amount rm opts = Ok t"
    "bt_route t = Some i" "delivers accs (ix_accounts i)"
    "process_instruction RT (rt_program_id c) accs (ix_data i) s = Ok s'"
  shows "\<exists>acc a m asset mint legs p cfg fee fees xs.
    i = build_route_instruction_ex R (rt_program_id c) acc a m asset (to_fixed_output opts \<noteq> None) mint legs \<and>
    (buy_with_opts R c amount rm opts = Some (Ok t) \<and> buy_legs_of R c amount rm opts legs \<or>
     sell_with_opts R c amount rm opts = Ok t \<and> sell_legs_of R c amount rm opts legs) \<and>
    split_accounts accs 0 = Ok p \<and> addressed p acc (fst (sdk_config_pda R (rt_program_id c))) \<and>
    check_config RT (rt_program_id c) (config_acc p) (ledger s) = Ok cfg \<and>
    checked_fee a (fee_bps cfg) = Ok fee \<and> fee_calls p cfg (asset AND 1) fee (ledger s) fees \<and>
    trace s' = trace s @ fees @ map leg_call xs \<and> list_all2 same_leg xs legs \<and>
    length legs \<le> 2 \<and> list_all (wf_leg (rt_payer c)) legs"
proof -
  from assms(1) obtain acc a m asset mint legs where r:
    "bt_route t = Some (build_route_instruction_ex R (rt_program_id c) acc a m asset
       (to_fixed_output opts \<noteq> None) mint legs)"
    and l: "length legs \<le> 2" "list_all (wf_leg (rt_payer c)) legs"
    and own: "buy_with_opts R c amount rm opts = Some (Ok t) \<and> buy_legs_of R c amount rm opts legs \<or>
     sell_with_opts R c amount rm opts = Ok t \<and> sell_legs_of R c amount rm opts legs"
    by (rule trade_route)
  have i: "i = build_route_instruction_ex R (rt_program_id c) acc a m asset
      (to_fixed_output opts \<noteq> None) mint legs" using r assms(2) by simp
  have "list_all sendable legs" "length legs < 256"
    using l by (auto simp: list_all_iff wf_leg_def)
  from this i assms(3,4) obtain p cfg fee fees xs where "split_accounts accs 0 = Ok p"
    "addressed p acc (fst (sdk_config_pda R (rt_program_id c)))"
    "check_config RT (rt_program_id c) (config_acc p) (ledger s) = Ok cfg" "checked_fee a (fee_bps cfg) = Ok fee"
    "fee_calls p cfg (asset AND 1) fee (ledger s) fees"
    "trace s' = trace s @ fees @ map leg_call xs" "list_all2 same_leg xs legs"
    by (rule route_executes_full)
  with i own l show ?thesis by blast
qed

section \<open>Witnesses\<close>

theorem trade_legs_well_formed_witness:
  "\<exists>acc a m asset mint legs. demo_buy_ix = build_route_instruction_ex demo_env 7 acc a m asset False mint legs \<and>
     ra_payer acc = 1 \<and> list_all (wf_leg 1) legs"
proof -
  obtain t where t: "buy_with_opts demo_env demo_client 100 demo_buy_market demo_buy_opts = Some (Ok t)"
    "bt_route t = Some demo_buy_ix" using demo_buy by blast
  from trade_legs_well_formed [OF disjI1 [OF t(1)]] show ?thesis
    unfolding t(2) demo_buy_simps option.inject by (simp only: simp_thms) blast
qed

theorem trade_calls_witness:
  "\<exists>s' legs p cfg asset fee fees xs. process_instruction demo_runtime 7 (ix_accounts demo_buy_ix)
      (ix_data demo_buy_ix) demo_chain = Ok s' \<and>
     (buy_legs_of demo_env demo_client 100 demo_sell_market demo_sell_opts legs \<or>
      sell_legs_of demo_env demo_client 100 demo_sell_market demo_sell_opts legs) \<and>
     fee_calls p cfg asset fee (ledger demo_chain) fees \<and>
     trace s' = fees @ map leg_call xs \<and> list_all2 same_leg xs legs"
proof -
  obtain s' where s': "process_instruction demo_runtime 7 (ix_accounts demo_buy_ix) (ix_data demo_buy_ix)
      demo_chain = Ok s'" using demo_buy_run ..
  obtain t where t: "sell_with_opts demo_env demo_client 100 demo_sell_market demo_sell_opts = Ok t"
    "bt_route t = Some demo_buy_ix" using demo_sell by blast
  from trade_calls [OF disjI2 [OF t(1)] t(2) delivers_refl, of demo_runtime demo_chain s',
      unfolded demo_buy_simps, OF s'] s'
  have "\<exists>legs p cfg asset fee fees xs.
     (buy_legs_of demo_env demo_client 100 demo_sell_market demo_sell_opts legs \<or>
      sell_legs_of demo_env demo_client 100 demo_sell_market demo_sell_opts legs) \<and>
     fee_calls p cfg asset fee (ledger demo_chain) fees \<and>
     trace s' = trace demo_chain @ fees @ map leg_call xs \<and> list_all2 same_leg xs legs" by blast
  with s' show ?thesis by (simp add: demo_chain_def)
qed

end
