(* ===== verification/Venue_Props.thy ===== *)
theory Venue_Props
  imports Quote_Facts
begin

text \<open>
  The buy quotes of the bonding curves, Pump.fun and LaunchLab: the curve's constant product
  never shrinks, fees stay within the input, and the output within what the curve holds.
\<close>

section \<open>Pump.fun\<close>

lemma ceil_div_split:
  assumes "0 < (k :: nat)"
  shows "ceil_div (a * b) k = a div k * b + ceil_div (a mod k * b) k"
proof -
  have s: "a * b = a div k * b * k + a mod k * b"
    using div_mult_mod_eq [of a k] by (metis add_mult_distrib mult.assoc mult.commute)
  have "(a div k * b * k + a mod k * b) mod k = a mod k * b mod k" by simp
  moreover have "(a div k * b * k + a mod k * b) div k = a div k * b + a mod k * b div k"
    using assms by simp
  ultimately show ?thesis unfolding s ceil_div_def by simp
qed

lemma unat_compute_fee_bps:
  assumes "unat a < 2 ^ 64" "unat b \<le> 10000"
  shows "unat (compute_fee_bps a b) = ceil_div (unat a * unat b) 10000"
proof -
  let ?q = "unat a div 10000" and ?r = "unat a mod 10000"
  have q: "?q * unat b \<le> 2 ^ 64 * 10000" using assms by (intro mult_le_mono) simp_all
  have r: "?r * unat b \<le> 10000 * 10000" using assms by (intro mult_le_mono) simp_all
  obtain w where w: "checked_mul (a div 10000) b = Some w" "unat w = ?q * unat b"
    using q by (simp add: checked_mul_def unat_div unat_mul_exact)
  obtain m where m: "checked_mul (a mod 10000) b = Some m" "unat m = ?r * unat b"
    using r by (simp add: checked_mul_def unat_mod unat_mul_exact)
  have "unat (m div 10000) + 1 < 2 ^ 128" using r by (simp add: unat_div m(2))
  then have c: "unat (if m mod 10000 = 0 then m div 10000 else m div 10000 + 1) =
      ceil_div (unat m) 10000"
    using unat_div_ceil [of m 10000] by (simp add: div_ceil_def)
  have "ceil_div (?r * unat b) 10000 \<le> 10000" using r by (simp add: ceil_div_le_iff)
  then show ?thesis using q
    unfolding ceil_div_split [of 10000 "unat a" "unat b", simplified]
    by (simp add: compute_fee_bps_def w m(1) Let_def c unat_sat_add m(2))
qed

definition fee_up :: "nat \<Rightarrow> nat \<Rightarrow> nat" where "fee_up n bps = ceil_div (n * bps) 10000"

lemma fee_up_mono: "m \<le> n \<Longrightarrow> fee_up m b \<le> fee_up n b"
  by (simp add: fee_up_def ceil_div_mono)

lemma fee_up_le: "b \<le> 10000 \<Longrightarrow> fee_up n b \<le> n"
  by (simp add: fee_up_def ceil_div_le_iff)

lemma pumpfun_rates_Ok:
  assumes "pumpfun_rates p = Ok (a, b)"
  shows "unat a + unat b < 10000"
proof -
  have "unat (widen (pf_protocol_fee_bps p) + v) = unat (widen (pf_protocol_fee_bps p)) + unat v"
    if "v = widen (pf_creator_fee_bps p) \<or> v = 0" for v
    using that unat_u64_le [of "pf_protocol_fee_bps p"] unat_u64_le [of "pf_creator_fee_bps p"]
    by (auto simp: unat_add_exact)
  with assms show ?thesis
    by (auto simp: pumpfun_rates_def Let_def word_le_nat_alt not_le split: if_splits)
qed

text \<open>What goes to the curve, and one unit more, is covered by the input with both fees.\<close>

lemma pumpfun_net_Ok:
  assumes "pumpfun_net x a b = Ok n" "unat a + unat b < 10000"
  shows "unat n + 1 + fee_up (unat n + 1) (unat a) + fee_up (unat n + 1) (unat b) \<le> unat x"
proof -
  let ?net = "widen x * 10000 div (10000 + a + b)"
  let ?fees = "\<lambda>k. fee_up k (unat a) + fee_up k (unat b)"
  have m: "unat (widen x * 10000) = unat x * 10000"
    using unat_u64_le [of x] by (subst unat_mul_exact) simp_all
  have "unat (10000 + a + b) = 10000 + unat a + unat b"
    using assms(2) by (simp add: unat_add_exact)
  then have "unat ?net = unat x * 10000 div (10000 + unat a + unat b)"
    by (simp only: unat_div m)
  also have "\<dots> \<le> unat x * 10000 div 10000" by (rule div_le_mono2) simp_all
  finally have net: "unat ?net \<le> unat x" by simp
  then have net64: "unat ?net < 2 ^ 64" using le_u64_less by simp
  have f: "unat (compute_fee_bps ?net a) = fee_up (unat ?net) (unat a)"
    "unat (compute_fee_bps ?net b) = fee_up (unat ?net) (unat b)"
    using assms(2) net64 by (simp_all add: unat_compute_fee_bps fee_up_def)
  have small: "?fees (unat ?net) \<le> 2 * unat ?net"
    using fee_up_le [of "unat a" "unat ?net"] fee_up_le [of "unat b" "unat ?net"] assms(2) by simp
  define total where "total = ?net + compute_fee_bps ?net a + compute_fee_bps ?net b"
  have t: "unat total = unat ?net + ?fees (unat ?net)"
    unfolding total_def using small net64 by (simp add: unat_add_exact f)
  from assms(1) obtain n' where n': "unat n' = unat n + 1"
    "(if total > widen x then ok_or (checked_sub ?net (total - widen x)) ''PumpFun input cannot cover fees''
      else Ok ?net) = Ok n'"
    unfolding pumpfun_net_def Let_def total_def [symmetric]
    by (auto simp: result_inv checked_sub_Some simp del: if_split_asm)
  show ?thesis
  proof (cases "total > widen x")
    case True
    then have "unat (total - widen x) = unat total - unat x"
      by (simp add: unat_sub_exact word_less_nat_alt)
    with True n'(2) have "unat n' = unat ?net - (unat total - unat x)" "unat total - unat x \<le> unat ?net"
      by (auto simp: ok_or_Ok checked_sub_Some)
    moreover have "?fees (unat n') \<le> ?fees (unat ?net)"
      using calculation by (intro add_mono fee_up_mono) simp_all
    moreover have "unat x < unat total" using True by (simp add: word_less_nat_alt)
    ultimately have "unat n' + ?fees (unat n') \<le> unat x" using t by linarith
    then show ?thesis by (simp add: n'(1))
  next
    case False
    with n'(2) t have "unat n' + ?fees (unat n') \<le> unat x" by (simp add: word_less_nat_alt not_less)
    then show ?thesis by (simp add: n'(1))
  qed
qed

lemma product_kept:
  assumes "(r :: nat) \<le> out * n div (i + n)"
  shows "i * out \<le> (i + n) * (out - r)"
proof (cases "i + n = 0")
  case False
  have "r * (i + n) \<le> out * n div (i + n) * (i + n)" using assms by (rule mult_le_mono1)
  also have "\<dots> \<le> out * n" by (rule div_times_less_eq_dividend)
  finally have "r * (i + n) \<le> out * n" .
  moreover have "(i + n) * (out - r) = (i + n) * out - r * (i + n)"
    by (simp only: diff_mult_distrib mult.commute [of "i + n"])
  moreover have "(i + n) * out = i * out + out * n" by (simp add: algebra_simps)
  ultimately show ?thesis by linarith
qed simp

text \<open>C31. A Pump.fun buy quote is a positive amount the curve really holds; some input of the
  curve, which the caller's amount covers together with the protocol and creator fees on it,
  rounded up, pays for it at the constant product of the virtual reserves.\<close>

theorem pumpfun_buy_covered:
  assumes "pumpfun_buy_token_out p x = Ok r"
  shows "0 < unat r \<and> r \<le> pf_real_token_reserves p \<and> (\<exists>a b n. pumpfun_rates p = Ok (a, b) \<and>
    n + fee_up n (unat a) + fee_up n (unat b) \<le> unat x \<and>
    unat (pf_virtual_sol_reserves p) * unat (pf_virtual_token_reserves p) \<le>
      (unat (pf_virtual_sol_reserves p) + n) * (unat (pf_virtual_token_reserves p) - unat r))"
proof -
  let ?i = "unat (pf_virtual_sol_reserves p)" and ?o = "unat (pf_virtual_token_reserves p)"
  from assms obtain a b n where ab: "pumpfun_rates p = Ok (a, b)" and n: "pumpfun_net x a b = Ok n"
    and r: "r = as_u64 (min (n * widen (pf_virtual_token_reserves p)
      div (widen (pf_virtual_sol_reserves p) + n)) (widen (pf_real_token_reserves p)))" "r \<noteq> 0"
    by (auto simp: pumpfun_buy_token_out_def Let_def result_inv split: if_splits)
  note cost = pumpfun_net_Ok [OF n pumpfun_rates_Ok [OF ab]]
  then have n64: "unat n \<le> 18446744073709551615" using unat_u64_le [of x] by linarith
  have "unat n * ?o \<le> 18446744073709551615 * 18446744073709551615"
    using n64 unat_u64_le by (intro mult_le_mono) simp_all
  then have "unat (n * widen (pf_virtual_token_reserves p)) = unat n * ?o"
    by (subst unat_mul_exact) simp_all
  moreover have "unat (widen (pf_virtual_sol_reserves p) + n) = ?i + unat n"
    using n64 unat_u64_le [of "pf_virtual_sol_reserves p"] by (simp add: unat_add_exact)
  ultimately have v: "unat r = min (unat n * ?o div (?i + unat n)) (unat (pf_real_token_reserves p))"
    unfolding r(1) by (simp add: unat_as_u64_min unat_div)
  then have "unat r \<le> ?o * unat n div (?i + unat n)" by (simp add: mult.commute)
  from product_kept [OF this] have "?i * ?o \<le> (?i + unat n) * (?o - unat r)" .
  moreover have "fee_up (unat n) c \<le> fee_up (unat n + 1) c" for c by (rule fee_up_mono) simp
  then have "unat n + fee_up (unat n) (unat a) + fee_up (unat n) (unat b) \<le> unat x"
    using cost by (meson add_mono le_add1 order_trans)
  moreover have "r \<le> pf_real_token_reserves p" using v by (simp add: word_le_nat_alt)
  moreover have "0 < unat r" using r(2) by (simp add: unat_gt_0)
  ultimately show ?thesis using ab by blast
qed

section \<open>LaunchLab\<close>

lemma product_weaken:
  assumes "i * out \<le> (i + n) * (out - (r :: nat))" "n \<le> m" "q \<le> r"
  shows "i * out \<le> (i + m) * (out - q)"
proof -
  have "(i + n) * (out - r) \<le> (i + m) * (out - q)" using assms(2,3) by (intro mult_le_mono) simp_all
  with assms(1) show ?thesis by linarith
qed

lemma pre_fee_amount_ge:
  assumes "pre_fee_amount v rate = Ok y" "try_u64 y = Some rv"
  shows "unat v \<le> unat rv"
proof -
  from assms(1) obtain d where d: "unat rate \<le> 1000000" "unat d = 1000000 - unat rate" "0 < unat d"
    and y: "y = div_ceil (sat_mul v FEE_DENOM) d"
    by (auto simp: pre_fee_amount_def checked_sub_Some FEE_DENOM_def word_less_nat_alt split: option.splits if_splits)
  have rv: "unat rv = ceil_div (min (unat v * 1000000) (2 ^ 128 - 1)) (unat d)"
    using assms(2) by (simp add: try_u64_Some y unat_div_ceil unat_sat_mul FEE_DENOM_def)
  then have "min (unat v * 1000000) (2 ^ 128 - 1) \<le> unat rv * unat d"
    using le_mult_ceil_div [OF d(3), of "min (unat v * 1000000) (2 ^ 128 - 1)"] by simp
  also have "\<dots> \<le> unat rv * 1000000" using d(2) by simp
  finally have "min (unat v * 1000000) (2 ^ 128 - 1) \<le> unat rv * 1000000" .
  moreover have "unat rv * 1000000 \<le> 18446744073709551615 * 1000000"
    using unat_u64_le by (rule mult_le_mono1)
  ultimately have "unat v * 1000000 \<le> unat rv * 1000000" by (simp add: min_def split: if_splits)
  then show ?thesis by simp
qed

lemma launchlab_graduation_covers:
  assumes "launchlab_graduation p a rate i out rem = Ok x"
  shows "x \<le> a" "x = a \<or> unat i * unat out \<le> (unat i + unat x) * (unat out - unat rem)"
proof -
  from assms obtain oa v y rv act where oa: "unat oa = unat out - unat rem" "unat rem \<le> unat out" "0 < unat oa"
    and v: "checked_mul i rem = Some v" and y: "pre_fee_amount (div_ceil v oa) rate = Ok y"
    and rv: "try_u64 y = Some rv" and act: "checked_add rv (calculate_inverse (ll_quote_transfer_fee p) rv) = Some act"
    and x: "x = min act a"
    by (auto simp: launchlab_graduation_def result_inv checked_sub_Some word_less_nat_alt
        split: option.splits if_splits)
  show "x \<le> a" using x by simp
  have "ceil_div (unat i * unat rem) (unat oa) \<le> unat rv"
    using pre_fee_amount_ge [OF y rv] v by (simp add: unat_div_ceil checked_mul_Some)
  also have "\<dots> \<le> unat act" using act by (simp add: checked_add_Some)
  finally have "unat i * unat rem \<le> unat act * unat oa"
    using oa(3) by (simp add: ceil_div_le_iff)
  moreover have "unat i * unat out = unat i * unat oa + unat i * unat rem"
    using oa(1,2) by (simp add: add_mult_distrib2 [symmetric])
  ultimately have "unat i * unat out \<le> (unat i + unat act) * unat oa" by (simp add: add_mult_distrib)
  then show "x = a \<or> unat i * unat out \<le> (unat i + unat x) * (unat out - unat rem)"
    using x oa(1) by (auto simp: min_def)
qed

lemma launchlab_clamp_covers:
  assumes "launchlab_clamp p a rate i out quoted = Ok (x, gross)"
    "unat i * unat out \<le> (unat i + n) * (unat out - unat quoted)" "n \<le> unat a"
  shows "unat x \<le> unat a \<and> unat i * unat out \<le> (unat i + unat x) * (unat out - unat gross) \<and>
    (ll_total_base_sell p = 0 \<or> unat gross + unat (ll_real_base p) \<le> unat (ll_total_base_sell p))"
proof -
  note all = product_weaken [OF assms(2,3)]
  consider "x = a" "gross = quoted" "ll_total_base_sell p = 0 \<or>
      unat quoted + unat (ll_real_base p) \<le> unat (ll_total_base_sell p)"
    | "unat gross + unat (ll_real_base p) = unat (ll_total_base_sell p)" "unat gross \<le> unat quoted"
      "launchlab_graduation p a rate i out gross = Ok x"
    using assms(1)
    by (auto simp: launchlab_clamp_def result_inv checked_sub_Some word_le_nat_alt split: if_splits)
  then show ?thesis
  proof cases
    case 1
    with all [of "unat quoted"] show ?thesis by simp
  next
    case 2
    from launchlab_graduation_covers [OF 2(3)] all [of "unat gross"] 2(1,2) show ?thesis
      by (auto simp: word_le_nat_alt)
  qed
qed

text \<open>C29. A LaunchLab buy quote never spends more than the input, never sells more than remains of
  the base for sale, and keeps the constant product of the virtual reserves, transfer and trading
  fees and the clamp at graduation included.\<close>

theorem launchlab_buy_covered:
  assumes "launchlab_buy_quote p a share = Ok q"
  shows "bq_amount_in q \<le> a \<and>
    (ll_total_base_sell p = 0 \<or>
      unat (bq_amount_out q) + unat (ll_real_base p) \<le> unat (ll_total_base_sell p)) \<and>
    (\<exists>i out. checked_add (ll_virtual_quote p) (ll_real_quote p) = Some i \<and>
      checked_sub (ll_virtual_base p) (ll_real_base p) = Some out \<and>
      unat i * unat out \<le> (unat i + unat (bq_amount_in q)) * (unat out - unat (bq_amount_out q)))"
proof -
  from assms obtain rate v ci i out den quoted act gross g where
    v: "checked_sub a (calculate (ll_quote_transfer_fee p) a) = Some v"
    and ci: "checked_sub (widen v) (fee_ceil (widen v) rate) = Some ci"
    and i: "checked_add (ll_virtual_quote p) (ll_real_quote p) = Some i"
    and out: "checked_sub (ll_virtual_base p) (ll_real_base p) = Some out"
    and den: "checked_add i ci = Some den"
    and quoted: "(case checked_mul ci out of Some w \<Rightarrow> checked_div w den | None \<Rightarrow> None) = Some quoted"
    and act: "launchlab_clamp p a rate i out quoted = Ok (act, gross)"
    and g: "try_u64 gross = Some g"
    and q: "q = \<lparr>bq_amount_in = act, bq_amount_out = sat_sub g (calculate (ll_base_transfer_fee p) g)\<rparr>"
    unfolding launchlab_buy_quote_def Let_def
    by (auto simp: result_inv split: if_splits)
  let ?I = "unat i" and ?O = "unat out"
  have c: "unat ci \<le> unat a"
    using v ci by (auto simp: checked_sub_Some)
  have s: "unat (bq_amount_out q) \<le> unat gross" "bq_amount_in q = act"
    using g by (simp_all add: q try_u64_Some unat_sat_sub)
  have "unat quoted \<le> ?O * unat ci div (?I + unat ci)"
    using quoted den by (auto simp: checked_mul_Some checked_div_Some checked_add_Some mult.commute
        split: option.splits)
  note kept = product_kept [OF this]
  note clamp = launchlab_clamp_covers [OF act kept c]
  note in_le = clamp [THEN conjunct1] and inv = clamp [THEN conjunct2, THEN conjunct1]
    and left = clamp [THEN conjunct2, THEN conjunct2]
  have "?I * ?O \<le> (?I + unat act) * (?O - unat (bq_amount_out q))"
    by (rule product_weaken [OF inv le_refl s(1)])
  moreover have "ll_total_base_sell p = 0 \<or>
      unat (bq_amount_out q) + unat (ll_real_base p) \<le> unat (ll_total_base_sell p)"
    using left s(1) by linarith
  ultimately show ?thesis using in_le i out s(2) by (simp add: word_le_nat_alt)
qed

definition demo_launchlab :: launchlab_pool where
  "demo_launchlab = \<lparr>ll_base_mint = 1, ll_quote_mint = 2, ll_base_token_program = 3,
     ll_quote_token_program = 3, ll_pool_state = 4, ll_base_vault = 5, ll_quote_vault = 6,
     ll_platform_config = 7, ll_platform_associated_account = 8, ll_creator_associated_account = 9,
     ll_global_config = 10, ll_virtual_base = 1000, ll_virtual_quote = 100, ll_real_base = 200,
     ll_real_quote = 20, ll_total_base_sell = 700, ll_curve_type = 0, ll_fee_rates_known = True,
     ll_trade_fee_rate = 2500, ll_platform_fee_rate = 2500, ll_creator_fee_rate = 0,
     ll_base_transfer_fee = no_transfer_fee, ll_quote_transfer_fee = no_transfer_fee\<rparr>"

text \<open>An input of 400 would buy more than remains: the quote is clamped at graduation.\<close>

lemma demo_launchlab_buy: "launchlab_buy_quote demo_launchlab 400 0 = Ok \<lparr>bq_amount_in = 202, bq_amount_out = 500\<rparr>"
  by (simp add: launchlab_buy_quote_def demo_launchlab_def launchlab_total_fee_rate_def FEE_DENOM_def
      fee_ceil_def calculate_def no_transfer_fee_def checked_sub_def checked_add_def checked_mul_def
      checked_div_def sat_add_def sat_mul_def sat_sub_def div_ceil_def widen_def try_u64_def
      launchlab_clamp_def launchlab_graduation_def pre_fee_amount_def calculate_inverse_def Let_def min_def)

theorem launchlab_buy_covered_witness:
  "\<exists>i out. checked_add (ll_virtual_quote demo_launchlab) (ll_real_quote demo_launchlab) = Some i \<and>
     checked_sub (ll_virtual_base demo_launchlab) (ll_real_base demo_launchlab) = Some out \<and>
     unat i * unat out \<le> (unat i + 202) * (unat out - 500)"
  using launchlab_buy_covered [OF demo_launchlab_buy] by simp

definition demo_pumpfun :: "pumpfun_pool \<Rightarrow> pumpfun_pool" where
  "demo_pumpfun p = p\<lparr>pf_fee_rates_known := True, pf_protocol_fee_bps := 95, pf_creator_fee_bps := 30,
     pf_has_creator := True, pf_virtual_token_reserves := 1000000, pf_virtual_sol_reserves := 30000,
     pf_real_token_reserves := 800000\<rparr>"

lemma demo_pumpfun_buy: "pumpfun_buy_token_out (demo_pumpfun p) 1000 = Ok 31820"
  by (simp add: pumpfun_buy_token_out_def demo_pumpfun_def pumpfun_rates_def pumpfun_net_def Let_def
      compute_fee_bps_def checked_mul_def checked_sub_def sat_add_def widen_def as_u64_def min_def)

theorem pumpfun_buy_covered_witness:
  "\<forall>p. \<exists>n. n + fee_up n 95 + fee_up n 30 \<le> 1000 \<and> 30000 * 1000000 \<le> (30000 + n) * (1000000 - (31820 :: nat))"
proof
  fix p :: pumpfun_pool
  from pumpfun_buy_covered [OF demo_pumpfun_buy [of p]] obtain a b n where
    "pumpfun_rates (demo_pumpfun p) = Ok (a, b)" "n + fee_up n (unat a) + fee_up n (unat b) \<le> 1000"
    "30000 * 1000000 \<le> (30000 + n) * (1000000 - (31820 :: nat))"
    by (auto simp: demo_pumpfun_def)
  moreover have "pumpfun_rates (demo_pumpfun p) = Ok (95, 30)"
    by (simp add: pumpfun_rates_def demo_pumpfun_def widen_def)
  ultimately show "\<exists>n. n + fee_up n 95 + fee_up n 30 \<le> 1000 \<and>
      30000 * 1000000 \<le> (30000 + n) * (1000000 - (31820 :: nat))" by auto
qed

end
