(* ===== verification/Sdk_Builders.thy ===== *)
theory Sdk_Builders
  imports Sdk_Sell
begin

text \<open>
  The builder methods of \<open>TradeOpts\<close>, \<open>AtaPolicy\<close> and \<open>RouterClient\<close> (\<open>trade.rs\<close>, \<open>ata.rs\<close>)
  and the constructors of \<open>RoutedMarket\<close> (\<open>market.rs\<close>). A method that takes \<open>mut self\<close> and
  returns it is a function from the old to the new value; the methods of \<open>TradeOpts\<close> that share
  their name with a field of the policy carry the prefix \<open>opts\<close>.
\<close>

section \<open>Policy\<close>

definition with_create_meme :: "bool \<Rightarrow> ata_policy \<Rightarrow> ata_policy" where
  "with_create_meme v p = p\<lparr>create_meme := v\<rparr>"

definition with_create_wsol :: "bool \<Rightarrow> ata_policy \<Rightarrow> ata_policy" where
  "with_create_wsol v p = p\<lparr>create_wsol := v\<rparr>"

definition with_create_quote :: "bool \<Rightarrow> ata_policy \<Rightarrow> ata_policy" where
  "with_create_quote v p = p\<lparr>create_quote := v\<rparr>"

definition with_close_wsol :: "bool \<Rightarrow> ata_policy \<Rightarrow> ata_policy" where
  "with_close_wsol v p = p\<lparr>close_wsol := v\<rparr>"

definition with_close_meme :: "bool \<Rightarrow> ata_policy \<Rightarrow> ata_policy" where
  "with_close_meme v p = p\<lparr>close_meme := v\<rparr>"

definition with_close_quote :: "bool \<Rightarrow> ata_policy \<Rightarrow> ata_policy" where
  "with_close_quote v p = p\<lparr>close_quote := v\<rparr>"

section \<open>Options\<close>

definition opts_with_slippage_bps :: "u64 \<Rightarrow> trade_opts \<Rightarrow> trade_opts" where
  "opts_with_slippage_bps bps t = t\<lparr>to_slippage_bps := bps\<rparr>"

definition opts_with_min_out :: "u64 \<Rightarrow> trade_opts \<Rightarrow> trade_opts" where
  "opts_with_min_out m t = t\<lparr>to_min_out := Some m\<rparr>"

definition opts_with_fixed_output :: "u64 \<Rightarrow> trade_opts \<Rightarrow> trade_opts" where
  "opts_with_fixed_output amount_out t = t\<lparr>to_fixed_output := Some amount_out\<rparr>"

definition opts_with_ata :: "ata_policy \<Rightarrow> trade_opts \<Rightarrow> trade_opts" where
  "opts_with_ata p t = t\<lparr>to_ata := p\<rparr>"

definition opts_create_meme :: "bool \<Rightarrow> trade_opts \<Rightarrow> trade_opts" where
  "opts_create_meme v t = t\<lparr>to_ata := (to_ata t)\<lparr>create_meme := v\<rparr>\<rparr>"

definition opts_create_wsol :: "bool \<Rightarrow> trade_opts \<Rightarrow> trade_opts" where
  "opts_create_wsol v t = t\<lparr>to_ata := (to_ata t)\<lparr>create_wsol := v\<rparr>\<rparr>"

definition opts_create_quote :: "bool \<Rightarrow> trade_opts \<Rightarrow> trade_opts" where
  "opts_create_quote v t = t\<lparr>to_ata := (to_ata t)\<lparr>create_quote := v\<rparr>\<rparr>"

definition opts_create_shared_atas :: "bool \<Rightarrow> trade_opts \<Rightarrow> trade_opts" where
  "opts_create_shared_atas v t = t\<lparr>to_ata := (to_ata t)\<lparr>create_wsol := v, create_quote := v\<rparr>\<rparr>"

definition opts_close_wsol :: "bool \<Rightarrow> trade_opts \<Rightarrow> trade_opts" where
  "opts_close_wsol v t = t\<lparr>to_ata := (to_ata t)\<lparr>close_wsol := v\<rparr>\<rparr>"

definition opts_close_meme :: "bool \<Rightarrow> trade_opts \<Rightarrow> trade_opts" where
  "opts_close_meme v t = t\<lparr>to_ata := (to_ata t)\<lparr>close_meme := v\<rparr>\<rparr>"

definition opts_close_quote :: "bool \<Rightarrow> trade_opts \<Rightarrow> trade_opts" where
  "opts_close_quote v t = t\<lparr>to_ata := (to_ata t)\<lparr>close_quote := v\<rparr>\<rparr>"

section \<open>Client\<close>

definition with_program_id :: "pubkey \<Rightarrow> router_client \<Rightarrow> router_client" where
  "with_program_id k c = c\<lparr>rt_program_id := k\<rparr>"

definition with_pool_guard :: "pool_guard_policy \<Rightarrow> router_client \<Rightarrow> router_client" where
  "with_pool_guard g c = c\<lparr>rt_pool_guard := g\<rparr>"

section \<open>Routed markets\<close>

definition routed_new :: "market \<Rightarrow> routed_market" where
  "routed_new m = \<lparr>rm_market = m, rm_bridge = None\<rparr>"

definition routed_with_bridge :: "market \<Rightarrow> bridge_pool \<Rightarrow> routed_market" where
  "routed_with_bridge m b = \<lparr>rm_market = m, rm_bridge = Some b\<rparr>"

definition stonk_inner :: "launchlab_pool \<Rightarrow> bridge_pool option \<Rightarrow> routed_market" where
  "stonk_inner p b = \<lparr>rm_market = LaunchLabInner p, rm_bridge = b\<rparr>"

definition stonk_outer :: "cpmm_pool \<Rightarrow> bridge_pool option \<Rightarrow> routed_market" where
  "stonk_outer p b = \<lparr>rm_market = CpmmOuter p, rm_bridge = b\<rparr>"

definition routed_pumpfun :: "pumpfun_pool \<Rightarrow> routed_market" where
  "routed_pumpfun p = \<lparr>rm_market = PumpFunInner p, rm_bridge = None\<rparr>"

definition routed_pumpswap :: "pumpswap_pool \<Rightarrow> routed_market" where
  "routed_pumpswap p = routed_new (PumpSwapOuter p)"

definition routed_raydium_amm_v4 :: "raydium_amm_v4_pool \<Rightarrow> routed_market" where
  "routed_raydium_amm_v4 p = routed_new (RaydiumAmmV4 p)"

definition routed_meteora_damm_v2 :: "meteora_damm_v2_pool \<Rightarrow> routed_market" where
  "routed_meteora_damm_v2 p = routed_new (MeteoraDammV2 p)"

definition routed_raydium_clmm :: "raydium_clmm_pool \<Rightarrow> routed_market" where
  "routed_raydium_clmm p = routed_new (RaydiumClmm p)"

definition routed_whirlpool :: "whirlpool_pool \<Rightarrow> routed_market" where
  "routed_whirlpool p = routed_new (Whirlpool p)"

definition routed_meteora_dlmm :: "meteora_dlmm_pool \<Rightarrow> routed_market" where
  "routed_meteora_dlmm p = routed_new (MeteoraDlmm p)"

end
