(* ===== verification/Sdk_Dynamic.thy ===== *)
theory Sdk_Dynamic
  imports Sdk_Pool_Legs Sdk_Route_Ix
begin

text \<open>
  The dynamic two-hop buy of \<open>dynamic.rs\<close>: from WSOL to a quote mint in one explicit pool,
  from there to the target mint in another, with the second hop sized by the program at run
  time.
\<close>

record dynamic_buy_route =
  db_instruction :: instruction
  db_quote_mint :: pubkey
  db_quote_token_program :: pubkey
  db_quote_ata :: pubkey
  db_output_mint :: pubkey
  db_output_token_program :: pubkey
  db_output_ata :: pubkey

definition other :: "pubkey \<Rightarrow> pubkey \<Rightarrow> pubkey \<Rightarrow> sdk_error + pubkey" where
  "other inp a b = (if inp = a \<and> a \<noteq> b then Ok b else if inp = b \<and> a \<noteq> b then Ok a
     else Err ''first-hop pool does not pair WSOL with another mint'')"

text \<open>The four concentrated venues share a shape: find the quote mint, check that the WSOL
  side uses the classic token program, pick the program of the quote side.\<close>

definition wsol_pair ::
  "pubkey \<Rightarrow> pubkey \<Rightarrow> pubkey \<Rightarrow> pubkey \<Rightarrow> string \<Rightarrow> sdk_error + (pubkey \<times> pubkey)" where
  "wsol_pair a b program_a program_b msg =
     bind_r (other WSOL_MINT a b) (\<lambda>quote.
       if (if a = WSOL_MINT then program_a else program_b) \<noteq> TOKEN_PROGRAM then Err msg
       else Ok (quote, if a = quote then program_a else program_b))"

definition wsol_to_quote_leg ::
  "sdk_env \<Rightarrow> pubkey \<Rightarrow> market \<Rightarrow> u64 \<Rightarrow> u64 \<Rightarrow> sdk_error + (leg \<times> pubkey \<times> pubkey)" where
  "wsol_to_quote_leg R usr m amount min_out =
     (case m of
        CpmmOuter p \<Rightarrow>
          bind_r (ok_or (cpmm_other_mint p WSOL_MINT) ''CPMM bridge lacks WSOL'') (\<lambda>quote.
          if token_program_for p WSOL_MINT \<noteq> Some TOKEN_PROGRAM
          then Err ''WSOL must use the classic Token Program''
          else bind_r (ok_or (token_program_for p quote) ''CPMM quote program missing'') (\<lambda>program.
          bind_r (cpmm_swap_leg usr p amount min_out WSOL_MINT quote
            (ata R usr WSOL_MINT TOKEN_PROGRAM) (ata R usr quote program)) (\<lambda>l. Ok (l, quote, program))))
      | RaydiumAmmV4 p \<Rightarrow>
          if rv_token_program p \<noteq> TOKEN_PROGRAM then Err ''AMM V4 WSOL must use the classic Token Program''
          else bind_r (other WSOL_MINT (rv_coin_mint p) (rv_pc_mint p)) (\<lambda>quote.
          bind_r (raydium_amm_v4_swap_leg R usr p amount min_out WSOL_MINT) (\<lambda>l.
            Ok (l, quote, rv_token_program p)))
      | RaydiumClmm p \<Rightarrow>
          bind_r (wsol_pair (cl_token_0_mint p) (cl_token_1_mint p) (cl_token_0_program p)
            (cl_token_1_program p) ''CLMM WSOL must use the classic Token Program'') (\<lambda>(quote, program).
          bind_r (raydium_clmm_swap_leg R usr p amount min_out WSOL_MINT) (\<lambda>l. Ok (l, quote, program)))
      | Whirlpool p \<Rightarrow>
          bind_r (wsol_pair (wp_mint_a p) (wp_mint_b p) (wp_token_program_a p)
            (wp_token_program_b p) ''Whirlpool WSOL must use the classic Token Program'') (\<lambda>(quote, program).
          bind_r (whirlpool_swap_leg R usr p amount min_out WSOL_MINT) (\<lambda>l. Ok (l, quote, program)))
      | MeteoraDlmm p \<Rightarrow>
          bind_r (wsol_pair (dl_token_x_mint p) (dl_token_y_mint p) (dl_token_x_program p)
            (dl_token_y_program p) ''DLMM WSOL must use the classic Token Program'') (\<lambda>(quote, program).
          bind_r (meteora_dlmm_swap_leg R usr p amount min_out WSOL_MINT) (\<lambda>l. Ok (l, quote, program)))
      | MeteoraDammV2 p \<Rightarrow>
          if dm_swap_mode p \<noteq> 0 then Err ''DAMM v2 bridge must use exact-in mode''
          else bind_r (wsol_pair (dm_token_a_mint p) (dm_token_b_mint p) (dm_token_a_program p)
            (dm_token_b_program p) ''DAMM v2 WSOL must use the classic Token Program'') (\<lambda>(quote, program).
          bind_r (meteora_damm_v2_swap_leg R usr p amount min_out WSOL_MINT) (\<lambda>l. Ok (l, quote, program)))
      | PumpSwapOuter p \<Rightarrow>
          if ps_quote_mint p = WSOL_MINT \<and> ps_quote_token_program p = TOKEN_PROGRAM
          then bind_r (pumpswap_buy_leg R usr p amount min_out) (\<lambda>l.
            Ok (l, ps_base_mint p, ps_base_token_program p))
          else if ps_base_mint p = WSOL_MINT \<and> ps_base_token_program p = TOKEN_PROGRAM
          then bind_r (pumpswap_sell_leg R usr p amount min_out) (\<lambda>l.
            Ok (l, ps_quote_mint p, ps_quote_token_program p))
          else Err ''PumpSwap bridge lacks classic-program WSOL''
      | _ \<Rightarrow> Err ''unsupported first-hop quote pool'')"

text \<open>The input amount of the second leg is a placeholder the program overwrites.\<close>

definition quote_to_target_leg ::
  "sdk_env \<Rightarrow> pubkey \<Rightarrow> market \<Rightarrow> pubkey \<Rightarrow> pubkey \<Rightarrow> u64 \<Rightarrow> sdk_error + (leg \<times> pubkey \<times> pubkey)" where
  "quote_to_target_leg R usr m quote quote_program min_out =
     (case m of
        PumpSwapOuter p \<Rightarrow>
          if ps_quote_mint p = quote \<and> ps_quote_token_program p = quote_program
          then bind_r (pumpswap_buy_leg R usr p 1 min_out) (\<lambda>l.
            Ok (l, ps_base_mint p, ps_base_token_program p))
          else if ps_base_mint p = quote \<and> ps_base_token_program p = quote_program
          then bind_r (pumpswap_sell_leg R usr p 1 min_out) (\<lambda>l.
            Ok (l, ps_quote_mint p, ps_quote_token_program p))
          else Err ''target PumpSwap mint/token program does not match first hop''
      | LaunchLabInner p \<Rightarrow>
          bind_r (require_mint_programs [(ll_base_mint p, ll_base_token_program p),
            (ll_quote_mint p, ll_quote_token_program p)] ''LaunchLab'') (\<lambda>_.
          if ll_quote_mint p \<noteq> quote \<or> ll_quote_token_program p \<noteq> quote_program
          then Err ''LaunchLab quote mint/program does not match first hop''
          else Ok (launchlab_buy_leg usr p 1 min_out (ata R usr (ll_base_mint p) (ll_base_token_program p))
            (ata R usr quote quote_program), ll_base_mint p, ll_base_token_program p))
      | CpmmOuter p \<Rightarrow>
          bind_r (ok_or (cpmm_other_mint p quote) ''target CPMM pool lacks the first hop quote mint'')
            (\<lambda>out_mint.
          if token_program_for p quote \<noteq> Some quote_program
          then Err ''target CPMM quote token program does not match first hop''
          else bind_r (ok_or (token_program_for p out_mint) ''target CPMM output token program missing'')
            (\<lambda>out_program.
          bind_r (cpmm_swap_leg usr p 1 min_out quote out_mint (ata R usr quote quote_program)
            (ata R usr out_mint out_program)) (\<lambda>l. Ok (l, out_mint, out_program))))
      | _ \<Rightarrow> Err ''second hop must be PumpSwap, LaunchLab or Raydium CPMM'')"

definition build_dynamic_quote_buy ::
  "sdk_env \<Rightarrow> pubkey \<Rightarrow> pubkey \<Rightarrow> pubkey \<Rightarrow> u64 \<Rightarrow> u64 \<Rightarrow> u64 \<Rightarrow> u64 \<Rightarrow> market \<Rightarrow> market
   \<Rightarrow> sdk_error + dynamic_buy_route" where
  "build_dynamic_quote_buy R program_id payer recipient route_amount first_amount quote_min_out
       min_target_out quote_pool target_pool =
     (if first_amount = 0 \<or> first_amount > route_amount
      then Err ''first leg amount must be within the Route input budget''
      else bind_r (wsol_to_quote_leg R payer quote_pool first_amount quote_min_out)
        (\<lambda>(l1, quote, quote_program).
      bind_r (quote_to_target_leg R payer target_pool quote quote_program min_target_out)
        (\<lambda>(l2, out_mint, out_program).
      let quote_ata = ata R payer quote quote_program; out_ata = ata R payer out_mint out_program in
      bind_r (build_dynamic_route_instruction R program_id
        \<lparr>ra_payer = payer, ra_fee_destination = ata R recipient WSOL_MINT TOKEN_PROGRAM,
         ra_fee_source = ata R payer WSOL_MINT TOKEN_PROGRAM, ra_output_token_account = out_ata,
         ra_fee_program = TOKEN_PROGRAM, ra_fee_mint = WSOL_MINT\<rparr>
        quote_ata route_amount quote_min_out min_target_out out_mint l1 l2) (\<lambda>ix.
      Ok \<lparr>db_instruction = ix, db_quote_mint = quote, db_quote_token_program = quote_program,
          db_quote_ata = quote_ata, db_output_mint = out_mint, db_output_token_program = out_program,
          db_output_ata = out_ata\<rparr>))))"

definition build_deployed_dynamic_quote_buy ::
  "sdk_env \<Rightarrow> pubkey \<Rightarrow> pubkey \<Rightarrow> u64 \<Rightarrow> u64 \<Rightarrow> u64 \<Rightarrow> u64 \<Rightarrow> market \<Rightarrow> market
   \<Rightarrow> sdk_error + dynamic_buy_route" where
  "build_deployed_dynamic_quote_buy R payer recipient route_amount first_amount quote_min_out
       min_target_out quote_pool target_pool =
     build_dynamic_quote_buy R PROGRAM_ID payer recipient route_amount first_amount quote_min_out
       min_target_out quote_pool target_pool"

end
