(* ===== verification/Sdk_Pumpfun_V3.thy ===== *)
theory Sdk_Pumpfun_V3
  imports Sdk_Quote Sdk_Route_Ix
begin

text \<open>
  Pump V3 trades of \<open>pumpfun_v3.rs\<close>: the snapshot and its validation, the quotes that follow
  a buy through the graduation of the curve, the legs and the routes. Unchecked arithmetic
  on u128 is word arithmetic, as in the code.
\<close>

definition PUMPFUN_BUY_EXACT_QUOTE_IN_V3 :: bytes where
  "PUMPFUN_BUY_EXACT_QUOTE_IN_V3 = [225, 247, 80, 30, 213, 179, 132, 136]"
definition PUMPFUN_BUY_V3 :: bytes where "PUMPFUN_BUY_V3 = [7, 5, 29, 196, 245, 23, 101, 80]"
definition PUMPFUN_SELL_V3 :: bytes where "PUMPFUN_SELL_V3 = [28, 146, 222, 119, 38, 196, 105, 213]"

record pumpfun_v3_pool =
  v3_curve :: pumpfun_pool
  v3_complete :: bool
  v3_supports_graduation :: bool
  v3_real_quote_reserves :: u64
  v3_curve_base_token_balance :: u64
  v3_pool_migration_fee :: u64
  v3_mayhem_mode :: bool
  v3_depth :: u8
  v3_needs_curve_extension :: bool
  v3_needs_volume_initialization :: bool

record pumpfun_v3_trade =
  vt_setup :: "instruction list"
  vt_route :: instruction

definition v3_into_instructions :: "pumpfun_v3_trade \<Rightarrow> instruction list" where
  "v3_into_instructions t = vt_setup t @ [vt_route t]"

section \<open>Validation and rates\<close>

definition v3_validate :: "'z pda_scheme \<Rightarrow> pumpfun_v3_pool \<Rightarrow> sdk_error + unit" where
  "v3_validate R v =
     (let p = v3_curve v;
          curve = fst (find_pda R [ascii ''bonding-curve'', key_bytes (pf_mint p)] PUMPFUN_PROGRAM) in
      if v3_complete v then Err ''completed Pump curves must migrate before further trades''
      else if pf_is_cashback_coin p then Err ''Pump V3 rejects cashback coins; use V1/V2''
      else if \<not> pf_fee_rates_known p then Err ''Pump V3 requires current FeeConfig rates''
      else if list_ex (\<lambda>k. k \<noteq> TOKEN_PROGRAM \<and> k \<noteq> TOKEN_2022_PROGRAM)
          [pf_mint_token_program p, pf_quote_token_program p]
      then Err ''Pump V3 mint owner missing or unsupported''
      else if pf_quote_mint p = WSOL_MINT \<and> pf_quote_token_program p \<noteq> TOKEN_PROGRAM
      then Err ''Pump V3 native quote requires classic WSOL mint''
      else if pf_mint p = 0 \<or> pf_quote_mint p = pf_mint p then Err ''invalid Pump V3 mints''
      else if pf_bonding_curve p \<noteq> curve
        \<or> pf_associated_bonding_curve p \<noteq> ata R curve (pf_mint p) (pf_mint_token_program p)
      then Err ''Pump V3 curve/base vault is not canonical''
      else if pf_buyback_fee_recipient p = 0 then Err ''Pump V3 buyback recipient missing''
      else Ok ())"

definition v3_rates :: "'z pda_scheme \<Rightarrow> pumpfun_v3_pool \<Rightarrow> sdk_error + (u128 \<times> u128)" where
  "v3_rates R v =
     bind_r (v3_validate R v) (\<lambda>_.
       let protocol = widen (pf_protocol_fee_bps (v3_curve v));
           creator = (if pf_has_creator (v3_curve v) then widen (pf_creator_fee_bps (v3_curve v)) else 0)
       in if protocol + creator \<ge> 10000 then Err ''invalid Pump V3 fee schedule''
          else Ok (protocol, creator))"

section \<open>Arithmetic\<close>

definition v3_fees :: "u128 \<Rightarrow> u128 \<Rightarrow> u128 \<Rightarrow> u128" where
  "v3_fees amount protocol creator =
     div_ceil (amount * protocol) 10000 + div_ceil (amount * creator) 10000"

definition v3_net_quote :: "u128 \<Rightarrow> u128 \<Rightarrow> u128 \<Rightarrow> sdk_error + u128" where
  "v3_net_quote budget protocol creator =
     (let net = budget * 10000 div (10000 + protocol + creator);
          total = net + v3_fees net protocol creator
      in ok_or (checked_sub net (sat_sub total budget)) ''V3 budget cannot cover fees'')"

definition positive_u64 :: "u128 \<Rightarrow> sdk_error + u64" where
  "positive_u64 v = bind_r (ok_or (try_u64 v) ''Pump V3 quote exceeds u64'') (\<lambda>x.
     if x = 0 then Err ''Pump V3 quote rounds to zero'' else Ok x)"

text \<open>\<open>checked_sub(..).filter(|v| *v > bound).ok_or(..)\<close>\<close>

definition sub_above :: "u128 \<Rightarrow> u128 \<Rightarrow> u128 \<Rightarrow> string \<Rightarrow> sdk_error + u128" where
  "sub_above a b bound msg =
     (case checked_sub a b of Some v \<Rightarrow> if v > bound then Ok v else Err msg | None \<Rightarrow> Err msg)"

definition v3_pool_quote :: "pumpfun_v3_pool \<Rightarrow> u128 \<Rightarrow> u128 option" where
  "v3_pool_quote v raised =
     (if pf_quote_mint (v3_curve v) = WSOL_MINT
      then checked_sub raised (widen (v3_pool_migration_fee v)) else Some raised)"

section \<open>Quotes\<close>

text \<open>The part of a buy past the curve's remaining supply, against the pool to be.\<close>

definition v3_graduation_quote ::
  "pumpfun_v3_pool \<Rightarrow> u64 \<Rightarrow> u128 \<Rightarrow> u128 \<Rightarrow> sdk_error + u64" where
  "v3_graduation_quote v budget protocol creator =
     (let base = widen (pf_virtual_token_reserves (v3_curve v));
          quote = widen (pf_virtual_sol_reserves (v3_curve v));
          remaining = widen (pf_real_token_reserves (v3_curve v)) in
      bind_r (sub_above base remaining 0 ''Pump V3 graduation exhausts virtual reserve'') (\<lambda>after.
      let curve_net = remaining * quote div after + 1;
          cost = curve_net + v3_fees curve_net protocol creator;
          left = sat_sub (widen budget) cost
      in if left * 10000 div (10000 + protocol + creator) < 2 then positive_u64 remaining
      else bind_r (sub_above (widen (v3_curve_base_token_balance v)) remaining 0
        ''empty Pump V3 pool-to-be base reserve'') (\<lambda>pool_base.
      bind_r (case checked_add (widen (v3_real_quote_reserves v)) curve_net of
          Some r \<Rightarrow> if r \<le> widen U64_MAX then Ok r else Err ''Pump V3 pool-to-be quote overflow''
        | None \<Rightarrow> Err ''Pump V3 pool-to-be quote overflow'') (\<lambda>raised.
      bind_r (case v3_pool_quote v raised of
          Some q \<Rightarrow> if q > 0 then Ok q else Err ''empty Pump V3 pool-to-be quote reserve''
        | None \<Rightarrow> Err ''empty Pump V3 pool-to-be quote reserve'') (\<lambda>pool_quote.
      bind_r (v3_net_quote left protocol creator) (\<lambda>net.
      bind_r (ok_or (checked_sub net 1) ''Pump V3 post-completion budget too small'') (\<lambda>leg_in.
        positive_u64 (remaining + leg_in * pool_base div (pool_quote + leg_in)))))))))"

definition v3_buy_quote :: "'z pda_scheme \<Rightarrow> pumpfun_v3_pool \<Rightarrow> u64 \<Rightarrow> sdk_error + u64" where
  "v3_buy_quote R v budget =
     bind_r (v3_rates R v) (\<lambda>(protocol, creator).
     bind_r (v3_net_quote (widen budget) protocol creator) (\<lambda>net.
       let base = widen (pf_virtual_token_reserves (v3_curve v));
           quote = widen (pf_virtual_sol_reserves (v3_curve v)) in
       if base = 0 \<or> quote = 0 then Err ''empty Pump V3 reserves''
       else bind_r (sub_above net 1 0 ''Pump V3 budget too small'') (\<lambda>inp.
         let tokens = inp * base div (quote + inp);
             remaining = widen (pf_real_token_reserves (v3_curve v)) in
         if tokens \<le> remaining then positive_u64 tokens
         else if \<not> v3_supports_graduation v then Err ''Pump V3 graduation is disabled for this pool''
         else if v3_mayhem_mode v
         then Err ''Pump V3 Mayhem graduation requires partial fill, unsupported by this exact-budget route''
         else v3_graduation_quote v budget protocol creator)))"

definition v3_buy_quote_for_tokens :: "'z pda_scheme \<Rightarrow> pumpfun_v3_pool \<Rightarrow> u64 \<Rightarrow> sdk_error + u64" where
  "v3_buy_quote_for_tokens R v amount =
     bind_r (v3_rates R v) (\<lambda>(protocol, creator).
       let remaining = widen (pf_real_token_reserves (v3_curve v));
           vquote = widen (pf_virtual_sol_reserves (v3_curve v)) in
       if amount = 0 then Err ''Pump V3 output must be positive''
       else if v3_mayhem_mode v \<and> widen amount > remaining
       then Err ''Pump V3 Mayhem cannot fulfill output beyond the curve''
       else if vquote = 0 then Err ''empty Pump V3 quote reserve''
       else let curve_tokens = min (widen amount) remaining in
       bind_r (sub_above (widen (pf_virtual_token_reserves (v3_curve v))) curve_tokens 0
         ''Pump V3 curve reserve exhausted'') (\<lambda>after.
       let net = curve_tokens * vquote div after + 1;
           curve_total = net + v3_fees net protocol creator in
       if widen amount \<le> remaining then positive_u64 curve_total
       else if \<not> v3_supports_graduation v then Err ''Pump V3 graduation is disabled for this pool''
       else let past = widen amount - remaining in
       bind_r (sub_above (widen (v3_curve_base_token_balance v)) remaining past
         ''Pump V3 output exhausts pool-to-be'') (\<lambda>base.
       let raised = widen (v3_real_quote_reserves v) + net in
       bind_r (case v3_pool_quote v raised of
           Some q \<Rightarrow> if q > 0 \<and> q \<le> widen U64_MAX then Ok q else Err ''invalid Pump V3 pool-to-be quote reserve''
         | None \<Rightarrow> Err ''invalid Pump V3 pool-to-be quote reserve'') (\<lambda>quote.
       let leg_net = div_ceil (quote * past) (base - past)
       in positive_u64 (curve_total + leg_net + v3_fees leg_net protocol creator)))))"

definition v3_sell_quote :: "'z pda_scheme \<Rightarrow> pumpfun_v3_pool \<Rightarrow> u64 \<Rightarrow> sdk_error + u64" where
  "v3_sell_quote R v amount = bind_r (v3_validate R v) (\<lambda>_. pumpfun_sell_sol_out (v3_curve v) amount)"

section \<open>Legs\<close>

definition v3_volume :: "'z pda_scheme \<Rightarrow> pubkey \<Rightarrow> pubkey" where
  "v3_volume R usr =
     fst (find_pda R [ascii ''user_volume_accumulator'', key_bytes usr] PUMPFUN_PROGRAM)"

definition v3_accounts :: "'z pda_scheme \<Rightarrow> pumpfun_v3_pool \<Rightarrow> pubkey \<Rightarrow> sdk_error + account_view list" where
  "v3_accounts R v usr =
     bind_r (v3_validate R v) (\<lambda>_.
       let p = v3_curve v; q = pf_quote_mint p; qp = pf_quote_token_program p;
           buyback = (if q = WSOL_MINT then pf_buyback_fee_recipient p
             else ata R (pf_buyback_fee_recipient p) q qp)
       in Ok [meta_ro PUMPFUN_GLOBAL False, meta_ro (pf_mint p) False, meta_ro q False,
          meta_ro (pf_mint_token_program p) False, meta_ro qp False, meta_new (pf_bonding_curve p) False,
          meta_new (pf_associated_bonding_curve p) False, meta_new (ata R (pf_bonding_curve p) q qp) False,
          meta_new usr True, meta_new (ata R usr (pf_mint p) (pf_mint_token_program p)) False,
          meta_new (ata R usr q qp) False, meta_new (v3_volume R usr) False,
          meta_ro PUMPFUN_FEE_CONFIG False, meta_new buyback False, meta_ro SYSTEM_PROGRAM False,
          meta_ro PUMPFUN_EVENT_AUTHORITY False, meta_ro PUMPFUN_PROGRAM False])"

definition v3_leg :: "'z pda_scheme \<Rightarrow> pumpfun_v3_pool \<Rightarrow> pubkey \<Rightarrow> bytes \<Rightarrow> sdk_error + leg" where
  "v3_leg R v usr d = bind_r (v3_accounts R v usr) (\<lambda>accounts.
     Ok \<lparr>leg_program = PUMPFUN_PROGRAM, leg_accounts = accounts, leg_data = d\<rparr>)"

definition v3_buy_leg :: "'z pda_scheme \<Rightarrow> pumpfun_v3_pool \<Rightarrow> pubkey \<Rightarrow> u64 \<Rightarrow> u64 \<Rightarrow> sdk_error + leg" where
  "v3_buy_leg R v usr budget minimum =
     (if budget = 0 \<or> minimum = 0 then Err ''Pump V3 amounts must be positive''
      else bind_r (v3_buy_quote R v budget) (\<lambda>_.
        v3_leg R v usr (PUMPFUN_BUY_EXACT_QUOTE_IN_V3 @ u64_bytes budget @ u64_bytes minimum @ [0])))"

definition v3_buy_exact_out_leg ::
  "'z pda_scheme \<Rightarrow> pumpfun_v3_pool \<Rightarrow> pubkey \<Rightarrow> u64 \<Rightarrow> u64 \<Rightarrow> sdk_error + leg" where
  "v3_buy_exact_out_leg R v usr amount maximum =
     (if amount = 0 \<or> maximum = 0 then Err ''Pump V3 amounts must be positive''
      else bind_r (v3_buy_quote_for_tokens R v amount) (\<lambda>_.
        v3_leg R v usr (PUMPFUN_BUY_V3 @ u64_bytes amount @ u64_bytes maximum @ [0])))"

definition v3_sell_leg :: "'z pda_scheme \<Rightarrow> pumpfun_v3_pool \<Rightarrow> pubkey \<Rightarrow> u64 \<Rightarrow> u64 \<Rightarrow> sdk_error + leg" where
  "v3_sell_leg R v usr amount minimum =
     (if amount = 0 \<or> minimum = 0 then Err ''Pump V3 amounts must be positive''
      else v3_leg R v usr (PUMPFUN_SELL_V3 @ u64_bytes amount @ u64_bytes minimum))"

section \<open>Setup and routes\<close>

definition v3_extend_ix :: "pumpfun_pool \<Rightarrow> pubkey \<Rightarrow> instruction" where
  "v3_extend_ix p usr =
     \<lparr>ix_program_id = PUMPFUN_PROGRAM,
      ix_accounts = [meta_new (pf_bonding_curve p) False, meta_new usr True, meta_ro SYSTEM_PROGRAM False,
        meta_ro PUMPFUN_EVENT_AUTHORITY False, meta_ro PUMPFUN_PROGRAM False],
      ix_data = [234, 102, 194, 203, 150, 72, 62, 229]\<rparr>"

definition v3_volume_ix :: "'z pda_scheme \<Rightarrow> pubkey \<Rightarrow> instruction" where
  "v3_volume_ix R usr =
     \<lparr>ix_program_id = PUMPFUN_PROGRAM,
      ix_accounts = [meta_new usr True, meta_ro usr False, meta_new (v3_volume R usr) False,
        meta_ro SYSTEM_PROGRAM False, meta_ro PUMPFUN_EVENT_AUTHORITY False, meta_ro PUMPFUN_PROGRAM False],
      ix_data = [94, 6, 202, 115, 255, 96, 232, 183]\<rparr>"

definition v3_setup :: "'z pda_scheme \<Rightarrow> pumpfun_v3_pool \<Rightarrow> pubkey \<Rightarrow> bool \<Rightarrow> instruction list" where
  "v3_setup R v usr buy =
     (let p = v3_curve v; q = pf_quote_mint p; qp = pf_quote_token_program p in
      (if v3_needs_curve_extension v then [v3_extend_ix p usr] else [])
      @ (if v3_needs_volume_initialization v \<or> q = WSOL_MINT then [v3_volume_ix R usr] else [])
      @ (if buy then [create_ata R usr usr (pf_mint p) (pf_mint_token_program p)] else [])
      @ (if q \<noteq> WSOL_MINT
         then (if \<not> buy then [create_ata R usr usr q qp] else [])
           @ [create_ata R usr (pf_buyback_fee_recipient p) q qp]
         else []))"

definition v3_spend :: "u64 \<Rightarrow> u16 \<Rightarrow> string \<Rightarrow> sdk_error + u64" where
  "v3_spend amount bps msg =
     (case checked_sub amount (fee_amount amount bps) of
        Some x \<Rightarrow> if x > 0 then Ok x else Err msg | None \<Rightarrow> Err msg)"

definition v3_build_buy_route_inner ::
  "'z pda_scheme \<Rightarrow> pumpfun_v3_pool \<Rightarrow> pubkey \<Rightarrow> pubkey \<Rightarrow> pubkey \<Rightarrow> u64 \<Rightarrow> u16 \<Rightarrow> u64 \<Rightarrow> bool
   \<Rightarrow> sdk_error + pumpfun_v3_trade" where
  "v3_build_buy_route_inner R v rid usr recipient budget bps minimum exact =
     bind_r (validate_router_fee_bps bps) (\<lambda>_.
     bind_r (v3_spend budget bps ''router fee consumes V3 budget'') (\<lambda>spend.
       let p = v3_curve v; q = pf_quote_mint p; qp = pf_quote_token_program p; native = (q = WSOL_MINT);
           inp = (if native then usr else ata R usr q qp);
           destination = (if native then recipient else ata R recipient q qp);
           prog = (if native then SYSTEM_PROGRAM else qp);
           out = ata R usr (pf_mint p) (pf_mint_token_program p) in
       bind_r (if exact then v3_buy_exact_out_leg R v usr minimum spend
         else v3_buy_leg R v usr spend minimum) (\<lambda>l.
       Ok \<lparr>vt_setup = v3_setup R v usr True
             @ (if \<not> native \<and> bps > 0 then [create_ata R usr recipient q qp] else []),
           vt_route = build_route_instruction_ex R rid
             \<lparr>ra_payer = usr, ra_fee_destination = destination, ra_fee_source = inp,
              ra_output_token_account = out, ra_fee_program = prog, ra_fee_mint = q\<rparr>
             budget minimum (of_bool (\<not> native)) True (pf_mint p) [l]\<rparr>)))"

definition v3_build_buy_route ::
  "'z pda_scheme \<Rightarrow> pumpfun_v3_pool \<Rightarrow> pubkey \<Rightarrow> pubkey \<Rightarrow> pubkey \<Rightarrow> u64 \<Rightarrow> u16 \<Rightarrow> u64
   \<Rightarrow> sdk_error + pumpfun_v3_trade" where
  "v3_build_buy_route R v rid usr recipient budget bps minimum =
     v3_build_buy_route_inner R v rid usr recipient budget bps minimum False"

definition v3_build_buy_exact_out_route ::
  "'z pda_scheme \<Rightarrow> pumpfun_v3_pool \<Rightarrow> pubkey \<Rightarrow> pubkey \<Rightarrow> pubkey \<Rightarrow> u64 \<Rightarrow> u16 \<Rightarrow> u64
   \<Rightarrow> sdk_error + pumpfun_v3_trade" where
  "v3_build_buy_exact_out_route R v rid usr recipient maximum bps amount =
     v3_build_buy_route_inner R v rid usr recipient maximum bps amount True"

definition v3_build_sell_route ::
  "'z pda_scheme \<Rightarrow> pumpfun_v3_pool \<Rightarrow> pubkey \<Rightarrow> pubkey \<Rightarrow> pubkey \<Rightarrow> u64 \<Rightarrow> u16 \<Rightarrow> u64
   \<Rightarrow> sdk_error + pumpfun_v3_trade" where
  "v3_build_sell_route R v rid usr recipient amount bps minimum =
     bind_r (validate_router_fee_bps bps) (\<lambda>_.
     bind_r (v3_spend amount bps ''router fee consumes V3 input'') (\<lambda>spend.
       let p = v3_curve v; native = (pf_quote_mint p = WSOL_MINT);
           out = (if native then usr else ata R usr (pf_quote_mint p) (pf_quote_token_program p));
           expected = (if native then SYSTEM_PROGRAM else pf_quote_mint p);
           mp = pf_mint_token_program p in
       bind_r (v3_sell_leg R v usr spend minimum) (\<lambda>l.
       Ok \<lparr>vt_setup = v3_setup R v usr False
             @ (if bps > 0 then [create_ata R usr recipient (pf_mint p) mp] else []),
           vt_route = build_route_instruction_ex R rid
             \<lparr>ra_payer = usr, ra_fee_destination = ata R recipient (pf_mint p) mp,
              ra_fee_source = ata R usr (pf_mint p) mp, ra_output_token_account = out,
              ra_fee_program = mp, ra_fee_mint = pf_mint p\<rparr>
             amount minimum 1 False expected [l]\<rparr>)))"

end
