(* ===== verification/Dynamic_Buy.thy ===== *)
theory Dynamic_Buy
  imports Dynamic_Encode Sdk_Dynamic Buy_Props
begin

text \<open>
  The dynamic buy of \<open>dynamic.rs\<close> from its builder to the balances: WSOL is swapped into a quote
  mint, and whatever arrives is swapped into the target.
\<close>

section \<open>Executed dynamic routes\<close>

lemma two_leg_settled:
  assumes run: "process_inner RT pid accs d 1 s = Ok s'"
    and h: "read_header d 1 = Ok h" and p: "split_accounts accs 1 = Ok p"
    and asset: "fee_asset h = 1" and exact: "\<not> exact_out h"
  obtains cfg fee s1 paid0 paid1 got0 got1 where
    "check_config RT pid (config_acc p) (ledger s) = Ok cfg"
    "checked_fee (amount_in h) (fee_bps cfg) = Ok fee" "pay_fee RT p cfg 1 fee s = Ok s1"
    "token_amount (ledger s (address (fee_source p))) = Ok paid0"
    "token_amount (ledger s' (address (fee_source p))) = Ok paid1" "unat paid0 = unat paid1 + unat (amount_in h)"
    "token_amount (ledger s1 (address (user_output p))) = Ok got0"
    "token_amount (ledger s' (address (user_output p))) = Ok got1"
    "unat (min_amount_out h) \<le> unat got1 - unat got0"
proof -
  from process_inner_run [OF run h p] obtain cfg native fee before s1 out q1 q2 st where r:
    "check_config RT pid (config_acc p) (ledger s) = Ok cfg"
    "checked_fee (amount_in h) (fee_bps cfg) = Ok fee"
    "fee_source_snapshot 1 p (ledger s) = Ok before"
    "pay_fee RT p cfg 1 fee s = Ok s1"
    "output_balance (ledger s1 (address (user_output p))) native = Ok out"
    and e: "settle (mk_ctx 1 h p q1 q2) before fee native out (ledger s') = Ok ()"
    and v: "validate_output (user p) (user_output p) (expected_output_mint h) (1 \<noteq> (0::nat)) (ledger s) = Ok native"
    using asset by metis
  have n: "\<not> native" using v by (auto simp: validate_output_def result_inv split: if_splits)
  from e obtain sa oa where o: "fee_source_after 1 p (ledger s') = Ok sa"
    "validate_spend before sa (amount_in h) fee False = Ok ()"
    "output_balance (ledger s' (address (user_output p))) native = Ok oa"
    "unat (min_amount_out h) \<le> unat oa - unat out"
    by (elim settle_Ok) (simp add: asset exact)
  have "unat before = unat sa + unat (amount_in h)"
    using o(2) by (auto simp: validate_spend_Ok split: if_splits)
  with that r(1,2,4,5) o(1,3,4) n fee_source_snapshot_after [OF r(3)] show thesis
    by (simp add: fee_source_after_def output_balance_def)
qed

section \<open>The dynamic buy\<close>

text \<open>What the builder puts together.\<close>

lemma build_dynamic_quote_buy_Ok:
  assumes "build_dynamic_quote_buy R pid payer recipient amount first mid_min min_out qp tp = Ok r"
  obtains l1 l2 where
    "build_dynamic_route_instruction R pid
        \<lparr>ra_payer = payer, ra_fee_destination = ata R recipient WSOL_MINT TOKEN_PROGRAM,
         ra_fee_source = ata R payer WSOL_MINT TOKEN_PROGRAM, ra_output_token_account = db_output_ata r,
         ra_fee_program = TOKEN_PROGRAM, ra_fee_mint = WSOL_MINT\<rparr>
        (db_quote_ata r) amount mid_min min_out (db_output_mint r) l1 l2 = Ok (db_instruction r)"
    "wsol_to_quote_leg R payer qp first mid_min = Ok (l1, db_quote_mint r, db_quote_token_program r)"
    "quote_to_target_leg R payer tp (db_quote_mint r) (db_quote_token_program r) min_out =
       Ok (l2, db_output_mint r, db_output_token_program r)"
    "db_quote_ata r = ata R payer (db_quote_mint r) (db_quote_token_program r)"
    "db_output_ata r = ata R payer (db_output_mint r) (db_output_token_program r)"
    "first \<noteq> 0" "first \<le> amount"
  using assms by (auto simp: build_dynamic_quote_buy_def Let_def result_inv split: if_splits)

text \<open>C4. What a dynamic buy does when the program executes it, whatever the venues do: the caller's
  WSOL account pays exactly the amount, fee included; the program makes two calls, and the second
  spends exactly what the first one credited to the caller's account of the quote mint, at least
  the minimum, so that this account ends as it was after the fee; and the caller's account of the
  target mint gains at least the minimum asked for.\<close>

theorem dynamic_buy_executes:
  assumes "build_dynamic_quote_buy R pid payer recipient amount first mid_min min_out qp tp = Ok r"
    "delivers accs (ix_accounts (db_instruction r))"
    "process_instruction RT pid accs (ix_data (db_instruction r)) s = Ok s'"
  shows "\<exists>p cfg fee s1 paid0 paid1 got0 got1 mid fees p1 accs1 d1 p2 accs2 leg2 d2 L1 q q1 x.
    split_accounts accs 1 = Ok p \<and> address (user p) = payer \<and> is_signer (user p) \<and>
    token_amount (ledger s (ata R payer WSOL_MINT TOKEN_PROGRAM)) = Ok paid0 \<and>
    token_amount (ledger s' (ata R payer WSOL_MINT TOKEN_PROGRAM)) = Ok paid1 \<and>
    unat paid0 = unat paid1 + unat amount \<and> pay_fee RT p cfg 1 fee s = Ok s1 \<and>
    token_amount (ledger s1 (ata R payer (db_output_mint r) (db_output_token_program r))) = Ok got0 \<and>
    token_amount (ledger s' (ata R payer (db_output_mint r) (db_output_token_program r))) = Ok got1 \<and>
    unat min_out \<le> unat got1 - unat got0 \<and>
    intermediate p = Some mid \<and> address mid = ata R payer (db_quote_mint r) (db_quote_token_program r) \<and>
    trace s' = trace s @ fees @ [Invoke p1 accs1 d1, Invoke p2 accs2 d2] \<and> length fees \<le> 1 \<and>
    cpi RT (Invoke p1 accs1 d1) (ledger s1) = Ok L1 \<and> cpi RT (Invoke p2 accs2 d2) L1 = Ok (ledger s') \<and>
    token_amount (ledger s1 (address mid)) = Ok q \<and> token_amount (L1 (address mid)) = Ok q1 \<and>
    unat q1 = unat q + unat x \<and> token_amount (ledger s' (address mid)) = Ok q \<and>
    unat mid_min \<le> unat x \<and> sized_swap (user p) mid (user_output p) x p2 accs2 leg2 d2"
proof -
  let ?a = "\<lparr>ra_payer = payer, ra_fee_destination = ata R recipient WSOL_MINT TOKEN_PROGRAM,
         ra_fee_source = ata R payer WSOL_MINT TOKEN_PROGRAM, ra_output_token_account = db_output_ata r,
         ra_fee_program = TOKEN_PROGRAM, ra_fee_mint = WSOL_MINT\<rparr>"
  from assms(1) obtain l1 l2 where b: "build_dynamic_route_instruction R pid ?a
      (db_quote_ata r) amount mid_min min_out (db_output_mint r) l1 l2 = Ok (db_instruction r)"
    and k: "db_quote_ata r = ata R payer (db_quote_mint r) (db_quote_token_program r)"
    "db_output_ata r = ata R payer (db_output_mint r) (db_output_token_program r)"
    by (rule build_dynamic_quote_buy_Ok)
  from b obtain frames extra where
    d: "ix_data (db_instruction r) = TAG_ROUTE_DYNAMIC #
      route_payload amount min_out 1 2 (db_output_mint r) [mid_min] frames"
    and ia: "ix_accounts (db_instruction r) = fixed_metas ?a (fst (sdk_config_pda R pid))
      @ map (\<lambda>k. meta_new k False) [db_quote_ata r] @ extra"
    by (rule dynamic_ix_parts) blast
  let ?d = "route_payload amount min_out 1 2 (db_output_mint r) [mid_min] frames"
  let ?h = "header_of amount min_out 1 2 (db_output_mint r) [mid_min]"
  obtain p mid where p: "split_accounts accs 1 = Ok p" "addressed p ?a (fst (sdk_config_pda R pid))"
    "intermediate p = Some mid" "address mid = db_quote_ata r"
    using delivered_split [OF assms(2) [unfolded ia]] by (auto simp: addressed_def)
  have h: "read_header ?d 1 = Ok ?h"
    using read_header_of_payload [of 2 "[mid_min]" amount min_out 1 "db_output_mint r" frames] by simp
  have ha: "fee_asset ?h = 1" "\<not> exact_out ?h" "intermediate_min_out ?h = mid_min"
    by (simp_all add: fee_asset_def exact_out_def header_of_def)
  from assms(3) have run: "process_inner RT pid accs ?d 1 s = Ok s'"
    by (simp add: d tag_defs route_process_dynamic_def)
  obtain cfg fee s1 paid0 paid1 got0 got1 where b:
    "check_config RT pid (config_acc p) (ledger s) = Ok cfg"
    "checked_fee amount (fee_bps cfg) = Ok fee" "pay_fee RT p cfg 1 fee s = Ok s1"
    "token_amount (ledger s (address (fee_source p))) = Ok paid0"
    "token_amount (ledger s' (address (fee_source p))) = Ok paid1" "unat paid0 = unat paid1 + unat amount"
    "token_amount (ledger s1 (address (user_output p))) = Ok got0"
    "token_amount (ledger s' (address (user_output p))) = Ok got1"
    "unat min_out \<le> unat got1 - unat got0"
    by (rule two_leg_settled [OF run h p(1) ha(1,2)]) simp
  obtain cfg' fee' s1' mid' fees p1 accs1 d1 p2 accs2 leg2 d2 L1 q q1 x where c:
    "check_config RT pid (config_acc p) (ledger s) = Ok cfg'"
    "checked_fee (amount_in ?h) (fee_bps cfg') = Ok fee'" "pay_fee RT p cfg' (fee_asset ?h) fee' s = Ok s1'"
    "intermediate p = Some mid'" "length fees \<le> 1"
    "trace s' = trace s @ fees @ [Invoke p1 accs1 d1, Invoke p2 accs2 d2]"
    "cpi RT (Invoke p1 accs1 d1) (ledger s1') = Ok L1" "cpi RT (Invoke p2 accs2 d2) L1 = Ok (ledger s')"
    "token_amount (ledger s1' (address mid')) = Ok q" "token_amount (L1 (address mid')) = Ok q1"
    "unat q1 = unat q + unat x" "token_amount (ledger s' (address mid')) = Ok q"
    "unat (intermediate_min_out ?h) \<le> unat x" "sized_swap (user p) mid' (user_output p) x p2 accs2 leg2 d2"
    by (rule two_leg_run [OF run h p(1)])
  have "s1' = s1" using b(1-3) c(1-3) ha(1) by simp
  moreover have "mid' = mid" using c(4) p(3) by simp
  moreover have "address (fee_source p) = ata R payer WSOL_MINT TOKEN_PROGRAM"
    "address (user_output p) = ata R payer (db_output_mint r) (db_output_token_program r)"
    "address (user p) = payer" "is_signer (user p)"
    using p(2) by (simp_all add: addressed_def k(2))
  ultimately show ?thesis using p(1,3,4) b(3-9) c(5-14) k(1) ha(3)
    by (rule_tac x = p in exI, rule_tac x = cfg in exI, rule_tac x = fee in exI, rule_tac x = s1 in exI,
        rule_tac x = paid0 in exI, rule_tac x = paid1 in exI, rule_tac x = got0 in exI, rule_tac x = got1 in exI,
        rule_tac x = mid in exI, rule_tac x = fees in exI, rule_tac x = p1 in exI, rule_tac x = accs1 in exI,
        rule_tac x = d1 in exI, rule_tac x = p2 in exI, rule_tac x = accs2 in exI, rule_tac x = leg2 in exI,
        rule_tac x = d2 in exI, rule_tac x = L1 in exI, rule_tac x = q in exI, rule_tac x = q1 in exI,
        rule_tac x = x in exI) simp
qed

section \<open>Witness\<close>

text \<open>WSOL into mint 22 and mint 22 into 21, over two CPMM pools, on the demonstration ledger.\<close>

definition demo_dyn_ata :: "pubkey \<Rightarrow> pubkey \<Rightarrow> pubkey" where
  "demo_dyn_ata own mint = (if mint = 22 then 10 else demo_ata own mint)"

definition demo_dyn_env :: sdk_env where
  "demo_dyn_env = demo_env\<lparr>find_pda := (\<lambda>seeds p. if p = ASSOCIATED_TOKEN_PROGRAM
     then (demo_dyn_ata (key_of (seeds ! 0)) (key_of (seeds ! 2)), 255) else (2, 255))\<rparr>"

definition demo_dyn_pool :: "pubkey \<Rightarrow> pubkey \<Rightarrow> cpmm_pool" where
  "demo_dyn_pool a b = demo_buy_pool\<lparr>cp_base_mint := a, cp_quote_mint := b\<rparr>"

definition demo_dyn_leg :: "pubkey \<Rightarrow> pubkey \<Rightarrow> pubkey \<Rightarrow> pubkey \<Rightarrow> u64 \<Rightarrow> u64 \<Rightarrow> leg" where
  "demo_dyn_leg a b ma mb x m = \<lparr>leg_program = RAYDIUM_CPMM_PROGRAM,
     leg_accounts = [meta_ro 1 True, META RAYDIUM_CPMM_AUTHORITY, meta_ro 51 False, meta_new 52 False,
       meta_new a False, meta_new b False, meta_new 54 False, meta_new 53 False,
       meta_ro TOKEN_PROGRAM False, meta_ro TOKEN_PROGRAM False, meta_ro ma False, meta_ro mb False,
       meta_new 55 False],
     leg_data = encode_u64_pair SDK_CPMM_SWAP_BASE_IN x m\<rparr>"

definition demo_dyn_buy :: "sdk_error + dynamic_buy_route" where
  "demo_dyn_buy = build_dynamic_quote_buy demo_dyn_env 7 1 9 100 99 50 90
     (CpmmOuter (demo_dyn_pool WSOL_MINT 22)) (CpmmOuter (demo_dyn_pool 22 21))"

lemma demo_dyn_ata [simp]: "ata demo_dyn_env own mint tp = demo_dyn_ata own mint"
  by (simp add: ata_def demo_dyn_env_def)

lemma demo_wsol [simp]: "WSOL_MINT \<noteq> 21" "WSOL_MINT \<noteq> 22" "21 \<noteq> WSOL_MINT" "22 \<noteq> WSOL_MINT" "WSOL_MINT \<noteq> 0"
  unfolding WSOL_MINT_def by (simp_all add: key58_eval key_of_def)

lemma demo_dyn_ata_simps [simp]:
  "demo_dyn_ata 1 WSOL_MINT = 4" "demo_dyn_ata 9 WSOL_MINT = 3" "demo_dyn_ata 1 22 = 10" "demo_dyn_ata 1 21 = 5"
  by (simp_all add: demo_dyn_ata_def demo_ata_def)

lemma demo_dyn_pool_simps [simp]:
  "cp_base_mint (demo_dyn_pool a b) = a" "cp_quote_mint (demo_dyn_pool a b) = b"
  "cp_base_token_program (demo_dyn_pool a b) = TOKEN_PROGRAM"
  "cp_quote_token_program (demo_dyn_pool a b) = TOKEN_PROGRAM"
  by (simp_all add: demo_dyn_pool_def demo_buy_pool_def)

lemma demo_dyn_swap:
  "a \<noteq> b \<Longrightarrow> cpmm_swap_leg 1 (demo_dyn_pool a b) x m a b i ob = Ok (demo_dyn_leg i ob a b x m)"
  by (simp add: cpmm_swap_leg_def cpmm_leg_def cpmm_leg_sides_def require_token_programs_def demo_dyn_leg_def)
    (simp add: demo_dyn_pool_def demo_buy_pool_def)

lemma demo_dyn_legs:
  "wsol_to_quote_leg demo_dyn_env 1 (CpmmOuter (demo_dyn_pool WSOL_MINT 22)) 99 50 =
     Ok (demo_dyn_leg 4 10 WSOL_MINT 22 99 50, 22, TOKEN_PROGRAM)"
  "quote_to_target_leg demo_dyn_env 1 (CpmmOuter (demo_dyn_pool 22 21)) 22 TOKEN_PROGRAM 90 =
     Ok (demo_dyn_leg 10 5 22 21 1 90, 21, TOKEN_PROGRAM)"
  by (simp_all add: wsol_to_quote_leg_def quote_to_target_leg_def cpmm_other_mint_def token_program_for_def
      demo_dyn_swap)

definition demo_dyn_swap_data :: "u64 \<Rightarrow> u64 \<Rightarrow> bytes" where
  "demo_dyn_swap_data x m = CPMM_SWAP_BASE_IN @ u64_bytes x @ u64_bytes m"

lemma demo_dyn_leg_simps [simp]:
  "leg_program (demo_dyn_leg a b ma mb x m) = RAYDIUM_CPMM_PROGRAM_ID"
  "length (leg_accounts (demo_dyn_leg a b ma mb x m)) = 13"
  "leg_data (demo_dyn_leg a b ma mb x m) = demo_dyn_swap_data x m"
  "length (demo_dyn_swap_data x m) = 24"
  by (simp_all add: demo_dyn_leg_def program_agrees encode_u64_pair_def discriminator_agrees
      demo_dyn_swap_data_def CPMM_SWAP_BASE_IN_def)

lemma demo_dyn_layout:
  "dynamic_leg_layout (demo_dyn_leg a b ma mb x m) = Ok (mk_ix_layout 4 5 0 8 12)"
  "dynamic_second_leg RAYDIUM_CPMM_PROGRAM_ID (demo_dyn_swap_data x m) = Ok demo_layout"
  by (simp_all add: dynamic_leg_layout_def Let_def program_agrees discriminator_agrees demo_dyn_swap_data_def
      CPMM_SWAP_BASE_IN_def slice_def dynamic_second_leg_def demo_bytes demo_layout_def)

definition demo_dyn_data :: bytes where
  "demo_dyn_data = u64_bytes 100 @ u64_bytes 90 @ [1, 2] @ key_bytes 21 @ u64_bytes 50 @
     key_bytes RAYDIUM_CPMM_PROGRAM_ID @ [13] @ u16_bytes 24 @ demo_dyn_swap_data 99 50 @
     key_bytes RAYDIUM_CPMM_PROGRAM_ID @ [13] @ u16_bytes 24 @ demo_dyn_swap_data 1 90"

definition demo_dyn_rest :: "account_view list" where
  "demo_dyn_rest = leg_accounts (demo_dyn_leg 4 10 WSOL_MINT 22 99 50)
     @ leg_accounts (demo_dyn_leg 10 5 22 21 1 90) @ [meta_ro RAYDIUM_CPMM_PROGRAM False]"

lemma demo_dyn_built:
  "\<exists>r. demo_dyn_buy = Ok r \<and> ix_data (db_instruction r) = TAG_ROUTE_DYNAMIC # demo_dyn_data \<and>
     split_accounts (ix_accounts (db_instruction r)) 1 =
       Ok (demo_accounts (Some (meta 10 True False)) None demo_dyn_rest) \<and>
     db_quote_mint r = 22 \<and> db_output_mint r = 21"
proof -
  have "validate_dynamic_leg (demo_dyn_leg 10 5 22 21 1 90) 1 10 5 False True = Ok ()"
    unfolding validate_dynamic_leg_def demo_dyn_layout
    by (simp add: mk_ix_layout_def Let_def) (simp add: demo_dyn_leg_def meta_new_def meta_ro_def)
  moreover have "writes_key (demo_dyn_leg 4 10 WSOL_MINT 22 99 50) 10"
    by (simp add: writes_key_def demo_dyn_leg_def meta_new_def)
  moreover have "leg_accounts (demo_dyn_leg a b ma mb x m) \<noteq> []" for a b ma mb x m
    by (simp add: demo_dyn_leg_def)
  moreover have "fst (sdk_config_pda demo_dyn_env 7) = 2"
    using demo_not_ata by (simp add: sdk_config_pda_def demo_dyn_env_def)
  moreover have "TOKEN_PROGRAM \<noteq> TOKEN_2022_PROGRAM" by (simp add: program_agrees)
  ultimately show ?thesis
    by (simp add: demo_dyn_buy_def build_dynamic_quote_buy_def demo_dyn_legs [unfolded program_agrees] Let_def
        build_dynamic_route_instruction_def check_dynamic_route_def SYSTEM_PROGRAM_agrees SYSTEM_PROGRAM_ID_def
        append_fee_mint_def fixed_metas_def split_accounts_def demo_accounts_def demo_dyn_rest_def
        leg_frame_bytes_def demo_dyn_data_def TAG_ROUTE_DYNAMIC_IX_def TAG_ROUTE_DYNAMIC_def FEE_ASSET_TOKEN_def
        meta_new_def meta_ro_def meta_def program_agrees)
qed

definition demo_dyn_frame :: "u64 \<Rightarrow> u64 \<Rightarrow> nat \<Rightarrow> leg_frame" where
  "demo_dyn_frame x m n = \<lparr>lf_program = RAYDIUM_CPMM_PROGRAM_ID, lf_num_accounts = 13,
     lf_data = demo_dyn_swap_data x m, lf_next = n\<rparr>"

lemma demo_dyn_frame_simps [simp]:
  "lf_program (demo_dyn_frame x m n) = RAYDIUM_CPMM_PROGRAM_ID" "lf_num_accounts (demo_dyn_frame x m n) = 13"
  "lf_data (demo_dyn_frame x m n) = demo_dyn_swap_data x m" "lf_next (demo_dyn_frame x m n) = n"
  by (simp_all add: demo_dyn_frame_def)

lemma demo_dyn_read:
  "read_leg demo_dyn_data 58 = Ok (demo_dyn_frame 99 50 117)"
  "read_leg demo_dyn_data 117 = Ok (demo_dyn_frame 1 90 176)"
  "read_header demo_dyn_data 1 = Ok (demo_header 100 1 2 50 0)" "length demo_dyn_data = 176"
  by (simp_all add: demo_read_leg demo_read_header demo_dyn_data_def demo_dyn_frame_def demo_dyn_swap_data_def)

lemma demo_dyn_patch:
  "patch_second_leg_amount (demo_dyn_swap_data x m) r (amount_offset demo_layout) = demo_dyn_swap_data r m"
  by (simp add: demo_dyn_swap_data_def demo_layout_def mk_layout_def patch_is_copy_into demo_bytes
      copy_into_def MAX_DYNAMIC_LEG_DATA_def)

lemma demo_dyn_accs:
  "take_leg_accounts (demo_accounts (Some (meta 10 True False)) None demo_dyn_rest) 0 13 =
     Ok (leg_accounts (demo_dyn_leg 4 10 WSOL_MINT 22 99 50))"
  "take_leg_accounts (demo_accounts (Some (meta 10 True False)) None demo_dyn_rest) 13 13 =
     Ok (leg_accounts (demo_dyn_leg 10 5 22 21 1 90))"
  by (simp_all add: take_leg_accounts_def demo_dyn_rest_def slice_append_left slice_def)

lemma demo_dyn_ends:
  "address (leg_accounts (demo_dyn_leg a b ma mb x m) ! 4) = a"
  "address (leg_accounts (demo_dyn_leg a b ma mb x m) ! 5) = b"
  "u64_of (slice 8 16 (demo_dyn_swap_data x m)) = x"
  by (simp_all add: demo_dyn_leg_def meta_new_def demo_dyn_swap_data_def demo_bytes)

lemma demo_dyn_valid:
  "validate_dynamic_accounts demo_layout (leg_accounts (demo_dyn_leg 10 5 22 21 x m)) (meta 1 True True)
     (meta 10 True False) (meta 5 True False) (demo_balances 900 102 4 7) = Ok ()"
  "writes_to (leg_accounts (demo_dyn_leg 4 10 ma mb x m)) (meta 10 True False)"
  by (simp_all add: validate_dynamic_accounts_def demo_layout_def mk_layout_def demo_dyn_leg_def meta_new_def
      meta_ro_def meta_def program_agrees layout_in_range_def optional_def writes_to_def)

lemma demo_dyn_run:
  "\<exists>s'. process_inner demo_runtime 7 accs demo_dyn_data 1 demo_chain = Ok s'"
  if "split_accounts accs 1 = Ok (demo_accounts (Some (meta 10 True False)) None demo_dyn_rest)"
proof -
  let ?a = "demo_accounts (Some (meta 10 True False)) None demo_dyn_rest"
  let ?c = "mk_ctx 1 (demo_header 100 1 2 50 0) ?a 3 0"
  have cpi: "demo_cpi (Invoke RAYDIUM_CPMM_PROGRAM_ID (leg_accounts (demo_dyn_leg 4 10 WSOL_MINT 22 99 50))
      (demo_dyn_swap_data 99 50)) (ledger demo_paid) = Ok (demo_balances 900 102 4 7)"
    "demo_cpi (Invoke RAYDIUM_CPMM_PROGRAM_ID (leg_accounts (demo_dyn_leg 10 5 22 21 1 90))
      (demo_dyn_swap_data 99 90)) (demo_balances 900 102 4 7) = Ok (demo_balances 900 3 4 106)"
    by (simp_all add: demo_dyn_ends demo_move)
  then have loop: "\<exists>st. run_legs demo_runtime ?c demo_dyn_data (Suc (Suc 0)) 0 (demo_loop 58 0 0 demo_paid)
      = Ok st \<and> (ls_cursor st = length demo_dyn_data \<and>
        settle ?c 1000 1 False 7 (ledger (ls_chain st)) = Ok ())"
    by (simp add: run_leg_def demo_loop_def demo_dyn_read demo_dyn_accs leg_invoke_data_def final_leg_data_def
        fixed_leg_data_def leg_received_def need_intermediate_def received_quote_def demo_dyn_layout
        demo_dyn_patch demo_dyn_valid invoke_def demo_runtime_def demo_settle)
  show ?thesis
    by (rule demo_run [OF demo_dyn_read(3) _ that refl _ _ _ _ _ refl _ _ loop])
      (simp_all add: check_header_def MAX_LEGS_def intermediate_snapshot_def)
qed

theorem dynamic_buy_executes_witness:
  "\<exists>r s' paid0 paid1 got0 got1 mid p2 accs2 leg2 d2 x. demo_dyn_buy = Ok r \<and>
     process_instruction demo_runtime 7 (ix_accounts (db_instruction r)) (ix_data (db_instruction r))
       demo_chain = Ok s' \<and>
     token_amount (ledger demo_chain 4) = Ok paid0 \<and> token_amount (ledger s' 4) = Ok paid1 \<and>
     unat paid0 = unat paid1 + 100 \<and> token_amount (ledger s' 5) = Ok got1 \<and>
     90 \<le> unat got1 - unat (got0 :: u64) \<and> address mid = 10 \<and> 50 \<le> unat x \<and>
     sized_swap (meta 1 True True) mid (meta 5 True False) x p2 accs2 leg2 d2"
proof -
  obtain r where r: "demo_dyn_buy = Ok r" "ix_data (db_instruction r) = TAG_ROUTE_DYNAMIC # demo_dyn_data"
    "split_accounts (ix_accounts (db_instruction r)) 1 =
       Ok (demo_accounts (Some (meta 10 True False)) None demo_dyn_rest)"
    "db_quote_mint r = 22" "db_output_mint r = 21" using demo_dyn_built by blast
  obtain s' where s': "process_instruction demo_runtime 7 (ix_accounts (db_instruction r))
      (ix_data (db_instruction r)) demo_chain = Ok s'"
    using demo_dyn_run [OF r(3)] by (auto simp: r(2) tag_defs route_process_dynamic_def)
  from dynamic_buy_executes [OF r(1) [unfolded demo_dyn_buy_def] delivers_refl s'] obtain p paid0 paid1 mid
      p2 accs2 leg2 d2 and got0 got1 x :: u64 where
    "split_accounts (ix_accounts (db_instruction r)) 1 = Ok p"
    "token_amount (ledger demo_chain 4) = Ok paid0" "token_amount (ledger s' 4) = Ok paid1"
    "unat paid0 = unat paid1 + unat (100 :: u64)" "token_amount (ledger s' 5) = Ok got1"
    "unat (90 :: u64) \<le> unat got1 - unat got0" "address mid = 10" "unat (50 :: u64) \<le> unat x"
    "sized_swap (user p) mid (user_output p) x p2 accs2 leg2 d2"
    unfolding r(4,5) demo_dyn_ata demo_dyn_ata_simps by blast
  with r(1,3) s' show ?thesis
    by (rule_tac x = r in exI, rule_tac x = s' in exI, rule_tac x = paid0 in exI, rule_tac x = paid1 in exI,
        rule_tac x = got0 in exI, rule_tac x = got1 in exI, rule_tac x = mid in exI, rule_tac x = p2 in exI,
        rule_tac x = accs2 in exI, rule_tac x = leg2 in exI, rule_tac x = d2 in exI, rule_tac x = x in exI) auto
qed

end
