(* ===== verification/V3_Props.thy ===== *)
theory V3_Props
  imports Venue_Props Sdk_Pumpfun_V3 Buy_Props
begin

text \<open>
  Pump V3: a buy quote is paid for, on the curve and, past graduation, on the pool to be; an
  executed route keeps to its budget.
\<close>

section \<open>Fees\<close>

definition with_fees :: "nat \<Rightarrow> u128 \<Rightarrow> u128 \<Rightarrow> nat" where
  "with_fees n a b = n + fee_up n (unat a) + fee_up n (unat b)"

lemma with_fees_mono: "m \<le> n \<Longrightarrow> with_fees m a b \<le> with_fees n a b"
  by (simp add: with_fees_def add_mono fee_up_mono)

lemma with_fees_0 [simp]: "with_fees 0 a b = 0"
  by (simp add: with_fees_def fee_up_def)

lemma v3_rates_Ok:
  assumes "v3_rates R v = Ok (a, b)"
  shows "unat a + unat b < 10000"
proof -
  let ?p = "v3_curve v"
  have "unat (widen (pf_protocol_fee_bps ?p) + w) = unat (widen (pf_protocol_fee_bps ?p)) + unat w"
    if "w = widen (pf_creator_fee_bps ?p) \<or> w = 0" for w
    using that unat_u64_le [of "pf_protocol_fee_bps ?p"] unat_u64_le [of "pf_creator_fee_bps ?p"]
    by (auto simp: unat_add_exact)
  with assms show ?thesis
    by (auto simp: v3_rates_def Let_def result_inv word_le_nat_alt not_le split: if_splits)
qed

lemma unat_v3_fees:
  assumes "unat n \<le> 2 ^ 65" "unat a + unat b < 10000"
  shows "unat (v3_fees n a b) = fee_up (unat n) (unat a) + fee_up (unat n) (unat b)"
proof -
  have m: "unat (n * c) = unat n * unat c" if "unat c \<le> 10000" for c :: u128
  proof -
    have "unat n * unat c \<le> 2 ^ 65 * 10000" using assms(1) that by (intro mult_le_mono) simp_all
    then show ?thesis by (intro unat_mul_exact) simp
  qed
  have f: "fee_up (unat n) c \<le> 2 ^ 65" if "c \<le> 10000" for c
    using fee_up_le [OF that, of "unat n"] assms(1) by linarith
  have "unat (div_ceil (n * c) 10000) = fee_up (unat n) (unat c)" if "unat c \<le> 10000" for c :: u128
    by (simp add: unat_div_ceil m [OF that] fee_up_def)
  then show ?thesis
    unfolding v3_fees_def using assms(2) f [of "unat a"] f [of "unat b"]
    by (subst unat_add_exact) simp_all
qed

lemma unat_with_fees:
  assumes "unat n \<le> 2 ^ 65" "unat a + unat b < 10000"
  shows "unat (n + v3_fees n a b) = with_fees (unat n) a b"
proof -
  have "fee_up (unat n) (unat a) + fee_up (unat n) (unat b) \<le> 2 * unat n"
    using fee_up_le [of "unat a" "unat n"] fee_up_le [of "unat b" "unat n"] assms(2) by linarith
  then show ?thesis
    using assms by (simp add: unat_add_exact unat_v3_fees with_fees_def)
qed

text \<open>What goes to the venue is covered by the budget with both fees.\<close>

lemma v3_net_quote_Ok:
  assumes "v3_net_quote x a b = Ok n" "unat x \<le> 18446744073709551615" "unat a + unat b < 10000"
  shows "with_fees (unat n) a b \<le> unat x"
proof -
  let ?net = "x * 10000 div (10000 + a + b)"
  define total where "total = ?net + v3_fees ?net a b"
  have m: "unat (x * 10000) = unat x * 10000" using assms(2) by (subst unat_mul_exact) simp_all
  have "unat (10000 + a + b) = 10000 + unat a + unat b" using assms(3) by (simp add: unat_add_exact)
  then have "unat ?net = unat x * 10000 div (10000 + unat a + unat b)" by (simp only: unat_div m)
  also have "\<dots> \<le> unat x * 10000 div 10000" by (rule div_le_mono2) simp_all
  finally have net: "unat ?net \<le> unat x" by simp
  then have t: "unat total = with_fees (unat ?net) a b"
    unfolding total_def using assms(2,3) by (intro unat_with_fees) simp_all
  from assms(1) have n: "unat total - unat x \<le> unat ?net" "unat n = unat ?net - (unat total - unat x)"
    by (simp_all add: v3_net_quote_def Let_def ok_or_Ok checked_sub_Some unat_sat_sub total_def)
  then have "with_fees (unat n) a b \<le> with_fees (unat ?net) a b - (unat total - unat x)"
  proof -
    have "with_fees (unat n) a b = unat n + (fee_up (unat n) (unat a) + fee_up (unat n) (unat b))"
      by (simp add: with_fees_def)
    also have "\<dots> \<le> unat n + (fee_up (unat ?net) (unat a) + fee_up (unat ?net) (unat b))"
      using n(2) by (intro add_mono fee_up_mono) simp_all
    finally show ?thesis using n unfolding with_fees_def by linarith
  qed
  then show ?thesis unfolding t by linarith
qed

section \<open>Buys\<close>

text \<open>A fill of a V3 buy: \<open>n1\<close> buys \<open>t1\<close> on the curve, \<open>n2\<close> buys \<open>t2\<close> on the pool that the
  graduated curve becomes, without the migration fee of native pools.\<close>

definition v3_pool_base :: "pumpfun_v3_pool \<Rightarrow> nat" where
  "v3_pool_base v = unat (v3_curve_base_token_balance v) - unat (pf_real_token_reserves (v3_curve v))"

definition v3_pool_quote_after :: "pumpfun_v3_pool \<Rightarrow> nat \<Rightarrow> nat" where
  "v3_pool_quote_after v n1 = unat (v3_real_quote_reserves v) + n1 -
     (if pf_quote_mint (v3_curve v) = WSOL_MINT then unat (v3_pool_migration_fee v) else 0)"

definition v3_fill :: "pumpfun_v3_pool \<Rightarrow> nat \<Rightarrow> nat \<Rightarrow> nat \<Rightarrow> nat \<Rightarrow> bool" where
  "v3_fill v n1 t1 n2 t2 \<longleftrightarrow>
     (let p = v3_curve v; q = unat (pf_virtual_sol_reserves p); b = unat (pf_virtual_token_reserves p) in
      t1 \<le> unat (pf_real_token_reserves p) \<and> q * b \<le> (q + n1) * (b - t1) \<and>
      (if t2 = 0 then n2 = 0
       else v3_supports_graduation v \<and> \<not> v3_mayhem_mode v \<and> t1 = unat (pf_real_token_reserves p) \<and>
         v3_pool_quote_after v n1 * v3_pool_base v \<le>
           (v3_pool_quote_after v n1 + n2) * (v3_pool_base v - t2)))"

lemma sub_above_Ok:
  "sub_above x y c msg = Ok z \<longleftrightarrow> unat y \<le> unat x \<and> unat z = unat x - unat y \<and> unat c < unat z"
  by (auto simp: sub_above_def checked_sub_def word_eq_unat rust_unat)

lemma sub_above_eq: "sub_above x y c msg = Ok z \<longleftrightarrow> y \<le> x \<and> z = x - y \<and> c < z"
  by (auto simp: sub_above_def checked_sub_def)

lemma positive_u64_Ok: "positive_u64 x = Ok r \<longleftrightarrow> unat r = unat x \<and> 0 < unat r"
  by (auto simp: positive_u64_def result_inv try_u64_Some unat_gt_0)

text \<open>Buying all that is left of the curve costs at most what would buy more than that.\<close>

lemma graduation_cost:
  assumes "(rem :: nat) < inp * base div (quote + inp)" "rem < base"
  shows "rem * quote div (base - rem) + 1 \<le> inp"
    "quote * base \<le> (quote + (rem * quote div (base - rem) + 1)) * (base - rem)"
proof -
  let ?d = "base - rem"
  have pos: "0 < quote + inp" using assms(1) by (cases "quote + inp = 0") simp_all
  have "Suc rem \<le> inp * base div (quote + inp)" using assms(1) by simp
  then have "Suc rem * (quote + inp) \<le> inp * base" using pos by (simp add: less_eq_div_iff_mult_less_eq)
  then have "rem * quote + rem * inp + (quote + inp) \<le> inp * base" by (simp add: algebra_simps)
  moreover have "inp * base = inp * ?d + rem * inp" using assms(2)
    by (metis add.commute add_mult_distrib2 le_add_diff_inverse less_imp_le mult.commute)
  ultimately have "rem * quote < inp * ?d" using pos by linarith
  then have "rem * quote div ?d < inp" using assms(2) by (simp add: div_less_iff_less_mult)
  then show "rem * quote div ?d + 1 \<le> inp" by simp
  have "rem * quote \<le> (rem * quote div ?d + 1) * ?d"
  proof -
    have "rem * quote mod ?d \<le> ?d" using assms(2) by (intro less_imp_le mod_less_divisor) simp
    then show ?thesis using div_mult_mod_eq [of "rem * quote" ?d] unfolding add_mult_distrib by linarith
  qed
  moreover have "quote * base = quote * ?d + rem * quote" using assms(2)
    by (metis add.commute add_mult_distrib2 le_add_diff_inverse less_imp_le mult.commute)
  ultimately show "quote * base \<le> (quote + (rem * quote div ?d + 1)) * ?d"
    by (simp add: add_mult_distrib)
qed

lemma checked_above_Ok:
  "(case c of Some q \<Rightarrow> if P q then Ok q else Err m | None \<Rightarrow> Err m) = Ok z \<longleftrightarrow> c = Some z \<and> P z"
  by (auto split: option.splits)

lemma v3_pool_quote_Some:
  "v3_pool_quote v x = Some q \<Longrightarrow>
   unat q = unat x - (if pf_quote_mint (v3_curve v) = WSOL_MINT then unat (v3_pool_migration_fee v) else 0)"
  by (auto simp: v3_pool_quote_def checked_sub_Some split: if_splits)

lemma v3_graduation_fill:
  assumes g: "v3_graduation_quote v x a b = Ok r" and ab: "unat a + unat b < 10000"
    and more: "unat (pf_real_token_reserves (v3_curve v)) <
      inp * unat (pf_virtual_token_reserves (v3_curve v)) div (unat (pf_virtual_sol_reserves (v3_curve v)) + inp)"
    and inp: "with_fees inp a b \<le> unat x"
    and ok: "v3_supports_graduation v" "\<not> v3_mayhem_mode v"
  shows "\<exists>n1 n2 t2. v3_fill v n1 (unat (pf_real_token_reserves (v3_curve v))) n2 t2 \<and>
    unat r = unat (pf_real_token_reserves (v3_curve v)) + t2 \<and> 0 < unat r \<and>
    with_fees n1 a b + with_fees n2 a b \<le> unat x"
proof -
  let ?p = "v3_curve v"
  let ?base = "unat (pf_virtual_token_reserves ?p)" and ?quote = "unat (pf_virtual_sol_reserves ?p)"
    and ?rem = "unat (pf_real_token_reserves ?p)"
  define after where "after = widen (pf_virtual_token_reserves ?p) - widen (pf_real_token_reserves ?p)"
  define cn where "cn = widen (pf_real_token_reserves ?p) * widen (pf_virtual_sol_reserves ?p) div after + 1"
  define left where "left = sat_sub (widen x) (cn + v3_fees cn a b)"
  from g have lt: "?rem < ?base"
    by (auto simp: v3_graduation_quote_def Let_def result_inv sub_above_Ok)
  then have af: "unat after = ?base - ?rem" by (simp add: after_def unat_sub_exact)
  note cost = graduation_cost [OF more lt]
  have rq: "?rem * ?quote \<le> 18446744073709551615 * 18446744073709551615"
    using unat_u64_le by (intro mult_le_mono)
  then have "unat (widen (pf_real_token_reserves ?p) * widen (pf_virtual_sol_reserves ?p)) = ?rem * ?quote"
    by (subst unat_mul_exact) simp_all
  moreover have "?rem * ?quote div (?base - ?rem) \<le> 18446744073709551615 * 18446744073709551615"
    using rq div_le_dividend order_trans by blast
  ultimately have cn: "unat cn = ?rem * ?quote div (?base - ?rem) + 1"
    unfolding cn_def by (subst unat_add_exact) (simp_all add: unat_div af)
  have "inp \<le> with_fees inp a b" by (simp add: with_fees_def)
  then have small: "unat cn \<le> 18446744073709551615" using cost(1) inp unat_u64_le [of x] cn by linarith
  have paid: "with_fees (unat cn) a b \<le> unat x"
    using with_fees_mono [OF cost(1), of a b] inp unfolding cn by linarith
  have l: "unat left = unat x - with_fees (unat cn) a b"
    unfolding left_def using small ab by (simp add: unat_sat_sub unat_with_fees)
  have kept: "?quote * ?base \<le> (?quote + unat cn) * (?base - ?rem)" using cost(2) unfolding cn .
  from g consider (curve) "positive_u64 (widen (pf_real_token_reserves ?p)) = Ok r"
    | (pool) pb raised pq net li where "pb = widen (v3_curve_base_token_balance v) - widen (pf_real_token_reserves ?p)"
      "widen (pf_real_token_reserves ?p) \<le> widen (v3_curve_base_token_balance v)"
      "checked_add (widen (v3_real_quote_reserves v)) cn = Some raised" "raised \<le> widen U64_MAX"
      "v3_pool_quote v raised = Some pq" "v3_net_quote left a b = Ok net" "checked_sub net 1 = Some li"
      "positive_u64 (widen (pf_real_token_reserves ?p) + li * pb div (pq + li)) = Ok r"
    unfolding v3_graduation_quote_def Let_def
    by (auto simp: result_inv sub_above_eq checked_above_Ok after_def [symmetric] cn_def [symmetric]
        left_def [symmetric] split: if_splits)
  then show ?thesis
  proof cases
    case curve
    then have "v3_fill v (unat cn) ?rem 0 0" using kept by (simp add: v3_fill_def Let_def)
    with curve paid show ?thesis
      by (intro exI [of _ "unat cn"] exI [of _ 0]) (simp add: positive_u64_Ok)
  next
    case pool
    have pb: "unat pb = v3_pool_base v"
      using pool(1,2) by (simp add: v3_pool_base_def unat_sub_exact word_le_nat_alt)
    have raised: "unat raised = unat (v3_real_quote_reserves v) + unat cn"
      using pool(3) by (simp add: checked_add_Some)
    have pq: "unat pq = v3_pool_quote_after v (unat cn)"
      using v3_pool_quote_Some [OF pool(5)] by (simp add: v3_pool_quote_after_def raised)
    have net: "with_fees (unat net) a b \<le> unat left"
      by (rule v3_net_quote_Ok [OF pool(6) _ ab]) (use l unat_u64_le [of x] in linarith)
    have li: "unat li + 1 = unat net" using pool(7) by (auto simp: checked_sub_Some)
    then have lf: "with_fees (unat li) a b \<le> unat left"
      using with_fees_mono [of "unat li" "unat net" a b] net by simp
    have "unat li \<le> with_fees (unat li) a b" by (simp add: with_fees_def)
    then have li64: "unat li \<le> 18446744073709551615" using lf l unat_u64_le [of x] by linarith
    have pb64: "unat pb \<le> 18446744073709551615"
      using unat_u64_le [of "v3_curve_base_token_balance v"] by (simp add: pb v3_pool_base_def)
    have "unat raised \<le> 18446744073709551615" using pool(4) by (simp add: word_le_nat_alt U64_MAX_def)
    then have pq64: "unat pq \<le> 18446744073709551615" by (simp add: pq v3_pool_quote_after_def raised)
    have "unat li * unat pb \<le> 18446744073709551615 * 18446744073709551615"
      using li64 pb64 by (intro mult_le_mono)
    then have m: "unat (li * pb) = unat li * unat pb" by (subst unat_mul_exact) simp_all
    define t2 where "t2 = unat li * unat pb div (unat pq + unat li)"
    have d: "unat (li * pb div (pq + li)) = t2"
      using li64 pq64 by (simp add: unat_div m t2_def unat_add_exact)
    have "t2 \<le> unat pb"
    proof (cases "unat pq + unat li = 0")
      case False
      have "t2 \<le> (unat pq + unat li) * unat pb div (unat pq + unat li)"
        unfolding t2_def by (rule div_le_mono) (simp add: add_mult_distrib)
      then show ?thesis unfolding nonzero_mult_div_cancel_left [OF False] .
    qed (simp add: t2_def)
    then have "t2 \<le> 18446744073709551615" using pb64 by simp
    then have "unat (widen (pf_real_token_reserves ?p) + li * pb div (pq + li)) = ?rem + t2"
      using unat_u64_le [of "pf_real_token_reserves ?p"] by (simp add: unat_add_exact d)
    moreover note pool(8) [unfolded positive_u64_Ok]
    ultimately have r: "unat r = ?rem + t2" "0 < unat r" by (metis, metis)
    have "t2 \<le> unat pb * unat li div (unat pq + unat li)" by (simp add: t2_def mult.commute)
    from product_kept [OF this] have k2: "unat pq * unat pb \<le> (unat pq + unat li) * (unat pb - t2)" .
    have "v3_fill v (unat cn) ?rem (if t2 = 0 then 0 else unat li) t2"
      using kept k2 ok by (simp add: v3_fill_def Let_def pq pb)
    moreover have "with_fees (if t2 = 0 then 0 else unat li) a b \<le> unat left" using lf by simp
    ultimately show ?thesis using r paid l
      by (intro exI [of _ "unat cn"] exI [of _ "if t2 = 0 then 0 else unat li"] exI [of _ t2]) simp
  qed
qed

text \<open>C30. A Pump V3 buy quote is paid for by the budget: it is what some input buys on the curve at
  the constant product of the virtual reserves and, if the curve graduates, what a second input
  buys on the pool it becomes, at the product of that pool's reserves; both inputs with their
  protocol and creator fees, rounded up, fit into the budget.\<close>

theorem v3_buy_covered:
  assumes "v3_buy_quote R v x = Ok r"
  shows "\<exists>a b n1 t1 n2 t2. v3_rates R v = Ok (a, b) \<and> 0 < unat r \<and> unat r = t1 + t2 \<and>
    with_fees n1 a b + with_fees n2 a b \<le> unat x \<and> v3_fill v n1 t1 n2 t2"
proof -
  let ?p = "v3_curve v"
  let ?base = "unat (pf_virtual_token_reserves ?p)" and ?quote = "unat (pf_virtual_sol_reserves ?p)"
    and ?rem = "unat (pf_real_token_reserves ?p)"
  from assms obtain a b net inp where ab: "v3_rates R v = Ok (a, b)"
    and net: "v3_net_quote (widen x) a b = Ok net" and inp: "sub_above net 1 0 ''Pump V3 budget too small'' = Ok inp"
    and tokens: "(if inp * widen (pf_virtual_token_reserves ?p) div (widen (pf_virtual_sol_reserves ?p) + inp)
          \<le> widen (pf_real_token_reserves ?p)
        then positive_u64 (inp * widen (pf_virtual_token_reserves ?p) div (widen (pf_virtual_sol_reserves ?p) + inp))
        else if \<not> v3_supports_graduation v then Err ''Pump V3 graduation is disabled for this pool''
         else if v3_mayhem_mode v
         then Err ''Pump V3 Mayhem graduation requires partial fill, unsupported by this exact-budget route''
         else v3_graduation_quote v x a b) = Ok r"
    by (auto simp: v3_buy_quote_def Let_def result_inv simp del: if_split_asm split: if_split_asm)
  note r = v3_rates_Ok [OF ab]
  have "with_fees (unat net) a b \<le> unat x"
    using v3_net_quote_Ok [OF net _ r] unat_u64_le [of x] by simp
  then have f: "with_fees (unat inp) a b \<le> unat x"
    using inp with_fees_mono [of "unat inp" "unat net" a b] by (simp add: sub_above_Ok)
  have "unat inp \<le> with_fees (unat inp) a b" by (simp add: with_fees_def)
  then have i64: "unat inp \<le> 18446744073709551615" using f unat_u64_le [of x] by linarith
  then have "unat inp * ?base \<le> 18446744073709551615 * 18446744073709551615"
    using unat_u64_le by (intro mult_le_mono)
  then have "unat (inp * widen (pf_virtual_token_reserves ?p)) = unat inp * ?base"
    by (subst unat_mul_exact) simp_all
  moreover have "unat (widen (pf_virtual_sol_reserves ?p) + inp) = ?quote + unat inp"
    using i64 unat_u64_le [of "pf_virtual_sol_reserves ?p"] by (simp add: unat_add_exact)
  ultimately have t: "unat (inp * widen (pf_virtual_token_reserves ?p)
      div (widen (pf_virtual_sol_reserves ?p) + inp)) = unat inp * ?base div (?quote + unat inp)"
    by (simp add: unat_div)
  show ?thesis
  proof (cases "unat inp * ?base div (?quote + unat inp) \<le> ?rem")
    case True
    then have v: "unat r = unat inp * ?base div (?quote + unat inp)" "0 < unat r"
      using tokens t by (auto simp: word_le_nat_alt positive_u64_Ok)
    then have "unat r \<le> ?base * unat inp div (?quote + unat inp)" by (simp add: mult.commute)
    from product_kept [OF this] True v have "v3_fill v (unat inp) (unat r) 0 0"
      by (simp add: v3_fill_def Let_def)
    with ab v(2) f show ?thesis
      by (intro exI [of _ a] exI [of _ b] exI [of _ "unat inp"] exI [of _ "unat r"] exI [of _ 0]) simp
  next
    case False
    then have "v3_graduation_quote v x a b = Ok r" "v3_supports_graduation v" "\<not> v3_mayhem_mode v"
      using tokens t by (auto simp: word_le_nat_alt split: if_splits)
    from v3_graduation_fill [OF this(1) r _ f this(2,3)] False ab show ?thesis by (metis not_le)
  qed
qed

text \<open>A budget of 400 buys the 500 left on the curve and 141 on the pool.\<close>

definition demo_v3 :: "pumpfun_pool \<Rightarrow> pumpfun_v3_pool" where
  "demo_v3 p = \<lparr>v3_curve = p\<lparr>pf_mint := 21, pf_quote_mint := 20, pf_mint_token_program := TOKEN_PROGRAM,
       pf_quote_token_program := TOKEN_PROGRAM, pf_bonding_curve := 2, pf_associated_bonding_curve := 5,
       pf_buyback_fee_recipient := 8, pf_is_cashback_coin := False, pf_fee_rates_known := True,
       pf_protocol_fee_bps := 95, pf_creator_fee_bps := 30, pf_has_creator := True,
       pf_virtual_token_reserves := 1000, pf_virtual_sol_reserves := 100, pf_real_token_reserves := 500\<rparr>,
     v3_complete = False, v3_supports_graduation = True, v3_real_quote_reserves = 20,
     v3_curve_base_token_balance = 700, v3_pool_migration_fee = 15, v3_mayhem_mode = False, v3_depth = 0,
     v3_needs_curve_extension = False, v3_needs_volume_initialization = False\<rparr>"

lemma demo_v3_rates: "v3_rates demo_env (demo_v3 p) = Ok (95, 30)"
proof -
  have "PUMPFUN_PROGRAM \<noteq> ASSOCIATED_TOKEN_PROGRAM"
    unfolding PUMPFUN_PROGRAM_def ASSOCIATED_TOKEN_PROGRAM_def by (simp add: key58_eval key_of_def)
  then have "fst (find_pda demo_env k PUMPFUN_PROGRAM) = 2" for k by (simp add: demo_env_def)
  then show ?thesis
    by (simp add: v3_rates_def v3_validate_def demo_v3_def Let_def widen_def demo_ata_def)
qed

lemma demo_v3_simps:
  "pf_virtual_token_reserves (v3_curve (demo_v3 p)) = 1000" "pf_virtual_sol_reserves (v3_curve (demo_v3 p)) = 100"
  "pf_real_token_reserves (v3_curve (demo_v3 p)) = 500" "v3_supports_graduation (demo_v3 p)"
  "\<not> v3_mayhem_mode (demo_v3 p)" "v3_curve_base_token_balance (demo_v3 p) = 700"
  "v3_real_quote_reserves (demo_v3 p) = 20" "pf_quote_mint (v3_curve (demo_v3 p)) = 20"
  by (simp_all add: demo_v3_def)

lemma ucast_max: "(ucast (- 1 :: u64) :: u128) = 18446744073709551615"
  using unat_widen [of "- 1"] by (simp add: word_eq_unat widen_def)

lemma demo_v3_buy: "v3_buy_quote demo_env (demo_v3 p) 400 = Ok 641"
  using demo_v3_rates [of p]
  by (simp add: v3_buy_quote_def v3_net_quote_def v3_fees_def v3_graduation_quote_def
      sub_above_def checked_sub_def checked_add_def sat_sub_def div_ceil_def widen_def demo_v3_simps
      positive_u64_def try_u64_def v3_pool_quote_def U64_MAX_def ucast_max Let_def)

theorem v3_buy_covered_witness:
  "\<forall>p. \<exists>n1 t1 n2 t2. (641 :: nat) = t1 + t2 \<and> with_fees n1 95 30 + with_fees n2 95 30 \<le> 400 \<and>
     v3_fill (demo_v3 p) n1 t1 n2 t2"
proof
  fix p :: pumpfun_pool
  from v3_buy_covered [OF demo_v3_buy [of p]] obtain a b n1 t1 n2 t2 where
    "v3_rates demo_env (demo_v3 p) = Ok (a, b)" "unat (641 :: u64) = t1 + t2"
    "with_fees n1 a b + with_fees n2 a b \<le> unat (400 :: u64)" "v3_fill (demo_v3 p) n1 t1 n2 t2" by blast
  then show "\<exists>n1 t1 n2 t2. (641 :: nat) = t1 + t2 \<and> with_fees n1 95 30 + with_fees n2 95 30 \<le> 400 \<and>
     v3_fill (demo_v3 p) n1 t1 n2 t2" by (auto simp: demo_v3_rates)
qed

end
