(* ===== verification/Sdk_Params.thy ===== *)
theory Sdk_Params
  imports Sdk_Builders
begin

text \<open>
  Market snapshots from the parameters of the direct-trade SDK: \<open>adapter/from_params.rs\<close>. The
  parameter types belong to \<open>sol_trade_sdk\<close>; a record here has the fields that the conversions read,
  with the width of the snapshot field they fill. The constants and functions of that crate are the
  record \<open>trade_sdk\<close>.
\<close>

section \<open>Parameters\<close>

record bonk_params =
  bk_quote_mint :: pubkey
  bk_mint_token_program :: pubkey
  bk_quote_token_program :: pubkey
  bk_pool_state :: pubkey
  bk_base_vault :: pubkey
  bk_quote_vault :: pubkey
  bk_platform_config :: pubkey
  bk_platform_associated_account :: pubkey
  bk_creator_associated_account :: pubkey
  bk_global_config :: pubkey
  bk_virtual_base :: u128
  bk_virtual_quote :: u128
  bk_real_base :: u128
  bk_real_quote :: u128
  bk_total_base_sell :: u128
  bk_curve_type :: u8
  bk_trade_fee_rate :: u64
  bk_platform_fee_rate :: u64
  bk_creator_fee_rate :: u64
  bk_base_transfer_fee :: token_transfer_fee
  bk_quote_transfer_fee :: token_transfer_fee

record cpmm_params =
  cq_pool_state :: pubkey
  cq_amm_config :: pubkey
  cq_observation_state :: pubkey
  cq_base_mint :: pubkey
  cq_quote_mint :: pubkey
  cq_base_vault :: pubkey
  cq_quote_vault :: pubkey
  cq_base_token_program :: pubkey
  cq_quote_token_program :: pubkey
  cq_base_reserve :: u64
  cq_quote_reserve :: u64
  cq_trade_fee_rate :: u64
  cq_creator_fee_rate :: u64
  cq_creator_fee_on :: u8
  cq_enable_creator_fee :: bool
  cq_base_transfer_fee :: token_transfer_fee
  cq_quote_transfer_fee :: token_transfer_fee

record curve_account =
  bc_account :: pubkey
  bc_quote_mint :: pubkey
  bc_creator :: pubkey
  bc_complete :: bool
  bc_virtual_token_reserves :: u64
  bc_virtual_sol_reserves :: u64
  bc_real_token_reserves :: u64
  bc_is_cashback_coin :: bool

record pumpfun_params =
  pq_bonding_curve :: curve_account
  pq_quote_mint :: pubkey
  pq_token_program :: pubkey
  pq_associated_bonding_curve :: pubkey
  pq_creator_vault :: pubkey
  pq_fee_sharing_creator_vault_if_active :: "pubkey option"
  pq_fee_recipient :: pubkey

record pumpswap_params =
  pp_pool :: pubkey
  pp_base_mint :: pubkey
  pp_quote_mint :: pubkey
  pp_pool_base_token_account :: pubkey
  pp_pool_quote_token_account :: pubkey
  pp_base_token_program :: pubkey
  pp_quote_token_program :: pubkey
  pp_coin_creator_vault_ata :: pubkey
  pp_coin_creator_vault_authority :: pubkey
  pp_coin_creator :: pubkey
  pp_pool_base_token_reserves :: u64
  pp_pool_quote_token_reserves :: u64
  pp_virtual_quote_reserves :: i128
  pp_lp_fee_basis_points :: u64
  pp_protocol_fee_basis_points :: u64
  pp_coin_creator_fee_basis_points :: u64
  pp_is_cashback_coin :: bool
  pp_is_mayhem_mode :: bool
  pp_protocol_fee_recipient_override :: "pubkey option"
  pp_protocol_extra_fee_recipient_override :: "pubkey option"

record amm_v4_params =
  rp_amm :: pubkey
  rp_coin_mint :: pubkey
  rp_pc_mint :: pubkey
  rp_token_coin :: pubkey
  rp_token_pc :: pubkey
  rp_amm_open_orders :: pubkey
  rp_amm_target_orders :: pubkey
  rp_serum_program :: pubkey
  rp_serum_market :: pubkey
  rp_serum_bids :: pubkey
  rp_serum_asks :: pubkey
  rp_serum_event_queue :: pubkey
  rp_serum_coin_vault_account :: pubkey
  rp_serum_pc_vault_account :: pubkey
  rp_serum_vault_signer :: pubkey
  rp_coin_reserve :: u64
  rp_pc_reserve :: u64
  rp_swap_fee_numerator :: u64
  rp_swap_fee_denominator :: u64

record damm_v2_params =
  dq_pool :: pubkey
  dq_token_a_vault :: pubkey
  dq_token_b_vault :: pubkey
  dq_token_a_mint :: pubkey
  dq_token_b_mint :: pubkey
  dq_token_a_program :: pubkey
  dq_token_b_program :: pubkey
  dq_referral_token_account :: "pubkey option"

record clmm_params =
  cm_amm_config :: pubkey
  cm_pool_state :: pubkey
  cm_observation_state :: pubkey
  cm_token_0_mint :: pubkey
  cm_token_1_mint :: pubkey
  cm_token_0_vault :: pubkey
  cm_token_1_vault :: pubkey
  cm_token_0_program :: pubkey
  cm_token_1_program :: pubkey
  cm_tick_arrays :: "pubkey list"
  cm_tick_array_bitmap_extension :: "pubkey option"

record whirlpool_params =
  wq_whirlpool :: pubkey
  wq_mint_a :: pubkey
  wq_mint_b :: pubkey
  wq_vault_a :: pubkey
  wq_vault_b :: pubkey
  wq_token_program_a :: pubkey
  wq_token_program_b :: pubkey
  wq_tick_arrays :: "pubkey list"

record dlmm_params =
  lq_lb_pair :: pubkey
  lq_bitmap_extension :: "pubkey option"
  lq_reserve_x :: pubkey
  lq_reserve_y :: pubkey
  lq_token_x_mint :: pubkey
  lq_token_y_mint :: pubkey
  lq_token_x_program :: pubkey
  lq_token_y_program :: pubkey
  lq_oracle :: pubkey
  lq_bin_arrays :: "pubkey list"

datatype sol_hop = HopRoute | HopCpmm cpmm_params | HopAmmV4 amm_v4_params
datatype meme_leg = MemeCurve bonk_params | MemeGraduated cpmm_params

record via_sol_params =
  vs_sol_hop :: sol_hop
  vs_meme_leg :: meme_leg

text \<open>Variants that the adapter refuses carry no data here.\<close>

datatype dex_param =
    ParamPumpFun pumpfun_params
  | ParamPumpSwap pumpswap_params
  | ParamPumpSwapAutoRoute
  | ParamPumpSwapQuoteRoute
  | ParamLaunchLab bonk_params
  | ParamBonk bonk_params
  | ParamStonkFun bonk_params
  | ParamStonkFunSwap cpmm_params
  | ParamStonkFunQuoteRoute
  | ParamStonkFunViaSol via_sol_params
  | ParamRaydiumCpmm cpmm_params
  | ParamRaydiumAmmV4 amm_v4_params
  | ParamMeteoraDammV2 damm_v2_params
  | ParamRaydiumClmm clmm_params
  | ParamOrcaWhirlpool whirlpool_params
  | ParamMeteoraDlmm dlmm_params
  | ParamUnknown

record trade_sdk =
  tx_sol_token_account :: pubkey
  tx_usd1_token_account :: pubkey
  tx_mayhem_fee_recipient :: pubkey
  tx_protocol_fee_recipient :: pubkey
  tx_bonding_curve_v2_pda :: "pubkey \<Rightarrow> pubkey option"
  tx_user_volume_accumulator_pda :: "pubkey \<Rightarrow> pubkey option"
  tx_effective_quote_mint :: "curve_account \<Rightarrow> pubkey"
  tx_effective_creator :: "pumpfun_params \<Rightarrow> pubkey"
  tx_resolve_creator_vault :: "pubkey \<Rightarrow> pubkey \<Rightarrow> pubkey \<Rightarrow> pubkey option \<Rightarrow> pubkey option"

section \<open>Helpers\<close>

definition to_router :: "token_transfer_fee \<Rightarrow> token_transfer_fee" where
  "to_router f = \<lparr>basis_points = basis_points f, maximum_fee = maximum_fee f\<rparr>"

definition quote_or_wsol :: "trade_sdk \<Rightarrow> pubkey \<Rightarrow> pubkey" where
  "quote_or_wsol X m = (if m = 0 \<or> m = tx_sol_token_account X then WSOL_MINT else m)"

definition token_program_or_spl :: "pubkey \<Rightarrow> pubkey" where
  "token_program_or_spl tp = (if tp = 0 then TOKEN_PROGRAM else tp)"

section \<open>One venue\<close>

definition bonk_to_launchlab :: "trade_sdk \<Rightarrow> bonk_params \<Rightarrow> pubkey \<Rightarrow> launchlab_pool" where
  "bonk_to_launchlab X p base_mint =
     \<lparr>ll_base_mint = base_mint, ll_quote_mint = quote_or_wsol X (bk_quote_mint p),
      ll_base_token_program = token_program_or_spl (bk_mint_token_program p),
      ll_quote_token_program = token_program_or_spl (bk_quote_token_program p),
      ll_pool_state = bk_pool_state p, ll_base_vault = bk_base_vault p, ll_quote_vault = bk_quote_vault p,
      ll_platform_config = bk_platform_config p,
      ll_platform_associated_account = bk_platform_associated_account p,
      ll_creator_associated_account = bk_creator_associated_account p, ll_global_config = bk_global_config p,
      ll_virtual_base = bk_virtual_base p, ll_virtual_quote = bk_virtual_quote p,
      ll_real_base = bk_real_base p, ll_real_quote = bk_real_quote p,
      ll_total_base_sell = bk_total_base_sell p, ll_curve_type = bk_curve_type p, ll_fee_rates_known = True,
      ll_trade_fee_rate = bk_trade_fee_rate p, ll_platform_fee_rate = bk_platform_fee_rate p,
      ll_creator_fee_rate = bk_creator_fee_rate p, ll_base_transfer_fee = to_router (bk_base_transfer_fee p),
      ll_quote_transfer_fee = to_router (bk_quote_transfer_fee p)\<rparr>"

definition cpmm_from_params :: "cpmm_params \<Rightarrow> cpmm_pool" where
  "cpmm_from_params p =
     \<lparr>cp_pool_state = cq_pool_state p, cp_amm_config = cq_amm_config p,
      cp_observation_state = cq_observation_state p, cp_base_mint = cq_base_mint p,
      cp_quote_mint = cq_quote_mint p, cp_base_vault = cq_base_vault p, cp_quote_vault = cq_quote_vault p,
      cp_base_token_program = token_program_or_spl (cq_base_token_program p),
      cp_quote_token_program = token_program_or_spl (cq_quote_token_program p),
      cp_base_reserve = cq_base_reserve p, cp_quote_reserve = cq_quote_reserve p, cp_fee_rates_known = True,
      cp_trade_fee_rate = cq_trade_fee_rate p, cp_creator_fee_rate = cq_creator_fee_rate p,
      cp_creator_fee_on = cq_creator_fee_on p, cp_enable_creator_fee = cq_enable_creator_fee p,
      cp_base_transfer_fee = to_router (cq_base_transfer_fee p),
      cp_quote_transfer_fee = to_router (cq_quote_transfer_fee p)\<rparr>"

definition pumpfun_from_params ::
  "trade_sdk \<Rightarrow> pumpfun_params \<Rightarrow> pubkey \<Rightarrow> pubkey \<Rightarrow> sdk_error + pumpfun_pool" where
  "pumpfun_from_params X p mint usr =
     (let bc = pq_bonding_curve p;
          quote_mint = quote_or_wsol X
            (if pq_quote_mint p = 0 then tx_effective_quote_mint X bc else pq_quote_mint p) in
      if mint = 0 then Err ''PumpFun mint is default''
      else if bc_account bc = 0 then Err ''PumpFunParams bonding_curve.account is default''
      else if bc_complete bc
      then Err ''completed PumpFun curves require migration/PumpFun V3 routing, unsupported by this adapter''
      else bind_r (ok_or (tx_resolve_creator_vault X (tx_effective_creator X p) (pq_creator_vault p) mint
          (pq_fee_sharing_creator_vault_if_active p)) ''PumpFun creator vault cannot be resolved'')
        (\<lambda>creator_vault.
      Ok \<lparr>pf_mint = mint,
        pf_mint_token_program = (if pq_token_program p = 0 then TOKEN_2022_PROGRAM else pq_token_program p),
        pf_quote_mint = quote_mint, pf_quote_token_program = TOKEN_PROGRAM,
        pf_use_v2 = (quote_mint \<noteq> WSOL_MINT), pf_bonding_curve = bc_account bc,
        pf_associated_bonding_curve = pq_associated_bonding_curve p, pf_creator_vault = creator_vault,
        pf_fee_recipient = pq_fee_recipient p, pf_buyback_fee_recipient = PUMPFUN_BUYBACK_FEE_RECIPIENT,
        pf_global = PUMPFUN_GLOBAL, pf_event_authority = PUMPFUN_EVENT_AUTHORITY,
        pf_global_volume_accumulator = PUMPFUN_GLOBAL_VOLUME_ACCUMULATOR,
        pf_user_volume_accumulator = unwrap_or (tx_user_volume_accumulator_pda X usr) 0,
        pf_fee_config = PUMPFUN_FEE_CONFIG, pf_fee_program = PUMPFUN_FEE_PROGRAM,
        pf_bonding_curve_v2 = unwrap_or (tx_bonding_curve_v2_pda X mint) 0,
        pf_protocol_fee_recipient = pq_fee_recipient p,
        pf_virtual_token_reserves = bc_virtual_token_reserves bc,
        pf_virtual_sol_reserves = bc_virtual_sol_reserves bc,
        pf_real_token_reserves = bc_real_token_reserves bc, pf_protocol_fee_bps = 0, pf_creator_fee_bps = 0,
        pf_fee_rates_known = False, pf_has_creator = (tx_effective_creator X p \<noteq> 0),
        pf_is_cashback_coin = bc_is_cashback_coin bc\<rparr>))"

definition pumpswap_from_params :: "trade_sdk \<Rightarrow> pumpswap_params \<Rightarrow> pumpswap_pool" where
  "pumpswap_from_params X p =
     \<lparr>ps_pool = pp_pool p, ps_base_mint = pp_base_mint p, ps_quote_mint = pp_quote_mint p,
      ps_pool_base_token_account = pp_pool_base_token_account p,
      ps_pool_quote_token_account = pp_pool_quote_token_account p,
      ps_base_token_program = pp_base_token_program p, ps_quote_token_program = pp_quote_token_program p,
      ps_coin_creator_vault_ata = pp_coin_creator_vault_ata p,
      ps_coin_creator_vault_authority = pp_coin_creator_vault_authority p,
      ps_coin_creator = pp_coin_creator p, ps_base_reserve = pp_pool_base_token_reserves p,
      ps_quote_reserve = pp_pool_quote_token_reserves p,
      ps_virtual_quote_reserves = pp_virtual_quote_reserves p, ps_quote_fee_reserves = None,
      ps_lp_fee_bps = pp_lp_fee_basis_points p, ps_protocol_fee_bps = pp_protocol_fee_basis_points p,
      ps_creator_fee_bps = pp_coin_creator_fee_basis_points p, ps_is_cashback_coin = pp_is_cashback_coin p,
      ps_protocol_fee_recipient = unwrap_or (pp_protocol_fee_recipient_override p)
        (if pp_is_mayhem_mode p then tx_mayhem_fee_recipient X else tx_protocol_fee_recipient X),
      ps_buyback_fee_recipient =
        unwrap_or (pp_protocol_extra_fee_recipient_override p) PUMPFUN_BUYBACK_FEE_RECIPIENT\<rparr>"

definition raydium_amm_v4_from_params :: "amm_v4_params \<Rightarrow> raydium_amm_v4_pool" where
  "raydium_amm_v4_from_params p =
     \<lparr>rv_amm = rp_amm p, rv_coin_mint = rp_coin_mint p, rv_pc_mint = rp_pc_mint p,
      rv_token_coin = rp_token_coin p, rv_token_pc = rp_token_pc p, rv_token_program = TOKEN_PROGRAM,
      rv_amm_open_orders = rp_amm_open_orders p, rv_amm_target_orders = rp_amm_target_orders p,
      rv_serum_program = rp_serum_program p, rv_serum_market = rp_serum_market p,
      rv_serum_bids = rp_serum_bids p, rv_serum_asks = rp_serum_asks p,
      rv_serum_event_queue = rp_serum_event_queue p,
      rv_serum_coin_vault_account = rp_serum_coin_vault_account p,
      rv_serum_pc_vault_account = rp_serum_pc_vault_account p,
      rv_serum_vault_signer = rp_serum_vault_signer p, rv_coin_reserve = rp_coin_reserve p,
      rv_pc_reserve = rp_pc_reserve p, rv_trade_fee_numerator = 25,
      rv_swap_fee_numerator = rp_swap_fee_numerator p, rv_swap_fee_denominator = rp_swap_fee_denominator p\<rparr>"

definition damm_v2_from_params :: "damm_v2_params \<Rightarrow> meteora_damm_v2_pool" where
  "damm_v2_from_params p =
     \<lparr>dm_pool = dq_pool p, dm_token_a_vault = dq_token_a_vault p, dm_token_b_vault = dq_token_b_vault p,
      dm_token_a_mint = dq_token_a_mint p, dm_token_b_mint = dq_token_b_mint p,
      dm_token_a_program = token_program_or_spl (dq_token_a_program p),
      dm_token_b_program = token_program_or_spl (dq_token_b_program p), dm_token_a_reserve = 0,
      dm_token_b_reserve = 0, dm_fee_bps = 0, dm_quoted_amount_in = None, dm_quoted_input_mint = None,
      dm_expected_out = None, dm_swap_mode = METEORA_DAMM_V2_EXACT_IN,
      dm_referral_token_account = dq_referral_token_account p, dm_include_rate_limiter_sysvar = True\<rparr>"

definition raydium_clmm_from_params :: "clmm_params \<Rightarrow> raydium_clmm_pool" where
  "raydium_clmm_from_params p =
     \<lparr>cl_amm_config = cm_amm_config p, cl_pool_state = cm_pool_state p,
      cl_observation_state = cm_observation_state p, cl_token_0_mint = cm_token_0_mint p,
      cl_token_1_mint = cm_token_1_mint p, cl_token_0_vault = cm_token_0_vault p,
      cl_token_1_vault = cm_token_1_vault p,
      cl_token_0_program = token_program_or_spl (cm_token_0_program p),
      cl_token_1_program = token_program_or_spl (cm_token_1_program p), cl_tick_arrays = cm_tick_arrays p,
      cl_tick_array_bitmap_extension = cm_tick_array_bitmap_extension p, cl_quoted_amount_in = None,
      cl_quoted_input_mint = None, cl_expected_out = None, cl_fee_bps = 0\<rparr>"

definition whirlpool_from_params :: "whirlpool_params \<Rightarrow> whirlpool_pool" where
  "whirlpool_from_params p =
     \<lparr>wp_whirlpool = wq_whirlpool p, wp_mint_a = wq_mint_a p, wp_mint_b = wq_mint_b p,
      wp_vault_a = wq_vault_a p, wp_vault_b = wq_vault_b p,
      wp_token_program_a = token_program_or_spl (wq_token_program_a p),
      wp_token_program_b = token_program_or_spl (wq_token_program_b p), wp_tick_arrays = wq_tick_arrays p,
      wp_quoted_amount_in = None, wp_quoted_input_mint = None, wp_expected_out = None, wp_fee_bps = 0\<rparr>"

definition dlmm_from_params :: "dlmm_params \<Rightarrow> meteora_dlmm_pool" where
  "dlmm_from_params p =
     \<lparr>dl_lb_pair = lq_lb_pair p, dl_bitmap_extension = lq_bitmap_extension p, dl_reserve_x = lq_reserve_x p,
      dl_reserve_y = lq_reserve_y p, dl_token_x_mint = lq_token_x_mint p, dl_token_y_mint = lq_token_y_mint p,
      dl_token_x_program = token_program_or_spl (lq_token_x_program p),
      dl_token_y_program = token_program_or_spl (lq_token_y_program p), dl_oracle = lq_oracle p,
      dl_bin_arrays = lq_bin_arrays p, dl_quoted_amount_in = None, dl_quoted_input_mint = None,
      dl_expected_out = None, dl_fee_bps = 0\<rparr>"

section \<open>Any venue\<close>

definition via_sol_to_routed :: "trade_sdk \<Rightarrow> via_sol_params \<Rightarrow> pubkey \<Rightarrow> sdk_error + routed_market" where
  "via_sol_to_routed X via mint =
     bind_r (case vs_sol_hop via of
         HopRoute \<Rightarrow> Err ''multi-leg StonkFun funding routes cannot be represented by a single router bridge''
       | HopCpmm p \<Rightarrow> Ok (BridgeCpmm (cpmm_from_params p))
       | HopAmmV4 p \<Rightarrow> Ok (BridgeAmmV4 (raydium_amm_v4_from_params p))) (\<lambda>bridge.
     let m = (case vs_meme_leg via of
         MemeCurve p \<Rightarrow> LaunchLabInner (bonk_to_launchlab X p mint)
       | MemeGraduated p \<Rightarrow> CpmmOuter (cpmm_from_params p))
     in Ok (routed_with_bridge m bridge))"

fun to_routed_market_for_user ::
  "trade_sdk \<Rightarrow> dex_param \<Rightarrow> pubkey \<Rightarrow> pubkey \<Rightarrow> sdk_error + routed_market" where
  "to_routed_market_for_user X (ParamPumpFun p) mint usr =
     bind_r (pumpfun_from_params X p mint usr) (\<lambda>pool. Ok (routed_pumpfun pool))"
| "to_routed_market_for_user X (ParamPumpSwap p) mint usr = Ok (routed_pumpswap (pumpswap_from_params X p))"
| "to_routed_market_for_user X ParamPumpSwapAutoRoute mint usr =
     Err ''PumpSwapAutoRoute requires a fresh routing cache''"
| "to_routed_market_for_user X ParamPumpSwapQuoteRoute mint usr =
     Err ''PumpSwapQuoteRoute contains multiple pools; use explicit dynamic Router legs''"
| "to_routed_market_for_user X (ParamLaunchLab p) mint usr = Ok (stonk_inner (bonk_to_launchlab X p mint) None)"
| "to_routed_market_for_user X (ParamBonk p) mint usr = Ok (stonk_inner (bonk_to_launchlab X p mint) None)"
| "to_routed_market_for_user X (ParamStonkFun p) mint usr = Ok (stonk_inner (bonk_to_launchlab X p mint) None)"
| "to_routed_market_for_user X (ParamStonkFunSwap p) mint usr = Ok (routed_new (CpmmOuter (cpmm_from_params p)))"
| "to_routed_market_for_user X (ParamRaydiumCpmm p) mint usr = Ok (routed_new (CpmmOuter (cpmm_from_params p)))"
| "to_routed_market_for_user X ParamStonkFunQuoteRoute mint usr =
     Err ''StonkFunQuoteRoute requires the trade-sdk route executor''"
| "to_routed_market_for_user X (ParamStonkFunViaSol via) mint usr = via_sol_to_routed X via mint"
| "to_routed_market_for_user X (ParamRaydiumAmmV4 p) mint usr =
     Ok (routed_raydium_amm_v4 (raydium_amm_v4_from_params p))"
| "to_routed_market_for_user X (ParamMeteoraDammV2 p) mint usr =
     Ok (routed_meteora_damm_v2 (damm_v2_from_params p))"
| "to_routed_market_for_user X (ParamRaydiumClmm p) mint usr =
     Ok (routed_raydium_clmm (raydium_clmm_from_params p))"
| "to_routed_market_for_user X (ParamOrcaWhirlpool p) mint usr =
     Ok (routed_whirlpool (whirlpool_from_params p))"
| "to_routed_market_for_user X (ParamMeteoraDlmm p) mint usr = Ok (routed_meteora_dlmm (dlmm_from_params p))"
| "to_routed_market_for_user X ParamUnknown mint usr = Err ''Unsupported single-market conversion''"

definition to_routed_market :: "trade_sdk \<Rightarrow> dex_param \<Rightarrow> pubkey \<Rightarrow> sdk_error + routed_market" where
  "to_routed_market X params mint = to_routed_market_for_user X params mint 0"

end
