(* ===== verification/Sdk_Parser.thy ===== *)
theory Sdk_Parser
  imports Sdk_Pool_Guard
begin

text \<open>
  Market snapshots from parsed chain events: \<open>parser.rs\<close>. The events belong to
  \<open>sol_parser_sdk\<close>; an event here has the fields that the conversions read, with the width of the
  snapshot field they fill (a field that is cast has the width it is cast from, or 64 bits). The
  quote sentinel \<open>PUMPFUN_SOLSCAN_SOL_QUOTE_MINT\<close> of that crate is the parameter \<open>solscan\<close>.
\<close>

section \<open>Events\<close>

record pumpfun_trade_event =
  et_ix_name :: string
  et_mint :: pubkey
  et_quote_mint :: pubkey
  et_bonding_curve :: pubkey
  et_associated_bonding_curve :: pubkey
  et_creator_vault :: pubkey
  et_fee_recipient :: pubkey
  et_token_program :: pubkey
  et_quote_token_program :: pubkey
  et_buyback_fee_recipient :: pubkey
  et_global :: pubkey
  et_event_authority :: pubkey
  et_global_volume_accumulator :: pubkey
  et_user_volume_accumulator :: pubkey
  et_fee_config :: pubkey
  et_fee_program :: pubkey
  et_bonding_curve_v2 :: pubkey
  et_creator :: pubkey
  et_virtual_token_reserves :: u64
  et_virtual_sol_reserves :: u64
  et_virtual_quote_reserves :: u64
  et_real_token_reserves :: u64
  et_fee_basis_points :: u64
  et_creator_fee_basis_points :: u64
  et_cashback_fee_basis_points :: u64
  et_is_cashback_coin :: bool

text \<open>Buys and sells of PumpSwap are two types with the same fields.\<close>

record pumpswap_event =
  es_pool :: pubkey
  es_base_mint :: pubkey
  es_quote_mint :: pubkey
  es_pool_base_token_account :: pubkey
  es_pool_quote_token_account :: pubkey
  es_base_token_program :: pubkey
  es_quote_token_program :: pubkey
  es_coin_creator_vault_ata :: pubkey
  es_coin_creator_vault_authority :: pubkey
  es_coin_creator :: pubkey
  es_pool_base_token_reserves :: u64
  es_pool_quote_token_reserves :: u64
  es_virtual_quote_reserves :: i128
  es_lp_fee_basis_points :: u64
  es_protocol_fee_basis_points :: u64
  es_coin_creator_fee_basis_points :: u64
  es_cashback_fee_basis_points :: u64
  es_protocol_fee_recipient :: pubkey
  es_fee_recipient :: pubkey

record launchlab_trade_event =
  el_pool_state :: pubkey
  el_base_mint :: pubkey
  el_quote_mint :: pubkey
  el_base_token_program :: pubkey
  el_quote_token_program :: pubkey
  el_base_vault :: pubkey
  el_quote_vault :: pubkey
  el_platform_config :: pubkey
  el_platform_associated_account :: pubkey
  el_creator_associated_account :: pubkey
  el_global_config :: pubkey
  el_virtual_base :: u64
  el_virtual_quote :: u64
  el_real_base_after :: u64
  el_real_quote_after :: u64
  el_total_base_sell :: u64

record cpmm_state_event =
  ec_pubkey :: pubkey
  ec_amm_config :: pubkey
  ec_observation_key :: pubkey
  ec_token_0_mint :: pubkey
  ec_token_1_mint :: pubkey
  ec_token_0_vault :: pubkey
  ec_token_1_vault :: pubkey
  ec_token_0_program :: pubkey
  ec_token_1_program :: pubkey

record clmm_swap_event =
  em_pool_state :: pubkey
  em_amm_config :: pubkey
  em_observation_state :: pubkey
  em_zero_for_one :: bool
  em_input_mint :: pubkey
  em_output_mint :: pubkey
  em_input_vault :: pubkey
  em_output_vault :: pubkey
  em_amount_0 :: u64
  em_amount_1 :: u64
  em_transfer_fee_0 :: u64
  em_transfer_fee_1 :: u64
  em_tick_arrays :: "pubkey list"
  em_tick_array_bitmap_extension :: "pubkey option"

record clmm_state_event =
  en_pubkey :: pubkey
  en_amm_config :: pubkey
  en_observation_key :: pubkey
  en_token_mint_0 :: pubkey
  en_token_mint_1 :: pubkey
  en_token_vault_0 :: pubkey
  en_token_vault_1 :: pubkey

record whirlpool_swap_event =
  ew_whirlpool :: pubkey
  ew_token_mint_a :: pubkey
  ew_token_mint_b :: pubkey
  ew_token_vault_a :: pubkey
  ew_token_vault_b :: pubkey
  ew_token_program_a :: pubkey
  ew_token_program_b :: pubkey
  ew_tick_array_0 :: pubkey
  ew_tick_array_1 :: pubkey
  ew_tick_array_2 :: pubkey
  ew_input_amount :: u64

record whirlpool_account_event =
  ev_pubkey :: pubkey
  ev_token_mint_a :: pubkey
  ev_token_mint_b :: pubkey
  ev_token_vault_a :: pubkey
  ev_token_vault_b :: pubkey
  ev_fee_rate :: u64

record dlmm_swap_event =
  ed_pool :: pubkey
  ed_bitmap_extension :: "pubkey option"
  ed_reserve_x :: pubkey
  ed_reserve_y :: pubkey
  ed_token_x_mint :: pubkey
  ed_token_y_mint :: pubkey
  ed_token_x_program :: pubkey
  ed_token_y_program :: pubkey
  ed_oracle :: pubkey
  ed_bin_arrays :: "pubkey list"
  ed_amount_in :: u64
  ed_fee_bps :: u128

record damm_v2_swap_event =
  ea_pool :: pubkey
  ea_token_a_vault :: pubkey
  ea_token_b_vault :: pubkey
  ea_token_a_mint :: pubkey
  ea_token_b_mint :: pubkey
  ea_token_a_program :: pubkey
  ea_token_b_program :: pubkey
  ea_reserve_a_amount :: u64
  ea_reserve_b_amount :: u64
  ea_amount_in :: u64
  ea_referral_token_account :: "pubkey option"

record amm_v4_swap_event =
  ex_amm :: pubkey
  ex_pool_coin_token_account :: pubkey
  ex_pool_pc_token_account :: pubkey
  ex_token_program :: pubkey
  ex_amm_open_orders :: pubkey
  ex_amm_target_orders :: "pubkey option"
  ex_serum_program :: pubkey
  ex_serum_market :: pubkey
  ex_serum_bids :: pubkey
  ex_serum_asks :: pubkey
  ex_serum_event_queue :: pubkey
  ex_serum_coin_vault_account :: pubkey
  ex_serum_pc_vault_account :: pubkey
  ex_serum_vault_signer :: pubkey

datatype dex_event =
    EvPumpFunTrade pumpfun_trade_event
  | EvPumpFunBuy pumpfun_trade_event
  | EvPumpFunSell pumpfun_trade_event
  | EvPumpFunBuyExactSolIn pumpfun_trade_event
  | EvPumpSwapBuy pumpswap_event
  | EvPumpSwapSell pumpswap_event
  | EvLaunchlabTrade launchlab_trade_event
  | EvCpmmSwap
  | EvCpmmState cpmm_state_event
  | EvClmmSwap clmm_swap_event
  | EvClmmState clmm_state_event
  | EvWhirlpoolSwap whirlpool_swap_event
  | EvWhirlpoolAccount whirlpool_account_event
  | EvDlmmSwap dlmm_swap_event
  | EvDammV2Swap damm_v2_swap_event
  | EvAmmV4Swap amm_v4_swap_event
  | EvOther

section \<open>Helpers\<close>

definition or_default :: "pubkey \<Rightarrow> pubkey \<Rightarrow> pubkey" where
  "or_default pk fallback = (if pk = 0 then fallback else pk)"

definition tp_or_spl :: "pubkey \<Rightarrow> pubkey" where
  "tp_or_spl pk = or_default pk TOKEN_PROGRAM"

definition known_mint_token_program :: "pubkey \<Rightarrow> pubkey" where
  "known_mint_token_program mint =
     (if mint = WSOL_MINT \<or> mint = USDC_MINT \<or> mint = USDT_MINT then TOKEN_PROGRAM else 0)"

definition ends_with :: "string \<Rightarrow> string \<Rightarrow> bool" where
  "ends_with s suf = (length suf \<le> length s \<and> drop (length s - length suf) s = suf)"

text \<open>\<open>Some(x).filter(|&a| a > 0)\<close>\<close>

definition if_positive :: "u64 \<Rightarrow> u64 option" where
  "if_positive x = (if x > 0 then Some x else None)"

text \<open>The instruction names of the curve, version 1 and 2.\<close>

definition v1_names :: "string list" where
  "v1_names = [''buy'', ''sell'', ''buy_exact_sol_in'']"

definition v2_names :: "string list" where
  "v2_names = [''buy_v2'', ''sell_v2'', ''buy_exact_quote_in_v2'']"

section \<open>Pump.fun and PumpSwap\<close>

definition pumpfun_from_trade :: "pubkey \<Rightarrow> pumpfun_trade_event \<Rightarrow> pumpfun_pool" where
  "pumpfun_from_trade solscan e =
     (let quote_mint = (if et_quote_mint e = solscan then WSOL_MINT else et_quote_mint e);
          use_v2 = (et_ix_name e \<in> set v2_names \<or> quote_mint \<noteq> WSOL_MINT);
          virtual_sol = (if et_virtual_quote_reserves e \<noteq> 0 then et_virtual_quote_reserves e
            else et_virtual_sol_reserves e) in
      \<lparr>pf_mint = et_mint e, pf_mint_token_program = et_token_program e, pf_quote_mint = quote_mint,
       pf_quote_token_program =
         (if et_ix_name e \<in> set v1_names \<and> quote_mint = WSOL_MINT
          then tp_or_spl (et_quote_token_program e) else et_quote_token_program e),
       pf_use_v2 = use_v2, pf_bonding_curve = et_bonding_curve e,
       pf_associated_bonding_curve = et_associated_bonding_curve e,
       pf_creator_vault = et_creator_vault e, pf_fee_recipient = et_fee_recipient e,
       pf_buyback_fee_recipient = or_default (et_buyback_fee_recipient e) PUMPFUN_BUYBACK_FEE_RECIPIENT,
       pf_global = or_default (et_global e) PUMPFUN_GLOBAL,
       pf_event_authority = or_default (et_event_authority e) PUMPFUN_EVENT_AUTHORITY,
       pf_global_volume_accumulator =
         or_default (et_global_volume_accumulator e) PUMPFUN_GLOBAL_VOLUME_ACCUMULATOR,
       pf_user_volume_accumulator = et_user_volume_accumulator e,
       pf_fee_config = or_default (et_fee_config e) PUMPFUN_FEE_CONFIG,
       pf_fee_program = or_default (et_fee_program e) PUMPFUN_FEE_PROGRAM,
       pf_bonding_curve_v2 = et_bonding_curve_v2 e, pf_protocol_fee_recipient = et_fee_recipient e,
       pf_virtual_token_reserves = et_virtual_token_reserves e, pf_virtual_sol_reserves = virtual_sol,
       pf_real_token_reserves = et_real_token_reserves e, pf_protocol_fee_bps = et_fee_basis_points e,
       pf_creator_fee_bps = et_creator_fee_basis_points e,
       pf_fee_rates_known = (et_ix_name e \<in> set (v1_names @ v2_names)),
       pf_has_creator = (et_creator e \<noteq> 0),
       pf_is_cashback_coin = (et_is_cashback_coin e \<or> et_cashback_fee_basis_points e > 0)\<rparr>)"

definition try_pumpfun_from_trade :: "pubkey \<Rightarrow> pumpfun_trade_event \<Rightarrow> pumpfun_pool option" where
  "try_pumpfun_from_trade solscan e =
     (if et_ix_name e \<notin> set (v1_names @ v2_names)
        \<or> 0 \<in> set [et_mint e, et_quote_mint e, et_bonding_curve e, et_associated_bonding_curve e,
            et_creator_vault e, et_fee_recipient e, et_token_program e]
        \<or> (ends_with (et_ix_name e) ''_v2'' \<and> et_quote_token_program e = 0)
      then None
      else let pool = pumpfun_from_trade solscan e in
        if pf_virtual_token_reserves pool > 0 \<and> pf_virtual_sol_reserves pool > 0 then Some pool else None)"

definition pumpswap_from_event :: "pumpswap_event \<Rightarrow> pumpswap_pool" where
  "pumpswap_from_event e =
     \<lparr>ps_pool = es_pool e, ps_base_mint = es_base_mint e, ps_quote_mint = es_quote_mint e,
      ps_pool_base_token_account = es_pool_base_token_account e,
      ps_pool_quote_token_account = es_pool_quote_token_account e,
      ps_base_token_program = es_base_token_program e, ps_quote_token_program = es_quote_token_program e,
      ps_coin_creator_vault_ata = es_coin_creator_vault_ata e,
      ps_coin_creator_vault_authority = es_coin_creator_vault_authority e,
      ps_coin_creator = es_coin_creator e, ps_base_reserve = es_pool_base_token_reserves e,
      ps_quote_reserve = es_pool_quote_token_reserves e,
      ps_virtual_quote_reserves = es_virtual_quote_reserves e, ps_quote_fee_reserves = None,
      ps_lp_fee_bps = es_lp_fee_basis_points e, ps_protocol_fee_bps = es_protocol_fee_basis_points e,
      ps_creator_fee_bps = sat_add (es_coin_creator_fee_basis_points e) (es_cashback_fee_basis_points e),
      ps_is_cashback_coin = (es_cashback_fee_basis_points e > 0),
      ps_protocol_fee_recipient = es_protocol_fee_recipient e,
      ps_buyback_fee_recipient = or_default (es_fee_recipient e) PUMPFUN_BUYBACK_FEE_RECIPIENT\<rparr>"

definition pumpswap_from_buy :: "pumpswap_event \<Rightarrow> pumpswap_pool" where
  "pumpswap_from_buy e = pumpswap_from_event e"

definition pumpswap_from_sell :: "pumpswap_event \<Rightarrow> pumpswap_pool" where
  "pumpswap_from_sell e = pumpswap_from_event e"

section \<open>LaunchLab and CPMM\<close>

definition launchlab_from_trade :: "'z pda_scheme \<Rightarrow> launchlab_trade_event \<Rightarrow> launchlab_pool option" where
  "launchlab_from_trade R e =
     (if el_pool_state e = 0 \<or> el_base_mint e = 0 then None
      else let platform_aa = (if el_platform_associated_account e = 0
          then unwrap_or (launchlab_platform_associated_account R (el_platform_config e) (el_quote_mint e)) 0
          else el_platform_associated_account e) in
       Some \<lparr>ll_base_mint = el_base_mint e, ll_quote_mint = or_default (el_quote_mint e) WSOL_MINT,
         ll_base_token_program = tp_or_spl (el_base_token_program e),
         ll_quote_token_program = tp_or_spl (el_quote_token_program e), ll_pool_state = el_pool_state e,
         ll_base_vault = el_base_vault e, ll_quote_vault = el_quote_vault e,
         ll_platform_config = el_platform_config e, ll_platform_associated_account = platform_aa,
         ll_creator_associated_account = el_creator_associated_account e,
         ll_global_config = el_global_config e, ll_virtual_base = widen (el_virtual_base e),
         ll_virtual_quote = widen (el_virtual_quote e), ll_real_base = widen (el_real_base_after e),
         ll_real_quote = widen (el_real_quote_after e), ll_total_base_sell = widen (el_total_base_sell e),
         ll_curve_type = 0, ll_fee_rates_known = False, ll_trade_fee_rate = 0, ll_platform_fee_rate = 0,
         ll_creator_fee_rate = 0, ll_base_transfer_fee = no_transfer_fee,
         ll_quote_transfer_fee = no_transfer_fee\<rparr>)"

text \<open>A CPMM swap names neither side of the pool: no snapshot.\<close>

definition cpmm_from_swap :: "cpmm_pool option" where
  "cpmm_from_swap = None"

definition cpmm_from_pool_state :: "cpmm_state_event \<Rightarrow> cpmm_pool" where
  "cpmm_from_pool_state e =
     \<lparr>cp_pool_state = ec_pubkey e, cp_amm_config = ec_amm_config e, cp_observation_state = ec_observation_key e,
      cp_base_mint = ec_token_0_mint e, cp_quote_mint = ec_token_1_mint e, cp_base_vault = ec_token_0_vault e,
      cp_quote_vault = ec_token_1_vault e, cp_base_token_program = ec_token_0_program e,
      cp_quote_token_program = ec_token_1_program e, cp_base_reserve = 0, cp_quote_reserve = 0,
      cp_fee_rates_known = False, cp_trade_fee_rate = 0, cp_creator_fee_rate = 0, cp_creator_fee_on = 0,
      cp_enable_creator_fee = False, cp_base_transfer_fee = no_transfer_fee,
      cp_quote_transfer_fee = no_transfer_fee\<rparr>"

section \<open>Concentrated liquidity\<close>

definition clmm_apply_token_programs :: "pubkey \<Rightarrow> pubkey \<Rightarrow> raydium_clmm_pool \<Rightarrow> raydium_clmm_pool" where
  "clmm_apply_token_programs p0 p1 p = p\<lparr>cl_token_0_program := p0, cl_token_1_program := p1\<rparr>"

definition clmm_amount_in :: "clmm_swap_event \<Rightarrow> u64" where
  "clmm_amount_in e = (if em_zero_for_one e then em_amount_0 e else em_amount_1 e)"

definition clmm_from_swap :: "clmm_swap_event \<Rightarrow> raydium_clmm_pool option" where
  "clmm_from_swap e =
     (if em_pool_state e = 0 \<or> em_tick_arrays e = [] then None
      else let (m0, m1, v0, v1) =
          (if em_zero_for_one e then (em_input_mint e, em_output_mint e, em_input_vault e, em_output_vault e)
           else (em_output_mint e, em_input_mint e, em_output_vault e, em_input_vault e));
        p0 = (if em_transfer_fee_0 e > 0 then TOKEN_2022_PROGRAM else known_mint_token_program m0);
        p1 = (if em_transfer_fee_1 e > 0 then TOKEN_2022_PROGRAM else known_mint_token_program m1) in
      Some \<lparr>cl_amm_config = em_amm_config e, cl_pool_state = em_pool_state e,
        cl_observation_state = em_observation_state e, cl_token_0_mint = m0, cl_token_1_mint = m1,
        cl_token_0_vault = v0, cl_token_1_vault = v1, cl_token_0_program = p0, cl_token_1_program = p1,
        cl_tick_arrays = em_tick_arrays e, cl_tick_array_bitmap_extension = em_tick_array_bitmap_extension e,
        cl_quoted_amount_in = if_positive (clmm_amount_in e), cl_quoted_input_mint = None,
        cl_expected_out = None, cl_fee_bps = 0\<rparr>)"

definition clmm_from_pool_state :: "clmm_state_event \<Rightarrow> raydium_clmm_pool" where
  "clmm_from_pool_state e =
     \<lparr>cl_amm_config = en_amm_config e, cl_pool_state = en_pubkey e, cl_observation_state = en_observation_key e,
      cl_token_0_mint = en_token_mint_0 e, cl_token_1_mint = en_token_mint_1 e,
      cl_token_0_vault = en_token_vault_0 e, cl_token_1_vault = en_token_vault_1 e,
      cl_token_0_program = known_mint_token_program (en_token_mint_0 e),
      cl_token_1_program = known_mint_token_program (en_token_mint_1 e), cl_tick_arrays = [],
      cl_tick_array_bitmap_extension = None, cl_quoted_amount_in = None, cl_quoted_input_mint = None,
      cl_expected_out = None, cl_fee_bps = 0\<rparr>"

definition whirlpool_ticks :: "whirlpool_swap_event \<Rightarrow> pubkey list" where
  "whirlpool_ticks e = [ew_tick_array_0 e, ew_tick_array_1 e, ew_tick_array_2 e]"

definition whirlpool_from_swap :: "whirlpool_swap_event \<Rightarrow> whirlpool_pool option" where
  "whirlpool_from_swap e =
     (if ew_whirlpool e = 0 \<or> list_ex (\<lambda>t. t = 0) (whirlpool_ticks e) then None
      else Some \<lparr>wp_whirlpool = ew_whirlpool e, wp_mint_a = ew_token_mint_a e, wp_mint_b = ew_token_mint_b e,
        wp_vault_a = ew_token_vault_a e, wp_vault_b = ew_token_vault_b e,
        wp_token_program_a = ew_token_program_a e, wp_token_program_b = ew_token_program_b e,
        wp_tick_arrays = whirlpool_ticks e, wp_quoted_amount_in = if_positive (ew_input_amount e),
        wp_quoted_input_mint = None, wp_expected_out = None, wp_fee_bps = 0\<rparr>)"

definition whirlpool_from_account :: "whirlpool_account_event \<Rightarrow> whirlpool_pool" where
  "whirlpool_from_account e =
     \<lparr>wp_whirlpool = ev_pubkey e, wp_mint_a = ev_token_mint_a e, wp_mint_b = ev_token_mint_b e,
      wp_vault_a = ev_token_vault_a e, wp_vault_b = ev_token_vault_b e,
      wp_token_program_a = known_mint_token_program (ev_token_mint_a e),
      wp_token_program_b = known_mint_token_program (ev_token_mint_b e), wp_tick_arrays = [],
      wp_quoted_amount_in = None, wp_quoted_input_mint = None, wp_expected_out = None,
      wp_fee_bps = ucast (ev_fee_rate e div 100)\<rparr>"

text \<open>A side that the event leaves out keeps its cached value.\<close>

definition merge_whirlpool_swap :: "whirlpool_swap_event \<Rightarrow> whirlpool_pool \<Rightarrow> whirlpool_pool" where
  "merge_whirlpool_swap e p =
     (if ew_whirlpool e = 0 \<or> ew_whirlpool e \<noteq> wp_whirlpool p then p
      else p\<lparr>wp_tick_arrays := (if list_all (\<lambda>k. k \<noteq> 0) (whirlpool_ticks e) then whirlpool_ticks e
               else wp_tick_arrays p),
             wp_vault_a := or_default (ew_token_vault_a e) (wp_vault_a p),
             wp_vault_b := or_default (ew_token_vault_b e) (wp_vault_b p),
             wp_mint_a := or_default (ew_token_mint_a e) (wp_mint_a p),
             wp_mint_b := or_default (ew_token_mint_b e) (wp_mint_b p),
             wp_token_program_a := or_default (ew_token_program_a e) (wp_token_program_a p),
             wp_token_program_b := or_default (ew_token_program_b e) (wp_token_program_b p),
             wp_expected_out := None, wp_quoted_input_mint := None,
             wp_quoted_amount_in := (if ew_input_amount e > 0 then Some (ew_input_amount e)
               else wp_quoted_amount_in p)\<rparr>)"

definition merge_clmm_swap :: "clmm_swap_event \<Rightarrow> raydium_clmm_pool \<Rightarrow> raydium_clmm_pool" where
  "merge_clmm_swap e p =
     (if em_pool_state e = 0 \<or> em_pool_state e \<noteq> cl_pool_state p then p
      else p\<lparr>cl_tick_arrays := (if em_tick_arrays e \<noteq> [] then em_tick_arrays e else cl_tick_arrays p),
             cl_tick_array_bitmap_extension := (case em_tick_array_bitmap_extension e of
                 Some k \<Rightarrow> Some k | None \<Rightarrow> cl_tick_array_bitmap_extension p),
             cl_amm_config := or_default (em_amm_config e) (cl_amm_config p),
             cl_observation_state := or_default (em_observation_state e) (cl_observation_state p),
             cl_expected_out := None, cl_quoted_input_mint := None,
             cl_quoted_amount_in := (if clmm_amount_in e > 0 then Some (clmm_amount_in e)
               else cl_quoted_amount_in p)\<rparr>)"

section \<open>Meteora and AMM V4\<close>

definition dlmm_from_swap :: "dlmm_swap_event \<Rightarrow> meteora_dlmm_pool option" where
  "dlmm_from_swap e =
     (if ed_pool e = 0 \<or> ed_bin_arrays e = [] then None
      else Some \<lparr>dl_lb_pair = ed_pool e, dl_bitmap_extension = ed_bitmap_extension e,
        dl_reserve_x = ed_reserve_x e, dl_reserve_y = ed_reserve_y e, dl_token_x_mint = ed_token_x_mint e,
        dl_token_y_mint = ed_token_y_mint e, dl_token_x_program = tp_or_spl (ed_token_x_program e),
        dl_token_y_program = tp_or_spl (ed_token_y_program e), dl_oracle = ed_oracle e,
        dl_bin_arrays = ed_bin_arrays e, dl_quoted_amount_in = if_positive (ed_amount_in e),
        dl_quoted_input_mint = None, dl_expected_out = None, dl_fee_bps = ucast (min (ed_fee_bps e) 65535)\<rparr>)"

definition damm_v2_from_swap :: "damm_v2_swap_event \<Rightarrow> meteora_damm_v2_pool option" where
  "damm_v2_from_swap e =
     (if ea_pool e = 0 \<or> ea_token_a_mint e = 0 then None
      else Some \<lparr>dm_pool = ea_pool e, dm_token_a_vault = ea_token_a_vault e,
        dm_token_b_vault = ea_token_b_vault e, dm_token_a_mint = ea_token_a_mint e,
        dm_token_b_mint = ea_token_b_mint e, dm_token_a_program = tp_or_spl (ea_token_a_program e),
        dm_token_b_program = tp_or_spl (ea_token_b_program e), dm_token_a_reserve = ea_reserve_a_amount e,
        dm_token_b_reserve = ea_reserve_b_amount e, dm_fee_bps = 0,
        dm_quoted_amount_in = if_positive (ea_amount_in e), dm_quoted_input_mint = None,
        dm_expected_out = None, dm_swap_mode = METEORA_DAMM_V2_EXACT_IN,
        dm_referral_token_account = ea_referral_token_account e, dm_include_rate_limiter_sysvar = True\<rparr>)"

definition amm_v4_from_swap :: "amm_v4_swap_event \<Rightarrow> raydium_amm_v4_pool option" where
  "amm_v4_from_swap e =
     (if ex_amm e = 0 \<or> ex_pool_coin_token_account e = 0 then None
      else Some \<lparr>rv_amm = ex_amm e, rv_coin_mint = 0, rv_pc_mint = 0,
        rv_token_coin = ex_pool_coin_token_account e, rv_token_pc = ex_pool_pc_token_account e,
        rv_token_program = tp_or_spl (ex_token_program e), rv_amm_open_orders = ex_amm_open_orders e,
        rv_amm_target_orders = unwrap_or (ex_amm_target_orders e) 0, rv_serum_program = ex_serum_program e,
        rv_serum_market = ex_serum_market e, rv_serum_bids = ex_serum_bids e, rv_serum_asks = ex_serum_asks e,
        rv_serum_event_queue = ex_serum_event_queue e,
        rv_serum_coin_vault_account = ex_serum_coin_vault_account e,
        rv_serum_pc_vault_account = ex_serum_pc_vault_account e,
        rv_serum_vault_signer = ex_serum_vault_signer e, rv_coin_reserve = 0, rv_pc_reserve = 0,
        rv_trade_fee_numerator = 25, rv_swap_fee_numerator = 25, rv_swap_fee_denominator = 10000\<rparr>)"

section \<open>Any event\<close>

fun market_from_dex_event :: "'z pda_scheme \<Rightarrow> pubkey \<Rightarrow> dex_event \<Rightarrow> market option" where
  "market_from_dex_event R solscan (EvPumpFunTrade e) = map_option PumpFunInner (try_pumpfun_from_trade solscan e)"
| "market_from_dex_event R solscan (EvPumpFunBuy e) = map_option PumpFunInner (try_pumpfun_from_trade solscan e)"
| "market_from_dex_event R solscan (EvPumpFunSell e) = map_option PumpFunInner (try_pumpfun_from_trade solscan e)"
| "market_from_dex_event R solscan (EvPumpFunBuyExactSolIn e) =
     map_option PumpFunInner (try_pumpfun_from_trade solscan e)"
| "market_from_dex_event R solscan (EvPumpSwapBuy e) = Some (PumpSwapOuter (pumpswap_from_buy e))"
| "market_from_dex_event R solscan (EvPumpSwapSell e) = Some (PumpSwapOuter (pumpswap_from_sell e))"
| "market_from_dex_event R solscan (EvLaunchlabTrade e) = map_option LaunchLabInner (launchlab_from_trade R e)"
| "market_from_dex_event R solscan EvCpmmSwap = map_option CpmmOuter cpmm_from_swap"
| "market_from_dex_event R solscan (EvCpmmState e) = Some (CpmmOuter (cpmm_from_pool_state e))"
| "market_from_dex_event R solscan (EvClmmSwap e) = map_option RaydiumClmm (clmm_from_swap e)"
| "market_from_dex_event R solscan (EvClmmState e) = Some (RaydiumClmm (clmm_from_pool_state e))"
| "market_from_dex_event R solscan (EvWhirlpoolSwap e) = map_option Whirlpool (whirlpool_from_swap e)"
| "market_from_dex_event R solscan (EvWhirlpoolAccount e) = Some (Whirlpool (whirlpool_from_account e))"
| "market_from_dex_event R solscan (EvDlmmSwap e) = map_option MeteoraDlmm (dlmm_from_swap e)"
| "market_from_dex_event R solscan (EvDammV2Swap e) = map_option MeteoraDammV2 (damm_v2_from_swap e)"
| "market_from_dex_event R solscan (EvAmmV4Swap e) = map_option RaydiumAmmV4 (amm_v4_from_swap e)"
| "market_from_dex_event R solscan EvOther = None"

definition market_from_dex_event_checked ::
  "'z pda_scheme \<Rightarrow> pubkey \<Rightarrow> dex_event \<Rightarrow> pool_guard_policy \<Rightarrow> market option" where
  "market_from_dex_event_checked R solscan e policy =
     (case market_from_dex_event R solscan e of
        None \<Rightarrow> None
      | Some m \<Rightarrow> (case assert_market_ok R m policy of Inr _ \<Rightarrow> Some m | Inl _ \<Rightarrow> None))"

end
