(* ===== verification/Sdk_Curve_State.thy ===== *)
theory Sdk_Curve_State
  imports Sdk_Parser Sdk_Pumpfun_V3
begin

text \<open>
  Fresh Pump.fun state from account bytes: \<open>adapter/pumpfun_state.rs\<close>. The RPC node is a function from
  the requested keys to its answer. The fee schedule codec of the direct-trade SDK is the record
  \<open>fee_codec\<close>, over an unread type of tiers. The code updates the pool in place; every caller drops
  the pool with the error, so an update here is an error or the updated pool.
\<close>

section \<open>Readers\<close>

definition curve_u64_at :: "bytes \<Rightarrow> nat \<Rightarrow> sdk_error + u64" where
  "curve_u64_at d off = bind_r (ok_or (get_range d off (off + 8)) ''truncated PumpFun account'') (\<lambda>b. Ok (u64_of b))"

definition curve_key_at :: "bytes \<Rightarrow> nat \<Rightarrow> sdk_error + pubkey" where
  "curve_key_at d off = bind_r (ok_or (get_range d off (off + 32)) ''truncated PumpFun key'') (\<lambda>b. Ok (key_of b))"

fun sequence_r :: "('e + 'a) list \<Rightarrow> 'e + 'a list" where
  "sequence_r [] = Ok []"
| "sequence_r (x # xs) = bind_r x (\<lambda>y. bind_r (sequence_r xs) (\<lambda>ys. Ok (y # ys)))"

definition choose_recipient :: "bytes \<Rightarrow> nat \<Rightarrow> nat \<Rightarrow> pubkey \<Rightarrow> sdk_error + pubkey" where
  "choose_recipient d first others current =
     bind_r (sequence_r (curve_key_at d first # map (\<lambda>i. curve_key_at d (others + i * 32)) [0..<7])) (\<lambda>keys.
       if current \<noteq> 0 \<and> current \<in> set keys then Ok current
       else ok_or (List.find (\<lambda>k. k \<noteq> 0) keys) ''PumpFun Global has no valid fee recipient'')"

section \<open>Mints\<close>

definition inert_extensions :: "u16 list" where
  "inert_extensions = [3, 10, 18, 19, 20, 21, 22, 23]"

text \<open>The walk over the extensions of a Token-2022 mint: kind, length, value.\<close>

function mint_extensions :: "bytes \<Rightarrow> nat \<Rightarrow> sdk_error + unit" where
  "mint_extensions d off =
     (if off + 4 \<le> length d then
        let kind = u16_of (slice off (off + 2) d); len = unat (u16_of (slice (off + 2) (off + 4) d));
            stop = off + (4 + len) in
        if kind = 0 then Ok ()
        else if stop > length d then Err ''malformed Token-2022 mint extensions''
        else if kind = 14 then
          if len \<noteq> 64 then Err ''malformed Token-2022 TransferHook extension''
          else if list_ex (\<lambda>b. b \<noteq> 0) (slice (off + 36) stop d)
          then Err ''active PumpFun transfer hook requires unsupported extra accounts''
          else mint_extensions d stop
        else if kind \<notin> set inert_extensions then Err ''PumpFun mint extension requires unsupported handling''
        else mint_extensions d stop
      else Ok ())"
  by pat_completeness auto
termination by (relation "measure (\<lambda>(d, off). length d - off)") auto

declare mint_extensions.simps [simp del]

definition mint_program :: "account_state \<Rightarrow> sdk_error + pubkey" where
  "mint_program a =
     (let d = acc_data a in
      if owner a \<noteq> TOKEN_PROGRAM \<and> owner a \<noteq> TOKEN_2022_PROGRAM then Err ''mint has an unsupported owner''
      else if length d < 82 \<or> get_at d 45 \<noteq> Some 1 then Err ''invalid or uninitialized mint''
      else if owner a = TOKEN_2022_PROGRAM \<and> length d > 82 then
        if get_at d 165 \<noteq> Some 1 then Err ''invalid Token-2022 mint account type''
        else bind_r (mint_extensions d 166) (\<lambda>_. Ok (owner a))
      else Ok (owner a))"

section \<open>Refresh\<close>

record fee_points =
  fp_lp :: u64
  fp_protocol :: u64
  fp_creator :: u64

record 't fee_config =
  fc_stable_fee_tiers :: "'t list"
  fc_fee_tiers :: "'t list"
  fc_exotic_flat_fees :: fee_points
  fc_flat_fees :: fee_points

record 't fee_codec =
  fd_decode_fee_config :: "bytes \<Rightarrow> 't fee_config option"
  fd_calculate_fee_tier :: "'t list \<Rightarrow> u128 \<Rightarrow> fee_points option"

definition CURVE_STATE_DISCRIMINATOR :: bytes where
  "CURVE_STATE_DISCRIMINATOR = [23, 183, 248, 55, 96, 216, 172, 96]"
definition GLOBAL_DISCRIMINATOR :: bytes where
  "GLOBAL_DISCRIMINATOR = [167, 232, 232, 177, 200, 108, 114, 127]"
definition NATIVE_2022_MINT :: pubkey where
  "NATIVE_2022_MINT = pubkey58 ''9pan9bMn5HatX4EJdBwg9VgCa7Uz5HL8N1m5D3NdXejP''"

definition stored_quote_mint :: "bytes \<Rightarrow> sdk_error + pubkey" where
  "stored_quote_mint d =
     bind_r (if length d \<ge> 115 then curve_key_at d 83 else Ok 0) (\<lambda>stored.
       Ok (if stored = 0 then WSOL_MINT else stored))"

definition current_fees ::
  "'t fee_codec \<Rightarrow> pubkey \<Rightarrow> u64 \<Rightarrow> u64 \<Rightarrow> u64 \<Rightarrow> account_state option \<Rightarrow> bytes \<Rightarrow> sdk_error + fee_points" where
  "current_fees F quote_mint supply base_reserve quote_reserve config global =
     (case config of
        Some c \<Rightarrow>
          if owner c \<noteq> PUMPFUN_FEE_PROGRAM then Err ''invalid PumpFun FeeConfig owner''
          else bind_r (ok_or (fd_decode_fee_config F (acc_data c)) ''invalid PumpFun FeeConfig'') (\<lambda>fc.
            if quote_mint = WSOL_MINT \<or> quote_mint = USDC_MINT then
              let tiers = (if quote_mint = USDC_MINT \<and> fc_stable_fee_tiers fc \<noteq> []
                then fc_stable_fee_tiers fc else fc_fee_tiers fc)
              in ok_or (fd_calculate_fee_tier F tiers
                   (widen supply * widen quote_reserve div widen base_reserve)) ''empty PumpFun fee schedule''
            else if fc_exotic_flat_fees fc = \<lparr>fp_lp = 0, fp_protocol = 0, fp_creator = 0\<rparr>
            then Ok (fc_flat_fees fc) else Ok (fc_exotic_flat_fees fc))
      | None \<Rightarrow>
          bind_r (curve_u64_at global 105) (\<lambda>protocol. bind_r (curve_u64_at global 154) (\<lambda>creator.
            Ok \<lparr>fp_lp = 0, fp_protocol = protocol, fp_creator = creator\<rparr>)))"

text \<open>The checks of \<open>apply_inner\<close> up to the mints.\<close>

definition curve_checks ::
  "pumpfun_pool \<Rightarrow> account_state \<Rightarrow> account_state \<Rightarrow> bool \<Rightarrow> bool \<Rightarrow> sdk_error + unit" where
  "curve_checks p curve global has_config v3 =
     (let d = acc_data curve in
      if v3 \<and> (\<not> has_config \<or> get_at d 82 = Some 1)
      then Err ''Pump V3 requires FeeConfig and does not support cashback''
      else if owner curve \<noteq> PUMPFUN_PROGRAM \<or> owner global \<noteq> PUMPFUN_PROGRAM
        \<or> get_range d 0 8 \<noteq> Some CURVE_STATE_DISCRIMINATOR
        \<or> get_range (acc_data global) 0 8 \<noteq> Some GLOBAL_DISCRIMINATOR
      then Err ''invalid PumpFun curve/Global owner or discriminator''
      else if get_at d 48 \<noteq> Some 0 \<or> (\<not> v3 \<and> get_at d 141 \<noteq> None \<and> get_at d 141 \<noteq> Some 0)
      then Err ''completed Pump curves must migrate; nested curves require the explicit V3 API''
      else bind_r (stored_quote_mint d) (\<lambda>q.
        if q \<noteq> pf_quote_mint p then Err ''PumpFun quote mint changed during snapshot refresh'' else Ok ()))"

definition apply_inner ::
  "'z pda_scheme \<Rightarrow> 't fee_codec \<Rightarrow> pumpfun_pool \<Rightarrow> account_state \<Rightarrow> account_state \<Rightarrow> account_state option
    \<Rightarrow> account_state \<Rightarrow> account_state \<Rightarrow> bool \<Rightarrow> sdk_error + pumpfun_pool" where
  "apply_inner R F p curve global config mint quote v3 =
     (let d = acc_data curve; g = acc_data global in
      bind_r (curve_checks p curve global (config \<noteq> None) v3) (\<lambda>_.
      bind_r (mint_program mint) (\<lambda>base_program.
      bind_r (mint_program quote) (\<lambda>quote_program.
      if pf_quote_mint p = NATIVE_2022_MINT
      then Err ''Token-2022 native quote mint is unsupported by PumpFun builders''
      else bind_r (curve_u64_at d 8) (\<lambda>base_reserve.
      bind_r (curve_u64_at d 16) (\<lambda>quote_reserve.
      if base_reserve = 0 \<or> quote_reserve = 0 then Err ''empty PumpFun virtual reserves''
      else bind_r (curve_key_at d 49) (\<lambda>creator.
      let mayhem = (get_at d 81 = Some 1) in
      bind_r (if mayhem then curve_u64_at (acc_data mint) 36 else Ok 1000000000000000) (\<lambda>supply.
      bind_r (current_fees F (pf_quote_mint p) supply base_reserve quote_reserve config g) (\<lambda>fees.
      bind_r (if get_at g 1045 = Some 1 \<and> length d \<ge> 123 then curve_u64_at d 115 else Ok 0)
        (\<lambda>override_creator.
      bind_r (curve_u64_at d 24) (\<lambda>real_token.
      bind_r (if mayhem then choose_recipient g 483 516 (pf_fee_recipient p)
              else choose_recipient g 41 162 (pf_fee_recipient p)) (\<lambda>recipient.
      bind_r (choose_recipient g 741 773 (pf_buyback_fee_recipient p)) (\<lambda>buyback.
        Ok (p\<lparr>pf_protocol_fee_bps := fp_protocol fees,
          pf_creator_fee_bps := (if creator = 0 then 0
            else if override_creator \<noteq> 0 then override_creator else fp_creator fees),
          pf_has_creator := (creator \<noteq> 0),
          pf_is_cashback_coin := (get_at d 82 = Some 1),
          pf_virtual_token_reserves := base_reserve,
          pf_virtual_sol_reserves := quote_reserve,
          pf_real_token_reserves := real_token,
          pf_mint_token_program := base_program,
          pf_quote_token_program := quote_program,
          pf_associated_bonding_curve := ata R (pf_bonding_curve p) (pf_mint p) base_program,
          pf_fee_recipient := recipient,
          pf_buyback_fee_recipient := buyback,
          pf_fee_rates_known := True\<rparr>))))))))))))))"

definition apply_curve ::
  "'z pda_scheme \<Rightarrow> 't fee_codec \<Rightarrow> pumpfun_pool \<Rightarrow> account_state \<Rightarrow> account_state \<Rightarrow> account_state option
    \<Rightarrow> account_state \<Rightarrow> account_state \<Rightarrow> sdk_error + pumpfun_pool" where
  "apply_curve R F p curve global config mint quote = apply_inner R F p curve global config mint quote False"

text \<open>A node: the requested keys to an answer, \<open>None\<close> for a key with no account.\<close>

type_synonym rpc_node = "pubkey list \<Rightarrow> sdk_error + account_state option list"

definition snapshot_at :: "account_state option list \<Rightarrow> nat \<Rightarrow> account_state option" where
  "snapshot_at accs i = (case get_at accs i of Some (Some a) \<Rightarrow> Some a | _ \<Rightarrow> None)"

definition refresh_curve ::
  "'z pda_scheme \<Rightarrow> 't fee_codec \<Rightarrow> rpc_node \<Rightarrow> pumpfun_pool \<Rightarrow> pubkey \<Rightarrow> sdk_error + pumpfun_pool" where
  "refresh_curve R F rpc p expected_creator =
     bind_r (rpc [pf_bonding_curve p, PUMPFUN_GLOBAL, PUMPFUN_FEE_CONFIG, pf_mint p, pf_quote_mint p]) (\<lambda>accs.
     let fetch = (\<lambda>i. ok_or (snapshot_at accs i) ''PumpFun snapshot missing account'') in
     bind_r (fetch 0) (\<lambda>curve.
     bind_r (curve_key_at (acc_data curve) 49) (\<lambda>creator.
     if creator \<noteq> expected_creator
     then Err ''PumpFun creator changed during refresh; reload fee-sharing configuration''
     else bind_r (fetch 1) (\<lambda>global. bind_r (fetch 3) (\<lambda>mint. bind_r (fetch 4) (\<lambda>quote.
       apply_curve R F p curve global (snapshot_at accs 2) mint quote))))))"

section \<open>Pump V3 snapshots\<close>

definition USER_VOLUME_DISCRIMINATOR :: bytes where
  "USER_VOLUME_DISCRIMINATOR = [86, 255, 112, 14, 102, 53, 154, 250]"

definition default_trade_event :: pumpfun_trade_event where
  "default_trade_event =
     \<lparr>et_ix_name = [], et_mint = 0, et_quote_mint = 0, et_bonding_curve = 0,
      et_associated_bonding_curve = 0, et_creator_vault = 0, et_fee_recipient = 0, et_token_program = 0,
      et_quote_token_program = 0, et_buyback_fee_recipient = 0, et_global = 0, et_event_authority = 0,
      et_global_volume_accumulator = 0, et_user_volume_accumulator = 0, et_fee_config = 0,
      et_fee_program = 0, et_bonding_curve_v2 = 0, et_creator = 0, et_virtual_token_reserves = 0,
      et_virtual_sol_reserves = 0, et_virtual_quote_reserves = 0, et_real_token_reserves = 0,
      et_fee_basis_points = 0, et_creator_fee_basis_points = 0, et_cashback_fee_basis_points = 0,
      et_is_cashback_coin = False\<rparr>"

definition curve_vault_ok :: "account_state \<Rightarrow> pubkey \<Rightarrow> pubkey \<Rightarrow> pubkey \<Rightarrow> sdk_error + unit" where
  "curve_vault_ok vault token_program mint curve_key =
     (let bad = ''invalid Pump curve base token vault'' in
      if owner vault \<noteq> token_program then Err bad
      else bind_r (curve_key_at (acc_data vault) 0) (\<lambda>m.
        if m \<noteq> mint then Err bad
        else bind_r (curve_key_at (acc_data vault) 32) (\<lambda>c.
          if c \<noteq> curve_key \<or> get_at (acc_data vault) 108 \<noteq> Some 1 then Err bad else Ok ())))"

definition needs_volume :: "account_state option \<Rightarrow> pubkey \<Rightarrow> sdk_error + bool" where
  "needs_volume volume u =
     (let bad = ''invalid Pump user volume accumulator'' in
      case volume of
        None \<Rightarrow> Ok True
      | Some a \<Rightarrow>
          if owner a = SYSTEM_PROGRAM \<and> acc_data a = [] then Ok True
          else if owner a \<noteq> PUMPFUN_PROGRAM \<or> get_range (acc_data a) 0 8 \<noteq> Some USER_VOLUME_DISCRIMINATOR
          then Err bad
          else bind_r (curve_key_at (acc_data a) 8) (\<lambda>k. if k \<noteq> u then Err bad else Ok False))"

text \<open>The two requests to the node may see different states of the chain.\<close>

definition load_pumpfun_v3_by_rpc ::
  "'z pda_scheme \<Rightarrow> 't fee_codec \<Rightarrow> pubkey \<Rightarrow> rpc_node \<Rightarrow> rpc_node \<Rightarrow> pubkey \<Rightarrow> pubkey
    \<Rightarrow> sdk_error + pumpfun_v3_pool" where
  "load_pumpfun_v3_by_rpc R F solscan rpc1 rpc2 mint u =
     (let curve_key = fst (find_pda R [ascii ''bonding-curve'', key_bytes mint] PUMPFUN_PROGRAM) in
      bind_r (rpc1 [curve_key, mint]) (\<lambda>initial.
      bind_r (ok_or (snapshot_at initial 0) ''missing Pump curve'') (\<lambda>initial_curve.
      bind_r (ok_or (snapshot_at initial 1) ''missing Pump mint'') (\<lambda>initial_mint.
      bind_r (stored_quote_mint (acc_data initial_curve)) (\<lambda>quote_mint.
      bind_r (mint_program initial_mint) (\<lambda>token_program.
      let vault = ata R curve_key mint token_program;
          volume = fst (find_pda R [ascii ''user_volume_accumulator'', key_bytes u] PUMPFUN_PROGRAM) in
      bind_r (rpc2 [curve_key, PUMPFUN_GLOBAL, PUMPFUN_FEE_CONFIG, mint, quote_mint, vault, volume]) (\<lambda>accs.
      let fetch = (\<lambda>i. ok_or (snapshot_at accs i) ''Pump V3 snapshot missing'');
          start = (pumpfun_from_trade solscan default_trade_event)
            \<lparr>pf_mint := mint, pf_quote_mint := quote_mint, pf_bonding_curve := curve_key\<rparr> in
      bind_r (fetch 0) (\<lambda>curve. bind_r (fetch 1) (\<lambda>global. bind_r (fetch 2) (\<lambda>config.
      bind_r (fetch 3) (\<lambda>m. bind_r (fetch 4) (\<lambda>q.
      bind_r (apply_inner R F start curve global (Some config) m q True) (\<lambda>p.
      if pf_mint_token_program p \<noteq> token_program then Err ''Pump base mint owner changed during refresh''
      else bind_r (fetch 5) (\<lambda>base_vault.
      bind_r (curve_vault_ok base_vault token_program mint curve_key) (\<lambda>_.
      bind_r (needs_volume (snapshot_at accs 6) u) (\<lambda>needs_init.
      bind_r (curve_u64_at (acc_data curve) 32) (\<lambda>real_quote.
      bind_r (curve_u64_at (acc_data base_vault) 64) (\<lambda>balance.
      bind_r (curve_u64_at (acc_data global) 146) (\<lambda>migration_fee.
        Ok \<lparr>v3_curve = p, v3_complete = False, v3_supports_graduation = True,
          v3_real_quote_reserves = real_quote, v3_curve_base_token_balance = balance,
          v3_pool_migration_fee = migration_fee,
          v3_mayhem_mode = (get_at (acc_data curve) 81 = Some 1),
          v3_depth = (case get_at (acc_data curve) 141 of Some b \<Rightarrow> b | None \<Rightarrow> 0),
          v3_needs_curve_extension = (length (acc_data curve) < 166),
          v3_needs_volume_initialization = needs_init\<rparr>)))))))))))))))))))"

end
