(* ===== verification/Sdk_Rpc_Load.thy ===== *)
theory Sdk_Rpc_Load
  imports Sdk_Params Sdk_Curve_State
begin

text \<open>
  Market snapshots loaded over RPC: \<open>adapter/from_rpc.rs\<close>. The loaders of the direct-trade SDK
  (\<open>from_mint_by_rpc\<close>, \<open>from_pool_address_by_rpc\<close>, \<open>fetch_pool\<close>) are the record
  \<open>param_loaders\<close>; the SPL codec of a mint and its extensions is the record \<open>mint_codec\<close>, over an
  unread type of decoded mints.
\<close>

section \<open>Route mints\<close>

record 'm mint_codec =
  mc_unpack :: "bytes \<Rightarrow> 'm option"
  mc_extension_types :: "'m \<Rightarrow> u16 list option"
  mc_transfer_hook :: u16
  mc_hook_extension :: "'m \<Rightarrow> unit option"
  mc_hook_program :: "'m \<Rightarrow> pubkey option"

definition validate_mint :: "'m mint_codec \<Rightarrow> account_state \<Rightarrow> pubkey \<Rightarrow> sdk_error + unit" where
  "validate_mint M a program =
     (if program \<noteq> TOKEN_PROGRAM \<and> program \<noteq> TOKEN_2022_PROGRAM then Err ''unsupported route token program''
      else if owner a \<noteq> program then Err ''route mint owner does not match token program''
      else bind_r (ok_or (mc_unpack M (acc_data a)) ''malformed route mint'') (\<lambda>m.
        if program = TOKEN_2022_PROGRAM then
          bind_r (ok_or (mc_extension_types M m) ''malformed route mint extensions'') (\<lambda>types.
            if mc_transfer_hook M \<in> set types then
              bind_r (ok_or (mc_hook_extension M m) ''malformed transfer hook'') (\<lambda>_.
                if mc_hook_program M m \<noteq> None
                then Err ''active transfer hook requires unsupported extra accounts'' else Ok ())
            else Ok ())
        else Ok ()))"

fun bridge_mint_programs :: "bridge_pool \<Rightarrow> (pubkey \<times> pubkey) list" where
  "bridge_mint_programs (BridgeCpmm p) =
     [(cp_base_mint p, cp_base_token_program p), (cp_quote_mint p, cp_quote_token_program p)]"
| "bridge_mint_programs (BridgeAmmV4 p) =
     [(rv_coin_mint p, rv_token_program p), (rv_pc_mint p, rv_token_program p)]"

fun is_pumpfun_inner :: "market \<Rightarrow> bool" where
  "is_pumpfun_inner (PumpFunInner p) = True"
| "is_pumpfun_inner m = False"

definition route_mint_pairs :: "routed_market \<Rightarrow> (pubkey \<times> pubkey) list" where
  "route_mint_pairs rm =
     (if is_pumpfun_inner (rm_market rm) then []
      else [(market_base_mint (rm_market rm), market_base_token_program (rm_market rm)),
            (market_quote_mint (rm_market rm), market_quote_token_program (rm_market rm))])
     @ (case rm_bridge rm of Some b \<Rightarrow> bridge_mint_programs b | None \<Rightarrow> [])"

fun unique_mints ::
  "(pubkey \<times> pubkey) list \<Rightarrow> (pubkey \<times> pubkey) list \<Rightarrow> sdk_error + (pubkey \<times> pubkey) list" where
  "unique_mints acc [] = Ok acc"
| "unique_mints acc ((mint, program) # rest) =
     (case List.find (\<lambda>kv. fst kv = mint) acc of
        Some kv \<Rightarrow> if snd kv = program then unique_mints acc rest
          else Err ''route mint has conflicting token programs''
      | None \<Rightarrow> unique_mints (acc @ [(mint, program)]) rest)"

fun validate_mints ::
  "'m mint_codec \<Rightarrow> ((pubkey \<times> pubkey) \<times> account_state option) list \<Rightarrow> sdk_error + unit" where
  "validate_mints M [] = Ok ()"
| "validate_mints M (((mint, program), account) # rest) =
     bind_r (ok_or account ''route mint is missing'') (\<lambda>a.
     bind_r (validate_mint M a program) (\<lambda>_. validate_mints M rest))"

definition validate_route_mints :: "'m mint_codec \<Rightarrow> rpc_node \<Rightarrow> routed_market \<Rightarrow> sdk_error + unit" where
  "validate_route_mints M rpc rm =
     bind_r (unique_mints [] (route_mint_pairs rm)) (\<lambda>unique.
       if unique = [] then Ok ()
       else bind_r (rpc (map fst unique)) (\<lambda>accounts.
         if length accounts \<noteq> length unique then Err ''route mint snapshot length mismatch''
         else validate_mints M (zip unique accounts)))"

section \<open>Requests\<close>

datatype dex_type =
    DexPumpFun | DexPumpSwap | DexLaunchLab | DexBonk | DexStonkFun | DexRaydiumCpmm | DexRaydiumAmmV4
  | DexMeteoraDammV2 | DexRaydiumClmm | DexOrcaWhirlpool | DexMeteoraDlmm

datatype load_market_request =
    LoadPumpFun pubkey
  | LoadPumpSwap pubkey
  | LoadPumpSwapPool pubkey
  | LoadLaunchLab pubkey
  | LoadBonk pubkey
  | LoadStonkFun pubkey
  | LoadRaydiumCpmm pubkey
  | LoadRaydiumAmmV4 pubkey
  | LoadMeteoraDammV2 pubkey
  | LoadRaydiumClmm pubkey pubkey pubkey
  | LoadOrcaWhirlpool pubkey pubkey pubkey
  | LoadMeteoraDlmm pubkey pubkey pubkey

fun request_dex_type :: "load_market_request \<Rightarrow> dex_type" where
  "request_dex_type (LoadPumpFun m) = DexPumpFun"
| "request_dex_type (LoadPumpSwap m) = DexPumpSwap"
| "request_dex_type (LoadPumpSwapPool p) = DexPumpSwap"
| "request_dex_type (LoadLaunchLab m) = DexLaunchLab"
| "request_dex_type (LoadBonk m) = DexBonk"
| "request_dex_type (LoadStonkFun m) = DexStonkFun"
| "request_dex_type (LoadRaydiumCpmm p) = DexRaydiumCpmm"
| "request_dex_type (LoadRaydiumAmmV4 p) = DexRaydiumAmmV4"
| "request_dex_type (LoadMeteoraDammV2 p) = DexMeteoraDammV2"
| "request_dex_type (LoadRaydiumClmm p i q) = DexRaydiumClmm"
| "request_dex_type (LoadOrcaWhirlpool p i q) = DexOrcaWhirlpool"
| "request_dex_type (LoadMeteoraDlmm p i q) = DexMeteoraDlmm"

fun mint_hint :: "load_market_request \<Rightarrow> pubkey" where
  "mint_hint (LoadPumpFun m) = m"
| "mint_hint (LoadPumpSwap m) = m"
| "mint_hint (LoadLaunchLab m) = m"
| "mint_hint (LoadBonk m) = m"
| "mint_hint (LoadStonkFun m) = m"
| "mint_hint (LoadRaydiumClmm p i q) = q"
| "mint_hint (LoadOrcaWhirlpool p i q) = q"
| "mint_hint (LoadMeteoraDlmm p i q) = q"
| "mint_hint (LoadPumpSwapPool p) = 0"
| "mint_hint (LoadRaydiumCpmm p) = 0"
| "mint_hint (LoadRaydiumAmmV4 p) = 0"
| "mint_hint (LoadMeteoraDammV2 p) = 0"

section \<open>Loading\<close>

record param_loaders =
  ld_pumpfun_mint :: "pubkey \<Rightarrow> sdk_error + pumpfun_params"
  ld_pumpswap_mint :: "pubkey \<Rightarrow> sdk_error + pumpswap_params"
  ld_pumpswap_pool :: "pubkey \<Rightarrow> sdk_error + pumpswap_params"
  ld_bonk_mint :: "pubkey \<Rightarrow> bool \<Rightarrow> sdk_error + bonk_params"
  ld_cpmm_pool :: "pubkey \<Rightarrow> sdk_error + cpmm_params"
  ld_amm_v4 :: "pubkey \<Rightarrow> sdk_error + amm_v4_params"
  ld_damm_v2_pool :: "pubkey \<Rightarrow> sdk_error + damm_v2_params"
  ld_clmm_pool :: "pubkey \<Rightarrow> pubkey \<Rightarrow> pubkey \<Rightarrow> sdk_error + clmm_params"
  ld_whirlpool :: "pubkey \<Rightarrow> pubkey \<Rightarrow> pubkey \<Rightarrow> sdk_error + whirlpool_params"
  ld_dlmm_pool :: "pubkey \<Rightarrow> pubkey \<Rightarrow> pubkey \<Rightarrow> sdk_error + dlmm_params"
  ld_fetch_pumpswap :: "pubkey \<Rightarrow> sdk_error + pumpswap_account"

fun load_params :: "param_loaders \<Rightarrow> load_market_request \<Rightarrow> sdk_error + dex_param" where
  "load_params L (LoadPumpFun m) = bind_r (ld_pumpfun_mint L m) (\<lambda>p. Ok (ParamPumpFun p))"
| "load_params L (LoadPumpSwap m) = bind_r (ld_pumpswap_mint L m) (\<lambda>p. Ok (ParamPumpSwap p))"
| "load_params L (LoadPumpSwapPool k) = bind_r (ld_pumpswap_pool L k) (\<lambda>p. Ok (ParamPumpSwap p))"
| "load_params L (LoadLaunchLab m) = bind_r (ld_bonk_mint L m False) (\<lambda>p. Ok (ParamLaunchLab p))"
| "load_params L (LoadBonk m) = bind_r (ld_bonk_mint L m False) (\<lambda>p. Ok (ParamBonk p))"
| "load_params L (LoadStonkFun m) = bind_r (ld_bonk_mint L m False) (\<lambda>p. Ok (ParamStonkFun p))"
| "load_params L (LoadRaydiumCpmm k) = bind_r (ld_cpmm_pool L k) (\<lambda>p. Ok (ParamRaydiumCpmm p))"
| "load_params L (LoadRaydiumAmmV4 k) = bind_r (ld_amm_v4 L k) (\<lambda>p. Ok (ParamRaydiumAmmV4 p))"
| "load_params L (LoadMeteoraDammV2 k) = bind_r (ld_damm_v2_pool L k) (\<lambda>p. Ok (ParamMeteoraDammV2 p))"
| "load_params L (LoadRaydiumClmm k i q) = bind_r (ld_clmm_pool L k i q) (\<lambda>p. Ok (ParamRaydiumClmm p))"
| "load_params L (LoadOrcaWhirlpool k i q) = bind_r (ld_whirlpool L k i q) (\<lambda>p. Ok (ParamOrcaWhirlpool p))"
| "load_params L (LoadMeteoraDlmm k i q) = bind_r (ld_dlmm_pool L k i q) (\<lambda>p. Ok (ParamMeteoraDlmm p))"

fun loaded_mint :: "dex_param \<Rightarrow> pubkey \<Rightarrow> pubkey" where
  "loaded_mint (ParamPumpSwap p) mint = pp_base_mint p"
| "loaded_mint (ParamRaydiumCpmm p) mint =
     (if cq_base_mint p = WSOL_MINT then cq_quote_mint p
      else if cq_quote_mint p = WSOL_MINT then cq_base_mint p else cq_base_mint p)"
| "loaded_mint (ParamRaydiumAmmV4 p) mint =
     (if rp_coin_mint p = WSOL_MINT then rp_pc_mint p else rp_coin_mint p)"
| "loaded_mint (ParamMeteoraDammV2 p) mint =
     (if dq_token_a_mint p = WSOL_MINT then dq_token_b_mint p else dq_token_a_mint p)"
| "loaded_mint p mint = mint"

definition refresh_pumpswap_fee_reserves :: "param_loaders \<Rightarrow> pumpswap_pool \<Rightarrow> sdk_error + pumpswap_pool" where
  "refresh_pumpswap_fee_reserves L p =
     bind_r (ld_fetch_pumpswap L (ps_pool p)) (\<lambda>st. apply_pool_fee_reserves p st)"

definition refresh_market ::
  "'z pda_scheme \<Rightarrow> 't fee_codec \<Rightarrow> param_loaders \<Rightarrow> rpc_node \<Rightarrow> dex_param \<Rightarrow> routed_market
    \<Rightarrow> sdk_error + routed_market" where
  "refresh_market R F L rpc extension rm =
     (case rm_market rm of
        PumpFunInner pool \<Rightarrow>
          bind_r (case extension of
              ParamPumpFun p \<Rightarrow> Ok (bc_creator (pq_bonding_curve p))
            | _ \<Rightarrow> Err ''PumpFun snapshot has incompatible params'') (\<lambda>creator.
          bind_r (refresh_curve R F rpc pool creator) (\<lambda>q. Ok (rm\<lparr>rm_market := PumpFunInner q\<rparr>)))
      | PumpSwapOuter pool \<Rightarrow>
          bind_r (refresh_pumpswap_fee_reserves L pool) (\<lambda>q. Ok (rm\<lparr>rm_market := PumpSwapOuter q\<rparr>))
      | _ \<Rightarrow> Ok rm)"

text \<open>\<open>rpc1\<close> answers the Pump refresh, \<open>rpc2\<close> the request for the mints.\<close>

definition load_routed_market_by_rpc ::
  "'z pda_scheme \<Rightarrow> trade_sdk \<Rightarrow> 't fee_codec \<Rightarrow> 'm mint_codec \<Rightarrow> param_loaders \<Rightarrow> rpc_node \<Rightarrow> rpc_node
    \<Rightarrow> load_market_request \<Rightarrow> pubkey \<Rightarrow> sdk_error + (dex_param \<times> routed_market)" where
  "load_routed_market_by_rpc R X F M L rpc1 rpc2 request usr =
     bind_r (load_params L request) (\<lambda>extension.
     bind_r (to_routed_market_for_user X extension (loaded_mint extension (mint_hint request)) usr) (\<lambda>rm.
     bind_r (refresh_market R F L rpc1 extension rm) (\<lambda>rm.
     bind_r (validate_route_mints M rpc2 rm) (\<lambda>_. Ok (extension, rm)))))"

end
