(* ===== verification/Sdk_Client.thy ===== *)
theory Sdk_Client
  imports Sdk_Rpc_Load Sdk_Buy
begin

text \<open>
  The product client of \<open>client.rs\<close>: from the parameters of a trade to the instructions that are
  submitted. Objects of the direct-trade SDK that the client only passes on (durable nonces, lookup
  tables, gas strategies, middleware) are values of an unread type \<open>'h\<close>; its executor is the record
  \<open>executor\<close>. A run of the client is its result and the requests it made to the executor; starting a
  client is the client and the requests for token accounts it made. The balance queries are functions
  of the direct-trade SDK. Logging, clocks and the warming of thread pools are not modelled.
\<close>

section \<open>Trade parameters\<close>

datatype trade_token_type = TradeSOL | TradeWSOL | TradeUSDC | TradeUSD1 | TradeToken pubkey

record 'h trade_buy_params =
  tb_dex_type :: dex_type
  tb_input_token_type :: trade_token_type
  tb_mint :: pubkey
  tb_input_token_amount :: u64
  tb_slippage_basis_points :: "u64 option"
  tb_recent_blockhash :: "pubkey option"
  tb_extension_params :: dex_param
  tb_address_lookup_table_accounts :: "'h list"
  tb_wait_tx_confirmed :: bool
  tb_wait_for_all_submits :: bool
  tb_create_input_token_ata :: bool
  tb_close_input_token_ata :: bool
  tb_create_mint_ata :: bool
  tb_durable_nonce :: "'h option"
  tb_fixed_output_token_amount :: "u64 option"
  tb_gas_fee_strategy :: 'h
  tb_simulate :: bool
  tb_use_exact_sol_amount :: "bool option"

record 'h trade_sell_params =
  tl_dex_type :: dex_type
  tl_output_token_type :: trade_token_type
  tl_mint :: pubkey
  tl_input_token_amount :: u64
  tl_slippage_basis_points :: "u64 option"
  tl_recent_blockhash :: "pubkey option"
  tl_with_tip :: bool
  tl_extension_params :: dex_param
  tl_address_lookup_table_accounts :: "'h list"
  tl_wait_tx_confirmed :: bool
  tl_wait_for_all_submits :: bool
  tl_create_output_token_ata :: bool
  tl_close_output_token_ata :: bool
  tl_close_mint_token_ata :: bool
  tl_durable_nonce :: "'h option"
  tl_fixed_output_token_amount :: "u64 option"
  tl_gas_fee_strategy :: 'h
  tl_simulate :: bool

fun trade_token_to_buy_with :: "trade_sdk \<Rightarrow> trade_token_type \<Rightarrow> buy_with" where
  "trade_token_to_buy_with X TradeSOL = BuySol"
| "trade_token_to_buy_with X TradeWSOL = BuyWsol"
| "trade_token_to_buy_with X TradeUSDC = BuyToken USDC_MINT"
| "trade_token_to_buy_with X TradeUSD1 = BuyToken (tx_usd1_token_account X)"
| "trade_token_to_buy_with X (TradeToken m) = (if m = WSOL_MINT then BuyWsol else BuyToken m)"

fun trade_token_to_sell_to :: "trade_sdk \<Rightarrow> trade_token_type \<Rightarrow> sell_to" where
  "trade_token_to_sell_to X TradeSOL = SellSol"
| "trade_token_to_sell_to X TradeWSOL = SellWsol"
| "trade_token_to_sell_to X TradeUSDC = SellToken USDC_MINT"
| "trade_token_to_sell_to X TradeUSD1 = SellToken (tx_usd1_token_account X)"
| "trade_token_to_sell_to X (TradeToken m) = (if m = WSOL_MINT then SellWsol else SellToken m)"

definition buy_ata_policy :: "trade_sdk \<Rightarrow> 'h trade_buy_params \<Rightarrow> ata_policy" where
  "buy_ata_policy X p =
     (let sol = trade_token_to_buy_with X (tb_input_token_type p) \<in> {BuySol, BuyWsol} in
      \<lparr>create_meme = tb_create_mint_ata p,
       create_wsol = (tb_create_input_token_ata p \<and> sol),
       create_quote = (tb_create_input_token_ata p \<and> \<not> sol),
       close_wsol = (tb_close_input_token_ata p \<and> sol),
       close_meme = False, close_quote = False\<rparr>)"

definition sell_ata_policy :: "trade_sdk \<Rightarrow> 'h trade_sell_params \<Rightarrow> ata_policy" where
  "sell_ata_policy X p =
     (let sol = trade_token_to_sell_to X (tl_output_token_type p) \<in> {SellSol, SellWsol} in
      \<lparr>create_meme = False,
       create_wsol = (tl_create_output_token_ata p \<and> sol),
       create_quote = (tl_create_output_token_ata p \<and> \<not> sol),
       close_wsol = (tl_close_output_token_ata p \<and> sol),
       close_meme = tl_close_mint_token_ata p, close_quote = False\<rparr>)"

definition with_fixed_target :: "u64 option \<Rightarrow> trade_opts \<Rightarrow> trade_opts" where
  "with_fixed_target fixed t = (case fixed of Some a \<Rightarrow> opts_with_fixed_output a t | None \<Rightarrow> t)"

definition buy_opts_from_params :: "trade_sdk \<Rightarrow> 'h trade_buy_params \<Rightarrow> sdk_error + trade_opts" where
  "buy_opts_from_params X p =
     (if tb_use_exact_sol_amount p = Some False \<and> tb_fixed_output_token_amount p = None
        \<and> tb_dex_type p \<in> {DexPumpFun, DexPumpSwap}
      then Err ''Router does not support use_exact_sol_amount=false for regular Pump buys''
      else let t = opts_with_ata (buy_ata_policy X p)
          (opts_with_slippage_bps (unwrap_or (tb_slippage_basis_points p) 100) opts_default)
        in Ok (with_fixed_target (tb_fixed_output_token_amount p)
             (t\<lparr>to_buy_with := trade_token_to_buy_with X (tb_input_token_type p)\<rparr>)))"

definition sell_opts_from_params :: "trade_sdk \<Rightarrow> 'h trade_sell_params \<Rightarrow> sdk_error + trade_opts" where
  "sell_opts_from_params X p =
     (let t = opts_with_ata (sell_ata_policy X p)
          (opts_with_slippage_bps (unwrap_or (tl_slippage_basis_points p) 100) opts_default)
      in Ok (with_fixed_target (tl_fixed_output_token_amount p)
           (t\<lparr>to_sell_to := trade_token_to_sell_to X (tl_output_token_type p)\<rparr>)))"

definition validate_requested_mint :: "routed_market \<Rightarrow> pubkey \<Rightarrow> sdk_error + unit" where
  "validate_requested_mint rm mint =
     (if routed_meme_mint rm \<noteq> mint then Err ''requested mint does not match routed target'' else Ok ())"

fun validate_protocol_params :: "dex_type \<Rightarrow> dex_param \<Rightarrow> bool" where
  "validate_protocol_params DexPumpFun p =
     (case p of ParamPumpFun _ \<Rightarrow> True | _ \<Rightarrow> False)"
| "validate_protocol_params DexPumpSwap p =
     (case p of ParamPumpSwap _ \<Rightarrow> True | _ \<Rightarrow> False)"
| "validate_protocol_params DexLaunchLab p =
     (case p of ParamLaunchLab _ \<Rightarrow> True | _ \<Rightarrow> False)"
| "validate_protocol_params DexBonk p =
     (case p of ParamBonk _ \<Rightarrow> True | _ \<Rightarrow> False)"
| "validate_protocol_params DexStonkFun p =
     (case p of ParamStonkFun _ \<Rightarrow> True | ParamStonkFunSwap _ \<Rightarrow> True | ParamStonkFunViaSol _ \<Rightarrow> True | _ \<Rightarrow> False)"
| "validate_protocol_params DexRaydiumCpmm p =
     (case p of ParamRaydiumCpmm _ \<Rightarrow> True | _ \<Rightarrow> False)"
| "validate_protocol_params DexRaydiumAmmV4 p =
     (case p of ParamRaydiumAmmV4 _ \<Rightarrow> True | _ \<Rightarrow> False)"
| "validate_protocol_params DexMeteoraDammV2 p =
     (case p of ParamMeteoraDammV2 _ \<Rightarrow> True | _ \<Rightarrow> False)"
| "validate_protocol_params DexRaydiumClmm p =
     (case p of ParamRaydiumClmm _ \<Rightarrow> True | _ \<Rightarrow> False)"
| "validate_protocol_params DexOrcaWhirlpool p =
     (case p of ParamOrcaWhirlpool _ \<Rightarrow> True | _ \<Rightarrow> False)"
| "validate_protocol_params DexMeteoraDlmm p =
     (case p of ParamMeteoraDlmm _ \<Rightarrow> True | _ \<Rightarrow> False)"

section \<open>Building\<close>

definition build_buy_instructions ::
  "sdk_env \<Rightarrow> trade_sdk \<Rightarrow> pubkey \<Rightarrow> router_client \<Rightarrow> 'h trade_buy_params \<Rightarrow> instruction list computation" where
  "build_buy_instructions R X payer c p =
     (if \<not> validate_protocol_params (tb_dex_type p) (tb_extension_params p)
      then Some (Err ''Invalid protocol params for Trade'')
      else bind_o (Some (to_routed_market_for_user X (tb_extension_params p) (tb_mint p) payer)) (\<lambda>rm.
        bind_o (Some (validate_requested_mint rm (tb_mint p))) (\<lambda>_.
        bind_o (Some (buy_opts_from_params X p)) (\<lambda>opts.
        bind_o (buy_with_opts R c (tb_input_token_amount p) rm opts) (\<lambda>t.
          Some (Ok (into_instructions t)))))))"

definition build_sell_instructions ::
  "sdk_env \<Rightarrow> trade_sdk \<Rightarrow> pubkey \<Rightarrow> router_client \<Rightarrow> 'h trade_sell_params \<Rightarrow> sdk_error + instruction list" where
  "build_sell_instructions R X payer c p =
     (if \<not> validate_protocol_params (tl_dex_type p) (tl_extension_params p)
      then Err ''Invalid protocol params for Trade''
      else bind_r (to_routed_market_for_user X (tl_extension_params p) (tl_mint p) payer) (\<lambda>rm.
        bind_r (validate_requested_mint rm (tl_mint p)) (\<lambda>_.
        bind_r (sell_opts_from_params X p) (\<lambda>opts.
        bind_r (sell_with_opts R c (tl_input_token_amount p) rm opts) (\<lambda>t.
          Ok (into_instructions t))))))"

section \<open>The client\<close>

datatype transaction_version = VersionV0 | VersionOther nat

record 'h trading_client =
  tc_payer :: pubkey
  tc_infrastructure :: 'h
  tc_middleware_manager :: "'h option"
  tc_risk_gate :: "('h trade_buy_params \<Rightarrow> sdk_error + unit) option"
  tc_router :: router_client
  tc_use_seed_optimize :: bool
  tc_use_dedicated_sender_threads :: bool
  tc_sender_thread_cores :: "nat list option"
  tc_max_sender_concurrency :: nat
  tc_effective_core_ids :: "nat list"
  tc_log_enabled :: bool
  tc_check_min_tip :: bool
  tc_transaction_version :: transaction_version

record 'h infrastructure =
  if_handle :: 'h
  if_max_sender_concurrency :: nat
  if_effective_core_ids :: "nat list"

text \<open>The fields of the direct-trade configuration that are read.\<close>

record trade_config =
  tg_use_seed_optimize :: bool
  tg_create_wsol_ata_on_startup :: bool
  tg_log_enabled :: bool
  tg_check_min_tip :: bool
  tg_transaction_version :: transaction_version

record router_trade_config =
  rc_trade :: trade_config
  rc_fee_recipient :: pubkey
  rc_fee_bps :: u16
  rc_program_id :: pubkey
  rc_pool_guard :: pool_guard_policy

definition router_config_new :: "trade_config \<Rightarrow> pubkey \<Rightarrow> u16 \<Rightarrow> router_trade_config" where
  "router_config_new t recipient bps = \<lparr>rc_trade = t, rc_fee_recipient = recipient, rc_fee_bps = bps,
     rc_program_id = PROGRAM_ID, rc_pool_guard = guard_default\<rparr>"

definition config_with_program_id :: "pubkey \<Rightarrow> router_trade_config \<Rightarrow> router_trade_config" where
  "config_with_program_id k r = r\<lparr>rc_program_id := k\<rparr>"

definition config_with_pool_guard :: "pool_guard_policy \<Rightarrow> router_trade_config \<Rightarrow> router_trade_config" where
  "config_with_pool_guard g r = r\<lparr>rc_pool_guard := g\<rparr>"

definition config_stonk_strict :: "router_trade_config \<Rightarrow> router_trade_config" where
  "config_stonk_strict r = r\<lparr>rc_pool_guard := stonk_strict\<rparr>"

definition from_infrastructure ::
  "pubkey \<Rightarrow> 'h infrastructure \<Rightarrow> pubkey \<Rightarrow> u16 \<Rightarrow> bool \<Rightarrow> 'h trading_client" where
  "from_infrastructure payer infra recipient bps seed =
     \<lparr>tc_payer = payer, tc_infrastructure = if_handle infra, tc_middleware_manager = None,
      tc_risk_gate = None, tc_router = client_new payer recipient bps, tc_use_seed_optimize = seed,
      tc_use_dedicated_sender_threads = False, tc_sender_thread_cores = None,
      tc_max_sender_concurrency = if_max_sender_concurrency infra,
      tc_effective_core_ids = if_effective_core_ids infra, tc_log_enabled = True,
      tc_check_min_tip = False, tc_transaction_version = VersionV0\<rparr>"

text \<open>The setup of the wrapped-SOL account, which the direct-trade SDK runs in the background and
  whose result is dropped: the payer, the infrastructure and the seed option it is asked with.\<close>

type_synonym 'h wsol_setup = "pubkey \<times> 'h \<times> bool"

definition from_infrastructure_with_wsol_setup ::
  "pubkey \<Rightarrow> 'h infrastructure \<Rightarrow> pubkey \<Rightarrow> u16 \<Rightarrow> bool \<Rightarrow> bool \<Rightarrow> 'h trading_client \<times> 'h wsol_setup list" where
  "from_infrastructure_with_wsol_setup payer infra recipient bps seed create =
     (from_infrastructure payer infra recipient bps seed,
      if create then [(payer, if_handle infra, seed)] else [])"

text \<open>\<open>make_infra\<close> is the infrastructure that the direct-trade SDK builds from its configuration.\<close>

definition trading_client_start ::
  "(trade_config \<Rightarrow> 'h infrastructure) \<Rightarrow> pubkey \<Rightarrow> router_trade_config \<Rightarrow> 'h trading_client \<times> 'h wsol_setup list" where
  "trading_client_start make_infra payer r =
     (let (c, setups) = from_infrastructure_with_wsol_setup payer (make_infra (rc_trade r))
            (rc_fee_recipient r) (rc_fee_bps r) (tg_use_seed_optimize (rc_trade r))
            (tg_create_wsol_ata_on_startup (rc_trade r))
      in (c\<lparr>tc_router := with_pool_guard (rc_pool_guard r) (with_program_id (rc_program_id r) (tc_router c)),
            tc_log_enabled := tg_log_enabled (rc_trade r),
            tc_check_min_tip := tg_check_min_tip (rc_trade r),
            tc_transaction_version := tg_transaction_version (rc_trade r)\<rparr>, setups))"

text \<open>\<open>TradingClient::new\<close>: the client of that start.\<close>

definition trading_client_new ::
  "(trade_config \<Rightarrow> 'h infrastructure) \<Rightarrow> pubkey \<Rightarrow> router_trade_config \<Rightarrow> 'h trading_client" where
  "trading_client_new make_infra payer r = fst (trading_client_start make_infra payer r)"

definition client_with_middleware_manager :: "'h \<Rightarrow> 'h trading_client \<Rightarrow> 'h trading_client" where
  "client_with_middleware_manager mw c = c\<lparr>tc_middleware_manager := Some mw\<rparr>"

definition client_with_risk_gate ::
  "('h trade_buy_params \<Rightarrow> sdk_error + unit) \<Rightarrow> 'h trading_client \<Rightarrow> 'h trading_client" where
  "client_with_risk_gate gate c = c\<lparr>tc_risk_gate := Some gate\<rparr>"

definition client_with_pool_guard :: "pool_guard_policy \<Rightarrow> 'h trading_client \<Rightarrow> 'h trading_client" where
  "client_with_pool_guard g c = c\<lparr>tc_router := with_pool_guard g (tc_router c)\<rparr>"

definition client_with_transaction_version ::
  "transaction_version \<Rightarrow> 'h trading_client \<Rightarrow> 'h trading_client" where
  "client_with_transaction_version v c = c\<lparr>tc_transaction_version := v\<rparr>"

definition with_dedicated_sender_threads :: "nat list option \<Rightarrow> 'h trading_client \<Rightarrow> 'h trading_client" where
  "with_dedicated_sender_threads core_indices c =
     (case core_indices of
        None \<Rightarrow> c\<lparr>tc_use_dedicated_sender_threads := False, tc_sender_thread_cores := None\<rparr>
      | Some [] \<Rightarrow> c\<lparr>tc_use_dedicated_sender_threads := True, tc_sender_thread_cores := None\<rparr>
      | Some v \<Rightarrow>
          (let cap = min (length v) (tc_max_sender_concurrency c) in
           c\<lparr>tc_use_dedicated_sender_threads := True,
             tc_sender_thread_cores := Some (if cap < length v then take cap v else v)\<rparr>))"

section \<open>Submission\<close>

record 'h submit_request =
  sr_payer :: pubkey
  sr_infrastructure :: 'h
  sr_instructions :: "instruction list"
  sr_address_lookup_table_accounts :: "'h list"
  sr_recent_blockhash :: "pubkey option"
  sr_durable_nonce :: "'h option"
  sr_middleware_manager :: "'h option"
  sr_is_buy :: bool
  sr_wait_tx_confirmed :: bool
  sr_wait_for_all_submits :: bool
  sr_with_tip :: bool
  sr_gas_fee_strategy :: 'h
  sr_use_dedicated_sender_threads :: bool
  sr_sender_thread_cores :: "nat list option"
  sr_effective_core_ids :: "nat list"
  sr_max_sender_concurrency :: nat
  sr_check_min_tip :: bool
  sr_transaction_version :: transaction_version

text \<open>The answer of the executor, its error already converted to a \<open>TradeError\<close>.\<close>

record submit_answer =
  sa_ok :: bool
  sa_signatures :: "bytes list"
  sa_error :: "string option"
  sa_timings :: "(nat \<times> int) list"

type_synonym 'h executor = "'h submit_request \<Rightarrow> sdk_error + submit_answer"
type_synonym 'h client_run = "((sdk_error + submit_answer) \<times> 'h submit_request list) option"

definition submit :: "'h executor \<Rightarrow> 'h submit_request \<Rightarrow> bool \<Rightarrow> 'h client_run" where
  "submit exec request simulate =
     (if simulate
      then Some (Ok \<lparr>sa_ok = True, sa_signatures = [], sa_error = None, sa_timings = []\<rparr>, [])
      else Some (exec request, [request]))"

definition buy_request :: "'h trading_client \<Rightarrow> 'h trade_buy_params \<Rightarrow> instruction list \<Rightarrow> 'h submit_request" where
  "buy_request c p ixs =
     \<lparr>sr_payer = tc_payer c, sr_infrastructure = tc_infrastructure c, sr_instructions = ixs,
      sr_address_lookup_table_accounts = tb_address_lookup_table_accounts p,
      sr_recent_blockhash = tb_recent_blockhash p, sr_durable_nonce = tb_durable_nonce p,
      sr_middleware_manager = tc_middleware_manager c, sr_is_buy = True,
      sr_wait_tx_confirmed = tb_wait_tx_confirmed p, sr_wait_for_all_submits = tb_wait_for_all_submits p,
      sr_with_tip = True, sr_gas_fee_strategy = tb_gas_fee_strategy p,
      sr_use_dedicated_sender_threads = tc_use_dedicated_sender_threads c,
      sr_sender_thread_cores = tc_sender_thread_cores c, sr_effective_core_ids = tc_effective_core_ids c,
      sr_max_sender_concurrency = tc_max_sender_concurrency c, sr_check_min_tip = tc_check_min_tip c,
      sr_transaction_version = tc_transaction_version c\<rparr>"

definition sell_request :: "'h trading_client \<Rightarrow> 'h trade_sell_params \<Rightarrow> instruction list \<Rightarrow> 'h submit_request" where
  "sell_request c p ixs =
     \<lparr>sr_payer = tc_payer c, sr_infrastructure = tc_infrastructure c, sr_instructions = ixs,
      sr_address_lookup_table_accounts = tl_address_lookup_table_accounts p,
      sr_recent_blockhash = tl_recent_blockhash p, sr_durable_nonce = tl_durable_nonce p,
      sr_middleware_manager = tc_middleware_manager c, sr_is_buy = False,
      sr_wait_tx_confirmed = tl_wait_tx_confirmed p, sr_wait_for_all_submits = tl_wait_for_all_submits p,
      sr_with_tip = tl_with_tip p, sr_gas_fee_strategy = tl_gas_fee_strategy p,
      sr_use_dedicated_sender_threads = tc_use_dedicated_sender_threads c,
      sr_sender_thread_cores = tc_sender_thread_cores c, sr_effective_core_ids = tc_effective_core_ids c,
      sr_max_sender_concurrency = tc_max_sender_concurrency c, sr_check_min_tip = tc_check_min_tip c,
      sr_transaction_version = tc_transaction_version c\<rparr>"

definition trading_client_buy ::
  "sdk_env \<Rightarrow> trade_sdk \<Rightarrow> 'h executor \<Rightarrow> 'h trading_client \<Rightarrow> 'h trade_buy_params \<Rightarrow> 'h client_run" where
  "trading_client_buy R X exec c p =
     (if tb_recent_blockhash p = None \<and> tb_durable_nonce p = None
      then Some (Err ''Must provide either recent_blockhash or durable_nonce for buy'', [])
      else if \<not> validate_protocol_params (tb_dex_type p) (tb_extension_params p)
      then Some (Err ''Invalid protocol params for Trade'', [])
      else case (case tc_risk_gate c of Some gate \<Rightarrow> gate p | None \<Rightarrow> Ok ()) of
        Inl e \<Rightarrow> Some (Inl e, [])
      | Inr _ \<Rightarrow> (case build_buy_instructions R X (tc_payer c) (tc_router c) p of
            None \<Rightarrow> None
          | Some (Inl e) \<Rightarrow> Some (Inl e, [])
          | Some (Inr ixs) \<Rightarrow> submit exec (buy_request c p ixs) (tb_simulate p)))"

definition trading_client_sell ::
  "sdk_env \<Rightarrow> trade_sdk \<Rightarrow> 'h executor \<Rightarrow> 'h trading_client \<Rightarrow> 'h trade_sell_params \<Rightarrow> 'h client_run" where
  "trading_client_sell R X exec c p =
     (if tl_recent_blockhash p = None \<and> tl_durable_nonce p = None
      then Some (Err ''Must provide either recent_blockhash or durable_nonce for sell'', [])
      else if \<not> validate_protocol_params (tl_dex_type p) (tl_extension_params p)
      then Some (Err ''Invalid protocol params for Trade'', [])
      else case build_sell_instructions R X (tc_payer c) (tc_router c) p of
          Inl e \<Rightarrow> Some (Inl e, [])
        | Inr ixs \<Rightarrow> submit exec (sell_request c p ixs) (tl_simulate p))"

text \<open>The conversion of the simple parameters is the direct-trade SDK's.\<close>

definition trading_client_buy_simple where
  "trading_client_buy_simple R X exec c convert p = trading_client_buy R X exec c (convert p)"

definition trading_client_sell_simple where
  "trading_client_sell_simple R X exec c convert p = trading_client_sell R X exec c (convert p)"

definition client_prepare_buy_atas ::
  "sdk_env \<Rightarrow> 'h trading_client \<Rightarrow> routed_market \<Rightarrow> buy_with \<Rightarrow> instruction list" where
  "client_prepare_buy_atas R c rm b = prepare_buy_atas R (tc_router c) rm b"

section \<open>Accessors and balances\<close>

definition client_get_rpc :: "'h trading_client \<Rightarrow> 'h" where
  "client_get_rpc c = tc_infrastructure c"

definition client_get_payer_pubkey :: "'h trading_client \<Rightarrow> pubkey" where
  "client_get_payer_pubkey c = tc_payer c"

definition client_create_wsol_ata :: "'z pda_scheme \<Rightarrow> 'h trading_client \<Rightarrow> instruction" where
  "client_create_wsol_ata R c = create_wsol_ata R (rt_payer (tc_router c))"

record 'h balance_queries =
  bq_token_with_options :: "'h \<Rightarrow> pubkey \<Rightarrow> pubkey \<Rightarrow> pubkey \<Rightarrow> bool \<Rightarrow> sdk_error + u64"
  bq_sol :: "'h \<Rightarrow> pubkey \<Rightarrow> sdk_error + u64"
  bq_token :: "'h \<Rightarrow> pubkey \<Rightarrow> pubkey \<Rightarrow> sdk_error + u64"

text \<open>The account of the standard derivation, whatever \<open>use_seed_optimize\<close> says.\<close>

definition get_payer_token_balance_with_program ::
  "'h balance_queries \<Rightarrow> 'h trading_client \<Rightarrow> pubkey \<Rightarrow> pubkey \<Rightarrow> sdk_error + u64" where
  "get_payer_token_balance_with_program B c mint tp =
     bq_token_with_options B (client_get_rpc c) (client_get_payer_pubkey c) mint tp False"

definition get_payer_sol_balance :: "'h balance_queries \<Rightarrow> 'h trading_client \<Rightarrow> sdk_error + u64" where
  "get_payer_sol_balance B c = bq_sol B (client_get_rpc c) (client_get_payer_pubkey c)"

definition get_payer_token_balance ::
  "'h balance_queries \<Rightarrow> 'h trading_client \<Rightarrow> pubkey \<Rightarrow> sdk_error + u64" where
  "get_payer_token_balance B c mint = bq_token B (client_get_rpc c) (client_get_payer_pubkey c) mint"

section \<open>Trades from a market\<close>

definition build_buy_from_market ::
  "sdk_env \<Rightarrow> 'h trading_client \<Rightarrow> u64 \<Rightarrow> routed_market \<Rightarrow> trade_opts \<Rightarrow> built_trade computation" where
  "build_buy_from_market R c amount rm opts = buy_with_opts R (tc_router c) amount rm opts"

definition build_sell_from_market ::
  "sdk_env \<Rightarrow> 'h trading_client \<Rightarrow> u64 \<Rightarrow> routed_market \<Rightarrow> trade_opts \<Rightarrow> sdk_error + built_trade" where
  "build_sell_from_market R c amount rm opts = sell_with_opts R (tc_router c) amount rm opts"

end
