(* ===== verification/Client_Props.thy ===== *)
theory Client_Props
  imports Sdk_Client Buy_Props Sell_Props
begin

text \<open>
  From the parameters of a trade, or an event of the chain, to what is sent: which snapshots carry a
  current price, and what a buy that the client submits does on chain.
\<close>

section \<open>Markets without a price\<close>

text \<open>Markets whose quote functions only fail: unknown fee rates, no reserves, no quote attached.\<close>

fun lacks_quote :: "market \<Rightarrow> bool" where
  "lacks_quote (LaunchLabInner p) = (\<not> ll_fee_rates_known p)"
| "lacks_quote (CpmmOuter p) = (\<not> cp_fee_rates_known p)"
| "lacks_quote (PumpFunInner p) = (\<not> pf_fee_rates_known p)"
| "lacks_quote (PumpSwapOuter p) = False"
| "lacks_quote (RaydiumAmmV4 p) = (rv_coin_reserve p = 0 \<or> rv_pc_reserve p = 0)"
| "lacks_quote (MeteoraDammV2 p) = (dm_expected_out p = None)"
| "lacks_quote (RaydiumClmm p) = (cl_expected_out p = None)"
| "lacks_quote (Whirlpool p) = (wp_expected_out p = None)"
| "lacks_quote (MeteoraDlmm p) = (dl_expected_out p = None)"

lemma unpriced_quotes [simp]:
  "\<not> ll_fee_rates_known pl \<Longrightarrow> launchlab_buy_quote pl a s \<noteq> Inr q"
  "\<not> ll_fee_rates_known pl \<Longrightarrow> launchlab_sell_quote_out pl a \<noteq> Inr y"
  "\<not> cp_fee_rates_known pc \<Longrightarrow> cpmm_out pc a d \<noteq> Inr y"
  "\<not> pf_fee_rates_known pf \<Longrightarrow> pumpfun_buy_token_out pf a \<noteq> Inr y"
  "\<not> pf_fee_rates_known pf \<Longrightarrow> pumpfun_sell_sol_out pf a \<noteq> Inr y"
  "rv_coin_reserve pr = 0 \<Longrightarrow> raydium_amm_v4_out pr a d \<noteq> Inr y"
  "rv_pc_reserve pr = 0 \<Longrightarrow> raydium_amm_v4_out pr a d \<noteq> Inr y"
  "dm_expected_out pd = None \<Longrightarrow> meteora_damm_v2_out pd a d \<noteq> Inr y"
  "concentrated_min_out None qin a None slip dex \<noteq> Inr y"
  "bridged_concentrated_min_out None dex \<noteq> Inr y"
  by (auto simp: launchlab_buy_quote_def launchlab_sell_quote_out_def launchlab_total_fee_rate_def cpmm_out_def
      pumpfun_buy_token_out_def pumpfun_sell_sol_out_def pumpfun_rates_def raydium_amm_v4_out_def amm_sides_def
      meteora_damm_v2_out_def snapshot_expected_out_def concentrated_min_out_def bridged_concentrated_min_out_def
      Let_def result_inv split: if_splits option.splits)

lemma unpriced_buy_paths:
  "\<not> ll_fee_rates_known pl \<Longrightarrow> buy_launchlab_with_quote R c a pl im slip None k pol st \<noteq> Inr y1"
  "\<not> ll_fee_rates_known pl \<Longrightarrow> buy_via_bridge_launchlab R c a pl b slip None pol st \<noteq> Some (Inr y2)"
  "\<not> cp_fee_rates_known pc \<Longrightarrow> buy_cpmm_with_mint R c a pc im om slip None None pol st \<noteq> Inr y3"
  "\<not> cp_fee_rates_known pc \<Longrightarrow> buy_via_bridge_cpmm R c a pc b slip None pol st \<noteq> Inr y3"
  "\<not> pf_fee_rates_known pf \<Longrightarrow> to_min_out opts = None \<Longrightarrow> buy_pumpfun R pf a opts st bld \<noteq> Inr y3"
  "rv_coin_reserve pr = 0 \<or> rv_pc_reserve pr = 0 \<Longrightarrow> buy_raydium_v4_with_mint R c a pr im slip None None \<noteq> Inr y4"
  "dm_expected_out pd = None \<Longrightarrow> buy_meteora_v2_with_mint R c a pd im slip None None \<noteq> Inr y4"
  "cl_expected_out p1 = None \<Longrightarrow> buy_raydium_clmm_with_mint R c a p1 im slip None \<noteq> Inr y4"
  "wp_expected_out p2 = None \<Longrightarrow> buy_whirlpool_with_mint R c a p2 im slip None \<noteq> Inr y4"
  "dl_expected_out p3 = None \<Longrightarrow> buy_meteora_dlmm_with_mint R' c a p3 im slip None \<noteq> Inr y4"
  by (auto simp: buy_launchlab_with_quote_def buy_via_bridge_launchlab_def buy_cpmm_with_mint_def
      buy_via_bridge_cpmm_def buy_pumpfun_def buy_raydium_v4_with_mint_def buy_meteora_v2_with_mint_def
      buy_raydium_clmm_with_mint_def buy_whirlpool_with_mint_def buy_meteora_dlmm_with_mint_def
      Let_def result_inv split: if_splits)

lemma unpriced_second_hop:
  "lacks_quote m \<Longrightarrow> buy_second_hop R payer m q h slip None \<noteq> Inr y"
  by (cases m) (auto simp: buy_second_hop_def Let_def result_inv)

lemma unpriced_mainstream:
  "lacks_quote m \<Longrightarrow> buy_via_bridge_mainstream R c a m b slip None pol st \<noteq> Inr y"
  by (auto simp: buy_via_bridge_mainstream_def Let_def result_inv unpriced_second_hop split: if_splits prod.splits)

lemmas unpriced_buy = unpriced_buy_paths unpriced_mainstream

lemma unpriced_buy_legs:
  assumes "lacks_quote (rm_market rm)" "to_min_out opts = None"
    "to_fixed_output opts = None \<or> \<not> fixed_buy_supported (rm_market rm)"
  shows "build_buy_legs R c a rm opts st \<noteq> Some (Inr y)"
proof (cases y)
  case (Pair r st')
  note defs = buy_legs_token_def buy_legs_sol_def Let_def fixed_buy_supported_def
  have "buy_legs_token R c a rm opts pay st \<noteq> Some (Inr y)" for pay
    using assms unfolding defs Pair
    by (cases "rm_market rm"; cases r) (auto simp: result_inv unpriced_buy)
  moreover have "buy_legs_sol R c a rm opts w st \<noteq> Some (Inr y)" for w
    using assms unfolding defs Pair
    by (cases "rm_market rm"; cases r) (auto simp: result_inv unpriced_buy unpriced_mainstream)
  ultimately show ?thesis by (simp add: build_buy_legs_def split: buy_with.splits)
qed

lemma unpriced_sell_paths:
  "\<not> ll_fee_rates_known pl \<Longrightarrow> sell_launchlab_to_quote R c a pl om slip None k pol st \<noteq> Inr y1"
  "\<not> ll_fee_rates_known pl \<Longrightarrow> sell_via_bridge_launchlab R c a pl b slip None pol st \<noteq> Inr y1"
  "\<not> cp_fee_rates_known pc \<Longrightarrow> sell_cpmm_to_mint R c a pc im om slip None None pol st \<noteq> Inr y1"
  "\<not> cp_fee_rates_known pc \<Longrightarrow> sell_via_bridge_cpmm R c a pc b slip None pol st \<noteq> Inr y1"
  "\<not> pf_fee_rates_known pf \<Longrightarrow> to_min_out opts = None \<Longrightarrow> sell_pumpfun pf a opts st k bld \<noteq> Inr y1"
  "rv_coin_reserve pr = 0 \<or> rv_pc_reserve pr = 0 \<Longrightarrow> sell_raydium_v4_to_mint R c a pr om slip None None \<noteq> Inr y2"
  "dm_expected_out pd = None \<Longrightarrow> sell_meteora_v2_to_mint R c a pd om slip None None \<noteq> Inr y2"
  "cl_expected_out p1 = None \<Longrightarrow> sell_raydium_clmm_to_mint R c a p1 om slip None \<noteq> Inr y2"
  "wp_expected_out p2 = None \<Longrightarrow> sell_whirlpool_to_mint R c a p2 om slip None \<noteq> Inr y2"
  "dl_expected_out p3 = None \<Longrightarrow> sell_meteora_dlmm_to_mint R' c a p3 om slip None \<noteq> Inr y2"
  by (auto simp: sell_launchlab_to_quote_def sell_via_bridge_launchlab_def sell_cpmm_to_mint_def
      sell_via_bridge_cpmm_def sell_pumpfun_def sell_raydium_v4_to_mint_def sell_meteora_v2_to_mint_def
      sell_raydium_clmm_to_mint_def sell_whirlpool_to_mint_def sell_meteora_dlmm_to_mint_def
      Let_def result_inv split: if_splits)

lemma unpriced_first_hop: "lacks_quote m \<Longrightarrow> sell_first_hop R payer m q a \<noteq> Inr y"
  by (cases m) (auto simp: sell_first_hop_def Let_def result_inv)

lemma unpriced_sell_mainstream:
  "lacks_quote m \<Longrightarrow> sell_via_bridge_mainstream R c a m b slip e pol st \<noteq> Inr y"
  by (auto simp: sell_via_bridge_mainstream_def Let_def result_inv unpriced_first_hop split: if_splits prod.splits)

lemma unpriced_sell_legs:
  assumes "lacks_quote (rm_market rm)" "to_min_out opts = None"
    "to_fixed_output opts = None \<or> \<not> fixed_sell_supported (rm_market rm)"
  shows "build_sell_legs R c a rm opts st \<noteq> Inr y"
proof (cases y)
  case (Pair r st')
  note defs = sell_legs_token_def sell_legs_sol_def Let_def fixed_sell_supported_def
  have "sell_legs_token R c a rm opts om st \<noteq> Inr y" for om
    using assms unfolding defs Pair
    by (cases "rm_market rm"; cases r) (auto simp: result_inv unpriced_sell_paths)
  moreover have "sell_legs_sol R c a rm opts w st \<noteq> Inr y" for w
    using assms unfolding defs Pair
    by (cases "rm_market rm"; cases r) (auto simp: result_inv unpriced_sell_paths unpriced_sell_mainstream)
  ultimately show ?thesis by (simp add: build_sell_legs_def split: sell_to.splits)
qed

lemma unpriced_buy_with_opts:
  assumes "lacks_quote (rm_market rm)" "to_min_out opts = None"
    "to_fixed_output opts = None \<or> \<not> fixed_buy_supported (rm_market rm)"
  shows "\<exists>e. buy_with_opts R c a rm opts = Some (Err e)"
proof -
  have "buy_with_opts R c a rm opts \<noteq> None"
    by (simp add: buy_with_opts_def Let_def bind_o_None build_buy_legs_returns del: not_None_eq split: prod.split)
  moreover have "buy_with_opts R c a rm opts \<noteq> Some (Ok t)" for t
    using unpriced_buy_legs [OF assms] by (auto simp: buy_with_opts_def Let_def result_inv split: prod.splits)
  ultimately show ?thesis by (metis not_Some_eq sum.exhaust)
qed

lemma unpriced_sell_with_opts:
  assumes "lacks_quote (rm_market rm)" "to_min_out opts = None"
    "to_fixed_output opts = None \<or> \<not> fixed_sell_supported (rm_market rm)"
  shows "\<exists>e. sell_with_opts R c a rm opts = Err e"
proof -
  have "sell_with_opts R c a rm opts \<noteq> Ok t" for t
    using unpriced_sell_legs [OF assms] by (auto simp: sell_with_opts_def Let_def result_inv split: prod.splits)
  then show ?thesis by (metis sum.exhaust)
qed

section \<open>Snapshots of events\<close>

fun priced_venue :: "market \<Rightarrow> bool" where
  "priced_venue (PumpFunInner p) = True"
| "priced_venue (PumpSwapOuter p) = True"
| "priced_venue m = False"

lemma event_snapshots:
  "launchlab_from_trade R e1 = Some p1 \<Longrightarrow> \<not> ll_fee_rates_known p1"
  "\<not> cp_fee_rates_known (cpmm_from_pool_state e2)"
  "cl_expected_out (clmm_from_pool_state e4) = None"
  "wp_expected_out (whirlpool_from_account e6) = None"
  "whirlpool_from_swap e5 = Some p5 \<Longrightarrow> wp_expected_out p5 = None"
  "dlmm_from_swap e7 = Some p7 \<Longrightarrow> dl_expected_out p7 = None"
  "damm_v2_from_swap e8 = Some p8 \<Longrightarrow> dm_expected_out p8 = None"
  "amm_v4_from_swap e9 = Some p9 \<Longrightarrow> rv_coin_reserve p9 = 0"
  by (auto simp: launchlab_from_trade_def cpmm_from_pool_state_def clmm_from_pool_state_def
      whirlpool_from_swap_def whirlpool_from_account_def dlmm_from_swap_def damm_v2_from_swap_def
      amm_v4_from_swap_def Let_def split: if_splits)

lemma clmm_swap_snapshot: "clmm_from_swap e3 = Some p3 \<Longrightarrow> cl_expected_out p3 = None"
  by (auto simp: clmm_from_swap_def Let_def split: if_splits)

lemma event_market_unpriced:
  assumes "market_from_dex_event R solscan e = Some m" "\<not> priced_venue m"
  shows "lacks_quote m"
  using assms by (cases e) (auto simp: cpmm_from_swap_def event_snapshots clmm_swap_snapshot)

lemma pumpfun_snapshot_fields:
  "pf_mint (pumpfun_from_trade solscan e) = et_mint e"
  "pf_bonding_curve (pumpfun_from_trade solscan e) = et_bonding_curve e"
  "pf_fee_rates_known (pumpfun_from_trade solscan e) = (et_ix_name e \<in> set (v1_names @ v2_names))"
  by (simp_all add: pumpfun_from_trade_def Let_def)

lemma try_pumpfun_priced:
  assumes "try_pumpfun_from_trade solscan e = Some p"
  shows "pf_fee_rates_known p \<and> pf_virtual_token_reserves p > 0 \<and> pf_virtual_sol_reserves p > 0"
proof -
  have p: "p = pumpfun_from_trade solscan e" "et_ix_name e \<in> set (v1_names @ v2_names)"
    "pf_virtual_token_reserves p > 0" "pf_virtual_sol_reserves p > 0"
    using assms by (simp_all add: try_pumpfun_from_trade_def Let_def split: if_splits)
  then show ?thesis by (simp add: pumpfun_snapshot_fields)
qed

lemma event_pumpfun_priced:
  assumes "market_from_dex_event R solscan e = Some (PumpFunInner p)"
  shows "pf_fee_rates_known p \<and> pf_virtual_token_reserves p > 0 \<and> pf_virtual_sol_reserves p > 0"
  using assms by (cases e) (auto simp: cpmm_from_swap_def dest: try_pumpfun_priced)

section \<open>The client\<close>

lemma params_market_unpriced:
  assumes "validate_protocol_params d ext"
    "d \<in> {DexPumpFun, DexRaydiumClmm, DexOrcaWhirlpool, DexMeteoraDlmm}"
    "to_routed_market_for_user X ext mint usr = Ok rm"
  shows "lacks_quote (rm_market rm) \<and> \<not> fixed_buy_supported (rm_market rm) \<and> \<not> fixed_sell_supported (rm_market rm)"
  using assms
  by (auto simp: result_inv pumpfun_from_params_def raydium_clmm_from_params_def whirlpool_from_params_def
      dlmm_from_params_def routed_pumpfun_def routed_raydium_clmm_def routed_whirlpool_def
      routed_meteora_dlmm_def routed_new_def Let_def fixed_buy_supported_def fixed_sell_supported_def
      split: dex_param.splits if_splits)

text \<open>A trade of the kinds below is refused by the client before anything is sent: the parameters of
  Pump.fun leave the fee rates unknown and those of the concentrated venues carry no quote, and the
  client has no way to pass a minimum.\<close>

lemma with_fixed_target_min: "to_min_out (with_fixed_target f t) = to_min_out t"
  by (cases f) (simp_all add: with_fixed_target_def opts_with_fixed_output_def)

lemma client_opts_min:
  "buy_opts_from_params X p = Ok opts \<Longrightarrow> to_min_out opts = None"
  "sell_opts_from_params X q = Ok opts \<Longrightarrow> to_min_out opts = None"
  by (auto simp: buy_opts_from_params_def sell_opts_from_params_def Let_def with_fixed_target_min
      opts_with_ata_def opts_with_slippage_bps_def opts_default_def split: if_splits)

definition unpriced_dex :: "dex_type \<Rightarrow> bool" where
  "unpriced_dex d \<longleftrightarrow> d \<in> {DexPumpFun, DexRaydiumClmm, DexOrcaWhirlpool, DexMeteoraDlmm}"

lemma build_buy_instructions_returns: "build_buy_instructions R X payer c p \<noteq> None"
proof -
  have "buy_with_opts R c a rm opts \<noteq> None" for a rm opts
    by (simp add: buy_with_opts_def Let_def bind_o_None build_buy_legs_returns del: not_None_eq split: prod.split)
  then show ?thesis
    by (simp add: build_buy_instructions_def bind_o_None del: not_None_eq)
qed

lemma build_buy_instructions_Ok:
  assumes "build_buy_instructions R X payer c p = Some (Ok ixs)"
  obtains rm opts t where "to_routed_market_for_user X (tb_extension_params p) (tb_mint p) payer = Ok rm"
    "routed_meme_mint rm = tb_mint p" "buy_opts_from_params X p = Ok opts"
    "buy_with_opts R c (tb_input_token_amount p) rm opts = Some (Ok t)" "ixs = into_instructions t"
    "validate_protocol_params (tb_dex_type p) (tb_extension_params p)"
  using assms by (auto simp: build_buy_instructions_def result_inv validate_requested_mint_def split: if_splits)

lemma build_sell_instructions_Ok:
  assumes "build_sell_instructions R X payer c p = Ok ixs"
  obtains rm opts t where "to_routed_market_for_user X (tl_extension_params p) (tl_mint p) payer = Ok rm"
    "routed_meme_mint rm = tl_mint p" "sell_opts_from_params X p = Ok opts"
    "sell_with_opts R c (tl_input_token_amount p) rm opts = Ok t" "ixs = into_instructions t"
    "validate_protocol_params (tl_dex_type p) (tl_extension_params p)"
  using assms by (auto simp: build_sell_instructions_def result_inv validate_requested_mint_def split: if_splits)

lemma unpriced_build_buy:
  assumes "unpriced_dex (tb_dex_type p)"
  shows "\<exists>e. build_buy_instructions R X payer c p = Some (Err e)"
proof -
  have "build_buy_instructions R X payer c p \<noteq> Some (Ok ixs)" for ixs
  proof
    assume "build_buy_instructions R X payer c p = Some (Ok ixs)"
    then obtain rm opts t where b: "to_routed_market_for_user X (tb_extension_params p) (tb_mint p) payer = Ok rm"
      "buy_opts_from_params X p = Ok opts" "validate_protocol_params (tb_dex_type p) (tb_extension_params p)"
      "buy_with_opts R c (tb_input_token_amount p) rm opts = Some (Ok t)"
      by (rule build_buy_instructions_Ok)
    have "lacks_quote (rm_market rm) \<and> \<not> fixed_buy_supported (rm_market rm)"
      using params_market_unpriced [OF b(3) assms [unfolded unpriced_dex_def] b(1)] by simp
    with unpriced_buy_with_opts [of rm opts R c "tb_input_token_amount p"] client_opts_min(1) [OF b(2)] b(4)
    show False by simp
  qed
  with build_buy_instructions_returns [of R X payer c p] show ?thesis by (metis not_Some_eq sum.exhaust)
qed

lemma unpriced_build_sell:
  assumes "unpriced_dex (tl_dex_type p)"
  shows "\<exists>e. build_sell_instructions R X payer c p = Err e"
proof -
  have "build_sell_instructions R X payer c p \<noteq> Ok ixs" for ixs
  proof
    assume "build_sell_instructions R X payer c p = Ok ixs"
    then obtain rm opts t where b: "to_routed_market_for_user X (tl_extension_params p) (tl_mint p) payer = Ok rm"
      "sell_opts_from_params X p = Ok opts" "validate_protocol_params (tl_dex_type p) (tl_extension_params p)"
      "sell_with_opts R c (tl_input_token_amount p) rm opts = Ok t"
      by (rule build_sell_instructions_Ok)
    have "lacks_quote (rm_market rm) \<and> \<not> fixed_sell_supported (rm_market rm)"
      using params_market_unpriced [OF b(3) assms [unfolded unpriced_dex_def] b(1)] by simp
    with unpriced_sell_with_opts [of rm opts R c "tl_input_token_amount p"] client_opts_min(2) [OF b(2)] b(4)
    show False by simp
  qed
  then show ?thesis by (metis sum.exhaust)
qed

text \<open>C20. The client never sends a trade on a Pump.fun, CLMM, Whirlpool or DLMM market: whatever the
  parameters, a buy or a sell of one of these kinds ends in an error and no request to the executor.
  The adapter leaves the fee rates of the curve unknown and the concentrated pools without a quote,
  and the client's options carry no minimum output.\<close>

theorem client_refuses_unpriced:
  assumes "unpriced_dex (tb_dex_type p)" "unpriced_dex (tl_dex_type q)"
  shows "(\<exists>e. trading_client_buy R X exec c p = Some (Err e, [])) \<and>
    (\<exists>e. trading_client_sell R X exec c q = Some (Err e, []))"
proof -
  obtain e1 e2 where "build_buy_instructions R X (tc_payer c) (tc_router c) p = Some (Err e1)"
    "build_sell_instructions R X (tc_payer c) (tc_router c) q = Err e2"
    using unpriced_build_buy [OF assms(1)] unpriced_build_sell [OF assms(2)] by blast
  then show ?thesis
    by (auto simp: trading_client_buy_def trading_client_sell_def split: sum.splits)
qed

text \<open>C21. A market read from a chain event carries no current price, but for the two Pump venues:
  without a minimum of the caller, and without a fixed output, no buy and no sell is built on it. A
  Pump.fun market read from an event has known fee rates and nonempty reserves.\<close>

theorem event_market_needs_minimum:
  assumes "market_from_dex_event R solscan e = Some m" "to_min_out opts = None" "to_fixed_output opts = None"
  shows "case m of PumpSwapOuter _ \<Rightarrow> True
    | PumpFunInner p \<Rightarrow> pf_fee_rates_known p \<and> pf_virtual_token_reserves p > 0 \<and> pf_virtual_sol_reserves p > 0
    | _ \<Rightarrow> \<forall>b c a. (\<exists>err. buy_with_opts R c a \<lparr>rm_market = m, rm_bridge = b\<rparr> opts = Some (Err err)) \<and>
        (\<exists>err. sell_with_opts R c a \<lparr>rm_market = m, rm_bridge = b\<rparr> opts = Err err)"
proof (cases "priced_venue m")
  case True
  then show ?thesis using assms(1) event_pumpfun_priced [of R solscan e] by (cases m) auto
next
  case False
  then have "lacks_quote m" using event_market_unpriced assms(1) by blast
  then have "(\<exists>err. buy_with_opts R c a \<lparr>rm_market = m, rm_bridge = b\<rparr> opts = Some (Err err)) \<and>
    (\<exists>err. sell_with_opts R c a \<lparr>rm_market = m, rm_bridge = b\<rparr> opts = Err err)" for b c a
    using unpriced_buy_with_opts [of "\<lparr>rm_market = m, rm_bridge = b\<rparr>" opts R c a]
      unpriced_sell_with_opts [of "\<lparr>rm_market = m, rm_bridge = b\<rparr>" opts R c a] assms(2,3) by simp
  with False show ?thesis by (cases m) simp_all
qed

section \<open>What a submitted buy does\<close>

text \<open>The promise of a buy route over any run of the program: the payer's own account of what the
  caller pays with loses at most \<open>amount\<close>, the payer's associated account of the bought mint gains at
  least the fixed output, or else a positive minimum.\<close>

definition buy_settles ::
  "sdk_env \<Rightarrow> router_client \<Rightarrow> routed_market \<Rightarrow> buy_with \<Rightarrow> u64 \<Rightarrow> u64 option \<Rightarrow> instruction \<Rightarrow> bool" where
  "buy_settles R c rm b amount fixed i \<longleftrightarrow>
     (\<forall>RT accs s s'. delivers accs (ix_accounts i) \<longrightarrow>
        process_instruction RT (rt_program_id c) accs (ix_data i) s = Ok s' \<longrightarrow>
        (\<exists>p lam src paid0 paid1 cfg ra fee s1 native got0 got1 m. split_accounts accs 0 = Ok p \<and>
          address (user p) = rt_payer c \<and> is_signer (user p) \<and>
          buy_payment R (rt_payer c) rm b = (lam, src) \<and> address (fee_source p) = src \<and>
          output_balance (ledger s src) lam = Ok paid0 \<and> output_balance (ledger s' src) lam = Ok paid1 \<and>
          unat paid0 \<le> unat paid1 + unat amount \<and>
          address (user_output p) =
            ata R (rt_payer c) (routed_meme_mint rm) (routed_meme_token_program rm) \<and>
          validate_output (user p) (user_output p) (routed_meme_mint rm) False (ledger s) = Ok native \<and>
          check_config RT (rt_program_id c) (config_acc p) (ledger s) = Ok cfg \<and>
          ra \<le> amount \<and> checked_fee ra (fee_bps cfg) = Ok fee \<and>
          pay_fee RT p cfg (fee_asset_of lam) fee s = Ok s1 \<and>
          output_balance (ledger s1 (address (user_output p))) native = Ok got0 \<and>
          output_balance (ledger s' (address (user_output p))) native = Ok got1 \<and>
          unat m \<le> unat got1 - unat got0 \<and>
          (case fixed of Some a \<Rightarrow> m = a | None \<Rightarrow> m \<noteq> 0)))"

lemma with_fixed_target_fixed:
  "to_fixed_output (with_fixed_target f t) = (case f of Some a \<Rightarrow> Some a | None \<Rightarrow> to_fixed_output t)"
  by (cases f) (simp_all add: with_fixed_target_def opts_with_fixed_output_def)

lemma client_opts_fixed:
  "buy_opts_from_params X p = Ok opts \<Longrightarrow> to_fixed_output opts = tb_fixed_output_token_amount p"
  by (auto simp: buy_opts_from_params_def Let_def with_fixed_target_fixed opts_with_ata_def
      opts_with_slippage_bps_def opts_default_def split: if_splits option.split)

lemma client_opts_buy_with:
  "buy_opts_from_params X p = Ok opts \<Longrightarrow> to_buy_with opts = trade_token_to_buy_with X (tb_input_token_type p)"
  by (auto simp: buy_opts_from_params_def Let_def with_fixed_target_def opts_with_fixed_output_def
      split: if_splits option.split)

lemma trading_client_buy_sent:
  assumes "trading_client_buy R X exec c p = Some (res, reqs)" "reqs \<noteq> []"
  obtains ixs where "build_buy_instructions R X (tc_payer c) (tc_router c) p = Some (Ok ixs)"
    "reqs = [buy_request c p ixs]" "res = exec (buy_request c p ixs)" "\<not> tb_simulate p"
    "tb_recent_blockhash p \<noteq> None \<or> tb_durable_nonce p \<noteq> None"
    "\<forall>gate. tc_risk_gate c = Some gate \<longrightarrow> gate p = Ok ()"
  using assms by (auto simp: trading_client_buy_def submit_def split: if_splits sum.splits option.splits)

text \<open>C3. What a buy of the client does, from its parameters to the balances on chain. A request is
  sent only for a trade with a blockhash or a nonce that the risk gate admits and that is not
  simulated. Its instructions hold one route for the mint that was asked for; when the program
  executes that route, the payer's own account of the token type that pays (the payer's lamports, or an
  associated account of the payer) loses at most the amount of the parameters, and the payer's
  associated account of that mint gains, after the platform fee, at least the fixed output, or else a
  positive minimum.\<close>

theorem client_buy_executes:
  assumes "trading_client_buy R X exec c p = Some (res, reqs)" "req \<in> set reqs"
  shows "reqs = [req] \<and> res = exec req \<and> \<not> tb_simulate p \<and>
    (tb_recent_blockhash p \<noteq> None \<or> tb_durable_nonce p \<noteq> None) \<and>
    (\<forall>gate. tc_risk_gate c = Some gate \<longrightarrow> gate p = Ok ()) \<and>
    (\<exists>rm opts t i. to_routed_market_for_user X (tb_extension_params p) (tb_mint p) (tc_payer c) = Ok rm \<and>
      routed_meme_mint rm = tb_mint p \<and> buy_opts_from_params X p = Ok opts \<and>
      buy_with_opts R (tc_router c) (tb_input_token_amount p) rm opts = Some (Ok t) \<and>
      sr_instructions req = into_instructions t \<and> bt_route t = Some i \<and>
      buy_settles R (tc_router c) rm (trade_token_to_buy_with X (tb_input_token_type p))
        (tb_input_token_amount p) (tb_fixed_output_token_amount p) i)"
proof -
  have "reqs \<noteq> []" using assms(2) by auto
  with assms(1) obtain ixs where x: "build_buy_instructions R X (tc_payer c) (tc_router c) p = Some (Ok ixs)"
    "reqs = [buy_request c p ixs]" "res = exec (buy_request c p ixs)" "\<not> tb_simulate p"
    "tb_recent_blockhash p \<noteq> None \<or> tb_durable_nonce p \<noteq> None"
    "\<forall>gate. tc_risk_gate c = Some gate \<longrightarrow> gate p = Ok ()"
    by (rule trading_client_buy_sent)
  from x(1) obtain rm opts t where b:
    "to_routed_market_for_user X (tb_extension_params p) (tb_mint p) (tc_payer c) = Ok rm"
    "routed_meme_mint rm = tb_mint p" "buy_opts_from_params X p = Ok opts"
    "buy_with_opts R (tc_router c) (tb_input_token_amount p) rm opts = Some (Ok t)" "ixs = into_instructions t"
    by (rule build_buy_instructions_Ok)
  obtain i where i: "bt_route t = Some i" using buy_with_opts_Ok [OF b(4)] by metis
  have min: "to_min_out opts = None" "to_fixed_output opts = tb_fixed_output_token_amount p"
    using client_opts_min(1) [OF b(3)] client_opts_fixed [OF b(3)] by simp_all
  have "buy_settles R (tc_router c) rm (trade_token_to_buy_with X (tb_input_token_type p))
      (tb_input_token_amount p) (tb_fixed_output_token_amount p) i"
    unfolding buy_settles_def
  proof (intro allI impI)
    fix RT accs s s'
    assume r: "delivers accs (ix_accounts i)"
      "process_instruction RT (rt_program_id (tc_router c)) accs (ix_data i) s = Ok s'"
    show "\<exists>p' lam src paid0 paid1 cfg ra fee s1 native got0 got1 m. split_accounts accs 0 = Ok p' \<and>
          address (user p') = rt_payer (tc_router c) \<and> is_signer (user p') \<and>
          buy_payment R (rt_payer (tc_router c)) rm (trade_token_to_buy_with X (tb_input_token_type p)) =
            (lam, src) \<and> address (fee_source p') = src \<and>
          output_balance (ledger s src) lam = Ok paid0 \<and> output_balance (ledger s' src) lam = Ok paid1 \<and>
          unat paid0 \<le> unat paid1 + unat (tb_input_token_amount p) \<and>
          address (user_output p') =
            ata R (rt_payer (tc_router c)) (routed_meme_mint rm) (routed_meme_token_program rm) \<and>
          validate_output (user p') (user_output p') (routed_meme_mint rm) False (ledger s) = Ok native \<and>
          check_config RT (rt_program_id (tc_router c)) (config_acc p') (ledger s) = Ok cfg \<and>
          ra \<le> tb_input_token_amount p \<and> checked_fee ra (fee_bps cfg) = Ok fee \<and>
          pay_fee RT p' cfg (fee_asset_of lam) fee s = Ok s1 \<and>
          output_balance (ledger s1 (address (user_output p'))) native = Ok got0 \<and>
          output_balance (ledger s' (address (user_output p'))) native = Ok got1 \<and>
          unat m \<le> unat got1 - unat got0 \<and>
          (case tb_fixed_output_token_amount p of Some a \<Rightarrow> m = a | None \<Rightarrow> m \<noteq> 0)"
      using buy_settled [OF b(4) i r] unfolding min option.case(1) client_opts_buy_with [OF b(3)] .
  qed
  moreover have "sr_instructions req = into_instructions t" "req = buy_request c p ixs"
    using assms(2) x(2) b(5) by (auto simp: buy_request_def)
  ultimately show ?thesis using x b i by blast
qed

section \<open>Witnesses\<close>

definition demo_cpmm_params :: cpmm_params where
  "demo_cpmm_params = \<lparr>cq_pool_state = 52, cq_amm_config = 51, cq_observation_state = 55, cq_base_mint = 21,
     cq_quote_mint = 20, cq_base_vault = 54, cq_quote_vault = 53, cq_base_token_program = 0,
     cq_quote_token_program = TOKEN_PROGRAM, cq_base_reserve = 100000, cq_quote_reserve = 100000,
     cq_trade_fee_rate = 2500, cq_creator_fee_rate = 0, cq_creator_fee_on = 0, cq_enable_creator_fee = False,
     cq_base_transfer_fee = no_transfer_fee, cq_quote_transfer_fee = no_transfer_fee\<rparr>"

definition demo_trade_sdk :: trade_sdk where
  "demo_trade_sdk = \<lparr>tx_sol_token_account = 60, tx_usd1_token_account = 61, tx_mayhem_fee_recipient = 62,
     tx_protocol_fee_recipient = 63, tx_bonding_curve_v2_pda = Some, tx_user_volume_accumulator_pda = Some,
     tx_effective_quote_mint = bc_quote_mint, tx_effective_creator = pq_creator_vault,
     tx_resolve_creator_vault = (\<lambda>a b c d. Some b)\<rparr>"

definition demo_params :: "dex_type \<Rightarrow> dex_param \<Rightarrow> nat trade_buy_params" where
  "demo_params d ext = \<lparr>tb_dex_type = d, tb_input_token_type = TradeToken 20, tb_mint = 21,
     tb_input_token_amount = 100, tb_slippage_basis_points = Some 700, tb_recent_blockhash = Some 5,
     tb_extension_params = ext, tb_address_lookup_table_accounts = [], tb_wait_tx_confirmed = True,
     tb_wait_for_all_submits = False, tb_create_input_token_ata = False, tb_close_input_token_ata = False,
     tb_create_mint_ata = False, tb_durable_nonce = None, tb_fixed_output_token_amount = None,
     tb_gas_fee_strategy = 0, tb_simulate = False, tb_use_exact_sol_amount = None\<rparr>"

definition demo_sale :: "dex_type \<Rightarrow> dex_param \<Rightarrow> nat trade_sell_params" where
  "demo_sale d ext = \<lparr>tl_dex_type = d, tl_output_token_type = TradeSOL, tl_mint = 21,
     tl_input_token_amount = 100, tl_slippage_basis_points = None, tl_recent_blockhash = Some 5,
     tl_with_tip = False, tl_extension_params = ext, tl_address_lookup_table_accounts = [],
     tl_wait_tx_confirmed = True, tl_wait_for_all_submits = False, tl_create_output_token_ata = False,
     tl_close_output_token_ata = False, tl_close_mint_token_ata = False, tl_durable_nonce = None,
     tl_fixed_output_token_amount = None, tl_gas_fee_strategy = 0, tl_simulate = False\<rparr>"

definition demo_trader :: "nat trading_client" where
  "demo_trader = (from_infrastructure 1 \<lparr>if_handle = 0, if_max_sender_concurrency = 2,
     if_effective_core_ids = [0]\<rparr> 9 100 False)\<lparr>tc_router := demo_client\<rparr>"

lemma demo_trader_simps [simp]:
  "tc_payer demo_trader = 1" "tc_router demo_trader = demo_client" "tc_risk_gate demo_trader = None"
  by (simp_all add: demo_trader_def from_infrastructure_def)

lemma demo_params_market:
  "to_routed_market_for_user demo_trade_sdk (ParamRaydiumCpmm demo_cpmm_params) mint usr = Ok demo_buy_market"
  by (simp add: routed_new_def demo_buy_market_def cpmm_from_params_def demo_cpmm_params_def demo_buy_pool_def
      token_program_or_spl_def to_router_def no_transfer_fee_def)

definition demo_client_opts :: trade_opts where
  "demo_client_opts = \<lparr>to_slippage_bps = 700, to_min_out = None, to_fixed_output = None,
     to_buy_with = BuyToken 20, to_sell_to = SellSol, to_ata = policy_default\<rparr>"

lemma demo_client_opts:
  "buy_opts_from_params demo_trade_sdk (demo_params DexRaydiumCpmm ext) = Ok demo_client_opts"
  by (simp add: buy_opts_from_params_def demo_params_def Let_def demo_client_opts_def with_fixed_target_def
      opts_with_ata_def opts_with_slippage_bps_def opts_default_def buy_ata_policy_def policy_default_def)

lemma demo_client_quote:
  "cpmm_out demo_buy_pool 99 False = Ok 97" "apply_slippage_min_out 97 700 = 90"
proof -
  show "cpmm_out demo_buy_pool 99 False = Ok 97"
    by (simp add: cpmm_out_def cpmm_sides_def demo_buy_pool_def cpmm_creator_rate_def FEE_DENOM_def
      widen_def no_transfer_fee_def calculate_def checked_sub_def checked_add_def sat_mul_def sat_add_def
      as_u64_def creator_fee_on_input_def Let_def cpmm_curve_def cpmm_trade_fee_def cpmm_swapped_def sat_sub_def)
  have "widen U64_MAX = 18446744073709551615" by (simp add: word_eq_unat U64_MAX_def)
  then have "(ucast U64_MAX :: u128) = 18446744073709551615" by (simp add: widen_def)
  then show "apply_slippage_min_out 97 700 = 90"
    by (simp add: apply_slippage_min_out_def clamp_slippage_bps_def widen_def Let_def sat_sub_def sat_mul_def
        as_u64_def MAX_SLIPPAGE_BPS_def min_def)
qed

lemma demo_client_legs:
  "\<exists>st'. build_buy_legs demo_env demo_client 99 demo_buy_market demo_client_opts st =
     Some (Ok (([demo_buy_leg], 90, 99), st'))"
proof -
  have "(20 = cp_base_mint demo_buy_pool) = False" by (simp add: demo_buy_pool_def)
  then show ?thesis
    by (simp add: build_buy_legs_def buy_legs_token_def spending_def buy_cpmm_with_mint_def
        demo_buy_mints Let_def demo_buy_swap demo_client_opts_def demo_client_quote)
qed

lemma demo_client_buy:
  "\<exists>t. buy_with_opts demo_env demo_client 100 demo_buy_market demo_client_opts = Some (Ok t) \<and>
     bt_route t = Some demo_buy_ix"
proof -
  have o: "to_buy_with demo_client_opts = BuyToken 20" "to_min_out demo_client_opts = None"
    "to_fixed_output demo_client_opts = None" by (simp_all add: demo_client_opts_def)
  have f: "fee_amount 100 100 = 1" by (simp add: word_eq_unat unat_fee_amount)
  then have "buy_market_checks demo_env demo_client 100 demo_buy_market demo_client_opts = Ok ()"
    by (simp add: buy_market_checks_def validate_router_fee_bps_def assert_routed_market_ok_def
        assert_cpmm_ok_def assert_bridge_ok_def trust_def guard_default_def is_trusted_def
        demo_buy_pool_def sat_sub_def)
  moreover have "buy_path_checks demo_buy_market demo_client_opts = Ok ()"
    by (simp add: buy_path_checks_def buy_needs_bridge_def demo_buy_mints validate_fixed_output_def
        is_pump_native_sol_def o)
  moreover obtain st where "build_buy_legs demo_env demo_client 99 demo_buy_market demo_client_opts
      (buy_initial_state demo_env demo_client demo_buy_market demo_client_opts) =
      Some (Ok (([demo_buy_leg], 90, 99), st))" using demo_client_legs by blast
  moreover have "bt_route (finish_buy demo_env demo_client demo_buy_market demo_client_opts 1 100 90
      [demo_buy_leg] st) = Some demo_buy_ix"
    by (simp add: finish_buy_def Let_def buy_fee_accounts_def demo_buy_mints demo_ata_def demo_buy_ix_def
        demo_ix_accounts_def FEE_ASSET_TOKEN_def token_program_of_payment_def token_fee_program_def
        program_agrees o)
  ultimately show ?thesis
    by (simp add: buy_with_opts_def Let_def f sat_sub_def buy_route_amount_def o)
qed

definition demo_exec :: "nat executor" where
  "demo_exec r = Ok \<lparr>sa_ok = True, sa_signatures = [[1]], sa_error = None, sa_timings = []\<rparr>"

lemma demo_client_sent:
  "\<exists>res req. trading_client_buy demo_env demo_trade_sdk demo_exec demo_trader
      (demo_params DexRaydiumCpmm (ParamRaydiumCpmm demo_cpmm_params)) = Some (res, [req])"
proof -
  let ?p = "demo_params DexRaydiumCpmm (ParamRaydiumCpmm demo_cpmm_params)"
  obtain t where t: "buy_with_opts demo_env demo_client 100 demo_buy_market demo_client_opts = Some (Ok t)"
    "bt_route t = Some demo_buy_ix" using demo_client_buy by blast
  have f: "tb_dex_type ?p = DexRaydiumCpmm" "tb_extension_params ?p = ParamRaydiumCpmm demo_cpmm_params"
    "tb_mint ?p = 21" "tb_input_token_amount ?p = 100" "tb_recent_blockhash ?p = Some 5" "\<not> tb_simulate ?p"
    by (simp_all add: demo_params_def)
  have "build_buy_instructions demo_env demo_trade_sdk 1 demo_client ?p = Some (Ok (into_instructions t))"
    by (simp add: build_buy_instructions_def f demo_params_market validate_requested_mint_def demo_buy_mints
        demo_client_opts t(1) del: to_routed_market_for_user.simps)
  then have "trading_client_buy demo_env demo_trade_sdk demo_exec demo_trader ?p =
      Some (demo_exec (buy_request demo_trader ?p (into_instructions t)),
        [buy_request demo_trader ?p (into_instructions t)])"
    by (simp add: trading_client_buy_def f submit_def)
  then show ?thesis by blast
qed

theorem client_buy_executes_witness:
  "\<exists>res req s' paid0 paid1 got0 got1 m native.
     trading_client_buy demo_env demo_trade_sdk demo_exec demo_trader
       (demo_params DexRaydiumCpmm (ParamRaydiumCpmm demo_cpmm_params)) = Some (res, [req]) \<and>
     demo_buy_ix \<in> set (sr_instructions req) \<and>
     process_instruction demo_runtime 7 (ix_accounts demo_buy_ix) (ix_data demo_buy_ix) demo_chain = Ok s' \<and>
     token_amount (ledger demo_chain 4) = Ok paid0 \<and> token_amount (ledger s' 4) = Ok paid1 \<and>
     unat paid0 \<le> unat paid1 + unat (100 :: u64) \<and>
     output_balance (ledger s' 5) native = Ok got1 \<and> unat m \<le> unat got1 - unat (got0 :: u64) \<and> (m :: u64) \<noteq> 0"
proof -
  let ?p = "demo_params DexRaydiumCpmm (ParamRaydiumCpmm demo_cpmm_params)"
  obtain res req where r: "trading_client_buy demo_env demo_trade_sdk demo_exec demo_trader ?p = Some (res, [req])"
    using demo_client_sent by blast
  have f: "tb_extension_params ?p = ParamRaydiumCpmm demo_cpmm_params" "tb_mint ?p = 21"
    "tb_input_token_amount ?p = 100" "tb_fixed_output_token_amount ?p = None" by (simp_all add: demo_params_def)
  obtain u where u: "buy_with_opts demo_env demo_client 100 demo_buy_market demo_client_opts = Some (Ok u)"
    "bt_route u = Some demo_buy_ix" using demo_client_buy by blast
  have "req \<in> set [req]" by simp
  from client_buy_executes [OF r this] obtain rm opts t i where
    "to_routed_market_for_user demo_trade_sdk (tb_extension_params ?p) (tb_mint ?p) 1 = Ok rm"
    "buy_opts_from_params demo_trade_sdk ?p = Ok opts"
    "buy_with_opts demo_env demo_client 100 rm opts = Some (Ok t)"
    "sr_instructions req = into_instructions t" "bt_route t = Some i"
    "buy_settles demo_env demo_client rm (trade_token_to_buy_with demo_trade_sdk (tb_input_token_type ?p))
       100 None i"
    unfolding f demo_trader_simps by blast
  with u have s: "sr_instructions req = into_instructions u"
    "buy_settles demo_env demo_client demo_buy_market (to_buy_with demo_client_opts) 100 None demo_buy_ix"
    by (simp_all add: f demo_params_market demo_client_opts
        client_opts_buy_with [OF demo_client_opts [of "ParamRaydiumCpmm demo_cpmm_params"]]
        del: to_routed_market_for_user.simps)
  obtain s' where s': "process_instruction demo_runtime 7 (ix_accounts demo_buy_ix) (ix_data demo_buy_ix)
      demo_chain = Ok s'" using demo_buy_run ..
  from s(2) [unfolded buy_settles_def, rule_format, OF delivers_refl, of demo_runtime demo_chain s',
      unfolded demo_buy_simps option.case, OF s']
  obtain lam src paid0 paid1 native and got0 got1 m :: u64 and u :: route_accounts where
    b: "buy_payment demo_env 1 demo_buy_market (to_buy_with demo_client_opts) = (lam, src)"
      "output_balance (ledger demo_chain src) lam = Ok paid0" "output_balance (ledger s' src) lam = Ok paid1"
    and paid: "unat paid0 \<le> unat paid1 + unat (100 :: u64)"
    and out: "address (user_output u) = ata demo_env 1 (routed_meme_mint demo_buy_market)
        (routed_meme_token_program demo_buy_market)"
      "output_balance (ledger s' (address (user_output u))) native = Ok got1"
    and m: "unat m \<le> unat got1 - unat got0" "m \<noteq> 0"
    by (elim exE conjE) (rule that, assumption+)
  have "lam = False \<and> src = 4"
    using b(1) by (simp add: buy_payment_def demo_ata_def demo_client_opts_def)
  with b(2,3) have amounts: "token_amount (ledger demo_chain 4) = Ok paid0" "token_amount (ledger s' 4) = Ok paid1"
    by (simp_all add: output_balance_def)
  have got: "output_balance (ledger s' 5) native = Ok got1"
    using out by (simp add: demo_buy_mints demo_ata_def)
  have "demo_buy_ix \<in> set (sr_instructions req)" using s(1) u(2) by (simp add: into_instructions_def)
  note conjI [OF r conjI [OF this conjI [OF s' conjI [OF amounts(1) conjI [OF amounts(2) conjI [OF paid
    conjI [OF got conjI [OF m]]]]]]]]
  then show ?thesis by (intro exI)
qed

definition demo_curve_account :: curve_account where
  "demo_curve_account = \<lparr>bc_account = 70, bc_quote_mint = 0, bc_creator = 71, bc_complete = False,
     bc_virtual_token_reserves = 1000000, bc_virtual_sol_reserves = 1000, bc_real_token_reserves = 800000,
     bc_is_cashback_coin = False\<rparr>"

definition demo_pumpfun_params :: pumpfun_params where
  "demo_pumpfun_params = \<lparr>pq_bonding_curve = demo_curve_account, pq_quote_mint = 0, pq_token_program = 0,
     pq_associated_bonding_curve = 72, pq_creator_vault = 73,
     pq_fee_sharing_creator_vault_if_active = None, pq_fee_recipient = 74\<rparr>"

theorem client_refuses_unpriced_witness:
  "(\<exists>e. trading_client_buy demo_env demo_trade_sdk demo_exec demo_trader
      (demo_params DexPumpFun (ParamPumpFun demo_pumpfun_params)) = Some (Err e, [])) \<and>
   (\<exists>e. trading_client_sell demo_env demo_trade_sdk demo_exec demo_trader
      (demo_sale DexPumpFun (ParamPumpFun demo_pumpfun_params)) = Some (Err e, [])) \<and>
   (\<exists>rm. to_routed_market_for_user demo_trade_sdk (ParamPumpFun demo_pumpfun_params) 21 1 = Ok rm)"
proof -
  have "unpriced_dex (tb_dex_type (demo_params DexPumpFun (ParamPumpFun demo_pumpfun_params)))"
    "unpriced_dex (tl_dex_type (demo_sale DexPumpFun (ParamPumpFun demo_pumpfun_params)))"
    by (simp_all add: unpriced_dex_def demo_params_def demo_sale_def)
  moreover have "\<exists>rm. to_routed_market_for_user demo_trade_sdk (ParamPumpFun demo_pumpfun_params) 21 1 = Ok rm"
    by (simp add: pumpfun_from_params_def demo_pumpfun_params_def demo_curve_account_def demo_trade_sdk_def Let_def)
  ultimately show ?thesis using client_refuses_unpriced by blast
qed

definition demo_swap_event :: amm_v4_swap_event where
  "demo_swap_event = \<lparr>ex_amm = 80, ex_pool_coin_token_account = 81, ex_pool_pc_token_account = 82,
     ex_token_program = 0, ex_amm_open_orders = 0, ex_amm_target_orders = None, ex_serum_program = 0,
     ex_serum_market = 0, ex_serum_bids = 0, ex_serum_asks = 0, ex_serum_event_queue = 0,
     ex_serum_coin_vault_account = 0, ex_serum_pc_vault_account = 0, ex_serum_vault_signer = 0\<rparr>"

theorem event_market_needs_minimum_witness:
  "\<exists>m. market_from_dex_event demo_env 90 (EvAmmV4Swap demo_swap_event) = Some (RaydiumAmmV4 m) \<and>
     (\<exists>err. buy_with_opts demo_env demo_client 100 \<lparr>rm_market = RaydiumAmmV4 m, rm_bridge = None\<rparr>
        demo_client_opts = Some (Err err))"
proof -
  obtain m where m: "market_from_dex_event demo_env 90 (EvAmmV4Swap demo_swap_event) = Some (RaydiumAmmV4 m)"
    by (simp add: amm_v4_from_swap_def demo_swap_event_def)
  have "to_min_out demo_client_opts = None" "to_fixed_output demo_client_opts = None"
    by (simp_all add: demo_client_opts_def)
  from event_market_needs_minimum [OF m this] m show ?thesis by fastforce
qed

end
