(* ===== verification/Adapter_Props.thy ===== *)
theory Adapter_Props
  imports Client_Props
begin

text \<open>
  Snapshots read from account bytes: the walk over the extensions of a mint agrees with the list it
  encodes, a curve refreshed over RPC is what one answer of the node says, a loaded route names the
  token programs that own its mints, and a loaded Pump V3 pool lacks at most three of its checks.
\<close>

section \<open>The extensions of a mint\<close>

text \<open>An extension as its kind and value, and its encoding: kind, length, value.\<close>

type_synonym extension = "u16 \<times> bytes"

definition encode_extension :: "extension \<Rightarrow> bytes" where
  "encode_extension e = u16_bytes (fst e) @ u16_bytes (of_nat (length (snd e))) @ snd e"

definition encode_extensions :: "extension list \<Rightarrow> bytes" where
  "encode_extensions es = concat (map encode_extension es)"

text \<open>What an encoder can write: a kind other than the end marker, a length in 16 bits.\<close>

definition wf_extension :: "extension \<Rightarrow> bool" where
  "wf_extension e \<longleftrightarrow> fst e \<noteq> 0 \<and> length (snd e) < 65536"

text \<open>What the router supports: kinds that move no tokens, and a transfer hook without a program.\<close>

definition supported_extension :: "extension \<Rightarrow> bool" where
  "supported_extension e \<longleftrightarrow> fst e \<in> set inert_extensions \<or>
     fst e = 14 \<and> length (snd e) = 64 \<and> (\<forall>b\<in>set (drop 32 (snd e)). b = 0)"

text \<open>The end of the list: fewer than four bytes, or the end marker.\<close>

definition ends_list :: "bytes \<Rightarrow> bool" where
  "ends_list t \<longleftrightarrow> length t < 4 \<or> take 2 t = u16_bytes 0"

lemma length_encode_extension: "length (encode_extension e) = 4 + length (snd e)"
  by (simp add: encode_extension_def)

lemma extension_head:
  assumes "wf_extension e"
  shows "u16_of (slice (length pre) (length pre + 2) (pre @ encode_extension e @ post)) = fst e"
    "unat (u16_of (slice (length pre + 2) (length pre + 4) (pre @ encode_extension e @ post))) = length (snd e)"
proof -
  show "u16_of (slice (length pre) (length pre + 2) (pre @ encode_extension e @ post)) = fst e"
    using u16c.read_back [of pre "fst e"] by (simp add: encode_extension_def)
  have four: "length pre + 4 = Suc (Suc (Suc (Suc (length pre))))" by simp
  have "unat (of_nat (length (snd e)) :: u16) = length (snd e)"
    using assms by (simp add: wf_extension_def unat_of_nat)
  then show "unat (u16_of (slice (length pre + 2) (length pre + 4) (pre @ encode_extension e @ post)))
      = length (snd e)"
    using u16c.read_back [of "pre @ u16_bytes (fst e)" "of_nat (length (snd e))" "snd e @ post"]
    by (simp add: encode_extension_def four)
qed

lemma hook_program_bytes:
  assumes "length (snd e) = 64"
  shows "slice (length pre + 36) (length pre + 68) (pre @ encode_extension e @ post) = drop 32 (snd e)"
  using assms by (simp add: slice_def encode_extension_def)

lemma mint_extensions_end:
  assumes "ends_list t"
  shows "mint_extensions (pre @ t) (length pre) = Ok ()"
proof (cases "length t < 4")
  case True
  then show ?thesis by (simp add: mint_extensions.simps [of "pre @ t"])
next
  case False
  then have "take 2 t = u16_bytes 0" using assms by (simp add: ends_list_def)
  then have "u16_of (slice (length pre) (length pre + 2) (pre @ t)) = 0"
    by (simp add: slice_def)
  then show ?thesis by (simp add: mint_extensions.simps [of "pre @ t"] Let_def)
qed

lemma mint_extensions_step:
  assumes "wf_extension e"
  shows "mint_extensions (pre @ encode_extension e @ post) (length pre) = Ok () \<longleftrightarrow>
    supported_extension e \<and>
    mint_extensions (pre @ encode_extension e @ post) (length (pre @ encode_extension e)) = Ok ()"
proof -
  have z: "fst e \<noteq> 0" "14 \<notin> set inert_extensions"
    using assms by (simp_all add: wf_extension_def inert_extensions_def)
  have hook: "length (snd e) = 64 \<Longrightarrow>
    list_ex (\<lambda>b. b \<noteq> 0) (slice (length pre + 36) (length pre + 68) (pre @ encode_extension e @ post)) =
    (\<not> (\<forall>b\<in>set (drop 32 (snd e)). b = 0))"
    by (simp add: hook_program_bytes list_ex_iff)
  show ?thesis
    using z hook extension_head [OF assms, of pre post]
    by (subst mint_extensions.simps)
      (auto simp: Let_def supported_extension_def length_encode_extension add.assoc)
qed

lemma mint_extensions_iff:
  assumes "list_all wf_extension es" "ends_list t"
  shows "mint_extensions (pre @ encode_extensions es @ t) (length pre) = Ok () \<longleftrightarrow> list_all supported_extension es"
  using assms(1)
proof (induction es arbitrary: pre)
  case Nil
  then show ?case using mint_extensions_end [OF assms(2)] by (simp add: encode_extensions_def)
next
  case (Cons e es)
  have "mint_extensions (pre @ encode_extension e @ encode_extensions es @ t) (length (pre @ encode_extension e)) = Ok ()
    \<longleftrightarrow> list_all supported_extension es"
    using Cons.IH [of "pre @ encode_extension e"] Cons.prems by simp
  with mint_extensions_step [of e pre "encode_extensions es @ t"] Cons.prems show ?case
    by (simp add: encode_extensions_def)
qed

text \<open>C22. The check of a Token-2022 mint is the one a reader of its extension list would make: for
  an initialized mint whose bytes encode a list of extensions, the walk over the bytes accepts it
  exactly when every extension is one that moves no tokens, or a transfer hook with no program.\<close>

theorem mint_program_iff:
  assumes "owner a = TOKEN_2022_PROGRAM" "acc_data a = head @ encode_extensions es @ t" "length head = 166"
    "head ! 45 = 1" "head ! 165 = 1" "list_all wf_extension es" "ends_list t"
  shows "mint_program a = Ok TOKEN_2022_PROGRAM \<longleftrightarrow> list_all supported_extension es"
proof -
  have "mint_extensions (acc_data a) 166 = Ok () \<longleftrightarrow> list_all supported_extension es"
    using mint_extensions_iff [OF assms(6,7), of head] assms(2,3) by simp
  moreover have "get_at (acc_data a) 45 = Some 1" "get_at (acc_data a) 165 = Some 1" "length (acc_data a) > 82"
    using assms(2-5) by (simp_all add: get_at_def nth_append)
  ultimately show ?thesis using assms(1)
    by (cases "mint_extensions (acc_data a) 166") (auto simp: mint_program_def Let_def)
qed

definition demo_mint_2022 :: account_state where
  "demo_mint_2022 = \<lparr>lamports = 0, owner = TOKEN_2022_PROGRAM,
     acc_data = (replicate 45 0 @ [1] @ replicate 119 0 @ [1]) @
       encode_extensions [(18, replicate 64 7), (14, replicate 64 0)] @ []\<rparr>"

theorem mint_program_iff_witness: "mint_program demo_mint_2022 = Ok TOKEN_2022_PROGRAM"
proof -
  have "list_all wf_extension [(18, replicate 64 7), (14, replicate 64 0)]"
    "list_all supported_extension [(18, replicate 64 7), (14, replicate 64 0)]"
    by (simp_all add: wf_extension_def supported_extension_def inert_extensions_def)
  then show ?thesis
    using mint_program_iff [of demo_mint_2022 "replicate 45 0 @ [1] @ replicate 119 0 @ [1]"
        "[(18, replicate 64 7), (14, replicate 64 0)]" "[]"]
    by (simp add: demo_mint_2022_def ends_list_def nth_append)
qed

section \<open>Refreshed curves\<close>

lemma choose_recipient_nonzero: "choose_recipient d a b c = Ok k \<Longrightarrow> k \<noteq> 0"
  by (auto simp: choose_recipient_def result_inv find_Some_iff split: if_splits)


lemma if_Err_Ok: "(if b then Inl e else r) = Inr y \<longleftrightarrow> \<not> b \<and> r = Inr y"
  by simp

lemma curve_checks_cashback:
  "curve_checks p curve global b True = Ok u \<Longrightarrow> get_at (acc_data curve) 82 \<noteq> Some 1"
  by (simp add: curve_checks_def Let_def split: if_splits)

lemma apply_inner_inv:
  assumes "apply_inner R F p curve global config mint quote v3 = Ok q"
  obtains base_program quote_program base quoted real over recipient buyback u minted
    and fees :: fee_points and creator :: pubkey where
    "p\<lparr>pf_protocol_fee_bps := fp_protocol fees,
          pf_creator_fee_bps := (if creator = 0 then 0
            else if over \<noteq> 0 then over else fp_creator fees),
          pf_has_creator := (creator \<noteq> 0),
          pf_is_cashback_coin := (get_at (acc_data curve) 82 = Some 1),
          pf_virtual_token_reserves := base, pf_virtual_sol_reserves := quoted,
          pf_real_token_reserves := real, pf_mint_token_program := base_program,
          pf_quote_token_program := quote_program,
          pf_associated_bonding_curve := ata R (pf_bonding_curve p) (pf_mint p) base_program,
          pf_fee_recipient := recipient, pf_buyback_fee_recipient := buyback,
          pf_fee_rates_known := True\<rparr> = q"
    "curve_checks p curve global (config \<noteq> None) v3 = Ok u"
    "mint_program mint = Ok base_program" "mint_program quote = Ok quote_program"
    "\<not> (base = 0 \<or> quoted = 0)" "recipient \<noteq> 0" "buyback \<noteq> 0"
    "curve_u64_at (acc_data curve) 8 = Ok base" "curve_u64_at (acc_data curve) 16 = Ok quoted"
    "curve_key_at (acc_data curve) 49 = Ok creator"
    "(if get_at (acc_data curve) 81 = Some 1 then curve_u64_at (acc_data mint) 36
      else Ok 1000000000000000) = Ok minted"
    "current_fees F (pf_quote_mint p) minted base quoted config (acc_data global) = Ok fees"
    "(if get_at (acc_data global) 1045 = Some 1 \<and> length (acc_data curve) \<ge> 123
      then curve_u64_at (acc_data curve) 115 else Ok 0) = Ok over"
    "curve_u64_at (acc_data curve) 24 = Ok real"
proof -
  have choice: "(if b then choose_recipient d x y c else choose_recipient d x' y' c) = Inr k \<Longrightarrow> k \<noteq> 0"
    for b d x y x' y' c k by (cases b) (auto dest: choose_recipient_nonzero)
  show thesis
    using assms unfolding apply_inner_def Let_def bind_r_Ok if_Err_Ok
    by (elim exE conjE)
      (rule that, erule Inr_inject, (assumption | erule choice | erule choose_recipient_nonzero)+)
qed

lemma apply_inner_Ok:
  assumes "apply_inner R F p curve global config mint quote v3 = Ok q"
  shows "pf_fee_rates_known q \<and> pf_virtual_token_reserves q \<noteq> 0 \<and> pf_virtual_sol_reserves q \<noteq> 0 \<and>
    mint_program mint = Ok (pf_mint_token_program q) \<and> mint_program quote = Ok (pf_quote_token_program q) \<and>
    pf_mint q = pf_mint p \<and> pf_quote_mint q = pf_quote_mint p \<and> pf_bonding_curve q = pf_bonding_curve p \<and>
    pf_associated_bonding_curve q = ata R (pf_bonding_curve p) (pf_mint p) (pf_mint_token_program q) \<and>
    pf_fee_recipient q \<noteq> 0 \<and> pf_buyback_fee_recipient q \<noteq> 0 \<and> (v3 \<longrightarrow> \<not> pf_is_cashback_coin q)"
  using assms by (rule apply_inner_inv) (cases v3; auto dest: curve_checks_cashback)

text \<open>A curve read from the node: one answer to the request for its accounts holds the curve, the Global
  account, the two mints and possibly the fee configuration, both Pump accounts owned by Pump.fun,
  both mints accepted by \<open>mint_program\<close> (owned by a token program, no active transfer hook); the pool has
  the reserves of that curve and the fee rates of that configuration at those reserves.\<close>

definition read_curve :: "'t fee_codec \<Rightarrow> rpc_node \<Rightarrow> pumpfun_pool \<Rightarrow> bool" where
  "read_curve F rpc q \<longleftrightarrow> (\<exists>accs curve global mint quote creator minted fees over.
     rpc [pf_bonding_curve q, PUMPFUN_GLOBAL, PUMPFUN_FEE_CONFIG, pf_mint q, pf_quote_mint q] = Ok accs \<and>
     snapshot_at accs 0 = Some curve \<and> snapshot_at accs 1 = Some global \<and>
     snapshot_at accs 3 = Some mint \<and> snapshot_at accs 4 = Some quote \<and>
     owner curve = PUMPFUN_PROGRAM \<and> owner global = PUMPFUN_PROGRAM \<and>
     mint_program mint = Ok (pf_mint_token_program q) \<and> mint_program quote = Ok (pf_quote_token_program q) \<and>
     curve_u64_at (acc_data curve) 8 = Ok (pf_virtual_token_reserves q) \<and>
     curve_u64_at (acc_data curve) 16 = Ok (pf_virtual_sol_reserves q) \<and>
     curve_u64_at (acc_data curve) 24 = Ok (pf_real_token_reserves q) \<and>
     pf_virtual_token_reserves q \<noteq> 0 \<and> pf_virtual_sol_reserves q \<noteq> 0 \<and>
     curve_key_at (acc_data curve) 49 = Ok creator \<and>
     (if get_at (acc_data curve) 81 = Some 1 then curve_u64_at (acc_data mint) 36
      else Ok 1000000000000000) = Ok minted \<and>
     current_fees F (pf_quote_mint q) minted (pf_virtual_token_reserves q) (pf_virtual_sol_reserves q)
       (snapshot_at accs 2) (acc_data global) = Ok fees \<and>
     (if get_at (acc_data global) 1045 = Some 1 \<and> length (acc_data curve) \<ge> 123
      then curve_u64_at (acc_data curve) 115 else Ok 0) = Ok over \<and>
     pf_fee_rates_known q \<and> pf_protocol_fee_bps q = fp_protocol fees \<and>
     pf_has_creator q = (creator \<noteq> 0) \<and>
     pf_creator_fee_bps q = (if creator = 0 then 0 else if over \<noteq> 0 then over else fp_creator fees))"

lemma curve_checks_owners:
  "curve_checks p curve global b v3 = Ok u \<Longrightarrow> owner curve = PUMPFUN_PROGRAM \<and> owner global = PUMPFUN_PROGRAM"
  by (simp add: curve_checks_def Let_def split: if_splits)

lemma refresh_curve_read:
  assumes "refresh_curve R F rpc p creator = Ok q"
  shows "read_curve F rpc q"
proof -
  from assms obtain accs curve global mint quote where a:
    "rpc [pf_bonding_curve p, PUMPFUN_GLOBAL, PUMPFUN_FEE_CONFIG, pf_mint p, pf_quote_mint p] = Ok accs"
    "snapshot_at accs 0 = Some curve" "snapshot_at accs 1 = Some global"
    "snapshot_at accs 3 = Some mint" "snapshot_at accs 4 = Some quote"
    and i: "apply_inner R F p curve global (snapshot_at accs 2) mint quote False = Ok q"
    by (auto simp: refresh_curve_def apply_curve_def Let_def result_inv split: if_splits)
  note k = apply_inner_Ok [OF i]
  from i show ?thesis
  proof (rule apply_inner_inv)
    fix base_program quote_program base quoted real over recipient buyback u minted
      and fees :: fee_points and cr :: pubkey
    assume q: "p\<lparr>pf_protocol_fee_bps := fp_protocol fees,
          pf_creator_fee_bps := (if cr = 0 then 0 else if over \<noteq> 0 then over else fp_creator fees),
          pf_has_creator := (cr \<noteq> 0), pf_is_cashback_coin := (get_at (acc_data curve) 82 = Some 1),
          pf_virtual_token_reserves := base, pf_virtual_sol_reserves := quoted,
          pf_real_token_reserves := real, pf_mint_token_program := base_program,
          pf_quote_token_program := quote_program,
          pf_associated_bonding_curve := ata R (pf_bonding_curve p) (pf_mint p) base_program,
          pf_fee_recipient := recipient, pf_buyback_fee_recipient := buyback,
          pf_fee_rates_known := True\<rparr> = q"
      and c: "curve_checks p curve global (snapshot_at accs 2 \<noteq> None) False = Ok u"
      and d: "curve_u64_at (acc_data curve) 8 = Ok base" "curve_u64_at (acc_data curve) 16 = Ok quoted"
      "curve_key_at (acc_data curve) 49 = Ok cr"
      "(if get_at (acc_data curve) 81 = Some 1 then curve_u64_at (acc_data mint) 36
        else Ok 1000000000000000) = Ok minted"
      "current_fees F (pf_quote_mint p) minted base quoted (snapshot_at accs 2) (acc_data global) = Ok fees"
      "(if get_at (acc_data global) 1045 = Some 1 \<and> length (acc_data curve) \<ge> 123
        then curve_u64_at (acc_data curve) 115 else Ok 0) = Ok over"
      "curve_u64_at (acc_data curve) 24 = Ok real"
    have f: "pf_protocol_fee_bps q = fp_protocol fees" "pf_has_creator q = (cr \<noteq> 0)"
      "pf_creator_fee_bps q = (if cr = 0 then 0 else if over \<noteq> 0 then over else fp_creator fees)"
      "base = pf_virtual_token_reserves q" "quoted = pf_virtual_sol_reserves q"
      "real = pf_real_token_reserves q" "pf_mint p = pf_mint q" "pf_quote_mint p = pf_quote_mint q"
      "pf_bonding_curve p = pf_bonding_curve q"
      unfolding q [symmetric] by simp_all
    show "read_curve F rpc q"
      unfolding read_curve_def using a d [unfolded f(4-8)] f(1-3) k curve_checks_owners [OF c]
      unfolding f(7-9) by blast
  qed
qed



section \<open>Loaded routes\<close>

text \<open>The node answered the key with the account.\<close>

definition answered :: "rpc_node \<Rightarrow> pubkey \<Rightarrow> account_state \<Rightarrow> bool" where
  "answered rpc k a \<longleftrightarrow> (\<exists>keys accs. rpc keys = Ok accs \<and> (k, Some a) \<in> set (zip keys accs))"

lemma unique_mints_covers:
  assumes "unique_mints acc ps = Ok u"
  shows "set acc \<subseteq> set u \<and> set ps \<subseteq> set u"
  using assms
proof (induction acc ps rule: unique_mints.induct)
  case (2 acc mint program rest)
  show ?case
  proof (cases "List.find (\<lambda>kv. fst kv = mint) acc")
    case None
    with 2 show ?thesis by simp
  next
    case (Some kv)
    then have "kv \<in> set acc" "fst kv = mint" by (auto simp: find_Some_iff)
    with Some 2 show ?thesis by (cases kv) (auto split: if_splits)
  qed
qed simp

lemma validate_mints_each:
  "validate_mints M xs = Ok () \<Longrightarrow> ((mint, program), account) \<in> set xs \<Longrightarrow>
   \<exists>a. account = Some a \<and> validate_mint M a program = Ok ()"
  by (induction M xs rule: validate_mints.induct) (auto simp: result_inv)

lemma validate_route_mints_each:
  assumes "validate_route_mints M rpc rm = Ok ()" "(mint, program) \<in> set (route_mint_pairs rm)"
  shows "\<exists>a. answered rpc mint a \<and> validate_mint M a program = Ok ()"
proof -
  from assms(1) obtain us where u: "unique_mints [] (route_mint_pairs rm) = Ok us"
    and v: "us = [] \<or> (\<exists>accs. rpc (map fst us) = Ok accs \<and> length accs = length us \<and>
      validate_mints M (zip us accs) = Ok ())"
    by (auto simp: validate_route_mints_def result_inv split: if_splits)
  have m: "(mint, program) \<in> set us" using unique_mints_covers [OF u] assms(2) by blast
  with v obtain accs where a: "rpc (map fst us) = Ok accs" "length accs = length us"
    "validate_mints M (zip us accs) = Ok ()" by auto
  from m obtain i where i: "i < length us" "us ! i = (mint, program)" by (metis in_set_conv_nth)
  then have "((mint, program), accs ! i) \<in> set (zip us accs)"
    using a(2) by (auto simp: in_set_zip)
  from validate_mints_each [OF a(3) this] obtain x where x: "accs ! i = Some x"
    "validate_mint M x program = Ok ()" by blast
  have "(mint, Some x) \<in> set (zip (map fst us) accs)"
    using i a(2) x(1) by (auto simp: in_set_zip intro!: exI [of _ i])
  with a(1) x(2) show ?thesis unfolding answered_def by blast
qed

lemma validate_mint_Ok:
  "validate_mint M a program = Ok () \<Longrightarrow> program \<in> {TOKEN_PROGRAM, TOKEN_2022_PROGRAM} \<and> owner a = program \<and>
   (\<exists>m. mc_unpack M (acc_data a) = Some m \<and> (program = TOKEN_2022_PROGRAM \<longrightarrow>
      (\<exists>ks. mc_extension_types M m = Some ks \<and> (mc_transfer_hook M \<in> set ks \<longrightarrow> mc_hook_program M m = None))))"
  by (auto simp: validate_mint_def result_inv split: if_splits)

lemma refresh_market_Ok:
  assumes "refresh_market R F L rpc ext rm0 = Ok rm"
  shows "rm_market rm = PumpFunInner p \<Longrightarrow> \<exists>p0 creator. refresh_curve R F rpc p0 creator = Ok p"
    "rm_market rm = PumpSwapOuter ps \<Longrightarrow> \<exists>p0. refresh_pumpswap_fee_reserves L p0 = Ok ps"
  using assms by (cases "rm_market rm0"; force simp: refresh_market_def result_inv)+

text \<open>A PumpSwap pool whose reserved fees are those of the account the node returned for that pool: the
  account describes the same pool, and the fees are covered by the quote vault.\<close>

definition read_reserved_fees :: "param_loaders \<Rightarrow> pumpswap_pool \<Rightarrow> bool" where
  "read_reserved_fees L p \<longleftrightarrow> (\<exists>st fees. ld_fetch_pumpswap L (ps_pool p) = Ok st \<and>
     pa_base_mint st = ps_base_mint p \<and> pa_quote_mint st = ps_quote_mint p \<and>
     pa_base_token_account st = ps_pool_base_token_account p \<and>
     pa_quote_token_account st = ps_pool_quote_token_account p \<and>
     pa_coin_creator st = ps_coin_creator p \<and>
     unat fees = unat (pa_protocol_fees st) + unat (pa_creator_fees st) \<and>
     ps_quote_fee_reserves p = Some fees \<and> fees \<le> ps_quote_reserve p)"

lemma refresh_pumpswap_read: "refresh_pumpswap_fee_reserves L p0 = Ok p \<Longrightarrow> read_reserved_fees L p"
  unfolding read_reserved_fees_def refresh_pumpswap_fee_reserves_def bind_r_Ok apply_pool_fee_reserves_def
  by (elim exE conjE) (auto simp: checked_add_Some split: if_splits option.splits)

lemma load_routed_Ok:
  assumes "load_routed_market_by_rpc R X F M L rpc1 rpc2 request usr = Ok (ext, rm)"
  obtains rm0 where "refresh_market R F L rpc1 ext rm0 = Ok rm" "validate_route_mints M rpc2 rm = Ok ()"
  using assms by (auto simp: load_routed_market_by_rpc_def result_inv)

text \<open>C5. A market loaded over RPC rests on what the node answered. For every mint of the route but those
  of a Pump.fun curve, and for the mints of the bridge, the node answered with an account owned by the
  token program that the route names, a mint without an active transfer hook. A Pump.fun market has
  the reserves of its curve, the token programs of its two mints and the current fee rates, all read
  from one answer to one request, with the mints checked in that answer for their owner and for active
  hooks. A PumpSwap market has the reserved fees that its own pool account states, and its quote vault
  covers them.\<close>

theorem loaded_route_checked:
  assumes "load_routed_market_by_rpc R X F M L rpc1 rpc2 request usr = Ok (ext, rm)"
  shows "(\<forall>(mint, program) \<in> set (route_mint_pairs rm). program \<in> {TOKEN_PROGRAM, TOKEN_2022_PROGRAM} \<and>
      (\<exists>a m. answered rpc2 mint a \<and> owner a = program \<and> mc_unpack M (acc_data a) = Some m \<and>
        (program = TOKEN_2022_PROGRAM \<longrightarrow> (\<exists>ks. mc_extension_types M m = Some ks \<and>
          (mc_transfer_hook M \<in> set ks \<longrightarrow> mc_hook_program M m = None))))) \<and>
    (case rm_market rm of PumpFunInner p \<Rightarrow> read_curve F rpc1 p
     | PumpSwapOuter p \<Rightarrow> read_reserved_fees L p | _ \<Rightarrow> True)"
proof -
  from assms obtain rm0 where r: "refresh_market R F L rpc1 ext rm0 = Ok rm"
    and v: "validate_route_mints M rpc2 rm = Ok ()" by (rule load_routed_Ok)
  have "\<forall>(mint, program) \<in> set (route_mint_pairs rm). program \<in> {TOKEN_PROGRAM, TOKEN_2022_PROGRAM} \<and>
      (\<exists>a m. answered rpc2 mint a \<and> owner a = program \<and> mc_unpack M (acc_data a) = Some m \<and>
        (program = TOKEN_2022_PROGRAM \<longrightarrow> (\<exists>ks. mc_extension_types M m = Some ks \<and>
          (mc_transfer_hook M \<in> set ks \<longrightarrow> mc_hook_program M m = None))))"
    using validate_route_mints_each [OF v] validate_mint_Ok by fast
  moreover have "case rm_market rm of PumpFunInner p \<Rightarrow> read_curve F rpc1 p
      | PumpSwapOuter p \<Rightarrow> read_reserved_fees L p | _ \<Rightarrow> True"
    using refresh_market_Ok [OF r] refresh_curve_read refresh_pumpswap_read
    by (fastforce split: market.split)
  ultimately show ?thesis by (rule conjI)
qed

section \<open>Witnesses\<close>

definition demo_mint_account :: account_state where
  "demo_mint_account = \<lparr>lamports = 0, owner = TOKEN_PROGRAM,
     acc_data = replicate 45 0 @ [1] @ replicate 36 0\<rparr>"


definition demo_loaders :: param_loaders where
  "demo_loaders = \<lparr>ld_pumpfun_mint = (\<lambda>m. Err ''none''), ld_pumpswap_mint = (\<lambda>m. Err ''none''),
     ld_pumpswap_pool = (\<lambda>k. Err ''none''), ld_bonk_mint = (\<lambda>m b. Err ''none''),
     ld_cpmm_pool = (\<lambda>k. if k = 52 then Ok demo_cpmm_params else Err ''none''),
     ld_amm_v4 = (\<lambda>k. Err ''none''), ld_damm_v2_pool = (\<lambda>k. Err ''none''),
     ld_clmm_pool = (\<lambda>k i q. Err ''none''), ld_whirlpool = (\<lambda>k i q. Err ''none''),
     ld_dlmm_pool = (\<lambda>k i q. Err ''none''), ld_fetch_pumpswap = (\<lambda>k. Err ''none'')\<rparr>"

definition demo_mint_codec :: "bytes mint_codec" where
  "demo_mint_codec = \<lparr>mc_unpack = Some, mc_extension_types = (\<lambda>m. Some []), mc_transfer_hook = 14,
     mc_hook_extension = (\<lambda>m. None), mc_hook_program = (\<lambda>m. None)\<rparr>"

definition demo_fees :: "nat fee_codec" where
  "demo_fees = \<lparr>fd_decode_fee_config = (\<lambda>b. Some \<lparr>fc_stable_fee_tiers = [], fc_fee_tiers = [1],
       fc_exotic_flat_fees = \<lparr>fp_lp = 0, fp_protocol = 0, fp_creator = 0\<rparr>,
       fc_flat_fees = \<lparr>fp_lp = 0, fp_protocol = 0, fp_creator = 0\<rparr>\<rparr>),
     fd_calculate_fee_tier = (\<lambda>ts x. Some \<lparr>fp_lp = 0, fp_protocol = 95, fp_creator = 5\<rparr>)\<rparr>"

definition demo_mints_node :: rpc_node where
  "demo_mints_node keys = Ok (map (\<lambda>k. Some demo_mint_account) keys)"

lemma demo_loaded_route:
  "load_routed_market_by_rpc demo_env demo_trade_sdk demo_fees demo_mint_codec demo_loaders demo_mints_node
     demo_mints_node (LoadRaydiumCpmm 52) 1 = Ok (ParamRaydiumCpmm demo_cpmm_params, demo_buy_market)"
proof -
  have p: "route_mint_pairs demo_buy_market = [(21, TOKEN_PROGRAM), (20, TOKEN_PROGRAM)]"
    by (simp add: route_mint_pairs_def demo_buy_pool_def cpmm_pay_mint_def cpmm_meme_mint_def
        meme_mint_sol_paired_def neither_wsol_def unwrap_or_def token_program_for_def cpmm_other_mint_def)
  have "TOKEN_PROGRAM \<noteq> TOKEN_2022_PROGRAM"
    unfolding TOKEN_PROGRAM_def TOKEN_2022_PROGRAM_def by (simp add: key58_eval key_of_def)
  then have "validate_mint demo_mint_codec demo_mint_account TOKEN_PROGRAM = Ok ()"
    by (simp add: validate_mint_def demo_mint_account_def demo_mint_codec_def)
  then have "validate_route_mints demo_mint_codec demo_mints_node demo_buy_market = Ok ()"
    by (simp add: validate_route_mints_def p demo_mints_node_def)
  moreover have "refresh_market demo_env demo_fees demo_loaders demo_mints_node
      (ParamRaydiumCpmm demo_cpmm_params) demo_buy_market = Ok demo_buy_market"
    by (simp add: refresh_market_def)
  ultimately show ?thesis
    by (simp add: load_routed_market_by_rpc_def demo_params_market demo_loaders_def
        del: to_routed_market_for_user.simps)
qed

theorem loaded_route_checked_witness:
  "\<exists>a. answered demo_mints_node 21 a \<and> owner a = TOKEN_PROGRAM"
proof -
  have "(21, TOKEN_PROGRAM) \<in> set (route_mint_pairs demo_buy_market)"
    by (simp add: route_mint_pairs_def demo_buy_pool_def cpmm_pay_mint_def cpmm_meme_mint_def
        meme_mint_sol_paired_def neither_wsol_def unwrap_or_def token_program_for_def cpmm_other_mint_def)
  with loaded_route_checked [OF demo_loaded_route, THEN conjunct1] show ?thesis by fast
qed


















end
