(* ===== verification/Example_Common.thy ===== *)
theory Example_Common
  imports Sdk_Client
begin

text \<open>
  The helpers the example bots share, \<open>examples/common/src/lib.rs\<close>: reading the environment, the
  transaction clock, the pool of durable nonces and the warmed client. The environment is a function
  from names to values; the parsers of keys of the Solana crates, the key of the payer, the loader
  of a nonce and the latest blockhash are parameters. Strings are ASCII.
\<close>

section \<open>Reading values\<close>

definition is_whitespace :: "char \<Rightarrow> bool" where
  "is_whitespace c = (of_char c \<in> {9, 10, 11, 12, 13, 32 :: nat})"

definition trim :: "string \<Rightarrow> string" where
  "trim s = rev (dropWhile is_whitespace (rev (dropWhile is_whitespace s)))"

text \<open>\<open>s.split(sep)\<close>: one part more than there are separators.\<close>

fun split_on :: "char \<Rightarrow> string \<Rightarrow> string list" where
  "split_on sep [] = [[]]"
| "split_on sep (c # s) =
     (if c = sep then [] # split_on sep s
      else case split_on sep s of p # ps \<Rightarrow> (c # p) # ps | [] \<Rightarrow> [[c]])"

definition digit_value :: "char \<Rightarrow> nat option" where
  "digit_value c = (let n = of_char c :: nat in if 48 \<le> n \<and> n \<le> 57 then Some (n - 48) else None)"

fun read_digits :: "nat \<Rightarrow> string \<Rightarrow> nat option" where
  "read_digits acc [] = Some acc"
| "read_digits acc (c # s) =
     (case digit_value c of None \<Rightarrow> None | Some v \<Rightarrow> read_digits (10 * acc + v) s)"

text \<open>\<open>str::parse\<close> of an unsigned integer below \<open>bound\<close>: a sign \<open>+\<close> may come first.\<close>

definition parse_unsigned :: "nat \<Rightarrow> string \<Rightarrow> nat option" where
  "parse_unsigned bound s =
     (let t = (case s of c # r \<Rightarrow> if c = CHR ''+'' then r else s | [] \<Rightarrow> []) in
      if t = [] then None
      else case read_digits 0 t of None \<Rightarrow> None | Some v \<Rightarrow> if v < bound then Some v else None)"

definition parse_u64 :: "string \<Rightarrow> u64 option" where
  "parse_u64 s = map_option of_nat (parse_unsigned (2 ^ 64) s)"

definition parse_u16 :: "string \<Rightarrow> u16 option" where
  "parse_u16 s = map_option of_nat (parse_unsigned (2 ^ 16) s)"

definition to_ascii_lower :: "char \<Rightarrow> char" where
  "to_ascii_lower c = (let n = of_char c :: nat in if 65 \<le> n \<and> n \<le> 90 then char_of (n + 32) else c)"

definition eq_ignore_case :: "string \<Rightarrow> string \<Rightarrow> bool" where
  "eq_ignore_case a b = (map to_ascii_lower a = map to_ascii_lower b)"

type_synonym environment = "string \<Rightarrow> string option"
type_synonym key_parser = "string \<Rightarrow> pubkey option"

definition parse_router_program_id :: "key_parser \<Rightarrow> string option \<Rightarrow> sdk_error + pubkey" where
  "parse_router_program_id parse_key value =
     bind_r (ok_or value ''ROUTER_PROGRAM_ID must identify your self-deployed Router'') (\<lambda>v.
     bind_r (ok_or (parse_key (trim v)) ''ROUTER_PROGRAM_ID is not a valid public key'') (\<lambda>k.
       if k = 0 then Err ''ROUTER_PROGRAM_ID cannot be the System Program'' else Ok k))"

fun parse_keys :: "key_parser \<Rightarrow> string list \<Rightarrow> sdk_error + pubkey list" where
  "parse_keys parse_key [] = Ok []"
| "parse_keys parse_key (part # parts) =
     (if trim part = [] then parse_keys parse_key parts
      else bind_r (ok_or (parse_key (trim part)) ''invalid NONCE_ACCOUNT entry'') (\<lambda>k.
        bind_r (parse_keys parse_key parts) (\<lambda>ks. Ok (k # ks))))"

definition parse_nonce_accounts :: "key_parser \<Rightarrow> environment \<Rightarrow> sdk_error + pubkey list" where
  "parse_nonce_accounts parse_key env =
     (case env ''NONCE_ACCOUNT'' of
        Some s \<Rightarrow> if trim s \<noteq> [] then parse_keys parse_key (split_on (CHR '','') s) else Ok []
      | None \<Rightarrow> Ok [])"

section \<open>The transaction clock\<close>

datatype 'h tx_clock = ClockNonce 'h | ClockBlockhash pubkey

fun clock_recent_blockhash :: "'h tx_clock \<Rightarrow> pubkey option" where
  "clock_recent_blockhash (ClockBlockhash h) = Some h"
| "clock_recent_blockhash (ClockNonce n) = None"

fun clock_durable_nonce :: "'h tx_clock \<Rightarrow> 'h option" where
  "clock_durable_nonce (ClockNonce n) = Some n"
| "clock_durable_nonce (ClockBlockhash h) = None"

fun clock_is_nonce :: "'h tx_clock \<Rightarrow> bool" where
  "clock_is_nonce (ClockNonce n) = True"
| "clock_is_nonce (ClockBlockhash h) = False"

section \<open>The pool of nonces\<close>

text \<open>A nonce is a handle of the direct-trade SDK; \<open>account_of\<close> reads its account. The node answers
  the \<open>t\<close>-th request for an account with \<open>fetch t a\<close>.\<close>

type_synonym 'h nonce_node = "nat \<Rightarrow> pubkey \<Rightarrow> 'h option"

record 'h nonce_pool =
  np_ready :: "'h list"
  np_accounts :: "pubkey list"

definition prefetch :: "'h nonce_node \<Rightarrow> pubkey list \<Rightarrow> 'h list" where
  "prefetch fetch accounts = List.map_filter (\<lambda>(t, a). fetch t a) (List.enumerate 0 accounts)"

definition nonce_pool_warm :: "'h nonce_node \<Rightarrow> pubkey list \<Rightarrow> sdk_error + 'h nonce_pool" where
  "nonce_pool_warm fetch accounts =
     (if accounts = [] then Err ''nonce account list is empty''
      else let ready = prefetch fetch accounts in
        if ready = [] then Err ''no durable nonce could be prefetched''
        else Ok \<lparr>np_ready = ready, np_accounts = accounts\<rparr>)"

text \<open>\<open>take\<close> changes the pool even where it fails: the result, the pool and the accounts whose
  refresh was started.\<close>

definition nonce_pool_take ::
  "('h \<Rightarrow> pubkey option) \<Rightarrow> 'h nonce_pool \<Rightarrow> (sdk_error + 'h) \<times> 'h nonce_pool \<times> pubkey list" where
  "nonce_pool_take account_of p =
     (case np_ready p of
        [] \<Rightarrow> (Err ''nonce pool empty'', p, [])
      | info # rest \<Rightarrow>
          (case account_of info of
             None \<Rightarrow> (Err ''DurableNonceInfo missing nonce_account'', p\<lparr>np_ready := rest\<rparr>, [])
           | Some a \<Rightarrow> (Ok info, p\<lparr>np_ready := rest\<rparr>, [a])))"

text \<open>The refresh of an account tries eight times; \<open>answers k\<close> is what attempt \<open>k\<close> read.\<close>

definition REFRESH_ATTEMPTS :: nat where "REFRESH_ATTEMPTS = 8"

definition refresh_answer :: "(nat \<Rightarrow> 'h option) \<Rightarrow> 'h option" where
  "refresh_answer answers =
     (case List.find (\<lambda>k. answers k \<noteq> None) [0..<REFRESH_ATTEMPTS] of
        Some k \<Rightarrow> answers k | None \<Rightarrow> None)"

definition nonce_pool_refresh :: "(nat \<Rightarrow> 'h option) \<Rightarrow> 'h nonce_pool \<Rightarrow> 'h nonce_pool" where
  "nonce_pool_refresh answers p =
     (case refresh_answer answers of
        Some info \<Rightarrow> p\<lparr>np_ready := np_ready p @ [info]\<rparr> | None \<Rightarrow> p)"

definition nonce_pool_len :: "'h nonce_pool \<Rightarrow> nat" where
  "nonce_pool_len p = length (np_accounts p)"

text \<open>The bots and the background refreshes interleave: a state is the pool with the accounts whose
  refresh is running. A step is labelled with what it did: a nonce handed out, a refused request, an
  account read again with what the pool was given for it.\<close>

record 'h pool_state =
  pl_pool :: "'h nonce_pool"
  pl_refreshing :: "pubkey list"

datatype 'h pool_event = Took 'h | Refused | Reread pubkey "'h option"

fun take_event :: "sdk_error + 'h \<Rightarrow> 'h pool_event" where
  "take_event (Inr info) = Took info"
| "take_event (Inl e) = Refused"

inductive pool_step ::
  "('h \<Rightarrow> pubkey option) \<Rightarrow> 'h nonce_node \<Rightarrow> 'h pool_state \<Rightarrow> 'h pool_event \<Rightarrow> 'h pool_state \<Rightarrow> bool"
  for account_of fetch where
  take: "nonce_pool_take account_of (pl_pool s) = (r, p, started) \<Longrightarrow>
    pool_step account_of fetch s (take_event r) \<lparr>pl_pool = p, pl_refreshing = started @ pl_refreshing s\<rparr>"
| refresh: "a \<in> set (pl_refreshing s) \<Longrightarrow> answers = (\<lambda>k. fetch (request k) a) \<Longrightarrow>
    pool_step account_of fetch s (Reread a (refresh_answer answers))
      \<lparr>pl_pool = nonce_pool_refresh answers (pl_pool s), pl_refreshing = remove1 a (pl_refreshing s)\<rparr>"

text \<open>A run with its events, the first one first.\<close>

inductive pool_run ::
  "('h \<Rightarrow> pubkey option) \<Rightarrow> 'h nonce_node \<Rightarrow> 'h pool_state \<Rightarrow> 'h pool_event list \<Rightarrow> 'h pool_state \<Rightarrow> bool"
  for account_of fetch s0 where
  start: "pool_run account_of fetch s0 [] s0"
| step: "pool_run account_of fetch s0 evs s \<Longrightarrow> pool_step account_of fetch s e s' \<Longrightarrow>
    pool_run account_of fetch s0 (evs @ [e]) s'"

section \<open>The cache of the blockhash\<close>

type_synonym blockhash_cache = "pubkey option"

definition blockhash_cache_new :: blockhash_cache where "blockhash_cache_new = None"

definition blockhash_cache_get :: "blockhash_cache \<Rightarrow> pubkey option" where "blockhash_cache_get c = c"

definition blockhash_cache_set :: "pubkey \<Rightarrow> blockhash_cache \<Rightarrow> blockhash_cache" where
  "blockhash_cache_set h c = Some h"

text \<open>The background loop on the answers it has had so far: an error leaves the cache as it is.\<close>

fun refresher_loop :: "(sdk_error + pubkey) list \<Rightarrow> blockhash_cache \<Rightarrow> blockhash_cache" where
  "refresher_loop [] c = c"
| "refresher_loop (Inr h # answers) c = refresher_loop answers (blockhash_cache_set h c)"
| "refresher_loop (Inl e # answers) c = refresher_loop answers c"

text \<open>The first answer has to be one; the rest are the loop's.\<close>

definition spawn_refresher ::
  "(sdk_error + pubkey) \<Rightarrow> (sdk_error + pubkey) list \<Rightarrow> blockhash_cache \<Rightarrow> sdk_error + blockhash_cache" where
  "spawn_refresher latest answers c =
     bind_r latest (\<lambda>h. Ok (refresher_loop answers (blockhash_cache_set h c)))"

lemma refresher_keeps_hash: "c \<noteq> None \<Longrightarrow> refresher_loop answers c \<noteq> None"
  by (induction answers c rule: refresher_loop.induct) (simp_all add: blockhash_cache_set_def)

lemma spawn_refresher_hash:
  "spawn_refresher latest answers c = Ok c' \<Longrightarrow> \<exists>h. blockhash_cache_get c' = Some h"
  using refresher_keeps_hash by (fastforce simp: spawn_refresher_def blockhash_cache_get_def blockhash_cache_set_def result_inv)

section \<open>The warmed client\<close>

record 'h warm_context =
  wc_client :: "'h trading_client"
  wc_nonce_pool :: "'h nonce_pool option"
  wc_blockhash :: blockhash_cache
  wc_gas :: 'h
  wc_wait_tx_confirmed :: bool
  wc_buy_sol_lamports :: u64

definition take_tx_clock ::
  "('h \<Rightarrow> pubkey option) \<Rightarrow> 'h warm_context \<Rightarrow> (sdk_error + 'h tx_clock) \<times> 'h warm_context \<times> pubkey list" where
  "take_tx_clock account_of w =
     (case wc_nonce_pool w of
        Some pool \<Rightarrow>
          (let (r, pool', started) = nonce_pool_take account_of pool in
           (bind_r r (\<lambda>info. Ok (ClockNonce info)), w\<lparr>wc_nonce_pool := Some pool'\<rparr>, started))
      | None \<Rightarrow>
          (case blockhash_cache_get (wc_blockhash w) of
             Some h \<Rightarrow> (Ok (ClockBlockhash h), w, [])
           | None \<Rightarrow> (Err ''blockhash cache empty'', w, [])))"

text \<open>What \<open>warm_router_client\<close> asks of other crates: the parser of keys, the payer's key, the
  configuration of the direct-trade SDK for a URL, its infrastructure, the nonces, the latest
  blockhash and those the refresher has been given since, and the strategy for fees.\<close>

record 'h warm_services =
  ws_parse_key :: key_parser
  ws_payer :: "sdk_error + pubkey"
  ws_config :: "string \<Rightarrow> trade_config"
  ws_infrastructure :: "trade_config \<Rightarrow> 'h infrastructure"
  ws_nonces :: "'h nonce_node"
  ws_latest_blockhash :: "sdk_error + pubkey"
  ws_later_blockhashes :: "(sdk_error + pubkey) list"
  ws_gas :: 'h

definition env_flag :: "environment \<Rightarrow> string \<Rightarrow> bool" where
  "env_flag env name =
     (case env name of Some v \<Rightarrow> v = ''1'' \<or> eq_ignore_case v ''true'' | None \<Rightarrow> False)"

text \<open>\<open>SENDER_CORES\<close>: the cores to pin, none to pin for an empty list or \<open>0\<close>.\<close>

definition sender_cores :: "string \<Rightarrow> nat list option" where
  "sender_cores raw =
     (if trim raw = [] \<or> raw = ''0'' then Some []
      else Some (List.map_filter (\<lambda>s. parse_unsigned (2 ^ 64) (trim s)) (split_on (CHR '','') raw)))"

definition env_client :: "environment \<Rightarrow> 'h warm_services \<Rightarrow> pubkey \<Rightarrow> pubkey \<Rightarrow> 'h trading_client" where
  "env_client env S program_id payer =
     (let recipient = unwrap_or (Option.bind (env ''FEE_RECIPIENT'') (ws_parse_key S)) payer;
          bps = unwrap_or (Option.bind (env ''FEE_BPS'') parse_u16) 0;
          url = unwrap_or (env ''RPC_URL'') ''https://api.mainnet-beta.solana.com'';
          trade = (ws_config S url)\<lparr>tg_create_wsol_ata_on_startup := True\<rparr>;
          c = trading_client_new (ws_infrastructure S) payer
            (config_with_program_id program_id (router_config_new trade recipient bps))
      in case env ''SENDER_CORES'' of
           Some raw \<Rightarrow> with_dedicated_sender_threads (sender_cores raw) c | None \<Rightarrow> c)"

text \<open>Nonces where accounts are named, else the blockhash cache with a first answer of the node.\<close>

definition warm_clocks ::
  "'h warm_services \<Rightarrow> pubkey list \<Rightarrow> sdk_error + 'h nonce_pool option \<times> blockhash_cache" where
  "warm_clocks S accounts =
     (if accounts \<noteq> [] then bind_r (nonce_pool_warm (ws_nonces S) accounts) (\<lambda>p. Ok (Some p, blockhash_cache_new))
      else bind_r (spawn_refresher (ws_latest_blockhash S) (ws_later_blockhashes S) blockhash_cache_new)
        (\<lambda>c. Ok (None, c)))"

definition warm_router_client :: "environment \<Rightarrow> 'h warm_services \<Rightarrow> sdk_error + 'h warm_context" where
  "warm_router_client env S =
     bind_r (parse_router_program_id (ws_parse_key S) (env ''ROUTER_PROGRAM_ID'')) (\<lambda>program_id.
     bind_r (ws_payer S) (\<lambda>payer.
     bind_r (parse_nonce_accounts (ws_parse_key S) env) (\<lambda>accounts.
     bind_r (warm_clocks S accounts) (\<lambda>(pool, blockhash).
       Ok \<lparr>wc_client = env_client env S program_id payer, wc_nonce_pool = pool, wc_blockhash = blockhash,
           wc_gas = ws_gas S, wc_wait_tx_confirmed = env_flag env ''WAIT_TX_CONFIRMED'',
           wc_buy_sol_lamports = unwrap_or (Option.bind (env ''BUY_SOL_LAMPORTS'') parse_u64) 100000\<rparr>))))"

end
