(* ===== verification/Example_Bots.thy ===== *)
theory Example_Bots
  imports Example_Common
begin

text \<open>
  The trading bots of \<open>examples/\<close>: \<open>pumpfun_copy_trading\<close>, \<open>pumpfun_sniper_trading\<close> and
  \<open>pumpfun_shred_sniper\<close>. Each watches the Pump.fun events of a feed until one is to be acted on and
  then runs its hot path once: a buy through the client, a quote of the event's curve, a sell. The two
  constructors of \<open>PumpFunParams\<close> belong to the direct-trade SDK and are parameters; an argument that
  is always \<open>None\<close> is left out.
\<close>

section \<open>Events\<close>

text \<open>The fields of an event that only the bots read.\<close>

record bot_event = pumpfun_trade_event +
  eb_sol_amount :: u64
  eb_token_amount :: u64
  eb_real_sol_reserves :: u64
  eb_real_quote_reserves :: u64
  eb_mayhem_mode :: bool
  eb_is_buy :: bool
  eb_is_created_buy :: bool

abbreviation bot_trade :: "bot_event \<Rightarrow> pumpfun_trade_event" where
  "bot_trade e \<equiv> pumpfun_trade_event.truncate e"

datatype feed_event = FeedTrade bot_event | FeedBuy bot_event | FeedSell bot_event
  | FeedBuyExactSolIn bot_event | FeedOther

definition wsol_curve :: "pubkey \<Rightarrow> bot_event \<Rightarrow> bool" where
  "wsol_curve solscan e =
     (case try_pumpfun_from_trade solscan (bot_trade e) of
        Some pool \<Rightarrow> pf_quote_mint pool = WSOL_MINT | None \<Rightarrow> False)"

definition created_buy :: "pubkey \<Rightarrow> bot_event \<Rightarrow> bool" where
  "created_buy solscan e = (eb_is_created_buy e \<and> eb_is_buy e \<and> wsol_curve solscan e)"

text \<open>The event that a bot would act on. The flag \<open>ALREADY_EXECUTED\<close> is swapped only then.\<close>

fun copy_candidate :: "pubkey \<Rightarrow> feed_event \<Rightarrow> bot_event option" where
  "copy_candidate solscan FeedOther = None"
| "copy_candidate solscan (FeedTrade e) = (if wsol_curve solscan e then Some e else None)"
| "copy_candidate solscan (FeedBuy e) = (if wsol_curve solscan e then Some e else None)"
| "copy_candidate solscan (FeedSell e) = (if wsol_curve solscan e then Some e else None)"
| "copy_candidate solscan (FeedBuyExactSolIn e) = (if wsol_curve solscan e then Some e else None)"

fun sniper_candidate :: "pubkey \<Rightarrow> feed_event \<Rightarrow> bot_event option" where
  "sniper_candidate solscan (FeedBuy e) = (if created_buy solscan e then Some e else None)"
| "sniper_candidate solscan (FeedBuyExactSolIn e) = (if created_buy solscan e then Some e else None)"
| "sniper_candidate solscan ev = None"

fun shred_candidate :: "pubkey \<Rightarrow> feed_event \<Rightarrow> bot_event option" where
  "shred_candidate solscan (FeedTrade e) = (if created_buy solscan e then Some e else None)"
| "shred_candidate solscan ev = sniper_candidate solscan ev"

definition select_once :: "(feed_event \<Rightarrow> bot_event option) \<Rightarrow> bool \<Rightarrow> feed_event \<Rightarrow> bot_event option \<times> bool" where
  "select_once candidate executed ev =
     (case candidate ev of Some e \<Rightarrow> (if executed then None else Some e, True) | None \<Rightarrow> (None, executed))"

text \<open>The loop ends with the first event selected.\<close>

fun watch :: "(feed_event \<Rightarrow> bot_event option) \<Rightarrow> bool \<Rightarrow> feed_event list \<Rightarrow> bot_event option" where
  "watch candidate executed [] = None"
| "watch candidate executed (ev # evs) =
     (case select_once candidate executed ev of
        (Some e, _) \<Rightarrow> Some e
      | (None, executed') \<Rightarrow> watch candidate executed' evs)"

section \<open>Parameters\<close>

record pump_params_sdk =
  pc_from_trade :: "pubkey \<Rightarrow> pubkey \<Rightarrow> pubkey \<Rightarrow> pubkey \<Rightarrow> pubkey \<Rightarrow> pubkey \<Rightarrow> u64 \<Rightarrow> u64 \<Rightarrow> u64 \<Rightarrow> u64
    \<Rightarrow> pubkey \<Rightarrow> pubkey \<Rightarrow> bool \<Rightarrow> bool option \<Rightarrow> pumpfun_params"
  pc_from_dev_trade :: "pubkey \<Rightarrow> u64 \<Rightarrow> u64 \<Rightarrow> pubkey \<Rightarrow> pubkey \<Rightarrow> pubkey \<Rightarrow> pubkey
    \<Rightarrow> pubkey \<Rightarrow> pubkey \<Rightarrow> bool \<Rightarrow> bool option \<Rightarrow> pumpfun_params"

definition trade_extension :: "pump_params_sdk \<Rightarrow> bot_event \<Rightarrow> pumpfun_params" where
  "trade_extension P e =
     (let quoted = et_virtual_quote_reserves e \<noteq> 0;
          virtual_quote = (if quoted then et_virtual_quote_reserves e else et_virtual_sol_reserves e);
          real_quote = (if quoted then eb_real_quote_reserves e else eb_real_sol_reserves e)
      in pc_from_trade P (et_bonding_curve e) (et_associated_bonding_curve e) (et_mint e)
           (et_quote_mint e) (et_creator e) (et_creator_vault e) (et_virtual_token_reserves e)
           virtual_quote (et_real_token_reserves e) real_quote (et_fee_recipient e)
           (et_token_program e) (et_is_cashback_coin e) (Some (eb_mayhem_mode e)))"

definition dev_extension :: "pump_params_sdk \<Rightarrow> bot_event \<Rightarrow> pumpfun_params" where
  "dev_extension P e =
     (let max_sol_cost = sat_add (eb_sol_amount e) (eb_sol_amount e div 10)
      in pc_from_dev_trade P (et_mint e) (eb_token_amount e) max_sol_cost (et_creator e)
           (et_bonding_curve e) (et_associated_bonding_curve e) (et_creator_vault e)
           (et_fee_recipient e) (et_token_program e) (et_is_cashback_coin e) (Some (eb_mayhem_mode e)))"

definition bot_buy_params ::
  "'h warm_context \<Rightarrow> 'h tx_clock \<Rightarrow> pubkey \<Rightarrow> u64 \<Rightarrow> pumpfun_params \<Rightarrow> bool option \<Rightarrow> 'h trade_buy_params" where
  "bot_buy_params w clock mint slippage ext exact =
     \<lparr>tb_dex_type = DexPumpFun, tb_input_token_type = TradeSOL, tb_mint = mint,
      tb_input_token_amount = wc_buy_sol_lamports w, tb_slippage_basis_points = Some slippage,
      tb_recent_blockhash = clock_recent_blockhash clock, tb_extension_params = ParamPumpFun ext,
      tb_address_lookup_table_accounts = [], tb_wait_tx_confirmed = wc_wait_tx_confirmed w,
      tb_wait_for_all_submits = False, tb_create_input_token_ata = False,
      tb_close_input_token_ata = False, tb_create_mint_ata = True,
      tb_durable_nonce = clock_durable_nonce clock, tb_fixed_output_token_amount = None,
      tb_gas_fee_strategy = wc_gas w, tb_simulate = False, tb_use_exact_sol_amount = exact\<rparr>"

definition bot_sell_params ::
  "'h warm_context \<Rightarrow> 'h tx_clock \<Rightarrow> pubkey \<Rightarrow> u64 \<Rightarrow> u64 \<Rightarrow> pumpfun_params \<Rightarrow> 'h trade_sell_params" where
  "bot_sell_params w clock mint amount slippage ext =
     \<lparr>tl_dex_type = DexPumpFun, tl_output_token_type = TradeSOL, tl_mint = mint,
      tl_input_token_amount = amount, tl_slippage_basis_points = Some slippage,
      tl_recent_blockhash = clock_recent_blockhash clock, tl_with_tip = False,
      tl_extension_params = ParamPumpFun ext, tl_address_lookup_table_accounts = [],
      tl_wait_tx_confirmed = wc_wait_tx_confirmed w, tl_wait_for_all_submits = False,
      tl_create_output_token_ata = False, tl_close_output_token_ata = False,
      tl_close_mint_token_ata = False, tl_durable_nonce = clock_durable_nonce clock,
      tl_fixed_output_token_amount = None, tl_gas_fee_strategy = wc_gas w, tl_simulate = False\<rparr>"

section \<open>The hot path\<close>

text \<open>A run: the result, the requests sent, the context it leaves and the nonce accounts whose refresh
  it started.\<close>

type_synonym 'h bot_run =
  "((sdk_error + unit) \<times> 'h submit_request list \<times> 'h warm_context \<times> pubkey list) option"

definition bot_sell ::
  "('h \<Rightarrow> pubkey option) \<Rightarrow> sdk_env \<Rightarrow> trade_sdk \<Rightarrow> 'h executor \<Rightarrow> pubkey \<Rightarrow> 'h warm_context \<Rightarrow> bot_event
    \<Rightarrow> u64 \<Rightarrow> pumpfun_params \<Rightarrow> 'h bot_run" where
  "bot_sell account_of R X exec solscan w e slippage ext =
     (case pumpfun_buy_token_out (pumpfun_from_trade solscan (bot_trade e)) (wc_buy_sol_lamports w) of
        Inl err \<Rightarrow> Some (Err err, [], w, [])
      | Inr amount \<Rightarrow>
          if amount = 0 then Some (Err ''quoted token out is 0'', [], w, [])
          else (case take_tx_clock account_of w of
            (Inl err, w', started) \<Rightarrow> Some (Err err, [], w', started)
          | (Inr clock, w', started) \<Rightarrow>
              (case trading_client_sell R X exec (wc_client w')
                  (bot_sell_params w' clock (et_mint e) amount slippage ext) of
                 None \<Rightarrow> None
               | Some (Inl err, requests) \<Rightarrow> Some (Err err, requests, w', started)
               | Some (Inr answer, requests) \<Rightarrow>
                   Some (if sa_ok answer then Ok () else Err ''sell failed'', requests, w', started))))"

definition hot_path ::
  "('h \<Rightarrow> pubkey option) \<Rightarrow> sdk_env \<Rightarrow> trade_sdk \<Rightarrow> 'h executor \<Rightarrow> pubkey \<Rightarrow> 'h warm_context \<Rightarrow> bot_event
    \<Rightarrow> u64 \<Rightarrow> pumpfun_params \<Rightarrow> pumpfun_params \<Rightarrow> bool option \<Rightarrow> 'h bot_run" where
  "hot_path account_of R X exec solscan w e slippage buy_ext sell_ext exact =
     (case take_tx_clock account_of w of
        (Inl err, w', started) \<Rightarrow> Some (Err err, [], w', started)
      | (Inr clock, w', started) \<Rightarrow>
          (case trading_client_buy R X exec (wc_client w')
              (bot_buy_params w' clock (et_mint e) slippage buy_ext exact) of
             None \<Rightarrow> None
           | Some (Inl err, requests) \<Rightarrow> Some (Err err, requests, w', started)
           | Some (Inr answer, requests) \<Rightarrow>
               if \<not> sa_ok answer then Some (Err ''buy failed'', requests, w', started)
               else (case bot_sell account_of R X exec solscan w' e slippage sell_ext of
                 None \<Rightarrow> None
               | Some (r, requests', w'', started') \<Rightarrow>
                   Some (r, requests @ requests', w'', started @ started'))))"

definition copy_hot_path ::
  "('h \<Rightarrow> pubkey option) \<Rightarrow> sdk_env \<Rightarrow> trade_sdk \<Rightarrow> pump_params_sdk \<Rightarrow> 'h executor \<Rightarrow> pubkey
    \<Rightarrow> 'h warm_context \<Rightarrow> bot_event \<Rightarrow> 'h bot_run" where
  "copy_hot_path account_of R X P exec solscan w e =
     hot_path account_of R X exec solscan w e 100 (trade_extension P e) (trade_extension P e) None"

definition sniper_hot_path ::
  "('h \<Rightarrow> pubkey option) \<Rightarrow> sdk_env \<Rightarrow> trade_sdk \<Rightarrow> pump_params_sdk \<Rightarrow> 'h executor \<Rightarrow> pubkey
    \<Rightarrow> 'h warm_context \<Rightarrow> bot_event \<Rightarrow> 'h bot_run" where
  "sniper_hot_path account_of R X P exec solscan w e =
     hot_path account_of R X exec solscan w e 300 (dev_extension P e) (trade_extension P e) (Some False)"

text \<open>The sniper of the shred stream has the same path.\<close>

definition shred_hot_path ::
  "('h \<Rightarrow> pubkey option) \<Rightarrow> sdk_env \<Rightarrow> trade_sdk \<Rightarrow> pump_params_sdk \<Rightarrow> 'h executor \<Rightarrow> pubkey
    \<Rightarrow> 'h warm_context \<Rightarrow> bot_event \<Rightarrow> 'h bot_run" where
  "shred_hot_path account_of R X P exec solscan w e =
     hot_path account_of R X exec solscan w e 300 (dev_extension P e) (trade_extension P e) (Some False)"

text \<open>A bot: it waits for its event and runs its hot path on it; it runs for ever where none comes.\<close>

definition run_bot ::
  "(feed_event \<Rightarrow> bot_event option) \<Rightarrow> ('h warm_context \<Rightarrow> bot_event \<Rightarrow> 'h bot_run) \<Rightarrow> 'h warm_context
    \<Rightarrow> feed_event list \<Rightarrow> 'h bot_run" where
  "run_bot candidate path w feed = (case watch candidate False feed of Some e \<Rightarrow> path w e | None \<Rightarrow> None)"

section \<open>The listener\<close>

text \<open>\<open>grpc_event_listen\<close> only prints: the protocols it subscribes to, and per event the market it
  would trade on.\<close>

datatype protocol = ProtoPumpFun | ProtoPumpSwap | ProtoRaydiumCpmm | ProtoRaydiumAmmV4 | ProtoRaydiumClmm
  | ProtoOrcaWhirlpool | ProtoMeteoraDlmm | ProtoMeteoraDammV2 | ProtoLaunchLab | ProtoStonkFun

definition protocol_named :: "string \<Rightarrow> protocol option" where
  "protocol_named s =
     (if s \<in> {''pumpfun'', ''pump''} then Some ProtoPumpFun
      else if s \<in> {''pumpswap'', ''pamm''} then Some ProtoPumpSwap
      else if s \<in> {''cpmm'', ''raydium_cpmm''} then Some ProtoRaydiumCpmm
      else if s \<in> {''amm'', ''amm_v4'', ''raydium_amm''} then Some ProtoRaydiumAmmV4
      else if s = ''clmm'' then Some ProtoRaydiumClmm
      else if s \<in> {''whirlpool'', ''orca''} then Some ProtoOrcaWhirlpool
      else if s = ''dlmm'' then Some ProtoMeteoraDlmm
      else if s \<in> {''damm'', ''damm_v2''} then Some ProtoMeteoraDammV2
      else if s \<in> {''launchlab'', ''bonk''} then Some ProtoLaunchLab
      else if s = ''stonkfun'' then Some ProtoStonkFun
      else None)"

definition parse_protocols :: "environment \<Rightarrow> protocol list" where
  "parse_protocols env =
     (let raw = unwrap_or (env ''PROTOCOLS'') ''pumpfun'';
          out = List.map_filter (\<lambda>part. protocol_named (map to_ascii_lower (trim part))) (split_on (CHR '','') raw)
      in if out = [] then [ProtoPumpFun] else out)"

definition listen :: "'z pda_scheme \<Rightarrow> pubkey \<Rightarrow> dex_event list \<Rightarrow> market option list" where
  "listen R solscan events = map (market_from_dex_event R solscan) events"

end
