(* ===== verification/Example_Props.thy ===== *)
theory Example_Props
  imports Example_Bots Client_Props "HOL-Library.Multiset"
begin

text \<open>
  The example bots: the pool of nonces hands an account out again only after reading it again, a
  warmed client has a clock, and no bot can buy, as the client builds no trade from the parameters the bots pass.
\<close>

section \<open>The pool of nonces\<close>

text \<open>A nonce that the node returns for an account is a nonce of that account.\<close>

definition answers_own :: "('h \<Rightarrow> pubkey option) \<Rightarrow> 'h nonce_node \<Rightarrow> bool" where
  "answers_own account_of fetch \<longleftrightarrow> (\<forall>t a i. fetch t a = Some i \<longrightarrow> account_of i = Some a)"

text \<open>The accounts a state holds, ready or being refreshed.\<close>

definition held_accounts :: "('h \<Rightarrow> pubkey option) \<Rightarrow> 'h pool_state \<Rightarrow> pubkey option multiset" where
  "held_accounts account_of s =
     mset (map account_of (np_ready (pl_pool s))) + mset (map Some (pl_refreshing s))"

definition pool_inv :: "('h \<Rightarrow> pubkey option) \<Rightarrow> pubkey list \<Rightarrow> 'h pool_state \<Rightarrow> bool" where
  "pool_inv account_of accounts s \<longleftrightarrow> held_accounts account_of s \<subseteq># mset (map Some accounts) \<and>
     np_accounts (pl_pool s) = accounts \<and> None \<notin> account_of ` set (np_ready (pl_pool s))"

lemma refresh_answer_own:
  assumes "answers_own account_of fetch" "refresh_answer (\<lambda>k. fetch (request k) a) = Some i"
  shows "account_of i = Some a"
  using assms by (auto simp: refresh_answer_def answers_own_def split: option.splits)

lemma prefetch_subset:
  assumes "answers_own account_of fetch"
  shows "mset (map account_of (List.map_filter (\<lambda>(t, a). fetch t a) (List.enumerate n accounts)))
    \<subseteq># mset (map Some accounts)"
proof (induction accounts arbitrary: n)
  case Nil
  then show ?case by (simp add: List.map_filter_simps)
next
  case (Cons a accounts)
  show ?case
  proof (cases "fetch n a")
    case None
    have "mset (map Some accounts) \<subseteq># mset (map Some (a # accounts))" by simp
    with Cons [of "Suc n"] have "mset (map account_of (List.map_filter (\<lambda>(t, a). fetch t a)
        (List.enumerate (Suc n) accounts))) \<subseteq># mset (map Some (a # accounts))"
      by (rule subset_mset.order_trans)
    with None show ?thesis by (simp add: List.map_filter_simps)
  next
    case (Some i)
    then have "account_of i = Some a" using assms by (auto simp: answers_own_def)
    with Some Cons [of "Suc n"] show ?thesis by (simp add: List.map_filter_simps)
  qed
qed

lemma warm_pool_inv:
  assumes "answers_own account_of fetch" "nonce_pool_warm fetch accounts = Ok p"
  shows "pool_inv account_of accounts \<lparr>pl_pool = p, pl_refreshing = []\<rparr>"
proof -
  have p: "p = \<lparr>np_ready = prefetch fetch accounts, np_accounts = accounts\<rparr>"
    using assms(2) by (simp add: nonce_pool_warm_def Let_def split: if_splits)
  have "account_of i \<noteq> None" if "i \<in> set (prefetch fetch accounts)" for i
    using that assms(1)
    by (auto simp: prefetch_def List.map_filter_def answers_own_def)
  then show ?thesis
    using prefetch_subset [OF assms(1), of 0 accounts]
    by (force simp: pool_inv_def held_accounts_def p prefetch_def)
qed

lemma pool_step_inv:
  assumes "answers_own account_of fetch" "pool_step account_of fetch s e s'" "pool_inv account_of accounts s"
  shows "pool_inv account_of accounts s'"
  using assms(2)
proof cases
  case (take r p started)
  show ?thesis
  proof (cases "np_ready (pl_pool s)")
    case Nil
    with take assms(3) show ?thesis
      by (simp add: nonce_pool_take_def pool_inv_def held_accounts_def)
  next
    case (Cons info rest)
    with assms(3) obtain a where "account_of info = Some a"
      by (cases "account_of info") (auto simp: pool_inv_def)
    with take assms(3) Cons show ?thesis
      by (auto simp: nonce_pool_take_def pool_inv_def held_accounts_def)
  qed
next
  case (refresh a answers request)
  have m: "mset (map Some (pl_refreshing s)) = add_mset (Some a) (mset (map Some (remove1 a (pl_refreshing s))))"
    using refresh(3) by (metis image_mset_add_mset insert_DiffM mset_map mset_remove1 set_mset_mset)
  show ?thesis
  proof (cases "refresh_answer answers")
    case None
    with refresh(2) m assms(3) show ?thesis
      by (auto simp: pool_inv_def held_accounts_def nonce_pool_refresh_def dest: mset_subset_eq_insertD
          intro: subset_mset.trans)
  next
    case (Some i)
    with refresh_answer_own [OF assms(1)] refresh(4) have "account_of i = Some a" by blast
    with Some refresh(2) m assms(3) show ?thesis
      by (auto simp: pool_inv_def held_accounts_def nonce_pool_refresh_def)
  qed
qed

lemma pool_run_inv:
  assumes "answers_own account_of fetch" "nonce_pool_warm fetch accounts = Ok p"
    "pool_run account_of fetch \<lparr>pl_pool = p, pl_refreshing = []\<rparr> evs s"
  shows "pool_inv account_of accounts s"
  using assms(3) by (induction rule: pool_run.induct)
    (auto intro: warm_pool_inv [OF assms(1,2)] pool_step_inv [OF assms(1)])

lemma distinct_of_subset:
  assumes "mset xs \<subseteq># mset ys" "distinct ys"
  shows "distinct xs"
proof -
  obtain zs where "mset zs = mset ys - mset xs" by (metis ex_mset)
  with assms(1) have "mset ys = mset (xs @ zs)" by simp
  with assms(2) have "distinct (xs @ zs)" by (metis mset_eq_imp_distinct_iff)
  then show ?thesis by simp
qed

lemma pool_inv_distinct:
  assumes "pool_inv account_of accounts s" "distinct accounts"
  shows "distinct (map account_of (np_ready (pl_pool s)) @ map Some (pl_refreshing s))"
  by (rule distinct_of_subset [of _ "map Some accounts"])
    (use assms in \<open>simp_all add: pool_inv_def held_accounts_def distinct_map\<close>)

text \<open>What the events of a run say of a nonce that is ready: its account was read again, with this
  nonce as the answer, after every time it was handed out.\<close>

definition fresh_since :: "('h \<Rightarrow> pubkey option) \<Rightarrow> 'h pool_event list \<Rightarrow> 'h \<Rightarrow> bool" where
  "fresh_since account_of evs j \<longleftrightarrow> (\<forall>xs i ys. evs = xs @ Took i # ys \<longrightarrow> account_of i = account_of j \<longrightarrow>
     (\<exists>a. account_of j = Some a \<and> Reread a (Some j) \<in> set ys))"

lemma fresh_sinceD:
  "fresh_since account_of (xs @ Took i # ys) j \<Longrightarrow> account_of i = account_of j \<Longrightarrow>
   \<exists>a. account_of j = Some a \<and> Reread a (Some j) \<in> set ys"
  unfolding fresh_since_def by blast

lemma fresh_since_Nil: "fresh_since account_of [] j"
  by (simp add: fresh_since_def)

lemma fresh_since_snoc:
  assumes "fresh_since account_of evs j" "\<And>i. e = Took i \<Longrightarrow> account_of i \<noteq> account_of j"
  shows "fresh_since account_of (evs @ [e]) j"
  unfolding fresh_since_def
proof (intro allI impI)
  fix xs i ys
  assume e: "evs @ [e] = xs @ Took i # ys" "account_of i = account_of j"
  show "\<exists>a. account_of j = Some a \<and> Reread a (Some j) \<in> set ys"
  proof (cases ys rule: rev_cases)
    case Nil
    with e assms(2) show ?thesis by auto
  next
    case (snoc zs z)
    with e have "evs = xs @ Took i # zs" by simp
    with fresh_sinceD [of account_of xs i zs j] assms(1) e(2) snoc show ?thesis by auto
  qed
qed

lemma fresh_since_reread:
  assumes "account_of j = Some a"
  shows "fresh_since account_of (evs @ [Reread a (Some j)]) j"
  unfolding fresh_since_def
proof (intro allI impI)
  fix xs i ys
  assume "evs @ [Reread a (Some j)] = xs @ Took i # ys"
  then have "Reread a (Some j) \<in> set ys" by (cases ys rule: rev_cases) auto
  with assms show "\<exists>a. account_of j = Some a \<and> Reread a (Some j) \<in> set ys" by blast
qed

lemma pool_step_fresh:
  assumes "answers_own account_of fetch" "pool_step account_of fetch s e s'"
    "pool_inv account_of accounts s" "distinct accounts"
    "\<forall>j \<in> set (np_ready (pl_pool s)). fresh_since account_of evs j"
  shows "\<forall>j \<in> set (np_ready (pl_pool s')). fresh_since account_of (evs @ [e]) j"
  using assms(2)
proof cases
  case (take r p started)
  show ?thesis
  proof (cases "np_ready (pl_pool s)")
    case Nil
    with take show ?thesis by (simp add: nonce_pool_take_def)
  next
    case (Cons info rest)
    then have "\<forall>j \<in> set rest. account_of info \<noteq> account_of j"
      using pool_inv_distinct [OF assms(3,4)] by (auto simp: image_iff)
    moreover have "np_ready p = rest" "\<And>i. e = Took i \<Longrightarrow> i = info"
      using take Cons by (auto simp: nonce_pool_take_def split: option.splits)
    ultimately show ?thesis using assms(5) take(2) Cons by (auto intro!: fresh_since_snoc)
  qed
next
  case (refresh a answers request)
  have old: "\<forall>j \<in> set (np_ready (pl_pool s)). fresh_since account_of (evs @ [e]) j"
    using assms(5) refresh(1) by (auto intro: fresh_since_snoc)
  show ?thesis
  proof (cases "refresh_answer answers")
    case None
    with refresh(2) old show ?thesis by (simp add: nonce_pool_refresh_def)
  next
    case (Some i)
    with refresh_answer_own [OF assms(1)] refresh(4) have "account_of i = Some a" by blast
    with Some refresh(1,2) old fresh_since_reread show ?thesis by (auto simp: nonce_pool_refresh_def)
  qed
qed

lemma pool_run_fresh:
  assumes "answers_own account_of fetch" "nonce_pool_warm fetch accounts = Ok p"
    "pool_run account_of fetch \<lparr>pl_pool = p, pl_refreshing = []\<rparr> evs s" "distinct accounts"
  shows "\<forall>j \<in> set (np_ready (pl_pool s)). fresh_since account_of evs j"
  using assms(3)
proof (induction rule: pool_run.induct)
  case (step evs s e s')
  with pool_step_fresh [OF assms(1) step(2) pool_run_inv [OF assms(1,2) step(1)] assms(4)] show ?case by blast
qed (simp add: fresh_since_Nil)

lemma taken_was_ready:
  assumes "pool_step account_of fetch s (Took j) s'"
  shows "j \<in> set (np_ready (pl_pool s))"
  using assms
proof cases
  case (take r p started)
  then show ?thesis
    by (cases r) (auto simp: nonce_pool_take_def split: list.splits option.splits)
qed

lemma pool_run_taken:
  assumes "answers_own account_of fetch" "nonce_pool_warm fetch accounts = Ok p"
    "pool_run account_of fetch \<lparr>pl_pool = p, pl_refreshing = []\<rparr> evs s" "distinct accounts"
    "evs = xs @ Took i # ys @ Took j # zs" "account_of i = account_of j"
  shows "\<exists>a. account_of j = Some a \<and> Reread a (Some j) \<in> set ys"
  using assms(3,5)
proof (induction arbitrary: zs rule: pool_run.induct)
  case (step evs s e s')
  show ?case
  proof (cases zs rule: rev_cases)
    case Nil
    with step(4) have e: "evs = xs @ Took i # ys" "e = Took j" by simp_all
    with step(2) have "pool_step account_of fetch s (Took j) s'" by simp
    then have "j \<in> set (np_ready (pl_pool s))" by (rule taken_was_ready)
    with pool_run_fresh [OF assms(1,2) step(1) assms(4)] have "fresh_since account_of evs j" by blast
    then show ?thesis unfolding e(1) using assms(6) by (rule fresh_sinceD)
  next
    case (snoc us u)
    with step show ?thesis by simp
  qed
qed simp

lemma pool_inv_member:
  assumes "pool_inv account_of accounts s" "x \<in> set (np_ready (pl_pool s))"
  shows "account_of x \<in> Some ` set accounts"
proof -
  have "mset (map account_of (np_ready (pl_pool s)) @ map Some (pl_refreshing s)) \<subseteq># mset (map Some accounts)"
    using assms(1) by (simp add: pool_inv_def held_accounts_def)
  from mset_subset_eqD [OF this, of "account_of x"] assms(2) show ?thesis by simp
qed

lemma pool_run_member:
  assumes "answers_own account_of fetch" "nonce_pool_warm fetch accounts = Ok p"
    "pool_run account_of fetch \<lparr>pl_pool = p, pl_refreshing = []\<rparr> evs s" "Took j \<in> set evs"
  shows "account_of j \<in> Some ` set accounts"
  using assms(3,4)
proof (induction rule: pool_run.induct)
  case (step evs s e s')
  show ?case
  proof (cases "e = Took j")
    case True
    with step(2) have "pool_step account_of fetch s (Took j) s'" by simp
    then have "j \<in> set (np_ready (pl_pool s))" by (rule taken_was_ready)
    with pool_run_inv [OF assms(1,2) step(1)] show ?thesis by (rule pool_inv_member)
  qed (use step in auto)
qed simp

text \<open>C18. A nonce account is not handed out twice on one reading. Whatever the interleaving of bots and
  background refreshes, with the accounts configured once each: between two nonces of one account the
  node was read again, and the second nonce is what that reading gave; the pool holds an account at
  most once, ready or under refresh; and taking a nonce fails only on an empty pool. The code does not
  wait for the transaction of the first nonce, so the second reading may give the same nonce.\<close>

theorem nonce_pool_exclusive:
  assumes "answers_own account_of fetch" "nonce_pool_warm fetch accounts = Ok p" "distinct accounts"
    "pool_run account_of fetch \<lparr>pl_pool = p, pl_refreshing = []\<rparr> evs s"
  shows "(\<forall>xs i ys j zs. evs = xs @ Took i # ys @ Took j # zs \<longrightarrow> account_of i = account_of j \<longrightarrow>
      (\<exists>a \<in> set accounts. account_of j = Some a \<and> Reread a (Some j) \<in> set ys)) \<and>
    distinct (map account_of (np_ready (pl_pool s)) @ map Some (pl_refreshing s)) \<and>
    (case nonce_pool_take account_of (pl_pool s) of
       (Inl e, _) \<Rightarrow> np_ready (pl_pool s) = []
     | (Inr info, p', started) \<Rightarrow> \<exists>a \<in> set accounts. started = [a] \<and> account_of info = Some a \<and>
         np_ready (pl_pool s) = info # np_ready p')"
proof -
  have i: "pool_inv account_of accounts s" by (rule pool_run_inv [OF assms(1,2,4)])
  have ready: "x \<in> set (np_ready (pl_pool s)) \<Longrightarrow> account_of x \<in> Some ` set accounts" for x
    by (rule pool_inv_member [OF i])
  have "\<exists>a \<in> set accounts. account_of j = Some a \<and> Reread a (Some j) \<in> set ys"
    if e: "evs = xs @ Took i # ys @ Took j # zs" "account_of i = account_of j" for xs i ys j zs
  proof -
    have "account_of j \<in> Some ` set accounts" by (rule pool_run_member [OF assms(1,2,4)]) (simp add: e(1))
    with pool_run_taken [OF assms(1,2,4,3) e] show ?thesis by auto
  qed
  moreover have "case nonce_pool_take account_of (pl_pool s) of
       (Inl e, _) \<Rightarrow> np_ready (pl_pool s) = []
     | (Inr info, p', started) \<Rightarrow> \<exists>a \<in> set accounts. started = [a] \<and> account_of info = Some a \<and>
         np_ready (pl_pool s) = info # np_ready p'"
  proof (cases "np_ready (pl_pool s)")
    case (Cons info rest)
    with ready [of info] obtain a where "a \<in> set accounts" "account_of info = Some a" by auto
    with Cons show ?thesis by (simp add: nonce_pool_take_def)
  qed (simp add: nonce_pool_take_def)
  ultimately show ?thesis using pool_inv_distinct [OF i assms(3)] by blast
qed

lemma demo_pool: "nonce_pool_warm (\<lambda>t a. Some a) [5, 6 :: pubkey] = Ok \<lparr>np_ready = [5, 6], np_accounts = [5, 6]\<rparr>"
  by (simp add: nonce_pool_warm_def prefetch_def List.map_filter_simps Let_def)

text \<open>One of two nonces is taken and refreshed, then the other, then the first again.\<close>

definition demo_pool_state :: "pubkey list \<Rightarrow> pubkey list \<Rightarrow> pubkey pool_state" where
  "demo_pool_state ready busy = \<lparr>pl_pool = \<lparr>np_ready = ready, np_accounts = [5, 6]\<rparr>, pl_refreshing = busy\<rparr>"

lemma demo_pool_steps:
  "pool_step Some (\<lambda>t a. Some a) (demo_pool_state (k # ks) busy) (Took k) (demo_pool_state ks (k # busy))"
  "pool_step Some (\<lambda>t a. Some a) (demo_pool_state ks (k # busy)) (Reread k (Some k))
     (demo_pool_state (ks @ [k]) busy)"
proof -
  have "nonce_pool_take Some (pl_pool (demo_pool_state (k # ks) busy)) =
      (Ok k, \<lparr>np_ready = ks, np_accounts = [5, 6]\<rparr>, [k])"
    by (simp add: nonce_pool_take_def demo_pool_state_def)
  from pool_step.take [OF this, of "\<lambda>t a. Some a"]
  show "pool_step Some (\<lambda>t a. Some a) (demo_pool_state (k # ks) busy) (Took k) (demo_pool_state ks (k # busy))"
    by (simp add: demo_pool_state_def)
  have r: "refresh_answer (\<lambda>_. Some k) = Some k"
    by (simp add: refresh_answer_def REFRESH_ATTEMPTS_def upt_rec)
  have "k \<in> set (pl_refreshing (demo_pool_state ks (k # busy)))" by (simp add: demo_pool_state_def)
  from pool_step.refresh [OF this, of "\<lambda>_. Some k" "\<lambda>t a. Some a" "\<lambda>n. n" Some]
  show "pool_step Some (\<lambda>t a. Some a) (demo_pool_state ks (k # busy)) (Reread k (Some k))
      (demo_pool_state (ks @ [k]) busy)"
    by (simp add: r demo_pool_state_def nonce_pool_refresh_def)
qed

lemma demo_pool_run:
  "pool_run Some (\<lambda>t a. Some a) (demo_pool_state [5, 6] [])
     [Took 5, Reread 5 (Some 5), Took 6, Took 5] (demo_pool_state [] [5, 6])"
proof -
  note steps = pool_run.step [where account_of = Some and fetch = "\<lambda>t a. Some a", rotated]
  have "pool_run Some (\<lambda>t a. Some a) (demo_pool_state [5, 6] []) [] (demo_pool_state [5, 6] [])"
    by (rule pool_run.start)
  from steps [OF demo_pool_steps(1) this] have
    "pool_run Some (\<lambda>t a. Some a) (demo_pool_state [5, 6] []) [Took 5] (demo_pool_state [6] [5])" by simp
  from steps [OF demo_pool_steps(2) this] have
    "pool_run Some (\<lambda>t a. Some a) (demo_pool_state [5, 6] []) [Took 5, Reread 5 (Some 5)]
       (demo_pool_state [6, 5] [])" by simp
  from steps [OF demo_pool_steps(1) this] have
    "pool_run Some (\<lambda>t a. Some a) (demo_pool_state [5, 6] []) [Took 5, Reread 5 (Some 5), Took 6]
       (demo_pool_state [5] [6])" by simp
  from steps [OF demo_pool_steps(1) this] show ?thesis by simp
qed

theorem nonce_pool_exclusive_witness:
  "\<exists>evs s. pool_run Some (\<lambda>t a. Some a) (demo_pool_state [5, 6] []) evs s \<and>
     evs = [] @ Took 5 # [Reread 5 (Some 5), Took 6] @ Took 5 # [] \<and>
     Reread 5 (Some 5) \<in> set [Reread 5 (Some 5), Took (6 :: pubkey)] \<and>
     distinct (map Some (np_ready (pl_pool s)) @ map Some (pl_refreshing s))"
proof -
  have own: "answers_own (Some :: pubkey \<Rightarrow> pubkey option) (\<lambda>t a. Some a)" by (simp add: answers_own_def)
  have "distinct [5, 6 :: pubkey]" by simp
  note c = nonce_pool_exclusive [OF own demo_pool this demo_pool_run [unfolded demo_pool_state_def [of "[5, 6]"]]]
  have e: "[Took 5, Reread 5 (Some 5), Took 6, Took 5] =
      [] @ Took 5 # [Reread 5 (Some 5), Took 6] @ Took (5 :: pubkey) # []" by simp
  obtain a where "Some (5 :: pubkey) = Some a" "Reread a (Some 5) \<in> set [Reread 5 (Some 5), Took (6 :: pubkey)]"
    using c [THEN conjunct1, rule_format, OF e refl] by (elim bexE conjE)
  then have r: "Reread 5 (Some 5) \<in> set [Reread 5 (Some 5), Took (6 :: pubkey)]"
    by (simp only: option.inject)
  have d: "distinct (map Some (np_ready (pl_pool (demo_pool_state [] [5, 6])))
      @ map Some (pl_refreshing (demo_pool_state [] [5, 6])))"
    using c [THEN conjunct2, THEN conjunct1] .
  show ?thesis by (rule exI, rule exI, rule conjI [OF demo_pool_run conjI [OF e conjI [OF r d]]])
qed

section \<open>A warmed client\<close>

lemma with_dedicated_sender_threads_fields:
  "tc_payer (with_dedicated_sender_threads v c) = tc_payer c"
  "tc_router (with_dedicated_sender_threads v c) = tc_router c"
  by (simp_all add: with_dedicated_sender_threads_def Let_def split: option.split list.split)

lemma env_client_router:
  "tc_payer (env_client env S pid payer) = payer"
  "rt_program_id (tc_router (env_client env S pid payer)) = pid"
  "rt_payer (tc_router (env_client env S pid payer)) = payer"
  by (simp_all add: env_client_def Let_def with_dedicated_sender_threads_fields trading_client_new_def trading_client_start_def
      from_infrastructure_with_wsol_setup_def from_infrastructure_def config_with_program_id_def router_config_new_def with_pool_guard_def
      with_program_id_def client_new_def split: option.split)

text \<open>A warmed client is the payer's, of a Router other than the system program, and its first trade
  has a clock: a nonce or a blockhash, and only one of them.\<close>

theorem warmed_client_has_clock:
  assumes "warm_router_client env S = Ok w" "answers_own account_of (ws_nonces S)"
  shows "\<exists>clock w' started. take_tx_clock account_of w = (Ok clock, w', started) \<and> wc_client w' = wc_client w \<and>
    (clock_recent_blockhash clock = None) \<noteq> (clock_durable_nonce clock = None) \<and>
    rt_program_id (tc_router (wc_client w)) \<noteq> 0 \<and> Ok (tc_payer (wc_client w)) = ws_payer S \<and>
    rt_payer (tc_router (wc_client w)) = tc_payer (wc_client w)"
proof -
  from assms(1) obtain pid payer accounts pool blockhash where
    r: "parse_router_program_id (ws_parse_key S) (env ''ROUTER_PROGRAM_ID'') = Ok pid" "ws_payer S = Ok payer"
    "warm_clocks S accounts = Ok (pool, blockhash)" and
    w: "wc_client w = env_client env S pid payer" "wc_nonce_pool w = pool" "wc_blockhash w = blockhash"
    by (auto simp: warm_router_client_def result_inv)
  from r(1) have "pid \<noteq> 0" by (auto simp: parse_router_program_id_def result_inv split: if_splits)
  moreover have "\<exists>clock w' started. take_tx_clock account_of w = (Ok clock, w', started) \<and>
      wc_client w' = wc_client w \<and> (clock_recent_blockhash clock = None) \<noteq> (clock_durable_nonce clock = None)"
  proof (cases "accounts = []")
    case True
    with r(3) obtain c where "pool = None" "blockhash = c"
      "spawn_refresher (ws_latest_blockhash S) (ws_later_blockhashes S) blockhash_cache_new = Ok c"
      by (auto simp: warm_clocks_def result_inv)
    with w spawn_refresher_hash obtain h where "wc_nonce_pool w = None"
      "blockhash_cache_get (wc_blockhash w) = Some h" by metis
    then show ?thesis by (simp add: take_tx_clock_def)
  next
    case False
    with r(3) obtain p where p: "nonce_pool_warm (ws_nonces S) accounts = Ok p" "pool = Some p"
      by (auto simp: warm_clocks_def result_inv)
    from warm_pool_inv [OF assms(2) p(1)] have n: "None \<notin> account_of ` set (np_ready p)"
      by (simp add: pool_inv_def)
    from p(1) obtain i rest where i: "np_ready p = i # rest"
      by (auto simp: nonce_pool_warm_def Let_def neq_Nil_conv split: if_splits)
    with n obtain a where "account_of i = Some a" by (cases "account_of i") auto
    with i p(2) w(2) show ?thesis by (simp add: take_tx_clock_def nonce_pool_take_def)
  qed
  ultimately show ?thesis using r(2) w(1) by (simp add: env_client_router)
qed

section \<open>The bots\<close>

lemma pump_buy_refused:
  assumes "tb_dex_type p = DexPumpFun"
  shows "\<exists>e. trading_client_buy R X exec c p = Some (Err e, [])"
proof -
  have "unpriced_dex (tb_dex_type p)" by (simp add: unpriced_dex_def assms)
  then obtain e where "build_buy_instructions R X (tc_payer c) (tc_router c) p = Some (Err e)"
    using unpriced_build_buy by blast
  then show ?thesis by (auto simp: trading_client_buy_def split: sum.splits)
qed

lemma bot_buy_dex: "tb_dex_type (bot_buy_params w clock mint slippage ext exact) = DexPumpFun"
  by (simp add: bot_buy_params_def)

lemma hot_path_fails:
  assumes "take_tx_clock account_of w = (r, w', started)"
  shows "\<exists>e. hot_path account_of R X exec solscan w ev slippage buy_ext sell_ext exact = Some (Err e, [], w', started)"
proof (cases r)
  case (Inl err)
  with assms show ?thesis by (simp add: hot_path_def)
next
  case (Inr clock)
  obtain e where "trading_client_buy R X exec (wc_client w')
      (bot_buy_params w' clock (et_mint ev) slippage buy_ext exact) = Some (Err e, [])"
    using pump_buy_refused bot_buy_dex by metis
  with assms Inr show ?thesis by (simp add: hot_path_def)
qed

text \<open>C19. No example bot can trade. Whatever the warmed client, the event and the venue, the hot path of
  the copy bot and those of the two sniper bots end in an error before any request is sent: the client
  builds no trade from Pump.fun parameters. What remains of the run is the clock it took, so with
  durable nonces every attempt uses one up and starts its refresh.\<close>

theorem bots_never_trade:
  "case take_tx_clock account_of w of (r, w', started) \<Rightarrow>
     (\<exists>e. copy_hot_path account_of R X P exec solscan w ev = Some (Err e, [], w', started)) \<and>
     (\<exists>e. sniper_hot_path account_of R X P exec solscan w ev = Some (Err e, [], w', started)) \<and>
     (\<exists>e. shred_hot_path account_of R X P exec solscan w ev = Some (Err e, [], w', started))"
  using hot_path_fails [of account_of w] unfolding copy_hot_path_def sniper_hot_path_def shred_hot_path_def
  by (cases "take_tx_clock account_of w") simp

end
