(* ===== verification/Example_Touter.thy ===== *)
theory Example_Touter
  imports Example_Common
begin

text \<open>
  The tool \<open>examples/touter_test/src/main.rs\<close>: one swap over an Orca Whirlpool through a Router of
  one's own, with the bytes of the swap open to an override. The RPC node is a function from a key
  to an account; the balance query and the simulation are parameters. The key file of the signer and
  the printed text are not modelled.
\<close>

definition TOUTER_INPUT_MINT :: pubkey where
  "TOUTER_INPUT_MINT = pubkey58 ''DezXAZ8z7PnrnRJjz3wXBoRgixCa6xjnB7YaB1pPB263''"
definition TOUTER_OUTPUT_MINT :: pubkey where
  "TOUTER_OUTPUT_MINT = pubkey58 ''5HcMuG7toPaAEQLJSsWZVZG9v4wtTUca5MZvBZeoXQxQ''"
definition ROUTE_LEG_DATA_OFFSET :: nat where "ROUTE_LEG_DATA_OFFSET = 86"
definition ORCA_SWAP_V2_DATA_LEN :: nat where "ORCA_SWAP_V2_DATA_LEN = 43"

section \<open>Arguments\<close>

record run_options =
  ro_send :: bool
  ro_initialize_config :: bool

definition run_options_default :: run_options where
  "run_options_default = \<lparr>ro_send = False, ro_initialize_config = False\<rparr>"

fun parse_args :: "run_options \<Rightarrow> string list \<Rightarrow> sdk_error + run_options" where
  "parse_args opts [] = Ok opts"
| "parse_args opts (arg # args) =
     (if arg = ''--send'' \<and> \<not> ro_send opts then parse_args (opts\<lparr>ro_send := True\<rparr>) args
      else if arg = ''--initialize-config'' \<and> \<not> ro_initialize_config opts
      then parse_args (opts\<lparr>ro_initialize_config := True\<rparr>) args
      else Err ''unknown or repeated argument'')"

definition run_options_parse :: "string list \<Rightarrow> sdk_error + run_options" where
  "run_options_parse args = parse_args run_options_default args"

definition required_u64 :: "environment \<Rightarrow> string \<Rightarrow> sdk_error + u64" where
  "required_u64 env name =
     bind_r (ok_or (env name) ''missing environment variable'') (\<lambda>v.
     bind_r (ok_or (parse_u64 (trim v)) ''not a raw u64 amount'') (\<lambda>n.
       if n > 0 then Ok n else Err ''amount must be positive''))"

section \<open>Hexadecimal\<close>

definition hex_value :: "char \<Rightarrow> nat option" where
  "hex_value c =
     (let n = of_char c :: nat in
      if 48 \<le> n \<and> n \<le> 57 then Some (n - 48)
      else if 97 \<le> n \<and> n \<le> 102 then Some (n - 87)
      else if 65 \<le> n \<and> n \<le> 70 then Some (n - 55) else None)"

text \<open>\<open>u8::from_str_radix\<close> of two characters; like every integer parser of Rust it takes a sign.\<close>

definition hex_pair :: "char \<Rightarrow> char \<Rightarrow> u8 option" where
  "hex_pair a b =
     (if a = CHR ''+'' then map_option of_nat (hex_value b)
      else case (hex_value a, hex_value b) of
        (Some h, Some l) \<Rightarrow> Some (of_nat (16 * h + l)) | _ \<Rightarrow> None)"

fun hex_pairs :: "string \<Rightarrow> sdk_error + bytes" where
  "hex_pairs (a # b # s) =
     bind_r (ok_or (hex_pair a b) ''invalid digit'') (\<lambda>x. bind_r (hex_pairs s) (\<lambda>xs. Ok (x # xs)))"
| "hex_pairs s = Ok []"

definition strip_0x :: "string \<Rightarrow> string" where
  "strip_0x s = (if take 2 s = ''0x'' then drop 2 s else s)"

definition decode_hex :: "string \<Rightarrow> sdk_error + bytes" where
  "decode_hex input =
     (let s = strip_0x (trim input) in
      if length s mod 2 \<noteq> 0 then Err ''ORCA_SWAP_DATA_HEX must have an even length'' else hex_pairs s)"

definition hex_digit :: "nat \<Rightarrow> char" where
  "hex_digit n = char_of (if n < 10 then 48 + n else 87 + n)"

definition encode_hex :: "bytes \<Rightarrow> string" where
  "encode_hex d = concat (map (\<lambda>b. [hex_digit (unat b div 16), hex_digit (unat b mod 16)]) d)"

section \<open>The override\<close>

text \<open>The range of the swap in the data of the route.\<close>

definition orca_data_range :: "instruction \<Rightarrow> pubkey \<Rightarrow> sdk_error + (nat \<times> nat)" where
  "orca_data_range ix program_id =
     (let d = ix_data ix in
      if ix_program_id ix \<noteq> program_id then Err ''not an instruction of the Router''
      else if length d < ROUTE_LEG_DATA_OFFSET then Err ''Router data too short''
      else if \<not> (d ! 0 = 2 \<and> d ! 18 = 1) then Err ''only a Route of one hop''
      else if slice 19 51 d \<noteq> key_bytes TOUTER_OUTPUT_MINT then Err ''Router output mint mismatch''
      else if slice 51 83 d \<noteq> key_bytes ORCA_WHIRLPOOL_PROGRAM then Err ''inner program is not Orca Whirlpool''
      else let len = unat (u16_of [d ! 84, d ! 85]) in
        if len \<noteq> ORCA_SWAP_V2_DATA_LEN then Err ''Orca swap_v2 data must be 43 bytes''
        else if length d \<noteq> ROUTE_LEG_DATA_OFFSET + len then Err ''Router data length mismatch''
        else Ok (ROUTE_LEG_DATA_OFFSET, length d))"

definition check_override :: "bytes \<Rightarrow> bytes \<Rightarrow> u64 \<Rightarrow> u64 \<Rightarrow> sdk_error + unit" where
  "check_override original new amount_in min_out =
     (if length new \<noteq> ORCA_SWAP_V2_DATA_LEN then Err ''ORCA_SWAP_DATA_HEX must be 43 bytes''
      else if take 8 new \<noteq> take 8 original then Err ''the swap_v2 discriminator cannot change''
      else if u64_of (slice 8 16 new) \<noteq> amount_in then Err ''amount_in must equal QUOTE_AMOUNT_RAW''
      else if \<not> u64_of (slice 16 24 new) \<ge> min_out
      then Err ''other_amount_threshold must not be below MIN_OUT_RAW''
      else if new ! 40 \<noteq> 1 then Err ''only exact-in''
      else if new ! 41 \<noteq> original ! 41 then Err ''the direction cannot change''
      else if new ! 42 \<noteq> 0 then Err ''remaining_accounts_info must be None''
      else Ok ())"

definition customize_orca_data ::
  "instruction \<Rightarrow> pubkey \<Rightarrow> u64 \<Rightarrow> u64 \<Rightarrow> string option \<Rightarrow> sdk_error + instruction" where
  "customize_orca_data ix program_id amount_in min_out override_hex =
     bind_r (orca_data_range ix program_id) (\<lambda>(start, stop).
       let original = slice start stop (ix_data ix) in
       case override_hex of
         None \<Rightarrow> Ok ix
       | Some hex \<Rightarrow> bind_r (decode_hex hex) (\<lambda>replacement.
           bind_r (check_override original replacement amount_in min_out) (\<lambda>_.
             Ok (ix\<lparr>ix_data := copy_into start replacement (ix_data ix)\<rparr>))))"

section \<open>The trade\<close>

text \<open>\<open>get_account\<close>: the answer of the node, an error where there is no account.\<close>

type_synonym account_node = "pubkey \<Rightarrow> sdk_error + account_state option"

definition get_account :: "account_node \<Rightarrow> pubkey \<Rightarrow> sdk_error + account_state" where
  "get_account node k = bind_r (node k) (\<lambda>a. ok_or a ''account not found'')"

text \<open>The configuration of the Router, initialised, unpaused and without a fee: its fee recipient.\<close>

definition free_router_recipient ::
  "'z pda_scheme \<Rightarrow> account_node \<Rightarrow> pubkey \<Rightarrow> sdk_error + pubkey" where
  "free_router_recipient R node program_id =
     bind_r (get_account node (fst (find_pda R [ascii ''config''] program_id))) (\<lambda>config.
       let d = acc_data config in
       if owner config \<noteq> program_id then Err ''Router config owner mismatch''
       else if \<not> (length d \<ge> 80 \<and> take 8 d = ascii ''ROUTCFG1'') then Err ''Router config not initialized''
       else if u16_of [d ! 72, d ! 73] \<noteq> 0 then Err ''Router fee_bps must be 0''
       else if d ! 75 \<noteq> 0 then Err ''Router is paused''
       else Ok (key_of (slice 40 72 d)))"

text \<open>The loaded market: the pool asked for, over the two mints, quoted for the amount. The program of
  the input mint and the market.\<close>

definition touter_market ::
  "routed_market \<Rightarrow> pubkey \<Rightarrow> u64 \<Rightarrow> sdk_error + (pubkey \<times> routed_market)" where
  "touter_market rm pool amount_in =
     (case rm_market rm of
        Whirlpool p \<Rightarrow>
          if wp_whirlpool p \<noteq> pool then Err ''loaded pool address mismatch''
          else if \<not> ((wp_mint_a p = TOUTER_INPUT_MINT \<and> wp_mint_b p = TOUTER_OUTPUT_MINT)
            \<or> (wp_mint_b p = TOUTER_INPUT_MINT \<and> wp_mint_a p = TOUTER_OUTPUT_MINT))
          then Err ''pool mints mismatch''
          else if length (wp_tick_arrays p) < 3 then Err ''Orca swap_v2 needs 3 tick arrays''
          else Ok (if wp_mint_a p = TOUTER_INPUT_MINT then wp_token_program_a p else wp_token_program_b p,
            rm\<lparr>rm_market := Whirlpool (p\<lparr>wp_quoted_amount_in := Some amount_in\<rparr>)\<rparr>)
      | _ \<Rightarrow> Err ''not an Orca Whirlpool'')"

definition check_touter_mints :: "routed_market \<Rightarrow> sdk_error + unit" where
  "check_touter_mints rm =
     (if routed_meme_mint rm = TOUTER_OUTPUT_MINT \<and> market_quote_mint (rm_market rm) = TOUTER_INPUT_MINT
      then Ok () else Err ''the buy of this pool maps its mints the other way round'')"

definition touter_client :: "pubkey \<Rightarrow> pubkey \<Rightarrow> pubkey \<Rightarrow> pubkey \<Rightarrow> router_client" where
  "touter_client payer program_id recipient pool =
     with_pool_guard (trust pool guard_default) (with_program_id program_id (client_new payer recipient 0))"

definition touter_opts :: "u64 \<Rightarrow> trade_opts" where
  "touter_opts min_out = opts_with_min_out min_out (opts_buy_with (BuyToken TOUTER_INPUT_MINT) opts_default)"

text \<open>The first instruction of the Router is the one that is customised.\<close>

fun customize_first ::
  "pubkey \<Rightarrow> u64 \<Rightarrow> u64 \<Rightarrow> string option \<Rightarrow> instruction list \<Rightarrow> sdk_error + instruction list" where
  "customize_first program_id amount_in min_out hex [] = Err ''no instruction of the Router''"
| "customize_first program_id amount_in min_out hex (i # ixs) =
     (if ix_program_id i = program_id
      then bind_r (customize_orca_data i program_id amount_in min_out hex) (\<lambda>i'. Ok (i' # ixs))
      else bind_r (customize_first program_id amount_in min_out hex ixs) (\<lambda>rest. Ok (i # rest)))"

text \<open>From the environment to the instructions of the transaction. \<open>load\<close> is
  \<open>load_routed_market_by_rpc\<close> on a node, \<open>balance\<close> the token balance query.\<close>

definition touter_instructions ::
  "sdk_env \<Rightarrow> key_parser \<Rightarrow> environment \<Rightarrow> account_node
    \<Rightarrow> (load_market_request \<Rightarrow> pubkey \<Rightarrow> sdk_error + (dex_param \<times> routed_market))
    \<Rightarrow> (pubkey \<Rightarrow> sdk_error + string) \<Rightarrow> pubkey \<Rightarrow> pubkey \<Rightarrow> instruction list computation" where
  "touter_instructions R parse_key env node load balance program_id payer =
     bind_o (Some (required_u64 env ''QUOTE_AMOUNT_RAW'')) (\<lambda>amount_in.
     bind_o (Some (required_u64 env ''MIN_OUT_RAW'')) (\<lambda>min_out.
     bind_o (Some (ok_or (env ''ORCA_POOL'') ''missing ORCA_POOL'')) (\<lambda>pool_text.
     bind_o (Some (ok_or (parse_key pool_text) ''ORCA_POOL is not a valid public key'')) (\<lambda>pool.
     bind_o (Some (get_account node pool)) (\<lambda>account.
     if owner account \<noteq> ORCA_WHIRLPOOL_PROGRAM then Some (Err ''pool owner is not Orca Whirlpool'')
     else bind_o (Some (free_router_recipient R node program_id)) (\<lambda>recipient.
     bind_o (Some (load (LoadOrcaWhirlpool pool TOUTER_INPUT_MINT TOUTER_OUTPUT_MINT) payer)) (\<lambda>(ext, loaded).
     bind_o (Some (touter_market loaded pool amount_in)) (\<lambda>(input_program, rm).
     bind_o (Some (check_touter_mints rm)) (\<lambda>_.
     bind_o (Some (balance (ata R payer TOUTER_INPUT_MINT input_program))) (\<lambda>balance_text.
     bind_o (Some (ok_or (parse_u64 balance_text) ''balance is not a u64'')) (\<lambda>held.
     if \<not> held \<ge> amount_in then Some (Err ''input balance too small'')
     else bind_o (buy_with_opts R (touter_client payer program_id recipient pool) amount_in rm
         (touter_opts min_out)) (\<lambda>t.
       Some (customize_first program_id amount_in min_out (env ''ORCA_SWAP_DATA_HEX'')
         (into_instructions t))))))))))))))"

text \<open>The tool's own Router is created once: nothing is sent where its configuration is there.\<close>

definition touter_initialize ::
  "'z pda_scheme \<Rightarrow> account_node \<Rightarrow> pubkey \<Rightarrow> pubkey \<Rightarrow> sdk_error + instruction list" where
  "touter_initialize R node program_id payer =
     bind_r (node (fst (find_pda R [ascii ''config''] program_id))) (\<lambda>found.
       case found of
         Some config \<Rightarrow>
           if owner config \<noteq> program_id then Err ''Router config owner mismatch''
           else if \<not> (length (acc_data config) \<ge> 80 \<and> take 8 (acc_data config) = ascii ''ROUTCFG1'')
           then Err ''Router config format mismatch''
           else Ok []
       | None \<Rightarrow> Ok [initialize_config R program_id payer payer 0])"

text \<open>What is simulated and what is sent. \<open>simulation\<close> and \<open>submit_tx\<close> are the node's.\<close>

definition simulate_then_maybe_send ::
  "(instruction list \<Rightarrow> sdk_error + unit) \<Rightarrow> (instruction list \<Rightarrow> sdk_error + unit) \<Rightarrow> instruction list
    \<Rightarrow> bool \<Rightarrow> (sdk_error + unit) \<times> instruction list list" where
  "simulate_then_maybe_send simulation submit_tx ixs send =
     (case simulation ixs of
        Inl e \<Rightarrow> (Err e, [])
      | Inr _ \<Rightarrow> if \<not> send then (Ok (), []) else (submit_tx ixs, [ixs]))"

definition touter_program_id :: "key_parser \<Rightarrow> environment \<Rightarrow> sdk_error + pubkey" where
  "touter_program_id parse_key env =
     bind_r (ok_or (env ''ROUTER_PROGRAM_ID'') ''missing ROUTER_PROGRAM_ID'') (\<lambda>v.
     bind_r (ok_or (parse_key v) ''ROUTER_PROGRAM_ID is not a valid public key'') (\<lambda>k.
       if k = 0 then Err ''ROUTER_PROGRAM_ID cannot be the System Program'' else Ok k))"

text \<open>\<open>main\<close>: the result and the transactions sent.\<close>

definition touter_main ::
  "sdk_env \<Rightarrow> key_parser \<Rightarrow> environment \<Rightarrow> account_node
    \<Rightarrow> (load_market_request \<Rightarrow> pubkey \<Rightarrow> sdk_error + (dex_param \<times> routed_market))
    \<Rightarrow> (pubkey \<Rightarrow> sdk_error + string) \<Rightarrow> (instruction list \<Rightarrow> sdk_error + unit)
    \<Rightarrow> (instruction list \<Rightarrow> sdk_error + unit) \<Rightarrow> (sdk_error + pubkey) \<Rightarrow> string list
    \<Rightarrow> ((sdk_error + unit) \<times> instruction list list) option" where
  "touter_main R parse_key env node load balance simulation submit_tx signer_key args =
     (case bind_r (run_options_parse args) (\<lambda>options.
        bind_r (touter_program_id parse_key env) (\<lambda>program_id.
        bind_r (ok_or (env ''RPC_URL'') ''missing RPC_URL'') (\<lambda>_.
        bind_r signer_key (\<lambda>payer. Ok (options, program_id, payer))))) of
        Inl e \<Rightarrow> Some (Err e, [])
      | Inr (options, program_id, payer) \<Rightarrow>
          if ro_initialize_config options then
            Some (case touter_initialize R node program_id payer of
              Inl e \<Rightarrow> (Err e, [])
            | Inr [] \<Rightarrow> (Ok (), [])
            | Inr ixs \<Rightarrow> simulate_then_maybe_send simulation submit_tx ixs (ro_send options))
          else (case touter_instructions R parse_key env node load balance program_id payer of
              None \<Rightarrow> None
            | Some (Inl e) \<Rightarrow> Some (Err e, [])
            | Some (Inr ixs) \<Rightarrow> Some (simulate_then_maybe_send simulation submit_tx ixs (ro_send options))))"

end
