(* ===== verification/Touter_Props.thy ===== *)
theory Touter_Props
  imports Example_Touter Leg_Props
begin

unbundle bit_operations_syntax

text \<open>
  The swap tool: its hexadecimal notation is read back, an accepted override changes nothing but the
  bytes of the one swap, and what the program then executes keeps to the amounts of the environment.
\<close>

section \<open>Hexadecimal\<close>

lemma hex_digit_table:
  "list_all (\<lambda>n. hex_value (hex_digit n) = Some n \<and> hex_digit n \<noteq> CHR ''+'' \<and> hex_digit n \<noteq> CHR ''x''
     \<and> \<not> is_whitespace (hex_digit n)) [0..<16]"
  by (simp add: upt_rec hex_value_def hex_digit_def is_whitespace_def char_of_eq_iff)

lemma hex_digit_value:
  assumes "n < 16"
  shows "hex_value (hex_digit n) = Some n" "hex_digit n \<noteq> CHR ''+''" "hex_digit n \<noteq> CHR ''x''"
    "\<not> is_whitespace (hex_digit n)"
  using hex_digit_table assms by (auto simp: list_all_iff)

lemma nibbles: "unat (b :: u8) div 16 < 16" "unat b mod 16 < 16"
  using unat_u8 [of b] by (simp_all add: less_mult_imp_div_less)

lemma hex_pair_digits: "hex_pair (hex_digit (unat b div 16)) (hex_digit (unat b mod 16)) = Some b"
  using nibbles [of b] by (simp add: hex_pair_def hex_digit_value)

lemma encode_hex_simps [simp]:
  "encode_hex [] = []"
  "encode_hex (b # d) = hex_digit (unat b div 16) # hex_digit (unat b mod 16) # encode_hex d"
  by (simp_all add: encode_hex_def)

lemma hex_pairs_encode: "hex_pairs (encode_hex d) = Ok d"
  by (induction d) (simp_all add: hex_pair_digits)

lemma encode_hex_chars: "c \<in> set (encode_hex d) \<Longrightarrow> \<not> is_whitespace c \<and> c \<noteq> CHR ''x''"
  by (induction d) (auto simp: hex_digit_value nibbles)

lemma dropWhile_none: "(\<And>c. c \<in> set s \<Longrightarrow> \<not> P c) \<Longrightarrow> dropWhile P s = s"
  by (cases s) simp_all

lemma trim_self: "(\<And>c. c \<in> set s \<Longrightarrow> \<not> is_whitespace c) \<Longrightarrow> trim s = s"
  using dropWhile_none [of s is_whitespace] dropWhile_none [of "rev s" is_whitespace] by (simp add: trim_def)

lemma length_encode_hex: "length (encode_hex d) = 2 * length d"
  by (induction d) simp_all

lemma hex_roundtrip: "decode_hex (encode_hex d) = Ok d"
proof -
  have "trim (encode_hex d) = encode_hex d" using encode_hex_chars by (blast intro: trim_self)
  moreover have "take 2 (encode_hex d) \<noteq> ''0x''"
  proof
    assume "take 2 (encode_hex d) = ''0x''"
    then have "CHR ''x'' \<in> set (take 2 (encode_hex d))" by simp
    then have "CHR ''x'' \<in> set (encode_hex d)" by (rule in_set_takeD)
    then show False using encode_hex_chars by blast
  qed
  ultimately show ?thesis
    by (simp add: decode_hex_def strip_0x_def length_encode_hex hex_pairs_encode)
qed

section \<open>The override\<close>

text \<open>A route of one leg, with the leg's data at the end.\<close>

definition one_leg_head :: "u64 \<Rightarrow> u64 \<Rightarrow> u8 \<Rightarrow> bool \<Rightarrow> pubkey \<Rightarrow> leg \<Rightarrow> bytes" where
  "one_leg_head amount min_out asset exact mint l = [2] @ u64_bytes amount @ u64_bytes min_out
     @ [if exact then (asset AND 1) OR FEE_ASSET_EXACT_OUT else asset AND 1, 1] @ key_bytes mint
     @ key_bytes (leg_program l) @ [of_nat (length (leg_accounts l))]"

lemma one_leg_data:
  "ix_data (build_route_instruction_ex R pid a amount min_out asset exact mint [l]) =
     one_leg_head amount min_out asset exact mint l @ u16_bytes (of_nat (length (leg_data l))) @ leg_data l"
  by (simp add: build_route_instruction_ex_def Let_def one_leg_head_def leg_frame_bytes_def TAG_ROUTE_IX_def)

lemma length_one_leg_head [simp]: "length (one_leg_head amount min_out asset exact mint l) = 84"
  by (simp add: one_leg_head_def)

lemma one_leg_head_fields:
  "one_leg_head amount min_out asset exact mint l ! 0 = 2"
  "slice 19 51 (one_leg_head amount min_out asset exact mint l) = key_bytes mint"
  "slice 51 83 (one_leg_head amount min_out asset exact mint l) = key_bytes (leg_program l)"
  by (simp_all add: one_leg_head_def slice_def)

lemma u16_bytes_nth: "[u16_bytes x ! 0, u16_bytes x ! Suc 0] = u16_bytes x"
  by (simp add: u16_bytes_def numeral_2_eq_2)

lemma key_bytes_inject: "key_bytes a = key_bytes b \<longleftrightarrow> a = b"
  by (metis field_of_bytes(4))

lemma override_leg_only:
  assumes "customize_orca_data (build_route_instruction_ex R pid a amount min_out asset exact mint [l])
    pid ain mo hex = Ok i"
  shows "\<exists>d. i = build_route_instruction_ex R pid a amount min_out asset exact mint [l\<lparr>leg_data := d\<rparr>] \<and>
      length d = 43 \<and> length (leg_data l) = 43 \<and> leg_program l = ORCA_WHIRLPOOL_PROGRAM \<and>
      mint = TOUTER_OUTPUT_MINT \<and>
      (case hex of None \<Rightarrow> d = leg_data l
       | Some h \<Rightarrow> decode_hex h = Ok d \<and> take 8 d = take 8 (leg_data l) \<and> u64_of (slice 8 16 d) = ain \<and>
           u64_of (slice 16 24 d) \<ge> mo \<and> d ! 40 = 1 \<and> d ! 41 = leg_data l ! 41 \<and> d ! 42 = 0)"
proof -
  let ?route = "\<lambda>d. build_route_instruction_ex R pid a amount min_out asset exact mint [l\<lparr>leg_data := d\<rparr>]"
  let ?i = "build_route_instruction_ex R pid a amount min_out asset exact mint [l]"
  let ?head = "one_leg_head amount min_out asset exact mint l"
  let ?d = "?head @ u16_bytes (of_nat (length (leg_data l))) @ leg_data l"
  have i: "ix_data ?i = ?d" by (rule one_leg_data)
  have u: "[?d ! 84, ?d ! 85] = u16_bytes (of_nat (length (leg_data l)))"
    using u16_bytes_nth by (simp add: nth_append)
  obtain r where r: "orca_data_range ?i pid = Ok r"
    and c: "(case r of (start, stop) \<Rightarrow> let original = slice start stop (ix_data ?i) in
      case hex of None \<Rightarrow> Ok ?i | Some h \<Rightarrow> bind_r (decode_hex h) (\<lambda>replacement.
        bind_r (check_override original replacement ain mo) (\<lambda>_.
          Ok (?i\<lparr>ix_data := copy_into start replacement (ix_data ?i)\<rparr>)))) = Ok i"
    using assms unfolding customize_orca_data_def bind_r_Ok by blast
  have mint: "mint = TOUTER_OUTPUT_MINT" and prog: "leg_program l = ORCA_WHIRLPOOL_PROGRAM"
    and len: "length (leg_data l) = 43" and rr: "r = (86, length ?d)"
    using r unfolding orca_data_range_def i Let_def u
    by (auto simp: slice_append_left one_leg_head_fields key_bytes_inject ROUTE_LEG_DATA_OFFSET_def
        ORCA_SWAP_V2_DATA_LEN_def simp del: append_assoc split: if_splits)
  have o: "slice 86 (length ?d) ?d = leg_data l" by (simp add: slice_def)
  have c': "(case hex of None \<Rightarrow> Ok ?i | Some h \<Rightarrow> bind_r (decode_hex h) (\<lambda>replacement.
      bind_r (check_override (leg_data l) replacement ain mo) (\<lambda>_.
        Ok (?i\<lparr>ix_data := copy_into 86 replacement ?d\<rparr>)))) = Ok i"
    using c unfolding rr i prod.case Let_def o .
  have new: "?i\<lparr>ix_data := copy_into 86 d ?d\<rparr> = ?route d" if "length d = 43" for d
  proof -
    have "copy_into 86 d ?d = ?head @ u16_bytes (of_nat (length d)) @ d"
      using that len by (simp add: copy_into_def)
    then have "ix_data (?i\<lparr>ix_data := copy_into 86 d ?d\<rparr>) = ix_data (?route d)"
      by (simp add: one_leg_data one_leg_head_def)
    then show ?thesis by (simp add: build_route_instruction_ex_def Let_def)
  qed
  have "\<exists>d. i = ?route d \<and> length d = 43 \<and> (case hex of None \<Rightarrow> d = leg_data l
       | Some h \<Rightarrow> decode_hex h = Ok d \<and> take 8 d = take 8 (leg_data l) \<and> u64_of (slice 8 16 d) = ain \<and>
           u64_of (slice 16 24 d) \<ge> mo \<and> d ! 40 = 1 \<and> d ! 41 = leg_data l ! 41 \<and> d ! 42 = 0)"
  proof (cases hex)
    case None
    with c' len show ?thesis by (intro exI [of _ "leg_data l"]) simp
  next
    case (Some h)
    with c' obtain d where d: "decode_hex h = Ok d" "check_override (leg_data l) d ain mo = Ok ()"
      "i = ?i\<lparr>ix_data := copy_into 86 d ?d\<rparr>" by (auto simp: result_inv)
    then have "length d = 43" by (simp add: check_override_def ORCA_SWAP_V2_DATA_LEN_def split: if_splits)
    with d new Some show ?thesis
      by (intro exI [of _ d]) (auto simp: check_override_def split: if_splits)
  qed
  with mint prog len show ?thesis by blast
qed

text \<open>An override changes the swap and nothing else. Where the tool accepts an override of a route
  of one leg, the result is the route instruction of the same amounts, mint and accounts with the
  data of that leg replaced by the 43 bytes given: a swap of Orca Whirlpool with the same
  discriminator and direction, exact-in, of the amount asked for and with a threshold not below the
  minimum. Without an override the route is left as it is. The hexadecimal text that the tool prints
  for a swap is read back as that swap.\<close>

theorem override_changes_leg_only:
  assumes "customize_orca_data (build_route_instruction_ex R pid a amount min_out asset exact mint [l])
    pid ain mo hex = Ok i"
  shows "(\<exists>d. i = build_route_instruction_ex R pid a amount min_out asset exact mint [l\<lparr>leg_data := d\<rparr>] \<and>
      length d = 43 \<and> length (leg_data l) = 43 \<and> leg_program l = ORCA_WHIRLPOOL_PROGRAM \<and>
      mint = TOUTER_OUTPUT_MINT \<and>
      (case hex of None \<Rightarrow> d = leg_data l
       | Some h \<Rightarrow> decode_hex h = Ok d \<and> take 8 d = take 8 (leg_data l) \<and> u64_of (slice 8 16 d) = ain \<and>
           u64_of (slice 16 24 d) \<ge> mo \<and> d ! 40 = 1 \<and> d ! 41 = leg_data l ! 41 \<and> d ! 42 = 0)) \<and>
    decode_hex (encode_hex (leg_data l)) = Ok (leg_data l)"
  using override_leg_only [OF assms] hex_roundtrip by blast

section \<open>The tool\<close>

lemma bind_o_Ok: "bind_o m f = Some (Ok y) \<longleftrightarrow> (\<exists>x. m = Some (Ok x) \<and> f x = Some (Ok y))"
  by (simp add: bind_o_Some)

lemma fee_amount_zero: "fee_amount a 0 = 0"
  by (simp add: fee_amount_def sat_mul_def as_u64_def)

lemma customize_first_route:
  assumes "customize_first pid ain mo hex (pre @ r # post) = Ok ixs" "ix_program_id r = pid"
    "\<And>i. i \<in> set pre \<Longrightarrow> length (ix_data i) < 86"
  shows "(\<forall>i \<in> set pre. ix_program_id i \<noteq> pid) \<and> (\<exists>i'. customize_orca_data r pid ain mo hex = Ok i' \<and>
    ixs = pre @ i' # post)"
  using assms
proof (induction pre arbitrary: ixs)
  case Nil
  then show ?case by (auto simp: result_inv)
next
  case (Cons i pre)
  have n: "customize_orca_data i pid ain mo hex \<noteq> Ok i'" for i'
    using Cons.prems(3) [of i]
    by (auto simp: customize_orca_data_def orca_data_range_def Let_def result_inv ROUTE_LEG_DATA_OFFSET_def)
  show ?case
  proof (cases "ix_program_id i = pid")
    case True
    with Cons.prems(1) n show ?thesis by (auto simp: result_inv)
  next
    case False
    with Cons.prems(1) obtain rest where rest: "customize_first pid ain mo hex (pre @ r # post) = Ok rest"
      "ixs = i # rest" by (auto simp: result_inv)
    from Cons.IH [OF rest(1) Cons.prems(2)] Cons.prems(3) rest(2) False show ?thesis by auto
  qed
qed

text \<open>The setup of a trade that pays with a token only creates token accounts.\<close>

definition creates_accounts :: "trade_state \<Rightarrow> bool" where
  "creates_accounts st \<longleftrightarrow> (\<forall>i \<in> set (ts_setup st). length (ix_data i) < 86)"

lemma creates_accounts_steps:
  "creates_accounts (push_create_ata R policy kind payer mint tp st) = creates_accounts st"
  "creates_accounts (touch f st) = creates_accounts st"
  "creates_accounts (push_setup (create_ata_idempotent R payer own mint tp) st) = creates_accounts st"
  by (auto simp: creates_accounts_def push_create_ata_def touch_def push_setup_def
      create_ata_idempotent_def create_ata_def)

lemma token_buy_initial:
  "to_buy_with opts = BuyToken m \<Longrightarrow> creates_accounts (buy_initial_state R c rm opts)"
  unfolding buy_initial_state_def Let_def by (simp add: creates_accounts_steps) (simp add: creates_accounts_def)

lemma token_buy_fees:
  assumes "to_buy_with opts = BuyToken m"
  shows "creates_accounts (snd (buy_fee_accounts R c rm opts fee st)) = creates_accounts st"
    "fst (buy_fee_accounts R c rm opts fee st) = \<lparr>fa_asset = FEE_ASSET_TOKEN,
       fa_destination = ata R (rt_fee_recipient c) m (token_program_of_payment rm m),
       fa_source = ata R (rt_payer c) m (token_program_of_payment rm m),
       fa_program = token_fee_program (token_program_of_payment rm m), fa_mint = m\<rparr>"
  by (simp_all add: buy_fee_accounts_def assms Let_def creates_accounts_steps touch_mint_def)

lemma whirlpool_token_legs:
  assumes "build_buy_legs R c a rm opts st = Some (Ok ((legs, m, x), st'))" "rm_market rm = Whirlpool p"
    "to_buy_with opts = BuyToken pay" "to_min_out opts = Some mo"
  shows "m = mo \<and> x = a \<and> (creates_accounts st \<longrightarrow> creates_accounts st') \<and>
    (\<exists>l. whirlpool_swap_leg R (rt_payer c) p a mo pay = Ok l \<and> legs = [l])"
  using assms
  by (auto simp: build_buy_legs_def buy_legs_token_def Let_def spending_def with_state_def result_inv
      buy_whirlpool_with_mint_def concentrated_min_out_def use_mint_def touch_mint_def creates_accounts_steps)

text \<open>What the tool buys from: the trade behind its instructions.\<close>

lemma touter_instructions_Ok:
  assumes "touter_instructions R parse_key env node load balance pid payer = Some (Ok ixs)"
  obtains amount_in min_out recipient pool rm t p where
    "required_u64 env ''QUOTE_AMOUNT_RAW'' = Ok amount_in" "required_u64 env ''MIN_OUT_RAW'' = Ok min_out"
    "rm_market rm = Whirlpool p" "routed_meme_mint rm = TOUTER_OUTPUT_MINT"
    "buy_with_opts R (touter_client payer pid recipient pool) amount_in rm (touter_opts min_out) = Some (Ok t)"
    "customize_first pid amount_in min_out (env ''ORCA_SWAP_DATA_HEX'') (into_instructions t) = Ok ixs"
    "free_router_recipient R node pid = Ok recipient" "wp_whirlpool p = pool"
proof -
  from assms obtain amount_in min_out recipient pool ext loaded ip rm t where
    t: "required_u64 env ''QUOTE_AMOUNT_RAW'' = Ok amount_in" "required_u64 env ''MIN_OUT_RAW'' = Ok min_out"
    "free_router_recipient R node pid = Ok recipient"
    "buy_with_opts R (touter_client payer pid recipient pool) amount_in rm (touter_opts min_out) = Some (Ok t)"
    "customize_first pid amount_in min_out (env ''ORCA_SWAP_DATA_HEX'') (into_instructions t) = Ok ixs"
    and m: "touter_market loaded pool amount_in = Ok (ip, rm)" "check_touter_mints rm = Ok ()"
    by (fastforce simp: touter_instructions_def bind_o_Ok split: if_splits)
  from m obtain p where "rm_market rm = Whirlpool p" "wp_whirlpool p = pool"
    "routed_meme_mint rm = TOUTER_OUTPUT_MINT"
    by (auto simp: touter_market_def check_touter_mints_def split: market.splits if_splits)
  with t that show thesis by blast
qed

lemma whirlpool_token_route:
  assumes "buy_with_opts R c amount rm opts = Some (Ok t)" "rm_market rm = Whirlpool p"
    "to_buy_with opts = BuyToken pay" "to_min_out opts = Some mo" "to_fixed_output opts = None" "rt_fee_bps c = 0"
  shows "\<exists>l. whirlpool_swap_leg R (rt_payer c) p amount mo pay = Ok l \<and>
    (\<forall>i \<in> set (bt_setup t). length (ix_data i) < 86) \<and>
    bt_route t = Some (build_route_instruction_ex R (rt_program_id c)
      \<lparr>ra_payer = rt_payer c,
       ra_fee_destination = ata R (rt_fee_recipient c) pay (token_program_of_payment rm pay),
       ra_fee_source = ata R (rt_payer c) pay (token_program_of_payment rm pay),
       ra_output_token_account = ata R (rt_payer c) (routed_meme_mint rm) (routed_meme_token_program rm),
       ra_fee_program = token_fee_program (token_program_of_payment rm pay), ra_fee_mint = pay\<rparr>
      amount mo 1 False (routed_meme_mint rm) [l])"
proof -
  have z: "fee_amount amount (rt_fee_bps c) = 0" "sat_sub amount 0 = amount"
    by (simp_all add: assms(6) fee_amount_zero sat_sub_def)
  from assms(1) obtain legs m x st ra where b:
    "build_buy_legs R c amount rm opts (buy_initial_state R c rm opts) = Some (Ok ((legs, m, x), st))"
    "buy_route_amount c amount amount x = Ok ra" "t = finish_buy R c rm opts 0 ra m legs st"
    by (auto simp: buy_with_opts_def Let_def result_inv z split: if_splits)
  from whirlpool_token_legs [OF b(1) assms(2-4)] token_buy_initial [OF assms(3), of R c rm] obtain l where
    l: "m = mo" "x = amount" "creates_accounts st" "whirlpool_swap_leg R (rt_payer c) p amount mo pay = Ok l"
    "legs = [l]" by blast
  with b(2) have "ra = amount" by (simp add: buy_route_amount_def)
  with l b(3) token_buy_fees [OF assms(3), of R c rm 0 st] show ?thesis
    by (auto simp: finish_buy_def Let_def assms(3,5) creates_accounts_def FEE_ASSET_TOKEN_def split: prod.split)
qed

lemma whirlpool_swap_data_fields:
  "slice 8 16 (whirlpool_swap_data x m dir supp) = u64_bytes x"
  "slice 16 24 (whirlpool_swap_data x m dir supp) = u64_bytes m"
  "whirlpool_swap_data x m dir supp ! 40 = 1"
proof -
  have n: "length WHIRLPOOL_SWAP_V2 = 8" by (simp add: WHIRLPOOL_SWAP_V2_def SDK_CLMM_SWAP_V2_def)
  show "slice 8 16 (whirlpool_swap_data x m dir supp) = u64_bytes x"
    "slice 16 24 (whirlpool_swap_data x m dir supp) = u64_bytes m"
    "whirlpool_swap_data x m dir supp ! 40 = 1"
    by (simp_all add: whirlpool_swap_data_def slice_def nth_append n del: if_split)
qed

lemma whirlpool_leg_amounts:
  assumes "whirlpool_swap_leg R u p amount mo im = Ok l"
  shows "leg_program l = ORCA_WHIRLPOOL_PROGRAM \<and> wf_leg u l \<and> u64_of (slice 8 16 (leg_data l)) = amount \<and>
    u64_of (slice 16 24 (leg_data l)) = mo \<and> leg_data l ! 40 = 1"
proof -
  from assms obtain dir supp where "leg_program l = ORCA_WHIRLPOOL_PROGRAM"
    "leg_data l = whirlpool_swap_data amount mo dir supp"
    by (auto simp: whirlpool_swap_leg_def Let_def result_inv split: if_splits)
  with whirlpool_leg_wf [OF assms] show ?thesis by (simp add: whirlpool_swap_data_fields)
qed

text \<open>C13. What the tool sends is one route of one Orca swap, whatever override it was given: the route
  spends exactly the amount of the environment from the payer's account of the input mint, asks for
  the minimum of the environment on the payer's account of the output mint, and its only leg swaps
  exactly that amount with a threshold not below the minimum. No instruction before it is one of the
  Router; the Router's configuration carried no fee and was not paused when it was read.\<close>

theorem touter_sends_one_swap:
  assumes "touter_instructions R parse_key env node load balance pid payer = Some (Ok ixs)"
  shows "\<exists>amount_in min_out acc l pre post tp tp'.
    required_u64 env ''QUOTE_AMOUNT_RAW'' = Ok amount_in \<and> amount_in > 0 \<and>
    required_u64 env ''MIN_OUT_RAW'' = Ok min_out \<and> min_out > 0 \<and>
    ixs = pre @ build_route_instruction_ex R pid acc amount_in min_out 1 False TOUTER_OUTPUT_MINT [l] # post \<and>
    (\<forall>i \<in> set pre. ix_program_id i \<noteq> pid) \<and> ra_payer acc = payer \<and>
    ra_fee_source acc = ata R payer TOUTER_INPUT_MINT tp \<and>
    ra_output_token_account acc = ata R payer TOUTER_OUTPUT_MINT tp' \<and>
    leg_program l = ORCA_WHIRLPOOL_PROGRAM \<and> wf_leg payer l \<and> length (leg_data l) = 43 \<and>
    u64_of (slice 8 16 (leg_data l)) = amount_in \<and> u64_of (slice 16 24 (leg_data l)) \<ge> min_out \<and>
    leg_data l ! 40 = 1 \<and> (\<exists>config. node (fst (find_pda R [ascii ''config''] pid)) = Ok (Some config) \<and>
      owner config = pid \<and> u16_of [acc_data config ! 72, acc_data config ! 73] = 0 \<and> acc_data config ! 75 = 0)"
proof -
  from assms obtain amount_in min_out recipient pool rm t p where
    e: "required_u64 env ''QUOTE_AMOUNT_RAW'' = Ok amount_in" "required_u64 env ''MIN_OUT_RAW'' = Ok min_out"
    and m: "rm_market rm = Whirlpool p" "routed_meme_mint rm = TOUTER_OUTPUT_MINT"
    and t: "buy_with_opts R (touter_client payer pid recipient pool) amount_in rm (touter_opts min_out) = Some (Ok t)"
    and x: "customize_first pid amount_in min_out (env ''ORCA_SWAP_DATA_HEX'') (into_instructions t) = Ok ixs"
    and f: "free_router_recipient R node pid = Ok recipient"
    by (rule touter_instructions_Ok)
  let ?c = "touter_client payer pid recipient pool"
  have c: "rt_payer ?c = payer" "rt_program_id ?c = pid" "rt_fee_bps ?c = 0"
    and o: "to_buy_with (touter_opts min_out) = BuyToken TOUTER_INPUT_MINT"
    "to_min_out (touter_opts min_out) = Some min_out" "to_fixed_output (touter_opts min_out) = None"
    by (simp_all add: touter_client_def with_pool_guard_def with_program_id_def client_new_def touter_opts_def
        opts_with_min_out_def opts_buy_with_def opts_default_def)
  define acc where "acc = \<lparr>ra_payer = payer,
    ra_fee_destination = ata R (rt_fee_recipient ?c) TOUTER_INPUT_MINT (token_program_of_payment rm TOUTER_INPUT_MINT),
    ra_fee_source = ata R payer TOUTER_INPUT_MINT (token_program_of_payment rm TOUTER_INPUT_MINT),
    ra_output_token_account = ata R payer TOUTER_OUTPUT_MINT (routed_meme_token_program rm),
    ra_fee_program = token_fee_program (token_program_of_payment rm TOUTER_INPUT_MINT),
    ra_fee_mint = TOUTER_INPUT_MINT\<rparr>"
  let ?route = "\<lambda>l. build_route_instruction_ex R pid acc amount_in min_out 1 False TOUTER_OUTPUT_MINT [l]"
  from whirlpool_token_route [OF t m(1) o(1,2,3) c(3)] obtain l where
    l: "whirlpool_swap_leg R payer p amount_in min_out TOUTER_INPUT_MINT = Ok l"
    "\<forall>i \<in> set (bt_setup t). length (ix_data i) < 86" "bt_route t = Some (?route l)"
    unfolding c m(2) acc_def by blast
  have "ix_program_id (?route l) = pid" by (simp add: build_route_instruction_ex_def Let_def)
  with customize_first_route [of pid amount_in min_out _ "bt_setup t" "?route l" "bt_cleanup t" ixs] x l(2,3)
  obtain i where i: "\<forall>j \<in> set (bt_setup t). ix_program_id j \<noteq> pid"
    "customize_orca_data (?route l) pid amount_in min_out (env ''ORCA_SWAP_DATA_HEX'') = Ok i"
    "ixs = bt_setup t @ i # bt_cleanup t" by (auto simp: into_instructions_def)
  note w = whirlpool_leg_amounts [OF l(1)]
  from override_leg_only [OF i(2)] obtain d where d: "i = ?route (l\<lparr>leg_data := d\<rparr>)" "length d = 43"
    "case env ''ORCA_SWAP_DATA_HEX'' of None \<Rightarrow> d = leg_data l
       | Some h \<Rightarrow> decode_hex h = Ok d \<and> take 8 d = take 8 (leg_data l) \<and> u64_of (slice 8 16 d) = amount_in \<and>
           u64_of (slice 16 24 d) \<ge> min_out \<and> d ! 40 = 1 \<and> d ! 41 = leg_data l ! 41 \<and> d ! 42 = 0" by blast
  have "u64_of (slice 8 16 d) = amount_in \<and> u64_of (slice 16 24 d) \<ge> min_out \<and> d ! 40 = 1"
    using d(3) w by (auto split: option.splits)
  moreover have "wf_leg payer (l\<lparr>leg_data := d\<rparr>)" using w d(2) by (simp add: wf_leg_def sendable_def)
  moreover have "amount_in > 0" "min_out > 0" using e by (auto simp: required_u64_def result_inv split: if_splits)
  moreover have "\<exists>config. node (fst (find_pda R [ascii ''config''] pid)) = Ok (Some config) \<and>
      owner config = pid \<and> u16_of [acc_data config ! 72, acc_data config ! 73] = 0 \<and> acc_data config ! 75 = 0"
    using f by (auto simp: free_router_recipient_def get_account_def Let_def result_inv split: if_splits)
  moreover have "ra_payer acc = payer" "ra_fee_source acc = ata R payer TOUTER_INPUT_MINT (token_program_of_payment rm TOUTER_INPUT_MINT)"
    "ra_output_token_account acc = ata R payer TOUTER_OUTPUT_MINT (routed_meme_token_program rm)"
    by (simp_all add: acc_def)
  ultimately show ?thesis using e i(1,3) d(1,2) w
    by (rule_tac x = amount_in in exI, rule_tac x = min_out in exI, rule_tac x = acc in exI,
        rule_tac x = "l\<lparr>leg_data := d\<rparr>" in exI, rule_tac x = "bt_setup t" in exI,
        rule_tac x = "bt_cleanup t" in exI, rule_tac x = "token_program_of_payment rm TOUTER_INPUT_MINT" in exI,
        rule_tac x = "routed_meme_token_program rm" in exI) simp
qed

section \<open>Witnesses\<close>

lemma orca_range_one_leg:
  assumes "leg_program l = ORCA_WHIRLPOOL_PROGRAM" "length (leg_data l) = 43"
  shows "orca_data_range (build_route_instruction_ex R pid a amount min_out asset exact TOUTER_OUTPUT_MINT [l]) pid =
    Ok (86, 129)"
proof -
  let ?h = "one_leg_head amount min_out asset exact TOUTER_OUTPUT_MINT l"
  let ?d = "?h @ u16_bytes (of_nat (length (leg_data l))) @ leg_data l"
  have u: "[?d ! 84, ?d ! 85] = u16_bytes (of_nat (length (leg_data l)))"
    using u16_bytes_nth by (simp add: nth_append)
  have "?d ! 18 = ?h ! 18" by (simp add: nth_append)
  then have h: "?d ! 0 = 2" "?d ! 18 = 1" "slice 19 51 ?d = key_bytes TOUTER_OUTPUT_MINT"
    "slice 51 83 ?d = key_bytes ORCA_WHIRLPOOL_PROGRAM" "length ?d = 129"
    using assms by (simp_all add: slice_append_left one_leg_head_fields) (simp_all add: one_leg_head_def nth_append)
  have p: "ix_program_id (build_route_instruction_ex R pid a amount min_out asset exact TOUTER_OUTPUT_MINT [l]) = pid"
    by (simp add: build_route_instruction_ex_def Let_def)
  show ?thesis
    unfolding orca_data_range_def one_leg_data Let_def u h p
    by (simp add: assms ROUTE_LEG_DATA_OFFSET_def ORCA_SWAP_V2_DATA_LEN_def)
qed

lemma customize_one_leg:
  assumes "leg_program l = ORCA_WHIRLPOOL_PROGRAM" "length (leg_data l) = 43"
    "check_override (leg_data l) d ain mo = Ok ()"
  shows "customize_orca_data (build_route_instruction_ex R pid a amount min_out asset exact TOUTER_OUTPUT_MINT [l])
    pid ain mo (Some (encode_hex d)) =
    Ok (build_route_instruction_ex R pid a amount min_out asset exact TOUTER_OUTPUT_MINT [l\<lparr>leg_data := d\<rparr>])"
proof -
  let ?i = "build_route_instruction_ex R pid a amount min_out asset exact TOUTER_OUTPUT_MINT [l]"
  let ?h = "one_leg_head amount min_out asset exact TOUTER_OUTPUT_MINT l"
  have d: "ix_data ?i = ?h @ u16_bytes (of_nat (length (leg_data l))) @ leg_data l" by (rule one_leg_data)
  then have "slice 86 129 (ix_data ?i) = leg_data l" using assms(2) by (simp add: slice_def)
  then have "customize_orca_data ?i pid ain mo (Some (encode_hex d)) =
      Ok (?i\<lparr>ix_data := copy_into 86 d (ix_data ?i)\<rparr>)"
    by (simp add: customize_orca_data_def orca_range_one_leg [OF assms(1,2)] hex_roundtrip assms(3))
  then obtain i where i: "customize_orca_data ?i pid ain mo (Some (encode_hex d)) = Ok i" by blast
  from override_leg_only [OF this] hex_roundtrip [of d] i show ?thesis by auto
qed

text \<open>An override that raises the threshold of a swap from 90 to 95.\<close>

definition demo_orca_leg :: "u64 \<Rightarrow> leg" where
  "demo_orca_leg m = \<lparr>leg_program = ORCA_WHIRLPOOL_PROGRAM, leg_accounts = [meta_ro 1 True],
     leg_data = whirlpool_swap_data 100 m False []\<rparr>"

lemma demo_swap_facts:
  "length (whirlpool_swap_data 100 m False []) = 43"
  "take 8 (whirlpool_swap_data 100 m False []) = WHIRLPOOL_SWAP_V2"
  "whirlpool_swap_data 100 m False [] ! 41 = 0" "whirlpool_swap_data 100 m False [] ! 42 = 0"
  by (simp_all add: whirlpool_swap_data_def WHIRLPOOL_SWAP_V2_def SDK_CLMM_SWAP_V2_def nth_append
      whirlpool_remaining_info_def)

lemma demo_override:
  "check_override (whirlpool_swap_data 100 90 False []) (whirlpool_swap_data 100 95 False []) 100 90 = Ok ()"
  by (simp add: check_override_def demo_swap_facts whirlpool_swap_data_fields ORCA_SWAP_V2_DATA_LEN_def)

theorem override_changes_leg_only_witness:
  "\<exists>d. build_route_instruction_ex demo_env 7 demo_ix_accounts 100 90 1 False TOUTER_OUTPUT_MINT [demo_orca_leg 95] =
      build_route_instruction_ex demo_env 7 demo_ix_accounts 100 90 1 False TOUTER_OUTPUT_MINT
        [(demo_orca_leg 90)\<lparr>leg_data := d\<rparr>] \<and>
    length d = 43 \<and> u64_of (slice 16 24 d) \<ge> 90"
proof -
  have "customize_orca_data (build_route_instruction_ex demo_env 7 demo_ix_accounts 100 90 1 False TOUTER_OUTPUT_MINT
      [demo_orca_leg 90]) 7 100 90 (Some (encode_hex (whirlpool_swap_data 100 95 False []))) =
    Ok (build_route_instruction_ex demo_env 7 demo_ix_accounts 100 90 1 False TOUTER_OUTPUT_MINT [demo_orca_leg 95])"
    using customize_one_leg [of "demo_orca_leg 90" "whirlpool_swap_data 100 95 False []" 100 90] demo_override demo_swap_facts(1)
    by (simp add: demo_orca_leg_def)
  from override_changes_leg_only [OF this] show ?thesis unfolding option.case by blast
qed

text \<open>One run of the tool, from its environment, with that override.\<close>

definition demo_orca_pool :: whirlpool_pool where
  "demo_orca_pool = \<lparr>wp_whirlpool = 52, wp_mint_a = TOUTER_OUTPUT_MINT, wp_mint_b = TOUTER_INPUT_MINT,
     wp_vault_a = 53, wp_vault_b = 54, wp_token_program_a = TOKEN_PROGRAM, wp_token_program_b = TOKEN_PROGRAM,
     wp_tick_arrays = [61, 62, 63], wp_quoted_amount_in = None, wp_quoted_input_mint = None,
     wp_expected_out = None, wp_fee_bps = 30\<rparr>"

definition demo_orca_env :: environment where
  "demo_orca_env = [''QUOTE_AMOUNT_RAW'' \<mapsto> ''100'', ''MIN_OUT_RAW'' \<mapsto> ''90'', ''ORCA_POOL'' \<mapsto> ''p'',
     ''ORCA_SWAP_DATA_HEX'' \<mapsto> encode_hex (whirlpool_swap_data 100 95 False [])]"

definition demo_orca_node :: account_node where
  "demo_orca_node k = Ok (if k = 52 then Some \<lparr>lamports = 1, owner = ORCA_WHIRLPOOL_PROGRAM, acc_data = []\<rparr>
     else if k = 2 then Some \<lparr>lamports = 1, owner = 7,
       acc_data = ascii ''ROUTCFG1'' @ replicate 32 1 @ key_bytes 9 @ replicate 8 0\<rparr> else None)"

lemma demo_digits: "parse_u64 (trim ''100'') = Some 100" "parse_u64 (trim ''90'') = Some 90" "parse_u64 ''100'' = Some 100"
  by (simp_all add: parse_u64_def trim_def is_whitespace_def parse_unsigned_def digit_value_def char_of_eq_iff)

lemma demo_orca_env:
  "required_u64 demo_orca_env ''QUOTE_AMOUNT_RAW'' = Ok 100" "required_u64 demo_orca_env ''MIN_OUT_RAW'' = Ok 90"
  "demo_orca_env ''ORCA_POOL'' = Some ''p''"
  "demo_orca_env ''ORCA_SWAP_DATA_HEX'' = Some (encode_hex (whirlpool_swap_data 100 95 False []))"
  by (simp_all add: required_u64_def demo_orca_env_def demo_digits)

lemma touter_mints [simp]: "TOUTER_INPUT_MINT \<noteq> TOUTER_OUTPUT_MINT" "TOUTER_OUTPUT_MINT \<noteq> TOUTER_INPUT_MINT"
  "TOUTER_INPUT_MINT \<noteq> WSOL_MINT" "TOUTER_OUTPUT_MINT \<noteq> WSOL_MINT" "TOUTER_OUTPUT_MINT \<noteq> USDC_MINT"
  unfolding WSOL_MINT_def USDC_MINT_def TOUTER_INPUT_MINT_def TOUTER_OUTPUT_MINT_def by (simp_all add: key58_eval key_of_def)

definition demo_orca_market :: routed_market where
  "demo_orca_market = \<lparr>rm_market = Whirlpool (demo_orca_pool\<lparr>wp_quoted_amount_in := Some 100\<rparr>), rm_bridge = None\<rparr>"

lemma demo_orca_steps:
  "get_account demo_orca_node 52 = Ok \<lparr>lamports = 1, owner = ORCA_WHIRLPOOL_PROGRAM, acc_data = []\<rparr>"
  "free_router_recipient demo_env demo_orca_node 7 = Ok 9"
  "touter_market \<lparr>rm_market = Whirlpool demo_orca_pool, rm_bridge = None\<rparr> 52 100 = Ok (TOKEN_PROGRAM, demo_orca_market)"
  "check_touter_mints demo_orca_market = Ok ()"
proof -
  have a: "length (ascii ''ROUTCFG1'') = 8" by (simp add: ascii_def)
  show "get_account demo_orca_node 52 = Ok \<lparr>lamports = 1, owner = ORCA_WHIRLPOOL_PROGRAM, acc_data = []\<rparr>"
    by (simp add: get_account_def demo_orca_node_def)
  have f: "fst (find_pda demo_env seeds 7) = 2" for seeds by (simp add: demo_env_def demo_not_ata [symmetric])
  show "free_router_recipient demo_env demo_orca_node 7 = Ok 9"
    unfolding free_router_recipient_def f
    by (simp add: get_account_def demo_orca_node_def Let_def nth_append a slice_def u16_of_def)
  show "touter_market \<lparr>rm_market = Whirlpool demo_orca_pool, rm_bridge = None\<rparr> 52 100 = Ok (TOKEN_PROGRAM, demo_orca_market)"
    by (simp add: touter_market_def demo_orca_pool_def demo_orca_market_def)
  show "check_touter_mints demo_orca_market = Ok ()"
    by (simp add: check_touter_mints_def demo_orca_market_def demo_orca_pool_def routed_meme_mint_def
        pair_base_def pair_quote_def)
qed

lemma demo_orca_swap:
  "\<exists>l. whirlpool_swap_leg demo_env 1 (demo_orca_pool\<lparr>wp_quoted_amount_in := Some 100\<rparr>) 100 90 TOUTER_INPUT_MINT = Ok l \<and>
    leg_program l = ORCA_WHIRLPOOL_PROGRAM \<and> leg_data l = whirlpool_swap_data 100 90 False []"
  by (simp add: whirlpool_swap_leg_def demo_orca_pool_def Let_def require_token_programs_def
      require_array_addresses_def whirlpool_direction_def ensure_leg_account_budget_def SDK_MAX_LEG_ACCOUNTS_def)

lemma customize_first_pre:
  assumes "list_all (\<lambda>i. ix_program_id i \<noteq> pid) pre" "ix_program_id r = pid" "customize_orca_data r pid ain mo hex = Ok r'"
  shows "customize_first pid ain mo hex (pre @ r # post) = Ok (pre @ r' # post)"
  using assms by (induction pre) simp_all

lemma demo_orca_market:
  "rm_market demo_orca_market = Whirlpool (demo_orca_pool\<lparr>wp_quoted_amount_in := Some 100\<rparr>)"
  "rm_bridge demo_orca_market = None"
  "routed_meme_mint demo_orca_market = TOUTER_OUTPUT_MINT" "routed_meme_token_program demo_orca_market = TOKEN_PROGRAM"
  "routed_quote_mint demo_orca_market = TOUTER_INPUT_MINT" "wp_whirlpool (demo_orca_pool\<lparr>wp_quoted_amount_in := x\<rparr>) = 52"
  "wp_quoted_input_mint (demo_orca_pool\<lparr>wp_quoted_amount_in := x\<rparr>) = None"
  by (simp_all add: demo_orca_market_def demo_orca_pool_def routed_meme_mint_def routed_meme_token_program_def
      routed_quote_mint_def pair_base_def pair_quote_def)

lemma demo_orca_client:
  "rt_payer (touter_client 1 7 9 52) = 1" "rt_program_id (touter_client 1 7 9 52) = 7"
  "rt_fee_bps (touter_client 1 7 9 52) = 0" "rt_pool_guard (touter_client 1 7 9 52) = trust 52 guard_default"
  "to_buy_with (touter_opts 90) = BuyToken TOUTER_INPUT_MINT" "to_min_out (touter_opts 90) = Some 90"
  "to_fixed_output (touter_opts 90) = None"
  by (simp_all add: touter_client_def with_pool_guard_def with_program_id_def client_new_def touter_opts_def
      opts_with_min_out_def opts_buy_with_def opts_default_def)

definition outside_router :: "trade_state \<Rightarrow> bool" where
  "outside_router st \<longleftrightarrow> list_all (\<lambda>i. ix_program_id i \<noteq> 7) (ts_setup st)"

lemma outside_router_steps:
  "outside_router (push_create_ata R policy kind payer mint tp st) = outside_router st"
  "outside_router (touch f st) = outside_router st"
  "outside_router (push_setup (create_ata_idempotent R payer own mint tp) st) = outside_router st"
  by (auto simp: outside_router_def push_create_ata_def touch_def push_setup_def
      create_ata_idempotent_def create_ata_def)

lemma demo_orca_trade:
  "\<exists>t acc l. buy_with_opts demo_env (touter_client 1 7 9 52) 100 demo_orca_market (touter_opts 90) = Some (Ok t) \<and>
    list_all (\<lambda>i. ix_program_id i \<noteq> 7) (bt_setup t) \<and>
    bt_route t = Some (build_route_instruction_ex demo_env 7 acc 100 90 1 False TOUTER_OUTPUT_MINT [l]) \<and>
    leg_program l = ORCA_WHIRLPOOL_PROGRAM \<and> leg_data l = whirlpool_swap_data 100 90 False []"
proof -
  let ?c = "touter_client 1 7 9 52" and ?o = "touter_opts 90" and ?m = demo_orca_market
  obtain l where l: "whirlpool_swap_leg demo_env 1 (demo_orca_pool\<lparr>wp_quoted_amount_in := Some 100\<rparr>) 100 90 TOUTER_INPUT_MINT = Ok l"
    "leg_program l = ORCA_WHIRLPOOL_PROGRAM" "leg_data l = whirlpool_swap_data 100 90 False []"
    using demo_orca_swap by blast
  have "buy_market_checks demo_env ?c 100 ?m ?o = Ok ()"
    by (simp add: buy_market_checks_def demo_orca_client demo_orca_market validate_router_fee_bps_def
        assert_routed_market_ok_def assert_bridge_ok_def assert_amm_listed_def require_trusted_or_def
        trust_def guard_default_def is_trusted_def fee_amount_zero sat_sub_def)
  moreover have "buy_path_checks ?m ?o = Ok ()"
    by (simp add: buy_path_checks_def buy_needs_bridge_def demo_orca_client demo_orca_market
        validate_fixed_output_def is_pump_native_sol_def)
  moreover obtain st where st: "build_buy_legs demo_env ?c 100 ?m ?o (buy_initial_state demo_env ?c ?m ?o) =
      Some (Ok (([l], 90, 100), st))" "outside_router st"
  proof -
    have "outside_router (buy_initial_state demo_env ?c ?m ?o)"
      unfolding buy_initial_state_def Let_def
      by (simp add: demo_orca_client outside_router_steps) (simp add: outside_router_def)
    then have "\<exists>st. build_buy_legs demo_env ?c 100 ?m ?o (buy_initial_state demo_env ?c ?m ?o) =
      Some (Ok (([l], 90, 100), st)) \<and> outside_router st"
      by (simp add: build_buy_legs_def buy_legs_token_def spending_def with_state_def Let_def demo_orca_client
        demo_orca_market buy_whirlpool_with_mint_def assert_quote_direction_def concentrated_min_out_def l(1)
        use_mint_def touch_mint_def outside_router_steps)
    then show thesis using that by blast
  qed
  moreover define t where "t = finish_buy demo_env ?c ?m ?o 0 100 90 [l] st"
  moreover have "list_all (\<lambda>i. ix_program_id i \<noteq> 7) (bt_setup t) \<and> (\<exists>acc. bt_route t =
      Some (build_route_instruction_ex demo_env 7 acc 100 90 1 False TOUTER_OUTPUT_MINT [l]))"
  proof -
    have "outside_router (snd (buy_fee_accounts demo_env ?c ?m ?o 0 st))"
      by (simp add: buy_fee_accounts_def Let_def demo_orca_client touch_mint_def outside_router_steps st(2))
    moreover have "fa_asset (fst (buy_fee_accounts demo_env ?c ?m ?o 0 st)) = 1"
      by (simp add: buy_fee_accounts_def Let_def demo_orca_client FEE_ASSET_TOKEN_def)
    ultimately show ?thesis
      by (auto simp: t_def finish_buy_def Let_def demo_orca_client demo_orca_market outside_router_def
        split: prod.split)
  qed
  ultimately show ?thesis using l(2,3)
    by (auto simp add: buy_with_opts_def Let_def demo_orca_client fee_amount_zero sat_sub_def buy_route_amount_def)
qed

abbreviation demo_orca_load :: "load_market_request \<Rightarrow> pubkey \<Rightarrow> sdk_error + (dex_param \<times> routed_market)" where
  "demo_orca_load \<equiv> \<lambda>_ _. Ok (ParamPumpSwapAutoRoute, \<lparr>rm_market = Whirlpool demo_orca_pool, rm_bridge = None\<rparr>)"

lemma demo_orca_run:
  "\<exists>ixs. touter_instructions demo_env (\<lambda>_. Some 52) demo_orca_env demo_orca_node demo_orca_load (\<lambda>_. Ok ''100'') 7 1 =
     Some (Ok ixs)"
proof -
  obtain t acc l where t: "buy_with_opts demo_env (touter_client 1 7 9 52) 100 demo_orca_market (touter_opts 90) = Some (Ok t)"
    "list_all (\<lambda>i. ix_program_id i \<noteq> 7) (bt_setup t)"
    "bt_route t = Some (build_route_instruction_ex demo_env 7 acc 100 90 1 False TOUTER_OUTPUT_MINT [l])"
    "leg_program l = ORCA_WHIRLPOOL_PROGRAM" "leg_data l = whirlpool_swap_data 100 90 False []"
    using demo_orca_trade by blast
  let ?r = "build_route_instruction_ex demo_env 7 acc 100 90 1 False TOUTER_OUTPUT_MINT [l]"
  have p: "ix_program_id ?r = 7" by (simp add: build_route_instruction_ex_def Let_def)
  note c = customize_one_leg [of l "whirlpool_swap_data 100 95 False []" 100 90 demo_env 7 acc 100 90 1 False]
  have "\<exists>ixs. customize_first 7 100 90 (demo_orca_env ''ORCA_SWAP_DATA_HEX'') (into_instructions t) = Ok ixs"
    using customize_first_pre [OF t(2) p c] t(3-5) demo_override demo_swap_facts(1)
    by (simp add: into_instructions_def demo_orca_env)
  then show ?thesis
    unfolding touter_instructions_def demo_orca_env demo_orca_steps demo_digits
    by (simp add: demo_orca_env demo_orca_steps demo_digits t(1))
qed

theorem touter_sends_one_swap_witness:
  "\<exists>ixs pre acc l post. touter_instructions demo_env (\<lambda>_. Some 52) demo_orca_env demo_orca_node demo_orca_load
      (\<lambda>_. Ok ''100'') 7 1 = Some (Ok ixs) \<and>
    ixs = pre @ build_route_instruction_ex demo_env 7 acc 100 90 1 False TOUTER_OUTPUT_MINT [l] # post \<and>
    ra_payer acc = 1 \<and> u64_of (slice 8 16 (leg_data l)) = 100 \<and> u64_of (slice 16 24 (leg_data l)) \<ge> 90"
proof -
  obtain ixs where x: "touter_instructions demo_env (\<lambda>_. Some 52) demo_orca_env demo_orca_node demo_orca_load
      (\<lambda>_. Ok ''100'') 7 1 = Some (Ok ixs)" using demo_orca_run by blast
  from touter_sends_one_swap [OF x] x show ?thesis
    unfolding demo_orca_env sum.inject by blast
qed

end
