(* ===== verification/Sim_Harness.thy ===== *)
theory Sim_Harness
  imports Example_Touter
begin

text \<open>
  The harness of the live simulations, \<open>mainnet_sim.rs\<close>: it builds a transaction from a trade,
  funds a fresh wallet in front of it and has a node simulate it. The node is the record \<open>sim_node\<close>;
  its answer to a request depends on the attempt. A panic of the harness, which fails its test, is
  an error value. Waiting between attempts, printing and the evidence files are not modelled.
\<close>

section \<open>Requests to the node\<close>

definition contains :: "string \<Rightarrow> string \<Rightarrow> bool" where
  "contains s needle = list_ex (\<lambda>k. take (length needle) (drop k s) = needle) [0..<Suc (length s)]"

definition lower :: "string \<Rightarrow> string" where
  "lower s = map to_ascii_lower s"

definition PERMANENT_RPC_ERRORS :: "string list" where
  "PERMANENT_RPC_ERRORS = [''transaction not found'', ''invalid type: null'', ''too old'', ''pruned'']"

definition TRANSIENT_RPC_ERRORS :: "string list" where
  "TRANSIENT_RPC_ERRORS = [''error sending request'', ''429'', ''rate limit'', ''timeout'', ''timed out'',
     ''temporar'', ''connection reset'', ''broken pipe'', ''connection refused'', ''tls'', ''ssl'', ''eof'',
     ''dns'', ''network'']"

definition is_transient_rpc_error :: "string \<Rightarrow> bool" where
  "is_transient_rpc_error err =
     (if list_ex (contains (lower err)) PERMANENT_RPC_ERRORS then False
      else list_ex (contains (lower err)) TRANSIENT_RPC_ERRORS)"

text \<open>Up to three attempts; \<open>last_err\<close> is the error of the one before.\<close>

fun rpc_attempts :: "nat list \<Rightarrow> (nat \<Rightarrow> sdk_error + 'a) \<Rightarrow> sdk_error option \<Rightarrow> sdk_error + 'a" where
  "rpc_attempts [] f last_err =
     (case last_err of Some e \<Rightarrow> Err e | None \<Rightarrow> Err ''rpc_retry exhausted without error'')"
| "rpc_attempts (t # ts) f last_err =
     (case f t of
        Inr v \<Rightarrow> Ok v
      | Inl e \<Rightarrow> if \<not> is_transient_rpc_error e then Err e else rpc_attempts ts f (Some e))"

definition rpc_retry :: "(nat \<Rightarrow> sdk_error + 'a) \<Rightarrow> sdk_error + 'a" where
  "rpc_retry f = rpc_attempts [0..<3] f None"

text \<open>A transaction, its signatures in the order of its first keys.\<close>

record sim_tx =
  sx_required_signatures :: nat
  sx_keys :: "pubkey list"
  sx_signatures :: "bytes list"
  sx_message :: bytes

text \<open>A transaction as fetched: whether its signatures verify, its slot, and its parsed events with
  their signature and slot.\<close>

record fetched_tx =
  fx_wire :: "(bool \<times> bytes list) option"
  fx_slot :: nat
  fx_events :: "(bytes \<times> nat \<times> dex_event) list option"
  fx_account_keys :: "pubkey option list option"

record sim_node =
  sn_account :: "nat \<Rightarrow> pubkey \<Rightarrow> sdk_error + (account_state \<times> bool)"
  sn_balance :: "nat \<Rightarrow> pubkey \<Rightarrow> sdk_error + u64"
  sn_slot :: "nat \<Rightarrow> sdk_error + nat"
  sn_blockhash :: "nat \<Rightarrow> sdk_error + pubkey"
  sn_simulate :: "nat \<Rightarrow> sim_tx \<Rightarrow> sdk_error + (string option \<times> string list option)"
  sn_signatures :: "nat \<Rightarrow> pubkey \<Rightarrow> bytes option \<Rightarrow> nat \<Rightarrow> sdk_error + (bytes option \<times> bool) list"
  sn_transaction :: "nat \<Rightarrow> bytes \<Rightarrow> sdk_error + fetched_tx"

definition rpc_url :: "environment \<Rightarrow> string" where
  "rpc_url env = (case env ''SOLANA_RPC_URL'' of Some u \<Rightarrow> u
     | None \<Rightarrow> unwrap_or (env ''RPC_URL'') ''https://api.mainnet-beta.solana.com'')"

definition require_rpc :: "sim_node \<Rightarrow> sdk_error + bool" where
  "require_rpc N = bind_r (rpc_retry (sn_slot N)) (\<lambda>_. Ok True)"

definition router_program_deployed :: "sim_node \<Rightarrow> bool" where
  "router_program_deployed N =
     (case rpc_retry (\<lambda>t. sn_account N t PROGRAM_ID) of Inr (acc, executable) \<Rightarrow> executable | Inl _ \<Rightarrow> False)"

section \<open>Wallets\<close>

definition SIM_FUNDER_CANDIDATES :: "pubkey list" where
  "SIM_FUNDER_CANDIDATES = [pubkey58 ''9WzDXwBbmkg8ZTbNMqUxvQRAyrZzDsGYdLVL9zYtAWWM'',
     pubkey58 ''5tzFkiKscXHK5ZXCGbXZxdw7gTjjD1mBwuoFbhUvuAi9'',
     pubkey58 ''2ojv9BAiHUrvsm9gxDeBFNCuoK1xKdcHGa5Y6XD7Tcuv'',
     pubkey58 ''FWznbcNXWQuHTawe9RxvQ2LdCENssh12dsznf4RiouN5'']"

definition SIM_FUND_LAMPORTS :: u64 where "SIM_FUND_LAMPORTS = 100000000"

text \<open>The first candidate with ten times the lamports needed.\<close>

definition pick_funder :: "sim_node \<Rightarrow> pubkey option" where
  "pick_funder N = List.find (\<lambda>k. case rpc_retry (\<lambda>t. sn_balance N t k) of
     Inr l \<Rightarrow> l \<ge> SIM_FUND_LAMPORTS * 10 | Inl _ \<Rightarrow> False) SIM_FUNDER_CANDIDATES"

text \<open>\<open>n\<close> distinct wallets from a list of draws; \<open>None\<close> where the draws run out.\<close>

fun create_wallets :: "nat \<Rightarrow> pubkey list \<Rightarrow> pubkey list \<Rightarrow> pubkey list option" where
  "create_wallets n out draws =
     (if length out \<ge> n then Some out
      else case draws of
        [] \<Rightarrow> None
      | w # ws \<Rightarrow> create_wallets n (if w \<in> set out then out else out @ [w]) ws)"

section \<open>Checking a trade\<close>

definition assert_route_ix :: "built_trade \<Rightarrow> sdk_error + unit" where
  "assert_route_ix t =
     bind_r (ok_or (bt_route t) ''BuiltTrade missing route ix'') (\<lambda>route.
       if ix_program_id route \<noteq> PROGRAM_ID then Err ''route program_id must be router PROGRAM_ID''
       else if ix_data route = [] \<or> hd (ix_data route) \<noteq> TAG_ROUTE_IX
       then Err ''route data must start with TAG_ROUTE''
       else if ix_accounts route = [] then Err ''route accounts must be non-empty'' else Ok ())"

text \<open>The only leg of a route, read from its instruction.\<close>

definition single_route_leg_for_direct_simulation :: "built_trade \<Rightarrow> sdk_error + leg" where
  "single_route_leg_for_direct_simulation t =
     bind_r (ok_or (bt_route t) ''high-level route is required'') (\<lambda>route.
       let d = ix_data route in
       if length d < 86 then Err ''truncated single-leg route''
       else if d ! 0 \<noteq> TAG_ROUTE_IX then Err ''tag''
       else if d ! 18 \<noteq> 1 then Err ''single-hop route required''
       else let account_count = unat (d ! 83); data_len = unat (u16_of (slice 84 86 d)) in
         if account_count < 1 \<or> account_count > SDK_MAX_LEG_ACCOUNTS then Err ''account count''
         else if length d \<noteq> 86 + data_len then Err ''data length''
         else if length (ix_accounts route) < 6 + account_count then Err ''accounts''
         else Ok \<lparr>leg_program = key_of (slice 51 83 d),
           leg_accounts = slice 6 (6 + account_count) (ix_accounts route), leg_data = drop 86 d\<rparr>)"

section \<open>Verdicts\<close>

datatype sim_verdict = SimOk | SimSoft string | SimHard string

definition is_fee_payer_only_soft :: "string \<Rightarrow> bool" where
  "is_fee_payer_only_soft msg =
     (let l = lower msg;
          debit = contains l ''debit an account'' \<or> contains l ''no record of a prior credit''
            \<or> contains l ''may not be used to pay transaction fees''
      in if \<not> debit then False
         else \<not> contains l '' invoke ['' \<and> \<not> contains l ''anchorerror''
           \<and> \<not> contains l ''program log: instruction'')"

definition HARD_NEEDLES :: "string list" where
  "HARD_NEEDLES = [''constraint'', ''constraintaddress'', ''accountownedbywrongprogram'',
     ''invalidaccountdata'', ''invalidprogramid'', ''incorrecttokenprogramid'', ''invalidspltokenprogram'',
     ''invalid spl token program'', ''missingrequiredsignature'', ''notenoughaccountkeys'',
     ''incorrectprogramid'', ''failed to serialize'', ''instruction fallback'', ''instructionfallback'',
     ''fallback functions are not supported'', ''a seeds constraint was violated'', ''has_one'',
     ''mut constraint'', ''owner constraint'', ''discriminator'', ''accountdiscriminatormismatch'',
     ''0xbbd'', ''0xbbf'', ''0x7dc'', ''0x7d6'', ''0x7d1'', ''0x7d3'', ''0x65'', ''0x26'',
     ''sqrtpriceoutofbounds'', ''0x177b'']"

definition LAYOUT_ACCOUNTS :: "string list" where
  "LAYOUT_ACCOUNTS = [''amm_config'', ''pool_state'', ''bonding_curve'', ''lb_pair'', ''whirlpool'',
     ''caused by account: pool.'', ''account: pool.'']"

definition SOFT_NEEDLES :: "string list" where
  "SOFT_NEEDLES = [''insufficient'', ''insufficientfunds'', ''insufficient lamports'', ''insufficient funds'',
     ''no record of a prior credit'', ''debit an account'', ''slippage'', ''exceededslippage'', ''minout'',
     ''minimum'', ''amountoutdelta'', ''overflow'', ''underflow'', ''too little'', ''too much'', ''price'',
     ''liquidity'', ''binarray'', ''tickarray'', ''bitmap'', ''accountnotinitialized'', ''0xbc4'',
     ''buyzeroamount'', ''buy zero amount'', ''zerobaseamount'', ''zero amount'', ''notenoughtokenstosell'',
     ''unsupportedquotemint'', ''may not be used to pay transaction fees'', ''requiregteviolated'',
     ''0x9ca'', ''0x17af'', ''attempt to load a program that does not exist'',
     ''program account does not exist'', ''programaccountnotfound'', ''invalid program for execution'',
     ''too large'', ''1644'', ''1232'', ''encoded/raw'', ''transaction too large'',
     ''versionedtransaction too large'']"

text \<open>What follows the first place where the needle stands.\<close>

fun after_first :: "string \<Rightarrow> string \<Rightarrow> string option" where
  "after_first needle [] = (if needle = [] then Some [] else None)"
| "after_first needle (c # s) =
     (if take (length needle) (c # s) = needle then Some (drop (length needle) (c # s))
      else after_first needle s)"

fun read_hex :: "nat \<Rightarrow> string \<Rightarrow> nat option" where
  "read_hex acc [] = Some acc"
| "read_hex acc (c # s) =
     (case hex_value c of None \<Rightarrow> None | Some v \<Rightarrow> read_hex (16 * acc + v) s)"

definition custom_program_error_code :: "string \<Rightarrow> u64 option" where
  "custom_program_error_code l =
     (case after_first ''custom program error: 0x'' l of
        None \<Rightarrow> None
      | Some rest \<Rightarrow>
          (let hex = takeWhile (\<lambda>c. hex_value c \<noteq> None) rest in
           if hex = [] then None
           else case read_hex 0 hex of
             Some v \<Rightarrow> if v < 2 ^ 64 then Some (of_nat v) else None | None \<Rightarrow> None))"

definition classify_err :: "string \<Rightarrow> sim_verdict" where
  "classify_err msg =
     (let l = lower msg in
      if contains l ''too large'' \<or> contains l ''versionedtransaction too large''
        \<or> contains l ''max: encoded/raw'' \<or> (contains l ''1644'' \<and> contains l ''1232'')
      then SimSoft msg
      else if list_ex (contains l) HARD_NEEDLES then SimHard msg
      else if (contains l ''accountnotinitialized'' \<or> contains l ''0xbc4'')
        \<and> list_ex (contains l) LAYOUT_ACCOUNTS then SimHard msg
      else if custom_program_error_code l = Some 1 then SimSoft msg
      else if list_ex (contains l) SOFT_NEEDLES then SimSoft msg
      else SimHard msg)"

fun join_logs :: "string list \<Rightarrow> string" where
  "join_logs [] = []"
| "join_logs [l] = l"
| "join_logs (l # ls) = l @ '' | '' @ join_logs ls"

text \<open>\<open>err\<close> is the text of the error as the node's client prints it.\<close>

definition classify_response :: "string option \<Rightarrow> string list option \<Rightarrow> sim_verdict" where
  "classify_response err logs =
     (case err of
        None \<Rightarrow> SimOk
      | Some e \<Rightarrow> classify_err (e @ ''; logs='' @ join_logs (unwrap_or logs [])))"

fun assert_sim_ok :: "sim_verdict \<Rightarrow> sdk_error + unit" where
  "assert_sim_ok SimOk = Ok ()"
| "assert_sim_ok (SimSoft m) = Err (''simulation did not succeed: '' @ m)"
| "assert_sim_ok (SimHard m) = Err (''HARD simulate failure: '' @ m)"

fun assert_sim_hard :: "sim_verdict \<Rightarrow> sdk_error + unit" where
  "assert_sim_hard (SimHard m) = Ok ()"
| "assert_sim_hard SimOk = Err ''expected HARD layout failure, got Ok''"
| "assert_sim_hard (SimSoft m) = Err (''expected HARD layout failure, got soft: '' @ m)"

definition is_balance_failure :: "string \<Rightarrow> string \<Rightarrow> bool" where
  "is_balance_failure scenario message =
     (let l = lower message in
      contains l ''insufficient funds'' \<or> contains l ''insufficientfunds''
      \<or> contains l ''notenoughtokenstosell'' \<or> contains l ''insufficient token''
      \<or> contains l ''error: insufficient balance''
      \<or> (scenario = ''launchlab_sell'' \<and> contains l ''sell_exact_in.rs:16''
        \<and> contains l ''requiregteviolated'' \<and> contains l ''left: 0''))"

definition assert_sim_balance_failure :: "string \<Rightarrow> sim_verdict option \<Rightarrow> sdk_error + unit" where
  "assert_sim_balance_failure scenario v =
     (let check = (\<lambda>m. if is_balance_failure scenario m then Ok () else Err (''expected a balance failure, got: '' @ m)) in
      case v of
        Some (SimSoft m) \<Rightarrow> check m
      | Some (SimHard m) \<Rightarrow> check m
      | _ \<Rightarrow> Err ''expected an unfunded-input failure'')"

definition require_coverage :: "bool \<Rightarrow> sdk_error + unit" where
  "require_coverage found = (if found then Ok () else Err ''required live mainnet coverage but found no matching events'')"

definition soft_coverage :: "bool \<Rightarrow> sdk_error + unit" where
  "soft_coverage found = (if found then Ok () else Err ''no matching live events/fixtures'')"

section \<open>Simulation\<close>

text \<open>The transaction builders of the Solana crates: the legacy and the V1 message of a payer, the
  instructions and a blockhash, the size of a transaction, and the signatures of the wallet.\<close>

record tx_tools =
  tt_legacy :: "pubkey \<Rightarrow> instruction list \<Rightarrow> pubkey \<Rightarrow> sim_tx"
  tt_v1 :: "pubkey \<Rightarrow> instruction list \<Rightarrow> pubkey \<Rightarrow> sdk_error + sim_tx"
  tt_size :: "sim_tx \<Rightarrow> nat"
  tt_sign :: "bytes \<Rightarrow> bytes"
  tt_verify :: "bytes \<Rightarrow> pubkey \<Rightarrow> bytes \<Rightarrow> bool"

definition DEFAULT_SIGNATURE :: bytes where "DEFAULT_SIGNATURE = replicate 64 0"

fun index_of :: "pubkey \<Rightarrow> pubkey list \<Rightarrow> nat option" where
  "index_of k [] = None"
| "index_of k (x # xs) = (if x = k then Some 0 else map_option Suc (index_of k xs))"

definition sign_and_verify_authority :: "tx_tools \<Rightarrow> sim_tx \<Rightarrow> pubkey \<Rightarrow> sdk_error + (sim_tx \<times> bool)" where
  "sign_and_verify_authority T tx wallet =
     (case index_of wallet (take (sx_required_signatures tx) (sx_keys tx)) of
        Some index \<Rightarrow>
          (let sig = tt_sign T (sx_message tx) in
           if \<not> tt_verify T sig wallet (sx_message tx) then Err ''trade authority signature invalid''
           else Ok (tx\<lparr>sx_signatures := (sx_signatures tx)[index := sig]\<rparr>, True))
      | None \<Rightarrow> Ok (tx, False))"

text \<open>The legacy transaction, or a V1 transaction without signatures where that is too large.\<close>

definition compile_simulation :: "tx_tools \<Rightarrow> pubkey \<Rightarrow> instruction list \<Rightarrow> pubkey \<Rightarrow> sdk_error + sim_tx" where
  "compile_simulation T fee_payer ixs blockhash =
     (let tx = tt_legacy T fee_payer ixs blockhash in
      if tt_size T tx > 1232
      then bind_r (tt_v1 T fee_payer ixs blockhash) (\<lambda>v1.
        Ok (v1\<lparr>sx_signatures := replicate (sx_required_signatures v1) DEFAULT_SIGNATURE\<rparr>))
      else Ok tx)"

definition verdict_of_answer :: "sdk_error + (string option \<times> string list option) \<Rightarrow> sim_verdict" where
  "verdict_of_answer answer =
     (case answer of
        Inr (err, logs) \<Rightarrow> classify_response err logs
      | Inl e \<Rightarrow> if is_transient_rpc_error e then SimSoft (''transient rpc simulate: '' @ e)
          else classify_err e)"

definition simulate_ixs_signed ::
  "tx_tools \<Rightarrow> sim_node \<Rightarrow> pubkey \<Rightarrow> instruction list \<Rightarrow> pubkey option \<Rightarrow> sdk_error + sim_verdict" where
  "simulate_ixs_signed T N fee_payer ixs wallet =
     (if ixs = [] then Ok (SimHard ''no instructions'')
      else case rpc_retry (sn_blockhash N) of
        Inl e \<Rightarrow> Ok (if is_transient_rpc_error e then SimSoft (''transient rpc get_latest_blockhash: '' @ e)
          else SimHard (''get_latest_blockhash: '' @ e))
      | Inr blockhash \<Rightarrow>
          bind_r (compile_simulation T fee_payer ixs blockhash) (\<lambda>tx.
          bind_r (case wallet of Some w \<Rightarrow> sign_and_verify_authority T tx w | None \<Rightarrow> Ok (tx, False)) (\<lambda>(tx, signed).
            Ok (verdict_of_answer (rpc_retry (\<lambda>t. sn_simulate N t tx))))))"

text \<open>No verdict where no candidate can fund the wallet.\<close>

definition simulate_with_fresh_wallet ::
  "sdk_env \<Rightarrow> tx_tools \<Rightarrow> sim_node \<Rightarrow> pubkey \<Rightarrow> instruction list \<Rightarrow> sdk_error + sim_verdict option" where
  "simulate_with_fresh_wallet R T N wallet business =
     (case pick_funder N of
        None \<Rightarrow> Ok None
      | Some funder \<Rightarrow>
          bind_r (simulate_ixs_signed T N funder
            (system_transfer R funder wallet SIM_FUND_LAMPORTS # business) (Some wallet)) (\<lambda>v. Ok (Some v)))"

definition leg_instruction :: "leg \<Rightarrow> instruction" where
  "leg_instruction l = \<lparr>ix_program_id = leg_program l, ix_accounts = leg_accounts l, ix_data = leg_data l\<rparr>"

definition simulate_legs_funded ::
  "sdk_env \<Rightarrow> tx_tools \<Rightarrow> sim_node \<Rightarrow> pubkey \<Rightarrow> instruction list \<Rightarrow> leg list \<Rightarrow> sdk_error + sim_verdict option" where
  "simulate_legs_funded R T N wallet setup legs =
     simulate_with_fresh_wallet R T N wallet (setup @ map leg_instruction legs)"

definition simulate_direct_legs ::
  "sdk_env \<Rightarrow> tx_tools \<Rightarrow> sim_node \<Rightarrow> pubkey \<Rightarrow> instruction list \<Rightarrow> leg list \<Rightarrow> sdk_error + sim_verdict option" where
  "simulate_direct_legs R T N wallet setup legs = simulate_legs_funded R T N wallet setup legs"

definition simulate_built_trade ::
  "sdk_env \<Rightarrow> tx_tools \<Rightarrow> sim_node \<Rightarrow> pubkey \<Rightarrow> built_trade \<Rightarrow> sdk_error + sim_verdict option" where
  "simulate_built_trade R T N wallet t =
     bind_r (assert_route_ix t) (\<lambda>_. simulate_with_fresh_wallet R T N wallet (into_instructions t))"

section \<open>Recent transactions\<close>

text \<open>A page of signatures, each with whether its transaction failed: the successful ones, up to the
  target, and whether there was one.\<close>

fun collect_sigs :: "nat \<Rightarrow> bytes list \<Rightarrow> (bytes option \<times> bool) list \<Rightarrow> bytes list \<times> bool" where
  "collect_sigs target out [] = (out, False)"
| "collect_sigs target out ((sig, failed) # rest) =
     (if failed then collect_sigs target out rest
      else case sig of
        None \<Rightarrow> collect_sigs target out rest
      | Some s \<Rightarrow>
          if length (out @ [s]) \<ge> target then (out @ [s], True)
          else (fst (collect_sigs target (out @ [s]) rest), True))"

text \<open>\<open>pages\<close> pages are left.\<close>

fun sigs_pages :: "sim_node \<Rightarrow> pubkey \<Rightarrow> nat \<Rightarrow> nat \<Rightarrow> bytes list \<Rightarrow> bytes option \<Rightarrow> bytes list" where
  "sigs_pages N addr target 0 out before = out"
| "sigs_pages N addr target (Suc pages) out before =
     (if length out \<ge> target then out
      else case rpc_retry (\<lambda>t. sn_signatures N t addr before
          (min 100 (max 20 (target - length out)))) of
        Inl _ \<Rightarrow> out
      | Inr list \<Rightarrow>
          if list = [] then out
          else let last_sig = fst (last list); (out', got_any) = collect_sigs target out list in
            if \<not> got_any \<and> last_sig = None then out'
            else sigs_pages N addr target pages out' last_sig)"

definition recent_sigs_deep :: "sim_node \<Rightarrow> pubkey \<Rightarrow> nat \<Rightarrow> bytes list" where
  "recent_sigs_deep N addr target = sigs_pages N addr target 12 [] None"

definition recent_sigs :: "sim_node \<Rightarrow> pubkey \<Rightarrow> nat \<Rightarrow> bytes list" where
  "recent_sigs N program limit = recent_sigs_deep N program limit"

definition parse_tx_events :: "sim_node \<Rightarrow> bytes \<Rightarrow> sdk_error + dex_event list" where
  "parse_tx_events N sig =
     bind_r (rpc_retry (\<lambda>t. sn_transaction N t sig)) (\<lambda>tx.
     bind_r (ok_or (fx_wire tx) ''RPC returned decodable transaction'') (\<lambda>(valid, signatures).
       if \<not> valid then Err ''latest on-chain transaction has valid signatures''
       else if signatures = [] \<or> hd signatures \<noteq> sig then Err ''RPC returned a different signature''
       else bind_r (ok_or (fx_events tx) ''latest transaction parser'') (\<lambda>events.
         if \<not> list_all (\<lambda>(s, slot, e). s = sig \<and> slot = fx_slot tx) events
         then Err ''parsed event signature or slot''
         else Ok (map (\<lambda>(s, slot, e). e) events))))"

text \<open>The handler has a state; the scan stops at the first event it accepts.\<close>

fun handle_events :: "(bytes \<Rightarrow> dex_event \<Rightarrow> 's \<Rightarrow> bool \<times> 's) \<Rightarrow> bytes \<Rightarrow> dex_event list \<Rightarrow> 's \<Rightarrow> bool \<times> 's" where
  "handle_events handle sig [] s = (False, s)"
| "handle_events handle sig (e # es) s =
     (let (accepted, s') = handle sig e s in
      if accepted then (True, s') else handle_events handle sig es s')"

fun scan_sigs ::
  "sim_node \<Rightarrow> (bytes \<Rightarrow> dex_event \<Rightarrow> 's \<Rightarrow> bool \<times> 's) \<Rightarrow> bytes list \<Rightarrow> 's \<Rightarrow> sdk_error + (bool \<times> 's)" where
  "scan_sigs N handle [] s = Ok (False, s)"
| "scan_sigs N handle (sig # sigs) s =
     bind_r (parse_tx_events N sig) (\<lambda>events.
       let (accepted, s') = handle_events handle sig events s in
       if accepted then Ok (True, s') else scan_sigs N handle sigs s')"

fun scan_events ::
  "sim_node \<Rightarrow> nat \<Rightarrow> (bytes \<Rightarrow> dex_event \<Rightarrow> 's \<Rightarrow> bool \<times> 's) \<Rightarrow> pubkey list \<Rightarrow> 's \<Rightarrow> sdk_error + (bool \<times> 's)" where
  "scan_events N target handle [] s = Ok (False, s)"
| "scan_events N target handle (a # addresses) s =
     bind_r (scan_sigs N handle (recent_sigs_deep N a target) s) (\<lambda>(accepted, s').
       if accepted then Ok (True, s') else scan_events N target handle addresses s')"

definition tx_fee_payer :: "sim_node \<Rightarrow> bytes \<Rightarrow> pubkey option" where
  "tx_fee_payer N sig =
     (case rpc_retry (\<lambda>t. sn_transaction N t sig) of
        Inr tx \<Rightarrow> (case fx_account_keys tx of Some (k # ks) \<Rightarrow> k | _ \<Rightarrow> None)
      | Inl _ \<Rightarrow> None)"

text \<open>Trades of the venue asked for, by their event.\<close>

definition is_trade_for_program :: "dex_event \<Rightarrow> pubkey \<Rightarrow> bool" where
  "is_trade_for_program event program =
     (case event of
        EvPumpFunTrade _ \<Rightarrow> program = PUMPFUN_PROGRAM
      | EvPumpFunBuy _ \<Rightarrow> program = PUMPFUN_PROGRAM
      | EvPumpFunSell _ \<Rightarrow> program = PUMPFUN_PROGRAM
      | EvPumpFunBuyExactSolIn _ \<Rightarrow> program = PUMPFUN_PROGRAM
      | EvPumpSwapBuy _ \<Rightarrow> program = PUMPSWAP_PROGRAM
      | EvPumpSwapSell _ \<Rightarrow> program = PUMPSWAP_PROGRAM
      | EvCpmmSwap \<Rightarrow> program = RAYDIUM_CPMM_PROGRAM
      | EvAmmV4Swap _ \<Rightarrow> program = RAYDIUM_AMM_V4_PROGRAM
      | EvClmmSwap _ \<Rightarrow> program = RAYDIUM_CLMM_PROGRAM
      | EvWhirlpoolSwap _ \<Rightarrow> program = ORCA_WHIRLPOOL_PROGRAM
      | EvDlmmSwap _ \<Rightarrow> program = METEORA_DLMM_PROGRAM
      | EvDammV2Swap _ \<Rightarrow> program = METEORA_DAMM_V2_PROGRAM
      | EvLaunchlabTrade _ \<Rightarrow> program = LAUNCHLAB_PROGRAM
      | _ \<Rightarrow> False)"

section \<open>Accounts and snapshots\<close>

definition account_of_node :: "sim_node \<Rightarrow> pubkey \<Rightarrow> account_state option" where
  "account_of_node N k = (case rpc_retry (\<lambda>t. sn_account N t k) of Inr (acc, x) \<Rightarrow> Some acc | Inl _ \<Rightarrow> None)"

definition token_account_amount :: "sim_node \<Rightarrow> pubkey \<Rightarrow> u64 option" where
  "token_account_amount N k =
     (case account_of_node N k of
        None \<Rightarrow> None
      | Some acc \<Rightarrow> if length (acc_data acc) < 72 then None else Some (u64_of (slice 64 72 (acc_data acc))))"

definition mint_token_program_opt :: "sim_node \<Rightarrow> pubkey \<Rightarrow> pubkey option" where
  "mint_token_program_opt N mint =
     (case account_of_node N mint of
        None \<Rightarrow> None
      | Some acc \<Rightarrow> if owner acc = TOKEN_2022_PROGRAM then Some TOKEN_2022_PROGRAM
          else if owner acc = TOKEN_PROGRAM then Some TOKEN_PROGRAM else None)"

definition mint_token_program :: "sim_node \<Rightarrow> pubkey \<Rightarrow> pubkey" where
  "mint_token_program N mint = unwrap_or (mint_token_program_opt N mint) TOKEN_PROGRAM"

definition token_account_mint :: "sim_node \<Rightarrow> pubkey \<Rightarrow> pubkey option" where
  "token_account_mint N k =
     (case account_of_node N k of
        None \<Rightarrow> None
      | Some acc \<Rightarrow> if length (acc_data acc) < 32 then None
          else let mint = key_of (slice 0 32 (acc_data acc)) in if mint = 0 then None else Some mint)"

text \<open>The pool is changed in place; \<open>False\<close> where it could not be filled.\<close>

definition fill_amm_v4_mints :: "sim_node \<Rightarrow> raydium_amm_v4_pool \<Rightarrow> bool \<times> raydium_amm_v4_pool" where
  "fill_amm_v4_mints N p =
     (case (token_account_mint N (rv_token_coin p), token_account_mint N (rv_token_pc p)) of
        (Some coin, Some pc) \<Rightarrow>
          (let tp = (case mint_token_program_opt N coin of Some t \<Rightarrow> t
                | None \<Rightarrow> if rv_token_program p = 0 then TOKEN_PROGRAM else rv_token_program p);
               c = unwrap_or (token_account_amount N (rv_token_coin p)) 0;
               d = unwrap_or (token_account_amount N (rv_token_pc p)) 0
           in (c \<noteq> 0 \<and> d \<noteq> 0, p\<lparr>rv_coin_mint := coin, rv_pc_mint := pc, rv_token_program := tp,
                 rv_coin_reserve := c, rv_pc_reserve := d\<rparr>))
      | _ \<Rightarrow> (False, p))"

definition fill_clmm_token_programs :: "sim_node \<Rightarrow> raydium_clmm_pool \<Rightarrow> bool \<times> raydium_clmm_pool" where
  "fill_clmm_token_programs N p =
     (case (mint_token_program_opt N (cl_token_0_mint p), mint_token_program_opt N (cl_token_1_mint p)) of
        (Some t0, Some t1) \<Rightarrow> (True, clmm_apply_token_programs t0 t1 p) | _ \<Rightarrow> (False, p))"

definition fill_whirlpool_token_programs :: "sim_node \<Rightarrow> whirlpool_pool \<Rightarrow> bool \<times> whirlpool_pool" where
  "fill_whirlpool_token_programs N p =
     (case (mint_token_program_opt N (wp_mint_a p), mint_token_program_opt N (wp_mint_b p)) of
        (Some ta, Some tb) \<Rightarrow> (True, p\<lparr>wp_token_program_a := ta, wp_token_program_b := tb\<rparr>)
      | _ \<Rightarrow> (False, p))"

text \<open>Keys seen on chain replace those of the leg, save a signer's and where no key was seen.\<close>

fun overlay_keys :: "account_view list \<Rightarrow> pubkey list \<Rightarrow> account_view list" where
  "overlay_keys (m # ms) (k # ks) =
     (if is_signer m \<or> k = 0 then m else m\<lparr>address := k\<rparr>) # overlay_keys ms ks"
| "overlay_keys ms ks = ms"

definition overlay_leg_keys :: "leg \<Rightarrow> pubkey list \<Rightarrow> leg" where
  "overlay_leg_keys l onchain = l\<lparr>leg_accounts := overlay_keys (leg_accounts l) onchain\<rparr>"

text \<open>The snapshots: the answer of the direct-trade SDK's loader, converted.\<close>

definition sim_load_pumpswap_pool :: "trade_sdk \<Rightarrow> sdk_error + pumpswap_params \<Rightarrow> sdk_error + pumpswap_pool option" where
  "sim_load_pumpswap_pool X answer = bind_r answer (\<lambda>p. Ok (Some (pumpswap_from_params X p)))"

definition sim_load_cpmm_pool :: "sdk_error + cpmm_params \<Rightarrow> sdk_error + cpmm_pool option" where
  "sim_load_cpmm_pool answer = bind_r answer (\<lambda>p. Ok (Some (cpmm_from_params p)))"

definition sim_load_amm_v4_pool :: "sdk_error + amm_v4_params \<Rightarrow> sdk_error + raydium_amm_v4_pool option" where
  "sim_load_amm_v4_pool answer = bind_r answer (\<lambda>p. Ok (Some (raydium_amm_v4_from_params p)))"

definition sim_load_clmm_pool :: "sdk_error + clmm_params \<Rightarrow> sdk_error + raydium_clmm_pool" where
  "sim_load_clmm_pool answer = bind_r answer (\<lambda>p. Ok (raydium_clmm_from_params p))"

text \<open>A completed curve has no pool. \<open>answer\<close> is what \<open>load_routed_market_by_rpc\<close> returned.\<close>

definition sim_load_pumpfun_pool :: "sdk_error + (dex_param \<times> routed_market) \<Rightarrow> sdk_error + pumpfun_pool option" where
  "sim_load_pumpfun_pool answer =
     (case answer of
        Inr (ext, rm) \<Rightarrow> (case rm_market rm of PumpFunInner p \<Rightarrow> Ok (Some p) | _ \<Rightarrow> Err ''unexpected Pump market'')
      | Inl e \<Rightarrow> if contains e ''completed PumpFun'' then Ok None else Err (''current Pump curve: '' @ e))"

end
