(* ===== verification/Sim_Props.thy ===== *)
theory Sim_Props
  imports Sim_Harness Touter_Props
begin

unbundle bit_operations_syntax

text \<open>
  The simulation harness: what its retries return, that the leg it simulates on its own is the leg of
  the trade, and that it reports success only where the node ran the trade it was given without an
  error.
\<close>

section \<open>Retries\<close>

fun gives_up :: "sdk_error + 'a \<Rightarrow> bool" where
  "gives_up (Inr v) = True"
| "gives_up (Inl e) = (\<not> is_transient_rpc_error e)"

lemma rpc_attempts_find:
  "rpc_attempts ts f last_err =
     (case List.find (\<lambda>k. gives_up (f k)) ts of
        Some k \<Rightarrow> f k | None \<Rightarrow> if ts = [] then rpc_attempts [] f last_err else f (last ts))"
proof (induction ts arbitrary: last_err)
  case (Cons t ts)
  then show ?case by (cases "f t") (auto split: option.splits)
qed simp

lemma rpc_retry_eq:
  "rpc_retry f = (case List.find (\<lambda>k. gives_up (f k)) [0..<3] of Some k \<Rightarrow> f k | None \<Rightarrow> f 2)"
  by (simp add: rpc_retry_def rpc_attempts_find eval_nat_numeral split: option.splits)

lemma rpc_retry_from: "\<exists>k<3. rpc_retry f = f k"
proof (cases "List.find (\<lambda>k. gives_up (f k)) [0..<3]")
  case None
  then show ?thesis by (intro exI [of _ 2]) (simp add: rpc_retry_eq)
next
  case (Some k)
  then have "k \<in> set [0..<3]" by (auto simp: find_Some_iff)
  with Some show ?thesis by (intro exI [of _ k]) (simp add: rpc_retry_eq)
qed

text \<open>The retry of the harness returns what a caller may rely on: the answer of the first of three
  attempts that succeeds or fails for good, and where all three fail in a way that may pass, the
  error of the last. It never invents an error of its own.\<close>

theorem rpc_retry_first_answer:
  "rpc_retry f = (case List.find (\<lambda>k. case f k of Inr v \<Rightarrow> True | Inl e \<Rightarrow> \<not> is_transient_rpc_error e) [0..<3] of
     Some k \<Rightarrow> f k | None \<Rightarrow> f 2)"
proof -
  have "gives_up a = (case a of Inr v \<Rightarrow> True | Inl e \<Rightarrow> \<not> is_transient_rpc_error e)" for a :: "sdk_error + 'a"
    by (cases a) simp_all
  then show ?thesis unfolding rpc_retry_eq by simp
qed

section \<open>The scan for transactions\<close>

definition node_lists :: "sim_node \<Rightarrow> pubkey \<Rightarrow> bytes \<Rightarrow> bool" where
  "node_lists N addr s \<longleftrightarrow> (\<exists>t<3. \<exists>before limit page. sn_signatures N t addr before limit = Ok page \<and>
     20 \<le> limit \<and> limit \<le> 100 \<and> (Some s, False) \<in> set page)"

lemma collect_sigs_props:
  assumes "length out < target"
  shows "length (fst (collect_sigs target out page)) \<le> target"
    "set (fst (collect_sigs target out page)) \<subseteq> set out \<union> {s. (Some s, False) \<in> set page}"
  using assms
  by (induction target out page rule: collect_sigs.induct) (auto split: option.splits if_splits)

lemma sigs_pages_props:
  assumes "length out \<le> target" "\<forall>s \<in> set out. node_lists N addr s"
  shows "length (sigs_pages N addr target pages out before) \<le> target \<and>
    (\<forall>s \<in> set (sigs_pages N addr target pages out before). node_lists N addr s)"
  using assms
proof (induction pages arbitrary: out before)
  case (Suc pages)
  let ?limit = "min 100 (max 20 (target - length out))"
  show ?case
  proof (cases "length out \<ge> target")
    case False
    then have o: "length out < target" by simp
    show ?thesis
    proof (cases "rpc_retry (\<lambda>t. sn_signatures N t addr before ?limit)")
      case (Inl e)
      with Suc.prems False show ?thesis by simp
    next
      case (Inr page)
      obtain t where "t < 3" "sn_signatures N t addr before ?limit = Ok page"
        using rpc_retry_from [of "\<lambda>t. sn_signatures N t addr before ?limit"] Inr by auto
      then have p: "node_lists N addr s" if "(Some s, False) \<in> set page" for s
        using that unfolding node_lists_def
        by (intro exI [of _ t] conjI exI [of _ before] exI [of _ ?limit] exI [of _ page]) auto
      obtain out' got where c: "collect_sigs target out page = (out', got)" by fastforce
      with collect_sigs_props [OF o, of page] Suc.prems(2) p
      have "length out' \<le> target" "\<forall>s \<in> set out'. node_lists N addr s" by auto
      with Suc.IH [of out' "fst (last page)"] Suc.prems False Inr c show ?thesis by (auto simp: Let_def)
    qed
  qed (use Suc.prems in simp)
qed simp

lemma recent_sigs_bounded:
  "length (recent_sigs_deep N addr target) \<le> target \<and>
   (\<forall>s \<in> set (recent_sigs_deep N addr target). node_lists N addr s)"
  using sigs_pages_props [of "[]" target N addr 12 None] by (simp add: recent_sigs_deep_def)

section \<open>The leg of a route\<close>

lemma append_fee_mint_extends: "\<exists>rest. append_fee_mint metas a = metas @ rest"
  by (simp add: append_fee_mint_def)

lemma one_leg_read:
  assumes "sendable l" "bt_route t = Some (build_route_instruction_ex R pid a amount m asset exact mint [l])"
  shows "single_route_leg_for_direct_simulation t = Ok l"
proof -
  let ?i = "build_route_instruction_ex R pid a amount m asset exact mint [l]"
  let ?h = "one_leg_head amount m asset exact mint l"
  let ?d = "?h @ u16_bytes (of_nat (length (leg_data l))) @ leg_data l"
  have n: "length (leg_accounts l) \<le> 64" "length (leg_accounts l) \<noteq> 0" "length (leg_data l) \<le> 65535"
    using assms(1) by (auto simp: sendable_def)
  have d: "ix_data ?i = ?d" by (rule one_leg_data)
  have h: "?d ! 0 = 2" "?d ! 18 = 1" "?d ! 83 = of_nat (length (leg_accounts l))"
    "slice 51 83 ?d = key_bytes (leg_program l)" "slice 84 86 ?d = u16_bytes (of_nat (length (leg_data l)))"
    "length ?d = 86 + length (leg_data l)" "drop 86 ?d = leg_data l"
    by (simp_all add: slice_append_left one_leg_head_fields)
      (simp_all add: one_leg_head_def nth_append slice_def)
  have c: "unat (of_nat (length (leg_accounts l)) :: u8) = length (leg_accounts l)"
    "unat (u16_of (u16_bytes (of_nat (length (leg_data l))))) = length (leg_data l)"
    using n by (simp_all add: unat_of_nat_u8 unat_of_nat_u16)
  obtain rest where acc: "ix_accounts ?i = fixed_metas a (fst (sdk_config_pda R pid)) @ leg_accounts l @ rest"
    using append_fee_mint_extends [of "fixed_metas a (fst (sdk_config_pda R pid)) @ leg_accounts l
      @ program_metas 4 [] [l]" a] by (auto simp: build_route_instruction_ex_def Let_def)
  then have s: "slice 6 (6 + length (leg_accounts l)) (ix_accounts ?i) = leg_accounts l"
    "length (ix_accounts ?i) \<ge> 6 + length (leg_accounts l)"
    by (simp_all add: slice_def fixed_metas_def)
  show ?thesis
    using n s(2) unfolding single_route_leg_for_direct_simulation_def assms(2) ok_or_simps bind_r_simps Let_def d h c s(1)
    by (simp add: TAG_ROUTE_IX_def SDK_MAX_LEG_ACCOUNTS_def)
qed


text \<open>The length of a route is in its header.\<close>

lemma route_length_byte:
  "ix_data (build_route_instruction_ex R pid a amount m asset exact mint legs) ! 18 = of_nat (length legs)"
  by (simp add: build_route_instruction_ex_def Let_def nth_append nth_Cons')

lemma single_hop:
  assumes "of_nat (length legs) = (1 :: u8)" "length legs \<le> 2"
  obtains l where "legs = [l]"
proof -
  have "length legs = 0 \<or> length legs = 1 \<or> length legs = 2" using assms(2) by linarith
  with assms(1) have "length legs = 1" by auto
  then show thesis using that by (auto simp: length_Suc_conv)
qed

text \<open>The leg that is simulated on its own is the leg of the trade: read from the instruction of a
  trade of one hop, bought or sold, it is exactly the leg that the trade's route was built from, its
  program, its accounts with their signer and writable flags, and its data.\<close>

theorem direct_leg_is_trade_leg:
  assumes "buy_with_opts R c amount rm opts = Some (Ok t) \<or> sell_with_opts R c amount rm opts = Ok t"
    "bt_route t = Some i" "ix_data i ! 18 = 1"
  shows "\<exists>acc a m asset mint l. i = build_route_instruction_ex R (rt_program_id c) acc a m asset
      (to_fixed_output opts \<noteq> None) mint [l] \<and> wf_leg (rt_payer c) l \<and>
    single_route_leg_for_direct_simulation t = Ok l"
proof -
  from assms(1) obtain acc a m asset mint legs where r:
    "bt_route t = Some (build_route_instruction_ex R (rt_program_id c) acc a m asset
       (to_fixed_output opts \<noteq> None) mint legs)"
    "length legs \<le> 2" "list_all (wf_leg (rt_payer c)) legs"
    by (rule trade_route)
  from r(1) assms(2,3) have "of_nat (length legs) = (1 :: u8)" using route_length_byte by (metis option.inject)
  from this r(2) obtain l where l: "legs = [l]" by (rule single_hop)
  with r(3) have w: "wf_leg (rt_payer c) l" by simp
  then have "sendable l" by (simp add: wf_leg_def)
  from one_leg_read [OF this r(1) [unfolded l]] w r(1) assms(2) show ?thesis
    unfolding l option.inject by (metis option.inject)
qed

section \<open>Success\<close>

lemma classify_err_fails: "classify_err msg \<noteq> SimOk"
  by (simp add: classify_err_def Let_def)

lemma simulated_Ok:
  assumes "simulate_ixs_signed T N payer ixs wallet = Ok SimOk"
  obtains blockhash tx tx' signed k logs where
    "compile_simulation T payer ixs blockhash = Ok tx"
    "(case wallet of Some w \<Rightarrow> sign_and_verify_authority T tx w | None \<Rightarrow> Ok (tx, False)) = Ok (tx', signed)"
    "k < 3" "sn_simulate N k tx' = Ok (None, logs)"
proof -
  from assms obtain blockhash tx tx' signed where t: "compile_simulation T payer ixs blockhash = Ok tx"
    "(case wallet of Some w \<Rightarrow> sign_and_verify_authority T tx w | None \<Rightarrow> Ok (tx, False)) = Ok (tx', signed)"
    "verdict_of_answer (rpc_retry (\<lambda>t. sn_simulate N t tx')) = SimOk"
    by (auto simp: simulate_ixs_signed_def result_inv split: if_splits sum.splits)
  from t(3) obtain logs where "rpc_retry (\<lambda>t. sn_simulate N t tx') = Ok (None, logs)"
    by (auto simp: verdict_of_answer_def classify_response_def classify_err_fails split: sum.splits option.splits if_splits)
  with rpc_retry_from [of "\<lambda>t. sn_simulate N t tx'"] obtain k where "k < 3" "sn_simulate N k tx' = Ok (None, logs)"
    by auto
  with t that show thesis by blast
qed

lemma funder_has_lamports:
  assumes "pick_funder N = Some k"
  shows "k \<in> set SIM_FUNDER_CANDIDATES \<and> (\<exists>t<3. \<exists>l. sn_balance N t k = Ok l \<and> l \<ge> SIM_FUND_LAMPORTS * 10)"
proof -
  from assms have "k \<in> set SIM_FUNDER_CANDIDATES" and
    "case rpc_retry (\<lambda>t. sn_balance N t k) of Inr l \<Rightarrow> l \<ge> SIM_FUND_LAMPORTS * 10 | Inl _ \<Rightarrow> False"
    by (auto simp: pick_funder_def find_Some_iff)
  with rpc_retry_from [of "\<lambda>t. sn_balance N t k"] show ?thesis by (auto split: sum.splits)
qed

text \<open>C17. Success of a simulated trade is success of that trade. Where the harness accepts a simulation,
  the trade has a route of the Router's program, and some attempt of the node ran, without an error,
  the transaction compiled from the funding of the wallet followed by all the instructions of the
  trade, paid by a candidate that had ten times the lamports, and signed by the wallet where the
  message asks for its signature. An error of the node, a missing program among them, is never
  success.\<close>

theorem simulation_success_is_trade:
  assumes "simulate_built_trade R T N wallet t = Ok (Some v)" "assert_sim_ok v = Ok ()"
  shows "\<exists>route funder blockhash tx tx' signed k logs.
    bt_route t = Some route \<and> ix_program_id route = PROGRAM_ID \<and> hd (ix_data route) = TAG_ROUTE_IX \<and>
    funder \<in> set SIM_FUNDER_CANDIDATES \<and> (\<exists>j<3. \<exists>l. sn_balance N j funder = Ok l \<and> l \<ge> SIM_FUND_LAMPORTS * 10) \<and>
    compile_simulation T funder (system_transfer R funder wallet SIM_FUND_LAMPORTS # into_instructions t) blockhash = Ok tx \<and>
    sign_and_verify_authority T tx wallet = Ok (tx', signed) \<and>
    k < 3 \<and> sn_simulate N k tx' = Ok (None, logs)"
proof -
  have v: "v = SimOk" using assms(2) by (cases v) simp_all
  from assms(1) obtain funder where a: "assert_route_ix t = Ok ()" "pick_funder N = Some funder"
    "simulate_ixs_signed T N funder (system_transfer R funder wallet SIM_FUND_LAMPORTS # into_instructions t)
       (Some wallet) = Ok SimOk"
    unfolding v by (auto simp: simulate_built_trade_def simulate_with_fresh_wallet_def result_inv split: option.splits)
  from a(1) obtain route where "bt_route t = Some route" "ix_program_id route = PROGRAM_ID"
    "hd (ix_data route) = TAG_ROUTE_IX"
    by (auto simp: assert_route_ix_def result_inv split: if_splits)
  moreover from a(3) obtain blockhash tx tx' signed k logs where
    "compile_simulation T funder (system_transfer R funder wallet SIM_FUND_LAMPORTS # into_instructions t) blockhash = Ok tx"
    "sign_and_verify_authority T tx wallet = Ok (tx', signed)" "k < 3" "sn_simulate N k tx' = Ok (None, logs)"
    by (rule simulated_Ok) simp
  ultimately show ?thesis using funder_has_lamports [OF a(2)] by blast
qed


section \<open>Witnesses\<close>

theorem direct_leg_is_trade_leg_witness:
  "\<exists>t l. buy_with_opts demo_env demo_client 100 demo_buy_market demo_buy_opts = Some (Ok t) \<and>
     single_route_leg_for_direct_simulation t = Ok l \<and> wf_leg 1 l"
proof -
  obtain t where t: "buy_with_opts demo_env demo_client 100 demo_buy_market demo_buy_opts = Some (Ok t)"
    "bt_route t = Some demo_buy_ix" using demo_buy by blast
  have "ix_data demo_buy_ix ! 18 = 1" by (simp add: demo_buy_ix_def route_length_byte)
  from direct_leg_is_trade_leg [OF disjI1 [OF t(1)] t(2) this] t(1) show ?thesis
    unfolding demo_buy_simps by blast
qed

text \<open>A node that simulates the trade of the demo, routed through the program's own address.\<close>

definition demo_sim_trade :: built_trade where
  "demo_sim_trade = \<lparr>bt_setup = [], bt_route = Some (build_route_instruction_ex demo_env PROGRAM_ID
     demo_ix_accounts 100 90 1 False 21 [demo_buy_leg]), bt_cleanup = []\<rparr>"

definition demo_sim_node :: sim_node where
  "demo_sim_node = \<lparr>sn_account = (\<lambda>t k. Err ''timeout''), sn_balance = (\<lambda>t k. Ok 1000000000),
     sn_slot = (\<lambda>t. Ok 1), sn_blockhash = (\<lambda>t. Ok 5), sn_simulate = (\<lambda>t tx. Ok (None, None)),
     sn_signatures = (\<lambda>t k before limit. Ok []), sn_transaction = (\<lambda>t sig. Err ''pruned'')\<rparr>"

definition demo_tools :: tx_tools where
  "demo_tools = \<lparr>tt_legacy = (\<lambda>payer ixs h. \<lparr>sx_required_signatures = 2, sx_keys = [payer, 1],
       sx_signatures = [[], []], sx_message = [7]\<rparr>),
     tt_v1 = (\<lambda>payer ixs h. Err ''unused''), tt_size = (\<lambda>tx. 900), tt_sign = (\<lambda>m. m),
     tt_verify = (\<lambda>sig k m. sig = m)\<rparr>"

lemma rpc_retry_first: "f 0 = Ok v \<Longrightarrow> rpc_retry f = Ok v"
  by (simp add: rpc_retry_def upt_rec)

lemma demo_sim_run:
  "simulate_built_trade demo_env demo_tools demo_sim_node 1 demo_sim_trade = Ok (Some SimOk)"
proof -
  have "assert_route_ix demo_sim_trade = Ok ()"
    by (simp add: assert_route_ix_def demo_sim_trade_def build_route_instruction_ex_def Let_def
        append_fee_mint_def fixed_metas_def)
  moreover have "\<exists>f. pick_funder demo_sim_node = Some f"
    by (simp add: pick_funder_def demo_sim_node_def SIM_FUNDER_CANDIDATES_def SIM_FUND_LAMPORTS_def
        rpc_retry_first [where v = 1000000000])
  moreover have "simulate_ixs_signed demo_tools demo_sim_node f (i # ixs) (Some 1) = Ok SimOk" for f i ixs
    by (simp add: simulate_ixs_signed_def demo_sim_node_def demo_tools_def compile_simulation_def
        sign_and_verify_authority_def rpc_retry_first verdict_of_answer_def classify_response_def Let_def)
  ultimately show ?thesis
    by (auto simp: simulate_built_trade_def simulate_with_fresh_wallet_def)
qed

theorem simulation_success_is_trade_witness:
  "\<exists>route funder tx k logs. bt_route demo_sim_trade = Some route \<and> ix_program_id route = PROGRAM_ID \<and>
     funder \<in> set SIM_FUNDER_CANDIDATES \<and> k < 3 \<and> sn_simulate demo_sim_node k tx = Ok (None, logs)"
  using simulation_success_is_trade [OF demo_sim_run] unfolding assert_sim_ok.simps by blast

end
