(* ===== verification/Mock_Dex.thy ===== *)
theory Mock_Dex
  imports Route_Layout
begin

text \<open>
  The venue of the local tests, \<open>scripts/mock-dex/src/lib.rs\<close>: a program with the account layouts of
  CPMM and PumpSwap that moves real tokens and takes the amount asked for, one less or one more. Its
  transfers are calls of the runtime it runs in.
\<close>

text \<open>Its errors: the \<open>ProgramError\<close>s it names, and the error of a call it made.\<close>

datatype mock_error = MockInvalidInstruction | MockInvalidAccount | MockOverflow | MockCall program_error

fun mock_call :: "program_error + 'a \<Rightarrow> mock_error + 'a" where
  "mock_call (Inl e) = Err (MockCall e)"
| "mock_call (Inr s) = Ok s"

lemma mock_call_Ok [result_inv]: "mock_call m = Inr y \<longleftrightarrow> m = Inr y"
  by (cases m) simp_all

text \<open>The indices of the accounts it uses.\<close>

record mock_layout =
  ml_input :: nat
  ml_output :: nat
  ml_sink :: nat
  ml_reserve :: nat
  ml_signer :: nat
  ml_input_mint :: nat
  ml_output_mint :: nat
  ml_input_program :: nat
  ml_output_program :: nat

definition mk_mock_layout ::
  "nat \<Rightarrow> nat \<Rightarrow> nat \<Rightarrow> nat \<Rightarrow> nat \<Rightarrow> nat \<Rightarrow> nat \<Rightarrow> nat \<Rightarrow> nat \<Rightarrow> mock_layout" where
  "mk_mock_layout i out sink res sg im om ip op = \<lparr>ml_input = i, ml_output = out, ml_sink = sink,
     ml_reserve = res, ml_signer = sg, ml_input_mint = im, ml_output_mint = om,
     ml_input_program = ip, ml_output_program = op\<rparr>"

definition mock_layout_of :: "bytes \<Rightarrow> mock_error + mock_layout" where
  "mock_layout_of d =
     (if length d = 24 \<and> slice 0 8 d = [143, 190, 90, 218, 196, 30, 51, 222]
      then Ok (mk_mock_layout 4 5 6 7 0 10 11 8 9)
      else if length d = 25 \<and> slice 0 8 d = [198, 46, 21, 82, 180, 217, 232, 112] \<and> d ! 24 \<le> 1
      then Ok (mk_mock_layout 6 5 8 7 1 4 3 12 11)
      else if length d = 24 \<and> slice 0 8 d = [51, 230, 133, 164, 1, 127, 131, 173]
      then Ok (mk_mock_layout 5 6 7 8 1 3 4 11 12)
      else Err MockInvalidInstruction)"

text \<open>\<open>TransferChecked\<close> with the decimals that the mint has at byte 44.\<close>

definition checked_transfer_call ::
  "account_view \<Rightarrow> account_view \<Rightarrow> account_view \<Rightarrow> account_view \<Rightarrow> account_view \<Rightarrow> u64 \<Rightarrow> u8 \<Rightarrow> cpi_call" where
  "checked_transfer_call src mint dst auth program amount decimals =
     Invoke (address program)
       [\<lparr>address = address src, is_signer = False, is_writable = True\<rparr>,
        \<lparr>address = address mint, is_signer = False, is_writable = False\<rparr>,
        \<lparr>address = address dst, is_signer = False, is_writable = True\<rparr>,
        \<lparr>address = address auth, is_signer = True, is_writable = False\<rparr>]
       (12 # u64_bytes amount @ [decimals])"

definition checked_transfer ::
  "runtime \<Rightarrow> account_view \<Rightarrow> account_view \<Rightarrow> account_view \<Rightarrow> account_view \<Rightarrow> account_view \<Rightarrow> u64
    \<Rightarrow> chain \<Rightarrow> mock_error + chain" where
  "checked_transfer R src mint dst auth program amount s =
     bind_r (ok_or (get_at (acc_data (ledger s (address mint))) 44) MockInvalidAccount) (\<lambda>decimals.
       mock_call (invoke R (checked_transfer_call src mint dst auth program amount decimals) s))"

text \<open>The modes: exact, one less, one more.\<close>

definition mock_spent :: "u64 \<Rightarrow> u64 \<Rightarrow> mock_error + u64" where
  "mock_spent mode amount =
     (if mode = 1 then Ok amount
      else if mode = 2 then ok_or (checked_sub amount 1) MockOverflow
      else if mode = 3 then ok_or (checked_add amount 1) MockOverflow
      else Err MockInvalidInstruction)"

definition mock_process_instruction ::
  "runtime \<Rightarrow> account_view list \<Rightarrow> bytes \<Rightarrow> chain \<Rightarrow> mock_error + chain" where
  "mock_process_instruction R accs d s =
     (if length accs \<noteq> 13 \<or> length d < 24 then Err MockInvalidInstruction
      else bind_r (mock_layout_of d) (\<lambda>l.
        let amount = u64_of (slice 8 16 d); mode = u64_of (slice 16 24 d) in
        bind_r (mock_spent mode amount) (\<lambda>spent.
        bind_r (checked_transfer R (accs ! ml_input l) (accs ! ml_input_mint l) (accs ! ml_sink l)
          (accs ! ml_signer l) (accs ! ml_input_program l) spent s) (\<lambda>s1.
        bind_r (ok_or (checked_mul amount 2) MockOverflow) (\<lambda>out.
          checked_transfer R (accs ! ml_reserve l) (accs ! ml_output_mint l) (accs ! ml_output l)
            (accs ! ml_signer l) (accs ! ml_output_program l) out s1)))))"

end
