(* ===== verification/Mock_Props.thy ===== *)
theory Mock_Props
  imports Mock_Dex Route_Dynamic
begin

text \<open>
  The Router against the venue of the local tests: the venue reads the accounts the Router's layouts
  name, and a dynamic route through it succeeds only where it took exactly the amount it was given.
\<close>

lemma venue_programs:
  "RAYDIUM_CPMM_PROGRAM_ID \<noteq> LAUNCHLAB_PROGRAM_ID" "RAYDIUM_CPMM_PROGRAM_ID \<noteq> PUMPSWAP_PROGRAM_ID"
  "RAYDIUM_CPMM_PROGRAM_ID \<noteq> RAYDIUM_AMM_V4_PROGRAM_ID" "RAYDIUM_CPMM_PROGRAM_ID \<noteq> RAYDIUM_CLMM_PROGRAM_ID"
  "RAYDIUM_CPMM_PROGRAM_ID \<noteq> METEORA_DLMM_PROGRAM_ID" "RAYDIUM_CPMM_PROGRAM_ID \<noteq> METEORA_DAMM_V2_PROGRAM_ID"
  "RAYDIUM_CPMM_PROGRAM_ID \<noteq> ORCA_WHIRLPOOL_PROGRAM_ID"
  "PUMPSWAP_PROGRAM_ID \<noteq> LAUNCHLAB_PROGRAM_ID" "PUMPSWAP_PROGRAM_ID \<noteq> RAYDIUM_CPMM_PROGRAM_ID"
  "PUMPSWAP_PROGRAM_ID \<noteq> RAYDIUM_AMM_V4_PROGRAM_ID" "PUMPSWAP_PROGRAM_ID \<noteq> RAYDIUM_CLMM_PROGRAM_ID"
  "PUMPSWAP_PROGRAM_ID \<noteq> METEORA_DLMM_PROGRAM_ID" "PUMPSWAP_PROGRAM_ID \<noteq> METEORA_DAMM_V2_PROGRAM_ID"
  "PUMPSWAP_PROGRAM_ID \<noteq> ORCA_WHIRLPOOL_PROGRAM_ID"
  by (simp_all add: RAYDIUM_CPMM_PROGRAM_ID_def PUMPSWAP_PROGRAM_ID_def LAUNCHLAB_PROGRAM_ID_def
      RAYDIUM_AMM_V4_PROGRAM_ID_def RAYDIUM_CLMM_PROGRAM_ID_def METEORA_DLMM_PROGRAM_ID_def
      METEORA_DAMM_V2_PROGRAM_ID_def ORCA_WHIRLPOOL_PROGRAM_ID_def key_of_def)

lemma cpmm_layout:
  "dynamic_second_leg RAYDIUM_CPMM_PROGRAM_ID d = Ok l \<Longrightarrow>
   l = mk_layout 4 5 0 8 (Some 10) (Some 8) (Some 11) (Some 9) False \<and> slice 0 8 d = CPMM_SWAP_BASE_IN"
  unfolding dynamic_second_leg_def by (simp add: venue_programs split: if_splits)

lemma pumpswap_layout:
  "dynamic_second_leg PUMPSWAP_PROGRAM_ID d = Ok l \<Longrightarrow>
   l = mk_layout 6 5 1 8 (Some 4) (Some 12) (Some 3) (Some 11) False \<and> slice 0 8 d = PUMPSWAP_BUY_EXACT_QUOTE_IN \<or>
   l = mk_layout 5 6 1 8 (Some 3) (Some 11) (Some 4) (Some 12) False \<and> slice 0 8 d = PUMPSWAP_SELL"
  unfolding dynamic_second_leg_def by (simp add: venue_programs split: if_splits)

lemmas venue_discriminators = CPMM_SWAP_BASE_IN_def PUMPSWAP_SELL_def PUMPSWAP_BUY_EXACT_QUOTE_IN_def

lemma mock_layout_agrees:
  assumes "mock_layout_of d = Ok ml" "dynamic_second_leg p d = Ok l"
    "p = RAYDIUM_CPMM_PROGRAM_ID \<or> p = PUMPSWAP_PROGRAM_ID"
  shows "ml_input ml = input_account l \<and> ml_output ml = output_account l \<and> ml_signer ml = signer l \<and>
    amount_offset l = 8 \<and> Some (ml_input_mint ml) = input_mint l \<and> Some (ml_output_mint ml) = output_mint l \<and>
    Some (ml_input_program ml) = input_program l \<and> Some (ml_output_program ml) = output_program l"
  using assms(3)
proof
  assume "p = RAYDIUM_CPMM_PROGRAM_ID"
  with assms(1) cpmm_layout [of d l] assms(2) show ?thesis
    by (simp add: mock_layout_of_def venue_discriminators mk_mock_layout_def mk_layout_def split: if_splits) auto
next
  assume "p = PUMPSWAP_PROGRAM_ID"
  with assms(2) have "dynamic_second_leg PUMPSWAP_PROGRAM_ID d = Ok l" by simp
  from pumpswap_layout [OF this] assms(1) show ?thesis
    by (auto simp: mock_layout_of_def venue_discriminators mk_mock_layout_def mk_layout_def split: if_splits)
qed

text \<open>What a token program promises of a checked transfer: between two accounts it takes the amount
  from the source and changes no balance but theirs (it may credit less than the amount, for a
  transfer fee); from an account to itself it moves nothing.\<close>

definition moves_tokens :: "runtime \<Rightarrow> bool" where
  "moves_tokens T \<longleftrightarrow> (\<forall>src mint dst auth program x dec L L' k q.
     is_token_program (address program) \<longrightarrow>
     cpi T (checked_transfer_call src mint dst auth program x dec) L = Ok L' \<longrightarrow>
     token_amount (L k) = Ok q \<longrightarrow>
     (\<exists>q'. token_amount (L' k) = Ok q' \<and>
       (address src = address dst \<longrightarrow> q' = q) \<and>
       (address src \<noteq> address dst \<longrightarrow> k \<noteq> address dst \<longrightarrow>
         unat q' + (if k = address src then unat x else 0) = unat q)))"

definition runs_mock :: "runtime \<Rightarrow> runtime \<Rightarrow> pubkey \<Rightarrow> bool" where
  "runs_mock R T p \<longleftrightarrow> (\<forall>accs d L L'. cpi R (Invoke p accs d) L = Ok L' \<longrightarrow>
     (\<exists>s. mock_process_instruction T accs d \<lparr>ledger = L, trace = []\<rparr> = Ok s \<and> ledger s = L'))"

lemma checked_transfer_amount:
  assumes "checked_transfer T src mint dst auth program x s = Ok s'" "moves_tokens T"
    "is_token_program (address program)" "token_amount (ledger s k) = Ok q"
  shows "\<exists>q'. token_amount (ledger s' k) = Ok q' \<and> (address src = address dst \<longrightarrow> q' = q) \<and>
    (address src \<noteq> address dst \<longrightarrow> k \<noteq> address dst \<longrightarrow>
      unat q' + (if k = address src then unat x else 0) = unat q)"
proof -
  from assms(1) obtain dec where "cpi T (checked_transfer_call src mint dst auth program x dec) (ledger s) = Ok (ledger s')"
    by (auto simp: checked_transfer_def invoke_def result_inv)
  with assms(2-4) show ?thesis unfolding moves_tokens_def by blast
qed

text \<open>The venue leaves its input account with what was there before a credit of \<open>r\<close> only by
  taking \<open>r\<close>, wherever its sink and its reserve are.\<close>

lemma mock_takes_exactly:
  assumes run: "mock_process_instruction T accs d s = Ok s'" and l: "mock_layout_of d = Ok ml" and T: "moves_tokens T"
    and tok: "is_token_program (address (accs ! ml_input_program ml))" "is_token_program (address (accs ! ml_output_program ml))"
    and k: "address (accs ! ml_input ml) = k" "address (accs ! ml_output ml) \<noteq> k"
    and r: "u64_of (slice 8 16 d) = r" "unat r > 0" "token_amount (ledger s k) = Ok q1" "unat q1 = unat q + unat r"
    "token_amount (ledger s' k) = Ok q"
  shows "u64_of (slice 16 24 d) = 1 \<and> mock_spent (u64_of (slice 16 24 d)) r = Ok r"
proof -
  from run l r(1) obtain spent s1 out where
    sp: "mock_spent (u64_of (slice 16 24 d)) r = Ok spent"
    and t1: "checked_transfer T (accs ! ml_input ml) (accs ! ml_input_mint ml) (accs ! ml_sink ml)
      (accs ! ml_signer ml) (accs ! ml_input_program ml) spent s = Ok s1"
    and out: "checked_mul r 2 = Some out"
    and t2: "checked_transfer T (accs ! ml_reserve ml) (accs ! ml_output_mint ml) (accs ! ml_output ml)
      (accs ! ml_signer ml) (accs ! ml_output_program ml) out s1 = Ok s'"
    by (auto simp: mock_process_instruction_def Let_def result_inv split: if_splits)
  from checked_transfer_amount [OF t1 T tok(1) r(3)] k(1) obtain q' where
    q': "token_amount (ledger s1 k) = Ok q'"
      "if address (accs ! ml_sink ml) = k then q' = q1 else unat q' + unat spent = unat q1"
    by auto
  from checked_transfer_amount [OF t2 T tok(2) q'(1)] k(2) r(5)
  have e: "unat q + (if k = address (accs ! ml_reserve ml) then unat out else 0) = unat q'"
    by (cases "address (accs ! ml_reserve ml) = address (accs ! ml_output ml)") auto
  have "unat out = unat r * 2" using out by (simp add: checked_mul_Some)
  with e q'(2) r(2,4) have "unat spent = unat r" by (auto split: if_splits)
  then have "spent = r" by (simp add: word_eq_unat)
  then show ?thesis using sp r(2)
    by (auto simp: mock_spent_def checked_sub_Some checked_add_Some result_inv split: if_splits)
qed

text \<open>The token programs a leg of the venue names are those that hold the two accounts it swaps.\<close>

lemma venue_leg_programs:
  assumes "dynamic_second_leg p d = Ok l" "p = RAYDIUM_CPMM_PROGRAM_ID \<or> p = PUMPSWAP_PROGRAM_ID"
    "validate_dynamic_accounts l accs usr inp out L = Ok ()"
    "Some i = input_program l" "Some j = output_program l"
  shows "address (accs ! i) = owner (L (address inp)) \<and> address (accs ! j) = owner (L (address out))"
proof -
  have "\<not> paired_mints l"
    using assms(1,2) cpmm_layout [of d l] pumpswap_layout [of d l] by (auto simp: mk_layout_def)
  with assms(3) assms(4,5) [symmetric] show ?thesis
    by (auto simp: validate_dynamic_accounts_def Let_def result_inv optional_def split: if_splits)
qed

lemma two_leg_checks:
  assumes "process_inner R program_id accs d 1 s = Ok s'" "read_header d 1 = Ok h" "split_accounts accs 1 = Ok a"
    "intermediate a = Some mid"
  shows "intermediate_min_out h \<noteq> 0 \<and> address mid \<noteq> address (user_output a)"
proof -
  obtain q1 and s1 :: chain where g: "check_header h 1 = Ok ()"
    and q: "intermediate_snapshot a (intermediate a) None (ledger s1) = Ok q1"
    by (rule process_inner_run [OF assms(1-3)]) blast
  have "intermediate_min_out h \<noteq> 0" using g by (simp add: check_header_def split: if_splits)
  moreover have "address mid \<noteq> address (user_output a)"
    using q by (auto simp: intermediate_snapshot_def assms(4) result_inv split: if_splits)
  ultimately show ?thesis ..
qed

text \<open>C12. The Router rolls back a venue that does not take what it was given. Let a two-leg dynamic
  route succeed whose second call goes to the venue of the local tests, with token programs that move
  what they are asked to: the amount of that call is what the first call credited to the intermediate
  account, which ends as it was before that credit; the accounts the venue reads as input, output
  and signer are the intermediate account, the output account and the user; and if, after the first
  call, the intermediate and the output account still belong to token programs, the venue was in its
  honest mode and took that amount, neither one less nor one more; in its other two modes such a route
  fails and is rolled back.\<close>

theorem misbehaving_venue_rolls_back:
  assumes "route_process_dynamic R program_id accs d s = Ok s'" "read_header d 1 = Ok h"
    "split_accounts accs 1 = Ok a" "runs_mock R T p" "moves_tokens T"
    "p = RAYDIUM_CPMM_PROGRAM_ID \<or> p = PUMPSWAP_PROGRAM_ID"
  shows "\<exists>mid cfg fee s1 fees c1 p2 accs2 d2 L1 q q1 r. intermediate a = Some mid \<and>
    pay_fee R a cfg (fee_asset h) fee s = Ok s1 \<and>
    trace s' = trace s @ fees @ [c1, Invoke p2 accs2 d2] \<and> length fees \<le> 1 \<and>
    cpi R c1 (ledger s1) = Ok L1 \<and> cpi R (Invoke p2 accs2 d2) L1 = Ok (ledger s') \<and>
    token_amount (ledger s1 (address mid)) = Ok q \<and> token_amount (L1 (address mid)) = Ok q1 \<and>
    unat q1 = unat q + unat r \<and> 0 < unat r \<and> token_amount (ledger s' (address mid)) = Ok q \<and>
    (p2 = p \<longrightarrow> (\<exists>ml. mock_layout_of d2 = Ok ml \<and> address (accs2 ! ml_input ml) = address mid \<and>
      address (accs2 ! ml_output ml) = address (user_output a) \<and> address (accs2 ! ml_signer ml) = address (user a) \<and>
      u64_of (slice 8 16 d2) = r \<and>
      (is_token_program (owner (L1 (address mid))) \<and> is_token_program (owner (L1 (address (user_output a))))
       \<longrightarrow> u64_of (slice 16 24 d2) = 1 \<and> mock_spent (u64_of (slice 16 24 d2)) r = Ok r)))"
proof -
  note run = assms(1) [unfolded route_process_dynamic_def]
  obtain cfg fee s1 mid fees p1 accs1 d1 p2 accs2 leg2 d2 L1 q q1 r where
    pay: "pay_fee R a cfg (fee_asset h) fee s = Ok s1" and mid: "intermediate a = Some mid"
    and t: "length fees \<le> 1" "trace s' = trace s @ fees @ [Invoke p1 accs1 d1, Invoke p2 accs2 d2]"
    and c1: "cpi R (Invoke p1 accs1 d1) (ledger s1) = Ok L1"
    and c2: "cpi R (Invoke p2 accs2 d2) L1 = Ok (ledger s')"
    and q: "token_amount (ledger s1 (address mid)) = Ok q" "token_amount (L1 (address mid)) = Ok q1"
      "unat q1 = unat q + unat r"
      "token_amount (ledger s' (address mid)) = Ok q" "unat (intermediate_min_out h) \<le> unat r"
    and sw: "sized_swap (user a) mid (user_output a) r p2 accs2 leg2 d2"
    and va: "\<exists>l. dynamic_second_leg p2 leg2 = Ok l \<and>
      validate_dynamic_accounts l accs2 (user a) mid (user_output a) L1 = Ok ()"
    by (rule two_leg_run [OF run assms(2,3)])
  have g: "intermediate_min_out h \<noteq> 0" and o: "address mid \<noteq> address (user_output a)"
    using two_leg_checks [OF run assms(2,3) mid] by blast+
  have "unat (intermediate_min_out h) > 0" using g by (simp add: unat_gt_0)
  with q(5) have r: "unat r > 0" by linarith
  have "\<exists>ml. mock_layout_of d2 = Ok ml \<and> address (accs2 ! ml_input ml) = address mid \<and>
      address (accs2 ! ml_output ml) = address (user_output a) \<and> address (accs2 ! ml_signer ml) = address (user a) \<and>
      u64_of (slice 8 16 d2) = r \<and>
      (is_token_program (owner (L1 (address mid))) \<and> is_token_program (owner (L1 (address (user_output a))))
       \<longrightarrow> u64_of (slice 16 24 d2) = 1 \<and> mock_spent (u64_of (slice 16 24 d2)) r = Ok r)" if p: "p2 = p"
  proof -
    from c2 assms(4) p obtain m where m: "mock_process_instruction T accs2 d2 \<lparr>ledger = L1, trace = []\<rparr> = Ok m"
      "ledger m = ledger s'" unfolding runs_mock_def by blast
    then obtain ml where ml: "mock_layout_of d2 = Ok ml"
      by (auto simp: mock_process_instruction_def result_inv split: if_splits)
    from sw obtain l where l: "dynamic_second_leg p2 leg2 = Ok l" "dynamic_second_leg p2 d2 = Ok l"
      "u64_of (slice (amount_offset l) (amount_offset l + 8) d2) = r"
      "address (accs2 ! input_account l) = address mid" "address (accs2 ! output_account l) = address (user_output a)"
      "address (accs2 ! signer l) = address (user a)"
      unfolding sized_swap_def by blast
    with va have v: "validate_dynamic_accounts l accs2 (user a) mid (user_output a) L1 = Ok ()" by auto
    from mock_layout_agrees [OF ml l(2)] p assms(6) have e: "ml_input ml = input_account l"
      "ml_output ml = output_account l" "ml_signer ml = signer l" "amount_offset l = 8"
      "Some (ml_input_program ml) = input_program l" "Some (ml_output_program ml) = output_program l" by auto
    from venue_leg_programs [OF l(2) _ v e(5,6)] p assms(6)
    have pr: "address (accs2 ! ml_input_program ml) = owner (L1 (address mid))"
      "address (accs2 ! ml_output_program ml) = owner (L1 (address (user_output a)))" by blast+
    have x: "u64_of (slice 8 16 d2) = r" using l(3) unfolding e(4) by simp
    have "u64_of (slice 16 24 d2) = 1 \<and> mock_spent (u64_of (slice 16 24 d2)) r = Ok r"
      if "is_token_program (owner (L1 (address mid)))" "is_token_program (owner (L1 (address (user_output a))))"
    proof (rule mock_takes_exactly [OF m(1) ml assms(5) _ _ _ _ x r _ q(3)])
      show "is_token_program (address (accs2 ! ml_input_program ml))"
        "is_token_program (address (accs2 ! ml_output_program ml))" using that pr by simp_all
      show "address (accs2 ! ml_input ml) = address mid" "address (accs2 ! ml_output ml) \<noteq> address mid"
        using l e o by auto
      show "token_amount (ledger \<lparr>ledger = L1, trace = []\<rparr> (address mid)) = Ok q1"
        "token_amount (ledger m (address mid)) = Ok q" using q(2,4) m(2) by simp_all
    qed
    with ml l(4-6) e x show ?thesis by auto
  qed
  with mid pay t c1 c2 q(1-4) r show ?thesis by blast
qed


section \<open>A run through the venue\<close>

text \<open>The ledger of the demo with mints, and accounts 53 and 54 as the sink and the reserve of the
  venue; a token program that moves balances; the venue at the address of CPMM.\<close>

definition mock_mint :: account_state where
  "mock_mint = \<lparr>lamports = 0, owner = TOKEN_PROGRAM_ID, acc_data = replicate 82 0\<rparr>"

definition mock_balances :: "u64 \<Rightarrow> u64 \<Rightarrow> u64 \<Rightarrow> u64 \<Rightarrow> u64 \<Rightarrow> u64 \<Rightarrow> ledger" where
  "mock_balances f x i y sink reserve = demo_ledger(3 := demo_token 20 9 f, 4 := demo_token 20 1 x,
     10 := demo_token 22 1 i, 5 := demo_token 21 1 y, 20 := mock_mint, 21 := mock_mint, 22 := mock_mint,
     53 := demo_token 20 8 sink, 54 := demo_token 21 8 reserve)"

lemma mock_balances_simps [simp]:
  "mock_balances f x i y k r 2 = demo_config_account" "mock_balances f x i y k r 3 = demo_token 20 9 f"
  "mock_balances f x i y k r 4 = demo_token 20 1 x" "mock_balances f x i y k r 5 = demo_token 21 1 y"
  "mock_balances f x i y k r 10 = demo_token 22 1 i" "mock_balances f x i y k r 20 = mock_mint"
  "mock_balances f x i y k r 21 = mock_mint" "mock_balances f x i y k r 22 = mock_mint"
  "mock_balances f x i y k r 53 = demo_token 20 8 k" "mock_balances f x i y k r 54 = demo_token 21 8 r"
  by (simp_all add: mock_balances_def demo_ledger_def)

lemma mock_balances_upd [simp]:
  "(mock_balances f x i y k r)(3 := demo_token 20 9 z) = mock_balances z x i y k r"
  "(mock_balances f x i y k r)(4 := demo_token 20 1 z) = mock_balances f z i y k r"
  "(mock_balances f x i y k r)(10 := demo_token 22 1 z) = mock_balances f x z y k r"
  "(mock_balances f x i y k r)(5 := demo_token 21 1 z) = mock_balances f x i z k r"
  "(mock_balances f x i y k r)(53 := demo_token 20 8 z) = mock_balances f x i y z r"
  "(mock_balances f x i y k r)(54 := demo_token 21 8 z) = mock_balances f x i y k z"
  by (simp_all add: mock_balances_def fun_eq_iff)

definition mock_move :: "pubkey \<Rightarrow> pubkey \<Rightarrow> u64 \<Rightarrow> ledger \<Rightarrow> program_error + ledger" where
  "mock_move a b x L = bind_r (demo_move a b x L) (\<lambda>L'. Ok (if a = b then L else L'))"

lemma mock_moved:
  "a \<noteq> b \<Longrightarrow> L a = demo_token ma ha xa \<Longrightarrow> L b = demo_token mb hb xb \<Longrightarrow> x \<le> xa \<Longrightarrow>
   mock_move a b x L = Ok (L(a := demo_token ma ha (xa - x), b := demo_token mb hb (xb + x)))"
  by (simp add: mock_move_def demo_move)

fun mock_token_cpi :: "cpi_call \<Rightarrow> ledger \<Rightarrow> program_error + ledger" where
  "mock_token_cpi (TokenTransfer a b auth x p) L = mock_move a b x L"
| "mock_token_cpi (Invoke p accs d) L =
     mock_move (address (accs ! 0)) (address (accs ! 2)) (u64_of (slice 1 9 d)) L"
| "mock_token_cpi c L = Err (External 1)"

definition mock_tokens :: runtime where "mock_tokens = demo_runtime\<lparr>cpi := mock_token_cpi\<rparr>"

fun mock_cpi :: "cpi_call \<Rightarrow> ledger \<Rightarrow> program_error + ledger" where
  "mock_cpi (Invoke p accs d) L =
     (if p = RAYDIUM_CPMM_PROGRAM_ID then
        case mock_process_instruction mock_tokens accs d \<lparr>ledger = L, trace = []\<rparr> of
          Inl e \<Rightarrow> Err (External 2) | Inr s \<Rightarrow> Ok (ledger s)
      else mock_token_cpi (Invoke p accs d) L)"
| "mock_cpi c L = mock_token_cpi c L"

definition mock_runtime :: runtime where "mock_runtime = demo_runtime\<lparr>cpi := mock_cpi\<rparr>"

lemma mock_transfer_cpi:
  "cpi mock_tokens (checked_transfer_call src mint dst auth program x dec) L = mock_move (address src) (address dst) x L"
  by (simp add: mock_tokens_def checked_transfer_call_def slice_def)

lemma mock_move_balances:
  assumes "mock_move a b x L = Ok L'" "token_amount (L k) = Ok q"
  shows "\<exists>q'. token_amount (L' k) = Ok q' \<and> (a = b \<longrightarrow> q' = q) \<and>
    (a \<noteq> b \<longrightarrow> k \<noteq> b \<longrightarrow> unat q' + (if k = a then unat x else 0) = unat q)"
proof (cases "a = b")
  case True
  then have "L' = L" using assms(1) by (auto simp: mock_move_def bind_r_Ok)
  with True assms(2) show ?thesis by simp
next
  case False
  then have "demo_move a b x L = Ok L'" using assms(1) by (auto simp: mock_move_def bind_r_Ok)
  with False assms(2) show ?thesis
    by (auto simp: demo_move_def result_inv unat_sub word_less_nat_alt word_le_nat_alt split: if_splits)
qed

lemma mock_moves_tokens: "moves_tokens mock_tokens"
  unfolding moves_tokens_def mock_transfer_cpi using mock_move_balances by blast

lemma mock_runs: "runs_mock mock_runtime mock_tokens RAYDIUM_CPMM_PROGRAM_ID"
  by (auto simp: runs_mock_def mock_runtime_def split: sum.splits)

definition mock_swap :: "u64 \<Rightarrow> bytes" where
  "mock_swap x = CPMM_SWAP_BASE_IN @ u64_bytes x @ u64_bytes 1"

lemma mock_swap_fields:
  "length (mock_swap x) = 24" "slice 0 8 (mock_swap x) = CPMM_SWAP_BASE_IN"
  "u64_of (slice 8 16 (mock_swap x)) = x" "u64_of (slice 16 24 (mock_swap x)) = 1"
  by (simp_all add: mock_swap_def CPMM_SWAP_BASE_IN_def slice_def)

lemma mock_swap_layout: "mock_layout_of (mock_swap x) = Ok (mk_mock_layout 4 5 6 7 0 10 11 8 9)"
  using mock_swap_fields(1,2) [of x] by (simp add: mock_layout_of_def CPMM_SWAP_BASE_IN_def)

lemma mock_checked_transfer:
  assumes "address src = a" "address mint = m" "address dst = b" "m \<in> {20, 21, 22}"
    "mock_move a b x (mock_balances f w i y k r) = Ok L"
  shows "\<exists>t'. checked_transfer mock_tokens src mint dst auth program x
    \<lparr>ledger = mock_balances f w i y k r, trace = t\<rparr> = Ok \<lparr>ledger = L, trace = t'\<rparr>"
proof -
  have "acc_data (mock_balances f w i y k r m) = replicate 82 0" using assms(4) by (auto simp: mock_mint_def)
  then show ?thesis using assms(1,2,3,5)
    by (simp add: checked_transfer_def get_at_def invoke_def mock_transfer_cpi)
qed

lemma mock_call_run:
  assumes "ma \<in> {20, 21, 22}" "mb \<in> {20, 21, 22}" "checked_mul x 2 = Some out"
    "mock_move a 53 x (mock_balances f w i y k r) = Ok (mock_balances f' w' i' y' k' r')"
    "mock_move 54 b out (mock_balances f' w' i' y' k' r') = Ok L"
  shows "mock_cpi (Invoke RAYDIUM_CPMM_PROGRAM_ID (demo_leg_accounts a b ma mb) (mock_swap x))
    (mock_balances f w i y k r) = Ok L"
proof -
  let ?acc = "demo_leg_accounts a b ma mb"
  have acc: "address (?acc ! 4) = a" "address (?acc ! 5) = b" "address (?acc ! 6) = 53" "address (?acc ! 7) = 54"
    "address (?acc ! 10) = ma" "address (?acc ! 11) = mb"
    by (simp_all add: demo_leg_accounts_def)
  obtain t where t: "checked_transfer mock_tokens (?acc ! 4) (?acc ! 10) (?acc ! 6) (?acc ! 0) (?acc ! 8) x
      \<lparr>ledger = mock_balances f w i y k r, trace = []\<rparr> = Ok \<lparr>ledger = mock_balances f' w' i' y' k' r', trace = t\<rparr>"
    using mock_checked_transfer [OF acc(1,5,3) assms(1,4)] by blast
  obtain t' where t': "checked_transfer mock_tokens (?acc ! 7) (?acc ! 11) (?acc ! 5) (?acc ! 0) (?acc ! 9) out
      \<lparr>ledger = mock_balances f' w' i' y' k' r', trace = t\<rparr> = Ok \<lparr>ledger = L, trace = t'\<rparr>"
    using mock_checked_transfer [OF acc(4,6,2) assms(2,5)] by blast
  show ?thesis
    using t t' assms(3)
    by (simp add: mock_process_instruction_def mock_swap_fields mock_swap_layout Let_def mk_mock_layout_def mock_spent_def)
qed


text \<open>The route: 99 from 4 to 10, which receives 198, and those from 10 to 5.\<close>

definition mock_data :: bytes where
  "mock_data = u64_bytes 100 @ u64_bytes 90 @ [1, 2] @ key_bytes 21 @ u64_bytes 50 @
     key_bytes RAYDIUM_CPMM_PROGRAM_ID @ [13] @ u16_bytes 24 @ mock_swap 99 @
     key_bytes RAYDIUM_CPMM_PROGRAM_ID @ [13] @ u16_bytes 24 @ mock_swap 0"

definition mock_frame :: "u64 \<Rightarrow> nat \<Rightarrow> leg_frame" where
  "mock_frame x n = \<lparr>lf_program = RAYDIUM_CPMM_PROGRAM_ID, lf_num_accounts = 13,
     lf_data = mock_swap x, lf_next = n\<rparr>"

lemma length_mock_data: "length mock_data = 176"
  by (simp add: mock_data_def mock_swap_def CPMM_SWAP_BASE_IN_def)

lemma mock_header: "read_header mock_data 1 = Ok (demo_header 100 1 2 50 0)"
  by (simp add: demo_read_header mock_data_def mock_swap_def)

lemma mock_legs:
  "read_leg mock_data 58 = Ok (mock_frame 99 117)" "read_leg mock_data 117 = Ok (mock_frame 0 176)"
  by (simp_all add: read_leg_def read_u16_def demo_bytes MAX_LEG_ACCOUNTS_def mock_data_def mock_frame_def mock_swap_def)

lemma mock_layout: "dynamic_second_leg RAYDIUM_CPMM_PROGRAM_ID (mock_swap x) = Ok demo_layout"
  by (simp add: dynamic_second_leg_def mock_swap_fields demo_layout_def)

lemma mock_patch: "patch_second_leg_amount (mock_swap x) r (amount_offset demo_layout) = mock_swap r"
  by (simp add: mock_swap_def demo_layout_def mk_layout_def patch_is_copy_into demo_bytes
      copy_into_def MAX_DYNAMIC_LEG_DATA_def)

definition mock_chain :: chain where
  "mock_chain = \<lparr>ledger = mock_balances 0 1000 3 7 0 1000, trace = []\<rparr>"

lemma mock_step:
  assumes "read_leg mock_data cur = Ok (mock_frame x nxt)" "take_leg_accounts (rc_accounts c) off 13 = Ok accs"
    "leg_invoke_data c i (mock_frame x nxt) accs rcv (ledger s) = Ok (mock_swap y)"
    "mock_cpi (Invoke RAYDIUM_CPMM_PROGRAM_ID accs (mock_swap y)) (ledger s) = Ok L"
    "leg_received c i rcv L = Ok r"
  shows "run_leg mock_runtime c mock_data i \<lparr>ls_cursor = cur, ls_offset = off, ls_received = rcv, ls_chain = s\<rparr> =
    Ok \<lparr>ls_cursor = nxt, ls_offset = off + 13, ls_received = r,
      ls_chain = \<lparr>ledger = L, trace = trace s @ [Invoke RAYDIUM_CPMM_PROGRAM_ID accs (mock_swap y)]\<rparr>\<rparr>"
proof -
  have f: "lf_program (mock_frame x nxt) = RAYDIUM_CPMM_PROGRAM_ID" "lf_num_accounts (mock_frame x nxt) = 13"
    "lf_next (mock_frame x nxt) = nxt" by (simp_all add: mock_frame_def)
  have "invoke mock_runtime (Invoke RAYDIUM_CPMM_PROGRAM_ID accs (mock_swap y)) s =
      Ok \<lparr>ledger = L, trace = trace s @ [Invoke RAYDIUM_CPMM_PROGRAM_ID accs (mock_swap y)]\<rparr>"
    unfolding invoke_def mock_runtime_def using assms(4) by simp
  with assms(1-3,5) f show ?thesis by (simp add: run_leg_def)
qed

lemma mock_calls:
  "mock_cpi (Invoke RAYDIUM_CPMM_PROGRAM_ID (demo_leg_accounts 4 10 20 22) (mock_swap 99))
     (mock_balances 1 999 3 7 0 1000) = Ok (mock_balances 1 900 201 7 99 802)"
  "mock_cpi (Invoke RAYDIUM_CPMM_PROGRAM_ID (demo_leg_accounts 10 5 22 21) (mock_swap 198))
     (mock_balances 1 900 201 7 99 802) = Ok (mock_balances 1 900 3 403 297 406)"
proof -
  show "mock_cpi (Invoke RAYDIUM_CPMM_PROGRAM_ID (demo_leg_accounts 4 10 20 22) (mock_swap 99))
     (mock_balances 1 999 3 7 0 1000) = Ok (mock_balances 1 900 201 7 99 802)"
    by (rule mock_call_run [where out = 198 and f' = 1 and w' = 900 and i' = 3 and y' = 7 and k' = 99 and r' = 1000])
      (simp_all add: checked_mul_def mock_moved)
  show "mock_cpi (Invoke RAYDIUM_CPMM_PROGRAM_ID (demo_leg_accounts 10 5 22 21) (mock_swap 198))
     (mock_balances 1 900 201 7 99 802) = Ok (mock_balances 1 900 3 403 297 406)"
    by (rule mock_call_run [where out = 396 and f' = 1 and w' = 900 and i' = 3 and y' = 7 and k' = 297 and r' = 802])
      (simp_all add: checked_mul_def mock_moved)
qed

definition mock_trace :: "cpi_call list" where
  "mock_trace = [TokenTransfer 4 3 1 1 TOKEN_PROGRAM_ID,
     Invoke RAYDIUM_CPMM_PROGRAM_ID (demo_leg_accounts 4 10 20 22) (mock_swap 99),
     Invoke RAYDIUM_CPMM_PROGRAM_ID (demo_leg_accounts 10 5 22 21) (mock_swap 198)]"

lemma mock_run:
  "route_process_dynamic mock_runtime 7 demo_accounts1 mock_data mock_chain =
     Ok \<lparr>ledger = mock_balances 1 900 3 403 297 406, trace = mock_trace\<rparr>"
proof -
  let ?h = "demo_header 100 1 2 50 0" and ?c = "mk_ctx 1 (demo_header 100 1 2 50 0) demo_parts1 3 0"
  have a: "take_leg_accounts (rc_accounts ?c) 0 13 = Ok (demo_leg_accounts 4 10 20 22)"
    "take_leg_accounts (rc_accounts ?c) 13 13 = Ok (demo_leg_accounts 10 5 22 21)"
    by (simp_all add: take_leg_accounts_def demo_parts1_def slice_def)
  let ?s1 = "\<lparr>ledger = mock_balances 1 999 3 7 0 1000, trace = [TokenTransfer 4 3 1 1 TOKEN_PROGRAM_ID]\<rparr>"
  have f: "lf_data (mock_frame x n) = mock_swap x" "lf_program (mock_frame x n) = RAYDIUM_CPMM_PROGRAM_ID" for x n
    by (simp_all add: mock_frame_def)
  have 1: "run_leg mock_runtime ?c mock_data 0 \<lparr>ls_cursor = 58, ls_offset = 0, ls_received = 0, ls_chain = ?s1\<rparr> =
      Ok \<lparr>ls_cursor = 117, ls_offset = 0 + 13, ls_received = 198,
        ls_chain = \<lparr>ledger = mock_balances 1 900 201 7 99 802, trace = take 2 mock_trace\<rparr>\<rparr>"
    using mock_step [OF mock_legs(1) a(1), of 0 0 ?s1 99 "mock_balances 1 900 201 7 99 802" 198] mock_calls(1)
    by (simp add: leg_invoke_data_def fixed_leg_data_def demo_parts1_def need_intermediate_def demo_writes
        f leg_received_def received_quote_def checked_sub_def mock_trace_def)
  have 2: "run_leg mock_runtime ?c mock_data 1 \<lparr>ls_cursor = 117, ls_offset = 0 + 13, ls_received = 198,
        ls_chain = \<lparr>ledger = mock_balances 1 900 201 7 99 802, trace = take 2 mock_trace\<rparr>\<rparr> =
      Ok \<lparr>ls_cursor = 176, ls_offset = 13 + 13, ls_received = 198,
        ls_chain = \<lparr>ledger = mock_balances 1 900 3 403 297 406, trace = mock_trace\<rparr>\<rparr>"
    using mock_step [OF mock_legs(2) a(2), of 1 198 "\<lparr>ledger = mock_balances 1 900 201 7 99 802, trace = take 2 mock_trace\<rparr>"
        198 "mock_balances 1 900 3 403 297 406" 198] mock_calls(2)
    by (simp add: leg_invoke_data_def final_leg_data_def demo_parts1_def need_intermediate_def f leg_received_def
        mock_layout mock_patch demo_accounts_valid mock_trace_def)
  have "run_legs mock_runtime ?c mock_data 2 0 \<lparr>ls_cursor = 58, ls_offset = 0, ls_received = 0, ls_chain = ?s1\<rparr> =
      Ok \<lparr>ls_cursor = 176, ls_offset = 13 + 13, ls_received = 198,
        ls_chain = \<lparr>ledger = mock_balances 1 900 3 403 297 406, trace = mock_trace\<rparr>\<rparr>"
    using 1 2 by (simp add: numeral_2_eq_2)
  moreover have "settle ?c 1000 1 False 7 (mock_balances 1 900 3 403 297 406) = Ok ()"
    by (simp add: demo_settle demo_parts1_def)
  moreover have "pay_fee mock_runtime demo_parts1 demo_config 1 1 mock_chain = Ok ?s1"
    by (simp add: pay_fee_def pay_token_fee_def mock_chain_def transfer_token_fee_def demo_config_def
        invoke_def mock_runtime_def mock_moved demo_parts1_def)
  moreover have "check_config mock_runtime 7 (meta 2 False False) (ledger mock_chain) = Ok demo_config"
    by (simp add: check_config_def mock_chain_def mock_runtime_def demo_runtime_def) (simp add: demo_config_def)
  moreover have "fee_source_snapshot 1 demo_parts1 (ledger mock_chain) = Ok 1000"
    by (simp add: fee_source_snapshot_def mock_chain_def demo_parts1_def)
  moreover have "validate_output (meta 1 True True) (meta 5 True False) 21 True (ledger mock_chain) = Ok False"
    by (simp add: validate_output_def mock_chain_def SYSTEM_PROGRAM_ID_def)
  moreover have "check_header ?h 1 = Ok ()" by (simp add: check_header_def MAX_LEGS_def)
  moreover have "intermediate_snapshot demo_parts1 (Some (meta 10 True False)) None (ledger ?s1) = Ok 3"
    "intermediate_snapshot demo_parts1 None (Some (meta 10 True False)) (ledger ?s1) = Ok 0"
    by (simp_all add: intermediate_snapshot_def demo_parts1_def)
  moreover have "output_balance (ledger ?s1 5) False = Ok 7" by (simp add: output_balance_def)
  ultimately show ?thesis
    using mock_header demo_split(2) demo_fee(2)
    by (simp add: route_process_dynamic_def process_inner_def execute_route_def Let_def mk_ctx_def
        ROUTE_HEADER_LEN_def length_mock_data demo_parts1_def)
qed


theorem misbehaving_venue_rolls_back_witness:
  "\<exists>fees c1 d2 r. mock_trace = fees @ [c1, Invoke RAYDIUM_CPMM_PROGRAM_ID (demo_leg_accounts 10 5 22 21) d2] \<and>
     u64_of (slice 8 16 d2) = r \<and> 0 < unat r \<and> mock_spent (u64_of (slice 16 24 d2)) r = Ok r"
proof -
  have i: "intermediate demo_parts1 = Some (meta 10 True False)" by (simp add: demo_parts1_def)
  let ?s' = "\<lparr>ledger = mock_balances 1 900 3 403 297 406, trace = mock_trace\<rparr>"
  obtain s1 :: chain and mid fees c1 p2 accs2 d2 L1 r where m: "intermediate demo_parts1 = Some mid"
    and t': "trace ?s' = trace mock_chain @ fees @ [c1, Invoke p2 accs2 d2]" "length fees \<le> 1"
    and l1: "cpi mock_runtime c1 (ledger s1) = Ok L1" and r: "0 < unat r"
    and c: "p2 = RAYDIUM_CPMM_PROGRAM_ID \<longrightarrow> (\<exists>ml. mock_layout_of d2 = Ok ml \<and>
      address (accs2 ! ml_input ml) = address mid \<and>
      address (accs2 ! ml_output ml) = address (user_output demo_parts1) \<and>
      address (accs2 ! ml_signer ml) = address (user demo_parts1) \<and> u64_of (slice 8 16 d2) = r \<and>
      (is_token_program (owner (L1 (address mid))) \<and> is_token_program (owner (L1 (address (user_output demo_parts1))))
       \<longrightarrow> u64_of (slice 16 24 d2) = 1 \<and> mock_spent (u64_of (slice 16 24 d2)) r = Ok r))"
    using misbehaving_venue_rolls_back [OF mock_run mock_header demo_split(2) mock_runs mock_moves_tokens disjI1 [OF refl]]
    by blast
  have t: "mock_trace = fees @ [c1, Invoke p2 accs2 d2]" using t' by (simp add: mock_chain_def)
  have "last mock_trace = Invoke p2 accs2 d2" unfolding t by simp
  then have e: "p2 = RAYDIUM_CPMM_PROGRAM_ID" "accs2 = demo_leg_accounts 10 5 22 21" "d2 = mock_swap 198"
    by (simp_all add: mock_trace_def)
  from c e(1) have x: "u64_of (slice 8 16 d2) = r" by blast
  then have "r = 198" unfolding e(3) mock_swap_fields by simp
  then have "mock_spent (u64_of (slice 16 24 d2)) r = Ok r"
    unfolding e(3) mock_swap_fields by (simp add: mock_spent_def)
  with t x r show ?thesis unfolding e by blast
qed

end
