(* ===== verification/Spec2Isabelle.thy ===== *)
theory Spec2Isabelle
  imports Route_Props Route_Dynamic Config_Props Quote_Props Dynamic_Encode Admin_Props Leg_Props Venue_Props Sdk_Builders
    Sdk_Buy Sdk_Dynamic Sdk_Pumpfun_V3 Dynamic_Buy V3_Props
    Sdk_Client Client_Props Adapter_Props Example_Props Touter_Props Sim_Props Mock_Props
begin

text \<open>
  A verification development for sol-trade-router: a Solana program that relays swaps and takes a
  platform fee (\<open>programs/sol-trade-router/src\<close>), and the SDK that builds its instructions
  (\<open>crates/sdk/src\<close>).

  \<^bold>\<open>The system.\<close> A caller gives the SDK a snapshot of a market, an amount and options. The SDK
  checks the pool (\<open>pool_guard.rs\<close>), prices the trade (\<open>quote.rs\<close>), builds one leg per hop (\<open>legs.rs\<close>),
  wraps the legs into a route instruction (\<open>route_ix.rs\<close>) and adds the token accounts to create and
  close (\<open>ata.rs\<close>, \<open>trade.rs\<close>). The snapshot comes from a parsed chain event (\<open>parser.rs\<close>), from the
  parameters of the direct-trade SDK or from an RPC node (\<open>adapter\<close>); the client (\<open>client.rs\<close>) turns
  such parameters into a trade and hands the transaction to an executor. The program (\<open>lib.rs\<close>) checks its configuration account (\<open>state.rs\<close>),
  takes the fee, relays each leg as one cross-program call and then compares balances: what was
  spent, what arrived, what the intermediate accounts hold (\<open>instructions/route.rs\<close>). The venues
  themselves are other programs; the one of the local tests (\<open>scripts/mock-dex\<close>) is part of the
  repository. On top of the SDK stand four bots and a swap tool (\<open>examples\<close>) and the harness that
  simulates built trades on a node (\<open>mainnet_sim.rs\<close>).

  \<^bold>\<open>The program.\<close>
  \<^item> \<open>Prelude\<close>, \<open>Bytes\<close>: results as sums with their inversion rules, machine words with the checked
    and saturating operations of Rust, byte slices; the locale \<open>codec\<close>, interpreted on the little-endian
    codecs of both sides.
  \<^item> \<open>Router_State\<close>: \<open>error.rs\<close> and \<open>state.rs\<close>; the configuration account as a record with its codec,
    and the readers of token accounts.
  \<^item> \<open>Router_Admin\<close>: \<open>initialize.rs\<close>, \<open>update_config.rs\<close>, \<open>prepare_pumpfun.rs\<close>.
  \<^item> \<open>Route_Layout\<close>, \<open>Router_Route\<close>: \<open>route.rs\<close>, in the stages of \<open>process_inner\<close>: header, fixed accounts,
    configuration, fee, the leg loop, settlement. \<open>Router_Dispatch\<close>: \<open>process_instruction\<close>.
  \<^item> \<open>Route_Facts\<close> to \<open>Route_Dynamic\<close> and \<open>Config_Props\<close>: their properties, on one concrete run per kind
    of route in \<open>Route_Demo\<close>.
  \<^item> \<open>Mock_Dex\<close>, \<open>Mock_Props\<close>: \<open>scripts/mock-dex/src/lib.rs\<close>, a venue that can be told to take one unit
    less or more, as the program behind a leg: the route that meets it is rolled back.

  A \<open>chain\<close> is the ledger, a function from addresses to accounts, with the trace of the calls made. The
  runtime is a record of functions: the effect of a call to another program, and the derivation of
  program addresses. No property assumes anything of another program but where it says so. The
  properties of the configuration over time assume the ownership rule of the runtime
  (\<open>cpi_respects_owner\<close>): a call to another program keeps the data and the owner of an account of this
  program; it may credit lamports. A leg may also call this program itself, which the runtime allows
  directly: \<open>self_runtime\<close> runs such calls by \<open>process_instruction\<close>, to any depth. The property of the
  mock venue assumes that the token programs move what they are asked to (\<open>moves_tokens\<close>).

  \<^bold>\<open>The SDK.\<close>
  \<^item> \<open>Sdk_Constants\<close>, \<open>Sdk_Market\<close>, \<open>Sdk_Quote\<close>: \<open>constants.rs\<close>, \<open>asset.rs\<close>, \<open>transfer_fee.rs\<close>, \<open>market.rs\<close>
    and \<open>quote.rs\<close>.
  \<^item> \<open>Sdk_Ata\<close>, \<open>Sdk_Legs\<close>, \<open>Sdk_Pool_Legs\<close>, \<open>Sdk_Route_Ix\<close>, \<open>Sdk_Pool_Guard\<close>: the file of that name; the
    legs of the venues with tick or bin arrays are in \<open>Sdk_Pool_Legs\<close>. \<open>admin.rs\<close> is in \<open>Sdk_Ata\<close>.
  \<^item> \<open>Sdk_Trade\<close>, \<open>Sdk_Buy\<close>, \<open>Sdk_Sell\<close>, \<open>Sdk_Builders\<close>: \<open>trade.rs\<close>: helpers, every path of a buy, every
    path of a sell, the builder methods.
  \<^item> \<open>Sdk_Dynamic\<close>, \<open>Sdk_Pumpfun_V3\<close>: \<open>dynamic.rs\<close> and \<open>pumpfun_v3.rs\<close>.
  \<^item> \<open>Sdk_Parser\<close>: \<open>parser.rs\<close>. \<open>Sdk_Params\<close>, \<open>Sdk_Curve_State\<close>, \<open>Sdk_Rpc_Load\<close>: \<open>from_params.rs\<close>,
    \<open>pumpfun_state.rs\<close> and \<open>from_rpc.rs\<close> of \<open>adapter\<close>. \<open>Sdk_Client\<close>: \<open>client.rs\<close>.
  \<^item> \<open>Quote_Facts\<close>, \<open>Cpmm_Quote\<close>, \<open>Amm_Quote\<close>, \<open>Quote_Props\<close>, \<open>Venue_Props\<close>: the quotes. The
    locale \<open>fee_rule\<close> is a rounded share of an amount, interpreted on each fee of the SDK; \<open>monotone_quote\<close>
    a quote that grows with its input, interpreted on CPMM and AMM V4. A quote covers what it promises,
    inverse quotes are least, fees agree with the program's.
  \<^item> \<open>Sdk_Agreement\<close>, \<open>Route_Encode\<close>, \<open>Encode_Props\<close>, \<open>Dynamic_Encode\<close>, \<open>Admin_Props\<close>: what the program
    makes of an instruction of the SDK. The views the runtime delivers are related to the accounts
    of the instruction by \<open>delivers\<close>: the same addresses, privileges at least those asked for.
  \<^item> \<open>Buy_Facts\<close>, \<open>Buy_Props\<close>, \<open>Sell_Props\<close>, \<open>Trade_Safety\<close>, \<open>Leg_Props\<close>: whole trades, from the options of
    the caller to the balances on chain; \<open>buy_payment\<close> is the account a buy is paid from, \<open>guarded\<close> what
    the pool guard lets pass under each of its policies, \<open>closes_as_asked\<close> the cleanup of a policy; the
    locale \<open>memo\<close> is a cache of a function, interpreted on the cache of token accounts.
  \<^item> \<open>Dynamic_Buy\<close>, \<open>V3_Props\<close>: a dynamic buy carried through to the balances on chain, and the quotes of a
    Pump V3 curve, the pool it graduates to included.
  \<^item> \<open>Client_Props\<close>, \<open>Adapter_Props\<close>: a buy of the client from its parameters to the balances, the kinds of
    market the client and the events cannot price, and which answers of the node a market loaded over
    RPC rests on (\<open>read_curve\<close>, \<open>read_reserved_fees\<close>).

  \<^bold>\<open>Users of the SDK.\<close>
  \<^item> \<open>Example_Common\<close>, \<open>Example_Bots\<close>, \<open>Example_Props\<close>: \<open>examples/common/src/lib.rs\<close> and the \<open>main.rs\<close> of the
    copy bot, the two snipers and the listener. A bot takes a clock from the pool of nonces, whose
    background refreshes are the other rule of the step relation \<open>pool_step\<close>; the invariant is over every
    interleaving of the two (\<open>pool_run\<close>, a run with its events). A run of a bot is its result, the requests sent and the context it leaves.
  \<^item> \<open>Example_Touter\<close>, \<open>Touter_Props\<close>: \<open>examples/touter_test/src/main.rs\<close>: the swap tool and the override
    of its swap.
  \<^item> \<open>Sim_Harness\<close>, \<open>Sim_Props\<close>: \<open>mainnet_sim.rs\<close>: retries, verdicts, the transaction that is simulated,
    the search for signatures and events. The answers of the node depend on the attempt.

  \<^bold>\<open>Conventions.\<close> Machine integers keep their width; in a release build plain operators wrap, so they
  are word operations, and checked or saturating ones are those of \<open>Prelude\<close>. Every error is a value.
  Errors of the SDK are strings, without the numbers that \<open>format!\<close> would insert. Addresses are
  256-bit words, the default key is 0. The derivation of addresses, and the checks of the
  direct-trade SDK that the legs call, are fields of the record \<open>sdk_env\<close>. Other functions of
  foreign crates are parameters in the same way: the records \<open>trade_sdk\<close> (readers of its parameter
  types), \<open>fee_codec\<close> (fee schedules), \<open>mint_codec\<close> (SPL mints), \<open>param_loaders\<close> (its loaders), and the
  functions \<open>rpc_node\<close> (a node, from keys to accounts; each request its own, as the chain may move
  in between) and \<open>executor\<close> (from a request to a result); for the users of the SDK the records
  \<open>warm_services\<close> (what the warm-up of a bot asks of other crates), \<open>sim_node\<close> (the node of the harness)
  and \<open>tx_tools\<close> (the transaction builders). A run of the client is its result with the requests it
  made.

  \<^bold>\<open>Loops.\<close> The leg loop is bounded by the leg count of the header. The growing bracket of the CPMM
  inverse (\<open>grow_hi\<close>) is a \<open>partial_function\<close>, as the code has no bound for it; it is proved to return
  on every input, so that \<open>buy_with_opts\<close> does. The bisection (\<open>narrow\<close>) terminates by the width of
  its bracket, the walk over the extensions of a mint (\<open>mint_extensions\<close>) by the bytes that remain. The
  searches of the harness stop after three attempts and twelve pages, the counts of the code; the
  loops of the bots run over the events given. No definition uses fuel.

  \<^bold>\<open>Not modelled.\<close> Of \<open>client.rs\<close>: logging, clocks and the warm-up of threads and caches, which have no
  effect on what is returned or sent. Of the bots, the tool and the harness: subscriptions, printing,
  sleeping, evidence files, the key file and the fixed keys of the scenarios. The test suites
  (\<open>mainnet_sim_tests.rs\<close>, \<open>mainnet_router_tests.rs\<close>, \<open>offline_tests.rs\<close> and the test modules of the files
  above) are scenarios over the code modelled here. \<open>testTran.rs\<close> is an older copy of the swap tool
  that no build target names; the vendored gRPC client is third-party; \<open>lib.rs\<close> of the SDK
  re-exports. Compute budget, transaction size and rent of created accounts are not represented; the
  size that the harness compares is that of its parameter \<open>tx_tools\<close>.
\<close>

end
